(* ===== verification/Go_Prelude.thy ===== *)
theory Go_Prelude
  imports Main "HOL-Library.AList" "HOL-Library.Char_ord" "HOL-Library.List_Lexorder"
    "HOL-Library.Countable"
begin

text \<open>
  What the components share: the outcome of a Go call (a value, a panic or a wait that does not
  end), sequencing of calls over an explicit state, and the parts of the Go standard library the
  sources use on strings and byte slices (strconv, strings, encoding/hex, bytes, sort), with the
  round trips the components rely on.

  A Go string is a sequence of bytes, and so is a byte slice: both are lists of the HOL type
  \<^typ>\<open>char\<close>, which has exactly the 256 byte values.  The conversions between them are the
  identity.  Where the source tells a nil slice from an empty one the model has an option.
\<close>

named_theorems go_defs \<open>definitions that evaluate calls\<close>
named_theorems go_split \<open>case splits over outcomes\<close>

type_synonym bytes = string

section \<open>Outcomes and sequencing\<close>

text \<open>
  A call returns, panics, or blocks for ever (a receive on a socket or channel on which nothing
  arrives).  A call that has effects maps the state before to its outcome and the state after.
\<close>

datatype 'a outcome = Ret 'a | Panic string | Block

type_synonym ('s, 'a) proc = "'s \<Rightarrow> 'a outcome \<times> 's"

definition retP :: "'a \<Rightarrow> ('s, 'a) proc" where
  [go_defs]: "retP x = (\<lambda>s. (Ret x, s))"

definition panicP :: "string \<Rightarrow> ('s, 'a) proc" where
  [go_defs]: "panicP e = (\<lambda>s. (Panic e, s))"

definition bindP :: "('s, 'a) proc \<Rightarrow> ('a \<Rightarrow> ('s, 'b) proc) \<Rightarrow> ('s, 'b) proc" where
  "bindP m f = (\<lambda>s. case m s of
      (Ret x, s') \<Rightarrow> f x s'
    | (Panic e, s') \<Rightarrow> (Panic e, s')
    | (Block, s') \<Rightarrow> (Block, s'))"

lemma bindP_simps [simp, go_defs]:
  "m s = (Ret x, s') \<Longrightarrow> bindP m f s = f x s'"
  "m s = (Panic e, s') \<Longrightarrow> bindP m f s = (Panic e, s')"
  "m s = (Block, s') \<Longrightarrow> bindP m f s = (Block, s')"
  by (simp_all add: bindP_def)

lemma retP_apply [simp]: "retP x s = (Ret x, s)"
  by (simp add: retP_def)

lemma panicP_apply [simp]: "panicP e s = (Panic e, s)"
  by (simp add: panicP_def)

lemma bindP_retP [simp]: "bindP (retP x) f = f x"
  by (rule ext) (simp add: retP_def bindP_def)

lemma bindP_retP_right [simp]: "bindP m retP = m"
  by (rule ext) (auto simp: retP_def bindP_def split: prod.splits outcome.splits)

lemma bindP_assoc: "bindP (bindP m f) g = bindP m (\<lambda>x. bindP (f x) g)"
  by (rule ext) (auto simp: bindP_def split: prod.splits outcome.splits)

lemma bindP_eq_Ret:
  "bindP m f s = (Ret y, s') \<longleftrightarrow> (\<exists>x s1. m s = (Ret x, s1) \<and> f x s1 = (Ret y, s'))"
  by (auto simp: bindP_def split: prod.splits outcome.splits)

lemmas outcome_splits [go_split] = prod.splits outcome.splits sum.splits option.splits

section \<open>Go maps as association lists\<close>

lemma set_AList_update: "x \<in> set (AList.update k v al) \<Longrightarrow> x = (k, v) \<or> x \<in> set al"
  by (induction al) (auto split: if_splits)

lemma set_AList_delete: "x \<in> set (AList.delete k al) \<Longrightarrow> x \<in> set al \<and> fst x \<noteq> k"
  by (auto simp: AList.delete_eq)

section \<open>Decimal numbers: strconv.Itoa, strconv.Atoi\<close>

definition digit_char :: "nat \<Rightarrow> char" where
  "digit_char d = char_of (48 + d)"

definition is_digit :: "char \<Rightarrow> bool" where
  "is_digit c \<longleftrightarrow> 48 \<le> (of_char c :: nat) \<and> (of_char c :: nat) \<le> 57"

definition digit_val :: "char \<Rightarrow> nat" where
  "digit_val c = of_char c - 48"

fun nat_digits :: "nat \<Rightarrow> string" where
  "nat_digits n = (if n < 10 then [digit_char n] else nat_digits (n div 10) @ [digit_char (n mod 10)])"

declare nat_digits.simps [simp del]

definition Itoa :: "int \<Rightarrow> string" where
  "Itoa i = (if i < 0 then CHR ''-'' # nat_digits (nat (- i)) else nat_digits (nat i))"

definition digits_val :: "string \<Rightarrow> nat" where
  "digits_val s = foldl (\<lambda>a c. 10 * a + digit_val c) 0 s"

text \<open>
  strconv.Atoi accepts an optional sign and at least one decimal digit, and refuses a value
  outside the 64-bit range; every refusal is the value None here.
\<close>

definition Atoi :: "string \<Rightarrow> int option" where
  "Atoi s =
    (let (neg, ds) = (case s of
        c # cs \<Rightarrow> if c = CHR ''-'' then (True, cs) else if c = CHR ''+'' then (False, cs) else (False, s)
      | [] \<Rightarrow> (False, []))
     in if ds = [] \<or> \<not> list_all is_digit ds then None
        else let v = (if neg then - int (digits_val ds) else int (digits_val ds))
             in if - (2 ^ 63) \<le> v \<and> v < 2 ^ 63 then Some v else None)"

lemma is_digit_digit_char [simp]: "d < 10 \<Longrightarrow> is_digit (digit_char d)"
  by (simp add: is_digit_def digit_char_def)

lemma digit_val_digit_char [simp]: "d < 10 \<Longrightarrow> digit_val (digit_char d) = d"
  by (simp add: digit_val_def digit_char_def)

lemma digit_char_not_sign [simp]:
  "d < 10 \<Longrightarrow> digit_char d \<noteq> CHR ''-''" "d < 10 \<Longrightarrow> digit_char d \<noteq> CHR ''+''"
  by (auto simp: digit_char_def dest!: arg_cong [of _ _ "of_char :: char \<Rightarrow> nat"])

lemma nat_digits_digits [simp]: "list_all is_digit (nat_digits n)"
proof (induction n rule: nat_digits.induct)
  case (1 n)
  then show ?case by (subst nat_digits.simps) (auto)
qed

lemma nat_digits_nonempty [simp]: "nat_digits n \<noteq> []"
  by (subst nat_digits.simps) simp

lemma hd_nat_digits: "\<exists>d. d < 10 \<and> hd (nat_digits n) = digit_char d"
proof (induction n rule: nat_digits.induct)
  case (1 n)
  then show ?case by (subst (1) nat_digits.simps) auto
qed

lemma digits_val_nat_digits [simp]: "digits_val (nat_digits n) = n"
proof (induction n rule: nat_digits.induct)
  case (1 n)
  then show ?case
    by (subst nat_digits.simps) (auto simp: digits_val_def)
qed

lemma nat_digits_inj: "nat_digits m = nat_digits n \<Longrightarrow> m = n"
  by (metis digits_val_nat_digits)

lemma Atoi_Itoa [simp]:
  assumes "- (2 ^ 63) \<le> i" "i < 2 ^ 63"
  shows "Atoi (Itoa i) = Some i"
proof (cases "i < 0")
  case True
  with assms show ?thesis by (simp add: Itoa_def Atoi_def)
next
  case False
  obtain c cs where cs: "nat_digits (nat i) = c # cs"
    by (cases "nat_digits (nat i)") auto
  with hd_nat_digits [of "nat i"] have "c \<noteq> CHR ''-''" "c \<noteq> CHR ''+''" by auto
  with False assms cs show ?thesis
    using nat_digits_digits [of "nat i"] digits_val_nat_digits [of "nat i"]
    by (simp add: Itoa_def Atoi_def)
qed

section \<open>Substrings, splitting and joining: strings, slices\<close>

definition str_contains :: "string \<Rightarrow> char \<Rightarrow> bool" where
  "str_contains s c \<longleftrightarrow> c \<in> set s"

text \<open>strings.Split with a one-byte separator.\<close>

fun split_on :: "char \<Rightarrow> string \<Rightarrow> string list" where
  "split_on c [] = [[]]"
| "split_on c (x # xs) =
     (if x = c then [] # split_on c xs
      else case split_on c xs of [] \<Rightarrow> [[x]] | y # ys \<Rightarrow> (x # y) # ys)"

fun join_with :: "char \<Rightarrow> string list \<Rightarrow> string" where
  "join_with c [] = []"
| "join_with c [x] = x"
| "join_with c (x # y # ys) = x @ c # join_with c (y # ys)"

lemma split_on_nonempty [simp]: "split_on c s \<noteq> []"
  by (induction s) (auto split: list.splits)

lemma split_on_no_sep: "c \<notin> set s \<Longrightarrow> split_on c s = [s]"
  by (induction s) auto

lemma split_on_append_sep: "c \<notin> set s \<Longrightarrow> split_on c (s @ c # t) = s # split_on c t"
  by (induction s) auto

lemma split_on_join:
  "xs \<noteq> [] \<Longrightarrow> \<forall>x \<in> set xs. c \<notin> set x \<Longrightarrow> split_on c (join_with c xs) = xs"
  by (induction c xs rule: join_with.induct) (auto simp: split_on_no_sep split_on_append_sep)

lemma split_on_parts: "x \<in> set (split_on c s) \<Longrightarrow> c \<notin> set x"
  by (induction s arbitrary: x) (auto split: if_splits list.splits)

lemma join_split: "join_with c (split_on c s) = s"
proof (induction s)
  case Nil
  show ?case by simp
next
  case (Cons x xs)
  then show ?case
    by (cases "split_on c xs"; cases "tl (split_on c xs)") auto
qed

text \<open>Slices \<open>s[:n]\<close> and \<open>s[n:]\<close>: out of range is a run-time panic, None here.\<close>

definition slice_to :: "'a list \<Rightarrow> nat \<Rightarrow> 'a list option" where
  "slice_to s n = (if n \<le> length s then Some (take n s) else None)"

definition slice_from :: "'a list \<Rightarrow> nat \<Rightarrow> 'a list option" where
  "slice_from s n = (if n \<le> length s then Some (drop n s) else None)"

text \<open>An index expression \<open>s[i]\<close> with a signed index; out of range is a run-time panic.\<close>

definition index_at :: "'a list \<Rightarrow> int \<Rightarrow> 'a option" where
  "index_at s i = (if 0 \<le> i \<and> i < int (length s) then Some (s ! nat i) else None)"

text \<open>bytes.Compare: the sign of the lexicographic order of byte sequences.\<close>

definition bytes_Compare :: "bytes \<Rightarrow> bytes \<Rightarrow> int" where
  "bytes_Compare a b = (if a = b then 0 else if a < b then - 1 else 1)"

lemma bytes_Compare_pos: "0 < bytes_Compare a b \<longleftrightarrow> b < a"
  by (auto simp: bytes_Compare_def)

section \<open>Hexadecimal: encoding/hex\<close>

definition hex_char :: "nat \<Rightarrow> char" where
  "hex_char d = (if d < 10 then char_of (48 + d) else char_of (87 + d))"

definition hex_val :: "char \<Rightarrow> nat option" where
  "hex_val c = (let n = (of_char c :: nat) in
     if 48 \<le> n \<and> n \<le> 57 then Some (n - 48)
     else if 97 \<le> n \<and> n \<le> 102 then Some (n - 87)
     else if 65 \<le> n \<and> n \<le> 70 then Some (n - 55)
     else None)"

fun EncodeToString :: "bytes \<Rightarrow> string" where
  "EncodeToString [] = []"
| "EncodeToString (b # bs) =
     hex_char (of_char b div 16) # hex_char (of_char b mod 16) # EncodeToString bs"

text \<open>hex.DecodeString returns the bytes decoded before the first error and whether it failed.\<close>

fun DecodeString :: "string \<Rightarrow> bytes \<times> bool" where
  "DecodeString [] = ([], True)"
| "DecodeString [c] = ([], False)"
| "DecodeString (c # d # s) =
     (case (hex_val c, hex_val d) of
        (Some h, Some l) \<Rightarrow> (let (bs, ok) = DecodeString s in (char_of (16 * h + l) # bs, ok))
      | _ \<Rightarrow> ([], False))"

lemma hex_val_hex_char [simp]: "d < 16 \<Longrightarrow> hex_val (hex_char d) = Some d"
  by (auto simp: hex_val_def hex_char_def Let_def)

lemma length_EncodeToString [simp]: "length (EncodeToString b) = 2 * length b"
  by (induction b) auto

lemma Decode_Encode [simp]: "DecodeString (EncodeToString b) = (b, True)"
proof (induction b)
  case Nil
  show ?case by simp
next
  case (Cons c b)
  have "(of_char c :: nat) < 256" by simp
  then have "(of_char c :: nat) div 16 < 16" by linarith
  with Cons show ?case by simp
qed

text \<open>strings.ToLower on the ASCII range, which is all that a hexadecimal string holds.\<close>

definition to_lower :: "string \<Rightarrow> string" where
  "to_lower = map (\<lambda>c. let n = (of_char c :: nat) in if 65 \<le> n \<and> n \<le> 90 then char_of (n + 32) else c)"

lemma hex_char_lower: "d < 16 \<Longrightarrow> \<not> (65 \<le> (of_char (hex_char d) :: nat) \<and> (of_char (hex_char d) :: nat) \<le> 90)"
  by (auto simp: hex_char_def)

lemma to_lower_Encode [simp]: "to_lower (EncodeToString b) = EncodeToString b"
proof (induction b)
  case Nil
  show ?case by (simp add: to_lower_def)
next
  case (Cons c b)
  have "(of_char c :: nat) < 256" by simp
  then have "(of_char c :: nat) div 16 < 16" by linarith
  with Cons hex_char_lower [of "of_char c div 16"] hex_char_lower [of "of_char c mod 16"]
  show ?case by (auto simp: to_lower_def Let_def)
qed

lemma length_to_lower [simp]: "length (to_lower s) = length s"
  by (simp add: to_lower_def)

section \<open>Signed 64-bit integers\<close>

text \<open>Go's int on the supported platforms: results are reduced to two's complement.\<close>

definition wrap64 :: "int \<Rightarrow> int" where
  "wrap64 i = (i + 2 ^ 63) mod 2 ^ 64 - 2 ^ 63"

lemma wrap64_id [simp]: "- (2 ^ 63) \<le> i \<Longrightarrow> i < 2 ^ 63 \<Longrightarrow> wrap64 i = i"
  by (simp add: wrap64_def)

end
