(* ===== verification/Go_Errors.thy ===== *)
theory Go_Errors
  imports Go_Prelude "HOL-Library.Word"
begin

text \<open>
  The error values of the SDK.  Go's error interface is an open sum; the datatype lists the
  dynamic types the sources create and switch on (processor/errors.go, consensus/errors.go) and
  one constructor for the plain errors of errors.New and fmt.Errorf.
\<close>

datatype go_error =
    ErrorString string
  | InvalidTransactionError string bytes
  | InternalError string bytes
  | AuthorizationException string bytes
  | EncodingError string
  | SendError string
  | ReceiveError string
  | InvalidStateError string
  | UnknownBlockError string
  | UnknownPeerError string
  | NoChainHeadError
  | BlockNotReadyError

instance go_error :: countable
  by countable_datatype

fun Error :: "go_error \<Rightarrow> string" where
  "Error (ErrorString s) = s"
| "Error (InvalidTransactionError m _) = ''Invalid transaction: '' @ m"
| "Error (InternalError m _) = ''Internal error: '' @ m"
| "Error (AuthorizationException m _) = ''Authorization exception: '' @ m"
| "Error (EncodingError m) = ''EncodingError: '' @ m"
| "Error (SendError m) = ''SendError: '' @ m"
| "Error (ReceiveError m) = ''ReceiveError: '' @ m"
| "Error (InvalidStateError m) = ''InvalidState: '' @ m"
| "Error (UnknownBlockError m) = ''UnknownBlock: '' @ m"
| "Error (UnknownPeerError m) = ''UnknownPeer: '' @ m"
| "Error NoChainHeadError = ''NoChainHead''"
| "Error BlockNotReadyError = ''BlockNotReady''"

text \<open>The type assertions of consensus/errors.go.\<close>

definition IsEncodingError :: "go_error \<Rightarrow> bool" where
  "IsEncodingError e = (case e of EncodingError _ \<Rightarrow> True | _ \<Rightarrow> False)"

definition IsSendError :: "go_error \<Rightarrow> bool" where
  "IsSendError e = (case e of SendError _ \<Rightarrow> True | _ \<Rightarrow> False)"

definition IsReceiveError :: "go_error \<Rightarrow> bool" where
  "IsReceiveError e = (case e of ReceiveError _ \<Rightarrow> True | _ \<Rightarrow> False)"

definition IsInvalidStateError :: "go_error \<Rightarrow> bool" where
  "IsInvalidStateError e = (case e of InvalidStateError _ \<Rightarrow> True | _ \<Rightarrow> False)"

definition IsUnknownBlockError :: "go_error \<Rightarrow> bool" where
  "IsUnknownBlockError e = (case e of UnknownBlockError _ \<Rightarrow> True | _ \<Rightarrow> False)"

definition IsUnknownPeerError :: "go_error \<Rightarrow> bool" where
  "IsUnknownPeerError e = (case e of UnknownPeerError _ \<Rightarrow> True | _ \<Rightarrow> False)"

definition IsNoChainHeadError :: "go_error \<Rightarrow> bool" where
  "IsNoChainHeadError e = (case e of NoChainHeadError \<Rightarrow> True | _ \<Rightarrow> False)"

definition IsBlockNotReadyError :: "go_error \<Rightarrow> bool" where
  "IsBlockNotReadyError e = (case e of BlockNotReadyError \<Rightarrow> True | _ \<Rightarrow> False)"

lemmas error_kind_defs =
  IsEncodingError_def IsSendError_def IsReceiveError_def IsInvalidStateError_def
  IsUnknownBlockError_def IsUnknownPeerError_def IsNoChainHeadError_def IsBlockNotReadyError_def

section \<open>Protocol buffer coding\<close>

text \<open>
  proto.Marshal and proto.Unmarshal are the golang/protobuf library, which is not part of the
  sources: a codec stands for the two at one message type.  Marshal returns bytes and an error;
  Unmarshal leaves the target message in some state and returns an error.  \<open>codec_ok c m\<close> is
  the documented round trip at the message \<open>m\<close>.
\<close>

record 'm codec =
  Marshal :: "'m \<Rightarrow> bytes \<times> go_error option"
  Unmarshal :: "bytes \<Rightarrow> 'm \<times> go_error option"

definition codec_ok :: "'m codec \<Rightarrow> 'm \<Rightarrow> bool" where
  "codec_ok c m \<longleftrightarrow> snd (Marshal c m) = None \<and> Unmarshal c (fst (Marshal c m)) = (m, None)"

lemma codec_okE:
  assumes "codec_ok c m"
  obtains b where "Marshal c m = (b, None)" "Unmarshal c b = (m, None)"
  using assms by (cases "Marshal c m") (auto simp: codec_ok_def)

lemma codec_ok_snd [simp]: "codec_ok c m \<Longrightarrow> snd (Marshal c m) = None"
  by (simp add: codec_ok_def)

lemma codec_ok_Unmarshal [simp]: "codec_ok c m \<Longrightarrow> Unmarshal c (fst (Marshal c m)) = (m, None)"
  by (simp add: codec_ok_def)

instance word :: (len) countable
  by (rule countable_classI [of unat]) (simp add: word_unat_eq_iff)

text \<open>A codec that satisfies the round trip at every message of a countable type.\<close>

definition unary_codec :: "('m::countable) codec" where
  "unary_codec = \<lparr>Marshal = (\<lambda>m. (replicate (to_nat m) (CHR 0x00), None)),
                  Unmarshal = (\<lambda>b. (from_nat (length b), None))\<rparr>"

lemma unary_codec_ok [simp]: "codec_ok unary_codec m"
  by (simp add: codec_ok_def unary_codec_def)

text \<open>
  The name of an enum value, as the generated String methods print it: the name of the table or
  the number when the value is unknown.
\<close>

definition EnumStringOf :: "(int \<times> string) list \<Rightarrow> int \<Rightarrow> string" where
  "EnumStringOf tab n = (case map_of tab n of Some s \<Rightarrow> s | None \<Rightarrow> Itoa n)"

end
