(* ===== verification/Protobuf.thy ===== *)
theory Protobuf
  imports Go_Errors "HOL-Library.Word"
begin

text \<open>
  The protocol buffer messages of the transaction processor side, from the generated Go code
  under src/protobuf: one record per message struct, an enum as its int32 values.  Enum fields
  are open (an unknown number is kept), as in proto3.  A pointer field is an option (nil is
  None); a byte slice field is a byte list, except \<^verbatim>\<open>Payload\<close> of TpProcessRequest, where the
  handlers tell nil from empty.  Every record type is countable, which gives codecs for
  concrete instances.
\<close>

section \<open>validator_pb2: the envelope of every message\<close>

type_synonym Message_MessageType = int

abbreviation (input) Message_TP_REGISTER_REQUEST :: Message_MessageType where "Message_TP_REGISTER_REQUEST \<equiv> 1"
abbreviation (input) Message_TP_REGISTER_RESPONSE :: Message_MessageType where "Message_TP_REGISTER_RESPONSE \<equiv> 2"
abbreviation (input) Message_TP_UNREGISTER_REQUEST :: Message_MessageType where "Message_TP_UNREGISTER_REQUEST \<equiv> 3"
abbreviation (input) Message_TP_UNREGISTER_RESPONSE :: Message_MessageType where "Message_TP_UNREGISTER_RESPONSE \<equiv> 4"
abbreviation (input) Message_TP_PROCESS_REQUEST :: Message_MessageType where "Message_TP_PROCESS_REQUEST \<equiv> 5"
abbreviation (input) Message_TP_PROCESS_RESPONSE :: Message_MessageType where "Message_TP_PROCESS_RESPONSE \<equiv> 6"
abbreviation (input) Message_TP_STATE_GET_REQUEST :: Message_MessageType where "Message_TP_STATE_GET_REQUEST \<equiv> 7"
abbreviation (input) Message_TP_STATE_GET_RESPONSE :: Message_MessageType where "Message_TP_STATE_GET_RESPONSE \<equiv> 8"
abbreviation (input) Message_TP_STATE_SET_REQUEST :: Message_MessageType where "Message_TP_STATE_SET_REQUEST \<equiv> 9"
abbreviation (input) Message_TP_STATE_SET_RESPONSE :: Message_MessageType where "Message_TP_STATE_SET_RESPONSE \<equiv> 10"
abbreviation (input) Message_TP_STATE_DELETE_REQUEST :: Message_MessageType where "Message_TP_STATE_DELETE_REQUEST \<equiv> 11"
abbreviation (input) Message_TP_STATE_DELETE_RESPONSE :: Message_MessageType where "Message_TP_STATE_DELETE_RESPONSE \<equiv> 12"
abbreviation (input) Message_TP_RECEIPT_ADD_DATA_REQUEST :: Message_MessageType where "Message_TP_RECEIPT_ADD_DATA_REQUEST \<equiv> 13"
abbreviation (input) Message_TP_RECEIPT_ADD_DATA_RESPONSE :: Message_MessageType where "Message_TP_RECEIPT_ADD_DATA_RESPONSE \<equiv> 14"
abbreviation (input) Message_TP_EVENT_ADD_REQUEST :: Message_MessageType where "Message_TP_EVENT_ADD_REQUEST \<equiv> 15"
abbreviation (input) Message_TP_EVENT_ADD_RESPONSE :: Message_MessageType where "Message_TP_EVENT_ADD_RESPONSE \<equiv> 16"
abbreviation (input) Message_PING_REQUEST :: Message_MessageType where "Message_PING_REQUEST \<equiv> 700"
abbreviation (input) Message_PING_RESPONSE :: Message_MessageType where "Message_PING_RESPONSE \<equiv> 701"
abbreviation (input) Message_CONSENSUS_REGISTER_REQUEST :: Message_MessageType where "Message_CONSENSUS_REGISTER_REQUEST \<equiv> 800"
abbreviation (input) Message_CONSENSUS_REGISTER_RESPONSE :: Message_MessageType where "Message_CONSENSUS_REGISTER_RESPONSE \<equiv> 801"
abbreviation (input) Message_CONSENSUS_SEND_TO_REQUEST :: Message_MessageType where "Message_CONSENSUS_SEND_TO_REQUEST \<equiv> 802"
abbreviation (input) Message_CONSENSUS_SEND_TO_RESPONSE :: Message_MessageType where "Message_CONSENSUS_SEND_TO_RESPONSE \<equiv> 803"
abbreviation (input) Message_CONSENSUS_BROADCAST_REQUEST :: Message_MessageType where "Message_CONSENSUS_BROADCAST_REQUEST \<equiv> 804"
abbreviation (input) Message_CONSENSUS_BROADCAST_RESPONSE :: Message_MessageType where "Message_CONSENSUS_BROADCAST_RESPONSE \<equiv> 805"
abbreviation (input) Message_CONSENSUS_INITIALIZE_BLOCK_REQUEST :: Message_MessageType where "Message_CONSENSUS_INITIALIZE_BLOCK_REQUEST \<equiv> 806"
abbreviation (input) Message_CONSENSUS_INITIALIZE_BLOCK_RESPONSE :: Message_MessageType where "Message_CONSENSUS_INITIALIZE_BLOCK_RESPONSE \<equiv> 807"
abbreviation (input) Message_CONSENSUS_FINALIZE_BLOCK_REQUEST :: Message_MessageType where "Message_CONSENSUS_FINALIZE_BLOCK_REQUEST \<equiv> 808"
abbreviation (input) Message_CONSENSUS_FINALIZE_BLOCK_RESPONSE :: Message_MessageType where "Message_CONSENSUS_FINALIZE_BLOCK_RESPONSE \<equiv> 809"
abbreviation (input) Message_CONSENSUS_SUMMARIZE_BLOCK_REQUEST :: Message_MessageType where "Message_CONSENSUS_SUMMARIZE_BLOCK_REQUEST \<equiv> 828"
abbreviation (input) Message_CONSENSUS_SUMMARIZE_BLOCK_RESPONSE :: Message_MessageType where "Message_CONSENSUS_SUMMARIZE_BLOCK_RESPONSE \<equiv> 829"
abbreviation (input) Message_CONSENSUS_CANCEL_BLOCK_REQUEST :: Message_MessageType where "Message_CONSENSUS_CANCEL_BLOCK_REQUEST \<equiv> 810"
abbreviation (input) Message_CONSENSUS_CANCEL_BLOCK_RESPONSE :: Message_MessageType where "Message_CONSENSUS_CANCEL_BLOCK_RESPONSE \<equiv> 811"
abbreviation (input) Message_CONSENSUS_CHECK_BLOCKS_REQUEST :: Message_MessageType where "Message_CONSENSUS_CHECK_BLOCKS_REQUEST \<equiv> 812"
abbreviation (input) Message_CONSENSUS_CHECK_BLOCKS_RESPONSE :: Message_MessageType where "Message_CONSENSUS_CHECK_BLOCKS_RESPONSE \<equiv> 813"
abbreviation (input) Message_CONSENSUS_COMMIT_BLOCK_REQUEST :: Message_MessageType where "Message_CONSENSUS_COMMIT_BLOCK_REQUEST \<equiv> 814"
abbreviation (input) Message_CONSENSUS_COMMIT_BLOCK_RESPONSE :: Message_MessageType where "Message_CONSENSUS_COMMIT_BLOCK_RESPONSE \<equiv> 815"
abbreviation (input) Message_CONSENSUS_IGNORE_BLOCK_REQUEST :: Message_MessageType where "Message_CONSENSUS_IGNORE_BLOCK_REQUEST \<equiv> 816"
abbreviation (input) Message_CONSENSUS_IGNORE_BLOCK_RESPONSE :: Message_MessageType where "Message_CONSENSUS_IGNORE_BLOCK_RESPONSE \<equiv> 817"
abbreviation (input) Message_CONSENSUS_FAIL_BLOCK_REQUEST :: Message_MessageType where "Message_CONSENSUS_FAIL_BLOCK_REQUEST \<equiv> 818"
abbreviation (input) Message_CONSENSUS_FAIL_BLOCK_RESPONSE :: Message_MessageType where "Message_CONSENSUS_FAIL_BLOCK_RESPONSE \<equiv> 819"
abbreviation (input) Message_CONSENSUS_SETTINGS_GET_REQUEST :: Message_MessageType where "Message_CONSENSUS_SETTINGS_GET_REQUEST \<equiv> 820"
abbreviation (input) Message_CONSENSUS_SETTINGS_GET_RESPONSE :: Message_MessageType where "Message_CONSENSUS_SETTINGS_GET_RESPONSE \<equiv> 821"
abbreviation (input) Message_CONSENSUS_STATE_GET_REQUEST :: Message_MessageType where "Message_CONSENSUS_STATE_GET_REQUEST \<equiv> 822"
abbreviation (input) Message_CONSENSUS_STATE_GET_RESPONSE :: Message_MessageType where "Message_CONSENSUS_STATE_GET_RESPONSE \<equiv> 823"
abbreviation (input) Message_CONSENSUS_BLOCKS_GET_REQUEST :: Message_MessageType where "Message_CONSENSUS_BLOCKS_GET_REQUEST \<equiv> 824"
abbreviation (input) Message_CONSENSUS_BLOCKS_GET_RESPONSE :: Message_MessageType where "Message_CONSENSUS_BLOCKS_GET_RESPONSE \<equiv> 825"
abbreviation (input) Message_CONSENSUS_CHAIN_HEAD_GET_REQUEST :: Message_MessageType where "Message_CONSENSUS_CHAIN_HEAD_GET_REQUEST \<equiv> 826"
abbreviation (input) Message_CONSENSUS_CHAIN_HEAD_GET_RESPONSE :: Message_MessageType where "Message_CONSENSUS_CHAIN_HEAD_GET_RESPONSE \<equiv> 827"
abbreviation (input) Message_CONSENSUS_NOTIFY_PEER_CONNECTED :: Message_MessageType where "Message_CONSENSUS_NOTIFY_PEER_CONNECTED \<equiv> 900"
abbreviation (input) Message_CONSENSUS_NOTIFY_PEER_DISCONNECTED :: Message_MessageType where "Message_CONSENSUS_NOTIFY_PEER_DISCONNECTED \<equiv> 901"
abbreviation (input) Message_CONSENSUS_NOTIFY_PEER_MESSAGE :: Message_MessageType where "Message_CONSENSUS_NOTIFY_PEER_MESSAGE \<equiv> 902"
abbreviation (input) Message_CONSENSUS_NOTIFY_BLOCK_NEW :: Message_MessageType where "Message_CONSENSUS_NOTIFY_BLOCK_NEW \<equiv> 903"
abbreviation (input) Message_CONSENSUS_NOTIFY_BLOCK_VALID :: Message_MessageType where "Message_CONSENSUS_NOTIFY_BLOCK_VALID \<equiv> 904"
abbreviation (input) Message_CONSENSUS_NOTIFY_BLOCK_INVALID :: Message_MessageType where "Message_CONSENSUS_NOTIFY_BLOCK_INVALID \<equiv> 905"
abbreviation (input) Message_CONSENSUS_NOTIFY_BLOCK_COMMIT :: Message_MessageType where "Message_CONSENSUS_NOTIFY_BLOCK_COMMIT \<equiv> 906"
abbreviation (input) Message_CONSENSUS_NOTIFY_ENGINE_ACTIVATED :: Message_MessageType where "Message_CONSENSUS_NOTIFY_ENGINE_ACTIVATED \<equiv> 907"
abbreviation (input) Message_CONSENSUS_NOTIFY_ACK :: Message_MessageType where "Message_CONSENSUS_NOTIFY_ACK \<equiv> 999"

definition Message_MessageType_name :: "(int \<times> string) list" where
  "Message_MessageType_name =
   [(0, ''DEFAULT''),
    (1, ''TP_REGISTER_REQUEST''),
    (2, ''TP_REGISTER_RESPONSE''),
    (3, ''TP_UNREGISTER_REQUEST''),
    (4, ''TP_UNREGISTER_RESPONSE''),
    (5, ''TP_PROCESS_REQUEST''),
    (6, ''TP_PROCESS_RESPONSE''),
    (7, ''TP_STATE_GET_REQUEST''),
    (8, ''TP_STATE_GET_RESPONSE''),
    (9, ''TP_STATE_SET_REQUEST''),
    (10, ''TP_STATE_SET_RESPONSE''),
    (11, ''TP_STATE_DELETE_REQUEST''),
    (12, ''TP_STATE_DELETE_RESPONSE''),
    (13, ''TP_RECEIPT_ADD_DATA_REQUEST''),
    (14, ''TP_RECEIPT_ADD_DATA_RESPONSE''),
    (15, ''TP_EVENT_ADD_REQUEST''),
    (16, ''TP_EVENT_ADD_RESPONSE''),
    (100, ''CLIENT_BATCH_SUBMIT_REQUEST''),
    (101, ''CLIENT_BATCH_SUBMIT_RESPONSE''),
    (102, ''CLIENT_BLOCK_LIST_REQUEST''),
    (103, ''CLIENT_BLOCK_LIST_RESPONSE''),
    (104, ''CLIENT_BLOCK_GET_BY_ID_REQUEST''),
    (105, ''CLIENT_BLOCK_GET_RESPONSE''),
    (106, ''CLIENT_BATCH_LIST_REQUEST''),
    (107, ''CLIENT_BATCH_LIST_RESPONSE''),
    (108, ''CLIENT_BATCH_GET_REQUEST''),
    (109, ''CLIENT_BATCH_GET_RESPONSE''),
    (110, ''CLIENT_TRANSACTION_LIST_REQUEST''),
    (111, ''CLIENT_TRANSACTION_LIST_RESPONSE''),
    (112, ''CLIENT_TRANSACTION_GET_REQUEST''),
    (113, ''CLIENT_TRANSACTION_GET_RESPONSE''),
    (114, ''CLIENT_STATE_CURRENT_REQUEST''),
    (115, ''CLIENT_STATE_CURRENT_RESPONSE''),
    (116, ''CLIENT_STATE_LIST_REQUEST''),
    (117, ''CLIENT_STATE_LIST_RESPONSE''),
    (118, ''CLIENT_STATE_GET_REQUEST''),
    (119, ''CLIENT_STATE_GET_RESPONSE''),
    (120, ''CLIENT_BATCH_STATUS_REQUEST''),
    (121, ''CLIENT_BATCH_STATUS_RESPONSE''),
    (122, ''CLIENT_RECEIPT_GET_REQUEST''),
    (123, ''CLIENT_RECEIPT_GET_RESPONSE''),
    (124, ''CLIENT_BLOCK_GET_BY_NUM_REQUEST''),
    (125, ''CLIENT_PEERS_GET_REQUEST''),
    (126, ''CLIENT_PEERS_GET_RESPONSE''),
    (127, ''CLIENT_BLOCK_GET_BY_TRANSACTION_ID_REQUEST''),
    (128, ''CLIENT_BLOCK_GET_BY_BATCH_ID_REQUEST''),
    (129, ''CLIENT_STATUS_GET_REQUEST''),
    (130, ''CLIENT_STATUS_GET_RESPONSE''),
    (500, ''CLIENT_EVENTS_SUBSCRIBE_REQUEST''),
    (501, ''CLIENT_EVENTS_SUBSCRIBE_RESPONSE''),
    (502, ''CLIENT_EVENTS_UNSUBSCRIBE_REQUEST''),
    (503, ''CLIENT_EVENTS_UNSUBSCRIBE_RESPONSE''),
    (504, ''CLIENT_EVENTS''),
    (505, ''CLIENT_EVENTS_GET_REQUEST''),
    (506, ''CLIENT_EVENTS_GET_RESPONSE''),
    (200, ''GOSSIP_MESSAGE''),
    (201, ''GOSSIP_REGISTER''),
    (202, ''GOSSIP_UNREGISTER''),
    (205, ''GOSSIP_BLOCK_REQUEST''),
    (206, ''GOSSIP_BLOCK_RESPONSE''),
    (207, ''GOSSIP_BATCH_BY_BATCH_ID_REQUEST''),
    (208, ''GOSSIP_BATCH_BY_TRANSACTION_ID_REQUEST''),
    (209, ''GOSSIP_BATCH_RESPONSE''),
    (210, ''GOSSIP_GET_PEERS_REQUEST''),
    (211, ''GOSSIP_GET_PEERS_RESPONSE''),
    (212, ''GOSSIP_CONSENSUS_MESSAGE''),
    (300, ''NETWORK_ACK''),
    (301, ''NETWORK_CONNECT''),
    (302, ''NETWORK_DISCONNECT''),
    (600, ''AUTHORIZATION_CONNECTION_RESPONSE''),
    (601, ''AUTHORIZATION_VIOLATION''),
    (602, ''AUTHORIZATION_TRUST_REQUEST''),
    (603, ''AUTHORIZATION_TRUST_RESPONSE''),
    (604, ''AUTHORIZATION_CHALLENGE_REQUEST''),
    (605, ''AUTHORIZATION_CHALLENGE_RESPONSE''),
    (606, ''AUTHORIZATION_CHALLENGE_SUBMIT''),
    (607, ''AUTHORIZATION_CHALLENGE_RESULT''),
    (700, ''PING_REQUEST''),
    (701, ''PING_RESPONSE''),
    (800, ''CONSENSUS_REGISTER_REQUEST''),
    (801, ''CONSENSUS_REGISTER_RESPONSE''),
    (802, ''CONSENSUS_SEND_TO_REQUEST''),
    (803, ''CONSENSUS_SEND_TO_RESPONSE''),
    (804, ''CONSENSUS_BROADCAST_REQUEST''),
    (805, ''CONSENSUS_BROADCAST_RESPONSE''),
    (806, ''CONSENSUS_INITIALIZE_BLOCK_REQUEST''),
    (807, ''CONSENSUS_INITIALIZE_BLOCK_RESPONSE''),
    (808, ''CONSENSUS_FINALIZE_BLOCK_REQUEST''),
    (809, ''CONSENSUS_FINALIZE_BLOCK_RESPONSE''),
    (828, ''CONSENSUS_SUMMARIZE_BLOCK_REQUEST''),
    (829, ''CONSENSUS_SUMMARIZE_BLOCK_RESPONSE''),
    (810, ''CONSENSUS_CANCEL_BLOCK_REQUEST''),
    (811, ''CONSENSUS_CANCEL_BLOCK_RESPONSE''),
    (812, ''CONSENSUS_CHECK_BLOCKS_REQUEST''),
    (813, ''CONSENSUS_CHECK_BLOCKS_RESPONSE''),
    (814, ''CONSENSUS_COMMIT_BLOCK_REQUEST''),
    (815, ''CONSENSUS_COMMIT_BLOCK_RESPONSE''),
    (816, ''CONSENSUS_IGNORE_BLOCK_REQUEST''),
    (817, ''CONSENSUS_IGNORE_BLOCK_RESPONSE''),
    (818, ''CONSENSUS_FAIL_BLOCK_REQUEST''),
    (819, ''CONSENSUS_FAIL_BLOCK_RESPONSE''),
    (820, ''CONSENSUS_SETTINGS_GET_REQUEST''),
    (821, ''CONSENSUS_SETTINGS_GET_RESPONSE''),
    (822, ''CONSENSUS_STATE_GET_REQUEST''),
    (823, ''CONSENSUS_STATE_GET_RESPONSE''),
    (824, ''CONSENSUS_BLOCKS_GET_REQUEST''),
    (825, ''CONSENSUS_BLOCKS_GET_RESPONSE''),
    (826, ''CONSENSUS_CHAIN_HEAD_GET_REQUEST''),
    (827, ''CONSENSUS_CHAIN_HEAD_GET_RESPONSE''),
    (900, ''CONSENSUS_NOTIFY_PEER_CONNECTED''),
    (901, ''CONSENSUS_NOTIFY_PEER_DISCONNECTED''),
    (902, ''CONSENSUS_NOTIFY_PEER_MESSAGE''),
    (903, ''CONSENSUS_NOTIFY_BLOCK_NEW''),
    (904, ''CONSENSUS_NOTIFY_BLOCK_VALID''),
    (905, ''CONSENSUS_NOTIFY_BLOCK_INVALID''),
    (906, ''CONSENSUS_NOTIFY_BLOCK_COMMIT''),
    (907, ''CONSENSUS_NOTIFY_ENGINE_ACTIVATED''),
    (908, ''CONSENSUS_NOTIFY_ENGINE_DEACTIVATED''),
    (999, ''CONSENSUS_NOTIFY_ACK'')]"

record Message =
  Message_MessageType :: "Message_MessageType"
  Message_CorrelationId :: "string"
  Message_Content :: "bytes"

instance Message_ext :: (countable) countable
  by (rule countable_classI [of "\<lambda>r. to_nat (Message_MessageType r, Message_CorrelationId r, Message_Content r, Message.more r)"]) simp

section \<open>state_context_pb2 and events_pb2: state, receipts and events of a transaction\<close>

record Event_Attribute =
  Event_Attribute_Key :: "string"
  Event_Attribute_Value :: "string"

instance Event_Attribute_ext :: (countable) countable
  by (rule countable_classI [of "\<lambda>r. to_nat (Event_Attribute_Key r, Event_Attribute_Value r, Event_Attribute.more r)"]) simp

record Event =
  Event_EventType :: "string"
  Event_Attributes :: "Event_Attribute list"
  Event_Data :: "bytes"

instance Event_ext :: (countable) countable
  by (rule countable_classI [of "\<lambda>r. to_nat (Event_EventType r, Event_Attributes r, Event_Data r, Event.more r)"]) simp

type_synonym TpStateGetResponse_Status = int

abbreviation (input) TpStateGetResponse_STATUS_UNSET :: TpStateGetResponse_Status where "TpStateGetResponse_STATUS_UNSET \<equiv> 0"
abbreviation (input) TpStateGetResponse_OK :: TpStateGetResponse_Status where "TpStateGetResponse_OK \<equiv> 1"
abbreviation (input) TpStateGetResponse_AUTHORIZATION_ERROR :: TpStateGetResponse_Status where "TpStateGetResponse_AUTHORIZATION_ERROR \<equiv> 2"

definition TpStateGetResponse_Status_name :: "(int \<times> string) list" where
  "TpStateGetResponse_Status_name =
   [(0, ''STATUS_UNSET''),
    (1, ''OK''),
    (2, ''AUTHORIZATION_ERROR'')]"

type_synonym TpStateSetResponse_Status = int

abbreviation (input) TpStateSetResponse_STATUS_UNSET :: TpStateSetResponse_Status where "TpStateSetResponse_STATUS_UNSET \<equiv> 0"
abbreviation (input) TpStateSetResponse_OK :: TpStateSetResponse_Status where "TpStateSetResponse_OK \<equiv> 1"
abbreviation (input) TpStateSetResponse_AUTHORIZATION_ERROR :: TpStateSetResponse_Status where "TpStateSetResponse_AUTHORIZATION_ERROR \<equiv> 2"

definition TpStateSetResponse_Status_name :: "(int \<times> string) list" where
  "TpStateSetResponse_Status_name =
   [(0, ''STATUS_UNSET''),
    (1, ''OK''),
    (2, ''AUTHORIZATION_ERROR'')]"

type_synonym TpStateDeleteResponse_Status = int

abbreviation (input) TpStateDeleteResponse_STATUS_UNSET :: TpStateDeleteResponse_Status where "TpStateDeleteResponse_STATUS_UNSET \<equiv> 0"
abbreviation (input) TpStateDeleteResponse_OK :: TpStateDeleteResponse_Status where "TpStateDeleteResponse_OK \<equiv> 1"
abbreviation (input) TpStateDeleteResponse_AUTHORIZATION_ERROR :: TpStateDeleteResponse_Status where "TpStateDeleteResponse_AUTHORIZATION_ERROR \<equiv> 2"

definition TpStateDeleteResponse_Status_name :: "(int \<times> string) list" where
  "TpStateDeleteResponse_Status_name =
   [(0, ''STATUS_UNSET''),
    (1, ''OK''),
    (2, ''AUTHORIZATION_ERROR'')]"

type_synonym TpReceiptAddDataResponse_Status = int

abbreviation (input) TpReceiptAddDataResponse_STATUS_UNSET :: TpReceiptAddDataResponse_Status where "TpReceiptAddDataResponse_STATUS_UNSET \<equiv> 0"
abbreviation (input) TpReceiptAddDataResponse_OK :: TpReceiptAddDataResponse_Status where "TpReceiptAddDataResponse_OK \<equiv> 1"
abbreviation (input) TpReceiptAddDataResponse_ERROR :: TpReceiptAddDataResponse_Status where "TpReceiptAddDataResponse_ERROR \<equiv> 2"

definition TpReceiptAddDataResponse_Status_name :: "(int \<times> string) list" where
  "TpReceiptAddDataResponse_Status_name =
   [(0, ''STATUS_UNSET''),
    (1, ''OK''),
    (2, ''ERROR'')]"

type_synonym TpEventAddResponse_Status = int

abbreviation (input) TpEventAddResponse_STATUS_UNSET :: TpEventAddResponse_Status where "TpEventAddResponse_STATUS_UNSET \<equiv> 0"
abbreviation (input) TpEventAddResponse_OK :: TpEventAddResponse_Status where "TpEventAddResponse_OK \<equiv> 1"
abbreviation (input) TpEventAddResponse_ERROR :: TpEventAddResponse_Status where "TpEventAddResponse_ERROR \<equiv> 2"

definition TpEventAddResponse_Status_name :: "(int \<times> string) list" where
  "TpEventAddResponse_Status_name =
   [(0, ''STATUS_UNSET''),
    (1, ''OK''),
    (2, ''ERROR'')]"

record TpStateEntry =
  TpStateEntry_Address :: "string"
  TpStateEntry_Data :: "bytes"

instance TpStateEntry_ext :: (countable) countable
  by (rule countable_classI [of "\<lambda>r. to_nat (TpStateEntry_Address r, TpStateEntry_Data r, TpStateEntry.more r)"]) simp

record TpStateGetRequest =
  TpStateGetRequest_ContextId :: "string"
  TpStateGetRequest_Addresses :: "string list"

instance TpStateGetRequest_ext :: (countable) countable
  by (rule countable_classI [of "\<lambda>r. to_nat (TpStateGetRequest_ContextId r, TpStateGetRequest_Addresses r, TpStateGetRequest.more r)"]) simp

record TpStateGetResponse =
  TpStateGetResponse_Entries :: "TpStateEntry list"
  TpStateGetResponse_Status :: "TpStateGetResponse_Status"

instance TpStateGetResponse_ext :: (countable) countable
  by (rule countable_classI [of "\<lambda>r. to_nat (TpStateGetResponse_Entries r, TpStateGetResponse_Status r, TpStateGetResponse.more r)"]) simp

record TpStateSetRequest =
  TpStateSetRequest_ContextId :: "string"
  TpStateSetRequest_Entries :: "TpStateEntry list"

instance TpStateSetRequest_ext :: (countable) countable
  by (rule countable_classI [of "\<lambda>r. to_nat (TpStateSetRequest_ContextId r, TpStateSetRequest_Entries r, TpStateSetRequest.more r)"]) simp

record TpStateSetResponse =
  TpStateSetResponse_Addresses :: "string list"
  TpStateSetResponse_Status :: "TpStateSetResponse_Status"

instance TpStateSetResponse_ext :: (countable) countable
  by (rule countable_classI [of "\<lambda>r. to_nat (TpStateSetResponse_Addresses r, TpStateSetResponse_Status r, TpStateSetResponse.more r)"]) simp

record TpStateDeleteRequest =
  TpStateDeleteRequest_ContextId :: "string"
  TpStateDeleteRequest_Addresses :: "string list"

instance TpStateDeleteRequest_ext :: (countable) countable
  by (rule countable_classI [of "\<lambda>r. to_nat (TpStateDeleteRequest_ContextId r, TpStateDeleteRequest_Addresses r, TpStateDeleteRequest.more r)"]) simp

record TpStateDeleteResponse =
  TpStateDeleteResponse_Addresses :: "string list"
  TpStateDeleteResponse_Status :: "TpStateDeleteResponse_Status"

instance TpStateDeleteResponse_ext :: (countable) countable
  by (rule countable_classI [of "\<lambda>r. to_nat (TpStateDeleteResponse_Addresses r, TpStateDeleteResponse_Status r, TpStateDeleteResponse.more r)"]) simp

record TpReceiptAddDataRequest =
  TpReceiptAddDataRequest_ContextId :: "string"
  TpReceiptAddDataRequest_Data :: "bytes"

instance TpReceiptAddDataRequest_ext :: (countable) countable
  by (rule countable_classI [of "\<lambda>r. to_nat (TpReceiptAddDataRequest_ContextId r, TpReceiptAddDataRequest_Data r, TpReceiptAddDataRequest.more r)"]) simp

record TpReceiptAddDataResponse =
  TpReceiptAddDataResponse_Status :: "TpReceiptAddDataResponse_Status"

instance TpReceiptAddDataResponse_ext :: (countable) countable
  by (rule countable_classI [of "\<lambda>r. to_nat (TpReceiptAddDataResponse_Status r, TpReceiptAddDataResponse.more r)"]) simp

record TpEventAddRequest =
  TpEventAddRequest_ContextId :: "string"
  TpEventAddRequest_Event :: "Event option"

instance TpEventAddRequest_ext :: (countable) countable
  by (rule countable_classI [of "\<lambda>r. to_nat (TpEventAddRequest_ContextId r, TpEventAddRequest_Event r, TpEventAddRequest.more r)"]) simp

record TpEventAddResponse =
  TpEventAddResponse_Status :: "TpEventAddResponse_Status"

instance TpEventAddResponse_ext :: (countable) countable
  by (rule countable_classI [of "\<lambda>r. to_nat (TpEventAddResponse_Status r, TpEventAddResponse.more r)"]) simp

section \<open>transaction_pb2, processor_pb2 and network_pb2: processing, registration, ping\<close>

record TransactionHeader =
  TransactionHeader_BatcherPublicKey :: "string"
  TransactionHeader_Dependencies :: "string list"
  TransactionHeader_FamilyName :: "string"
  TransactionHeader_FamilyVersion :: "string"
  TransactionHeader_Inputs :: "string list"
  TransactionHeader_Nonce :: "string"
  TransactionHeader_Outputs :: "string list"
  TransactionHeader_PayloadSha512 :: "string"
  TransactionHeader_SignerPublicKey :: "string"

instance TransactionHeader_ext :: (countable) countable
  by (rule countable_classI [of "\<lambda>r. to_nat (TransactionHeader_BatcherPublicKey r, TransactionHeader_Dependencies r, TransactionHeader_FamilyName r, TransactionHeader_FamilyVersion r, TransactionHeader_Inputs r, TransactionHeader_Nonce r, TransactionHeader_Outputs r, TransactionHeader_PayloadSha512 r, TransactionHeader_SignerPublicKey r, TransactionHeader.more r)"]) simp

type_synonym TpRegisterResponse_Status = int

abbreviation (input) TpRegisterResponse_STATUS_UNSET :: TpRegisterResponse_Status where "TpRegisterResponse_STATUS_UNSET \<equiv> 0"
abbreviation (input) TpRegisterResponse_OK :: TpRegisterResponse_Status where "TpRegisterResponse_OK \<equiv> 1"
abbreviation (input) TpRegisterResponse_ERROR :: TpRegisterResponse_Status where "TpRegisterResponse_ERROR \<equiv> 2"

definition TpRegisterResponse_Status_name :: "(int \<times> string) list" where
  "TpRegisterResponse_Status_name =
   [(0, ''STATUS_UNSET''),
    (1, ''OK''),
    (2, ''ERROR'')]"

type_synonym TpUnregisterResponse_Status = int

abbreviation (input) TpUnregisterResponse_STATUS_UNSET :: TpUnregisterResponse_Status where "TpUnregisterResponse_STATUS_UNSET \<equiv> 0"
abbreviation (input) TpUnregisterResponse_OK :: TpUnregisterResponse_Status where "TpUnregisterResponse_OK \<equiv> 1"
abbreviation (input) TpUnregisterResponse_ERROR :: TpUnregisterResponse_Status where "TpUnregisterResponse_ERROR \<equiv> 2"

definition TpUnregisterResponse_Status_name :: "(int \<times> string) list" where
  "TpUnregisterResponse_Status_name =
   [(0, ''STATUS_UNSET''),
    (1, ''OK''),
    (2, ''ERROR'')]"

type_synonym TpProcessResponse_Status = int

abbreviation (input) TpProcessResponse_STATUS_UNSET :: TpProcessResponse_Status where "TpProcessResponse_STATUS_UNSET \<equiv> 0"
abbreviation (input) TpProcessResponse_OK :: TpProcessResponse_Status where "TpProcessResponse_OK \<equiv> 1"
abbreviation (input) TpProcessResponse_INVALID_TRANSACTION :: TpProcessResponse_Status where "TpProcessResponse_INVALID_TRANSACTION \<equiv> 2"
abbreviation (input) TpProcessResponse_INTERNAL_ERROR :: TpProcessResponse_Status where "TpProcessResponse_INTERNAL_ERROR \<equiv> 3"

definition TpProcessResponse_Status_name :: "(int \<times> string) list" where
  "TpProcessResponse_Status_name =
   [(0, ''STATUS_UNSET''),
    (1, ''OK''),
    (2, ''INVALID_TRANSACTION''),
    (3, ''INTERNAL_ERROR'')]"

record TpRegisterRequest =
  TpRegisterRequest_Family :: "string"
  TpRegisterRequest_Version :: "string"
  TpRegisterRequest_Namespaces :: "string list"
  TpRegisterRequest_MaxOccupancy :: "32 word"

instance TpRegisterRequest_ext :: (countable) countable
  by (rule countable_classI [of "\<lambda>r. to_nat (TpRegisterRequest_Family r, TpRegisterRequest_Version r, TpRegisterRequest_Namespaces r, TpRegisterRequest_MaxOccupancy r, TpRegisterRequest.more r)"]) simp

record TpRegisterResponse =
  TpRegisterResponse_Status :: "TpRegisterResponse_Status"

instance TpRegisterResponse_ext :: (countable) countable
  by (rule countable_classI [of "\<lambda>r. to_nat (TpRegisterResponse_Status r, TpRegisterResponse.more r)"]) simp

datatype TpUnregisterRequest = TpUnregisterRequest

instance TpUnregisterRequest :: countable
  by countable_datatype

record TpUnregisterResponse =
  TpUnregisterResponse_Status :: "TpUnregisterResponse_Status"

instance TpUnregisterResponse_ext :: (countable) countable
  by (rule countable_classI [of "\<lambda>r. to_nat (TpUnregisterResponse_Status r, TpUnregisterResponse.more r)"]) simp

record TpProcessRequest =
  TpProcessRequest_Header :: "TransactionHeader option"
  TpProcessRequest_Payload :: "bytes option"
  TpProcessRequest_Signature :: "string"
  TpProcessRequest_ContextId :: "string"

instance TpProcessRequest_ext :: (countable) countable
  by (rule countable_classI [of "\<lambda>r. to_nat (TpProcessRequest_Header r, TpProcessRequest_Payload r, TpProcessRequest_Signature r, TpProcessRequest_ContextId r, TpProcessRequest.more r)"]) simp

record TpProcessResponse =
  TpProcessResponse_Status :: "TpProcessResponse_Status"
  TpProcessResponse_Message :: "string"
  TpProcessResponse_ExtendedData :: "bytes"

instance TpProcessResponse_ext :: (countable) countable
  by (rule countable_classI [of "\<lambda>r. to_nat (TpProcessResponse_Status r, TpProcessResponse_Message r, TpProcessResponse_ExtendedData r, TpProcessResponse.more r)"]) simp

datatype PingResponse = PingResponse

instance PingResponse :: countable
  by countable_datatype

section \<open>The codecs of the transaction processor\<close>

record tp_pb =
  pbMessage :: "Message codec"
  pbTpStateGetRequest :: "TpStateGetRequest codec"
  pbTpStateGetResponse :: "TpStateGetResponse codec"
  pbTpStateSetRequest :: "TpStateSetRequest codec"
  pbTpStateSetResponse :: "TpStateSetResponse codec"
  pbTpStateDeleteRequest :: "TpStateDeleteRequest codec"
  pbTpStateDeleteResponse :: "TpStateDeleteResponse codec"
  pbTpReceiptAddDataRequest :: "TpReceiptAddDataRequest codec"
  pbTpReceiptAddDataResponse :: "TpReceiptAddDataResponse codec"
  pbTpEventAddRequest :: "TpEventAddRequest codec"
  pbTpEventAddResponse :: "TpEventAddResponse codec"
  pbTpProcessRequest :: "TpProcessRequest codec"
  pbTpProcessResponse :: "TpProcessResponse codec"
  pbTpRegisterRequest :: "TpRegisterRequest codec"
  pbTpRegisterResponse :: "TpRegisterResponse codec"
  pbTpUnregisterRequest :: "TpUnregisterRequest codec"
  pbPingResponse :: "PingResponse codec"

definition unary_tp_pb :: tp_pb where
  "unary_tp_pb = \<lparr>
     pbMessage = unary_codec,
     pbTpStateGetRequest = unary_codec, pbTpStateGetResponse = unary_codec,
     pbTpStateSetRequest = unary_codec, pbTpStateSetResponse = unary_codec,
     pbTpStateDeleteRequest = unary_codec, pbTpStateDeleteResponse = unary_codec,
     pbTpReceiptAddDataRequest = unary_codec, pbTpReceiptAddDataResponse = unary_codec,
     pbTpEventAddRequest = unary_codec, pbTpEventAddResponse = unary_codec,
     pbTpProcessRequest = unary_codec, pbTpProcessResponse = unary_codec,
     pbTpRegisterRequest = unary_codec, pbTpRegisterResponse = unary_codec,
     pbTpUnregisterRequest = unary_codec, pbPingResponse = unary_codec\<rparr>"

lemma unary_tp_pb_simps [simp]:
  "pbMessage unary_tp_pb = unary_codec"
  "pbTpStateGetRequest unary_tp_pb = unary_codec"
  "pbTpStateGetResponse unary_tp_pb = unary_codec"
  "pbTpStateSetRequest unary_tp_pb = unary_codec"
  "pbTpStateSetResponse unary_tp_pb = unary_codec"
  "pbTpStateDeleteRequest unary_tp_pb = unary_codec"
  "pbTpStateDeleteResponse unary_tp_pb = unary_codec"
  "pbTpReceiptAddDataRequest unary_tp_pb = unary_codec"
  "pbTpReceiptAddDataResponse unary_tp_pb = unary_codec"
  "pbTpEventAddRequest unary_tp_pb = unary_codec"
  "pbTpEventAddResponse unary_tp_pb = unary_codec"
  "pbTpProcessRequest unary_tp_pb = unary_codec"
  "pbTpProcessResponse unary_tp_pb = unary_codec"
  "pbTpRegisterRequest unary_tp_pb = unary_codec"
  "pbTpRegisterResponse unary_tp_pb = unary_codec"
  "pbTpUnregisterRequest unary_tp_pb = unary_codec"
  "pbPingResponse unary_tp_pb = unary_codec"
  by (simp_all add: unary_tp_pb_def)

text \<open>The generated getters are safe on a nil message: they return the zero value.\<close>

definition GetMessageType :: "Message option \<Rightarrow> Message_MessageType" where
  "GetMessageType m = (case m of None \<Rightarrow> 0 | Some x \<Rightarrow> Message_MessageType x)"

definition GetCorrelationId :: "Message option \<Rightarrow> string" where
  "GetCorrelationId m = (case m of None \<Rightarrow> [] | Some x \<Rightarrow> Message_CorrelationId x)"

definition GetContent :: "Message option \<Rightarrow> bytes" where
  "GetContent m = (case m of None \<Rightarrow> [] | Some x \<Rightarrow> Message_Content x)"

definition GetFamilyName :: "TransactionHeader option \<Rightarrow> string" where
  "GetFamilyName h = (case h of None \<Rightarrow> [] | Some x \<Rightarrow> TransactionHeader_FamilyName x)"

definition GetFamilyVersion :: "TransactionHeader option \<Rightarrow> string" where
  "GetFamilyVersion h = (case h of None \<Rightarrow> [] | Some x \<Rightarrow> TransactionHeader_FamilyVersion x)"

definition GetSignerPublicKey :: "TransactionHeader option \<Rightarrow> string" where
  "GetSignerPublicKey h = (case h of None \<Rightarrow> [] | Some x \<Rightarrow> TransactionHeader_SignerPublicKey x)"

lemma getters_Some [simp]:
  "GetMessageType (Some m) = Message_MessageType m"
  "GetCorrelationId (Some m) = Message_CorrelationId m"
  "GetContent (Some m) = Message_Content m"
  "GetFamilyName (Some h) = TransactionHeader_FamilyName h"
  "GetFamilyVersion (Some h) = TransactionHeader_FamilyVersion h"
  "GetSignerPublicKey (Some h) = TransactionHeader_SignerPublicKey h"
  by (simp_all add: GetMessageType_def GetCorrelationId_def GetContent_def
    GetFamilyName_def GetFamilyVersion_def GetSignerPublicKey_def)

lemma getters_None [simp]:
  "GetMessageType None = 0" "GetCorrelationId None = []" "GetContent None = []"
  "GetFamilyName None = []" "GetFamilyVersion None = []" "GetSignerPublicKey None = []"
  by (simp_all add: GetMessageType_def GetCorrelationId_def GetContent_def
    GetFamilyName_def GetFamilyVersion_def GetSignerPublicKey_def)

definition Message_MessageType_String :: "int \<Rightarrow> string" where
  "Message_MessageType_String = EnumStringOf Message_MessageType_name"

end
