(* ===== verification/Messaging.thy ===== *)
theory Messaging
  imports Protobuf
begin

text \<open>
  messaging/connection.go: the ZmqConnection type over a ZMQ socket, and the Connection
  interface through which the rest of the SDK uses it.

  The ZMQ library and whatever is at the other end of a socket are not part of the sources.  A
  socket is modelled by its inbox (the messages that have arrived, or the errors a receive will
  report, oldest first) and by its peer: an arbitrary state together with an arbitrary function
  that says what a sent multipart message does to the peer, which messages arrive in return and
  whether the send reports an error.  Nothing is assumed about either here; a receive on an empty
  inbox blocks.  The UUID library is likewise a function that gives the n-th identifier drawn.
\<close>

section \<open>Sockets\<close>

record 'p Socket =
  sk_peer :: 'p
  sk_deliver :: "'p \<Rightarrow> bytes list \<Rightarrow> 'p \<times> (go_error + bytes list) list \<times> go_error option"
  sk_inbox :: "(go_error + bytes list) list"
  sk_closed :: bool
  sk_closed_error :: go_error

definition SendMessage :: "bytes list \<Rightarrow> 'p Socket \<Rightarrow> go_error option \<times> 'p Socket" where
  "SendMessage parts sk =
    (if sk_closed sk then (Some (sk_closed_error sk), sk)
     else case sk_deliver sk (sk_peer sk) parts of
       (p, arrivals, err) \<Rightarrow> (err, sk\<lparr>sk_peer := p, sk_inbox := sk_inbox sk @ arrivals\<rparr>))"

definition RecvMessage :: "('p Socket, go_error + bytes list) proc" where
  "RecvMessage sk =
    (if sk_closed sk then (Ret (Inl (sk_closed_error sk)), sk)
     else case sk_inbox sk of
       [] \<Rightarrow> (Block, sk)
     | m # ms \<Rightarrow> (Ret m, sk\<lparr>sk_inbox := ms\<rparr>))"

text \<open>What the sources use of a ZMQ context: creating, naming, binding and monitoring sockets.\<close>

record 'p zmq_context =
  zc_NewSocket :: "int \<Rightarrow> go_error + 'p Socket"
  zc_SetIdentity :: "string \<Rightarrow> 'p Socket \<Rightarrow> 'p Socket"
  zc_Bind :: "string \<Rightarrow> 'p Socket \<Rightarrow> go_error option \<times> 'p Socket"
  zc_Connect :: "string \<Rightarrow> 'p Socket \<Rightarrow> go_error option \<times> 'p Socket"
  zc_Monitor :: "string \<Rightarrow> int \<Rightarrow> 'p Socket \<Rightarrow> go_error option \<times> 'p Socket"
  zc_PAIR :: int

text \<open>The socket types and the event of the monitor that the sources name.\<close>

record zmq_constants =
  z_DEALER :: int
  z_ROUTER :: int
  z_EVENT_DISCONNECTED :: int

section \<open>ZmqConnection\<close>

record storedMsg =
  stored_Id :: string
  stored_Msg :: Message

record 'p ZmqConnection =
  conn_identity :: string
  conn_uri :: string
  conn_socket :: "'p Socket"
  conn_incoming :: "(string \<times> storedMsg) list"
  conn_uuid :: "nat \<Rightarrow> string"
  conn_uuid_next :: nat

definition GenerateId :: "('p ZmqConnection, string) proc" where
  "GenerateId self = (Ret (conn_uuid self (conn_uuid_next self)),
                      self\<lparr>conn_uuid_next := Suc (conn_uuid_next self)\<rparr>)"

definition DumpMsg :: "Message codec \<Rightarrow> Message_MessageType \<Rightarrow> bytes \<Rightarrow> string \<Rightarrow> bytes \<times> go_error option" where
  "DumpMsg cm t c corrId =
    Marshal cm \<lparr>Message_MessageType = t, Message_CorrelationId = corrId, Message_Content = c\<rparr>"

definition LoadMsg :: "Message codec \<Rightarrow> bytes \<Rightarrow> Message \<times> go_error option" where
  "LoadMsg cm data = Unmarshal cm data"

definition NewConnection ::
  "'p zmq_context \<Rightarrow> (nat \<Rightarrow> string) \<Rightarrow> nat \<Rightarrow> int \<Rightarrow> string \<Rightarrow> bool \<Rightarrow> go_error + 'p ZmqConnection" where
  "NewConnection ctx uuid n t uri bind =
    (case zc_NewSocket ctx t of
       Inl err \<Rightarrow> Inl (ErrorString (''Failed to create ZMQ socket: '' @ Error err))
     | Inr socket \<Rightarrow>
        (let identity = uuid n;
             socket = zc_SetIdentity ctx identity socket;
             (err, socket) = (if bind then zc_Bind ctx uri socket else zc_Connect ctx uri socket)
         in case err of
              Some e \<Rightarrow> Inl (ErrorString (''Failed to establish connection to '' @ uri @ '': '' @ Error e))
            | None \<Rightarrow> Inr \<lparr>conn_identity = identity, conn_uri = uri, conn_socket = socket,
                           conn_incoming = [], conn_uuid = uuid, conn_uuid_next = Suc n\<rparr>))"

definition SendData :: "string \<Rightarrow> bytes \<Rightarrow> ('p ZmqConnection, go_error option) proc" where
  "SendData rid data self =
    (let (err, sk) = (if rid \<noteq> [] then SendMessage [rid, data] (conn_socket self)
                      else SendMessage [data] (conn_socket self))
     in (Ret err, self\<lparr>conn_socket := sk\<rparr>))"

definition SendMsgTo ::
  "Message codec \<Rightarrow> string \<Rightarrow> Message_MessageType \<Rightarrow> bytes \<Rightarrow> string \<Rightarrow> ('p ZmqConnection, go_error option) proc" where
  "SendMsgTo cm rid t c corrId =
    (case DumpMsg cm t c corrId of
       (_, Some err) \<Rightarrow> retP (Some err)
     | (data, None) \<Rightarrow> SendData rid data)"

definition SendMsg ::
  "Message codec \<Rightarrow> Message_MessageType \<Rightarrow> bytes \<Rightarrow> string \<Rightarrow> ('p ZmqConnection, go_error option) proc" where
  "SendMsg cm t c corrId = SendMsgTo cm [] t c corrId"

definition SendNewMsgTo ::
  "Message codec \<Rightarrow> string \<Rightarrow> Message_MessageType \<Rightarrow> bytes \<Rightarrow> ('p ZmqConnection, string \<times> go_error option) proc" where
  "SendNewMsgTo cm rid t c =
    bindP GenerateId (\<lambda>corrId. bindP (SendMsgTo cm rid t c corrId) (\<lambda>err. retP (corrId, err)))"

definition SendNewMsg ::
  "Message codec \<Rightarrow> Message_MessageType \<Rightarrow> bytes \<Rightarrow> ('p ZmqConnection, string \<times> go_error option) proc" where
  "SendNewMsg cm t c = SendNewMsgTo cm [] t c"

text \<open>RecvData tells a one-part message from a two-part one (identity and data).\<close>

definition RecvData :: "('p ZmqConnection, string \<times> bytes \<times> go_error option) proc" where
  "RecvData self =
    (case RecvMessage (conn_socket self) of
       (Block, sk) \<Rightarrow> (Block, self\<lparr>conn_socket := sk\<rparr>)
     | (Panic e, sk) \<Rightarrow> (Panic e, self\<lparr>conn_socket := sk\<rparr>)
     | (Ret r, sk) \<Rightarrow>
        (Ret (case r of
                Inl err \<Rightarrow> ([], [], Some err)
              | Inr [data] \<Rightarrow> ([], data, None)
              | Inr [rid, data] \<Rightarrow> (rid, data, None)
              | Inr msg \<Rightarrow> ([], [], Some (ErrorString
                  (''Receive message with unexpected length: '' @ Itoa (int (length msg)))))),
         self\<lparr>conn_socket := sk\<rparr>))"

text \<open>
  RecvMsg ranges over the stored messages and returns the first it visits.  Go leaves the order
  of the visit open: the argument \<open>k\<close> stands for the choice, and every entry is some choice.
\<close>

definition RecvMsg :: "Message codec \<Rightarrow> nat \<Rightarrow> ('p ZmqConnection, string \<times> Message option \<times> go_error option) proc" where
  "RecvMsg cm k self =
    (case conn_incoming self of
       e # es \<Rightarrow>
        (let (corrId, stored) = (e # es) ! (k mod length (e # es))
         in (Ret (stored_Id stored, Some (stored_Msg stored), None),
             self\<lparr>conn_incoming := AList.delete corrId (conn_incoming self)\<rparr>))
     | [] \<Rightarrow>
        bindP RecvData (\<lambda>(rid, bytes, err).
          case err of
            Some e \<Rightarrow> retP ([], None, Some e)
          | None \<Rightarrow> (let (msg, err) = LoadMsg cm bytes in retP (rid, Some msg, err))) self)"

lemma RecvMessage_inbox:
  "RecvMessage sk = (Ret (Inr m), sk') \<Longrightarrow> \<not> sk_closed sk \<and> sk_inbox sk = Inr m # sk_inbox sk'"
  by (auto simp: RecvMessage_def split: if_splits list.splits)

lemma RecvData_shrinks:
  assumes "RecvData c = (Ret (i, d, None), c')"
  shows "length (sk_inbox (conn_socket c')) < length (sk_inbox (conn_socket c))"
  using assms
  by (auto simp: RecvData_def RecvMessage_def split: prod.splits outcome.splits sum.splits list.splits if_splits)

text \<open>
  The receive loop of RecvMsgWithId: every turn takes one message off the socket; it ends with
  the wanted message, with an error of the socket, or waits on an empty inbox.
\<close>

function RecvMsgWithId_loop ::
  "Message codec \<Rightarrow> string \<Rightarrow> 'p ZmqConnection \<Rightarrow> (string \<times> Message option \<times> go_error option) outcome \<times> 'p ZmqConnection" where
  "RecvMsgWithId_loop cm corrId self =
    (case RecvData self of
       (Block, self') \<Rightarrow> (Block, self')
     | (Panic e, self') \<Rightarrow> (Panic e, self')
     | (Ret (rid, bytes, Some err), self') \<Rightarrow> (Ret ([], None, Some err), self')
     | (Ret (rid, bytes, None), self') \<Rightarrow>
        (let (msg, err) = LoadMsg cm bytes
         in if GetCorrelationId (Some msg) = corrId then (Ret (rid, Some msg, err), self')
            else RecvMsgWithId_loop cm corrId
              (self'\<lparr>conn_incoming := AList.update (GetCorrelationId (Some msg))
                 \<lparr>stored_Id = rid, stored_Msg = msg\<rparr> (conn_incoming self')\<rparr>)))"
  by pat_completeness auto
termination
  by (relation "measure (\<lambda>(cm, corrId, self). length (sk_inbox (conn_socket self)))")
    (auto dest: RecvData_shrinks [OF sym])

declare RecvMsgWithId_loop.simps [simp del]

definition RecvMsgWithId ::
  "Message codec \<Rightarrow> string \<Rightarrow> ('p ZmqConnection, string \<times> Message option \<times> go_error option) proc" where
  "RecvMsgWithId cm corrId self =
    (case map_of (conn_incoming self) corrId of
       Some stored \<Rightarrow> (Ret (stored_Id stored, Some (stored_Msg stored), None), self)
     | None \<Rightarrow> RecvMsgWithId_loop cm corrId self)"

definition Close :: "('p ZmqConnection, unit) proc" where
  "Close self = (Ret (), self\<lparr>conn_socket := (conn_socket self)\<lparr>sk_closed := True\<rparr>\<rparr>)"

definition Identity :: "('p ZmqConnection, string) proc" where
  "Identity self = (Ret (conn_identity self), self)"

text \<open>
  Monitor replaces the error of creating the monitor socket by that of connecting it: with no
  socket the call panics.
\<close>

definition Monitor :: "'p zmq_context \<Rightarrow> int \<Rightarrow> ('p ZmqConnection, go_error + 'p Socket) proc" where
  "Monitor ctx events self =
    (let endpoint = ''inproc://monitor.'' @ conn_identity self;
         (err, sk) = zc_Monitor ctx endpoint events (conn_socket self);
         self' = self\<lparr>conn_socket := sk\<rparr>
     in case err of
          Some e \<Rightarrow> (Ret (Inl e), self')
        | None \<Rightarrow>
           (case zc_NewSocket ctx (zc_PAIR ctx) of
              Inl e \<Rightarrow> (Panic ''nil pointer dereference'', self')
            | Inr monitor \<Rightarrow>
               (case zc_Connect ctx endpoint monitor of
                  (Some e, _) \<Rightarrow> (Ret (Inl e), self')
                | (None, monitor') \<Rightarrow> (Ret (Inr monitor'), self'))))"

text \<open>The Connection interface: its methods over a state type, and the methods of ZmqConnection.\<close>

record 's Connection =
  c_SendData :: "string \<Rightarrow> bytes \<Rightarrow> ('s, go_error option) proc"
  c_SendNewMsg :: "Message_MessageType \<Rightarrow> bytes \<Rightarrow> ('s, string \<times> go_error option) proc"
  c_SendNewMsgTo :: "string \<Rightarrow> Message_MessageType \<Rightarrow> bytes \<Rightarrow> ('s, string \<times> go_error option) proc"
  c_SendMsg :: "Message_MessageType \<Rightarrow> bytes \<Rightarrow> string \<Rightarrow> ('s, go_error option) proc"
  c_SendMsgTo :: "string \<Rightarrow> Message_MessageType \<Rightarrow> bytes \<Rightarrow> string \<Rightarrow> ('s, go_error option) proc"
  c_RecvData :: "('s, string \<times> bytes \<times> go_error option) proc"
  c_RecvMsg :: "nat \<Rightarrow> ('s, string \<times> Message option \<times> go_error option) proc"
  c_RecvMsgWithId :: "string \<Rightarrow> ('s, string \<times> Message option \<times> go_error option) proc"
  c_Close :: "('s, unit) proc"
  c_Identity :: "('s, string) proc"

definition zmq_Connection :: "Message codec \<Rightarrow> 'p ZmqConnection Connection" where
  "zmq_Connection cm = \<lparr>
     c_SendData = SendData, c_SendNewMsg = SendNewMsg cm, c_SendNewMsgTo = SendNewMsgTo cm,
     c_SendMsg = SendMsg cm, c_SendMsgTo = SendMsgTo cm, c_RecvData = RecvData,
     c_RecvMsg = RecvMsg cm, c_RecvMsgWithId = RecvMsgWithId cm, c_Close = Close,
     c_Identity = Identity\<rparr>"

section \<open>Receiving by correlation id\<close>

text \<open>A multipart message as RecvData reads it: the sender's identity and the data.\<close>

definition frame_data :: "bytes list \<Rightarrow> (string \<times> bytes) option" where
  "frame_data fr = (case fr of [d] \<Rightarrow> Some ([], d) | [i, d] \<Rightarrow> Some (i, d) | _ \<Rightarrow> None)"

abbreviation inbox :: "'p ZmqConnection \<Rightarrow> (go_error + bytes list) list" where
  "inbox c \<equiv> sk_inbox (conn_socket c)"

abbreviation set_inbox :: "(go_error + bytes list) list \<Rightarrow> 'p ZmqConnection \<Rightarrow> 'p ZmqConnection" where
  "set_inbox ms c \<equiv> c\<lparr>conn_socket := (conn_socket c)\<lparr>sk_inbox := ms\<rparr>\<rparr>"

lemma set_inbox_id: "inbox c = ms \<Longrightarrow> set_inbox ms c = c"
  by (cases c; cases "conn_socket c") simp

lemma RecvData_frame:
  assumes "\<not> sk_closed (conn_socket c)" "inbox c = Inr fr # ms" "frame_data fr = Some (i, d)"
  shows "RecvData c = (Ret (i, d, None), set_inbox ms c)"
  using assms by (auto simp: RecvData_def RecvMessage_def frame_data_def split: list.splits)

lemma RecvData_empty:
  "\<not> sk_closed (conn_socket c) \<Longrightarrow> inbox c = [] \<Longrightarrow> RecvData c = (Block, c)"
  by (simp add: RecvData_def RecvMessage_def)

text \<open>The messages a receive passes over are stored under their correlation ids, later ones winning.\<close>

definition stash :: "(string \<times> storedMsg) list \<Rightarrow> (string \<times> Message) list \<Rightarrow> (string \<times> storedMsg) list" where
  "stash inc ms = foldl (\<lambda>inc (i, m). AList.update (Message_CorrelationId m)
      \<lparr>stored_Id = i, stored_Msg = m\<rparr> inc) inc ms"

definition frame_msg :: "Message codec \<Rightarrow> bytes list \<Rightarrow> (string \<times> Message) option" where
  "frame_msg cm fr = map_option (\<lambda>(i, d). (i, fst (Unmarshal cm d))) (frame_data fr)"

lemma RecvMsgWithId_loop_skip:
  assumes "\<not> sk_closed (conn_socket c)" "inbox c = Inr fr # ms"
    and "frame_msg cm fr = Some (i, m)" "Message_CorrelationId m \<noteq> k"
  shows "RecvMsgWithId_loop cm k c =
    RecvMsgWithId_loop cm k ((set_inbox ms c)\<lparr>conn_incoming := stash (conn_incoming c) [(i, m)]\<rparr>)"
proof -
  from assms(3) obtain d e where d: "frame_data fr = Some (i, d)" and m: "Unmarshal cm d = (m, e)"
    by (cases "Unmarshal cm (snd (the (frame_data fr)))") (auto simp: frame_msg_def)
  show ?thesis
    by (subst RecvMsgWithId_loop.simps)
      (simp add: RecvData_frame [OF assms(1,2) d] LoadMsg_def stash_def assms(4) m)
qed

lemma RecvMsgWithId_loop_skips:
  assumes "\<not> sk_closed (conn_socket c)" "inbox c = map Inr frs @ rest"
    and "map (frame_msg cm) frs = map Some ms"
    and "\<forall>(i, m) \<in> set ms. Message_CorrelationId m \<noteq> k"
  shows "RecvMsgWithId_loop cm k c =
    RecvMsgWithId_loop cm k ((set_inbox rest c)\<lparr>conn_incoming := stash (conn_incoming c) ms\<rparr>)"
  using assms
proof (induction frs arbitrary: c ms)
  case Nil
  then show ?case by (simp add: stash_def set_inbox_id)
next
  case (Cons fr frs)
  then obtain i m ms' where ms: "ms = (i, m) # ms'" by (cases ms) auto
  let ?c = "(set_inbox (map Inr frs @ rest) c)\<lparr>conn_incoming := stash (conn_incoming c) [(i, m)]\<rparr>"
  have "RecvMsgWithId_loop cm k c = RecvMsgWithId_loop cm k ?c"
    using Cons.prems ms by (intro RecvMsgWithId_loop_skip) auto
  also have "\<dots> = RecvMsgWithId_loop cm k
      ((set_inbox rest ?c)\<lparr>conn_incoming := stash (conn_incoming ?c) ms'\<rparr>)"
    using Cons.prems ms by (intro Cons.IH) auto
  finally show ?case by (simp add: ms stash_def)
qed

lemma RecvMsgWithId_loop_hit:
  assumes "\<not> sk_closed (conn_socket c)" "inbox c = Inr fr # ms"
    and "frame_data fr = Some (i, d)" "Unmarshal cm d = (m, e)" "Message_CorrelationId m = k"
  shows "RecvMsgWithId_loop cm k c = (Ret (i, Some m, e), set_inbox ms c)"
  by (subst RecvMsgWithId_loop.simps)
    (simp add: RecvData_frame [OF assms(1-3)] LoadMsg_def assms(4,5))

lemma RecvMsgWithId_loop_block:
  assumes "\<not> sk_closed (conn_socket c)" "inbox c = []"
  shows "RecvMsgWithId_loop cm k c = (Block, c)"
  by (subst RecvMsgWithId_loop.simps) (simp add: RecvData_empty [OF assms])

lemma map_of_stash:
  "map_of (stash inc ms) = map_of inc ++
     map_of (rev (map (\<lambda>(i, m). (Message_CorrelationId m, \<lparr>stored_Id = i, stored_Msg = m\<rparr>)) ms))"
proof (induction ms arbitrary: inc)
  case Nil
  then show ?case by (simp add: stash_def)
next
  case (Cons a ms)
  obtain i m where a: "a = (i, m)" by (cases a)
  have "stash inc (a # ms) = stash (AList.update (Message_CorrelationId m)
      \<lparr>stored_Id = i, stored_Msg = m\<rparr> inc) ms"
    by (simp add: stash_def a)
  then show ?case using Cons.IH by (simp add: a update_conv' del: fun_upd_apply)
qed

text \<open>
  Every stored message sits under its own correlation id, at most one per id: the invariant of
  the connection.
\<close>

definition conn_wf :: "'p ZmqConnection \<Rightarrow> bool" where
  "conn_wf c \<longleftrightarrow> distinct (map fst (conn_incoming c)) \<and>
     (\<forall>(k, st) \<in> set (conn_incoming c). Message_CorrelationId (stored_Msg st) = k)"

lemma conn_wf_socket [simp]:
  "conn_wf (c\<lparr>conn_socket := sk\<rparr>) = conn_wf c" "conn_wf (c\<lparr>conn_uuid_next := n\<rparr>) = conn_wf c"
  by (simp_all add: conn_wf_def)

lemma conn_wf_update:
  "conn_wf c \<Longrightarrow> Message_CorrelationId (stored_Msg st) = k \<Longrightarrow>
   conn_wf (c\<lparr>conn_incoming := AList.update k st (conn_incoming c)\<rparr>)"
  by (auto simp: conn_wf_def distinct_update dest!: set_AList_update)

lemma conn_wf_delete:
  "conn_wf c \<Longrightarrow> conn_wf (c\<lparr>conn_incoming := AList.delete k (conn_incoming c)\<rparr>)"
  by (auto simp: conn_wf_def distinct_delete dest!: set_AList_delete)

lemma RecvMsgWithId_loop_wf:
  assumes "conn_wf c" "RecvMsgWithId_loop cm k c = (r, c')"
  shows "conn_wf c' \<and> (\<forall>i m e. r = Ret (i, Some m, e) \<longrightarrow> Message_CorrelationId m = k)"
  using assms
proof (induction "length (inbox c)" arbitrary: c rule: less_induct)
  case less
  obtain r1 c1 where rd: "RecvData c = (r1, c1)" by (cases "RecvData c")
  then have wf1: "conn_wf c1"
    using less.prems(1) by (auto simp: RecvData_def split: prod.splits outcome.splits)
  show ?case
  proof (cases "\<exists>i d. r1 = Ret (i, d, None)")
    case False
    with less.prems(2) rd wf1 show ?thesis
      by (subst (asm) RecvMsgWithId_loop.simps) (auto split: outcome.splits option.splits)
  next
    case True
    then obtain i d where r1: "r1 = Ret (i, d, None)" by blast
    obtain m e where m: "LoadMsg cm d = (m, e)" by (cases "LoadMsg cm d")
    show ?thesis
    proof (cases "Message_CorrelationId m = k")
      case True
      with less.prems(2) rd r1 m wf1 show ?thesis
        by (subst (asm) RecvMsgWithId_loop.simps) auto
    next
      case False
      let ?c = "c1\<lparr>conn_incoming := AList.update (Message_CorrelationId m)
        \<lparr>stored_Id = i, stored_Msg = m\<rparr> (conn_incoming c1)\<rparr>"
      have "RecvMsgWithId_loop cm k ?c = (r, c')"
        using less.prems(2) rd r1 m False by (subst (asm) RecvMsgWithId_loop.simps) simp
      moreover have "conn_wf ?c" using wf1 by (simp add: conn_wf_update)
      ultimately show ?thesis
        using RecvData_shrinks rd r1 by (intro less.hyps) auto
    qed
  qed
qed

section \<open>The request and response contract of a connection\<close>

text \<open>
  What a client of the Connection interface relies on: in a ready state, a new message that the
  other side answers is sent without error, and receiving by its correlation id returns exactly
  the answer, with that id, and leaves the connection ready.  \<open>reply s t b\<close> is the answer of the
  other side to a message of type \<open>t\<close> with content \<open>b\<close>.
\<close>

locale rpc_connection =
  fixes C :: "'s Connection"
    and ready :: "'s \<Rightarrow> bool"
    and reply :: "'s \<Rightarrow> Message_MessageType \<Rightarrow> bytes \<Rightarrow> (Message_MessageType \<times> bytes \<times> 's) option"
  assumes exchange: "ready s \<Longrightarrow> reply s t b = Some (t', b', s') \<Longrightarrow>
    \<exists>corr s1 i. c_SendNewMsg C t b s = (Ret (corr, None), s1) \<and>
      c_RecvMsgWithId C corr s1 = (Ret (i, Some \<lparr>Message_MessageType = t',
        Message_CorrelationId = corr, Message_Content = b'\<rparr>, None), s')"
    and exchange_ready: "ready s \<Longrightarrow> reply s t b = Some (t', b', s') \<Longrightarrow> ready s'"
begin

lemma exchange_obtain:
  assumes "ready s" "reply s t b = Some (t', b', s')"
  obtains corr s1 i where "c_SendNewMsg C t b s = (Ret (corr, None), s1)"
    "c_RecvMsgWithId C corr s1 = (Ret (i, Some \<lparr>Message_MessageType = t',
        Message_CorrelationId = corr, Message_Content = b'\<rparr>, None), s')"
  using exchange [OF assms] by blast

end

text \<open>
  ZmqConnection keeps this contract towards a peer that answers each request with one message:
  \<open>react p t b\<close> is the peer's answer in its state \<open>p\<close>, and \<open>peer_reacts\<close> says that sending the
  encoded request makes the encoded answer, with the same correlation id, arrive.
\<close>

definition peer_reacts ::
  "Message codec \<Rightarrow> ('p \<Rightarrow> bytes list \<Rightarrow> 'p \<times> (go_error + bytes list) list \<times> go_error option) \<Rightarrow>
   ('p \<Rightarrow> Message_MessageType \<Rightarrow> bytes \<Rightarrow> (Message_MessageType \<times> bytes \<times> 'p) option) \<Rightarrow> bool" where
  "peer_reacts cm deliver react \<longleftrightarrow>
    (\<forall>p t b corr t' b' p'. react p t b = Some (t', b', p') \<longrightarrow>
       deliver p [fst (DumpMsg cm t b corr)] = (p', [Inr [fst (DumpMsg cm t' b' corr)]], None))"

definition zmq_ready ::
  "Message codec \<Rightarrow> ('p \<Rightarrow> Message_MessageType \<Rightarrow> bytes \<Rightarrow> (Message_MessageType \<times> bytes \<times> 'p) option) \<Rightarrow>
   'p ZmqConnection \<Rightarrow> bool" where
  "zmq_ready cm react c \<longleftrightarrow> peer_reacts cm (sk_deliver (conn_socket c)) react \<and>
     (\<forall>m. codec_ok cm m) \<and> \<not> sk_closed (conn_socket c) \<and> inbox c = [] \<and> conn_incoming c = []"

abbreviation peer :: "'p ZmqConnection \<Rightarrow> 'p" where
  "peer c \<equiv> sk_peer (conn_socket c)"

definition zmq_reply ::
  "('p \<Rightarrow> Message_MessageType \<Rightarrow> bytes \<Rightarrow> (Message_MessageType \<times> bytes \<times> 'p) option) \<Rightarrow>
   'p ZmqConnection \<Rightarrow> Message_MessageType \<Rightarrow> bytes \<Rightarrow> (Message_MessageType \<times> bytes \<times> 'p ZmqConnection) option" where
  "zmq_reply react c t b = map_option (\<lambda>(t', b', p). (t', b',
     c\<lparr>conn_uuid_next := Suc (conn_uuid_next c),
       conn_socket := (conn_socket c)\<lparr>sk_peer := p\<rparr>\<rparr>)) (react (peer c) t b)"

lemma SendNewMsg_delivers:
  assumes "\<not> sk_closed (conn_socket c)"
    and "codec_ok cm \<lparr>Message_MessageType = t, Message_CorrelationId = k, Message_Content = b\<rparr>"
    and "k = conn_uuid c (conn_uuid_next c)"
    and "sk_deliver (conn_socket c) (peer c) [fst (DumpMsg cm t b k)] = (p, arr, err)"
  shows "SendNewMsg cm t b c = (Ret (k, err), c\<lparr>conn_uuid_next := Suc (conn_uuid_next c),
      conn_socket := (conn_socket c)\<lparr>sk_peer := p, sk_inbox := inbox c @ arr\<rparr>\<rparr>)"
proof -
  from assms(2) obtain d where d: "DumpMsg cm t b k = (d, None)"
    by (auto simp: DumpMsg_def elim: codec_okE)
  show ?thesis
    using assms d
    by (simp add: SendNewMsg_def SendNewMsgTo_def GenerateId_def bindP_def SendMsgTo_def
      SendData_def SendMessage_def)
qed

lemma zmq_exchange:
  assumes "zmq_ready cm react c" "zmq_reply react c t b = Some (t', b', c')"
  defines "k \<equiv> conn_uuid c (conn_uuid_next c)"
  shows "\<exists>c1. SendNewMsg cm t b c = (Ret (k, None), c1) \<and>
    RecvMsgWithId cm k c1 = (Ret ([], Some \<lparr>Message_MessageType = t',
      Message_CorrelationId = k, Message_Content = b'\<rparr>, None), c') \<and> zmq_ready cm react c'"
proof -
  from assms(2) obtain p where p: "react (peer c) t b = Some (t', b', p)"
    and c': "c' = c\<lparr>conn_uuid_next := Suc (conn_uuid_next c), conn_socket := (conn_socket c)\<lparr>sk_peer := p\<rparr>\<rparr>"
    by (auto simp: zmq_reply_def)
  let ?fr = "fst (DumpMsg cm t' b' k)"
  let ?m = "\<lparr>Message_MessageType = t', Message_CorrelationId = k, Message_Content = b'\<rparr>"
  let ?c1 = "c\<lparr>conn_uuid_next := Suc (conn_uuid_next c),
      conn_socket := (conn_socket c)\<lparr>sk_peer := p, sk_inbox := [Inr [?fr]]\<rparr>\<rparr>"
  from assms(1) have ok: "codec_ok cm m" for m by (simp add: zmq_ready_def)
  have "sk_deliver (conn_socket c) (peer c) [fst (DumpMsg cm t b k)] = (p, [Inr [?fr]], None)"
    using assms(1) p by (auto simp: zmq_ready_def peer_reacts_def)
  then have send: "SendNewMsg cm t b c = (Ret (k, None), ?c1)"
    using assms(1) ok by (simp add: SendNewMsg_delivers k_def zmq_ready_def)
  have "Unmarshal cm ?fr = (?m, None)"
    using ok [of ?m] by (simp add: DumpMsg_def)
  then have "RecvMsgWithId_loop cm k ?c1 = (Ret ([], Some ?m, None), set_inbox [] ?c1)"
    using assms(1) by (intro RecvMsgWithId_loop_hit [where fr = "[?fr]"])
      (auto simp: zmq_ready_def frame_data_def)
  moreover have "set_inbox [] ?c1 = c'"
    using assms(1) by (cases c; cases "conn_socket c") (simp add: c' zmq_ready_def)
  ultimately have "RecvMsgWithId cm k ?c1 = (Ret ([], Some ?m, None), c')"
    using assms(1) by (simp add: RecvMsgWithId_def zmq_ready_def)
  moreover have "zmq_ready cm react c'"
    using assms(1) by (simp add: zmq_ready_def c')
  ultimately show ?thesis using send by blast
qed

interpretation zmq: rpc_connection "zmq_Connection cm" "zmq_ready cm react" "zmq_reply react"
  for cm react
proof unfold_locales
  fix s t b t' b' s'
  assume "zmq_ready cm react s" "zmq_reply react s t b = Some (t', b', s')"
  from zmq_exchange [OF this]
  show "\<exists>corr s1 i. c_SendNewMsg (zmq_Connection cm) t b s = (Ret (corr, None), s1) \<and>
      c_RecvMsgWithId (zmq_Connection cm) corr s1 = (Ret (i, Some \<lparr>Message_MessageType = t',
        Message_CorrelationId = corr, Message_Content = b'\<rparr>, None), s')"
    and "zmq_ready cm react s'"
    by (auto simp: zmq_Connection_def)
qed


text \<open>A peer that takes every message and keeps it: what is sent can be read off its state.\<close>

definition recorder :: "bytes list list \<Rightarrow> bytes list \<Rightarrow> bytes list list \<times> (go_error + bytes list) list \<times> go_error option" where
  "recorder out frs = (out @ [frs], [], None)"

section \<open>Messages in flight\<close>

text \<open>
  \<open>in_flight cm c M\<close>: the messages that have reached the connection \<open>c\<close>, whether stored or still
  in the socket, are well formed, have pairwise different correlation ids and are given by \<open>M\<close>.
\<close>

definition frame_loads :: "Message codec \<Rightarrow> bytes list \<Rightarrow> (string \<times> Message) option" where
  "frame_loads cm fr = (case frame_data fr of
      None \<Rightarrow> None
    | Some (i, d) \<Rightarrow> (case Unmarshal cm d of (m, None) \<Rightarrow> Some (i, m) | _ \<Rightarrow> None))"

abbreviation stored_entry :: "string \<times> Message \<Rightarrow> string \<times> storedMsg" where
  "stored_entry im \<equiv> (Message_CorrelationId (snd im), \<lparr>stored_Id = fst im, stored_Msg = snd im\<rparr>)"

definition in_flight :: "Message codec \<Rightarrow> 'p ZmqConnection \<Rightarrow> (string \<rightharpoonup> storedMsg) \<Rightarrow> bool" where
  "in_flight cm c M \<longleftrightarrow> \<not> sk_closed (conn_socket c) \<and>
    (\<exists>frs ms. inbox c = map Inr frs \<and> map (frame_loads cm) frs = map Some ms \<and>
       distinct (map fst (conn_incoming c @ map stored_entry ms)) \<and>
       M = map_of (conn_incoming c @ map stored_entry ms))"

lemma frame_loads_msg: "frame_loads cm fr = Some im \<Longrightarrow> frame_msg cm fr = Some im"
  by (auto simp: frame_loads_def frame_msg_def split: option.splits prod.splits)

lemma stash_new:
  "distinct (map fst (inc @ map stored_entry ms)) \<Longrightarrow> stash inc ms = inc @ map stored_entry ms"
proof (induction ms arbitrary: inc)
  case Nil
  then show ?case by (simp add: stash_def)
next
  case (Cons im ms)
  have new: "k \<notin> fst ` set al \<Longrightarrow> AList.update k v al = al @ [(k, v)]" for k v and al :: "(string \<times> storedMsg) list"
    by (induction al) auto
  obtain i m where im: "im = (i, m)" by (cases im)
  have "stash inc (im # ms) = stash (inc @ [stored_entry im]) ms"
    using Cons.prems new [of "Message_CorrelationId m" inc] by (auto simp: stash_def im)
  also have "\<dots> = inc @ map stored_entry (im # ms)"
    using Cons.prems Cons.IH [of "inc @ [stored_entry im]"] by (auto simp: comp_def)
  finally show ?case .
qed

text \<open>Where the message with a given id is among those in the socket.\<close>

lemma map_of_entries_split:
  assumes "map_of (map stored_entry ms) k = Some st"
  obtains pre i m post where "ms = pre @ (i, m) # post" "Message_CorrelationId m = k"
    "st = \<lparr>stored_Id = i, stored_Msg = m\<rparr>" "\<forall>(i, m) \<in> set pre. Message_CorrelationId m \<noteq> k"
  using assms
proof (induction ms arbitrary: thesis)
  case Nil
  then show ?case by simp
next
  case (Cons im ms)
  show ?case
  proof (cases "Message_CorrelationId (snd im) = k")
    case True
    then show ?thesis using Cons.prems(1) [of "[]" "fst im" "snd im" ms] Cons.prems(2) by auto
  next
    case False
    with Cons.prems(2) have "map_of (map stored_entry ms) k = Some st" by auto
    then obtain pre i m post where "ms = pre @ (i, m) # post" "Message_CorrelationId m = k"
      "st = \<lparr>stored_Id = i, stored_Msg = m\<rparr>" "\<forall>(i, m) \<in> set pre. Message_CorrelationId m \<noteq> k"
      using Cons.IH by blast
    then show ?thesis using Cons.prems(1) [of "im # pre" i m post] False by (cases im) auto
  qed
qed

lemma RecvMsgWithId_in_flight:
  assumes "in_flight cm c M" "M k = Some st"
  obtains c' M' where "RecvMsgWithId cm k c = (Ret (stored_Id st, Some (stored_Msg st), None), c')"
    "in_flight cm c' M'" "\<forall>k'. k' \<noteq> k \<longrightarrow> M' k' = M k'"
proof (cases "map_of (conn_incoming c) k")
  case (Some st')
  with assms that show thesis by (auto simp: RecvMsgWithId_def in_flight_def)
next
  case None
  from assms(1) obtain frs ms where fl: "\<not> sk_closed (conn_socket c)" "inbox c = map Inr frs"
    "map (frame_loads cm) frs = map Some ms" "distinct (map fst (conn_incoming c @ map stored_entry ms))"
    "M = map_of (conn_incoming c @ map stored_entry ms)" by (auto simp: in_flight_def)
  with assms(2) None have "map_of (map stored_entry ms) k = Some st"
    by (simp add: map_add_def split: option.splits)
  then obtain pre i m post where ms: "ms = pre @ (i, m) # post" "Message_CorrelationId m = k"
    "st = \<lparr>stored_Id = i, stored_Msg = m\<rparr>" "\<forall>(i, m) \<in> set pre. Message_CorrelationId m \<noteq> k"
    by (rule map_of_entries_split)
  with fl(3) obtain fpre fr fpost where frs: "frs = fpre @ fr # fpost"
    "map (frame_loads cm) fpre = map Some pre" "frame_loads cm fr = Some (i, m)"
    "map (frame_loads cm) fpost = map Some post"
    by (auto simp: map_eq_append_conv map_eq_Cons_conv append_eq_map_conv Cons_eq_map_conv)
  have pre: "map (frame_msg cm) fpre = map Some pre"
    using frs(2) frame_loads_msg by (auto simp: list_eq_iff_nth_eq)
  from frs(3) obtain d where d: "frame_data fr = Some (i, d)" "Unmarshal cm d = (m, None)"
    by (auto simp: frame_loads_def split: option.splits prod.splits)
  let ?c1 = "(set_inbox (map Inr (fr # fpost)) c)\<lparr>conn_incoming := conn_incoming c @ map stored_entry pre\<rparr>"
  have "stash (conn_incoming c) pre = conn_incoming c @ map stored_entry pre"
    using fl(4) ms(1) by (intro stash_new) auto
  then have "RecvMsgWithId_loop cm k c = RecvMsgWithId_loop cm k ?c1"
    using RecvMsgWithId_loop_skips [OF fl(1) _ pre ms(4), of "map Inr (fr # fpost)"] fl(2) frs(1) by simp
  also have "\<dots> = (Ret (i, Some m, None), set_inbox (map Inr fpost) ?c1)"
    using fl(1) d ms(2) by (intro RecvMsgWithId_loop_hit [where fr = fr]) auto
  finally have "RecvMsgWithId cm k c = (Ret (i, Some m, None), set_inbox (map Inr fpost) ?c1)"
    using None by (simp add: RecvMsgWithId_def)
  moreover have "in_flight cm (set_inbox (map Inr fpost) ?c1)
      (map_of (conn_incoming c @ map stored_entry pre @ map stored_entry post))"
    using fl(1,4) ms(1) frs(4) unfolding in_flight_def
    by (auto intro!: exI [of _ fpost] exI [of _ post])
  moreover have "\<forall>k'. k' \<noteq> k \<longrightarrow>
      map_of (conn_incoming c @ map stored_entry pre @ map stored_entry post) k' = M k'"
    using ms(2) by (auto simp: fl(5) ms(1) map_add_def split: option.splits)
  ultimately show thesis using that ms(3) by auto
qed

text \<open>Receiving the answers to several requests, one after the other.\<close>

fun recv_each :: "Message codec \<Rightarrow> string list \<Rightarrow> ('p ZmqConnection, (string \<times> Message option \<times> go_error option) list) proc" where
  "recv_each cm [] = retP []"
| "recv_each cm (k # ks) = bindP (RecvMsgWithId cm k) (\<lambda>r. bindP (recv_each cm ks) (\<lambda>rs. retP (r # rs)))"

lemma RecvMsgWithId_wf:
  assumes "conn_wf c" "RecvMsgWithId cm k c = (r, c')"
  shows "conn_wf c' \<and> (\<forall>i m e. r = Ret (i, Some m, e) \<longrightarrow> Message_CorrelationId m = k)"
proof (cases "map_of (conn_incoming c) k")
  case None
  with assms show ?thesis by (intro RecvMsgWithId_loop_wf) (auto simp: RecvMsgWithId_def)
next
  case (Some st)
  then have "(k, st) \<in> set (conn_incoming c)" by (rule map_of_SomeD)
  with assms Some show ?thesis by (auto simp: RecvMsgWithId_def conn_wf_def)
qed

text \<open>The methods of a connection as steps of its state.\<close>

inductive conn_step :: "Message codec \<Rightarrow> 'p ZmqConnection \<Rightarrow> 'p ZmqConnection \<Rightarrow> bool" for cm where
  step_SendData: "SendData rid d c = (r, c') \<Longrightarrow> conn_step cm c c'"
| step_SendMsgTo: "SendMsgTo cm rid t b k c = (r, c') \<Longrightarrow> conn_step cm c c'"
| step_SendNewMsgTo: "SendNewMsgTo cm rid t b c = (r, c') \<Longrightarrow> conn_step cm c c'"
| step_RecvData: "RecvData c = (r, c') \<Longrightarrow> conn_step cm c c'"
| step_RecvMsg: "RecvMsg cm n c = (r, c') \<Longrightarrow> conn_step cm c c'"
| step_RecvMsgWithId: "RecvMsgWithId cm k c = (r, c') \<Longrightarrow> conn_step cm c c'"
| step_Close: "Close c = (r, c') \<Longrightarrow> conn_step cm c c'"
| step_arrival: "conn_step cm c (c\<lparr>conn_socket := (conn_socket c)\<lparr>sk_inbox := inbox c @ ms\<rparr>\<rparr>)"

lemma send_incoming:
  "SendData rid d c = (r, c') \<Longrightarrow> conn_incoming c' = conn_incoming c"
  "SendMsgTo cm rid t b k c = (r, c') \<Longrightarrow> conn_incoming c' = conn_incoming c"
  "SendNewMsgTo cm rid t b c = (r', c') \<Longrightarrow> conn_incoming c' = conn_incoming c"
  "RecvData c = (r'', c') \<Longrightarrow> conn_incoming c' = conn_incoming c"
  by (auto simp: SendData_def SendMsgTo_def SendNewMsgTo_def GenerateId_def RecvData_def bindP_def Let_def
      split: prod.splits option.splits outcome.splits if_splits)

lemma RecvMsg_wf:
  assumes "conn_wf c" "RecvMsg cm n c = (r, c')"
  shows "conn_wf c'"
proof (cases "conn_incoming c")
  case (Cons e es)
  obtain k st where "(e # es) ! (n mod length (e # es)) = (k, st)" by fastforce
  with Cons assms(2) have "c' = c\<lparr>conn_incoming := AList.delete k (conn_incoming c)\<rparr>"
    by (simp add: RecvMsg_def Let_def)
  with assms(1) show ?thesis by (simp only: conn_wf_delete)
next
  case Nil
  obtain r1 c1 where rd: "RecvData c = (r1, c1)" by (cases "RecvData c")
  with Nil assms(2) have "c' = c1"
    by (auto simp: RecvMsg_def bindP_def split: outcome.splits option.splits prod.splits)
  with send_incoming(4) [OF rd] assms(1) show ?thesis by (simp add: conn_wf_def)
qed

lemma conn_step_wf:
  assumes "conn_step cm c c'" "conn_wf c"
  shows "conn_wf c'"
  using assms(1)
proof cases
  case step_RecvMsg
  with assms(2) show ?thesis by (simp add: RecvMsg_wf)
next
  case step_RecvMsgWithId
  with assms(2) show ?thesis by (simp add: RecvMsgWithId_wf)
qed (use assms(2) in \<open>auto simp: Close_def conn_wf_def dest!: send_incoming\<close>)

section \<open>Properties\<close>

text \<open>
  C14: responses are matched to requests by correlation id whatever the order of arrival.  When
  the messages that have arrived are well formed and have different correlation ids, receiving
  any of them one after the other by RecvMsgWithId, in any order, returns for each id exactly the
  message with that id and the identity of its sender, without error and without waiting.
\<close>

theorem RecvMsgWithId_any_order:
  assumes "in_flight cm c M" "distinct ks" "set ks \<subseteq> dom M"
  shows "\<exists>c'. recv_each cm ks c =
    (Ret (map (\<lambda>k. (stored_Id (the (M k)), Some (stored_Msg (the (M k))), None)) ks), c')"
  using assms
proof (induction ks arbitrary: c M)
  case Nil
  then show ?case by simp
next
  case (Cons k ks)
  from Cons.prems(3) obtain st where st: "M k = Some st" by auto
  with Cons.prems(1) obtain c1 M1 where 1:
    "RecvMsgWithId cm k c = (Ret (stored_Id st, Some (stored_Msg st), None), c1)"
    "in_flight cm c1 M1" "\<forall>k'. k' \<noteq> k \<longrightarrow> M1 k' = M k'"
    by (rule RecvMsgWithId_in_flight)
  have same: "M1 k' = M k'" if "k' \<in> set ks" for k' using 1(3) that Cons.prems(2) by auto
  with Cons.prems(3) have "set ks \<subseteq> dom M1" by fastforce
  from Cons.IH [OF 1(2) _ this] Cons.prems(2) obtain c2 where "recv_each cm ks c1 =
      (Ret (map (\<lambda>k. (stored_Id (the (M1 k)), Some (stored_Msg (the (M1 k))), None)) ks), c2)"
    by auto
  with 1(1) st same show ?case by (auto cong: map_cong)
qed

text \<open>Two answers that arrived in the opposite order of the requests, and a third that is stored.\<close>

definition demo_msg :: "string \<Rightarrow> bytes \<Rightarrow> Message" where
  "demo_msg k b = \<lparr>Message_MessageType = Message_TP_STATE_GET_RESPONSE, Message_CorrelationId = k,
     Message_Content = b\<rparr>"

definition demo_inflight :: "unit ZmqConnection" where
  "demo_inflight = \<lparr>conn_identity = ''a'', conn_uri = ''tcp://v:4004'',
     conn_socket = \<lparr>sk_peer = (), sk_deliver = (\<lambda>p frs. (p, [], None)),
       sk_inbox = map (\<lambda>m. Inr [fst (Marshal unary_codec m)]) [demo_msg ''2'' ''two'', demo_msg ''1'' ''one''],
       sk_closed = False, sk_closed_error = ErrorString ''closed''\<rparr>,
     conn_incoming = [(''0'', \<lparr>stored_Id = [], stored_Msg = demo_msg ''0'' ''zero''\<rparr>)],
     conn_uuid = nat_digits, conn_uuid_next = 3\<rparr>"

lemma demo_inflight_ok:
  "in_flight unary_codec demo_inflight (map_of (map stored_entry
     [([], demo_msg ''0'' ''zero''), ([], demo_msg ''2'' ''two''), ([], demo_msg ''1'' ''one'')]))"
proof -
  have "frame_loads unary_codec [fst (Marshal unary_codec m)] = Some ([], m)" for m :: Message
    by (simp add: frame_loads_def frame_data_def)
  then show ?thesis
    unfolding in_flight_def
    by (intro conjI exI [of _ "map (\<lambda>m. [fst (Marshal unary_codec m)]) [demo_msg ''2'' ''two'', demo_msg ''1'' ''one'']"]
        exI [of _ "[([], demo_msg ''2'' ''two''), ([], demo_msg ''1'' ''one'')]"])
      (simp_all add: demo_inflight_def demo_msg_def)
qed

text \<open>The hypotheses of C1 hold for these messages, taken in the order of their ids.\<close>

lemma RecvMsgWithId_any_order_witness:
  "\<exists>c'. recv_each unary_codec [''0'', ''1'', ''2''] demo_inflight =
    (Ret [([], Some (demo_msg ''0'' ''zero''), None), ([], Some (demo_msg ''1'' ''one''), None),
          ([], Some (demo_msg ''2'' ''two''), None)], c')"
  using RecvMsgWithId_any_order [OF demo_inflight_ok, of "[''0'', ''1'', ''2'']"]
  by (simp add: demo_msg_def)

text \<open>
  C22: the table of stored messages stays consistent.  In every connection that NewConnection
  creates and any sequence of its methods reaches, each stored message sits under its own
  correlation id, at most one per id; hence every message RecvMsgWithId returns there, also with
  an error, has the correlation id asked for.
\<close>

theorem reachable_RecvMsgWithId_sound:
  assumes "NewConnection ctx uuid n t uri bind = Inr c0" "(conn_step cm)\<^sup>*\<^sup>* c0 c"
  shows "conn_wf c \<and> (\<forall>k i m e c'. RecvMsgWithId cm k c = (Ret (i, Some m, e), c') \<longrightarrow>
    Message_CorrelationId m = k)"
proof -
  have "conn_wf c0"
    using assms(1) by (auto simp: NewConnection_def conn_wf_def Let_def split: sum.splits prod.splits option.splits)
  with assms(2) have "conn_wf c" by (induction rule: rtranclp_induct) (auto dest: conn_step_wf)
  then show ?thesis by (auto dest: RecvMsgWithId_wf)
qed

text \<open>A new connection, one request sent and its answer taken by correlation id.\<close>

definition demo_zmq :: "unit zmq_context" where
  "demo_zmq = \<lparr>zc_NewSocket = (\<lambda>t. Inr \<lparr>sk_peer = (), sk_deliver = (\<lambda>p frs. (p, map (\<lambda>d. Inr [d]) frs, None)),
       sk_inbox = [], sk_closed = False, sk_closed_error = ErrorString ''closed''\<rparr>),
     zc_SetIdentity = (\<lambda>i sk. sk), zc_Bind = (\<lambda>u sk. (None, sk)), zc_Connect = (\<lambda>u sk. (None, sk)),
     zc_Monitor = (\<lambda>u e sk. (None, sk)), zc_PAIR = 0\<rparr>"

lemma reachable_RecvMsgWithId_sound_witness:
  "\<exists>c0 c1. NewConnection demo_zmq nat_digits 0 5 ''tcp://v:4004'' False = Inr c0 \<and>
     (conn_step unary_codec)\<^sup>*\<^sup>* c0 c1 \<and> conn_wf c1 \<and>
     RecvMsgWithId unary_codec (nat_digits 1) c1 = (Ret ([], Some \<lparr>Message_MessageType = Message_PING_REQUEST,
       Message_CorrelationId = nat_digits 1, Message_Content = ''x''\<rparr>, None), set_inbox [] c1)"
proof -
  let ?m = "\<lparr>Message_MessageType = Message_PING_REQUEST, Message_CorrelationId = nat_digits 1, Message_Content = ''x''\<rparr>"
  let ?c0 = "\<lparr>conn_identity = nat_digits 0, conn_uri = ''tcp://v:4004'',
    conn_socket = \<lparr>sk_peer = (), sk_deliver = (\<lambda>p frs. (p, map (\<lambda>d. Inr [d]) frs, None)),
       sk_inbox = [], sk_closed = False, sk_closed_error = ErrorString ''closed''\<rparr>,
    conn_incoming = [], conn_uuid = nat_digits, conn_uuid_next = 1\<rparr>"
  let ?c1 = "?c0\<lparr>conn_uuid_next := 2, conn_socket := (conn_socket ?c0)\<lparr>sk_inbox := [Inr [fst (Marshal unary_codec ?m)]]\<rparr>\<rparr>"
  have new: "NewConnection demo_zmq nat_digits 0 5 ''tcp://v:4004'' False = Inr ?c0"
    by (simp add: NewConnection_def demo_zmq_def)
  have "SendNewMsg unary_codec Message_PING_REQUEST ''x'' ?c0 = (Ret (nat_digits 1, None), ?c1)"
    by (subst SendNewMsg_delivers [where k = "nat_digits 1"]) (auto simp: DumpMsg_def)
  then have st: "(conn_step unary_codec)\<^sup>*\<^sup>* ?c0 ?c1"
    unfolding SendNewMsg_def by (intro r_into_rtranclp) (rule step_SendNewMsgTo)
  have "RecvMsgWithId unary_codec (nat_digits 1) ?c1 = (Ret ([], Some ?m, None), set_inbox [] ?c1)"
    unfolding RecvMsgWithId_def
    by (simp, subst RecvMsgWithId_loop_hit [where fr = "[fst (Marshal unary_codec ?m)]" and m = ?m and e = None])
      (auto simp: frame_data_def)
  with new st reachable_RecvMsgWithId_sound [OF new st] show ?thesis by blast
qed

text \<open>
  A message that RecvMsgWithId finds in the table of stored messages stays there: asking for
  the same id again, and a plain RecvMsg when it is the only stored message, return it a second
  time.  RecvMsg, in contrast, removes what it returns.
\<close>

theorem stored_message_returned_twice:
  assumes "conn_incoming c = [(k, st)]"
  shows "RecvMsgWithId cm k c = (Ret (stored_Id st, Some (stored_Msg st), None), c) \<and>
    RecvMsg cm n (snd (RecvMsgWithId cm k c)) =
      (Ret (stored_Id st, Some (stored_Msg st), None), c\<lparr>conn_incoming := []\<rparr>)"
  using assms by (simp add: RecvMsgWithId_def RecvMsg_def)

lemma demo_inflight_incoming:
  "conn_incoming demo_inflight = [(''0'', \<lparr>stored_Id = [], stored_Msg = demo_msg ''0'' ''zero''\<rparr>)]"
  by (simp add: demo_inflight_def)

lemma stored_message_returned_twice_witness:
  "RecvMsgWithId unary_codec ''0'' demo_inflight = (Ret ([], Some (demo_msg ''0'' ''zero''), None), demo_inflight) \<and>
   RecvMsg unary_codec 7 (snd (RecvMsgWithId unary_codec ''0'' demo_inflight)) =
     (Ret ([], Some (demo_msg ''0'' ''zero''), None), demo_inflight\<lparr>conn_incoming := []\<rparr>)"
  by (rule stored_message_returned_twice [OF demo_inflight_incoming, simplified storedMsg.simps])

end
