(* ===== verification/Tp_Context.thy ===== *)
theory Tp_Context
  imports Messaging
begin

text \<open>
  processor/context.go: the Context through which a transaction handler reads and writes
  validator state, adds receipt data and adds events.  Each operation is the whole method:
  marshal the request, send it, receive the response by correlation id, check the id and the
  type, unmarshal, switch on the status.

  A Go map argument or result that is ranged over is an association list in the order of the
  visit; a map that is only looked up is a partial function.
\<close>

section \<open>The operations\<close>

record 's Context =
  ctx_connection :: "'s Connection"
  ctx_contextId :: string

record Attribute =
  attr_Key :: string
  attr_Value :: string

definition NewContext :: "'s Connection \<Rightarrow> string \<Rightarrow> 's Context" where
  "NewContext connection contextId = \<lparr>ctx_connection = connection, ctx_contextId = contextId\<rparr>"

text \<open>A slice of strings as fmt prints it.\<close>

definition show_strings :: "string list \<Rightarrow> string" where
  "show_strings ss = ''['' @ join_with CHR '' '' ss @ '']''"

definition unexpected_id :: "string \<Rightarrow> Message option \<Rightarrow> go_error" where
  "unexpected_id corrId msg = ErrorString (''Expected message with correlation id '' @ corrId
      @ '' but got '' @ GetCorrelationId msg)"

definition unexpected_type :: "string \<Rightarrow> Message option \<Rightarrow> go_error" where
  "unexpected_type name msg = ErrorString (''Expected '' @ name @ '' but got ''
      @ Message_MessageType_String (GetMessageType msg))"

definition GetState ::
  "tp_pb \<Rightarrow> 's Context \<Rightarrow> string list \<Rightarrow> ('s, go_error + (string \<rightharpoonup> bytes)) proc" where
  "GetState pb self addresses =
    (case Marshal (pbTpStateGetRequest pb)
            \<lparr>TpStateGetRequest_ContextId = ctx_contextId self, TpStateGetRequest_Addresses = addresses\<rparr> of
       (_, Some err) \<Rightarrow> retP (Inl (ErrorString (''Failed to marshal TpStateGetRequest: '' @ Error err)))
     | (bytes, None) \<Rightarrow>
        bindP (c_SendNewMsg (ctx_connection self) Message_TP_STATE_GET_REQUEST bytes) (\<lambda>(corrId, err).
          case err of
            Some e \<Rightarrow> retP (Inl (ErrorString (''Failed to send TpStateGetRequest: '' @ Error e)))
          | None \<Rightarrow>
             bindP (c_RecvMsgWithId (ctx_connection self) corrId) (\<lambda>(_, msg, _).
               if GetCorrelationId msg \<noteq> corrId then retP (Inl (unexpected_id corrId msg))
               else if GetMessageType msg \<noteq> Message_TP_STATE_GET_RESPONSE
                 then retP (Inl (unexpected_type ''TpStateGetResponse'' msg))
               else case Unmarshal (pbTpStateGetResponse pb) (GetContent msg) of
                   (_, Some e) \<Rightarrow> retP (Inl (ErrorString (''Failed to unmarshal TpStateGetResponse: '' @ Error e)))
                 | (response, None) \<Rightarrow>
                    if TpStateGetResponse_Status response = TpStateGetResponse_AUTHORIZATION_ERROR
                    then retP (Inl (AuthorizationException
                      (''Tried to get unauthorized address: '' @ show_strings addresses) []))
                    else retP (Inr (foldl (\<lambda>results entry.
                        if length (TpStateEntry_Data entry) \<noteq> 0
                        then results(TpStateEntry_Address entry \<mapsto> TpStateEntry_Data entry)
                        else results) Map.empty (TpStateGetResponse_Entries response))))))"

definition SetState ::
  "tp_pb \<Rightarrow> 's Context \<Rightarrow> (string \<times> bytes) list \<Rightarrow> ('s, go_error + string list) proc" where
  "SetState pb self pairs =
    (let entries = map (\<lambda>(address, data). \<lparr>TpStateEntry_Address = address, TpStateEntry_Data = data\<rparr>) pairs
     in case Marshal (pbTpStateSetRequest pb)
            \<lparr>TpStateSetRequest_ContextId = ctx_contextId self, TpStateSetRequest_Entries = entries\<rparr> of
       (_, Some err) \<Rightarrow> retP (Inl (ErrorString (''Failed to marshal: '' @ Error err)))
     | (bytes, None) \<Rightarrow>
        bindP (c_SendNewMsg (ctx_connection self) Message_TP_STATE_SET_REQUEST bytes) (\<lambda>(corrId, err).
          case err of
            Some e \<Rightarrow> retP (Inl (ErrorString (''Failed to send set: '' @ Error e)))
          | None \<Rightarrow>
             bindP (c_RecvMsgWithId (ctx_connection self) corrId) (\<lambda>(_, msg, _).
               if GetCorrelationId msg \<noteq> corrId then retP (Inl (unexpected_id corrId msg))
               else if GetMessageType msg \<noteq> Message_TP_STATE_SET_RESPONSE
                 then retP (Inl (unexpected_type ''TP_STATE_SET_RESPONSE'' msg))
               else case Unmarshal (pbTpStateSetResponse pb) (GetContent msg) of
                   (_, Some e) \<Rightarrow> retP (Inl (ErrorString (''Failed to unmarshal TpStateSetResponse: '' @ Error e)))
                 | (response, None) \<Rightarrow>
                    if TpStateSetResponse_Status response = TpStateSetResponse_AUTHORIZATION_ERROR
                    then retP (Inl (AuthorizationException
                      (''Tried to set unauthorized address: '' @ show_strings (map fst pairs)) []))
                    else retP (Inr (TpStateSetResponse_Addresses response)))))"

definition DeleteState ::
  "tp_pb \<Rightarrow> 's Context \<Rightarrow> string list \<Rightarrow> ('s, go_error + string list) proc" where
  "DeleteState pb self addresses =
    (case Marshal (pbTpStateDeleteRequest pb)
            \<lparr>TpStateDeleteRequest_ContextId = ctx_contextId self, TpStateDeleteRequest_Addresses = addresses\<rparr> of
       (_, Some err) \<Rightarrow> retP (Inl (ErrorString (''Failed to marshal TpStateDeleteRequest: '' @ Error err)))
     | (bytes, None) \<Rightarrow>
        bindP (c_SendNewMsg (ctx_connection self) Message_TP_STATE_DELETE_REQUEST bytes) (\<lambda>(corrId, err).
          case err of
            Some e \<Rightarrow> retP (Inl (ErrorString (''Failed to send TpStateDeleteRequest: '' @ Error e)))
          | None \<Rightarrow>
             bindP (c_RecvMsgWithId (ctx_connection self) corrId) (\<lambda>(_, msg, _).
               if GetCorrelationId msg \<noteq> corrId then retP (Inl (unexpected_id corrId msg))
               else if GetMessageType msg \<noteq> Message_TP_STATE_DELETE_RESPONSE
                 then retP (Inl (unexpected_type ''TpStateDeleteResponse'' msg))
               else case Unmarshal (pbTpStateDeleteResponse pb) (GetContent msg) of
                   (_, Some e) \<Rightarrow> retP (Inl (ErrorString (''Failed to unmarshal TpStatedDeleteResponse: '' @ Error e)))
                 | (response, None) \<Rightarrow>
                    if TpStateDeleteResponse_Status response = TpStateDeleteResponse_AUTHORIZATION_ERROR
                    then retP (Inl (AuthorizationException
                      (''Tried to get unauthorized address: '' @ show_strings addresses) []))
                    else retP (Inr (TpStateDeleteResponse_Addresses response)))))"

definition AddReceiptData :: "tp_pb \<Rightarrow> 's Context \<Rightarrow> bytes \<Rightarrow> ('s, go_error option) proc" where
  "AddReceiptData pb self data =
    (case Marshal (pbTpReceiptAddDataRequest pb)
            \<lparr>TpReceiptAddDataRequest_ContextId = ctx_contextId self, TpReceiptAddDataRequest_Data = data\<rparr> of
       (_, Some err) \<Rightarrow> retP (Some (ErrorString (''Failed to marshal: '' @ Error err)))
     | (bytes, None) \<Rightarrow>
        bindP (c_SendNewMsg (ctx_connection self) Message_TP_RECEIPT_ADD_DATA_REQUEST bytes) (\<lambda>(corrId, err).
          case err of
            Some e \<Rightarrow> retP (Some (ErrorString (''Failed to add receipt data: '' @ Error e)))
          | None \<Rightarrow>
             bindP (c_RecvMsgWithId (ctx_connection self) corrId) (\<lambda>(_, msg, _).
               if GetCorrelationId msg \<noteq> corrId then retP (Some (unexpected_id corrId msg))
               else if GetMessageType msg \<noteq> Message_TP_RECEIPT_ADD_DATA_RESPONSE
                 then retP (Some (unexpected_type ''TP_RECEIPT_ADD_DATA_RESPONSE'' msg))
               else case Unmarshal (pbTpReceiptAddDataResponse pb) (GetContent msg) of
                   (_, Some e) \<Rightarrow> retP (Some (ErrorString (''Failed to unmarshal TpReceiptAddDataResponse: '' @ Error e)))
                 | (response, None) \<Rightarrow>
                    if TpReceiptAddDataResponse_Status response = TpReceiptAddDataResponse_ERROR
                    then retP (Some (ErrorString ''Failed to add receipt data''))
                    else retP None)))"

definition AddEvent ::
  "tp_pb \<Rightarrow> 's Context \<Rightarrow> string \<Rightarrow> Attribute list \<Rightarrow> bytes \<Rightarrow> ('s, go_error option) proc" where
  "AddEvent pb self event_type attributes event_data =
    (let event_attributes = map (\<lambda>attribute. \<lparr>Event_Attribute_Key = attr_Key attribute,
                                              Event_Attribute_Value = attr_Value attribute\<rparr>) attributes;
         event = \<lparr>Event_EventType = event_type, Event_Attributes = event_attributes, Event_Data = event_data\<rparr>
     in case Marshal (pbTpEventAddRequest pb)
            \<lparr>TpEventAddRequest_ContextId = ctx_contextId self, TpEventAddRequest_Event = Some event\<rparr> of
       (_, Some err) \<Rightarrow> retP (Some (ErrorString (''Failed to marshal: '' @ Error err)))
     | (bytes, None) \<Rightarrow>
        bindP (c_SendNewMsg (ctx_connection self) Message_TP_EVENT_ADD_REQUEST bytes) (\<lambda>(corrId, err).
          case err of
            Some e \<Rightarrow> retP (Some (ErrorString (''Failed to add event: '' @ Error e)))
          | None \<Rightarrow>
             bindP (c_RecvMsgWithId (ctx_connection self) corrId) (\<lambda>(_, msg, _).
               if GetCorrelationId msg \<noteq> corrId then retP (Some (unexpected_id corrId msg))
               else if GetMessageType msg \<noteq> Message_TP_EVENT_ADD_RESPONSE
                 then retP (Some (unexpected_type ''TP_EVENT_ADD_RESPONSE'' msg))
               else case Unmarshal (pbTpEventAddResponse pb) (GetContent msg) of
                   (_, Some e) \<Rightarrow> retP (Some (ErrorString (''Failed to unmarshal TpEventAddResponse: '' @ Error e)))
                 | (response, None) \<Rightarrow>
                    if TpEventAddResponse_Status response = TpEventAddResponse_ERROR
                    then retP (Some (ErrorString ''Failed to add event''))
                    else retP None)))"

text \<open>The methods of a Context as the handlers see them.\<close>

record 's Context_methods =
  x_GetState :: "string list \<Rightarrow> ('s, go_error + (string \<rightharpoonup> bytes)) proc"
  x_SetState :: "(string \<times> bytes) list \<Rightarrow> ('s, go_error + string list) proc"
  x_DeleteState :: "string list \<Rightarrow> ('s, go_error + string list) proc"
  x_AddReceiptData :: "bytes \<Rightarrow> ('s, go_error option) proc"
  x_AddEvent :: "string \<Rightarrow> Attribute list \<Rightarrow> bytes \<Rightarrow> ('s, go_error option) proc"

definition methods :: "tp_pb \<Rightarrow> 's Context \<Rightarrow> 's Context_methods" where
  "methods pb self = \<lparr>x_GetState = GetState pb self, x_SetState = SetState pb self,
     x_DeleteState = DeleteState pb self, x_AddReceiptData = AddReceiptData pb self,
     x_AddEvent = AddEvent pb self\<rparr>"

section \<open>The contract of state access\<close>

text \<open>
  What the handlers rely on.  \<open>view s\<close> is the validator's state as the transaction sees it: the
  data at each address, empty when nothing is stored.  \<open>rd\<close> and \<open>wr\<close> are the addresses the
  transaction may read and write.
\<close>

definition state_upd :: "(string \<Rightarrow> bytes) \<Rightarrow> (string \<times> bytes) list \<Rightarrow> string \<Rightarrow> bytes" where
  "state_upd f pairs a = (case map_of pairs a of Some d \<Rightarrow> d | None \<Rightarrow> f a)"

lemma state_upd_single [simp]: "state_upd f [(a, d)] = f(a := d)"
  by (auto simp: state_upd_def fun_eq_iff)

locale state_context =
  fixes ctx :: "'s Context_methods"
    and ok :: "'s \<Rightarrow> bool"
    and view :: "'s \<Rightarrow> string \<Rightarrow> bytes"
    and rd wr :: "string \<Rightarrow> bool"
  assumes get_ok: "ok s \<Longrightarrow> list_all rd as \<Longrightarrow> \<exists>s'. x_GetState ctx as s =
        (Ret (Inr (\<lambda>a. if a \<in> set as \<and> view s a \<noteq> [] then Some (view s a) else None)), s') \<and>
        ok s' \<and> view s' = view s"
    and get_denied: "ok s \<Longrightarrow> \<not> list_all rd as \<Longrightarrow> \<exists>s' m. x_GetState ctx as s =
        (Ret (Inl (AuthorizationException m [])), s') \<and> ok s' \<and> view s' = view s"
    and set_ok: "ok s \<Longrightarrow> distinct (map fst ps) \<Longrightarrow> list_all wr (map fst ps) \<Longrightarrow>
        \<exists>s'. x_SetState ctx ps s = (Ret (Inr (map fst ps)), s') \<and> ok s' \<and> view s' = state_upd (view s) ps"
    and set_denied: "ok s \<Longrightarrow> distinct (map fst ps) \<Longrightarrow> \<not> list_all wr (map fst ps) \<Longrightarrow>
        \<exists>s' m. x_SetState ctx ps s = (Ret (Inl (AuthorizationException m [])), s') \<and> ok s' \<and> view s' = view s"
    and del_ok: "ok s \<Longrightarrow> list_all wr as \<Longrightarrow> \<exists>s'. x_DeleteState ctx as s =
        (Ret (Inr (filter (\<lambda>a. view s a \<noteq> []) as)), s') \<and> ok s' \<and>
        view s' = (\<lambda>a. if a \<in> set as then [] else view s a)"
    and del_denied: "ok s \<Longrightarrow> \<not> list_all wr as \<Longrightarrow> \<exists>s' m. x_DeleteState ctx as s =
        (Ret (Inl (AuthorizationException m [])), s') \<and> ok s' \<and> view s' = view s"
begin

text \<open>The forms for one address, which is how the handlers call them.\<close>

lemma get_one:
  assumes "ok s" "rd a"
  obtains s' where "x_GetState ctx [a] s =
      (Ret (Inr (\<lambda>x. if x = a \<and> view s a \<noteq> [] then Some (view s a) else None)), s')"
    "ok s'" "view s' = view s"
proof -
  have "(\<lambda>x. if x \<in> set [a] \<and> view s x \<noteq> [] then Some (view s x) else None) =
    (\<lambda>x. if x = a \<and> view s a \<noteq> [] then Some (view s a) else None)" by auto
  with get_ok [of s "[a]"] assms that show thesis by auto
qed

lemma get_one_denied:
  assumes "ok s" "\<not> rd a"
  obtains s' m where "x_GetState ctx [a] s = (Ret (Inl (AuthorizationException m [])), s')"
    "ok s'" "view s' = view s"
  using get_denied [of s "[a]"] assms that by auto

lemma set_one:
  assumes "ok s" "wr a"
  obtains s' where "x_SetState ctx [(a, d)] s = (Ret (Inr [a]), s')" "ok s'" "view s' = (view s)(a := d)"
  using set_ok [of s "[(a, d)]"] assms that by auto

lemma set_one_denied:
  assumes "ok s" "\<not> wr a"
  obtains s' m where "x_SetState ctx [(a, d)] s = (Ret (Inl (AuthorizationException m [])), s')"
    "ok s'" "view s' = view s"
  using set_denied [of s "[(a, d)]"] assms that by auto

lemma del_one:
  assumes "ok s" "wr a"
  obtains s' r where "x_DeleteState ctx [a] s = (Ret (Inr r), s')" "ok s'" "view s' = (view s)(a := [])"
proof -
  have "(\<lambda>x. if x \<in> set [a] then [] else view s x) = (view s)(a := [])" by auto
  with del_ok [of s "[a]"] assms that show thesis by auto
qed

end

section \<open>The operations over a connection that keeps the request and response contract\<close>

context rpc_connection
begin

lemma GetState_rpc:
  fixes pb cid as resp
  defines "req \<equiv> \<lparr>TpStateGetRequest_ContextId = cid, TpStateGetRequest_Addresses = as\<rparr>"
  assumes "ready s" "codec_ok (pbTpStateGetRequest pb) req" "codec_ok (pbTpStateGetResponse pb) resp"
    and "reply s Message_TP_STATE_GET_REQUEST (fst (Marshal (pbTpStateGetRequest pb) req)) =
      Some (Message_TP_STATE_GET_RESPONSE, fst (Marshal (pbTpStateGetResponse pb) resp), s')"
  shows "GetState pb (NewContext C cid) as s =
    (Ret (if TpStateGetResponse_Status resp = TpStateGetResponse_AUTHORIZATION_ERROR
          then Inl (AuthorizationException (''Tried to get unauthorized address: '' @ show_strings as) [])
          else Inr (foldl (\<lambda>results entry.
            if length (TpStateEntry_Data entry) \<noteq> 0
            then results(TpStateEntry_Address entry \<mapsto> TpStateEntry_Data entry)
            else results) Map.empty (TpStateGetResponse_Entries resp))), s')"
  using assms by (elim exchange_obtain codec_okE) (auto simp: GetState_def NewContext_def)

lemma SetState_rpc:
  fixes pb cid ps resp
  defines "req \<equiv> \<lparr>TpStateSetRequest_ContextId = cid, TpStateSetRequest_Entries =
      map (\<lambda>(a, d). \<lparr>TpStateEntry_Address = a, TpStateEntry_Data = d\<rparr>) ps\<rparr>"
  assumes "ready s" "codec_ok (pbTpStateSetRequest pb) req" "codec_ok (pbTpStateSetResponse pb) resp"
    and "reply s Message_TP_STATE_SET_REQUEST (fst (Marshal (pbTpStateSetRequest pb) req)) =
      Some (Message_TP_STATE_SET_RESPONSE, fst (Marshal (pbTpStateSetResponse pb) resp), s')"
  shows "SetState pb (NewContext C cid) ps s =
    (Ret (if TpStateSetResponse_Status resp = TpStateSetResponse_AUTHORIZATION_ERROR
          then Inl (AuthorizationException (''Tried to set unauthorized address: '' @ show_strings (map fst ps)) [])
          else Inr (TpStateSetResponse_Addresses resp)), s')"
  using assms by (elim exchange_obtain codec_okE) (auto simp: SetState_def NewContext_def)

lemma DeleteState_rpc:
  fixes pb cid as resp
  defines "req \<equiv> \<lparr>TpStateDeleteRequest_ContextId = cid, TpStateDeleteRequest_Addresses = as\<rparr>"
  assumes "ready s" "codec_ok (pbTpStateDeleteRequest pb) req" "codec_ok (pbTpStateDeleteResponse pb) resp"
    and "reply s Message_TP_STATE_DELETE_REQUEST (fst (Marshal (pbTpStateDeleteRequest pb) req)) =
      Some (Message_TP_STATE_DELETE_RESPONSE, fst (Marshal (pbTpStateDeleteResponse pb) resp), s')"
  shows "DeleteState pb (NewContext C cid) as s =
    (Ret (if TpStateDeleteResponse_Status resp = TpStateDeleteResponse_AUTHORIZATION_ERROR
          then Inl (AuthorizationException (''Tried to get unauthorized address: '' @ show_strings as) [])
          else Inr (TpStateDeleteResponse_Addresses resp)), s')"
  using assms by (elim exchange_obtain codec_okE) (auto simp: DeleteState_def NewContext_def)

lemma AddReceiptData_rpc:
  fixes pb cid data resp
  defines "req \<equiv> \<lparr>TpReceiptAddDataRequest_ContextId = cid, TpReceiptAddDataRequest_Data = data\<rparr>"
  assumes "ready s" "codec_ok (pbTpReceiptAddDataRequest pb) req" "codec_ok (pbTpReceiptAddDataResponse pb) resp"
    and "reply s Message_TP_RECEIPT_ADD_DATA_REQUEST (fst (Marshal (pbTpReceiptAddDataRequest pb) req)) =
      Some (Message_TP_RECEIPT_ADD_DATA_RESPONSE, fst (Marshal (pbTpReceiptAddDataResponse pb) resp), s')"
  shows "AddReceiptData pb (NewContext C cid) data s =
    (Ret (if TpReceiptAddDataResponse_Status resp = TpReceiptAddDataResponse_ERROR
          then Some (ErrorString ''Failed to add receipt data'') else None), s')"
  using assms by (elim exchange_obtain codec_okE) (auto simp: AddReceiptData_def NewContext_def)

lemma AddEvent_rpc:
  fixes pb cid et attrs data resp
  defines "req \<equiv> \<lparr>TpEventAddRequest_ContextId = cid, TpEventAddRequest_Event = Some
      \<lparr>Event_EventType = et, Event_Attributes = map (\<lambda>a. \<lparr>Event_Attribute_Key = attr_Key a,
          Event_Attribute_Value = attr_Value a\<rparr>) attrs, Event_Data = data\<rparr>\<rparr>"
  assumes "ready s" "codec_ok (pbTpEventAddRequest pb) req" "codec_ok (pbTpEventAddResponse pb) resp"
    and "reply s Message_TP_EVENT_ADD_REQUEST (fst (Marshal (pbTpEventAddRequest pb) req)) =
      Some (Message_TP_EVENT_ADD_RESPONSE, fst (Marshal (pbTpEventAddResponse pb) resp), s')"
  shows "AddEvent pb (NewContext C cid) et attrs data s =
    (Ret (if TpEventAddResponse_Status resp = TpEventAddResponse_ERROR
          then Some (ErrorString ''Failed to add event'') else None), s')"
  using assms by (elim exchange_obtain codec_okE) (auto simp: AddEvent_def NewContext_def)

end

section \<open>A validator that serves state\<close>

text \<open>
  The documented behaviour of the validator towards one transaction context, as a condition on
  its answers: a state request for readable addresses returns one entry per address, with empty
  data where nothing is stored; a set request on writable addresses stores every entry and
  returns the addresses; a delete request clears the addresses and returns those that held data;
  a request that touches an address outside the permitted set changes nothing and is answered
  with the authorization status.
\<close>

definition get_response :: "(string \<Rightarrow> bool) \<Rightarrow> (string \<Rightarrow> bytes) \<Rightarrow> string list \<Rightarrow> TpStateGetResponse" where
  "get_response rd f as = (if list_all rd as
     then \<lparr>TpStateGetResponse_Entries = map (\<lambda>a. \<lparr>TpStateEntry_Address = a, TpStateEntry_Data = f a\<rparr>) as,
           TpStateGetResponse_Status = TpStateGetResponse_OK\<rparr>
     else \<lparr>TpStateGetResponse_Entries = [], TpStateGetResponse_Status = TpStateGetResponse_AUTHORIZATION_ERROR\<rparr>)"

definition set_response :: "(string \<Rightarrow> bool) \<Rightarrow> (string \<times> bytes) list \<Rightarrow> TpStateSetResponse" where
  "set_response wr ps = (if list_all wr (map fst ps)
     then \<lparr>TpStateSetResponse_Addresses = map fst ps, TpStateSetResponse_Status = TpStateSetResponse_OK\<rparr>
     else \<lparr>TpStateSetResponse_Addresses = [], TpStateSetResponse_Status = TpStateSetResponse_AUTHORIZATION_ERROR\<rparr>)"

definition delete_response :: "(string \<Rightarrow> bool) \<Rightarrow> (string \<Rightarrow> bytes) \<Rightarrow> string list \<Rightarrow> TpStateDeleteResponse" where
  "delete_response wr f as = (if list_all wr as
     then \<lparr>TpStateDeleteResponse_Addresses = filter (\<lambda>a. f a \<noteq> []) as,
           TpStateDeleteResponse_Status = TpStateDeleteResponse_OK\<rparr>
     else \<lparr>TpStateDeleteResponse_Addresses = [], TpStateDeleteResponse_Status = TpStateDeleteResponse_AUTHORIZATION_ERROR\<rparr>)"

definition serves_state ::
  "tp_pb \<Rightarrow> string \<Rightarrow> ('p \<Rightarrow> string \<Rightarrow> bytes) \<Rightarrow> (string \<Rightarrow> bool) \<Rightarrow> (string \<Rightarrow> bool) \<Rightarrow>
   ('p \<Rightarrow> Message_MessageType \<Rightarrow> bytes \<Rightarrow> (Message_MessageType \<times> bytes \<times> 'p) option) \<Rightarrow> bool" where
  "serves_state pb cid st rd wr react \<longleftrightarrow>
    (\<forall>p as. \<exists>p'. react p Message_TP_STATE_GET_REQUEST (fst (Marshal (pbTpStateGetRequest pb)
         \<lparr>TpStateGetRequest_ContextId = cid, TpStateGetRequest_Addresses = as\<rparr>)) =
       Some (Message_TP_STATE_GET_RESPONSE,
         fst (Marshal (pbTpStateGetResponse pb) (get_response rd (st p) as)), p') \<and> st p' = st p) \<and>
    (\<forall>p ps. distinct (map fst ps) \<longrightarrow> (\<exists>p'. react p Message_TP_STATE_SET_REQUEST (fst (Marshal (pbTpStateSetRequest pb)
         \<lparr>TpStateSetRequest_ContextId = cid, TpStateSetRequest_Entries =
            map (\<lambda>(a, d). \<lparr>TpStateEntry_Address = a, TpStateEntry_Data = d\<rparr>) ps\<rparr>)) =
       Some (Message_TP_STATE_SET_RESPONSE,
         fst (Marshal (pbTpStateSetResponse pb) (set_response wr ps)), p') \<and>
       st p' = (if list_all wr (map fst ps) then state_upd (st p) ps else st p))) \<and>
    (\<forall>p as. \<exists>p'. react p Message_TP_STATE_DELETE_REQUEST (fst (Marshal (pbTpStateDeleteRequest pb)
         \<lparr>TpStateDeleteRequest_ContextId = cid, TpStateDeleteRequest_Addresses = as\<rparr>)) =
       Some (Message_TP_STATE_DELETE_RESPONSE,
         fst (Marshal (pbTpStateDeleteResponse pb) (delete_response wr (st p) as)), p') \<and>
       st p' = (if list_all wr as then (\<lambda>a. if a \<in> set as then [] else st p a) else st p))"

definition state_codecs_ok :: "tp_pb \<Rightarrow> bool" where
  "state_codecs_ok pb \<longleftrightarrow>
     (\<forall>m. codec_ok (pbTpStateGetRequest pb) m) \<and> (\<forall>m. codec_ok (pbTpStateGetResponse pb) m) \<and>
     (\<forall>m. codec_ok (pbTpStateSetRequest pb) m) \<and> (\<forall>m. codec_ok (pbTpStateSetResponse pb) m) \<and>
     (\<forall>m. codec_ok (pbTpStateDeleteRequest pb) m) \<and> (\<forall>m. codec_ok (pbTpStateDeleteResponse pb) m)"

lemma entries_map:
  "foldl (\<lambda>results entry. if TpStateEntry_Data entry \<noteq> []
        then results(TpStateEntry_Address entry \<mapsto> TpStateEntry_Data entry) else results) m
      (map (\<lambda>a. \<lparr>TpStateEntry_Address = a, TpStateEntry_Data = f a\<rparr>) as) =
   (\<lambda>a. if a \<in> set as \<and> f a \<noteq> [] then Some (f a) else m a)"
proof (induction as arbitrary: m)
  case Nil
  show ?case by simp
next
  case (Cons a as)
  show ?case
    by (simp only: list.map foldl_Cons Cons.IH) auto
qed

text \<open>
  The interface between a connection and the state operations: the peer at its other end answers
  the three state requests, for one transaction context, from the state \<open>view\<close>.  Any connection that
  keeps this contract, direct or through other threads, gives a transaction context its state.
\<close>

locale state_service = rpc_connection C ready reply
  for C :: "'s Connection"
    and ready :: "'s \<Rightarrow> bool"
    and reply :: "'s \<Rightarrow> Message_MessageType \<Rightarrow> bytes \<Rightarrow> (Message_MessageType \<times> bytes \<times> 's) option" +
  fixes pb :: tp_pb
    and cid :: string
    and view :: "'s \<Rightarrow> string \<Rightarrow> bytes"
    and rd wr :: "string \<Rightarrow> bool"
  assumes codecs: "ready s \<Longrightarrow> state_codecs_ok pb"
    and get_reply: "ready s \<Longrightarrow> \<exists>s'. reply s Message_TP_STATE_GET_REQUEST (fst (Marshal (pbTpStateGetRequest pb)
         \<lparr>TpStateGetRequest_ContextId = cid, TpStateGetRequest_Addresses = as\<rparr>)) =
       Some (Message_TP_STATE_GET_RESPONSE,
         fst (Marshal (pbTpStateGetResponse pb) (get_response rd (view s) as)), s') \<and> view s' = view s"
    and set_reply: "ready s \<Longrightarrow> distinct (map fst ps) \<Longrightarrow>
       \<exists>s'. reply s Message_TP_STATE_SET_REQUEST (fst (Marshal (pbTpStateSetRequest pb)
         \<lparr>TpStateSetRequest_ContextId = cid, TpStateSetRequest_Entries =
            map (\<lambda>(a, d). \<lparr>TpStateEntry_Address = a, TpStateEntry_Data = d\<rparr>) ps\<rparr>)) =
       Some (Message_TP_STATE_SET_RESPONSE,
         fst (Marshal (pbTpStateSetResponse pb) (set_response wr ps)), s') \<and>
       view s' = (if list_all wr (map fst ps) then state_upd (view s) ps else view s)"
    and delete_reply: "ready s \<Longrightarrow> \<exists>s'. reply s Message_TP_STATE_DELETE_REQUEST (fst (Marshal (pbTpStateDeleteRequest pb)
         \<lparr>TpStateDeleteRequest_ContextId = cid, TpStateDeleteRequest_Addresses = as\<rparr>)) =
       Some (Message_TP_STATE_DELETE_RESPONSE,
         fst (Marshal (pbTpStateDeleteResponse pb) (delete_response wr (view s) as)), s') \<and>
       view s' = (if list_all wr as then (\<lambda>a. if a \<in> set as then [] else view s a) else view s)"
begin

abbreviation (input) service_methods :: "'s Context_methods" where
  "service_methods \<equiv> methods pb (NewContext C cid)"

lemma codecs_ok:
  assumes "ready s"
  shows "codec_ok (pbTpStateGetRequest pb) m1" "codec_ok (pbTpStateGetResponse pb) m2"
    "codec_ok (pbTpStateSetRequest pb) m3" "codec_ok (pbTpStateSetResponse pb) m4"
    "codec_ok (pbTpStateDeleteRequest pb) m5" "codec_ok (pbTpStateDeleteResponse pb) m6"
  using codecs [OF assms] by (simp_all add: state_codecs_ok_def)

lemma service_GetState:
  assumes "ready s"
  obtains s' where "x_GetState service_methods as s =
      (Ret (if list_all rd as
            then Inr (\<lambda>a. if a \<in> set as \<and> view s a \<noteq> [] then Some (view s a) else None)
            else Inl (AuthorizationException (''Tried to get unauthorized address: '' @ show_strings as) [])), s')"
    "ready s'" "view s' = view s"
proof -
  from get_reply [OF assms] obtain s' where r: "reply s Message_TP_STATE_GET_REQUEST (fst (Marshal (pbTpStateGetRequest pb)
         \<lparr>TpStateGetRequest_ContextId = cid, TpStateGetRequest_Addresses = as\<rparr>)) =
       Some (Message_TP_STATE_GET_RESPONSE,
         fst (Marshal (pbTpStateGetResponse pb) (get_response rd (view s) as)), s')" "view s' = view s" by blast
  note g = GetState_rpc [OF assms codecs_ok(1,2) [OF assms] r(1)]
  show thesis
    by (rule that [OF _ exchange_ready [OF assms r(1)] r(2)]) (auto simp: methods_def g get_response_def entries_map)
qed

lemma service_SetState:
  assumes "ready s" "distinct (map fst ps)"
  obtains s' where "x_SetState service_methods ps s =
      (Ret (if list_all wr (map fst ps) then Inr (map fst ps)
            else Inl (AuthorizationException (''Tried to set unauthorized address: '' @ show_strings (map fst ps)) [])), s')"
    "ready s'" "view s' = (if list_all wr (map fst ps) then state_upd (view s) ps else view s)"
proof -
  from set_reply [OF assms] obtain s' where r: "reply s Message_TP_STATE_SET_REQUEST (fst (Marshal (pbTpStateSetRequest pb)
         \<lparr>TpStateSetRequest_ContextId = cid, TpStateSetRequest_Entries =
            map (\<lambda>(a, d). \<lparr>TpStateEntry_Address = a, TpStateEntry_Data = d\<rparr>) ps\<rparr>)) =
       Some (Message_TP_STATE_SET_RESPONSE,
         fst (Marshal (pbTpStateSetResponse pb) (set_response wr ps)), s')"
    "view s' = (if list_all wr (map fst ps) then state_upd (view s) ps else view s)" by blast
  note g = SetState_rpc [OF assms(1) codecs_ok(3,4) [OF assms(1)] r(1)]
  show thesis
    by (rule that [OF _ exchange_ready [OF assms(1) r(1)] r(2)]) (auto simp: methods_def g set_response_def)
qed

lemma service_DeleteState:
  assumes "ready s"
  obtains s' where "x_DeleteState service_methods as s =
      (Ret (if list_all wr as then Inr (filter (\<lambda>a. view s a \<noteq> []) as)
            else Inl (AuthorizationException (''Tried to get unauthorized address: '' @ show_strings as) [])), s')"
    "ready s'" "view s' = (if list_all wr as then (\<lambda>a. if a \<in> set as then [] else view s a) else view s)"
proof -
  from delete_reply [OF assms] obtain s' where r: "reply s Message_TP_STATE_DELETE_REQUEST (fst (Marshal (pbTpStateDeleteRequest pb)
         \<lparr>TpStateDeleteRequest_ContextId = cid, TpStateDeleteRequest_Addresses = as\<rparr>)) =
       Some (Message_TP_STATE_DELETE_RESPONSE,
         fst (Marshal (pbTpStateDeleteResponse pb) (delete_response wr (view s) as)), s')"
    "view s' = (if list_all wr as then (\<lambda>a. if a \<in> set as then [] else view s a) else view s)" by blast
  note g = DeleteState_rpc [OF assms codecs_ok(5,6) [OF assms] r(1)]
  show thesis
    by (rule that [OF _ exchange_ready [OF assms r(1)] r(2)]) (auto simp: methods_def g delete_response_def)
qed

end

text \<open>A connection with this contract provides the state interface of the handlers.\<close>

sublocale state_service \<subseteq> state_context "methods pb (NewContext C cid)" ready view rd wr
proof (unfold_locales, goal_cases)
  case (1 s as)
  from 1(1) show ?case by (rule service_GetState [where as = as]) (use 1(2) in auto)
next
  case (2 s as)
  from 2(1) show ?case by (rule service_GetState [where as = as]) (use 2(2) in auto)
next
  case (3 s ps)
  from 3(1,2) show ?case by (rule service_SetState) (use 3(3) in auto)
next
  case (4 s ps)
  from 4(1,2) show ?case by (rule service_SetState) (use 4(3) in auto)
next
  case (5 s as)
  from 5(1) show ?case by (rule service_DeleteState [where as = as]) (use 5(2) in auto)
next
  case (6 s as)
  from 6(1) show ?case by (rule service_DeleteState [where as = as]) (use 6(2) in auto)
qed

text \<open>A process response is taken without an answer and leaves the state.\<close>

definition takes_responses ::
  "tp_pb \<Rightarrow> ('p \<Rightarrow> string \<Rightarrow> bytes) \<Rightarrow>
   ('p \<Rightarrow> bytes list \<Rightarrow> 'p \<times> (go_error + bytes list) list \<times> go_error option) \<Rightarrow> bool" where
  "takes_responses pb st deliver \<longleftrightarrow> (\<forall>p b k. \<exists>p'.
     deliver p [fst (DumpMsg (pbMessage pb) Message_TP_PROCESS_RESPONSE b k)] = (p', [], None) \<and> st p' = st p)"

text \<open>A connection to such a validator, with nothing in flight.\<close>

definition state_conn ::
  "tp_pb \<Rightarrow> string \<Rightarrow> ('p \<Rightarrow> string \<Rightarrow> bytes) \<Rightarrow> (string \<Rightarrow> bool) \<Rightarrow> (string \<Rightarrow> bool) \<Rightarrow>
   ('p \<Rightarrow> Message_MessageType \<Rightarrow> bytes \<Rightarrow> (Message_MessageType \<times> bytes \<times> 'p) option) \<Rightarrow>
   'p ZmqConnection \<Rightarrow> bool" where
  "state_conn pb cid st rd wr react c \<longleftrightarrow>
     zmq_ready (pbMessage pb) react c \<and> serves_state pb cid st rd wr react \<and> state_codecs_ok pb \<and>
     takes_responses pb st (sk_deliver (conn_socket c))"

definition tp_methods :: "tp_pb \<Rightarrow> string \<Rightarrow> 'p ZmqConnection Context_methods" where
  "tp_methods pb cid = methods pb (NewContext (zmq_Connection (pbMessage pb)) cid)"

abbreviation answered :: "'p \<Rightarrow> 'p ZmqConnection \<Rightarrow> 'p ZmqConnection" where
  "answered p c \<equiv> c\<lparr>conn_uuid_next := Suc (conn_uuid_next c), conn_socket := (conn_socket c)\<lparr>sk_peer := p\<rparr>\<rparr>"

lemma state_conn_answered:
  assumes "state_conn pb cid st rd wr react c" "react (peer c) t b = Some (t', b', p)"
  shows "zmq_ready (pbMessage pb) react c" "zmq_reply react c t b = Some (t', b', answered p c)"
    "state_conn pb cid st rd wr react (answered p c)"
proof -
  show rdy: "zmq_ready (pbMessage pb) react c" using assms(1) by (simp add: state_conn_def)
  show rep: "zmq_reply react c t b = Some (t', b', answered p c)" by (simp add: zmq_reply_def assms(2))
  show "state_conn pb cid st rd wr react (answered p c)"
    using zmq.exchange_ready [OF rdy rep] assms(1) by (simp add: state_conn_def)
qed

lemmas state_conn_parts = state_conn_def serves_state_def state_codecs_ok_def

interpretation tp_service: state_service "zmq_Connection (pbMessage pb)" "state_conn pb cid st rd wr react" "zmq_reply react"
    pb cid "\<lambda>c. st (peer c)" rd wr
  for pb cid st rd wr react
proof (unfold_locales, goal_cases)
  case (1 s t b t' b' s')
  then show ?case by (intro zmq.exchange) (simp_all add: state_conn_def)
next
  case (2 s t b t' b' s')
  then obtain p where "react (peer s) t b = Some (t', b', p)" "s' = answered p s" by (auto simp: zmq_reply_def)
  with 2 show ?case by (simp add: state_conn_answered(3))
next
  case (3 s)
  then show ?case by (simp add: state_conn_def)
next
  case (4 s as)
  then obtain p' where "react (peer s) Message_TP_STATE_GET_REQUEST (fst (Marshal (pbTpStateGetRequest pb)
         \<lparr>TpStateGetRequest_ContextId = cid, TpStateGetRequest_Addresses = as\<rparr>)) =
       Some (Message_TP_STATE_GET_RESPONSE,
         fst (Marshal (pbTpStateGetResponse pb) (get_response rd (st (peer s)) as)), p')" "st p' = st (peer s)"
    unfolding state_conn_parts by blast
  with state_conn_answered(2) [OF 4 this(1)] show ?case by simp
next
  case (5 s ps)
  then obtain p' where "react (peer s) Message_TP_STATE_SET_REQUEST (fst (Marshal (pbTpStateSetRequest pb)
         \<lparr>TpStateSetRequest_ContextId = cid, TpStateSetRequest_Entries =
            map (\<lambda>(a, d). \<lparr>TpStateEntry_Address = a, TpStateEntry_Data = d\<rparr>) ps\<rparr>)) =
       Some (Message_TP_STATE_SET_RESPONSE, fst (Marshal (pbTpStateSetResponse pb) (set_response wr ps)), p')"
     "st p' = (if list_all wr (map fst ps) then state_upd (st (peer s)) ps else st (peer s))"
    unfolding state_conn_parts by blast
  with state_conn_answered(2) [OF 5(1) this(1)] show ?case by simp
next
  case (6 s as)
  then obtain p' where "react (peer s) Message_TP_STATE_DELETE_REQUEST (fst (Marshal (pbTpStateDeleteRequest pb)
         \<lparr>TpStateDeleteRequest_ContextId = cid, TpStateDeleteRequest_Addresses = as\<rparr>)) =
       Some (Message_TP_STATE_DELETE_RESPONSE,
         fst (Marshal (pbTpStateDeleteResponse pb) (delete_response wr (st (peer s)) as)), p')"
     "st p' = (if list_all wr as then (\<lambda>a. if a \<in> set as then [] else st (peer s) a) else st (peer s))"
    unfolding state_conn_parts by blast
  with state_conn_answered(2) [OF 6 this(1)] show ?case by simp
qed

interpretation tp: state_context "tp_methods pb cid" "state_conn pb cid st rd wr react"
    "\<lambda>c. st (peer c)" rd wr
  for pb cid st rd wr react
  unfolding tp_methods_def by (rule tp_service.state_context_axioms)

section \<open>Sequences of state operations\<close>

text \<open>
  The abstract specification of a transaction's state: a function from addresses to data with
  three operations that either take effect completely or are refused.
\<close>

datatype state_op = GetOp "string list" | SetOp "(string \<times> bytes) list" | DeleteOp "string list"

datatype state_res = Values "string \<rightharpoonup> bytes" | Addresses "string list" | Failed go_error

fun abs_op ::
  "(string \<Rightarrow> bool) \<Rightarrow> (string \<Rightarrow> bool) \<Rightarrow> state_op \<Rightarrow> (string \<Rightarrow> bytes) \<Rightarrow> state_res \<times> (string \<Rightarrow> bytes)" where
  "abs_op rd wr (GetOp as) f =
    (if list_all rd as then (Values (\<lambda>a. if a \<in> set as \<and> f a \<noteq> [] then Some (f a) else None), f)
     else (Failed (AuthorizationException (''Tried to get unauthorized address: '' @ show_strings as) []), f))"
| "abs_op rd wr (SetOp ps) f =
    (if list_all wr (map fst ps) then (Addresses (map fst ps), state_upd f ps)
     else (Failed (AuthorizationException (''Tried to set unauthorized address: '' @ show_strings (map fst ps)) []), f))"
| "abs_op rd wr (DeleteOp as) f =
    (if list_all wr as then (Addresses (filter (\<lambda>a. f a \<noteq> []) as), \<lambda>a. if a \<in> set as then [] else f a)
     else (Failed (AuthorizationException (''Tried to get unauthorized address: '' @ show_strings as) []), f))"

fun abs_run ::
  "(string \<Rightarrow> bool) \<Rightarrow> (string \<Rightarrow> bool) \<Rightarrow> state_op list \<Rightarrow> (string \<Rightarrow> bytes) \<Rightarrow> state_res list \<times> (string \<Rightarrow> bytes)" where
  "abs_run rd wr [] f = ([], f)"
| "abs_run rd wr (p # ps) f =
    (let (r, f') = abs_op rd wr p f; (rs, f'') = abs_run rd wr ps f' in (r # rs, f''))"

fun ctx_op :: "'s Context_methods \<Rightarrow> state_op \<Rightarrow> ('s, state_res) proc" where
  "ctx_op ctx (GetOp as) = bindP (x_GetState ctx as) (\<lambda>r. retP (case r of Inl e \<Rightarrow> Failed e | Inr m \<Rightarrow> Values m))"
| "ctx_op ctx (SetOp ps) = bindP (x_SetState ctx ps) (\<lambda>r. retP (case r of Inl e \<Rightarrow> Failed e | Inr as \<Rightarrow> Addresses as))"
| "ctx_op ctx (DeleteOp as) = bindP (x_DeleteState ctx as) (\<lambda>r. retP (case r of Inl e \<Rightarrow> Failed e | Inr as \<Rightarrow> Addresses as))"

fun ctx_run :: "'s Context_methods \<Rightarrow> state_op list \<Rightarrow> ('s, state_res list) proc" where
  "ctx_run ctx [] = retP []"
| "ctx_run ctx (p # ps) = bindP (ctx_op ctx p) (\<lambda>r. bindP (ctx_run ctx ps) (\<lambda>rs. retP (r # rs)))"

text \<open>Arguments of SetState come from a Go map: its keys are different.\<close>

fun op_wf :: "state_op \<Rightarrow> bool" where
  "op_wf (SetOp ps) = distinct (map fst ps)"
| "op_wf _ = True"

context state_service
begin

lemma service_op_refines:
  assumes "ready s" "op_wf p"
  obtains s' where "ctx_op service_methods p s = (Ret (fst (abs_op rd wr p (view s))), s')"
    "ready s'" "view s' = snd (abs_op rd wr p (view s))"
proof (cases p)
  case (GetOp as)
  from assms(1) show thesis by (rule service_GetState [where as = as]) (auto simp: GetOp intro!: that)
next
  case (SetOp ps)
  with assms(2) have "distinct (map fst ps)" by simp
  with assms(1) show thesis by (rule service_SetState) (auto simp: SetOp intro!: that)
next
  case (DeleteOp as)
  from assms(1) show thesis by (rule service_DeleteState [where as = as]) (auto simp: DeleteOp intro!: that)
qed

lemma service_run_refines:
  assumes "ready s" "list_all op_wf ps"
  shows "\<exists>s'. ctx_run service_methods ps s = (Ret (fst (abs_run rd wr ps (view s))), s') \<and>
    ready s' \<and> view s' = snd (abs_run rd wr ps (view s))"
  using assms
proof (induction ps arbitrary: s)
  case Nil
  then show ?case by simp
next
  case (Cons p ps)
  from Cons.prems(2) have wf: "op_wf p" "list_all op_wf ps" by simp_all
  from Cons.prems(1) wf(1) obtain s1 where 1: "ctx_op service_methods p s = (Ret (fst (abs_op rd wr p (view s))), s1)"
    "ready s1" "view s1 = snd (abs_op rd wr p (view s))" by (rule service_op_refines)
  from Cons.IH [OF 1(2) wf(2)] 1 show ?case by (auto simp: case_prod_unfold Let_def)
qed

end

end
