(* ===== verification/State_Instance.thy ===== *)
theory State_Instance
  imports Tp_Context
begin

text \<open>
  A concrete peer, so that the conditions of the state contract are known to be satisfiable and
  the properties of the handlers can be applied to concrete inputs: a validator that keeps the
  state as a function from addresses to data and answers every state request, over codecs that
  satisfy the round trip.
\<close>

text \<open>A deliver function that decodes the message, asks \<open>react\<close> and sends the answer back.\<close>

definition answering ::
  "Message codec \<Rightarrow> ('p \<Rightarrow> Message_MessageType \<Rightarrow> bytes \<Rightarrow> (Message_MessageType \<times> bytes \<times> 'p) option) \<Rightarrow>
   'p \<Rightarrow> bytes list \<Rightarrow> 'p \<times> (go_error + bytes list) list \<times> go_error option" where
  "answering cm react p frs =
    (case frs of
       [d] \<Rightarrow> (let m = fst (Unmarshal cm d) in
              case react p (Message_MessageType m) (Message_Content m) of
                Some (t, b, p') \<Rightarrow> (p', [Inr [fst (DumpMsg cm t b (Message_CorrelationId m))]], None)
              | None \<Rightarrow> (p, [], None))
     | _ \<Rightarrow> (p, [], None))"

lemma peer_reacts_answering:
  assumes "\<forall>m. codec_ok cm m"
  shows "peer_reacts cm (answering cm react) react"
  using assms by (auto simp: peer_reacts_def answering_def DumpMsg_def)

text \<open>The answers of a validator to the three state requests, for readable and writable addresses.\<close>

definition validator_react ::
  "tp_pb \<Rightarrow> (string \<Rightarrow> bool) \<Rightarrow> (string \<Rightarrow> bool) \<Rightarrow>
   (string \<Rightarrow> bytes) \<Rightarrow> Message_MessageType \<Rightarrow> bytes \<Rightarrow> (Message_MessageType \<times> bytes \<times> (string \<Rightarrow> bytes)) option" where
  "validator_react pb rd wr f t b =
    (if t = Message_TP_STATE_GET_REQUEST then
       (let as = TpStateGetRequest_Addresses (fst (Unmarshal (pbTpStateGetRequest pb) b))
        in Some (Message_TP_STATE_GET_RESPONSE,
             fst (Marshal (pbTpStateGetResponse pb) (get_response rd f as)), f))
     else if t = Message_TP_STATE_SET_REQUEST then
       (let ps = map (\<lambda>e. (TpStateEntry_Address e, TpStateEntry_Data e))
                   (TpStateSetRequest_Entries (fst (Unmarshal (pbTpStateSetRequest pb) b)))
        in Some (Message_TP_STATE_SET_RESPONSE,
             fst (Marshal (pbTpStateSetResponse pb) (set_response wr ps)),
             if list_all wr (map fst ps) then state_upd f ps else f))
     else if t = Message_TP_STATE_DELETE_REQUEST then
       (let as = TpStateDeleteRequest_Addresses (fst (Unmarshal (pbTpStateDeleteRequest pb) b))
        in Some (Message_TP_STATE_DELETE_RESPONSE,
             fst (Marshal (pbTpStateDeleteResponse pb) (delete_response wr f as)),
             if list_all wr as then (\<lambda>a. if a \<in> set as then [] else f a) else f))
     else None)"

lemma pairs_of_entries [simp]:
  "map ((\<lambda>e. (TpStateEntry_Address e, TpStateEntry_Data e)) \<circ>
        (\<lambda>(a, d). \<lparr>TpStateEntry_Address = a, TpStateEntry_Data = d\<rparr>)) ps = ps"
  by (induction ps) auto

lemma validator_serves:
  assumes "state_codecs_ok pb"
  shows "serves_state pb cid (\<lambda>f. f) rd wr (validator_react pb rd wr)"
  using assms unfolding serves_state_def state_codecs_ok_def
  by (auto simp: validator_react_def Let_def)

lemma unary_state_codecs [simp]: "state_codecs_ok unary_tp_pb"
  by (simp add: state_codecs_ok_def)

definition demo_conn :: "(string \<Rightarrow> bool) \<Rightarrow> (string \<Rightarrow> bool) \<Rightarrow> (string \<Rightarrow> bytes) \<Rightarrow> (string \<Rightarrow> bytes) ZmqConnection" where
  "demo_conn rd wr f = \<lparr>conn_identity = ''worker'', conn_uri = ''inproc://workers'',
     conn_socket = \<lparr>sk_peer = f,
       sk_deliver = answering (pbMessage unary_tp_pb) (validator_react unary_tp_pb rd wr),
       sk_inbox = [], sk_closed = False, sk_closed_error = ErrorString ''Socket is closed''\<rparr>,
     conn_incoming = [], conn_uuid = (\<lambda>n. CHR ''u'' # nat_digits n), conn_uuid_next = 0\<rparr>"

lemma demo_takes_responses:
  "takes_responses unary_tp_pb st (answering unary_codec (validator_react unary_tp_pb rd wr))"
  by (simp add: takes_responses_def answering_def DumpMsg_def validator_react_def)

lemma demo_state_conn [simp]:
  "state_conn unary_tp_pb cid (\<lambda>f. f) rd wr (validator_react unary_tp_pb rd wr) (demo_conn rd wr f)"
  by (simp add: state_conn_def zmq_ready_def demo_conn_def validator_serves peer_reacts_answering demo_takes_responses)

lemma peer_demo_conn [simp]: "peer (demo_conn rd wr f) = f"
  by (simp add: demo_conn_def)

section \<open>Properties of the context\<close>

text \<open>
  C3: state access over the wire refines the abstract state.  On a connection to a validator that
  serves state, any sequence of GetState, SetState and DeleteState calls of a Context returns the
  results of the abstract operations on the validator's state, in order, and leaves the
  validator's state as the abstract run does; a call that touches an address outside the
  permitted set returns an AuthorizationException and changes nothing.
\<close>

theorem Context_refines_state:
  assumes "state_conn pb cid st rd wr react c" "list_all op_wf ps"
  shows "\<exists>c'. ctx_run (tp_methods pb cid) ps c = (Ret (fst (abs_run rd wr ps (st (peer c)))), c') \<and>
    state_conn pb cid st rd wr react c' \<and> st (peer c') = snd (abs_run rd wr ps (st (peer c)))"
  using tp_service.service_run_refines [OF assms] unfolding tp_methods_def .

text \<open>A write, a refused write, a read and a deletion on the concrete validator.\<close>

lemma Context_refines_state_witness:
  "\<exists>c'. ctx_run (tp_methods unary_tp_pb ''ctx'')
      [SetOp [(''a1'', ''x'')], SetOp [(''b'', ''y'')], GetOp [''a1'', ''a2''], DeleteOp [''a1'']]
      (demo_conn (\<lambda>a. True) (\<lambda>a. hd a = CHR ''a'') (\<lambda>a. [])) =
    (Ret [Addresses [''a1''],
          Failed (AuthorizationException ''Tried to set unauthorized address: [b]'' []),
          Values [''a1'' \<mapsto> ''x''], Addresses [''a1'']], c') \<and>
    peer c' = (\<lambda>a. [])"
proof -
  let ?f = "\<lambda>a :: string. [] :: bytes" and ?rd = "\<lambda>a :: string. True" and ?wr = "\<lambda>a. hd a = CHR ''a''"
  let ?ops = "[SetOp [(''a1'', ''x'')], SetOp [(''b'', ''y'')], GetOp [''a1'', ''a2''], DeleteOp [''a1'']]"
  have run: "abs_run ?rd ?wr ?ops ?f =
    ([Addresses [''a1''], Failed (AuthorizationException ''Tried to set unauthorized address: [b]'' []),
      Values [''a1'' \<mapsto> ''x''], Addresses [''a1'']], ?f)"
    by (auto simp: show_strings_def fun_eq_iff)
  show ?thesis
    using Context_refines_state [OF demo_state_conn [of "''ctx''" ?rd ?wr ?f], of ?ops]
      run by auto
qed

text \<open>
  C32: receipts and events are reported as the validator answers.  When the validator answers the
  request that AddReceiptData (AddEvent) sends, carrying the context id and the data (the event
  with all its attributes in order), with a response of the expected type, the call returns an
  error exactly when the response carries the error status, and the connection stays usable.
\<close>

theorem AddReceiptData_AddEvent_status:
  fixes pb cid data et attrs resp1 resp2 c p1 p2
  defines "req1 \<equiv> \<lparr>TpReceiptAddDataRequest_ContextId = cid, TpReceiptAddDataRequest_Data = data\<rparr>"
    and "req2 \<equiv> \<lparr>TpEventAddRequest_ContextId = cid, TpEventAddRequest_Event = Some
      \<lparr>Event_EventType = et, Event_Attributes = map (\<lambda>a. \<lparr>Event_Attribute_Key = attr_Key a,
          Event_Attribute_Value = attr_Value a\<rparr>) attrs, Event_Data = data\<rparr>\<rparr>"
  assumes "zmq_ready (pbMessage pb) react c"
    and "codec_ok (pbTpReceiptAddDataRequest pb) req1" "codec_ok (pbTpReceiptAddDataResponse pb) resp1"
    and "codec_ok (pbTpEventAddRequest pb) req2" "codec_ok (pbTpEventAddResponse pb) resp2"
    and "react (peer c) Message_TP_RECEIPT_ADD_DATA_REQUEST (fst (Marshal (pbTpReceiptAddDataRequest pb) req1)) =
      Some (Message_TP_RECEIPT_ADD_DATA_RESPONSE, fst (Marshal (pbTpReceiptAddDataResponse pb) resp1), p1)"
    and "react (peer c) Message_TP_EVENT_ADD_REQUEST (fst (Marshal (pbTpEventAddRequest pb) req2)) =
      Some (Message_TP_EVENT_ADD_RESPONSE, fst (Marshal (pbTpEventAddResponse pb) resp2), p2)"
  shows "x_AddReceiptData (tp_methods pb cid) data c =
      (Ret (if TpReceiptAddDataResponse_Status resp1 = TpReceiptAddDataResponse_ERROR
            then Some (ErrorString ''Failed to add receipt data'') else None), answered p1 c)
    \<and> zmq_ready (pbMessage pb) react (answered p1 c)
    \<and> x_AddEvent (tp_methods pb cid) et attrs data c =
      (Ret (if TpEventAddResponse_Status resp2 = TpEventAddResponse_ERROR
            then Some (ErrorString ''Failed to add event'') else None), answered p2 c)
    \<and> zmq_ready (pbMessage pb) react (answered p2 c)"
proof -
  have rep1: "zmq_reply react c Message_TP_RECEIPT_ADD_DATA_REQUEST (fst (Marshal (pbTpReceiptAddDataRequest pb) req1)) =
      Some (Message_TP_RECEIPT_ADD_DATA_RESPONSE, fst (Marshal (pbTpReceiptAddDataResponse pb) resp1), answered p1 c)"
    using assms(8) by (simp add: zmq_reply_def)
  have rep2: "zmq_reply react c Message_TP_EVENT_ADD_REQUEST (fst (Marshal (pbTpEventAddRequest pb) req2)) =
      Some (Message_TP_EVENT_ADD_RESPONSE, fst (Marshal (pbTpEventAddResponse pb) resp2), answered p2 c)"
    using assms(9) by (simp add: zmq_reply_def)
  show ?thesis
    using zmq.AddReceiptData_rpc [OF assms(3) assms(4,5) [unfolded req1_def] rep1 [unfolded req1_def]]
      zmq.AddEvent_rpc [OF assms(3) assms(6,7) [unfolded req2_def] rep2 [unfolded req2_def]]
      zmq.exchange_ready [OF assms(3) rep1] zmq.exchange_ready [OF assms(3) rep2]
    by (simp add: tp_methods_def methods_def)
qed

text \<open>A validator that accepts receipts and refuses events.\<close>

definition demo_react ::
  "unit \<Rightarrow> Message_MessageType \<Rightarrow> bytes \<Rightarrow> (Message_MessageType \<times> bytes \<times> unit) option" where
  "demo_react p t b =
    (if t = Message_TP_RECEIPT_ADD_DATA_REQUEST
     then Some (Message_TP_RECEIPT_ADD_DATA_RESPONSE, fst (Marshal unary_codec
            \<lparr>TpReceiptAddDataResponse_Status = TpReceiptAddDataResponse_OK\<rparr>), ())
     else Some (Message_TP_EVENT_ADD_RESPONSE, fst (Marshal unary_codec
            \<lparr>TpEventAddResponse_Status = TpEventAddResponse_ERROR\<rparr>), ()))"

definition demo_unit_conn :: "unit ZmqConnection" where
  "demo_unit_conn = \<lparr>conn_identity = ''worker'', conn_uri = ''inproc://workers'',
     conn_socket = \<lparr>sk_peer = (), sk_deliver = answering (pbMessage unary_tp_pb) demo_react,
       sk_inbox = [], sk_closed = False, sk_closed_error = ErrorString ''Socket is closed''\<rparr>,
     conn_incoming = [], conn_uuid = nat_digits, conn_uuid_next = 0\<rparr>"

lemma demo_unit_ready: "zmq_ready (pbMessage unary_tp_pb) demo_react demo_unit_conn"
  by (simp add: zmq_ready_def demo_unit_conn_def peer_reacts_answering)

lemma AddReceiptData_AddEvent_status_witness:
  "fst (x_AddReceiptData (tp_methods unary_tp_pb ''ctx'') ''data'' demo_unit_conn) = Ret None \<and>
   fst (x_AddEvent (tp_methods unary_tp_pb ''ctx'') ''t'' [\<lparr>attr_Key = ''k'', attr_Value = ''v''\<rparr>] ''data'' demo_unit_conn) =
     Ret (Some (ErrorString ''Failed to add event''))"
  using AddReceiptData_AddEvent_status [OF demo_unit_ready, where cid = "''ctx''" and data = "''data''"
      and et = "''t''" and attrs = "[\<lparr>attr_Key = ''k'', attr_Value = ''v''\<rparr>]"
      and ?resp1.0 = "\<lparr>TpReceiptAddDataResponse_Status = TpReceiptAddDataResponse_OK\<rparr>"
      and ?resp2.0 = "\<lparr>TpEventAddResponse_Status = TpEventAddResponse_ERROR\<rparr>"]
  by (simp add: demo_react_def)

end
