(* ===== verification/Transaction_Family.thy ===== *)
theory Transaction_Family
  imports State_Instance "HOL-Library.Sublist"
begin

text \<open>
  processor/handler.go: the TransactionHandler interface.  A handler is the record of its four
  methods.  The contract of a family over a state context is a locale: a call keeps the context
  usable, an error leaves the validator state as it was, and only addresses that start with the
  family's namespace change.  The lemmas of the locale extend the contract to any sequence of
  transactions.
\<close>

record 's TransactionHandler =
  h_FamilyName :: string
  h_FamilyVersions :: "string list"
  h_Namespaces :: "string list"
  h_Apply :: "TpProcessRequest \<Rightarrow> 's Context_methods \<Rightarrow> ('s, go_error option) proc"

text \<open>Requests applied one after the other; a panic or a wait ends the run.\<close>

fun apply_all :: "(TpProcessRequest \<Rightarrow> ('s, go_error option) proc) \<Rightarrow> TpProcessRequest list \<Rightarrow> ('s, go_error option list) proc" where
  "apply_all ap [] = retP []"
| "apply_all ap (q # qs) = bindP (ap q) (\<lambda>e. bindP (apply_all ap qs) (\<lambda>es. retP (e # es)))"

locale tp_family = state_context ctx ok view rd wr
  for ctx :: "'s Context_methods" and ok view rd wr +
  fixes ap :: "TpProcessRequest \<Rightarrow> ('s, go_error option) proc"
    and ns :: string
  assumes ap_ok: "ok s \<Longrightarrow> ap q s = (r, s') \<Longrightarrow> ok s'"
    and ap_atomic: "ok s \<Longrightarrow> ap q s = (r, s') \<Longrightarrow> r \<noteq> Ret None \<Longrightarrow> view s' = view s"
    and ap_confined: "ok s \<Longrightarrow> ap q s = (r, s') \<Longrightarrow> \<not> prefix ns a \<Longrightarrow> view s' a = view s a"
begin

lemma apply_all_ok: "ok s \<Longrightarrow> apply_all ap qs s = (r, s') \<Longrightarrow> ok s'"
  by (induction qs arbitrary: s r)
    (auto simp: bindP_def split: prod.splits outcome.splits dest: ap_ok)

lemma apply_all_confined:
  "ok s \<Longrightarrow> apply_all ap qs s = (r, s') \<Longrightarrow> \<not> prefix ns a \<Longrightarrow> view s' a = view s a"
proof (induction qs arbitrary: s r)
  case Nil
  then show ?case by simp
next
  case (Cons q qs)
  obtain r1 s1 where 1: "ap q s = (r1, s1)" by (cases "ap q s")
  with Cons.prems have "ok s1" "view s1 a = view s a" by (auto dest: ap_ok ap_confined)
  moreover have "s' = s1 \<or> (\<exists>r'. apply_all ap qs s1 = (r', s'))"
    using Cons.prems(2) 1 by (cases "apply_all ap qs s1") (auto simp: bindP_def split: outcome.splits)
  ultimately show ?case using Cons.IH Cons.prems(3) by auto
qed

lemma apply_all_rejected:
  "ok s \<Longrightarrow> apply_all ap qs s = (Ret es, s') \<Longrightarrow> None \<notin> set es \<Longrightarrow> view s' = view s"
proof (induction qs arbitrary: s es)
  case Nil
  then show ?case by simp
next
  case (Cons q qs)
  then obtain e es' s1 where "ap q s = (Ret e, s1)" "apply_all ap qs s1 = (Ret es', s')" "es = e # es'"
    by (auto simp: bindP_eq_Ret)
  moreover have "view s1 = view s" "ok s1"
    using calculation Cons.prems by (auto dest: ap_atomic ap_ok)
  ultimately show ?case using Cons.IH Cons.prems(3) by auto
qed

end

section \<open>Handlers by their structure\<close>

text \<open>
  A handler that reads first and writes last satisfies the contract by its structure: \<open>tx_read\<close>
  is a call that returns and leaves the state, \<open>tx_write\<close> one that returns and changes only
  addresses with the prefix \<open>ns\<close>, \<open>tx_commit\<close> one that, in addition, reports success.
\<close>

definition tx_read :: "('s \<Rightarrow> bool) \<Rightarrow> ('s \<Rightarrow> string \<Rightarrow> bytes) \<Rightarrow> ('s, 'a) proc \<Rightarrow> bool" where
  "tx_read ok view m \<longleftrightarrow> (\<forall>s. ok s \<longrightarrow> (\<exists>r s'. m s = (Ret r, s') \<and> ok s' \<and> view s' = view s))"

definition tx_write :: "('s \<Rightarrow> bool) \<Rightarrow> ('s \<Rightarrow> string \<Rightarrow> bytes) \<Rightarrow> string \<Rightarrow> ('s, 'a) proc \<Rightarrow> bool" where
  "tx_write ok view ns m \<longleftrightarrow> (\<forall>s. ok s \<longrightarrow> (\<exists>r s'. m s = (Ret r, s') \<and> ok s' \<and>
     (\<forall>a. \<not> prefix ns a \<longrightarrow> view s' a = view s a)))"

definition tx_commit :: "('s \<Rightarrow> bool) \<Rightarrow> ('s \<Rightarrow> string \<Rightarrow> bytes) \<Rightarrow> string \<Rightarrow> ('s, go_error option) proc \<Rightarrow> bool" where
  "tx_commit ok view ns m \<longleftrightarrow> (\<forall>s. ok s \<longrightarrow> (\<exists>s'. m s = (Ret None, s') \<and> ok s' \<and>
     (\<forall>a. \<not> prefix ns a \<longrightarrow> view s' a = view s a)))"

definition tx_safe :: "('s \<Rightarrow> bool) \<Rightarrow> ('s \<Rightarrow> string \<Rightarrow> bytes) \<Rightarrow> string \<Rightarrow> ('s, go_error option) proc \<Rightarrow> bool" where
  "tx_safe ok view ns m \<longleftrightarrow> (\<forall>s r s'. ok s \<longrightarrow> m s = (r, s') \<longrightarrow> ok s' \<and>
     (r \<noteq> Ret None \<longrightarrow> view s' = view s) \<and> (\<forall>a. \<not> prefix ns a \<longrightarrow> view s' a = view s a))"

named_theorems tx_rules \<open>structural rules of the family contract\<close>

lemma tx_safe_ret [tx_rules]: "tx_safe ok view ns (retP x)"
  by (simp add: tx_safe_def)

lemma tx_safe_panic [tx_rules]: "tx_safe ok view ns (panicP e)"
  by (simp add: tx_safe_def)

lemma tx_safe_bind [tx_rules]:
  "tx_read ok view m \<Longrightarrow> (\<And>x. tx_safe ok view ns (f x)) \<Longrightarrow> tx_safe ok view ns (bindP m f)"
  unfolding tx_safe_def tx_read_def by fastforce

lemma tx_commit_ret [tx_rules]: "tx_commit ok view ns (retP None)"
  by (simp add: tx_commit_def)

lemma tx_commit_bind:
  assumes "tx_write ok view ns m" "\<And>x. tx_commit ok view ns (f x)"
  shows "tx_commit ok view ns (bindP m f)"
  unfolding tx_commit_def
proof (intro allI impI)
  fix s assume "ok s"
  with assms(1) obtain r s1 where 1: "m s = (Ret r, s1)" "ok s1" "\<forall>a. \<not> prefix ns a \<longrightarrow> view s1 a = view s a"
    unfolding tx_write_def by blast
  moreover from assms(2) [of r] 1(2) obtain s2 where "f r s1 = (Ret None, s2)" "ok s2"
    "\<forall>a. \<not> prefix ns a \<longrightarrow> view s2 a = view s1 a" unfolding tx_commit_def by blast
  ultimately show "\<exists>s'. bindP m f s = (Ret None, s') \<and> ok s' \<and> (\<forall>a. \<not> prefix ns a \<longrightarrow> view s' a = view s a)"
    by auto
qed

lemma tx_commit_safe: "tx_commit ok view ns m \<Longrightarrow> tx_safe ok view ns m"
  unfolding tx_commit_def tx_safe_def by fastforce

lemma tx_read_ret [tx_rules]: "tx_read ok view (retP x)"
  by (simp add: tx_read_def)

lemma tx_read_bind [tx_rules]:
  "tx_read ok view m \<Longrightarrow> (\<And>x. tx_read ok view (f x)) \<Longrightarrow> tx_read ok view (bindP m f)"
  unfolding tx_read_def by fastforce

text \<open>A call that leaves the state but may also panic or wait.\<close>

definition tx_peek :: "('s \<Rightarrow> bool) \<Rightarrow> ('s \<Rightarrow> string \<Rightarrow> bytes) \<Rightarrow> ('s, 'a) proc \<Rightarrow> bool" where
  "tx_peek ok view m \<longleftrightarrow> (\<forall>s r s'. ok s \<longrightarrow> m s = (r, s') \<longrightarrow> ok s' \<and> view s' = view s)"

lemma tx_peek_ret: "tx_peek ok view (retP x)"
  by (simp add: tx_peek_def)

lemma tx_peek_panic: "tx_peek ok view (panicP e)"
  by (simp add: tx_peek_def)

lemma tx_peek_bind: "tx_read ok view m \<Longrightarrow> (\<And>x. tx_peek ok view (f x)) \<Longrightarrow> tx_peek ok view (bindP m f)"
  unfolding tx_peek_def tx_read_def by fastforce

lemma tx_safe_peek:
  assumes "tx_peek ok view m" "\<And>x. tx_safe ok view ns (f x)"
  shows "tx_safe ok view ns (bindP m f)"
  unfolding tx_safe_def
proof (intro allI impI)
  fix s r s' assume "ok s" and r: "bindP m f s = (r, s')"
  obtain r1 s1 where 1: "m s = (r1, s1)" by (cases "m s")
  with assms(1) \<open>ok s\<close> have "ok s1" "view s1 = view s" unfolding tx_peek_def by blast+
  with 1 r assms(2) show "ok s' \<and> (r \<noteq> Ret None \<longrightarrow> view s' = view s) \<and> (\<forall>a. \<not> prefix ns a \<longrightarrow> view s' a = view s a)"
    by (cases r1) (auto simp: tx_safe_def)
qed

lemma tx_write_read: "tx_read ok view m \<Longrightarrow> tx_write ok view ns m"
  unfolding tx_read_def tx_write_def by metis

lemma tx_write_bind:
  assumes "tx_write ok view ns m" "\<And>x. tx_read ok view (f x)"
  shows "tx_write ok view ns (bindP m f)"
  unfolding tx_write_def
proof (intro allI impI)
  fix s assume "ok s"
  with assms(1) obtain r s1 where 1: "m s = (Ret r, s1)" "ok s1" "\<forall>a. \<not> prefix ns a \<longrightarrow> view s1 a = view s a"
    unfolding tx_write_def by blast
  moreover from assms(2) [of r] 1(2) obtain r2 s2 where "f r s1 = (Ret r2, s2)" "ok s2" "view s2 = view s1"
    unfolding tx_read_def by blast
  ultimately show "\<exists>r s'. bindP m f s = (Ret r, s') \<and> ok s' \<and> (\<forall>a. \<not> prefix ns a \<longrightarrow> view s' a = view s a)"
    by auto
qed

context state_context
begin

lemma tx_read_get [tx_rules]: "tx_read ok view (x_GetState ctx as)"
  unfolding tx_read_def using get_ok get_denied by blast

lemma tx_write_set:
  assumes "prefix ns a"
  shows "tx_write ok view ns (x_SetState ctx [(a, d)])"
  unfolding tx_write_def
proof (intro allI impI)
  fix s assume "ok s"
  show "\<exists>r s'. x_SetState ctx [(a, d)] s = (Ret r, s') \<and> ok s' \<and> (\<forall>x. \<not> prefix ns x \<longrightarrow> view s' x = view s x)"
  proof (cases "wr a")
    case True
    with \<open>ok s\<close> obtain s' where "x_SetState ctx [(a, d)] s = (Ret (Inr [a]), s')" "ok s'" "view s' = (view s)(a := d)"
      by (rule set_one)
    with assms show ?thesis by auto
  next
    case False
    with \<open>ok s\<close> show ?thesis by (metis set_one_denied)
  qed
qed

end

context state_context
begin

lemma tx_safe_set:
  assumes "prefix ns a"
  shows "tx_safe ok view ns (bindP (x_SetState ctx [(a, d)]) (\<lambda>r. retP (case r of Inl e \<Rightarrow> Some e | Inr _ \<Rightarrow> None)))"
  unfolding tx_safe_def
proof (intro allI impI)
  fix s r s' assume "ok s" and r: "bindP (x_SetState ctx [(a, d)]) (\<lambda>r. retP (case r of Inl e \<Rightarrow> Some e | Inr _ \<Rightarrow> None)) s = (r, s')"
  show "ok s' \<and> (r \<noteq> Ret None \<longrightarrow> view s' = view s) \<and> (\<forall>a. \<not> prefix ns a \<longrightarrow> view s' a = view s a)"
  proof (cases "wr a")
    case True
    with \<open>ok s\<close> obtain s1 where "x_SetState ctx [(a, d)] s = (Ret (Inr [a]), s1)" "ok s1" "view s1 = (view s)(a := d)"
      by (rule set_one)
    with r assms show ?thesis by auto
  next
    case False
    with \<open>ok s\<close> obtain s1 m where "x_SetState ctx [(a, d)] s = (Ret (Inl (AuthorizationException m [])), s1)" "ok s1" "view s1 = view s"
      by (rule set_one_denied)
    with r show ?thesis by auto
  qed
qed

lemma tx_safe_delete:
  assumes "prefix ns a"
  shows "tx_safe ok view ns (bindP (x_DeleteState ctx [a]) (\<lambda>r. retP (case r of Inl e \<Rightarrow> Some e | Inr _ \<Rightarrow> None)))"
  unfolding tx_safe_def
proof (intro allI impI)
  fix s r s' assume "ok s" and r: "bindP (x_DeleteState ctx [a]) (\<lambda>r. retP (case r of Inl e \<Rightarrow> Some e | Inr _ \<Rightarrow> None)) s = (r, s')"
  show "ok s' \<and> (r \<noteq> Ret None \<longrightarrow> view s' = view s) \<and> (\<forall>a. \<not> prefix ns a \<longrightarrow> view s' a = view s a)"
  proof (cases "wr a")
    case True
    with \<open>ok s\<close> obtain s1 x where "x_DeleteState ctx [a] s = (Ret (Inr x), s1)" "ok s1" "view s1 = (view s)(a := [])"
      by (rule del_one)
    with r assms show ?thesis by auto
  next
    case False
    with \<open>ok s\<close> del_denied [of s "[a]"] obtain s1 m where
      "x_DeleteState ctx [a] s = (Ret (Inl (AuthorizationException m [])), s1)" "ok s1" "view s1 = view s" by auto
    with r show ?thesis by auto
  qed
qed

end

text \<open>
  A call that does what an abstract step says: \<open>R\<close> is an error (or a panic), after which the state
  is as before, or the abstract state reached, which the well-formed new state represents.
\<close>

definition implements ::
  "('s \<Rightarrow> bool) \<Rightarrow> ('s \<Rightarrow> string \<Rightarrow> bytes) \<Rightarrow> ((string \<Rightarrow> bytes) \<Rightarrow> bool) \<Rightarrow> ((string \<Rightarrow> bytes) \<Rightarrow> 'a) \<Rightarrow>
   ('s, go_error option) proc \<Rightarrow> 's \<Rightarrow> (go_error + 'a) outcome \<Rightarrow> bool" where
  "implements ok view wfd \<alpha> m s R \<longleftrightarrow> (case R of
     Panic e \<Rightarrow> \<exists>s'. m s = (Panic e, s') \<and> ok s' \<and> view s' = view s
   | Block \<Rightarrow> False
   | Ret (Inl e) \<Rightarrow> \<exists>s'. m s = (Ret (Some e), s') \<and> ok s' \<and> view s' = view s
   | Ret (Inr B) \<Rightarrow> \<exists>s'. m s = (Ret None, s') \<and> ok s' \<and> wfd (view s') \<and> \<alpha> (view s') = B)"

lemma implements_wf:
  assumes "implements ok view wfd \<alpha> m s R" "wfd (view s)" "m s = (r, s')"
  shows "ok s' \<and> wfd (view s')"
  using assms by (auto simp: implements_def split: outcome.splits sum.splits)

lemma apply_all_invariant:
  assumes "\<And>q s r s'. q \<in> set qs \<Longrightarrow> ok s \<Longrightarrow> wfd (view s) \<Longrightarrow> ap q s = (r, s') \<Longrightarrow> ok s' \<and> wfd (view s')"
    and "ok s" "wfd (view s)" "apply_all ap qs s = (r, s')"
  shows "wfd (view s')"
  using assms
proof (induction qs arbitrary: s r)
  case Nil
  then show ?case by simp
next
  case (Cons q qs)
  obtain r1 s1 where 1: "ap q s = (r1, s1)" by (cases "ap q s")
  with Cons.prems have wf1: "ok s1" "wfd (view s1)" by auto
  have "s' = s1 \<or> (\<exists>r'. apply_all ap qs s1 = (r', s'))"
    using Cons.prems(4) 1 by (cases "apply_all ap qs s1") (auto simp: bindP_def split: outcome.splits)
  then show ?case
  proof (elim disjE exE)
    assume "s' = s1"
    with wf1(2) show ?case by simp
  next
    fix r' assume "apply_all ap qs s1 = (r', s')"
    then show ?case
      by (intro Cons.IH [OF _ wf1]) (rule Cons.prems(1) [OF list.set_intros(2)], assumption+)
  qed
qed

text \<open>The contract of the locale from the structure.\<close>

lemma tp_family_tx_safe:
  assumes "state_context ctx ok view rd wr" "\<And>q. tx_safe ok view ns (ap q)"
  shows "tp_family ctx ok view rd wr ap ns"
  using assms unfolding tp_family_def tp_family_axioms_def tx_safe_def by blast

end
