(* ===== verification/Sha2.thy ===== *)
theory Sha2
  imports Go_Prelude "HOL-Library.Word"
begin

unbundle bit_operations_syntax

text \<open>
  The hash functions of the Go standard library that the sources call, crypto/sha512 and
  crypto/sha256, as FIPS 180-4 defines them, over 64-bit and 32-bit words.  The components use
  the digests as keys and rely on their length; the digests themselves are executable.
\<close>

section \<open>Words and bytes\<close>

definition be_word :: "bytes \<Rightarrow> 'a::len word" where
  "be_word bs = foldl (\<lambda>w c. (push_bit 8 w) OR (of_char c)) 0 bs"

definition word_bytes :: "nat \<Rightarrow> 'a::len word \<Rightarrow> bytes" where
  "word_bytes n w = map (\<lambda>i. char_of (uint (drop_bit (8 * (n - 1 - i)) w) mod 256)) [0..<n]"

lemma length_word_bytes [simp]: "length (word_bytes n w) = n"
  by (simp add: word_bytes_def)

text \<open>Cutting a list into pieces of a fixed positive size.\<close>

fun chunks :: "nat \<Rightarrow> 'a list \<Rightarrow> 'a list list" where
  "chunks n xs = (if n = 0 \<or> xs = [] then [] else take n xs # chunks n (drop n xs))"

declare chunks.simps [simp del]

text \<open>Padding: a one bit, zeros, and the encoded length \<open>len\<close> of the message in bits.\<close>

definition sha_pad :: "nat \<Rightarrow> bytes \<Rightarrow> bytes \<Rightarrow> bytes" where
  "sha_pad blk len m =
    (let z = (blk - (length m + 1 + length len) mod blk) mod blk
     in m @ [CHR 0x80] @ replicate z (CHR 0x00) @ len)"

lemma sha_pad_blocks:
  assumes "0 < blk"
  shows "length (sha_pad blk len m) mod blk = 0"
proof -
  let ?k = "length m + 1 + length len"
  have "?k mod blk < blk" using assms by simp
  have "(?k + (blk - ?k mod blk)) mod blk = (?k mod blk + (blk - ?k mod blk)) mod blk"
    by (simp add: mod_add_left_eq)
  also have "\<dots> = 0" using \<open>?k mod blk < blk\<close> by simp
  finally have "(?k + (blk - ?k mod blk) mod blk) mod blk = 0" by (subst mod_add_right_eq)
  then show ?thesis by (simp add: sha_pad_def Let_def ac_simps)
qed

section \<open>The compression function\<close>

text \<open>
  Both functions share the shape of the round; the rotation amounts are parameters (three for
  each of the two big sigma functions, two rotations and a shift for each small one).
\<close>

record sha_rot =
  big0 :: "nat \<times> nat \<times> nat"
  big1 :: "nat \<times> nat \<times> nat"
  small0 :: "nat \<times> nat \<times> nat"
  small1 :: "nat \<times> nat \<times> nat"

fun big_sigma :: "nat \<times> nat \<times> nat \<Rightarrow> 'a::len word \<Rightarrow> 'a word" where
  "big_sigma (a, b, c) x = word_rotr a x XOR word_rotr b x XOR word_rotr c x"

fun small_sigma :: "nat \<times> nat \<times> nat \<Rightarrow> 'a::len word \<Rightarrow> 'a word" where
  "small_sigma (a, b, c) x = word_rotr a x XOR word_rotr b x XOR drop_bit c x"

definition sha_ch :: "'a::len word \<Rightarrow> 'a word \<Rightarrow> 'a word \<Rightarrow> 'a word" where
  "sha_ch x y z = (x AND y) XOR ((NOT x) AND z)"

definition sha_maj :: "'a::len word \<Rightarrow> 'a word \<Rightarrow> 'a word \<Rightarrow> 'a word" where
  "sha_maj x y z = (x AND y) XOR (x AND z) XOR (y AND z)"

text \<open>The message schedule, most recent word first: \<open>ws\<close> holds the sixteen latest words.\<close>

fun schedule :: "sha_rot \<Rightarrow> nat \<Rightarrow> 'a::len word list \<Rightarrow> 'a word list" where
  "schedule r 0 ws = ws"
| "schedule r (Suc n) ws =
     schedule r n ((small_sigma (small1 r) (ws ! 1) + ws ! 6 + small_sigma (small0 r) (ws ! 14) + ws ! 15) # ws)"

type_synonym 'w sha_state = "'w \<times> 'w \<times> 'w \<times> 'w \<times> 'w \<times> 'w \<times> 'w \<times> 'w"

fun sha_round :: "sha_rot \<Rightarrow> 'a::len word sha_state \<Rightarrow> 'a word \<times> 'a word \<Rightarrow> 'a word sha_state" where
  "sha_round r (a, b, c, d, e, f, g, h) (k, w) =
    (let t1 = h + big_sigma (big1 r) e + sha_ch e f g + k + w;
         t2 = big_sigma (big0 r) a + sha_maj a b c
     in (t1 + t2, a, b, c, d + t1, e, f, g))"

fun sha_add :: "'a::len word sha_state \<Rightarrow> 'a word sha_state \<Rightarrow> 'a word sha_state" where
  "sha_add (a, b, c, d, e, f, g, h) (a', b', c', d', e', f', g', h') =
    (a + a', b + b', c + c', d + d', e + e', f + f', g + g', h + h')"

definition sha_block ::
  "sha_rot \<Rightarrow> 'a::len word list \<Rightarrow> 'a word sha_state \<Rightarrow> 'a word list \<Rightarrow> 'a word sha_state" where
  "sha_block r ks st ws =
    sha_add st (foldl (sha_round r) st (zip ks (rev (schedule r (length ks - 16) (rev ws)))))"

fun sha_out :: "nat \<Rightarrow> 'a::len word sha_state \<Rightarrow> bytes" where
  "sha_out n (a, b, c, d, e, f, g, h) = concat (map (word_bytes n) [a, b, c, d, e, f, g, h])"

lemma length_sha_out: "length (sha_out n st) = 8 * n"
  by (cases "(n, st)" rule: sha_out.cases) simp

section \<open>SHA-512\<close>

text \<open>
  The constants of the standard: the first bits of the fractional parts of the cube roots and
  square roots of the first primes, computed with integers.  \<open>root_bits r b n\<close> is the largest
  number of at most \<open>b\<close> bits whose \<open>r\<close>-th power does not exceed \<open>n\<close>.
\<close>

fun root_below :: "nat \<Rightarrow> nat \<Rightarrow> int \<Rightarrow> int \<Rightarrow> int" where
  "root_below r 0 acc n = acc"
| "root_below r (Suc b) acc n =
    (let c = acc + 2 ^ b in root_below r b (if c ^ r \<le> n then c else acc) n)"

definition root_bits :: "nat \<Rightarrow> nat \<Rightarrow> int \<Rightarrow> int" where
  "root_bits r b n = root_below r b 0 n"

definition first_primes :: "nat \<Rightarrow> int list" where
  "first_primes n = map int (take n (filter (\<lambda>p. \<forall>d \<in> set [2..<p]. p mod d \<noteq> 0) [2..<410]))"

definition root_frac :: "nat \<Rightarrow> int \<Rightarrow> 'a::len word" where
  "root_frac r p = word_of_int (root_bits r (LENGTH('a) + 4) (p * 2 ^ (r * LENGTH('a))))"

definition k512 :: "64 word list" where
  "k512 = map (root_frac 3) (first_primes 80)"

fun state_of_list :: "'a::len word list \<Rightarrow> 'a word sha_state" where
  "state_of_list [a, b, c, d, e, f, g, h] = (a, b, c, d, e, f, g, h)"
| "state_of_list _ = (0, 0, 0, 0, 0, 0, 0, 0)"

definition h512 :: "64 word sha_state" where
  "h512 = state_of_list (map (root_frac 2) (first_primes 8))"

definition rot512 :: sha_rot where
  "rot512 = \<lparr>big0 = (28, 34, 39), big1 = (14, 18, 41), small0 = (1, 8, 7), small1 = (19, 61, 6)\<rparr>"

definition sha512 :: "bytes \<Rightarrow> bytes" where
  "sha512 m = sha_out 8 (foldl (\<lambda>st blk. sha_block rot512 k512 st (map be_word (chunks 8 blk)))
      h512 (chunks 128 (sha_pad 128 (word_bytes 16 (word_of_int (8 * int (length m)) :: 128 word)) m)))"

lemma length_sha512 [simp]: "length (sha512 m) = 64"
  by (simp add: sha512_def length_sha_out)

section \<open>SHA-256\<close>

definition k256 :: "32 word list" where
  "k256 = map (root_frac 3) (first_primes 64)"

definition h256 :: "32 word sha_state" where
  "h256 = state_of_list (map (root_frac 2) (first_primes 8))"

definition rot256 :: sha_rot where
  "rot256 = \<lparr>big0 = (2, 13, 22), big1 = (6, 11, 25), small0 = (7, 18, 3), small1 = (17, 19, 10)\<rparr>"

definition sha256 :: "bytes \<Rightarrow> bytes" where
  "sha256 m = sha_out 4 (foldl (\<lambda>st blk. sha_block rot256 k256 st (map be_word (chunks 4 blk)))
      h256 (chunks 64 (sha_pad 64 (word_bytes 8 (word_of_int (8 * int (length m)) :: 64 word)) m)))"

lemma length_sha256 [simp]: "length (sha256 m) = 32"
  by (simp add: sha256_def length_sha_out)

section \<open>Hexadecimal digests\<close>

text \<open>
  The digest function every transaction family defines for its addresses: the lower case
  hexadecimal form of the SHA-512 digest.
\<close>

definition Hexdigest :: "string \<Rightarrow> string" where
  "Hexdigest str = to_lower (EncodeToString (sha512 str))"

lemma length_Hexdigest [simp]: "length (Hexdigest s) = 128"
  by (simp add: Hexdigest_def)

lemma Hexdigest_encode: "Hexdigest s = EncodeToString (sha512 s)"
  by (simp add: Hexdigest_def)

end
