(* ===== verification/Intkey.thy ===== *)
theory Intkey
  imports Transaction_Family Sha2
begin

text \<open>
  examples/intkey_go/src/sawtooth_intkey/handler/handler.go: the intkey transaction family, a
  map from names to integers with the verbs set, inc and dec.  The values of all names that
  share an address are stored together, as one CBOR-encoded map.

  The CBOR library (cbor_go) is not part of the sources: \<open>intkey_cbor\<close> holds its Loads at the two
  types the handler decodes and its Dumps at the type it encodes.  Loads fills a value in place
  and either returns an error or nil, or panics.
\<close>

section \<open>Data and constants\<close>

record IntkeyPayload =
  pl_Verb :: string
  pl_Name :: string
  pl_Value :: int

record IntkeyHandler =
  ih_namespace :: string

definition NewIntkeyHandler :: "string \<Rightarrow> IntkeyHandler" where
  "NewIntkeyHandler namespace = \<lparr>ih_namespace = namespace\<rparr>"

abbreviation MIN_VALUE :: int where "MIN_VALUE \<equiv> 0"
abbreviation MAX_VALUE :: int where "MAX_VALUE \<equiv> 4294967295"
abbreviation MAX_NAME_LENGTH :: nat where "MAX_NAME_LENGTH \<equiv> 20"
abbreviation INTKEY_FAMILY_NAME :: string where "INTKEY_FAMILY_NAME \<equiv> ''intkey''"

datatype load_result = Loaded "go_error option" | LoadPanic

type_synonym collision_map = "(string \<rightharpoonup> int) option"

record intkey_cbor =
  loads_payload :: "bytes \<Rightarrow> IntkeyPayload \<Rightarrow> load_result \<times> IntkeyPayload"
  loads_map :: "bytes \<Rightarrow> collision_map \<Rightarrow> load_result \<times> collision_map"
  dumps_map :: "(string \<rightharpoonup> int) \<Rightarrow> bytes \<times> go_error option"

section \<open>The handler\<close>

definition Intkey_FamilyName :: "IntkeyHandler \<Rightarrow> string" where
  "Intkey_FamilyName self = INTKEY_FAMILY_NAME"

definition Intkey_FamilyVersions :: "IntkeyHandler \<Rightarrow> string list" where
  "Intkey_FamilyVersions self = [''1.0'']"

definition Intkey_Namespaces :: "IntkeyHandler \<Rightarrow> string list" where
  "Intkey_Namespaces self = [ih_namespace self]"

text \<open>
  DecodeCBOR recovers from a panic of the library, but the error its deferred function returns is
  dropped: the call then returns nil.
\<close>

definition DecodeCBOR :: "('v \<Rightarrow> load_result \<times> 'v) \<Rightarrow> 'v \<Rightarrow> go_error option \<times> 'v" where
  "DecodeCBOR loads pointer =
    (case loads pointer of
       (Loaded (Some err), v) \<Rightarrow> (Some err, v)
     | (Loaded None, v) \<Rightarrow> (None, v)
     | (LoadPanic, v) \<Rightarrow> (None, v))"

definition EncodeCBOR :: "intkey_cbor \<Rightarrow> (string \<rightharpoonup> int) \<Rightarrow> bytes \<times> go_error option" where
  "EncodeCBOR cb value = dumps_map cb value"

definition intkey_address :: "IntkeyHandler \<Rightarrow> string \<Rightarrow> string" where
  "intkey_address self name =
    (let hashed_name = Hexdigest name in ih_namespace self @ drop (length hashed_name - 64) hashed_name)"

text \<open>The value a verb gives a name, from the collision map: the checks of lines 135 to 167.\<close>

definition intkey_new_value :: "string \<Rightarrow> int \<Rightarrow> int option \<Rightarrow> go_error + int" where
  "intkey_new_value verb value stored =
    (if verb = ''inc'' \<or> verb = ''dec'' then
       (case stored of
          None \<Rightarrow> Inl (InvalidTransactionError ''Need existing value for inc/dec'' [])
        | Some storedValue \<Rightarrow>
           (let newValue = (if verb = ''inc'' then wrap64 (storedValue + value) else wrap64 (storedValue - value))
            in if newValue < MIN_VALUE
               then Inl (InvalidTransactionError ''New Value must be >= %!(EXTRA int=0)'' [])
               else if newValue > MAX_VALUE
               then Inl (InvalidTransactionError ''New Value must be <= %!(EXTRA int=4294967295)'' [])
               else Inr newValue))
     else if verb = ''set'' then
       (case stored of
          Some _ \<Rightarrow> Inl (InvalidTransactionError ''Cannot set existing value'' [])
        | None \<Rightarrow> Inr value)
     else Inr 0)"

definition intkey_check :: "IntkeyPayload \<Rightarrow> go_error option" where
  "intkey_check payload =
    (if length (pl_Name payload) > MAX_NAME_LENGTH
     then Some (InvalidTransactionError ''Name must be a string of no more than 20 characters'' [])
     else if pl_Value payload < MIN_VALUE
     then Some (InvalidTransactionError (''Value must be >= 0, not: '' @ Itoa (pl_Value payload)) [])
     else if pl_Value payload > MAX_VALUE
     then Some (InvalidTransactionError (''Value must be <= 4294967295, not: '' @ Itoa (pl_Value payload)) [])
     else if \<not> (pl_Verb payload = ''set'' \<or> pl_Verb payload = ''inc'' \<or> pl_Verb payload = ''dec'')
     then Some (InvalidTransactionError (''Invalid verb: '' @ pl_Verb payload) [])
     else None)"

definition intkey_load :: "intkey_cbor \<Rightarrow> bytes option \<Rightarrow> go_error + collision_map" where
  "intkey_load cb data =
    (case data of
       Some d \<Rightarrow>
        (if length d > 0 then
           (case DecodeCBOR (loads_map cb d) None of
              (Some err, _) \<Rightarrow> Inl (InternalError (''Failed to decode data: '' @ Error err) [])
            | (None, m) \<Rightarrow> Inr m)
         else Inr (Some Map.empty))
     | None \<Rightarrow> Inr (Some Map.empty))"

definition Intkey_Apply ::
  "intkey_cbor \<Rightarrow> IntkeyHandler \<Rightarrow> TpProcessRequest \<Rightarrow> 's Context_methods \<Rightarrow> ('s, go_error option) proc" where
  "Intkey_Apply cb self request context =
    (case TpProcessRequest_Payload request of
       None \<Rightarrow> retP (Some (InvalidTransactionError ''Must contain payload'' []))
     | Some payloadData \<Rightarrow>
       (case DecodeCBOR (loads_payload cb payloadData) \<lparr>pl_Verb = [], pl_Name = [], pl_Value = 0\<rparr> of
          (Some err, _) \<Rightarrow> retP (Some (InvalidTransactionError (''Failed to decode payload: '' @ Error err) []))
        | (None, payload) \<Rightarrow>
          (case intkey_check payload of
             Some err \<Rightarrow> retP (Some err)
           | None \<Rightarrow>
             (let name = pl_Name payload; address = intkey_address self name in
              bindP (x_GetState context [address]) (\<lambda>r.
                case r of
                  Inl err \<Rightarrow> retP (Some err)
                | Inr results \<Rightarrow>
                  (case intkey_load cb (results address) of
                     Inl err \<Rightarrow> retP (Some err)
                   | Inr collisionMap \<Rightarrow>
                     (case intkey_new_value (pl_Verb payload) (pl_Value payload)
                             (case collisionMap of None \<Rightarrow> None | Some m \<Rightarrow> m name) of
                        Inl err \<Rightarrow> retP (Some err)
                      | Inr newValue \<Rightarrow>
                        (case collisionMap of
                           None \<Rightarrow> panicP ''assignment to entry in nil map''
                         | Some m \<Rightarrow>
                           (case EncodeCBOR cb (m(name \<mapsto> newValue)) of
                              (_, Some err) \<Rightarrow> retP (Some (InternalError (''Failed to encode new map:'' @ Error err) []))
                            | (data, None) \<Rightarrow>
                              bindP (x_SetState context [(address, data)]) (\<lambda>r.
                                case r of
                                  Inl err \<Rightarrow> retP (Some err)
                                | Inr addresses \<Rightarrow>
                                  if length addresses = 0
                                  then retP (Some (InternalError ''No addresses in set response'' []))
                                  else retP None))))))))))"

section \<open>What a request does to the state\<close>

text \<open>The decoded payload of a request that passes every check made before the state is read.\<close>

definition intkey_accepts :: "intkey_cbor \<Rightarrow> TpProcessRequest \<Rightarrow> IntkeyPayload option" where
  "intkey_accepts cb request =
    (case TpProcessRequest_Payload request of
       None \<Rightarrow> None
     | Some d \<Rightarrow> (case DecodeCBOR (loads_payload cb d) \<lparr>pl_Verb = [], pl_Name = [], pl_Value = 0\<rparr> of
         (None, payload) \<Rightarrow> if intkey_check payload = None then Some payload else None
       | _ \<Rightarrow> None))"

lemma Intkey_Apply_rejects:
  "intkey_accepts cb q = None \<Longrightarrow> \<exists>e. Intkey_Apply cb self q ctx = retP (Some e)"
  by (auto simp: intkey_accepts_def Intkey_Apply_def split: option.splits prod.splits if_splits)

text \<open>The rest of the handler, on the data found at the address.\<close>

definition intkey_update :: "intkey_cbor \<Rightarrow> IntkeyPayload \<Rightarrow> bytes option \<Rightarrow> (go_error + bytes) outcome" where
  "intkey_update cb payload data =
    (case intkey_load cb data of
       Inl err \<Rightarrow> Ret (Inl err)
     | Inr cm \<Rightarrow> (case intkey_new_value (pl_Verb payload) (pl_Value payload)
             (case cm of None \<Rightarrow> None | Some m \<Rightarrow> m (pl_Name payload)) of
          Inl err \<Rightarrow> Ret (Inl err)
        | Inr v \<Rightarrow> (case cm of
             None \<Rightarrow> Panic ''assignment to entry in nil map''
           | Some m \<Rightarrow> (case EncodeCBOR cb (m(pl_Name payload \<mapsto> v)) of
               (_, Some err) \<Rightarrow> Ret (Inl (InternalError (''Failed to encode new map:'' @ Error err) []))
             | (d, None) \<Rightarrow> Ret (Inr d)))))"

lemma Intkey_Apply_accepts:
  assumes "intkey_accepts cb q = Some p" and a: "a = intkey_address self (pl_Name p)"
    and "x_GetState ctx [a] s = (Ret (Inr m), s1)"
  shows "Intkey_Apply cb self q ctx s =
    (case intkey_update cb p (m a) of
       Panic e \<Rightarrow> (Panic e, s1)
     | Block \<Rightarrow> (Block, s1)
     | Ret (Inl err) \<Rightarrow> (Ret (Some err), s1)
     | Ret (Inr d) \<Rightarrow> bindP (x_SetState ctx [(a, d)]) (\<lambda>r. case r of
          Inl err \<Rightarrow> retP (Some err)
        | Inr addresses \<Rightarrow> if length addresses = 0
            then retP (Some (InternalError ''No addresses in set response'' [])) else retP None) s1)"
proof -
  from assms(1) obtain d where d: "TpProcessRequest_Payload q = Some d"
    "DecodeCBOR (loads_payload cb d) \<lparr>pl_Verb = [], pl_Name = [], pl_Value = 0\<rparr> = (None, p)"
    "intkey_check p = None"
    by (auto simp: intkey_accepts_def split: option.splits prod.splits if_splits)
  show ?thesis
    using assms(3) unfolding a
    by (auto simp: Intkey_Apply_def d Let_def intkey_update_def split: option.splits sum.splits prod.splits)
qed

context state_context
begin

text \<open>Every outcome of the handler, with its effect on the state.\<close>

lemma Intkey_Apply_effect:
  assumes "ok s" "Intkey_Apply cb self q ctx s = (r, s')"
  shows "ok s' \<and> (view s' = view s \<and> r \<noteq> Ret None \<or>
    r = Ret None \<and> (\<exists>p d. intkey_accepts cb q = Some p \<and>
      (let a = intkey_address self (pl_Name p); data = (if view s a = [] then None else Some (view s a)) in
       rd a \<and> wr a \<and> intkey_update cb p data = Ret (Inr d) \<and> view s' = (view s)(a := d))))"
proof (cases "intkey_accepts cb q")
  case None
  with assms show ?thesis using Intkey_Apply_rejects [OF None, of self ctx] by auto
next
  case (Some p)
  define a where "a = intkey_address self (pl_Name p)"
  show ?thesis
  proof (cases "rd a")
    case False
    then obtain s1 m where "x_GetState ctx [a] s = (Ret (Inl (AuthorizationException m [])), s1)"
      "ok s1" "view s1 = view s"
      using get_one_denied assms(1) by blast
    with Some assms(2) a_def show ?thesis
      by (auto simp: intkey_accepts_def Intkey_Apply_def Let_def split: option.splits prod.splits if_splits)
  next
    case True
    let ?m = "\<lambda>x. if x = a \<and> view s a \<noteq> [] then Some (view s a) else None"
    from assms(1) True obtain s1 where s1: "x_GetState ctx [a] s = (Ret (Inr ?m), s1)" "ok s1" "view s1 = view s"
      by (rule get_one)
    note ap = Intkey_Apply_accepts [OF Some a_def s1(1)]
    show ?thesis
    proof (cases "\<exists>d. intkey_update cb p (?m a) = Ret (Inr d)")
      case False
      with ap assms(2) s1(2,3) show ?thesis by (auto split: outcome.splits sum.splits)
    next
      case upd: True
      then obtain d where d: "intkey_update cb p (?m a) = Ret (Inr d)" by blast
      show ?thesis
      proof (cases "wr a")
        case False
        from s1(2) False obtain s2 m' where
          "x_SetState ctx [(a, d)] s1 = (Ret (Inl (AuthorizationException m' [])), s2)" "ok s2" "view s2 = view s1"
          by (rule set_one_denied)
        with ap d assms(2) s1(3) show ?thesis by auto
      next
        case w: True
        from s1(2) w obtain s2 where "x_SetState ctx [(a, d)] s1 = (Ret (Inr [a]), s2)" "ok s2" "view s2 = (view s1)(a := d)"
          by (rule set_one)
        with ap d assms(2) s1(3) Some True w show ?thesis by (auto simp: a_def Let_def)
      qed
    qed
  qed
qed

end

interpretation intkey: tp_family "tp_methods pb cid" "state_conn pb cid st rd wr react"
    "\<lambda>c. st (peer c)" rd wr "\<lambda>q. Intkey_Apply cb self q (tp_methods pb cid)" "ih_namespace self"
  for pb cid st rd wr react cb self
proof (unfold_locales, goal_cases)
  case (1 s q r s')
  then show ?case using tp.Intkey_Apply_effect by blast
next
  case (2 s q r s')
  then show ?case using tp.Intkey_Apply_effect by blast
next
  case (3 s q r s' a)
  from tp.Intkey_Apply_effect [OF 3(1,2)] 3(3) show ?case
    by (auto simp: Let_def intkey_address_def)
qed

section \<open>The abstract store\<close>

text \<open>
  What the family promises: a partial map from names to values with three operations.  The
  abstraction reads the value of a name out of the collision map stored at its address.
\<close>

definition intkey_spec :: "IntkeyPayload \<Rightarrow> (string \<rightharpoonup> int) \<Rightarrow> (string \<rightharpoonup> int) option" where
  "intkey_spec p M =
    (if pl_Verb p = ''set'' then (if M (pl_Name p) = None then Some (M(pl_Name p \<mapsto> pl_Value p)) else None)
     else case M (pl_Name p) of
       None \<Rightarrow> None
     | Some v \<Rightarrow>
        (if pl_Verb p = ''inc'' then (if v + pl_Value p \<le> MAX_VALUE then Some (M(pl_Name p \<mapsto> v + pl_Value p)) else None)
         else (if pl_Value p \<le> v then Some (M(pl_Name p \<mapsto> v - pl_Value p)) else None)))"

definition intkey_value :: "intkey_cbor \<Rightarrow> IntkeyHandler \<Rightarrow> (string \<Rightarrow> bytes) \<Rightarrow> string \<Rightarrow> int option" where
  "intkey_value cb self f name =
    (let d = f (intkey_address self name) in
     if d = [] then None else case loads_map cb d None of (_, Some m) \<Rightarrow> m name | _ \<Rightarrow> None)"

definition bounded_map :: "(string \<rightharpoonup> int) \<Rightarrow> bool" where
  "bounded_map m \<longleftrightarrow> finite (dom m) \<and> (\<forall>n v. m n = Some v \<longrightarrow> MIN_VALUE \<le> v \<and> v \<le> MAX_VALUE)"

definition intkey_wf :: "intkey_cbor \<Rightarrow> IntkeyHandler \<Rightarrow> (string \<Rightarrow> bytes) \<Rightarrow> bool" where
  "intkey_wf cb self f \<longleftrightarrow> (\<forall>name. f (intkey_address self name) = [] \<or>
     (\<exists>m. loads_map cb (f (intkey_address self name)) None = (Loaded None, Some m) \<and> bounded_map m))"

text \<open>The documented round trip of the CBOR library, at maps whose values fit.\<close>

definition intkey_cbor_ok :: "intkey_cbor \<Rightarrow> bool" where
  "intkey_cbor_ok cb \<longleftrightarrow> (\<forall>m. bounded_map m \<longrightarrow>
     (\<exists>d. dumps_map cb m = (d, None) \<and> d \<noteq> [] \<and> loads_map cb d None = (Loaded None, Some m)))"

lemma intkey_load_wf:
  assumes "intkey_wf cb self f" and a: "a = intkey_address self name"
  obtains m where "intkey_load cb (if f a = [] then None else Some (f a)) = Inr (Some m)" "bounded_map m"
    "\<And>x. intkey_address self x = a \<Longrightarrow> intkey_value cb self f x = m x"
proof (cases "f a = []")
  case True
  show thesis
    by (rule that [of Map.empty])
      (use True in \<open>auto simp: intkey_load_def bounded_map_def intkey_value_def\<close>)
next
  case False
  with assms obtain m where m: "loads_map cb (f a) None = (Loaded None, Some m)" "bounded_map m"
    by (auto simp: intkey_wf_def)
  show thesis
    by (rule that [of m])
      (use False m in \<open>auto simp: intkey_load_def DecodeCBOR_def intkey_value_def\<close>)
qed

lemma intkey_check_None:
  "intkey_check p = None \<longleftrightarrow> length (pl_Name p) \<le> MAX_NAME_LENGTH \<and> MIN_VALUE \<le> pl_Value p \<and>
     pl_Value p \<le> MAX_VALUE \<and> pl_Verb p \<in> {''set'', ''inc'', ''dec''}"
  by (auto simp: intkey_check_def)

text \<open>The checked arithmetic of the handler is the specification: no sum or difference wraps.\<close>

lemma intkey_new_value_spec:
  assumes "intkey_check p = None" "bounded_map m" "M (pl_Name p) = m (pl_Name p)"
  shows "case intkey_spec p M of
      None \<Rightarrow> \<exists>e. intkey_new_value (pl_Verb p) (pl_Value p) (m (pl_Name p)) = Inl (InvalidTransactionError e [])
    | Some M' \<Rightarrow> \<exists>v. intkey_new_value (pl_Verb p) (pl_Value p) (m (pl_Name p)) = Inr v \<and>
        M' = M(pl_Name p \<mapsto> v) \<and> MIN_VALUE \<le> v \<and> v \<le> MAX_VALUE"
proof -
  have "MIN_VALUE \<le> v \<and> v \<le> MAX_VALUE" if "m (pl_Name p) = Some v" for v
    using assms(2) that by (auto simp: bounded_map_def)
  with assms(1,3) show ?thesis
    by (auto simp: intkey_check_None intkey_spec_def intkey_new_value_def Let_def split: option.splits)
qed

lemma bounded_map_upd:
  "bounded_map m \<Longrightarrow> MIN_VALUE \<le> v \<Longrightarrow> v \<le> MAX_VALUE \<Longrightarrow> bounded_map (m(n \<mapsto> v))"
  by (auto simp: bounded_map_def)

lemma intkey_update_spec:
  assumes "intkey_cbor_ok cb" "intkey_wf cb self f" "intkey_check p = None"
    and a: "a = intkey_address self (pl_Name p)"
  shows "case intkey_spec p (intkey_value cb self f) of
      None \<Rightarrow> \<exists>e. intkey_update cb p (if f a = [] then None else Some (f a)) = Ret (Inl (InvalidTransactionError e []))
    | Some M \<Rightarrow> \<exists>d. intkey_update cb p (if f a = [] then None else Some (f a)) = Ret (Inr d) \<and>
        intkey_wf cb self (f(a := d)) \<and> intkey_value cb self (f(a := d)) = M"
proof -
  obtain m where ld: "intkey_load cb (if f a = [] then None else Some (f a)) = Inr (Some m)"
    and bm: "bounded_map m" and val: "\<And>x. intkey_address self x = a \<Longrightarrow> intkey_value cb self f x = m x"
    by (rule intkey_load_wf [OF assms(2) a]) blast
  note spec = intkey_new_value_spec [OF assms(3) bm, of "intkey_value cb self f"]
  show ?thesis
  proof (cases "intkey_spec p (intkey_value cb self f)")
    case None
    with spec val a ld show ?thesis by (auto simp: intkey_update_def)
  next
    case (Some M)
    with spec val a obtain v where v: "intkey_new_value (pl_Verb p) (pl_Value p) (m (pl_Name p)) = Inr v"
      "M = (intkey_value cb self f)(pl_Name p \<mapsto> v)" "MIN_VALUE \<le> v" "v \<le> MAX_VALUE" by auto
    let ?m = "m(pl_Name p \<mapsto> v)"
    have bm': "bounded_map ?m" using bm v(3,4) by (rule bounded_map_upd)
    with assms(1) obtain d where d: "dumps_map cb ?m = (d, None)" "d \<noteq> []"
      "loads_map cb d None = (Loaded None, Some ?m)" by (auto simp: intkey_cbor_ok_def)
    have "intkey_update cb p (if f a = [] then None else Some (f a)) = Ret (Inr d)"
      using ld v(1) d(1) by (simp add: intkey_update_def EncodeCBOR_def)
    moreover have "intkey_wf cb self (f(a := d))"
      using assms(2) d(3) bm' by (auto simp: intkey_wf_def)
    moreover have "intkey_value cb self (f(a := d)) = M"
      using d(2,3) val by (auto simp: v(2) a intkey_value_def Let_def fun_eq_iff)
    ultimately show ?thesis using Some by auto
  qed
qed

lemma intkey_accepts_check: "intkey_accepts cb q = Some p \<Longrightarrow> intkey_check p = None"
  by (auto simp: intkey_accepts_def split: option.splits prod.splits if_splits)

context state_context
begin

lemma Intkey_Apply_spec:
  assumes "ok s" "intkey_cbor_ok cb" "intkey_wf cb self (view s)" "intkey_accepts cb q = Some p"
    and "rd (intkey_address self (pl_Name p))" "wr (intkey_address self (pl_Name p))"
  shows "case intkey_spec p (intkey_value cb self (view s)) of
      None \<Rightarrow> \<exists>e s'. Intkey_Apply cb self q ctx s = (Ret (Some (InvalidTransactionError e [])), s') \<and>
        ok s' \<and> view s' = view s
    | Some M \<Rightarrow> \<exists>s'. Intkey_Apply cb self q ctx s = (Ret None, s') \<and> ok s' \<and>
        intkey_wf cb self (view s') \<and> intkey_value cb self (view s') = M"
proof -
  define a where "a = intkey_address self (pl_Name p)"
  let ?m = "\<lambda>x. if x = a \<and> view s a \<noteq> [] then Some (view s a) else None"
  have "rd a" "wr a" using assms(5,6) by (simp_all add: a_def)
  with assms(1) obtain s1 where s1: "x_GetState ctx [a] s = (Ret (Inr ?m), s1)" "ok s1" "view s1 = view s"
    by (metis get_one)
  note ap = Intkey_Apply_accepts [OF assms(4) a_def s1(1)]
  note upd = intkey_update_spec [OF assms(2,3) intkey_accepts_check [OF assms(4)] a_def]
  show ?thesis
  proof (cases "intkey_spec p (intkey_value cb self (view s))")
    case None
    with ap upd s1(2,3) show ?thesis by auto
  next
    case (Some M)
    with upd obtain d where d: "intkey_update cb p (if view s a = [] then None else Some (view s a)) = Ret (Inr d)"
      "intkey_wf cb self ((view s)(a := d))" "intkey_value cb self ((view s)(a := d)) = M" by auto
    from s1(2) \<open>wr a\<close> obtain s2 where "x_SetState ctx [(a, d)] s1 = (Ret (Inr [a]), s2)" "ok s2"
      "view s2 = (view s1)(a := d)" by (rule set_one)
    with ap d s1(3) Some show ?thesis by (auto split: if_splits)
  qed
qed

text \<open>No request, whatever its payload, makes the handler panic or wait on a well-formed state.\<close>

lemma Intkey_Apply_total:
  assumes "ok s" "intkey_cbor_ok cb" "intkey_wf cb self (view s)"
  obtains e s' where "Intkey_Apply cb self q ctx s = (Ret e, s')" "ok s'" "intkey_wf cb self (view s')"
proof (cases "intkey_accepts cb q")
  case None
  with assms that show thesis using Intkey_Apply_rejects [OF None, of self ctx] by auto
next
  case (Some p)
  define a where "a = intkey_address self (pl_Name p)"
  note upd = intkey_update_spec [OF assms(2,3) intkey_accepts_check [OF Some] a_def]
  show thesis
  proof (cases "rd a \<and> wr a")
    case True
    with Intkey_Apply_spec [OF assms Some] assms(3) that show thesis
      by (auto simp: a_def split: option.splits)
  next
    case False
    obtain r s' where r: "Intkey_Apply cb self q ctx s = (r, s')" by (cases "Intkey_Apply cb self q ctx s")
    from Intkey_Apply_effect [OF assms(1) r] False Some have ok': "ok s'" "view s' = view s"
      by (auto simp: a_def Let_def)
    have "\<exists>e. r = Ret e"
    proof (cases "rd a")
      case False
      then obtain s1 m where "x_GetState ctx [a] s = (Ret (Inl (AuthorizationException m [])), s1)"
        using get_one_denied assms(1) by blast
      with Some r a_def show ?thesis
        by (auto simp: intkey_accepts_def Intkey_Apply_def Let_def split: option.splits prod.splits if_splits)
    next
      case True
      with False have "\<not> wr a" by simp
      let ?m = "\<lambda>x. if x = a \<and> view s a \<noteq> [] then Some (view s a) else None"
      from assms(1) True obtain s1 where s1: "x_GetState ctx [a] s = (Ret (Inr ?m), s1)" "ok s1"
        by (rule get_one)
      have set: "\<exists>e s2. x_SetState ctx [(a, d)] s1 = (Ret (Inl e), s2)" for d
        using s1(2) \<open>\<not> wr a\<close> by (rule set_one_denied) blast
      from upd obtain x where x: "intkey_update cb p (?m a) = Ret x"
        by (cases "intkey_spec p (intkey_value cb self (view s))") (auto split: if_splits)
      show ?thesis
      proof (cases x)
        case (Inl e)
        with Intkey_Apply_accepts [OF Some a_def s1(1)] r x show ?thesis by simp
      next
        case (Inr d)
        from set [of d] obtain e s2 where "x_SetState ctx [(a, d)] s1 = (Ret (Inl e), s2)" by blast
        with Intkey_Apply_accepts [OF Some a_def s1(1)] r x Inr show ?thesis by simp
      qed
    qed
    with r ok' assms(3) that show thesis by auto
  qed
qed

lemma Intkey_apply_all:
  assumes "ok s" "intkey_cbor_ok cb" "intkey_wf cb self (view s)"
  shows "\<exists>es s'. apply_all (\<lambda>q. Intkey_Apply cb self q ctx) qs s = (Ret es, s') \<and>
    length es = length qs \<and> ok s' \<and> intkey_wf cb self (view s')"
  using assms
proof (induction qs arbitrary: s)
  case Nil
  then show ?case by simp
next
  case (Cons q qs)
  from Cons.prems obtain e s1 where "Intkey_Apply cb self q ctx s = (Ret e, s1)" "ok s1" "intkey_wf cb self (view s1)"
    by (rule Intkey_Apply_total)
  with Cons.IH [of s1] Cons.prems(2) show ?case by fastforce
qed

end

lemma intkey_wf_value_bounds:
  assumes "intkey_wf cb self f" "intkey_value cb self f n = Some v"
  shows "MIN_VALUE \<le> v \<and> v \<le> MAX_VALUE"
proof -
  obtain m where "bounded_map m" "intkey_value cb self f n = m n"
    using intkey_load_wf [OF assms(1) refl, of n] by (metis)
  with assms(2) show ?thesis by (simp add: bounded_map_def)
qed

section \<open>A concrete codec\<close>

definition demo_payload :: "IntkeyPayload \<Rightarrow> bytes" where
  "demo_payload p = replicate (to_nat (pl_Verb p, pl_Name p, pl_Value p)) (CHR 0x00)"

definition demo_cbor :: intkey_cbor where
  "demo_cbor = \<lparr>
     loads_payload = (\<lambda>b v. (Loaded None, case from_nat (length b) of
        (verb, name, value) \<Rightarrow> \<lparr>pl_Verb = verb, pl_Name = name, pl_Value = value\<rparr>)),
     loads_map = (\<lambda>b v. (Loaded None, Some (map_of (from_nat (length b - 1))))),
     dumps_map = (\<lambda>m. (replicate (Suc (to_nat (map (\<lambda>k. (k, the (m k))) (sorted_list_of_set (dom m))))) (CHR 0x00), None))\<rparr>"

lemma map_of_sorted_dom:
  "finite (dom m) \<Longrightarrow> map_of (map (\<lambda>k. (k, the (m k))) (sorted_list_of_set (dom m))) = m"
  by (rule ext) (auto simp: map_of_map_restrict restrict_map_def dom_def)

lemma demo_cbor_ok [simp]: "intkey_cbor_ok demo_cbor"
  by (auto simp: intkey_cbor_ok_def bounded_map_def demo_cbor_def map_of_sorted_dom)

definition demo_request :: "IntkeyPayload \<Rightarrow> TpProcessRequest" where
  "demo_request p = \<lparr>TpProcessRequest_Header = None, TpProcessRequest_Payload = Some (demo_payload p),
     TpProcessRequest_Signature = [], TpProcessRequest_ContextId = ''ctx''\<rparr>"

lemma demo_accepts [simp]:
  "intkey_check p = None \<Longrightarrow> intkey_accepts demo_cbor (demo_request p) = Some p"
  by (cases p) (simp add: intkey_accepts_def demo_request_def demo_cbor_def demo_payload_def DecodeCBOR_def)

lemma intkey_wf_empty [simp]: "intkey_wf cb self (\<lambda>a. [])"
  by (simp add: intkey_wf_def)

section \<open>Properties\<close>

text \<open>
  C4: the intkey handler implements the abstract store.  For a request whose payload decodes and
  passes the checks, on a well-formed validator state in which the handler may read and write the
  name's address, Apply commits exactly when the specified operation is defined: set on a name
  that is absent, inc and dec on a name that is present and whose new value stays within
  0 to 4294967295.  It then returns nil, the stored values of all names are those of the
  specification (names that share the address included) and the state is well formed again;
  otherwise it returns an InvalidTransactionError and the state is unchanged.
\<close>

theorem Intkey_Apply_refines:
  assumes "state_conn pb cid st rd wr react c" "intkey_cbor_ok cb" "intkey_wf cb self (st (peer c))"
    and "intkey_accepts cb q = Some p"
    and "rd (intkey_address self (pl_Name p))" "wr (intkey_address self (pl_Name p))"
  shows "case intkey_spec p (intkey_value cb self (st (peer c))) of
      None \<Rightarrow> \<exists>e c'. Intkey_Apply cb self q (tp_methods pb cid) c = (Ret (Some (InvalidTransactionError e [])), c') \<and>
        state_conn pb cid st rd wr react c' \<and> st (peer c') = st (peer c)
    | Some M \<Rightarrow> \<exists>c'. Intkey_Apply cb self q (tp_methods pb cid) c = (Ret None, c') \<and>
        state_conn pb cid st rd wr react c' \<and> intkey_wf cb self (st (peer c')) \<and>
        intkey_value cb self (st (peer c')) = M"
  using assms by (rule tp.Intkey_Apply_spec)

text \<open>A first set of a name on an empty validator state.\<close>

lemma Intkey_Apply_refines_witness:
  "\<exists>c'. Intkey_Apply demo_cbor (NewIntkeyHandler ''1cf126'')
      (demo_request \<lparr>pl_Verb = ''set'', pl_Name = ''x'', pl_Value = 7\<rparr>) (tp_methods unary_tp_pb ''ctx'')
      (demo_conn (\<lambda>a. True) (\<lambda>a. True) (\<lambda>a. [])) = (Ret None, c') \<and>
    intkey_value demo_cbor (NewIntkeyHandler ''1cf126'') (peer c') = [''x'' \<mapsto> 7]"
proof -
  have "intkey_spec \<lparr>pl_Verb = ''set'', pl_Name = ''x'', pl_Value = 7\<rparr>
      (intkey_value demo_cbor (NewIntkeyHandler ''1cf126'') (\<lambda>a. [])) = Some [''x'' \<mapsto> 7]"
    by (auto simp: intkey_spec_def intkey_value_def fun_eq_iff)
  then show ?thesis
    using Intkey_Apply_refines [OF demo_state_conn [of "''ctx''" "\<lambda>a. True" "\<lambda>a. True" "\<lambda>a. []"] demo_cbor_ok,
        of "NewIntkeyHandler ''1cf126''" "demo_request \<lparr>pl_Verb = ''set'', pl_Name = ''x'', pl_Value = 7\<rparr>"
          "\<lparr>pl_Verb = ''set'', pl_Name = ''x'', pl_Value = 7\<rparr>"]
    by (simp add: intkey_check_def) blast
qed

text \<open>
  Intkey values never leave their range.  Whatever requests arrive, well formed or not and
  permitted or not, one after the other, from a well-formed state every Apply returns (no panic,
  no endless wait), and in the resulting state every value of every name lies between 0 and
  4294967295.
\<close>

theorem Intkey_run_bounded:
  assumes "state_conn pb cid st rd wr react c" "intkey_cbor_ok cb" "intkey_wf cb self (st (peer c))"
  shows "\<exists>es c'. apply_all (\<lambda>q. Intkey_Apply cb self q (tp_methods pb cid)) qs c = (Ret es, c') \<and>
    length es = length qs \<and> intkey_wf cb self (st (peer c')) \<and>
    (\<forall>n v. intkey_value cb self (st (peer c')) n = Some v \<longrightarrow> MIN_VALUE \<le> v \<and> v \<le> MAX_VALUE)"
  using tp.Intkey_apply_all [OF assms, of qs] by (auto dest: intkey_wf_value_bounds)

lemma Intkey_run_bounded_witness:
  "\<exists>es c'. apply_all (\<lambda>q. Intkey_Apply demo_cbor (NewIntkeyHandler ''1cf126'') q (tp_methods unary_tp_pb ''ctx''))
     [demo_request \<lparr>pl_Verb = ''set'', pl_Name = ''x'', pl_Value = 4294967295\<rparr>,
      demo_request \<lparr>pl_Verb = ''inc'', pl_Name = ''x'', pl_Value = 1\<rparr>]
     (demo_conn (\<lambda>a. True) (\<lambda>a. True) (\<lambda>a. [])) = (Ret es, c') \<and> length es = 2 \<and>
    (\<forall>n v. intkey_value demo_cbor (NewIntkeyHandler ''1cf126'') (peer c') n = Some v \<longrightarrow> 0 \<le> v \<and> v \<le> 4294967295)"
  using Intkey_run_bounded [OF demo_state_conn [of "''ctx''" "\<lambda>a. True" "\<lambda>a. True" "\<lambda>a. []"] demo_cbor_ok,
      of "NewIntkeyHandler ''1cf126''" "[demo_request \<lparr>pl_Verb = ''set'', pl_Name = ''x'', pl_Value = 4294967295\<rparr>,
      demo_request \<lparr>pl_Verb = ''inc'', pl_Name = ''x'', pl_Value = 1\<rparr>]"]
  by auto

text \<open>
  C23: intkey transactions are atomic and stay in their namespace.  Over any sequence of requests
  and any validator state, well formed or not, no address outside the handler's namespace
  changes, and when every request is rejected the state is as before.
\<close>

theorem Intkey_run_confined:
  assumes "state_conn pb cid st rd wr react c"
    and "apply_all (\<lambda>q. Intkey_Apply cb self q (tp_methods pb cid)) qs c = (r, c')"
  shows "(\<forall>a. \<not> prefix (ih_namespace self) a \<longrightarrow> st (peer c') a = st (peer c) a) \<and>
    (\<forall>es. r = Ret es \<and> None \<notin> set es \<longrightarrow> st (peer c') = st (peer c))"
  using intkey.apply_all_confined [OF assms] intkey.apply_all_rejected [OF assms(1)] assms(2) by blast

lemma Intkey_run_confined_witness:
  "peer (snd (apply_all (\<lambda>q. Intkey_Apply demo_cbor (NewIntkeyHandler ''1cf126'') q (tp_methods unary_tp_pb ''ctx''))
     [demo_request \<lparr>pl_Verb = ''set'', pl_Name = ''x'', pl_Value = 1\<rparr>]
     (demo_conn (\<lambda>a. True) (\<lambda>a. True) (\<lambda>a. ''data'')))) ''000000'' = ''data''"
proof -
  let ?c = "demo_conn (\<lambda>a. True) (\<lambda>a. True) (\<lambda>a. ''data'')" and ?h = "NewIntkeyHandler ''1cf126''"
  let ?run = "apply_all (\<lambda>q. Intkey_Apply demo_cbor ?h q (tp_methods unary_tp_pb ''ctx''))
     [demo_request \<lparr>pl_Verb = ''set'', pl_Name = ''x'', pl_Value = 1\<rparr>] ?c"
  have "?run = (fst ?run, snd ?run)" by simp
  from Intkey_run_confined [OF demo_state_conn this] show ?thesis by (simp add: NewIntkeyHandler_def)
qed

text \<open>
  A panic of the CBOR library while stored data is decoded is swallowed, not reported.  When
  Loads panics on the data at the address before it has created the map, a set request makes the
  handler panic itself, with the assignment to a nil map, instead of returning an error.
\<close>

theorem Intkey_swallowed_panic:
  assumes "state_conn pb cid st rd wr react c" "intkey_accepts cb q = Some p" "pl_Verb p = ''set''"
    and "a = intkey_address self (pl_Name p)" "rd a" "st (peer c) a \<noteq> []"
    and "loads_map cb (st (peer c) a) None = (LoadPanic, None)"
  shows "fst (Intkey_Apply cb self q (tp_methods pb cid) c) = Panic ''assignment to entry in nil map''"
proof -
  let ?m = "\<lambda>x. if x = a \<and> st (peer c) a \<noteq> [] then Some (st (peer c) a) else None"
  from assms(1,5) obtain c1 where "x_GetState (tp_methods pb cid) [a] c = (Ret (Inr ?m), c1)"
    by (rule tp.get_one)
  with assms show ?thesis
    by (simp add: Intkey_Apply_accepts [OF assms(2,4)] intkey_update_def intkey_load_def DecodeCBOR_def intkey_new_value_def)
qed

lemma Intkey_swallowed_panic_witness:
  "fst (Intkey_Apply (demo_cbor\<lparr>loads_map := \<lambda>b v. (LoadPanic, v)\<rparr>) (NewIntkeyHandler ''1cf126'')
      (demo_request \<lparr>pl_Verb = ''set'', pl_Name = ''x'', pl_Value = 7\<rparr>) (tp_methods unary_tp_pb ''ctx'')
      (demo_conn (\<lambda>a. True) (\<lambda>a. True) (\<lambda>a. ''junk''))) = Panic ''assignment to entry in nil map''"
proof -
  have "intkey_accepts (demo_cbor\<lparr>loads_map := l\<rparr>) q = intkey_accepts demo_cbor q" for l q
    by (simp add: intkey_accepts_def cong: option.case_cong)
  then show ?thesis
    by (intro Intkey_swallowed_panic [OF demo_state_conn, where p = "\<lparr>pl_Verb = ''set'', pl_Name = ''x'', pl_Value = 7\<rparr>"])
      (auto simp: intkey_check_def)
qed

end
