(* ===== verification/Smallbank_Pb.thy ===== *)
theory Smallbank_Pb
  imports Go_Errors
begin

text \<open>
  The generated messages of the smallbank family (smallbank_pb2/smallbank.pb.go): structs as
  records, enum values as integers, uint32 and int32 fields as 32-bit words, message pointers as
  options.
\<close>

type_synonym SmallbankTransactionPayload_PayloadType = int

abbreviation (input) SmallbankTransactionPayload_PAYLOAD_TYPE_UNSET :: SmallbankTransactionPayload_PayloadType where "SmallbankTransactionPayload_PAYLOAD_TYPE_UNSET \<equiv> 0"
abbreviation (input) SmallbankTransactionPayload_CREATE_ACCOUNT :: SmallbankTransactionPayload_PayloadType where "SmallbankTransactionPayload_CREATE_ACCOUNT \<equiv> 1"
abbreviation (input) SmallbankTransactionPayload_DEPOSIT_CHECKING :: SmallbankTransactionPayload_PayloadType where "SmallbankTransactionPayload_DEPOSIT_CHECKING \<equiv> 2"
abbreviation (input) SmallbankTransactionPayload_WRITE_CHECK :: SmallbankTransactionPayload_PayloadType where "SmallbankTransactionPayload_WRITE_CHECK \<equiv> 3"
abbreviation (input) SmallbankTransactionPayload_TRANSACT_SAVINGS :: SmallbankTransactionPayload_PayloadType where "SmallbankTransactionPayload_TRANSACT_SAVINGS \<equiv> 4"
abbreviation (input) SmallbankTransactionPayload_SEND_PAYMENT :: SmallbankTransactionPayload_PayloadType where "SmallbankTransactionPayload_SEND_PAYMENT \<equiv> 5"
abbreviation (input) SmallbankTransactionPayload_AMALGAMATE :: SmallbankTransactionPayload_PayloadType where "SmallbankTransactionPayload_AMALGAMATE \<equiv> 6"

definition SmallbankTransactionPayload_PayloadType_name :: "(int \<times> string) list" where
  "SmallbankTransactionPayload_PayloadType_name =
   [(0, ''PAYLOAD_TYPE_UNSET''),
    (1, ''CREATE_ACCOUNT''),
    (2, ''DEPOSIT_CHECKING''),
    (3, ''WRITE_CHECK''),
    (4, ''TRANSACT_SAVINGS''),
    (5, ''SEND_PAYMENT''),
    (6, ''AMALGAMATE'')]"

record Account =
  Account_CustomerId :: "32 word"
  Account_CustomerName :: "string"
  Account_SavingsBalance :: "32 word"
  Account_CheckingBalance :: "32 word"

instance Account_ext :: (countable) countable
  by (rule countable_classI [of "\<lambda>r. to_nat (Account_CustomerId r, Account_CustomerName r, Account_SavingsBalance r, Account_CheckingBalance r, Account.more r)"]) simp

record CreateAccountData =
  CreateAccountData_CustomerId :: "32 word"
  CreateAccountData_CustomerName :: "string"
  CreateAccountData_InitialSavingsBalance :: "32 word"
  CreateAccountData_InitialCheckingBalance :: "32 word"

instance CreateAccountData_ext :: (countable) countable
  by (rule countable_classI [of "\<lambda>r. to_nat (CreateAccountData_CustomerId r, CreateAccountData_CustomerName r, CreateAccountData_InitialSavingsBalance r, CreateAccountData_InitialCheckingBalance r, CreateAccountData.more r)"]) simp

record DepositCheckingData =
  DepositCheckingData_CustomerId :: "32 word"
  DepositCheckingData_Amount :: "32 word"

instance DepositCheckingData_ext :: (countable) countable
  by (rule countable_classI [of "\<lambda>r. to_nat (DepositCheckingData_CustomerId r, DepositCheckingData_Amount r, DepositCheckingData.more r)"]) simp

record WriteCheckData =
  WriteCheckData_CustomerId :: "32 word"
  WriteCheckData_Amount :: "32 word"

instance WriteCheckData_ext :: (countable) countable
  by (rule countable_classI [of "\<lambda>r. to_nat (WriteCheckData_CustomerId r, WriteCheckData_Amount r, WriteCheckData.more r)"]) simp

record TransactSavingsData =
  TransactSavingsData_CustomerId :: "32 word"
  TransactSavingsData_Amount :: "32 word"

instance TransactSavingsData_ext :: (countable) countable
  by (rule countable_classI [of "\<lambda>r. to_nat (TransactSavingsData_CustomerId r, TransactSavingsData_Amount r, TransactSavingsData.more r)"]) simp

record SendPaymentData =
  SendPaymentData_SourceCustomerId :: "32 word"
  SendPaymentData_DestCustomerId :: "32 word"
  SendPaymentData_Amount :: "32 word"

instance SendPaymentData_ext :: (countable) countable
  by (rule countable_classI [of "\<lambda>r. to_nat (SendPaymentData_SourceCustomerId r, SendPaymentData_DestCustomerId r, SendPaymentData_Amount r, SendPaymentData.more r)"]) simp

record AmalgamateData =
  AmalgamateData_SourceCustomerId :: "32 word"
  AmalgamateData_DestCustomerId :: "32 word"

instance AmalgamateData_ext :: (countable) countable
  by (rule countable_classI [of "\<lambda>r. to_nat (AmalgamateData_SourceCustomerId r, AmalgamateData_DestCustomerId r, AmalgamateData.more r)"]) simp

record SmallbankTransactionPayload =
  SmallbankTransactionPayload_PayloadType :: "SmallbankTransactionPayload_PayloadType"
  SmallbankTransactionPayload_CreateAccount :: "CreateAccountData option"
  SmallbankTransactionPayload_DepositChecking :: "DepositCheckingData option"
  SmallbankTransactionPayload_WriteCheck :: "WriteCheckData option"
  SmallbankTransactionPayload_TransactSavings :: "TransactSavingsData option"
  SmallbankTransactionPayload_SendPayment :: "SendPaymentData option"
  SmallbankTransactionPayload_Amalgamate :: "AmalgamateData option"

instance SmallbankTransactionPayload_ext :: (countable) countable
  by (rule countable_classI [of "\<lambda>r. to_nat (SmallbankTransactionPayload_PayloadType r, SmallbankTransactionPayload_CreateAccount r, SmallbankTransactionPayload_DepositChecking r, SmallbankTransactionPayload_WriteCheck r, SmallbankTransactionPayload_TransactSavings r, SmallbankTransactionPayload_SendPayment r, SmallbankTransactionPayload_Amalgamate r, SmallbankTransactionPayload.more r)"]) simp

definition Smallbank_PayloadType_String :: "int \<Rightarrow> string" where
  "Smallbank_PayloadType_String = EnumStringOf SmallbankTransactionPayload_PayloadType_name"

record smallbank_pb =
  pbAccount :: "Account codec"
  pbSmallbankPayload :: "SmallbankTransactionPayload codec"

end
