(* ===== verification/Smallbank.thy ===== *)
theory Smallbank
  imports Transaction_Family Sha2 Smallbank_Pb
begin

text \<open>
  examples/smallbank: the smallbank transaction family (handler.go).  Accounts are protocol
  buffer messages stored at an address that is derived from the customer id; balances are uint32
  and wrap around.  A nil pointer that the handler dereferences is a panic.
\<close>

section \<open>The handler\<close>

definition smallbank_namespace :: string where
  "smallbank_namespace = take 6 (Hexdigest ''smallbank'')"

definition Smallbank_FamilyName :: string where
  "Smallbank_FamilyName = ''smallbank''"

definition Smallbank_FamilyVersions :: "string list" where
  "Smallbank_FamilyVersions = [''1.0'']"

definition Smallbank_Namespaces :: "string list" where
  "Smallbank_Namespaces = [smallbank_namespace]"

definition smallbank_address :: "32 word \<Rightarrow> string" where
  "smallbank_address customer_id = smallbank_namespace @ take 64 (Hexdigest (Itoa (uint customer_id)))"

definition unpackPayload :: "smallbank_pb \<Rightarrow> bytes option \<Rightarrow> go_error + SmallbankTransactionPayload" where
  "unpackPayload pb payloadData =
    (case Unmarshal (pbSmallbankPayload pb) (case payloadData of None \<Rightarrow> [] | Some d \<Rightarrow> d) of
       (_, Some err) \<Rightarrow> Inl (InternalError (''Failed to unmarshal SmallbankTransaction: %v'' @ Error err) [])
     | (payload, None) \<Rightarrow> Inr payload)"

definition unpackAccount :: "smallbank_pb \<Rightarrow> bytes \<Rightarrow> go_error + Account" where
  "unpackAccount pb accountData =
    (case Unmarshal (pbAccount pb) accountData of
       (_, Some err) \<Rightarrow> Inl (InternalError (''Failed to unmarshal Account: %v'' @ Error err) [])
     | (account, None) \<Rightarrow> Inr account)"

definition loadAccount ::
  "smallbank_pb \<Rightarrow> 32 word \<Rightarrow> 's Context_methods \<Rightarrow> ('s, go_error + Account option) proc" where
  "loadAccount pb customer_id context =
    (let address = smallbank_address customer_id in
     bindP (x_GetState context [address]) (\<lambda>r.
       case r of
         Inl err \<Rightarrow> retP (Inl err)
       | Inr results \<Rightarrow>
          (let data = (case results address of None \<Rightarrow> [] | Some d \<Rightarrow> d) in
           if length data > 0 then
             (case unpackAccount pb data of
                Inl err \<Rightarrow> retP (Inl err)
              | Inr account \<Rightarrow> retP (Inr (Some account)))
           else retP (Inr None))))"

definition saveAccount ::
  "smallbank_pb \<Rightarrow> Account \<Rightarrow> 's Context_methods \<Rightarrow> ('s, go_error option) proc" where
  "saveAccount pb account context =
    (let address = smallbank_address (Account_CustomerId account) in
     case Marshal (pbAccount pb) account of
       (_, Some err) \<Rightarrow> retP (Some (InternalError (''Failed to serialize Account:'' @ Error err) []))
     | (data, None) \<Rightarrow>
        bindP (x_SetState context [(address, data)]) (\<lambda>r.
          case r of
            Inl err \<Rightarrow> retP (Some err)
          | Inr addresses \<Rightarrow>
             if length addresses = 0 then retP (Some (InternalError ''No addresses in set response'' []))
             else retP None))"

definition applyCreateAccount ::
  "smallbank_pb \<Rightarrow> CreateAccountData option \<Rightarrow> 's Context_methods \<Rightarrow> ('s, go_error option) proc" where
  "applyCreateAccount pb createAccountData context =
    (case createAccountData of
       None \<Rightarrow> panicP ''nil pointer dereference''
     | Some data \<Rightarrow>
       bindP (loadAccount pb (CreateAccountData_CustomerId data) context) (\<lambda>r.
         case r of
           Inl err \<Rightarrow> retP (Some err)
         | Inr (Some account) \<Rightarrow> retP (Some (InvalidTransactionError ''Account already exists'' []))
         | Inr None \<Rightarrow>
            if CreateAccountData_CustomerName data = []
            then retP (Some (InvalidTransactionError ''Customer Name must be set'' []))
            else
              (let new_account = \<lparr>Account_CustomerId = CreateAccountData_CustomerId data,
                     Account_CustomerName = CreateAccountData_CustomerName data,
                     Account_SavingsBalance = CreateAccountData_InitialSavingsBalance data,
                     Account_CheckingBalance = CreateAccountData_InitialCheckingBalance data\<rparr>
               in bindP (saveAccount pb new_account context) (\<lambda>_. retP None))))"

definition applyDepositChecking ::
  "smallbank_pb \<Rightarrow> DepositCheckingData option \<Rightarrow> 's Context_methods \<Rightarrow> ('s, go_error option) proc" where
  "applyDepositChecking pb depositCheckingData context =
    (case depositCheckingData of
       None \<Rightarrow> panicP ''nil pointer dereference''
     | Some data \<Rightarrow>
       bindP (loadAccount pb (DepositCheckingData_CustomerId data) context) (\<lambda>r.
         case r of
           Inl err \<Rightarrow> retP (Some err)
         | Inr None \<Rightarrow> retP (Some (InvalidTransactionError ''Account must exist'' []))
         | Inr (Some account) \<Rightarrow>
            (let new_account = \<lparr>Account_CustomerId = Account_CustomerId account,
                   Account_CustomerName = Account_CustomerName account,
                   Account_SavingsBalance = Account_SavingsBalance account,
                   Account_CheckingBalance = Account_CheckingBalance account + DepositCheckingData_Amount data\<rparr>
             in bindP (saveAccount pb new_account context) (\<lambda>_. retP None))))"

definition applyWriteCheck ::
  "smallbank_pb \<Rightarrow> WriteCheckData option \<Rightarrow> 's Context_methods \<Rightarrow> ('s, go_error option) proc" where
  "applyWriteCheck pb writeCheckData context =
    (case writeCheckData of
       None \<Rightarrow> panicP ''nil pointer dereference''
     | Some data \<Rightarrow>
       bindP (loadAccount pb (WriteCheckData_CustomerId data) context) (\<lambda>r.
         case r of
           Inl err \<Rightarrow> retP (Some err)
         | Inr None \<Rightarrow> retP (Some (InvalidTransactionError ''Account must exist'' []))
         | Inr (Some account) \<Rightarrow>
            (let new_account = \<lparr>Account_CustomerId = Account_CustomerId account,
                   Account_CustomerName = Account_CustomerName account,
                   Account_SavingsBalance = Account_SavingsBalance account,
                   Account_CheckingBalance = Account_CheckingBalance account - WriteCheckData_Amount data\<rparr>
             in bindP (saveAccount pb new_account context) (\<lambda>_. retP None))))"

text \<open>The amount of a savings transaction is an int32; its negation, too, wraps.\<close>

definition applyTransactSavings ::
  "smallbank_pb \<Rightarrow> TransactSavingsData option \<Rightarrow> 's Context_methods \<Rightarrow> ('s, go_error option) proc" where
  "applyTransactSavings pb transactSavingsData context =
    (case transactSavingsData of
       None \<Rightarrow> panicP ''nil pointer dereference''
     | Some data \<Rightarrow>
       bindP (loadAccount pb (TransactSavingsData_CustomerId data) context) (\<lambda>r.
         case r of
           Inl err \<Rightarrow> retP (Some err)
         | Inr None \<Rightarrow> retP (Some (InvalidTransactionError ''Account must exist'' []))
         | Inr (Some account) \<Rightarrow>
            (let amount = TransactSavingsData_Amount data;
                 save = (\<lambda>new_balance.
                   bindP (saveAccount pb \<lparr>Account_CustomerId = Account_CustomerId account,
                       Account_CustomerName = Account_CustomerName account,
                       Account_SavingsBalance = new_balance,
                       Account_CheckingBalance = Account_CheckingBalance account\<rparr> context) (\<lambda>_. retP None))
             in if sint amount < 0 then
                  (if - amount > Account_SavingsBalance account
                   then retP (Some (InvalidTransactionError ''Insufficient funds in source savings account'' []))
                   else save (Account_SavingsBalance account - (- amount)))
                else save (Account_SavingsBalance account + amount))))"

definition applySendPayment ::
  "smallbank_pb \<Rightarrow> SendPaymentData option \<Rightarrow> 's Context_methods \<Rightarrow> ('s, go_error option) proc" where
  "applySendPayment pb sendPaymentData context =
    (case sendPaymentData of
       None \<Rightarrow> panicP ''nil pointer dereference''
     | Some data \<Rightarrow>
       bindP (loadAccount pb (SendPaymentData_SourceCustomerId data) context) (\<lambda>r.
         case r of
           Inl err \<Rightarrow> retP (Some err)
         | Inr source_account \<Rightarrow>
       bindP (loadAccount pb (SendPaymentData_DestCustomerId data) context) (\<lambda>r.
         case r of
           Inl err \<Rightarrow> retP (Some err)
         | Inr dest_account \<Rightarrow>
       (case (source_account, dest_account) of
          (Some source, Some dest) \<Rightarrow>
           (if Account_CheckingBalance source < SendPaymentData_Amount data
            then retP (Some (InvalidTransactionError ''Insufficient funds in source checking account'' []))
            else
              (let new_source_account = \<lparr>Account_CustomerId = Account_CustomerId source,
                     Account_CustomerName = Account_CustomerName source,
                     Account_SavingsBalance = Account_SavingsBalance source,
                     Account_CheckingBalance = Account_CheckingBalance source - SendPaymentData_Amount data\<rparr>;
                   new_dest_account = \<lparr>Account_CustomerId = Account_CustomerId dest,
                     Account_CustomerName = Account_CustomerName dest,
                     Account_SavingsBalance = Account_SavingsBalance dest,
                     Account_CheckingBalance = Account_CheckingBalance dest + SendPaymentData_Amount data\<rparr>
               in bindP (saveAccount pb new_source_account context) (\<lambda>_.
                  bindP (saveAccount pb new_dest_account context) (\<lambda>_. retP None))))
        | _ \<Rightarrow> retP (Some (InvalidTransactionError ''Both source and dest accounts must exist'' []))))))"

definition applyAmalgamate ::
  "smallbank_pb \<Rightarrow> AmalgamateData option \<Rightarrow> 's Context_methods \<Rightarrow> ('s, go_error option) proc" where
  "applyAmalgamate pb amalgamateData context =
    (case amalgamateData of
       None \<Rightarrow> panicP ''nil pointer dereference''
     | Some data \<Rightarrow>
       bindP (loadAccount pb (AmalgamateData_SourceCustomerId data) context) (\<lambda>r.
         case r of
           Inl err \<Rightarrow> retP (Some err)
         | Inr source_account \<Rightarrow>
       bindP (loadAccount pb (AmalgamateData_DestCustomerId data) context) (\<lambda>r.
         case r of
           Inl err \<Rightarrow> retP (Some err)
         | Inr dest_account \<Rightarrow>
       (case (source_account, dest_account) of
          (Some source, Some dest) \<Rightarrow>
            (let new_source_account = \<lparr>Account_CustomerId = Account_CustomerId source,
                   Account_CustomerName = Account_CustomerName source,
                   Account_SavingsBalance = 0,
                   Account_CheckingBalance = Account_CheckingBalance source\<rparr>;
                 new_dest_account = \<lparr>Account_CustomerId = Account_CustomerId dest,
                   Account_CustomerName = Account_CustomerName dest,
                   Account_SavingsBalance = Account_SavingsBalance dest,
                   Account_CheckingBalance = Account_CheckingBalance dest + Account_SavingsBalance source\<rparr>
             in bindP (saveAccount pb new_source_account context) (\<lambda>_.
                bindP (saveAccount pb new_dest_account context) (\<lambda>_. retP None)))
        | _ \<Rightarrow> retP (Some (InvalidTransactionError ''Both source and dest accounts must exist'' []))))))"

definition Smallbank_Apply ::
  "smallbank_pb \<Rightarrow> TpProcessRequest \<Rightarrow> 's Context_methods \<Rightarrow> ('s, go_error option) proc" where
  "Smallbank_Apply pb request context =
    (case unpackPayload pb (TpProcessRequest_Payload request) of
       Inl err \<Rightarrow> retP (Some err)
     | Inr payload \<Rightarrow>
       (let t = SmallbankTransactionPayload_PayloadType payload in
        if t = SmallbankTransactionPayload_CREATE_ACCOUNT
          then applyCreateAccount pb (SmallbankTransactionPayload_CreateAccount payload) context
        else if t = SmallbankTransactionPayload_DEPOSIT_CHECKING
          then applyDepositChecking pb (SmallbankTransactionPayload_DepositChecking payload) context
        else if t = SmallbankTransactionPayload_WRITE_CHECK
          then applyWriteCheck pb (SmallbankTransactionPayload_WriteCheck payload) context
        else if t = SmallbankTransactionPayload_TRANSACT_SAVINGS
          then applyTransactSavings pb (SmallbankTransactionPayload_TransactSavings payload) context
        else if t = SmallbankTransactionPayload_SEND_PAYMENT
          then applySendPayment pb (SmallbankTransactionPayload_SendPayment payload) context
        else if t = SmallbankTransactionPayload_AMALGAMATE
          then applyAmalgamate pb (SmallbankTransactionPayload_Amalgamate payload) context
        else retP (Some (InvalidTransactionError
          (''Invalid PayloadType: '' @ [CHR 0x27] @ Smallbank_PayloadType_String t @ [CHR 0x27]) []))))"

section \<open>The contract of a family\<close>

lemmas smallbank_ops = applyCreateAccount_def applyDepositChecking_def applyWriteCheck_def
  applyTransactSavings_def applySendPayment_def applyAmalgamate_def

context state_context
begin

lemma tx_read_loadAccount: "tx_read ok view (loadAccount pb cid ctx)"
  unfolding loadAccount_def Let_def
  by (intro tx_rules) (auto split: sum.splits option.splits intro!: tx_rules)

lemma tx_write_saveAccount: "tx_write ok view smallbank_namespace (saveAccount pb acc ctx)"
proof -
  have "tx_write ok view smallbank_namespace (bindP (x_SetState ctx [(smallbank_address (Account_CustomerId acc), d)])
      (\<lambda>r. case r of Inl err \<Rightarrow> retP (Some err) | Inr addresses \<Rightarrow>
        if addresses = [] then retP (Some (InternalError ''No addresses in set response'' [])) else retP None))" for d
    by (intro tx_write_bind tx_write_set)
      (simp_all add: smallbank_address_def tx_read_ret split: sum.split)
  then show ?thesis
    by (simp add: saveAccount_def Let_def tx_write_read [OF tx_read_ret] split: prod.split option.split)
qed

lemma tx_commit_saves:
  "tx_commit ok view smallbank_namespace (bindP (saveAccount pb acc ctx) (\<lambda>_. retP None))"
  "tx_commit ok view smallbank_namespace (bindP (saveAccount pb acc ctx) (\<lambda>_.
      bindP (saveAccount pb acc' ctx) (\<lambda>_. retP None)))"
  by (intro tx_commit_bind tx_write_saveAccount tx_rules)+

lemmas tx_safe_saves = tx_commit_saves [THEN tx_commit_safe]

lemma tx_safe_ops:
  "tx_safe ok view smallbank_namespace (applyCreateAccount pb d1 ctx)"
  "tx_safe ok view smallbank_namespace (applyDepositChecking pb d2 ctx)"
  "tx_safe ok view smallbank_namespace (applyWriteCheck pb d3 ctx)"
  "tx_safe ok view smallbank_namespace (applyTransactSavings pb d4 ctx)"
  "tx_safe ok view smallbank_namespace (applySendPayment pb d5 ctx)"
  "tx_safe ok view smallbank_namespace (applyAmalgamate pb d6 ctx)"
  unfolding smallbank_ops Let_def
  by (simp_all add: tx_safe_saves tx_read_loadAccount tx_safe_bind tx_safe_ret tx_safe_panic
      split: option.split sum.split)

lemma Smallbank_tx_safe: "tx_safe ok view smallbank_namespace (Smallbank_Apply pb q ctx)"
  unfolding Smallbank_Apply_def Let_def
  by (simp add: tx_safe_ops tx_safe_ret split: sum.split)

end

interpretation smallbank: tp_family "tp_methods pb cid" "state_conn pb cid st rd wr react"
    "\<lambda>c. st (peer c)" rd wr "\<lambda>q. Smallbank_Apply sb q (tp_methods pb cid)" smallbank_namespace
  for pb cid st rd wr react sb
  by (rule tp_family_tx_safe [OF tp.state_context_axioms tp.Smallbank_tx_safe])

section \<open>The abstract bank\<close>

text \<open>
  What the family computes, without addresses lookups, coding and messages: a bank is a partial
  map from addresses to accounts, and a payload either is refused with an error or gives a new
  bank.  A payload whose data message is missing makes the handler panic.
\<close>

type_synonym bank = "string \<rightharpoonup> Account"

definition put :: "Account \<Rightarrow> bank \<Rightarrow> bank" where
  "put acc B = B(smallbank_address (Account_CustomerId acc) \<mapsto> acc)"

abbreviation refused :: "string \<Rightarrow> (go_error + bank) outcome" where
  "refused m \<equiv> Ret (Inl (InvalidTransactionError m []))"

definition on_data :: "'d option \<Rightarrow> ('d \<Rightarrow> (go_error + bank) outcome) \<Rightarrow> (go_error + bank) outcome" where
  "on_data d f = (case d of None \<Rightarrow> Panic ''nil pointer dereference'' | Some x \<Rightarrow> f x)"

definition on_account :: "bank \<Rightarrow> 32 word \<Rightarrow> (Account \<Rightarrow> (go_error + bank) outcome) \<Rightarrow> (go_error + bank) outcome" where
  "on_account B cid f = (case B (smallbank_address cid) of None \<Rightarrow> refused ''Account must exist'' | Some acc \<Rightarrow> f acc)"

definition on_accounts ::
  "bank \<Rightarrow> 32 word \<Rightarrow> 32 word \<Rightarrow> (Account \<Rightarrow> Account \<Rightarrow> (go_error + bank) outcome) \<Rightarrow> (go_error + bank) outcome" where
  "on_accounts B src dst f = (case (B (smallbank_address src), B (smallbank_address dst)) of
     (Some x, Some y) \<Rightarrow> f x y | _ \<Rightarrow> refused ''Both source and dest accounts must exist'')"

definition bank_create :: "CreateAccountData \<Rightarrow> bank \<Rightarrow> (go_error + bank) outcome" where
  "bank_create d B =
    (if B (smallbank_address (CreateAccountData_CustomerId d)) \<noteq> None then refused ''Account already exists''
     else if CreateAccountData_CustomerName d = [] then refused ''Customer Name must be set''
     else Ret (Inr (put \<lparr>Account_CustomerId = CreateAccountData_CustomerId d,
       Account_CustomerName = CreateAccountData_CustomerName d,
       Account_SavingsBalance = CreateAccountData_InitialSavingsBalance d,
       Account_CheckingBalance = CreateAccountData_InitialCheckingBalance d\<rparr> B)))"

definition bank_step :: "SmallbankTransactionPayload \<Rightarrow> bank \<Rightarrow> (go_error + bank) outcome" where
  "bank_step p B =
    (let t = SmallbankTransactionPayload_PayloadType p in
     if t = 1 then on_data (SmallbankTransactionPayload_CreateAccount p) (\<lambda>d. bank_create d B)
     else if t = 2 then on_data (SmallbankTransactionPayload_DepositChecking p) (\<lambda>d.
       on_account B (DepositCheckingData_CustomerId d) (\<lambda>acc. Ret (Inr (put
         (acc\<lparr>Account_CheckingBalance := Account_CheckingBalance acc + DepositCheckingData_Amount d\<rparr>) B))))
     else if t = 3 then on_data (SmallbankTransactionPayload_WriteCheck p) (\<lambda>d.
       on_account B (WriteCheckData_CustomerId d) (\<lambda>acc. Ret (Inr (put
         (acc\<lparr>Account_CheckingBalance := Account_CheckingBalance acc - WriteCheckData_Amount d\<rparr>) B))))
     else if t = 4 then on_data (SmallbankTransactionPayload_TransactSavings p) (\<lambda>d.
       on_account B (TransactSavingsData_CustomerId d) (\<lambda>acc.
         if sint (TransactSavingsData_Amount d) < 0 \<and> uint (Account_SavingsBalance acc) + sint (TransactSavingsData_Amount d) < 0
         then refused ''Insufficient funds in source savings account''
         else Ret (Inr (put (acc\<lparr>Account_SavingsBalance :=
           Account_SavingsBalance acc + TransactSavingsData_Amount d\<rparr>) B))))
     else if t = 5 then on_data (SmallbankTransactionPayload_SendPayment p) (\<lambda>d.
       on_accounts B (SendPaymentData_SourceCustomerId d) (SendPaymentData_DestCustomerId d) (\<lambda>src dst.
         if Account_CheckingBalance src < SendPaymentData_Amount d
         then refused ''Insufficient funds in source checking account''
         else Ret (Inr (put (dst\<lparr>Account_CheckingBalance := Account_CheckingBalance dst + SendPaymentData_Amount d\<rparr>)
           (put (src\<lparr>Account_CheckingBalance := Account_CheckingBalance src - SendPaymentData_Amount d\<rparr>) B)))))
     else if t = 6 then on_data (SmallbankTransactionPayload_Amalgamate p) (\<lambda>d.
       on_accounts B (AmalgamateData_SourceCustomerId d) (AmalgamateData_DestCustomerId d) (\<lambda>src dst.
         Ret (Inr (put (dst\<lparr>Account_CheckingBalance := Account_CheckingBalance dst + Account_SavingsBalance src\<rparr>)
           (put (src\<lparr>Account_SavingsBalance := 0\<rparr>) B)))))
     else refused (''Invalid PayloadType: '' @ [CHR 0x27] @ Smallbank_PayloadType_String t @ [CHR 0x27]))"

text \<open>The bank a validator state stores, and the states the family keeps.\<close>

definition bank_of :: "smallbank_pb \<Rightarrow> (string \<Rightarrow> bytes) \<Rightarrow> bank" where
  "bank_of pb f a = (if f a = [] then None else Some (fst (Unmarshal (pbAccount pb) (f a))))"

definition bank_wf :: "smallbank_pb \<Rightarrow> (string \<Rightarrow> bytes) \<Rightarrow> bool" where
  "bank_wf pb f \<longleftrightarrow> (\<forall>cid. let a = smallbank_address cid in f a \<noteq> [] \<longrightarrow>
     (\<exists>acc. Unmarshal (pbAccount pb) (f a) = (acc, None) \<and>
        smallbank_address (Account_CustomerId acc) = a \<and> Account_CustomerName acc \<noteq> []))"

text \<open>
  The documented behaviour of the codec: the round trip, and that a message with a field that is
  not the default has a nonempty encoding.
\<close>

definition account_codec_ok :: "smallbank_pb \<Rightarrow> bool" where
  "account_codec_ok pb \<longleftrightarrow> (\<forall>acc. codec_ok (pbAccount pb) acc \<and>
     (Account_CustomerName acc \<noteq> [] \<longrightarrow> fst (Marshal (pbAccount pb) acc) \<noteq> []))"

lemma bank_of_save:
  assumes "account_codec_ok pb" "bank_wf pb f" "Account_CustomerName acc \<noteq> []"
  defines "f' \<equiv> f(smallbank_address (Account_CustomerId acc) := fst (Marshal (pbAccount pb) acc))"
  shows "bank_of pb f' = put acc (bank_of pb f)" "bank_wf pb f'"
  using assms by (auto simp: bank_of_def put_def account_codec_ok_def bank_wf_def Let_def fun_eq_iff)

lemma bank_of_wf:
  "bank_wf pb f \<Longrightarrow> bank_of pb f (smallbank_address cid) = Some acc \<Longrightarrow>
   Unmarshal (pbAccount pb) (f (smallbank_address cid)) = (acc, None) \<and> Account_CustomerName acc \<noteq> []
    \<and> smallbank_address (Account_CustomerId acc) = smallbank_address cid"
  unfolding bank_wf_def bank_of_def Let_def by (metis fst_conv option.distinct(1) option.inject)

abbreviation implements_bank ::
  "('s \<Rightarrow> bool) \<Rightarrow> ('s \<Rightarrow> string \<Rightarrow> bytes) \<Rightarrow> smallbank_pb \<Rightarrow> ('s, go_error option) proc \<Rightarrow> 's \<Rightarrow> (go_error + bank) outcome \<Rightarrow> bool" where
  "implements_bank ok view pb \<equiv> implements ok view (bank_wf pb) (bank_of pb)"

definition bank_granted :: "(string \<Rightarrow> bool) \<Rightarrow> (string \<Rightarrow> bool) \<Rightarrow> bool" where
  "bank_granted rd wr \<longleftrightarrow> (\<forall>cid. rd (smallbank_address cid) \<and> wr (smallbank_address cid))"

context state_context
begin

lemma loadAccount_bank:
  assumes "ok s" "bank_wf pb (view s)" "bank_granted rd wr"
  obtains s' where "loadAccount pb cid ctx s = (Ret (Inr (bank_of pb (view s) (smallbank_address cid))), s')"
    "ok s'" "view s' = view s"
proof -
  let ?a = "smallbank_address cid"
  have "rd ?a" using assms(3) by (simp add: bank_granted_def)
  with assms(1) obtain s' where s': "x_GetState ctx [?a] s =
      (Ret (Inr (\<lambda>x. if x = ?a \<and> view s ?a \<noteq> [] then Some (view s ?a) else None)), s')" "ok s'" "view s' = view s"
    by (rule get_one)
  have ld: "loadAccount pb cid ctx s = (Ret (Inr (bank_of pb (view s) ?a)), s')"
  proof (cases "view s ?a = []")
    case True
    with s'(1) show ?thesis by (simp add: loadAccount_def Let_def bank_of_def)
  next
    case False
    then have "bank_of pb (view s) ?a = Some (fst (Unmarshal (pbAccount pb) (view s ?a)))"
      by (simp add: bank_of_def)
    from bank_of_wf [OF assms(2) this] obtain acc where "Unmarshal (pbAccount pb) (view s ?a) = (acc, None)"
      by blast
    with False s'(1) show ?thesis by (simp add: loadAccount_def Let_def bank_of_def unpackAccount_def)
  qed
  show thesis using ld s'(2,3) by (rule that)
qed

lemma saveAccount_bank:
  assumes "ok s" "bank_wf pb (view s)" "bank_granted rd wr" "account_codec_ok pb" "Account_CustomerName acc \<noteq> []"
  obtains s' where "saveAccount pb acc ctx s = (Ret None, s')"
    "ok s'" "bank_wf pb (view s')" "bank_of pb (view s') = put acc (bank_of pb (view s))"
proof -
  let ?a = "smallbank_address (Account_CustomerId acc)"
  from assms(4) obtain d where d: "Marshal (pbAccount pb) acc = (d, None)"
    by (auto simp: account_codec_ok_def elim: codec_okE)
  have "wr ?a" using assms(3) by (simp add: bank_granted_def)
  with assms(1) obtain s' where s': "x_SetState ctx [(?a, d)] s = (Ret (Inr [?a]), s')" "ok s'"
    "view s' = (view s)(?a := d)" by (rule set_one)
  show thesis
    using that s' bank_of_save [OF assms(4,2,5)] d by (simp add: saveAccount_def Let_def)
qed

lemma save_commits:
  assumes "ok s" "bank_wf pb (view s)" "bank_granted rd wr" "account_codec_ok pb" "Account_CustomerName acc \<noteq> []"
  shows "implements_bank ok view pb (bindP (saveAccount pb acc ctx) (\<lambda>_. retP None)) s
    (Ret (Inr (put acc (bank_of pb (view s)))))"
proof -
  from assms obtain s' where "saveAccount pb acc ctx s = (Ret None, s')" "ok s'" "bank_wf pb (view s')"
    "bank_of pb (view s') = put acc (bank_of pb (view s))" by (rule saveAccount_bank)
  then show ?thesis by (simp add: implements_def)
qed

lemma save2_commits:
  assumes "ok s" "bank_wf pb (view s)" "bank_granted rd wr" "account_codec_ok pb"
    and "Account_CustomerName acc \<noteq> []" "Account_CustomerName acc' \<noteq> []"
  shows "implements_bank ok view pb (bindP (saveAccount pb acc ctx) (\<lambda>_. bindP (saveAccount pb acc' ctx) (\<lambda>_. retP None))) s
    (Ret (Inr (put acc' (put acc (bank_of pb (view s))))))"
proof -
  from assms(1-5) obtain s1 where s1: "saveAccount pb acc ctx s = (Ret None, s1)" "ok s1" "bank_wf pb (view s1)"
    "bank_of pb (view s1) = put acc (bank_of pb (view s))" by (rule saveAccount_bank)
  from save_commits [OF s1(2,3) assms(3,4,6)] s1(1,4) show ?thesis by (simp add: implements_def)
qed

lemma load_then:
  assumes "ok s" "bank_wf pb (view s)" "bank_granted rd wr"
    and "\<And>s1. ok s1 \<Longrightarrow> view s1 = view s \<Longrightarrow>
      implements_bank ok view pb (f (Inr (bank_of pb (view s) (smallbank_address cid)))) s1 R"
  shows "implements_bank ok view pb (bindP (loadAccount pb cid ctx) f) s R"
proof -
  from assms(1-3) obtain s1 where s1: "ok s1" "view s1 = view s"
    "loadAccount pb cid ctx s = (Ret (Inr (bank_of pb (view s) (smallbank_address cid))), s1)"
    by (rule loadAccount_bank)
  with assms(4) [OF s1(1,2)] show ?thesis by (auto simp: implements_def split: outcome.splits sum.splits)
qed

lemma refuse_then:
  "ok s \<Longrightarrow> implements_bank ok view pb (retP (Some e)) s (Ret (Inl e))"
  "ok s \<Longrightarrow> implements_bank ok view pb (panicP m) s (Panic m)"
  by (simp_all add: implements_def)

end

lemma account_updates:
  "\<lparr>Account_CustomerId = Account_CustomerId a, Account_CustomerName = Account_CustomerName a,
    Account_SavingsBalance = Account_SavingsBalance a, Account_CheckingBalance = x\<rparr> = a\<lparr>Account_CheckingBalance := x\<rparr>"
  "\<lparr>Account_CustomerId = Account_CustomerId a, Account_CustomerName = Account_CustomerName a,
    Account_SavingsBalance = x, Account_CheckingBalance = Account_CheckingBalance a\<rparr> = a\<lparr>Account_SavingsBalance := x\<rparr>"
  by (cases a, simp)+

text \<open>The comparison on uint32 values that guards a withdrawal, as integers.\<close>

lemma withdraw_guard:
  fixes amount balance :: "32 word"
  assumes "sint amount < 0"
  shows "balance < - amount \<longleftrightarrow> uint balance + sint amount < 0"
proof -
  have "uint (- amount) = - sint amount"
  proof -
    have "- amount = word_of_int (- sint amount)" by simp
    then have "uint (- amount) = (- sint amount) mod 2 ^ 32"
      by (simp only: uint_word_of_int) simp
    moreover have "- (2 ^ 31) \<le> sint amount" using sint_greater_eq [of amount] by simp
    ultimately show ?thesis using assms by simp
  qed
  then show ?thesis by (auto simp: word_less_def)
qed

context state_context
begin

lemma commits_at:
  assumes "bank_wf pb f" "bank_granted rd wr" "account_codec_ok pb" "ok s" "view s = f" "Account_CustomerName acc \<noteq> []"
  shows "implements_bank ok view pb (bindP (saveAccount pb acc ctx) (\<lambda>_. retP None)) s (Ret (Inr (put acc (bank_of pb f))))"
    and "Account_CustomerName acc' \<noteq> [] \<Longrightarrow> implements_bank ok view pb
      (bindP (saveAccount pb acc ctx) (\<lambda>_. bindP (saveAccount pb acc' ctx) (\<lambda>_. retP None))) s
      (Ret (Inr (put acc' (put acc (bank_of pb f)))))"
  using save_commits [of s pb acc] save2_commits [of s pb acc acc'] assms by simp_all

lemma applyCreateAccount_bank:
  assumes "ok s" "bank_wf pb (view s)" "bank_granted rd wr" "account_codec_ok pb"
  shows "implements_bank ok view pb (applyCreateAccount pb d ctx) s (on_data d (\<lambda>x. bank_create x (bank_of pb (view s))))"
proof (cases d)
  case None
  with assms(1) show ?thesis by (simp add: applyCreateAccount_def on_data_def refuse_then)
next
  case (Some x)
  show ?thesis
    unfolding applyCreateAccount_def on_data_def bank_create_def Some option.simps
    by (rule load_then [OF assms(1-3)])
      (auto simp: refuse_then Let_def split: option.splits intro!: commits_at(1) [OF assms(2-4)])
qed

lemma on_account_bank:
  assumes "ok s" "bank_wf pb (view s)" "bank_granted rd wr"
    and "\<And>s1 acc. ok s1 \<Longrightarrow> view s1 = view s \<Longrightarrow> Account_CustomerName acc \<noteq> [] \<Longrightarrow> implements_bank ok view pb (g acc) s1 (f acc)"
  shows "implements_bank ok view pb (bindP (loadAccount pb cid ctx) (\<lambda>r. case r of
        Inl err \<Rightarrow> retP (Some err)
      | Inr None \<Rightarrow> retP (Some (InvalidTransactionError ''Account must exist'' []))
      | Inr (Some acc) \<Rightarrow> g acc)) s (on_account (bank_of pb (view s)) cid f)"
  by (rule load_then [OF assms(1-3)])
    (use assms(4) bank_of_wf [OF assms(2), of cid] in \<open>auto simp: on_account_def refuse_then split: option.splits\<close>)

lemma on_accounts_bank:
  assumes "ok s" "bank_wf pb (view s)" "bank_granted rd wr"
    and "\<And>s1 x y. ok s1 \<Longrightarrow> view s1 = view s \<Longrightarrow> Account_CustomerName x \<noteq> [] \<Longrightarrow> Account_CustomerName y \<noteq> [] \<Longrightarrow>
      implements_bank ok view pb (g x y) s1 (f x y)"
  shows "implements_bank ok view pb (bindP (loadAccount pb src ctx) (\<lambda>r. case r of
        Inl err \<Rightarrow> retP (Some err)
      | Inr x \<Rightarrow> bindP (loadAccount pb dst ctx) (\<lambda>r. case r of
          Inl err \<Rightarrow> retP (Some err)
        | Inr y \<Rightarrow> (case (x, y) of
            (Some x, Some y) \<Rightarrow> g x y
          | _ \<Rightarrow> retP (Some (InvalidTransactionError ''Both source and dest accounts must exist'' [])))))) s
    (on_accounts (bank_of pb (view s)) src dst f)"
proof (rule load_then [OF assms(1-3)], goal_cases)
  case (1 s1)
  then have "bank_wf pb (view s1)" using assms(2) by simp
  from 1 show ?case
    unfolding sum.case
    by (intro load_then [OF 1(1) \<open>bank_wf pb (view s1)\<close> assms(3)])
      (use assms(4) bank_of_wf [OF assms(2), of src] bank_of_wf [OF assms(2), of dst] in
        \<open>auto simp: on_accounts_def refuse_then split: option.splits\<close>)
qed

lemma Smallbank_Apply_bank:
  assumes "ok s" "bank_wf pb (view s)" "bank_granted rd wr" "account_codec_ok pb"
    and "unpackPayload pb (TpProcessRequest_Payload q) = Inr p"
  shows "implements_bank ok view pb (Smallbank_Apply pb q ctx) s (bank_step p (bank_of pb (view s)))"
proof -
  note ac = on_account_bank [OF assms(1-3)] and acs = on_accounts_bank [OF assms(1-3), unfolded prod.case]
    and at = commits_at [OF assms(2-4)]
  have "implements_bank ok view pb (applyDepositChecking pb d2 ctx) s (on_data d2 (\<lambda>d.
       on_account (bank_of pb (view s)) (DepositCheckingData_CustomerId d) (\<lambda>acc. Ret (Inr (put
         (acc\<lparr>Account_CheckingBalance := Account_CheckingBalance acc + DepositCheckingData_Amount d\<rparr>) (bank_of pb (view s)))))))" for d2
    unfolding applyDepositChecking_def on_data_def Let_def account_updates
    by (cases d2) (use assms(1) in \<open>auto simp: refuse_then intro!: ac at(1)\<close>)
  moreover have "implements_bank ok view pb (applyWriteCheck pb d3 ctx) s (on_data d3 (\<lambda>d.
       on_account (bank_of pb (view s)) (WriteCheckData_CustomerId d) (\<lambda>acc. Ret (Inr (put
         (acc\<lparr>Account_CheckingBalance := Account_CheckingBalance acc - WriteCheckData_Amount d\<rparr>) (bank_of pb (view s)))))))" for d3
    unfolding applyWriteCheck_def on_data_def Let_def account_updates
    by (cases d3) (use assms(1) in \<open>auto simp: refuse_then intro!: ac at(1)\<close>)
  moreover have "implements_bank ok view pb (applyTransactSavings pb d4 ctx) s (on_data d4 (\<lambda>d.
       on_account (bank_of pb (view s)) (TransactSavingsData_CustomerId d) (\<lambda>acc.
         if sint (TransactSavingsData_Amount d) < 0 \<and> uint (Account_SavingsBalance acc) + sint (TransactSavingsData_Amount d) < 0
         then refused ''Insufficient funds in source savings account''
         else Ret (Inr (put (acc\<lparr>Account_SavingsBalance :=
           Account_SavingsBalance acc + TransactSavingsData_Amount d\<rparr>) (bank_of pb (view s)))))))" for d4
    unfolding applyTransactSavings_def on_data_def Let_def account_updates
    by (cases d4) (use assms(1) in \<open>auto simp: refuse_then withdraw_guard intro!: ac at(1)\<close>)
  moreover have "implements_bank ok view pb (applySendPayment pb d5 ctx) s (on_data d5 (\<lambda>d.
       on_accounts (bank_of pb (view s)) (SendPaymentData_SourceCustomerId d) (SendPaymentData_DestCustomerId d) (\<lambda>src dst.
         if Account_CheckingBalance src < SendPaymentData_Amount d
         then refused ''Insufficient funds in source checking account''
         else Ret (Inr (put (dst\<lparr>Account_CheckingBalance := Account_CheckingBalance dst + SendPaymentData_Amount d\<rparr>)
           (put (src\<lparr>Account_CheckingBalance := Account_CheckingBalance src - SendPaymentData_Amount d\<rparr>) (bank_of pb (view s))))))))" for d5
    unfolding applySendPayment_def on_data_def Let_def account_updates
    by (cases d5) (use assms(1) in \<open>auto simp: refuse_then intro!: acs at(2)\<close>)
  moreover have "implements_bank ok view pb (applyAmalgamate pb d6 ctx) s (on_data d6 (\<lambda>d.
       on_accounts (bank_of pb (view s)) (AmalgamateData_SourceCustomerId d) (AmalgamateData_DestCustomerId d) (\<lambda>src dst.
         Ret (Inr (put (dst\<lparr>Account_CheckingBalance := Account_CheckingBalance dst + Account_SavingsBalance src\<rparr>)
           (put (src\<lparr>Account_SavingsBalance := 0\<rparr>) (bank_of pb (view s))))))))" for d6
    unfolding applyAmalgamate_def on_data_def Let_def account_updates
    by (cases d6) (use assms(1) in \<open>auto simp: refuse_then intro!: acs at(2)\<close>)
  ultimately show ?thesis
    using assms(1,5) applyCreateAccount_bank [OF assms(1-4)]
    by (simp add: Smallbank_Apply_def bank_step_def Let_def refuse_then)
qed

end

context state_context
begin

text \<open>The states of the family are closed under all requests, granted addresses assumed.\<close>

lemma Smallbank_Apply_wf:
  assumes "ok s" "bank_wf pb (view s)" "bank_granted rd wr" "account_codec_ok pb" "Smallbank_Apply pb q ctx s = (r, s')"
  shows "ok s' \<and> bank_wf pb (view s')"
proof (cases "unpackPayload pb (TpProcessRequest_Payload q)")
  case (Inl e)
  with assms show ?thesis by (auto simp: Smallbank_Apply_def)
next
  case (Inr p)
  from implements_wf [OF Smallbank_Apply_bank [OF assms(1-4) Inr] assms(2,5)] show ?thesis .
qed

end

definition worth :: "Account \<Rightarrow> nat" where
  "worth acc = unat (Account_SavingsBalance acc) + unat (Account_CheckingBalance acc)"

section \<open>A concrete bank\<close>

definition demo_sb :: smallbank_pb where
  "demo_sb = \<lparr>pbAccount = \<lparr>Marshal = (\<lambda>m. (replicate (Suc (to_nat m)) (CHR 0x00), None)),
                            Unmarshal = (\<lambda>b. (from_nat (length b - 1), None))\<rparr>,
              pbSmallbankPayload = unary_codec\<rparr>"

lemma demo_sb_ok [simp]: "account_codec_ok demo_sb"
  by (simp add: account_codec_ok_def demo_sb_def codec_ok_def)

definition demo_account :: "32 word \<Rightarrow> 32 word \<Rightarrow> Account" where
  "demo_account cid checking = \<lparr>Account_CustomerId = cid, Account_CustomerName = ''c'',
     Account_SavingsBalance = 5, Account_CheckingBalance = checking\<rparr>"

definition demo_bank :: "32 word \<Rightarrow> 32 word \<Rightarrow> string \<Rightarrow> bytes" where
  "demo_bank cid checking a =
    (if a = smallbank_address cid then fst (Marshal (pbAccount demo_sb) (demo_account cid checking)) else [])"

lemma demo_bank_wf [simp]: "bank_wf demo_sb (demo_bank cid checking)"
  by (auto simp: bank_wf_def demo_bank_def Let_def demo_sb_def demo_account_def)

lemma demo_bank_of [simp]: "bank_of demo_sb (demo_bank cid checking) (smallbank_address cid) = Some (demo_account cid checking)"
  by (simp add: bank_of_def demo_bank_def demo_sb_def)

lemma demo_bank_data [simp]:
  "demo_bank cid checking (smallbank_address cid) \<noteq> []"
  "Unmarshal (pbAccount demo_sb) (demo_bank cid checking (smallbank_address cid)) = (demo_account cid checking, None)"
  by (simp_all add: demo_bank_def demo_sb_def)

definition demo_sb_request :: "SmallbankTransactionPayload \<Rightarrow> TpProcessRequest" where
  "demo_sb_request p = \<lparr>TpProcessRequest_Header = None,
     TpProcessRequest_Payload = Some (fst (Marshal (pbSmallbankPayload demo_sb) p)),
     TpProcessRequest_Signature = [], TpProcessRequest_ContextId = ''ctx''\<rparr>"

lemma demo_sb_unpack [simp]: "unpackPayload demo_sb (TpProcessRequest_Payload (demo_sb_request p)) = Inr p"
  by (simp add: unpackPayload_def demo_sb_request_def demo_sb_def)

definition demo_sb_payload :: "int \<Rightarrow> SmallbankTransactionPayload" where
  "demo_sb_payload t = \<lparr>SmallbankTransactionPayload_PayloadType = t, SmallbankTransactionPayload_CreateAccount = None,
     SmallbankTransactionPayload_DepositChecking = Some \<lparr>DepositCheckingData_CustomerId = 1, DepositCheckingData_Amount = 2\<rparr>,
     SmallbankTransactionPayload_WriteCheck = Some \<lparr>WriteCheckData_CustomerId = 1, WriteCheckData_Amount = 8\<rparr>,
     SmallbankTransactionPayload_TransactSavings = None,
     SmallbankTransactionPayload_SendPayment = Some \<lparr>SendPaymentData_SourceCustomerId = 1,
        SendPaymentData_DestCustomerId = 1, SendPaymentData_Amount = 3\<rparr>,
     SmallbankTransactionPayload_Amalgamate = None\<rparr>"

lemma demo_sb_payload_simps [simp]:
  "SmallbankTransactionPayload_PayloadType (demo_sb_payload t) = t"
  "SmallbankTransactionPayload_DepositChecking (demo_sb_payload t) = Some \<lparr>DepositCheckingData_CustomerId = 1, DepositCheckingData_Amount = 2\<rparr>"
  "SmallbankTransactionPayload_WriteCheck (demo_sb_payload t) = Some \<lparr>WriteCheckData_CustomerId = 1, WriteCheckData_Amount = 8\<rparr>"
  "SmallbankTransactionPayload_SendPayment (demo_sb_payload t) = Some \<lparr>SendPaymentData_SourceCustomerId = 1,
     SendPaymentData_DestCustomerId = 1, SendPaymentData_Amount = 3\<rparr>"
  by (simp_all add: demo_sb_payload_def)

abbreviation demo_bank_conn :: "(string \<Rightarrow> bytes) ZmqConnection" where
  "demo_bank_conn \<equiv> demo_conn (\<lambda>a. True) (\<lambda>a. True) (demo_bank 1 7)"

lemma granted_all [simp]: "bank_granted (\<lambda>a. True) (\<lambda>a. True)"
  by (simp add: bank_granted_def)

section \<open>Properties\<close>

text \<open>
  C11: the smallbank handler implements the abstract bank.  On a well-formed validator state, with
  the addresses of accounts readable and writable, a request whose payload decodes has the outcome
  the bank step gives for it: the same error and an unchanged state, or success and a well-formed
  state that stores exactly the resulting bank, with uint32 arithmetic and for savings the guard
  on the signed amount; with the data message missing it panics.
\<close>

theorem Smallbank_Apply_refines:
  assumes "state_conn pb cid st rd wr react c" "bank_wf sb (st (peer c))" "bank_granted rd wr" "account_codec_ok sb"
    and "unpackPayload sb (TpProcessRequest_Payload q) = Inr p"
  shows "implements_bank (state_conn pb cid st rd wr react) (\<lambda>c. st (peer c)) sb
    (Smallbank_Apply sb q (tp_methods pb cid)) c (bank_step p (bank_of sb (st (peer c))))"
  using assms by (rule tp.Smallbank_Apply_bank)

lemma Smallbank_Apply_refines_witness:
  "\<exists>c'. Smallbank_Apply demo_sb (demo_sb_request (demo_sb_payload 2)) (tp_methods unary_tp_pb ''ctx'') demo_bank_conn = (Ret None, c') \<and>
    bank_of demo_sb (peer c') = (bank_of demo_sb (demo_bank 1 7))(smallbank_address 1 \<mapsto> demo_account 1 9)"
  using Smallbank_Apply_refines [OF demo_state_conn [of "''ctx''" "\<lambda>a. True" "\<lambda>a. True" "demo_bank 1 7"],
      where sb = demo_sb and q = "demo_sb_request (demo_sb_payload 2)" and p = "demo_sb_payload 2"]
  by (auto simp: implements_def bank_step_def demo_sb_payload_def on_data_def on_account_def put_def demo_account_def)

text \<open>
  C24: what a payment does to money, when both accounts exist.  A payment that the source's checking
  balance does not cover is refused and changes nothing.  Any other succeeds.  Between different
  accounts the source's worth falls by the amount, and the destination's grows by the amount, less
  2^32 when its checking balance overflows: the sum of the two is kept exactly when it does not
  overflow, and an overflow destroys 2^32.  A payment to oneself is not taken off: the worth grows by
  the amount (again less 2^32 on overflow), so it creates money.
\<close>

theorem SendPayment_money:
  assumes "state_conn pb cid st rd wr react c" "bank_wf sb (st (peer c))" "bank_granted rd wr" "account_codec_ok sb"
    and "unpackPayload sb (TpProcessRequest_Payload q) = Inr p"
    and "SmallbankTransactionPayload_PayloadType p = SmallbankTransactionPayload_SEND_PAYMENT"
    and "SmallbankTransactionPayload_SendPayment p = Some d"
    and a: "a = smallbank_address (SendPaymentData_SourceCustomerId d)" "bank_of sb (st (peer c)) a = Some x"
    and b: "b = smallbank_address (SendPaymentData_DestCustomerId d)" "bank_of sb (st (peer c)) b = Some y"
    and n: "n = unat (SendPaymentData_Amount d)"
    and lost: "lost = (if unat (Account_CheckingBalance y) + n < 2 ^ 32 then 0 else 2 ^ 32)"
  shows "if unat (Account_CheckingBalance x) < n
    then \<exists>c'. Smallbank_Apply sb q (tp_methods pb cid) c =
        (Ret (Some (InvalidTransactionError ''Insufficient funds in source checking account'' [])), c') \<and> st (peer c') = st (peer c)
    else \<exists>c' x' y'. Smallbank_Apply sb q (tp_methods pb cid) c = (Ret None, c') \<and>
      bank_of sb (st (peer c')) a = Some x' \<and> bank_of sb (st (peer c')) b = Some y' \<and>
      (if a = b then worth x' + lost = worth x + n
       else worth x' + n = worth x \<and> worth y' + lost = worth y + n \<and>
         (worth x' + worth y' = worth x + worth y \<longleftrightarrow> lost = 0))"
proof (cases "unat (Account_CheckingBalance x) < n")
  case True
  have "bank_step p (bank_of sb (st (peer c))) = refused ''Insufficient funds in source checking account''"
    using a b n True assms(6,7) by (simp add: bank_step_def on_data_def on_accounts_def word_less_nat_alt)
  with tp.Smallbank_Apply_bank [OF assms(1-5)] True show ?thesis by (auto simp: implements_def)
next
  case False
  let ?n = "SendPaymentData_Amount d"
  have ax: "smallbank_address (Account_CustomerId x) = a" and ay: "smallbank_address (Account_CustomerId y) = b"
    using bank_of_wf [OF assms(2), of _ x] bank_of_wf [OF assms(2), of _ y] a b by auto
  have no: "\<not> Account_CheckingBalance x < ?n" using False n by (simp add: word_less_nat_alt)
  have sub: "unat (Account_CheckingBalance x - ?n) = unat (Account_CheckingBalance x) - n"
    unfolding n using no by (intro unat_sub) simp
  have add: "unat (Account_CheckingBalance y + ?n) + lost = unat (Account_CheckingBalance y) + n"
    unfolding n lost using unsigned_less [of "Account_CheckingBalance y", where ?'a = nat] unsigned_less [of ?n, where ?'a = nat]
    by (simp add: unat_word_ariths(1) mod_if) linarith
  let ?x = "x\<lparr>Account_CheckingBalance := Account_CheckingBalance x - ?n\<rparr>"
  let ?y = "y\<lparr>Account_CheckingBalance := Account_CheckingBalance y + ?n\<rparr>"
  have "bank_step p (bank_of sb (st (peer c))) = Ret (Inr (put ?y (put ?x (bank_of sb (st (peer c))))))"
    using a b no assms(6,7) by (simp add: bank_step_def on_data_def on_accounts_def)
  with tp.Smallbank_Apply_bank [OF assms(1-5)] obtain c' where
    "Smallbank_Apply sb q (tp_methods pb cid) c = (Ret None, c')"
    "bank_of sb (st (peer c')) = put ?y (put ?x (bank_of sb (st (peer c))))"
    by (auto simp: implements_def)
  moreover have "x = y" if "a = b" using that a(2) b(2) by simp
  ultimately show ?thesis
    using False sub add by (auto simp: put_def ax ay worth_def)
qed

text \<open>Customer 1 pays itself three and gains them; customer 1 pays customer 2, whose balance overflows.\<close>

definition demo_two_accounts :: "string \<Rightarrow> bytes" where
  "demo_two_accounts a = (if a = smallbank_address 1 then demo_bank 1 7 a else demo_bank 2 4294967295 a)"

lemma demo_two_wf [simp]: "bank_wf demo_sb demo_two_accounts"
  by (auto simp: bank_wf_def demo_two_accounts_def demo_bank_def Let_def demo_sb_def demo_account_def)

lemma demo_two_of:
  "bank_of demo_sb demo_two_accounts (smallbank_address 1) = Some (demo_account 1 7)"
  "bank_of demo_sb demo_two_accounts (smallbank_address 2) =
    Some (if smallbank_address 2 = smallbank_address 1 then demo_account 1 7 else demo_account 2 4294967295)"
  using demo_bank_of [of 1 7] demo_bank_of [of 2 4294967295] by (simp_all add: bank_of_def demo_two_accounts_def)

definition demo_pay_other :: SmallbankTransactionPayload where
  "demo_pay_other = (demo_sb_payload 5)\<lparr>SmallbankTransactionPayload_SendPayment := Some \<lparr>SendPaymentData_SourceCustomerId = 1,
     SendPaymentData_DestCustomerId = 2, SendPaymentData_Amount = 3\<rparr>\<rparr>"

lemma demo_pay_other_simps [simp]:
  "SmallbankTransactionPayload_PayloadType demo_pay_other = 5"
  "SmallbankTransactionPayload_SendPayment demo_pay_other = Some \<lparr>SendPaymentData_SourceCustomerId = 1,
     SendPaymentData_DestCustomerId = 2, SendPaymentData_Amount = 3\<rparr>"
  by (simp_all add: demo_pay_other_def)

lemma SendPayment_money_witness:
  "(\<exists>c' x'. Smallbank_Apply demo_sb (demo_sb_request (demo_sb_payload 5)) (tp_methods unary_tp_pb ''ctx'') demo_bank_conn = (Ret None, c') \<and>
      bank_of demo_sb (peer c') (smallbank_address 1) = Some x' \<and> worth x' = worth (demo_account 1 7) + 3) \<and>
   (\<exists>c' x' y'. Smallbank_Apply demo_sb (demo_sb_request demo_pay_other) (tp_methods unary_tp_pb ''ctx'')
        (demo_conn (\<lambda>a. True) (\<lambda>a. True) demo_two_accounts) = (Ret None, c') \<and>
      bank_of demo_sb (peer c') (smallbank_address 1) = Some x' \<and> bank_of demo_sb (peer c') (smallbank_address 2) = Some y' \<and>
      (if smallbank_address 2 = smallbank_address 1 then worth x' = 15 else worth x' = 9 \<and> worth y' = 7))"
proof (intro conjI)
  show "\<exists>c' x'. Smallbank_Apply demo_sb (demo_sb_request (demo_sb_payload 5)) (tp_methods unary_tp_pb ''ctx'') demo_bank_conn = (Ret None, c') \<and>
      bank_of demo_sb (peer c') (smallbank_address 1) = Some x' \<and> worth x' = worth (demo_account 1 7) + 3"
    using SendPayment_money [OF demo_state_conn [of "''ctx''" "\<lambda>a. True" "\<lambda>a. True" "demo_bank 1 7"] _ granted_all demo_sb_ok
        demo_sb_unpack [of "demo_sb_payload 5"] _ demo_sb_payload_simps(4) refl _ refl _ refl refl,
        of "demo_account 1 7" "demo_account 1 7"]
    by (simp add: demo_account_def) metis
  show "\<exists>c' x' y'. Smallbank_Apply demo_sb (demo_sb_request demo_pay_other) (tp_methods unary_tp_pb ''ctx'')
        (demo_conn (\<lambda>a. True) (\<lambda>a. True) demo_two_accounts) = (Ret None, c') \<and>
      bank_of demo_sb (peer c') (smallbank_address 1) = Some x' \<and> bank_of demo_sb (peer c') (smallbank_address 2) = Some y' \<and>
      (if smallbank_address 2 = smallbank_address 1 then worth x' = 15 else worth x' = 9 \<and> worth y' = 7)"
    using SendPayment_money [OF demo_state_conn [of "''ctx''" "\<lambda>a. True" "\<lambda>a. True" demo_two_accounts] _ granted_all demo_sb_ok
        demo_sb_unpack [of demo_pay_other] _ demo_pay_other_simps(2) refl _ refl _ refl refl, of "demo_account 1 7"
        "if smallbank_address 2 = smallbank_address 1 then demo_account 1 7 else demo_account 2 4294967295"]
    by (auto simp: demo_two_of demo_account_def worth_def split: if_splits)
qed

text \<open>
  Smallbank keeps its state well formed and to itself.  Over any sequence of requests, also
  one that a panic cuts short, every stored account stays decodable, with a name, at the address
  of its own customer id, and no address outside the smallbank namespace changes.
\<close>

theorem Smallbank_run_wf:
  assumes "state_conn pb cid st rd wr react c" "bank_wf sb (st (peer c))" "bank_granted rd wr" "account_codec_ok sb"
    and "apply_all (\<lambda>q. Smallbank_Apply sb q (tp_methods pb cid)) qs c = (r, c')"
  shows "bank_wf sb (st (peer c')) \<and> (\<forall>a. \<not> prefix smallbank_namespace a \<longrightarrow> st (peer c') a = st (peer c) a)"
proof
  show "bank_wf sb (st (peer c'))"
    by (rule apply_all_invariant [where view = "\<lambda>c. st (peer c)" and ok = "state_conn pb cid st rd wr react",
          OF tp.Smallbank_Apply_wf [OF _ _ assms(3,4)] assms(1,2,5)])
  show "\<forall>a. \<not> prefix smallbank_namespace a \<longrightarrow> st (peer c') a = st (peer c) a"
    using smallbank.apply_all_confined [OF assms(1,5)] by blast
qed

lemma Smallbank_run_wf_witness:
  "bank_wf demo_sb (peer (snd (apply_all (\<lambda>q. Smallbank_Apply demo_sb q (tp_methods unary_tp_pb ''ctx''))
     [demo_sb_request (demo_sb_payload 5), demo_sb_request (demo_sb_payload 4), demo_sb_request (demo_sb_payload 3)] demo_bank_conn)))"
proof -
  let ?run = "apply_all (\<lambda>q. Smallbank_Apply demo_sb q (tp_methods unary_tp_pb ''ctx''))
     [demo_sb_request (demo_sb_payload 5), demo_sb_request (demo_sb_payload 4), demo_sb_request (demo_sb_payload 3)] demo_bank_conn"
  have "?run = (fst ?run, snd ?run)" by simp
  from Smallbank_run_wf [OF demo_state_conn _ granted_all demo_sb_ok this] show ?thesis by simp
qed

text \<open>
  A check may be written over the balance.  When the account exists and the amount exceeds
  its checking balance, the write-check transaction succeeds and the new balance is the balance
  plus 2^32 minus the amount: there is no check for funds, and the subtraction wraps around.
\<close>

theorem WriteCheck_overdraft:
  assumes "state_conn pb cid st rd wr react c" "bank_wf sb (st (peer c))" "bank_granted rd wr" "account_codec_ok sb"
    and "unpackPayload sb (TpProcessRequest_Payload q) = Inr p"
    and "SmallbankTransactionPayload_PayloadType p = SmallbankTransactionPayload_WRITE_CHECK"
    and "SmallbankTransactionPayload_WriteCheck p = Some d"
    and a: "a = smallbank_address (WriteCheckData_CustomerId d)" "bank_of sb (st (peer c)) a = Some x"
    and over: "unat (Account_CheckingBalance x) < unat (WriteCheckData_Amount d)"
  shows "\<exists>c' x'. Smallbank_Apply sb q (tp_methods pb cid) c = (Ret None, c') \<and>
    bank_of sb (st (peer c')) a = Some x' \<and>
    unat (Account_CheckingBalance x') + unat (WriteCheckData_Amount d) = unat (Account_CheckingBalance x) + 2 ^ 32"
proof -
  let ?x = "x\<lparr>Account_CheckingBalance := Account_CheckingBalance x - WriteCheckData_Amount d\<rparr>"
  have ax: "smallbank_address (Account_CustomerId x) = a"
    using bank_of_wf [OF assms(2), of _ x] a by auto
  have "bank_step p (bank_of sb (st (peer c))) = Ret (Inr (put ?x (bank_of sb (st (peer c)))))"
    using a assms(6,7) by (simp add: bank_step_def on_data_def on_account_def)
  with tp.Smallbank_Apply_bank [OF assms(1-5)] obtain c' where
    "Smallbank_Apply sb q (tp_methods pb cid) c = (Ret None, c')"
    "bank_of sb (st (peer c')) = put ?x (bank_of sb (st (peer c)))"
    by (auto simp: implements_def)
  moreover have "unat (WriteCheckData_Amount d) < 2 ^ 32"
    using unsigned_less [of "WriteCheckData_Amount d"] by simp
  then have "unat (Account_CheckingBalance x - WriteCheckData_Amount d) + unat (WriteCheckData_Amount d) =
      unat (Account_CheckingBalance x) + 2 ^ 32"
    using over by (simp add: unat_sub_if')
  ultimately show ?thesis by (simp add: put_def ax)
qed

lemma WriteCheck_overdraft_witness:
  "\<exists>c' x'. Smallbank_Apply demo_sb (demo_sb_request (demo_sb_payload 3)) (tp_methods unary_tp_pb ''ctx'') demo_bank_conn = (Ret None, c') \<and>
    bank_of demo_sb (peer c') (smallbank_address 1) = Some x' \<and> unat (Account_CheckingBalance x') = 4294967295"
  using WriteCheck_overdraft [OF demo_state_conn [of "''ctx''" "\<lambda>a. True" "\<lambda>a. True" "demo_bank 1 7"] _ _ _ demo_sb_unpack [of "demo_sb_payload 3"],
      where a = "smallbank_address 1" and x = "demo_account 1 7" and
        d = "\<lparr>WriteCheckData_CustomerId = 1, WriteCheckData_Amount = 8\<rparr>"]
  by (simp add: demo_account_def)

text \<open>
  A refused write is reported as success.  When the transaction may read but not write the
  account's address, a deposit to an existing account returns nil although the validator state is
  unchanged: the error of saveAccount is dropped.
\<close>

theorem Deposit_ignores_refusal:
  assumes "state_conn pb cid st rd wr react c" "unpackPayload sb (TpProcessRequest_Payload q) = Inr p"
    and "SmallbankTransactionPayload_PayloadType p = SmallbankTransactionPayload_DEPOSIT_CHECKING"
    and "SmallbankTransactionPayload_DepositChecking p = Some d"
    and a: "a = smallbank_address (DepositCheckingData_CustomerId d)" "rd a" "\<not> wr a"
    and acc: "st (peer c) a \<noteq> []" "Unmarshal (pbAccount sb) (st (peer c) a) = (acc, None)"
      "Account_CustomerId acc = DepositCheckingData_CustomerId d"
  shows "\<exists>c'. Smallbank_Apply sb q (tp_methods pb cid) c = (Ret None, c') \<and> st (peer c') = st (peer c)"
proof -
  from assms(1) a(2) obtain c1 where c1: "x_GetState (tp_methods pb cid) [a] c =
      (Ret (Inr (\<lambda>x. if x = a \<and> st (peer c) a \<noteq> [] then Some (st (peer c) a) else None)), c1)"
    "state_conn pb cid st rd wr react c1" "st (peer c1) = st (peer c)" by (rule tp.get_one)
  have ld: "loadAccount sb (DepositCheckingData_CustomerId d) (tp_methods pb cid) c = (Ret (Inr (Some acc)), c1)"
    using c1(1) acc(1,2) by (simp add: loadAccount_def Let_def a(1) unpackAccount_def)
  have "\<exists>e c2. saveAccount sb acc' (tp_methods pb cid) c1 = (Ret (Some e), c2) \<and> st (peer c2) = st (peer c)"
    if "Account_CustomerId acc' = Account_CustomerId acc" for acc'
  proof (cases "Marshal (pbAccount sb) acc'")
    case (Pair data e)
    obtain m c2 where "x_SetState (tp_methods pb cid) [(a, data)] c1 = (Ret (Inl (AuthorizationException m [])), c2)"
      "st (peer c2) = st (peer c1)"
      using tp.set_one_denied [OF c1(2) a(3)] by metis
    with Pair c1(3) that acc(3) show ?thesis
      by (cases e) (simp_all add: saveAccount_def Let_def a(1))
  qed
  from this [of "acc\<lparr>Account_CheckingBalance := Account_CheckingBalance acc + DepositCheckingData_Amount d\<rparr>"]
  show ?thesis
    using assms(2-4) ld by (auto simp: Smallbank_Apply_def applyDepositChecking_def account_updates)
qed

lemma Deposit_ignores_refusal_witness:
  "\<exists>c'. Smallbank_Apply demo_sb (demo_sb_request (demo_sb_payload 2)) (tp_methods unary_tp_pb ''ctx'')
      (demo_conn (\<lambda>a. True) (\<lambda>a. False) (demo_bank 1 7)) = (Ret None, c') \<and> peer c' = demo_bank 1 7"
  using Deposit_ignores_refusal [OF demo_state_conn [of "''ctx''" "\<lambda>a. True" "\<lambda>a. False" "demo_bank 1 7"] demo_sb_unpack [of "demo_sb_payload 2"],
      where a = "smallbank_address 1" and acc = "demo_account 1 7" and
        d = "\<lparr>DepositCheckingData_CustomerId = 1, DepositCheckingData_Amount = 2\<rparr>"]
  by (simp add: demo_account_def)

text \<open>
  A payload that names a transaction type but lacks its data message makes the handler
  panic with a nil pointer dereference, whatever the state.
\<close>

theorem Smallbank_missing_data_panics:
  assumes "unpackPayload sb (TpProcessRequest_Payload q) = Inr p"
    and "SmallbankTransactionPayload_PayloadType p = SmallbankTransactionPayload_CREATE_ACCOUNT \<and> SmallbankTransactionPayload_CreateAccount p = None \<or>
      SmallbankTransactionPayload_PayloadType p = SmallbankTransactionPayload_DEPOSIT_CHECKING \<and> SmallbankTransactionPayload_DepositChecking p = None \<or>
      SmallbankTransactionPayload_PayloadType p = SmallbankTransactionPayload_WRITE_CHECK \<and> SmallbankTransactionPayload_WriteCheck p = None \<or>
      SmallbankTransactionPayload_PayloadType p = SmallbankTransactionPayload_TRANSACT_SAVINGS \<and> SmallbankTransactionPayload_TransactSavings p = None \<or>
      SmallbankTransactionPayload_PayloadType p = SmallbankTransactionPayload_SEND_PAYMENT \<and> SmallbankTransactionPayload_SendPayment p = None \<or>
      SmallbankTransactionPayload_PayloadType p = SmallbankTransactionPayload_AMALGAMATE \<and> SmallbankTransactionPayload_Amalgamate p = None"
  shows "Smallbank_Apply sb q ctx c = (Panic ''nil pointer dereference'', c)"
  using assms by (auto simp: Smallbank_Apply_def smallbank_ops)

lemma Smallbank_missing_data_panics_witness:
  "Smallbank_Apply demo_sb (demo_sb_request (demo_sb_payload 6)) (tp_methods unary_tp_pb ''ctx'') demo_bank_conn =
    (Panic ''nil pointer dereference'', demo_bank_conn)"
  by (rule Smallbank_missing_data_panics [where p = "demo_sb_payload 6"]) (simp_all add: demo_sb_payload_def)

end
