(* ===== verification/Noop.thy ===== *)
theory Noop
  imports Transaction_Family
begin

text \<open>
  examples/noop_go: the noop transaction family, whose handler accepts every request and does
  nothing.
\<close>

record NoopHandler =
  noop_namespace :: string

definition NewNoopHandler :: "string \<Rightarrow> NoopHandler" where
  "NewNoopHandler namespace = \<lparr>noop_namespace = namespace\<rparr>"

definition Noop_FamilyName :: "NoopHandler \<Rightarrow> string" where
  "Noop_FamilyName self = ''noop''"

definition Noop_FamilyVersions :: "NoopHandler \<Rightarrow> string list" where
  "Noop_FamilyVersions self = [''1.0'']"

definition Noop_Namespaces :: "NoopHandler \<Rightarrow> string list" where
  "Noop_Namespaces self = [noop_namespace self]"

definition Noop_Apply :: "NoopHandler \<Rightarrow> TpProcessRequest \<Rightarrow> 's Context_methods \<Rightarrow> ('s, go_error option) proc" where
  "Noop_Apply self request context = retP None"

interpretation noop: tp_family "tp_methods pb cid" "state_conn pb cid st rd wr react"
    "\<lambda>c. st (peer c)" rd wr "\<lambda>q. Noop_Apply self q (tp_methods pb cid)" "noop_namespace self"
  for pb cid st rd wr react self
  by (rule tp_family_tx_safe [OF tp.state_context_axioms])
    (simp add: Noop_Apply_def tx_commit_safe [OF tx_commit_ret])

end
