(* ===== verification/Xo_State.thy ===== *)
theory Xo_State
  imports Transaction_Family Sha2
begin

text \<open>
  examples/xo_go: the payload of an xo transaction (xo_payload.go) and the store of games over a
  transaction context (xo_state.go), with the serialisation of the games that share an address,
  the cache of address data and the round trips that make the store correct.

  A Go map of games is an association list with different keys, as the handler ranges over it
  only after sorting the keys.
\<close>

section \<open>Payloads\<close>

record XoPayload =
  xp_Name :: string
  xp_Action :: string
  xp_Space :: int

definition FromBytes :: "bytes option \<Rightarrow> go_error + XoPayload" where
  "FromBytes payloadData =
    (case payloadData of
       None \<Rightarrow> Inl (InvalidTransactionError ''Must contain payload'' [])
     | Some data \<Rightarrow>
       (case split_on CHR '','' data of
          [name, action, space] \<Rightarrow>
           (if length name < 1 then Inl (InvalidTransactionError ''Name is required'' [])
            else if length action < 1 then Inl (InvalidTransactionError ''Action is required'' [])
            else
              (let named = (\<lambda>sp. if str_contains name CHR ''|''
                     then Inl (InvalidTransactionError (''Invalid Name (char '' @ [CHR 0x27, CHR ''|'', CHR 0x27]
                       @ '' not allowed): '' @ [CHR 0x27] @ space @ [CHR 0x27]) [])
                     else Inr \<lparr>xp_Name = name, xp_Action = action, xp_Space = sp\<rparr>)
               in if action = ''take'' then
                    (case Atoi space of
                       None \<Rightarrow> Inl (InvalidTransactionError (''Invalid Space: '' @ [CHR 0x27] @ space @ [CHR 0x27]) [])
                     | Some sp \<Rightarrow> named sp)
                  else named 0))
        | _ \<Rightarrow> Inl (InvalidTransactionError ''Payload is malformed'' [])))"

section \<open>Games and their serialisation\<close>

record Game =
  g_Board :: string
  g_State :: string
  g_Player1 :: string
  g_Player2 :: string
  g_Name :: string

type_synonym games = "(string \<times> Game) list"

definition xo_Namespace :: string where
  "xo_Namespace = take 6 (Hexdigest ''xo'')"

definition makeAddress :: "string \<Rightarrow> string" where
  "makeAddress name = xo_Namespace @ take 64 (Hexdigest name)"

definition game_fields :: "Game \<Rightarrow> string" where
  "game_fields game = g_Name game @ '','' @ g_Board game @ '','' @ g_State game @ '','' @
     g_Player1 game @ '','' @ g_Player2 game"

fun serialize :: "Game list \<Rightarrow> bytes" where
  "serialize [] = []"
| "serialize (game # gs) = game_fields game @ (if gs = [] then [] else ''|'') @ serialize gs"

fun deserialize_loop :: "bytes \<Rightarrow> string list \<Rightarrow> games \<Rightarrow> go_error + games" where
  "deserialize_loop data [] games = Inr games"
| "deserialize_loop data (str # strs) games =
    (case split_on CHR '','' str of
       [name, board, state, player1, player2] \<Rightarrow>
         deserialize_loop data strs (AList.update name
           \<lparr>g_Board = board, g_State = state, g_Player1 = player1, g_Player2 = player2, g_Name = name\<rparr> games)
     | _ \<Rightarrow> Inl (InternalError (''Malformed game data: '' @ [CHR 0x27] @ data @ [CHR 0x27]) []))"

definition deserialize :: "bytes \<Rightarrow> go_error + games" where
  "deserialize data = deserialize_loop data (split_on CHR ''|'' data) []"

section \<open>The store\<close>

text \<open>The store of one transaction: the context's state and the cache, where nil data is None.\<close>

type_synonym xo_cache = "string \<rightharpoonup> bytes option"

definition NewXoState :: xo_cache where
  "NewXoState = Map.empty"

definition on_context :: "('s, 'a) proc \<Rightarrow> ('s \<times> xo_cache, 'a) proc" where
  "on_context m = (\<lambda>(s, cache). case m s of (r, s') \<Rightarrow> (r, (s', cache)))"

definition set_cache :: "string \<Rightarrow> bytes option \<Rightarrow> ('s \<times> xo_cache, unit) proc" where
  "set_cache address data = (\<lambda>(s, cache). (Ret (), (s, cache(address \<mapsto> data))))"

definition loadGames :: "'s Context_methods \<Rightarrow> string \<Rightarrow> ('s \<times> xo_cache, go_error + games) proc" where
  "loadGames context name self =
    (let address = makeAddress name in
     case snd self address of
       Some (Some data) \<Rightarrow> (Ret (deserialize data), self)
     | Some None \<Rightarrow> (Ret (Inr []), self)
     | None \<Rightarrow>
        bindP (on_context (x_GetState context [address])) (\<lambda>r.
          case r of
            Inl err \<Rightarrow> retP (Inl err)
          | Inr results \<Rightarrow>
             (let data = (case results address of None \<Rightarrow> [] | Some d \<Rightarrow> d) in
              if length data > 0
              then bindP (set_cache address (Some data)) (\<lambda>_. retP (deserialize data))
              else bindP (set_cache address None) (\<lambda>_. retP (Inr [])))) self)"

definition storeGames :: "'s Context_methods \<Rightarrow> string \<Rightarrow> games \<Rightarrow> ('s \<times> xo_cache, go_error option) proc" where
  "storeGames context name games =
    (let address = makeAddress name;
         names = sort (map fst games);
         g = map (\<lambda>name. the (map_of games name)) names;
         data = serialize g
     in bindP (set_cache address (Some data)) (\<lambda>_.
        bindP (on_context (x_SetState context [(address, data)])) (\<lambda>r.
          retP (case r of Inl err \<Rightarrow> Some err | Inr _ \<Rightarrow> None))))"

definition deleteGames :: "'s Context_methods \<Rightarrow> string \<Rightarrow> ('s \<times> xo_cache, go_error option) proc" where
  "deleteGames context name =
    (let address = makeAddress name in
     bindP (on_context (x_DeleteState context [address])) (\<lambda>r.
       retP (case r of Inl err \<Rightarrow> Some err | Inr _ \<Rightarrow> None)))"

definition GetGame :: "'s Context_methods \<Rightarrow> string \<Rightarrow> ('s \<times> xo_cache, go_error + Game option) proc" where
  "GetGame context name =
    bindP (loadGames context name) (\<lambda>r.
      case r of
        Inl err \<Rightarrow> retP (Inl err)
      | Inr games \<Rightarrow> retP (Inr (map_of games name)))"

definition SetGame :: "'s Context_methods \<Rightarrow> string \<Rightarrow> Game \<Rightarrow> ('s \<times> xo_cache, go_error option) proc" where
  "SetGame context name game =
    bindP (loadGames context name) (\<lambda>r.
      case r of
        Inl err \<Rightarrow> retP (Some err)
      | Inr games \<Rightarrow> storeGames context name (AList.update name game games))"

definition DeleteGame :: "'s Context_methods \<Rightarrow> string \<Rightarrow> ('s \<times> xo_cache, go_error option) proc" where
  "DeleteGame context name =
    bindP (loadGames context name) (\<lambda>r.
      case r of
        Inl err \<Rightarrow> retP (Some err)
      | Inr games \<Rightarrow>
         (let games = AList.delete name games in
          if length games > 0 then storeGames context name games else deleteGames context name))"

section \<open>Round trips\<close>

text \<open>A text that survives the format: neither separator occurs in it.\<close>

definition plain :: "string \<Rightarrow> bool" where
  "plain s \<longleftrightarrow> CHR '','' \<notin> set s \<and> CHR ''|'' \<notin> set s"

definition plain_game :: "Game \<Rightarrow> bool" where
  "plain_game g \<longleftrightarrow> plain (g_Name g) \<and> plain (g_Board g) \<and> plain (g_State g) \<and> plain (g_Player1 g) \<and> plain (g_Player2 g)"

lemma game_fields_join:
  "game_fields g = join_with CHR '','' [g_Name g, g_Board g, g_State g, g_Player1 g, g_Player2 g]"
  by (simp add: game_fields_def)

lemma serialize_join: "serialize gs = join_with CHR ''|'' (map game_fields gs)"
proof (induction gs)
  case (Cons g gs)
  then show ?case by (cases gs) auto
qed simp

lemma split_game_fields:
  "plain_game g \<Longrightarrow> split_on CHR '','' (game_fields g) = [g_Name g, g_Board g, g_State g, g_Player1 g, g_Player2 g]"
  unfolding game_fields_join by (rule split_on_join) (auto simp: plain_game_def plain_def)

lemma game_fields_no_bar: "plain_game g \<Longrightarrow> CHR ''|'' \<notin> set (game_fields g)"
  by (auto simp: game_fields_def plain_game_def plain_def)

lemma deserialize_loop_fields:
  "\<forall>g \<in> set gs. plain_game g \<Longrightarrow> deserialize_loop data (map game_fields gs) games =
     Inr (foldl (\<lambda>m g. AList.update (g_Name g) g m) games gs)"
proof (induction gs arbitrary: games)
  case (Cons g gs)
  then show ?case by (cases g) (simp add: split_game_fields)
qed simp

lemma foldl_update_new:
  "distinct (map fst al @ map g_Name gs) \<Longrightarrow>
   foldl (\<lambda>m g. AList.update (g_Name g) g m) al gs = al @ map (\<lambda>g. (g_Name g, g)) gs"
proof (induction gs arbitrary: al)
  case (Cons g gs)
  have "AList.update (g_Name g) g al = al @ [(g_Name g, g)]"
    using Cons.prems by (induction al) auto
  with Cons show ?case by (simp add: comp_def)
qed simp

lemma deserialize_serialize:
  assumes "gs \<noteq> []" "\<forall>g \<in> set gs. plain_game g" "distinct (map g_Name gs)"
  shows "deserialize (serialize gs) = Inr (map (\<lambda>g. (g_Name g, g)) gs)"
proof -
  have "split_on CHR ''|'' (serialize gs) = map game_fields gs"
    unfolding serialize_join using assms(1,2) by (intro split_on_join) (auto simp: game_fields_no_bar)
  then show ?thesis
    using assms(2,3) by (simp add: deserialize_def deserialize_loop_fields foldl_update_new)
qed

section \<open>The store is a map from names to games\<close>

text \<open>
  \<open>P\<close> is an invariant of single games that the store carries along.  A validator state is well
  formed when the data at every game address decodes to games under their own names that belong
  to the address.
\<close>

definition games_ok :: "(Game \<Rightarrow> bool) \<Rightarrow> string \<Rightarrow> games \<Rightarrow> bool" where
  "games_ok P a games \<longleftrightarrow> distinct (map fst games) \<and>
     (\<forall>(n, g) \<in> set games. g_Name g = n \<and> plain_game g \<and> P g \<and> makeAddress n = a)"

definition store_wf :: "(Game \<Rightarrow> bool) \<Rightarrow> (string \<Rightarrow> bytes) \<Rightarrow> bool" where
  "store_wf P f \<longleftrightarrow> (\<forall>name. f (makeAddress name) = [] \<or>
     (\<exists>games. deserialize (f (makeAddress name)) = Inr games \<and> games_ok P (makeAddress name) games))"

definition games_at :: "bytes \<Rightarrow> games" where
  "games_at d = (if d = [] then [] else case deserialize d of Inr games \<Rightarrow> games | Inl _ \<Rightarrow> [])"

lemma games_at_Nil: "games_at [] = []"
  by (simp add: games_at_def)

definition xo_game :: "(string \<Rightarrow> bytes) \<Rightarrow> string \<Rightarrow> Game option" where
  "xo_game f name = map_of (games_at (f (makeAddress name))) name"

lemma store_wf_games_ok: "store_wf P f \<Longrightarrow> games_ok P (makeAddress name) (games_at (f (makeAddress name)))"
  by (force simp: store_wf_def games_at_def games_ok_def)

lemma store_wf_game:
  "store_wf P f \<Longrightarrow> xo_game f name = Some g \<Longrightarrow> g_Name g = name \<and> plain_game g \<and> P g"
  using store_wf_games_ok [of P f name] unfolding xo_game_def games_ok_def
  by (auto dest!: map_of_SomeD)

lemma serialize_nonempty: "gs \<noteq> [] \<Longrightarrow> serialize gs \<noteq> []"
  by (cases gs) (auto simp: game_fields_def)

lemma games_ok_update:
  assumes "games_ok P a games" "plain_game g" "P g" "g_Name g = n" "makeAddress n = a"
  shows "games_ok P a (AList.update n g games)"
  using assms by (auto simp: games_ok_def distinct_update dest!: set_AList_update)

lemma games_ok_delete: "games_ok P a games \<Longrightarrow> games_ok P a (AList.delete n games)"
  by (auto simp: games_ok_def distinct_delete dest!: set_AList_delete)

text \<open>What storeGames writes decodes to the same map of games.\<close>

lemma stored_games:
  assumes "games_ok P a games" "games \<noteq> []"
  defines "d \<equiv> serialize (map (\<lambda>n. the (map_of games n)) (sort (map fst games)))"
  obtains games' where "deserialize d = Inr games'" "games_ok P a games'" "map_of games' = map_of games" "d \<noteq> []"
proof -
  let ?gs = "map (\<lambda>n. the (map_of games n)) (sort (map fst games))"
  let ?games' = "map (\<lambda>g. (g_Name g, g)) ?gs"
  have mem: "map_of games n = Some (the (map_of games n)) \<and> (n, the (map_of games n)) \<in> set games"
    if "n \<in> set (map fst games)" for n
  proof -
    from that obtain g where "map_of games n = Some g"
      by (metis list.set_map map_of_eq_None_iff not_Some_eq)
    then show ?thesis by (simp add: map_of_SomeD)
  qed
  have g: "g_Name (the (map_of games n)) = n \<and> plain_game (the (map_of games n)) \<and> P (the (map_of games n)) \<and> makeAddress n = a"
    if "n \<in> set (map fst games)" for n
    using mem [OF that] assms(1) unfolding games_ok_def by fast
  have names: "map g_Name ?gs = sort (map fst games)"
    unfolding map_map by (rule map_idI) (use g in auto)
  have dist: "distinct (sort (map fst games))" using assms(1) by (simp add: games_ok_def)
  have ne: "sort (map fst games) \<noteq> []"
    using assms(2) by (auto dest: arg_cong [of _ _ set])
  have des: "deserialize d = Inr ?games'"
    unfolding d_def
    by (rule deserialize_serialize) (use ne g names dist in \<open>auto simp del: map_map\<close>)
  have keys: "map fst ?games' = sort (map fst games)" using names by (simp add: comp_def)
  have eq: "map_of ?games' = map_of games"
  proof
    fix n
    show "map_of ?games' n = map_of games n"
    proof (cases "n \<in> set (map fst games)")
      case True
      then have "(n, the (map_of games n)) \<in> set ?games'" using g by force
      then have "map_of ?games' n = Some (the (map_of games n))"
        by (rule map_of_is_SomeI [OF keys [THEN arg_cong, of distinct, THEN iffD2, OF dist]])
      with mem [OF True] show ?thesis by simp
    next
      case False
      have "n \<notin> set (map fst ?games')" unfolding keys using False by simp
      then have "map_of ?games' n = None" by (simp only: map_of_eq_None_iff set_map not_False_eq_True)
      moreover have "map_of games n = None" using False by (simp only: map_of_eq_None_iff set_map not_False_eq_True)
      ultimately show ?thesis by simp
    qed
  qed
  have ok: "games_ok P a ?games'"
    using keys dist g by (auto simp: games_ok_def)
  have "d \<noteq> []" unfolding d_def using ne by (intro serialize_nonempty) simp
  with des ok eq show thesis by (rule that)
qed

text \<open>The cache agrees with the validator's state.\<close>

definition coherent :: "(string \<Rightarrow> bytes) \<Rightarrow> xo_cache \<Rightarrow> bool" where
  "coherent f cache \<longleftrightarrow> (\<forall>a. case cache a of None \<Rightarrow> True | Some None \<Rightarrow> f a = [] | Some (Some d) \<Rightarrow> f a = d \<and> d \<noteq> [])"

lemma coherent_new [simp]: "coherent f NewXoState"
  by (simp add: coherent_def NewXoState_def)

lemma on_context_apply [simp]: "on_context m (s, cache) = (case m s of (r, s') \<Rightarrow> (r, (s', cache)))"
  by (simp add: on_context_def)

lemma set_cache_apply [simp]: "set_cache a d (s, cache) = (Ret (), (s, cache(a \<mapsto> d)))"
  by (simp add: set_cache_def)

lemma store_wf_upd:
  assumes "store_wf P f" "d = [] \<or> (\<exists>games. deserialize d = Inr games \<and> games_ok P a games)"
  shows "store_wf P (f(a := d))"
  using assms by (auto simp: store_wf_def)

lemma xo_game_upd:
  assumes "store_wf P f" "a = makeAddress name" "map_of (games_at d) = (map_of (games_at (f a)))(name := v)"
  shows "xo_game (f(a := d)) = (xo_game f)(name := v)"
proof
  fix n
  show "xo_game (f(a := d)) n = ((xo_game f)(name := v)) n"
    using assms(2,3) by (cases "makeAddress n = a") (auto simp: xo_game_def)
qed

context state_context
begin

lemma loadGames_ok:
  assumes "ok s" "coherent (view s) cache" "store_wf P (view s)" "rd (makeAddress name)"
  obtains s' cache' where "loadGames ctx name (s, cache) = (Ret (Inr (games_at (view s (makeAddress name)))), (s', cache'))"
    "ok s'" "view s' = view s" "coherent (view s) cache'"
proof -
  let ?a = "makeAddress name"
  have des: "deserialize (view s ?a) = Inr (games_at (view s ?a))" if "view s ?a \<noteq> []"
    using assms(3) that by (auto simp: store_wf_def games_at_def split: sum.splits)
  show thesis
  proof (cases "cache ?a")
    case (Some x)
    with assms(2) have "loadGames ctx name (s, cache) = (Ret (Inr (games_at (view s ?a))), (s, cache))"
      using des by (cases x) (auto simp: loadGames_def coherent_def games_at_def Let_def dest!: spec [of _ ?a])
    with assms(1,2) that show thesis by blast
  next
    case None
    from assms(1,4) obtain s' where s': "x_GetState ctx [?a] s =
        (Ret (Inr (\<lambda>x. if x = ?a \<and> view s ?a \<noteq> [] then Some (view s ?a) else None)), s')" "ok s'" "view s' = view s"
      by (rule get_one)
    let ?c = "cache(?a \<mapsto> (if view s ?a = [] then None else Some (view s ?a)))"
    have "loadGames ctx name (s, cache) = (Ret (Inr (games_at (view s ?a))), (s', ?c))"
      using None s'(1) des by (cases "view s ?a = []") (simp_all add: loadGames_def Let_def games_at_def)
    moreover have "coherent (view s) ?c" using assms(2) by (simp add: coherent_def)
    ultimately show thesis using that s'(2,3) by blast
  qed
qed

lemma GetGame_ok:
  assumes "ok s" "coherent (view s) cache" "store_wf P (view s)" "rd (makeAddress name)"
  obtains s' cache' where "GetGame ctx name (s, cache) = (Ret (Inr (xo_game (view s) name)), (s', cache'))"
    "ok s'" "view s' = view s" "coherent (view s) cache'"
proof -
  obtain s' cache' where *: "loadGames ctx name (s, cache) = (Ret (Inr (games_at (view s (makeAddress name)))), (s', cache'))"
    "ok s'" "view s' = view s" "coherent (view s) cache'"
    by (rule loadGames_ok [OF assms])
  then have "GetGame ctx name (s, cache) = (Ret (Inr (xo_game (view s) name)), (s', cache'))"
    by (simp add: GetGame_def xo_game_def)
  from this *(2-4) show thesis by (rule that)
qed

text \<open>Writing a nonempty map of games at the address of a name.\<close>

lemma storeGames_ok:
  assumes "ok s" "store_wf P (view s)" "wr a" "a = makeAddress name" "games_ok P a games" "games \<noteq> []"
    and "map_of games = (map_of (games_at (view s a)))(name := v)"
  shows "\<exists>s' cache'. storeGames ctx name games (s, cache) = (Ret None, (s', cache')) \<and> ok s' \<and>
    store_wf P (view s') \<and> xo_game (view s') = (xo_game (view s))(name := v)"
proof -
  let ?d = "serialize (map (\<lambda>n. the (map_of games n)) (sort (map fst games)))"
  from assms(5,6) obtain games' where g: "deserialize ?d = Inr games'" "games_ok P a games'"
    "map_of games' = map_of games" "?d \<noteq> []" by (rule stored_games)
  from assms(1,3) obtain s' where s': "x_SetState ctx [(a, ?d)] s = (Ret (Inr [a]), s')" "ok s'"
    "view s' = (view s)(a := ?d)" by (rule set_one)
  have "storeGames ctx name games (s, cache) = (Ret None, (s', cache(a \<mapsto> Some ?d)))"
    using s'(1) assms(4) by (simp add: storeGames_def Let_def)
  moreover have "store_wf P (view s')"
    unfolding s'(3) using assms(2) g(1,2) by (intro store_wf_upd) auto
  moreover have "games_at ?d = games'" using g(1,4) by (simp add: games_at_def)
  then have "xo_game (view s') = (xo_game (view s))(name := v)"
    unfolding s'(3) using assms(2,4,7) g(3) by (intro xo_game_upd) auto
  ultimately show ?thesis using s'(2) by blast
qed

lemma SetGame_ok:
  assumes "ok s" "coherent (view s) cache" "store_wf P (view s)" "rd (makeAddress name)" "wr (makeAddress name)"
    and "plain_game g" "P g" "g_Name g = name"
  shows "\<exists>s' cache'. SetGame ctx name g (s, cache) = (Ret None, (s', cache')) \<and> ok s' \<and>
    store_wf P (view s') \<and> xo_game (view s') = (xo_game (view s))(name \<mapsto> g)"
proof -
  let ?a = "makeAddress name" and ?games = "games_at (view s (makeAddress name))"
  obtain s1 cache1 where 1: "loadGames ctx name (s, cache) = (Ret (Inr ?games), (s1, cache1))"
    "ok s1" "view s1 = view s" "coherent (view s) cache1" by (rule loadGames_ok [OF assms(1-4)])
  have "games_ok P ?a (AList.update name g ?games)"
    using store_wf_games_ok [OF assms(3)] assms(6-8) by (intro games_ok_update) auto
  moreover have "AList.update name g ?games \<noteq> []" by (cases ?games) auto
  ultimately have "\<exists>s' cache'. storeGames ctx name (AList.update name g ?games) (s1, cache1) = (Ret None, (s', cache')) \<and>
    ok s' \<and> store_wf P (view s') \<and> xo_game (view s') = (xo_game (view s1))(name := Some g)"
    using 1(2,3) assms(3,5) by (intro storeGames_ok) (auto simp: update_conv')
  with 1(1,3) show ?thesis by (auto simp: SetGame_def)
qed

lemma DeleteGame_ok:
  assumes "ok s" "coherent (view s) cache" "store_wf P (view s)" "rd (makeAddress name)" "wr (makeAddress name)"
  shows "\<exists>s' cache'. DeleteGame ctx name (s, cache) = (Ret None, (s', cache')) \<and> ok s' \<and>
    store_wf P (view s') \<and> xo_game (view s') = (xo_game (view s))(name := None)"
proof -
  let ?a = "makeAddress name" and ?games = "games_at (view s (makeAddress name))"
  obtain s1 cache1 where 1: "loadGames ctx name (s, cache) = (Ret (Inr ?games), (s1, cache1))"
    "ok s1" "view s1 = view s" "coherent (view s) cache1" by (rule loadGames_ok [OF assms(1-4)])
  have del: "map_of (AList.delete name ?games) = (map_of ?games)(name := None)"
    by (rule delete_conv')
  show ?thesis
  proof (cases "AList.delete name ?games = []")
    case False
    have "\<exists>s' cache'. storeGames ctx name (AList.delete name ?games) (s1, cache1) = (Ret None, (s', cache')) \<and>
      ok s' \<and> store_wf P (view s') \<and> xo_game (view s') = (xo_game (view s1))(name := None)"
    proof (rule storeGames_ok [OF 1(2) _ assms(5) refl _ False])
      show "store_wf P (view s1)" using assms(3) 1(3) by simp
      show "games_ok P ?a (AList.delete name ?games)"
        by (rule games_ok_delete [OF store_wf_games_ok [OF assms(3)]])
      show "map_of (AList.delete name ?games) = (map_of (games_at (view s1 ?a)))(name := None)"
        unfolding 1(3) by (rule del)
    qed
    with 1(1,3) False show ?thesis by (auto simp: DeleteGame_def)
  next
    case True
    from 1(2) assms(5) obtain s2 r where 2: "x_DeleteState ctx [?a] s1 = (Ret (Inr r), s2)" "ok s2"
      "view s2 = (view s1)(?a := [])" by (rule del_one)
    have "store_wf P (view s2)" unfolding 2(3) 1(3) using assms(3) by (intro store_wf_upd) auto
    moreover have "xo_game (view s2) = (xo_game (view s))(name := None)"
      unfolding 2(3) 1(3)
    proof (rule xo_game_upd [OF assms(3) refl])
      have "map_of (AList.delete name ?games) = Map.empty" by (simp add: True)
      with del show "map_of (games_at []) = (map_of ?games)(name := None)"
        by (simp add: games_at_Nil)
    qed
    ultimately show ?thesis using 1(1) 2(1,2) True by (simp add: DeleteGame_def deleteGames_def)
  qed
qed

end

end
