(* ===== verification/Xo.thy ===== *)
theory Xo
  imports Xo_State "HOL-Library.Signed_Division"
begin

text \<open>
  examples/xo_go/src/sawtooth_xo/handler/handler.go: the tic-tac-toe transaction family.  The
  handler validates against the store of games, applies the rules and prints the game; an index
  out of range and a negative count of strings.Repeat are panics.  The pure part of taking a
  space is \<open>xo_take\<close>; a board is a sequence of bytes, which for the ASCII boards the family
  stores is the same as the sequence of runes the handler updates.
\<close>

section \<open>Rules and display\<close>

definition Xo_FamilyName :: string where
  "Xo_FamilyName = ''xo''"

definition Xo_FamilyVersions :: "string list" where
  "Xo_FamilyVersions = [''1.0'']"

definition Xo_Namespaces :: "string list" where
  "Xo_Namespaces = [xo_Namespace]"

definition wins :: "(int \<times> int \<times> int) list" where
  "wins = [(1, 2, 3), (4, 5, 6), (7, 8, 9), (1, 4, 7), (2, 5, 8), (3, 6, 9), (1, 5, 9), (3, 5, 7)]"

text \<open>One line of the board, compared left to right with short circuit; None is a panic.\<close>

definition line_is :: "string \<Rightarrow> char \<Rightarrow> int \<times> int \<times> int \<Rightarrow> bool option" where
  "line_is board letter win = (case win of (i, j, k) \<Rightarrow>
    (case index_at board (i - 1) of
       None \<Rightarrow> None
     | Some a \<Rightarrow> if a \<noteq> letter then Some False else
        (case index_at board (j - 1) of
           None \<Rightarrow> None
         | Some b \<Rightarrow> if b \<noteq> letter then Some False else
            (case index_at board (k - 1) of
               None \<Rightarrow> None
             | Some c \<Rightarrow> Some (c = letter)))))"

fun isWin_loop :: "string \<Rightarrow> char \<Rightarrow> (int \<times> int \<times> int) list \<Rightarrow> bool option" where
  "isWin_loop board letter [] = Some False"
| "isWin_loop board letter (win # ws) =
    (case line_is board letter win of
       None \<Rightarrow> None
     | Some True \<Rightarrow> Some True
     | Some False \<Rightarrow> isWin_loop board letter ws)"

definition isWin :: "string \<Rightarrow> char \<Rightarrow> bool option" where
  "isWin board letter = isWin_loop board letter wins"

text \<open>strings.Repeat panics on a negative count.\<close>

definition Repeat :: "char \<Rightarrow> int \<Rightarrow> string option" where
  "Repeat c n = (if n < 0 then None else Some (replicate (nat n) c))"

definition blankify :: "char \<Rightarrow> char" where
  "blankify c = (if c = CHR ''-'' then CHR '' '' else c)"

definition center :: "string \<Rightarrow> int \<Rightarrow> string option" where
  "center text width =
    (let l = int (length text); space = width - l - 2 in
     if space smod 2 = 0 then
       (case (Repeat CHR '' '' (space sdiv 2), Repeat CHR '' '' (space sdiv 2)) of
          (Some s1, Some s2) \<Rightarrow> Some (''+'' @ s1 @ text @ s2 @ ''+'')
        | _ \<Rightarrow> None)
     else
       (case (Repeat CHR '' '' (space sdiv 2), Repeat CHR '' '' (space sdiv 2 + 1)) of
          (Some s1, Some s2) \<Rightarrow> Some (''+'' @ s1 @ text @ s2 @ ''+'')
        | _ \<Rightarrow> None))"

definition sliceIfLongEnough :: "string \<Rightarrow> nat \<Rightarrow> string" where
  "sliceIfLongEnough text num =
    (if length text > num then take num text
     else if length text > 0 then take (length text - 1) text
     else text)"

text \<open>The printed lines, or None when the function panics.\<close>

definition displayCreate :: "XoPayload \<Rightarrow> string \<Rightarrow> string list option" where
  "displayCreate payload signer =
    (case slice_to signer 6 of
       None \<Rightarrow> None
     | Some sg \<Rightarrow>
        (let s = ''+ Player '' @ sg @ '' created game '' @ xp_Name payload @ '' +'';
             sLength = int (length s)
         in case Repeat CHR ''-'' (sLength - 2) of
              None \<Rightarrow> None
            | Some dashes \<Rightarrow> Some [''+'' @ dashes @ ''+'', s, ''+'' @ dashes @ ''+'']))"

definition xo_row :: "string \<Rightarrow> string \<Rightarrow> int \<Rightarrow> string option" where
  "xo_row space board i =
    (case (index_at board i, index_at board (i + 1), index_at board (i + 2)) of
       (Some a, Some b, Some c) \<Rightarrow> Some (''+'' @ space @ '' '' @ [blankify a] @ '' | '' @ [blankify b]
          @ '' | '' @ [blankify c] @ '' '' @ space @ ''+'')
     | _ \<Rightarrow> None)"

definition displayTake :: "XoPayload \<Rightarrow> string \<Rightarrow> Game \<Rightarrow> string list option" where
  "displayTake payload signer game =
    (case slice_to signer 6 of
       None \<Rightarrow> None
     | Some sg \<Rightarrow>
        (let s = ''+ Player '' @ sg @ '' takes space '' @ Itoa (xp_Space payload) @ '' +'';
             sLength = int (length s)
         in case (Repeat CHR ''-'' (sLength - 2), Repeat CHR '' '' (sLength - 2),
                  center (''Game: '' @ g_Name game) sLength,
                  center (''State: '' @ g_State game) sLength,
                  center (''Player1: '' @ sliceIfLongEnough (g_Player1 game) 6) sLength,
                  center (''Player2: '' @ sliceIfLongEnough (g_Player2 game) 6) sLength,
                  Repeat CHR '' '' ((sLength - 2 - 11) sdiv 2)) of
              (Some dashes, Some blanks, Some g, Some state, Some p1, Some p2, Some space) \<Rightarrow>
               (case (xo_row space (g_Board game) 0, xo_row space (g_Board game) 3, xo_row space (g_Board game) 6) of
                  (Some r1, Some r2, Some r3) \<Rightarrow>
                   (let border = ''+'' @ dashes @ ''+''; ln = ''+'' @ space @ ''---|---|---'' @ space @ ''+''
                    in Some [border, s, ''+'' @ blanks @ ''+'', g, state, p1, p2, r1, ln, r2, ln, r3, border])
                | _ \<Rightarrow> None)
            | _ \<Rightarrow> None))"

text \<open>
  Which panic it is: the key of the signer is sliced first, and a slice beyond its end panics; what
  else can fail on a board of nine is a text too long to be centered.
\<close>

definition display_panic :: "string \<Rightarrow> string" where
  "display_panic signer = (if length signer < 6 then ''slice bounds out of range'' else ''strings: negative Repeat count'')"

section \<open>The handler\<close>

definition validateCreate :: "'s Context_methods \<Rightarrow> string \<Rightarrow> ('s \<times> xo_cache, go_error option) proc" where
  "validateCreate context name =
    bindP (GetGame context name) (\<lambda>r.
      case r of
        Inl err \<Rightarrow> retP (Some err)
      | Inr (Some game) \<Rightarrow> retP (Some (InvalidTransactionError ''Game already exists'' []))
      | Inr None \<Rightarrow> retP None)"

definition validateDelete :: "'s Context_methods \<Rightarrow> string \<Rightarrow> ('s \<times> xo_cache, go_error option) proc" where
  "validateDelete context name =
    bindP (GetGame context name) (\<lambda>r.
      case r of
        Inl err \<Rightarrow> retP (Some err)
      | Inr None \<Rightarrow> retP (Some (InvalidTransactionError ''Delete requires an existing game'' []))
      | Inr (Some game) \<Rightarrow> retP None)"

definition validateTake :: "'s Context_methods \<Rightarrow> XoPayload \<Rightarrow> string \<Rightarrow> ('s \<times> xo_cache, go_error option) proc" where
  "validateTake context payload signer =
    bindP (GetGame context (xp_Name payload)) (\<lambda>r.
      case r of
        Inl err \<Rightarrow> retP (Some err)
      | Inr None \<Rightarrow> retP (Some (InvalidTransactionError ''Take requires an existing game'' []))
      | Inr (Some game) \<Rightarrow>
         if g_State game = ''P1-WIN'' \<or> g_State game = ''P2-WIN'' \<or> g_State game = ''TIE''
         then retP (Some (InvalidTransactionError ''Game has ended'' []))
         else
           (case index_at (g_Board game) (xp_Space payload - 1) of
              None \<Rightarrow> panicP ''index out of range''
            | Some c \<Rightarrow>
               if c \<noteq> CHR ''-'' then retP (Some (InvalidTransactionError ''Space already taken'' []))
               else retP None))"

text \<open>The assignment of players, the move and the new state: lines 97 to 125.\<close>

definition assign_player :: "string \<Rightarrow> Game \<Rightarrow> Game" where
  "assign_player player game =
    (if g_Player1 game = [] then game\<lparr>g_Player1 := player\<rparr>
     else if g_Player2 game = [] then game\<lparr>g_Player2 := player\<rparr>
     else game)"

text \<open>
  The source goes through the runes of the board; the boards that the handler stores have ASCII
  characters only, one byte to a rune.
\<close>

definition place :: "string \<Rightarrow> int \<Rightarrow> char \<Rightarrow> string option" where
  "place board i c = (if 0 \<le> i \<and> i < int (length board) then Some (board[nat i := c]) else None)"

definition finish :: "Game \<Rightarrow> Game option" where
  "finish game =
    (case isWin (g_Board game) CHR ''X'' of
       None \<Rightarrow> None
     | Some True \<Rightarrow> Some (game\<lparr>g_State := ''P1-WIN''\<rparr>)
     | Some False \<Rightarrow>
        (case isWin (g_Board game) CHR ''O'' of
           None \<Rightarrow> None
         | Some True \<Rightarrow> Some (game\<lparr>g_State := ''P2-WIN''\<rparr>)
         | Some False \<Rightarrow> Some (if \<not> str_contains (g_Board game) CHR ''-'' then game\<lparr>g_State := ''TIE''\<rparr> else game)))"

definition xo_take :: "string \<Rightarrow> int \<Rightarrow> Game \<Rightarrow> (go_error + Game) outcome" where
  "xo_take player space game0 =
    (let game = assign_player player game0;
         move = (\<lambda>c next. case place (g_Board game) (space - 1) c of
            None \<Rightarrow> Panic ''index out of range''
          | Some board \<Rightarrow> (case finish (game\<lparr>g_Board := board, g_State := next\<rparr>) of
              None \<Rightarrow> Panic ''index out of range''
            | Some game' \<Rightarrow> Ret (Inr game')))
     in if g_State game = ''P1-NEXT'' \<and> player = g_Player1 game then move CHR ''X'' ''P2-NEXT''
        else if g_State game = ''P2-NEXT'' \<and> player = g_Player2 game then move CHR ''O'' ''P1-NEXT''
        else Ret (Inl (InvalidTransactionError (''Not this player'' @ [CHR 0x27] @ ''s turn: ''
          @ [CHR 0x27] @ player @ [CHR 0x27]) [])))"

text \<open>The three cases of the switch on the action.  The text of a panic is only a label.\<close>

definition xo_create :: "'s Context_methods \<Rightarrow> XoPayload \<Rightarrow> string \<Rightarrow> ('s \<times> xo_cache, go_error option) proc" where
  "xo_create context payload player =
    bindP (validateCreate context (xp_Name payload)) (\<lambda>err.
      case err of
        Some e \<Rightarrow> retP (Some e)
      | None \<Rightarrow>
         (let game = \<lparr>g_Board = ''---------'', g_State = ''P1-NEXT'', g_Player1 = [], g_Player2 = [],
                      g_Name = xp_Name payload\<rparr>
          in case displayCreate payload player of
               None \<Rightarrow> panicP ''slice bounds out of range''
             | Some _ \<Rightarrow> SetGame context (xp_Name payload) game))"

definition xo_delete :: "'s Context_methods \<Rightarrow> XoPayload \<Rightarrow> ('s \<times> xo_cache, go_error option) proc" where
  "xo_delete context payload =
    bindP (validateDelete context (xp_Name payload)) (\<lambda>err.
      case err of
        Some e \<Rightarrow> retP (Some e)
      | None \<Rightarrow> DeleteGame context (xp_Name payload))"

definition xo_take_game :: "'s Context_methods \<Rightarrow> XoPayload \<Rightarrow> string \<Rightarrow> Game \<Rightarrow> ('s \<times> xo_cache, go_error option) proc" where
  "xo_take_game context payload player game =
    (case xo_take player (xp_Space payload) game of
       Panic e \<Rightarrow> panicP e
     | Block \<Rightarrow> panicP []
     | Ret (Inl e) \<Rightarrow> retP (Some e)
     | Ret (Inr game') \<Rightarrow>
        (case displayTake payload player game' of
           None \<Rightarrow> panicP (display_panic player)
         | Some _ \<Rightarrow> SetGame context (xp_Name payload) game'))"

definition xo_take_space :: "'s Context_methods \<Rightarrow> XoPayload \<Rightarrow> string \<Rightarrow> ('s \<times> xo_cache, go_error option) proc" where
  "xo_take_space context payload player =
    bindP (validateTake context payload player) (\<lambda>err.
      case err of
        Some e \<Rightarrow> retP (Some e)
      | None \<Rightarrow>
         bindP (GetGame context (xp_Name payload)) (\<lambda>r.
           case r of
             Inl e \<Rightarrow> retP (Some e)
           | Inr None \<Rightarrow> panicP ''nil pointer dereference''
           | Inr (Some game) \<Rightarrow> xo_take_game context payload player game))"

definition xo_run :: "'s Context_methods \<Rightarrow> XoPayload \<Rightarrow> string \<Rightarrow> ('s \<times> xo_cache, go_error option) proc" where
  "xo_run context payload player =
    (if xp_Action payload = ''create'' then xo_create context payload player
     else if xp_Action payload = ''delete'' then xo_delete context payload
     else if xp_Action payload = ''take'' then xo_take_space context payload player
     else retP (Some (InvalidTransactionError
       (''Invalid Action : '' @ [CHR 0x27] @ xp_Action payload @ [CHR 0x27]) [])))"

definition Xo_Apply :: "TpProcessRequest \<Rightarrow> 's Context_methods \<Rightarrow> ('s, go_error option) proc" where
  "Xo_Apply request context s =
    (let player = GetSignerPublicKey (TpProcessRequest_Header request) in
     case FromBytes (TpProcessRequest_Payload request) of
       Inl err \<Rightarrow> (Ret (Some err), s)
     | Inr payload \<Rightarrow>
        (case xo_run context payload player (s, NewXoState) of (r, (s', _)) \<Rightarrow> (r, s')))"

section \<open>The contract of a family\<close>

lemma tx_read_on_context: "tx_read ok view m \<Longrightarrow> tx_read (ok \<circ> fst) (view \<circ> fst) (on_context m)"
  by (fastforce simp: tx_read_def)

lemma tx_safe_on_context:
  assumes "tx_safe ok view ns (bindP m (\<lambda>r. retP (h r)))"
  shows "tx_safe (ok \<circ> fst) (view \<circ> fst) ns (bindP (on_context m) (\<lambda>r. retP (h r)))"
  unfolding tx_safe_def
proof (intro allI impI)
  fix sc r sc' assume ok: "(ok \<circ> fst) sc" and r: "bindP (on_context m) (\<lambda>r. retP (h r)) sc = (r, sc')"
  obtain s cache where sc: "sc = (s, cache)" by (cases sc)
  have "bindP m (\<lambda>r. retP (h r)) s = (r, fst sc')"
    using r by (auto simp: sc bindP_def split: prod.splits outcome.splits)
  with assms ok sc show "(ok \<circ> fst) sc' \<and> (r \<noteq> Ret None \<longrightarrow> (view \<circ> fst) sc' = (view \<circ> fst) sc) \<and>
      (\<forall>a. \<not> prefix ns a \<longrightarrow> (view \<circ> fst) sc' a = (view \<circ> fst) sc a)"
    unfolding tx_safe_def by fastforce
qed

lemma tx_read_set_cache: "tx_read (ok \<circ> fst) (view \<circ> fst) (set_cache a d)"
  by (auto simp: tx_read_def)

lemma prefix_makeAddress: "prefix xo_Namespace (makeAddress name)"
  by (simp add: makeAddress_def)

context state_context
begin

lemma tx_read_loadGames: "tx_read (ok \<circ> fst) (view \<circ> fst) (loadGames ctx name)"
proof -
  let ?get = "bindP (on_context (x_GetState ctx [makeAddress name])) (\<lambda>r. case r of
            Inl err \<Rightarrow> retP (Inl err)
          | Inr results \<Rightarrow>
             (let data = (case results (makeAddress name) of None \<Rightarrow> [] | Some d \<Rightarrow> d) in
              if length data > 0
              then bindP (set_cache (makeAddress name) (Some data)) (\<lambda>_. retP (deserialize data))
              else bindP (set_cache (makeAddress name) None) (\<lambda>_. retP (Inr []))))"
  have "tx_read (ok \<circ> fst) (view \<circ> fst) ?get"
    by (intro tx_read_bind tx_read_on_context tx_read_get)
      (auto simp: Let_def intro!: tx_read_bind tx_read_set_cache tx_read_ret split: sum.split)
  then show ?thesis
    unfolding tx_read_def loadGames_def Let_def by (auto split: option.split)
qed

lemma tx_read_GetGame: "tx_read (ok \<circ> fst) (view \<circ> fst) (GetGame ctx name)"
  unfolding GetGame_def
  by (rule tx_read_bind [OF tx_read_loadGames]) (simp add: tx_read_ret split: sum.split)

lemma tx_safe_storeGames: "tx_safe (ok \<circ> fst) (view \<circ> fst) xo_Namespace (storeGames ctx name games)"
  unfolding storeGames_def Let_def
  by (intro tx_safe_bind [OF tx_read_set_cache] tx_safe_on_context tx_safe_set prefix_makeAddress)

lemma tx_safe_deleteGames: "tx_safe (ok \<circ> fst) (view \<circ> fst) xo_Namespace (deleteGames ctx name)"
  unfolding deleteGames_def Let_def
  by (intro tx_safe_on_context tx_safe_delete prefix_makeAddress)

lemma tx_safe_SetGame: "tx_safe (ok \<circ> fst) (view \<circ> fst) xo_Namespace (SetGame ctx name game)"
  unfolding SetGame_def
  by (rule tx_safe_bind [OF tx_read_loadGames]) (simp add: tx_safe_ret tx_safe_storeGames split: sum.split)

lemma tx_safe_DeleteGame: "tx_safe (ok \<circ> fst) (view \<circ> fst) xo_Namespace (DeleteGame ctx name)"
  unfolding DeleteGame_def Let_def
  by (rule tx_safe_bind [OF tx_read_loadGames])
    (simp add: tx_safe_ret tx_safe_storeGames tx_safe_deleteGames split: sum.split)

lemma tx_peek_validate:
  "tx_peek (ok \<circ> fst) (view \<circ> fst) (validateCreate ctx name)"
  "tx_peek (ok \<circ> fst) (view \<circ> fst) (validateDelete ctx name)"
  "tx_peek (ok \<circ> fst) (view \<circ> fst) (validateTake ctx payload player)"
  unfolding validateCreate_def validateDelete_def validateTake_def
  by (rule tx_peek_bind [OF tx_read_GetGame], simp add: tx_peek_ret tx_peek_panic split: option.split sum.split)+

lemma tx_safe_cases:
  "tx_safe (ok \<circ> fst) (view \<circ> fst) xo_Namespace (xo_create ctx payload player)"
  "tx_safe (ok \<circ> fst) (view \<circ> fst) xo_Namespace (xo_delete ctx payload)"
  "tx_safe (ok \<circ> fst) (view \<circ> fst) xo_Namespace (xo_take_game ctx payload player game)"
  unfolding xo_create_def xo_delete_def xo_take_game_def Let_def
  by (auto intro!: tx_safe_peek [OF tx_peek_validate(1)] tx_safe_peek [OF tx_peek_validate(2)]
      tx_safe_ret tx_safe_panic tx_safe_SetGame tx_safe_DeleteGame split: option.split sum.split outcome.split)

lemma tx_safe_take_space: "tx_safe (ok \<circ> fst) (view \<circ> fst) xo_Namespace (xo_take_space ctx payload player)"
  unfolding xo_take_space_def
  by (auto intro!: tx_safe_peek [OF tx_peek_validate(3)] tx_safe_bind [OF tx_read_GetGame]
      tx_safe_ret tx_safe_panic tx_safe_cases(3) split: option.split sum.split)

lemma tx_safe_xo_run: "tx_safe (ok \<circ> fst) (view \<circ> fst) xo_Namespace (xo_run ctx payload player)"
  by (simp add: xo_run_def tx_safe_cases tx_safe_take_space tx_safe_ret)

lemma Xo_tx_safe: "tx_safe ok view xo_Namespace (Xo_Apply q ctx)"
  unfolding tx_safe_def
proof (intro allI impI)
  fix s r s' assume ok: "ok s" and r: "Xo_Apply q ctx s = (r, s')"
  show "ok s' \<and> (r \<noteq> Ret None \<longrightarrow> view s' = view s) \<and> (\<forall>a. \<not> prefix xo_Namespace a \<longrightarrow> view s' a = view s a)"
  proof (cases "FromBytes (TpProcessRequest_Payload q)")
    case (Inl e)
    with ok r show ?thesis by (auto simp: Xo_Apply_def Let_def)
  next
    case (Inr p)
    with r obtain cache where "xo_run ctx p (GetSignerPublicKey (TpProcessRequest_Header q)) (s, NewXoState) = (r, (s', cache))"
      by (auto simp: Xo_Apply_def Let_def split: prod.splits)
    with tx_safe_xo_run [of p "GetSignerPublicKey (TpProcessRequest_Header q)"] ok show ?thesis
      unfolding tx_safe_def by fastforce
  qed
qed

end

interpretation xo: tp_family "tp_methods pb cid" "state_conn pb cid st rd wr react"
    "\<lambda>c. st (peer c)" rd wr "\<lambda>q. Xo_Apply q (tp_methods pb cid)" xo_Namespace
  for pb cid st rd wr react
  by (rule tp_family_tx_safe [OF tp.state_context_axioms tp.Xo_tx_safe])

section \<open>The rules of the game\<close>

text \<open>The board as the players see it: a line of three equal marks.\<close>

definition has_line :: "string \<Rightarrow> char \<Rightarrow> bool" where
  "has_line b c \<longleftrightarrow> (\<exists>(i, j, k) \<in> set wins. b ! nat (i - 1) = c \<and> b ! nat (j - 1) = c \<and> b ! nat (k - 1) = c)"

text \<open>
  What every stored game satisfies: nine cells, marks in turn, no move after a line or a full
  board, and a state that tells the outcome.
\<close>

definition xo_rules :: "Game \<Rightarrow> bool" where
  "xo_rules g \<longleftrightarrow> (let b = g_Board g; x = count_list b CHR ''X''; z = count_list b CHR ''O'' in
     length b = 9 \<and> set b \<subseteq> {CHR ''-'', CHR ''X'', CHR ''O''} \<and>
     (g_Player1 g = [] \<longrightarrow> x = 0) \<and> (g_Player2 g = [] \<longrightarrow> z = 0) \<and>
     (g_State g = ''P1-NEXT'' \<and> x = z \<and> \<not> has_line b CHR ''X'' \<and> \<not> has_line b CHR ''O'' \<and> CHR ''-'' \<in> set b \<or>
      g_State g = ''P2-NEXT'' \<and> x = Suc z \<and> \<not> has_line b CHR ''X'' \<and> \<not> has_line b CHR ''O'' \<and> CHR ''-'' \<in> set b \<or>
      g_State g = ''P1-WIN'' \<and> x = Suc z \<and> has_line b CHR ''X'' \<and> \<not> has_line b CHR ''O'' \<or>
      g_State g = ''P2-WIN'' \<and> x = z \<and> has_line b CHR ''O'' \<and> \<not> has_line b CHR ''X'' \<or>
      g_State g = ''TIE'' \<and> x = Suc z \<and> \<not> has_line b CHR ''X'' \<and> \<not> has_line b CHR ''O'' \<and> CHR ''-'' \<notin> set b))"

lemma line_is_total:
  assumes "length b = 9" "(i, j, k) \<in> set wins"
  shows "line_is b c (i, j, k) = Some (b ! nat (i - 1) = c \<and> b ! nat (j - 1) = c \<and> b ! nat (k - 1) = c)"
proof -
  have "{i, j, k} \<subseteq> {1..9}" using assms(2) by (auto simp: wins_def)
  with assms(1) show ?thesis by (auto simp: line_is_def index_at_def)
qed

lemma isWin_loop_total:
  assumes "length b = 9" "set ws \<subseteq> set wins"
  shows "isWin_loop b c ws = Some (\<exists>(i, j, k) \<in> set ws. b ! nat (i - 1) = c \<and> b ! nat (j - 1) = c \<and> b ! nat (k - 1) = c)"
  using assms(2)
proof (induction ws)
  case (Cons w ws)
  obtain i j k where w: "w = (i, j, k)" by (cases w)
  with Cons line_is_total [OF assms(1), of i j k c] show ?case by (auto split: bool.splits)
qed simp

lemma isWin_total: "length b = 9 \<Longrightarrow> isWin b c = Some (has_line b c)"
  by (simp add: isWin_def isWin_loop_total has_line_def)

lemma count_list_upd:
  assumes "i < length b" "b ! i = d" "d \<noteq> c"
  shows "count_list (b[i := c]) e = (if e = c then Suc (count_list b e) else if e = d then count_list b e - 1 else count_list b e)"
proof -
  have "b = take i b @ d # drop (Suc i) b" using assms(1,2) id_take_nth_drop by auto
  then have "count_list b e = count_list (take i b @ d # drop (Suc i) b) e" by (rule arg_cong)
  then have "count_list b e = count_list (take i b) e + (if e = d then 1 else 0) + count_list (drop (Suc i) b) e"
    by (simp split: if_splits)
  moreover have "count_list (b[i := c]) e = count_list (take i b) e + (if e = c then 1 else 0) + count_list (drop (Suc i) b) e"
    using assms(1) by (simp add: upd_conv_take_nth_drop)
  ultimately show ?thesis using assms(3) by auto
qed

text \<open>A new mark makes no line of another letter.\<close>

lemma has_line_upd:
  assumes "length b = 9" "i < 9" "has_line (b[i := c]) e" "e \<noteq> c"
  shows "has_line b e"
proof -
  from assms(3) obtain j k l where w: "(j, k, l) \<in> set wins"
    "(b[i := c]) ! nat (j - 1) = e" "(b[i := c]) ! nat (k - 1) = e" "(b[i := c]) ! nat (l - 1) = e"
    by (auto simp: has_line_def)
  have "(b[i := c]) ! n = e \<Longrightarrow> b ! n = e" for n
    using assms(1,2,4) by (cases "n = i") auto
  with w show ?thesis unfolding has_line_def by blast
qed

lemma full_board_parity:
  assumes "set b \<subseteq> {CHR ''-'', CHR ''X'', CHR ''O''}" "CHR ''-'' \<notin> set b"
  shows "count_list b CHR ''X'' + count_list b CHR ''O'' = length b"
  using assms by (induction b) auto

text \<open>The move, on the board: who may move, and what the new game is.\<close>

definition moves :: "string \<Rightarrow> Game \<Rightarrow> char option" where
  "moves player g =
    (let g' = assign_player player g in
     if g_State g = ''P1-NEXT'' \<and> player = g_Player1 g' then Some CHR ''X''
     else if g_State g = ''P2-NEXT'' \<and> player = g_Player2 g' then Some CHR ''O''
     else None)"

definition outcome_of :: "string \<Rightarrow> string \<Rightarrow> string" where
  "outcome_of b next =
    (if has_line b CHR ''X'' then ''P1-WIN'' else if has_line b CHR ''O'' then ''P2-WIN''
     else if CHR ''-'' \<notin> set b then ''TIE'' else next)"

lemma assign_player_simps [simp]:
  "g_Board (assign_player player g) = g_Board g" "g_State (assign_player player g) = g_State g"
  "g_Name (assign_player player g) = g_Name g"
  by (simp_all add: assign_player_def)

lemma finish_total:
  "length (g_Board g) = 9 \<Longrightarrow> finish g = Some (g\<lparr>g_State := outcome_of (g_Board g) (g_State g)\<rparr>)"
  by (cases g) (auto simp: finish_def isWin_total outcome_of_def str_contains_def split: bool.splits)

lemma xo_take_spec:
  assumes "length (g_Board g) = 9" "1 \<le> space" "space \<le> 9"
  shows "xo_take player space g = (case moves player g of
     None \<Rightarrow> Ret (Inl (InvalidTransactionError (''Not this player'' @ [CHR 0x27] @ ''s turn: '' @ [CHR 0x27] @ player @ [CHR 0x27]) []))
   | Some c \<Rightarrow> (let b = (g_Board g)[nat (space - 1) := c] in
       Ret (Inr ((assign_player player g)\<lparr>g_Board := b,
         g_State := outcome_of b (if c = CHR ''X'' then ''P2-NEXT'' else ''P1-NEXT'')\<rparr>))))"
  using assms by (auto simp: xo_take_def moves_def place_def finish_total Let_def)

text \<open>A legal move keeps the rules.\<close>

lemma xo_take_rules:
  assumes "xo_rules g" "g_State g = ''P1-NEXT'' \<or> g_State g = ''P2-NEXT''" "1 \<le> space" "space \<le> 9"
    and "g_Board g ! nat (space - 1) = CHR ''-''" "player \<noteq> []" "xo_take player space g = Ret (Inr g')"
  shows "xo_rules g'"
proof -
  let ?i = "nat (space - 1)" and ?b = "g_Board g"
  have len: "length ?b = 9" and cells: "set ?b \<subseteq> {CHR ''-'', CHR ''X'', CHR ''O''}"
    and nl: "\<not> has_line ?b CHR ''X''" "\<not> has_line ?b CHR ''O''"
    using assms(1,2) by (auto simp: xo_rules_def Let_def)
  have i: "?i < 9" using assms(3,4) by simp
  from assms(7) obtain c where c: "moves player g = Some c" and g': "g' = (assign_player player g)\<lparr>g_Board := ?b[?i := c],
         g_State := outcome_of (?b[?i := c]) (if c = CHR ''X'' then ''P2-NEXT'' else ''P1-NEXT'')\<rparr>"
    by (auto simp: xo_take_spec [OF len assms(3,4)] Let_def split: option.splits)
  let ?b' = "?b[?i := c]"
  have cnt: "count_list ?b' e = (if e = c then Suc (count_list ?b e) else count_list ?b e)"
    if "e \<noteq> CHR ''-''" "c \<noteq> CHR ''-''" for e
    using count_list_upd [of ?i ?b "CHR ''-''" c e] i len assms(5) that by auto
  have cells': "set ?b' \<subseteq> {CHR ''-'', CHR ''X'', CHR ''O''}" if "c \<in> {CHR ''X'', CHR ''O''}"
    using cells that set_update_subset_insert [of ?b ?i c] by auto
  have other: "\<not> has_line ?b' e" if "e \<in> {CHR ''X'', CHR ''O''}" "e \<noteq> c" for e
    using has_line_upd [OF len i, of c e] that nl by auto
  show ?thesis
  proof (cases "g_State g = ''P1-NEXT''")
    case True
    then have X: "c = CHR ''X''" and p1: "g_Player1 (assign_player player g) = player"
      using c by (auto simp: moves_def Let_def split: if_splits)
    have "count_list ?b CHR ''X'' = count_list ?b CHR ''O''" using assms(1) True by (auto simp: xo_rules_def Let_def)
    moreover have "g_Player2 (assign_player player g) = [] \<longrightarrow> count_list ?b CHR ''O'' = 0"
      using assms(1) by (auto simp: xo_rules_def Let_def assign_player_def)
    ultimately show ?thesis
      using X p1 assms(6) len cells' other [of "CHR ''O''"] cnt [of "CHR ''X''"] cnt [of "CHR ''O''"]
      by (simp add: g' xo_rules_def Let_def outcome_of_def)
  next
    case False
    then have O: "c = CHR ''O''" and p2: "g_Player2 (assign_player player g) = player"
      using c by (auto simp: moves_def Let_def split: if_splits)
    have eq: "count_list ?b CHR ''X'' = Suc (count_list ?b CHR ''O'')"
      using assms(1,2) False by (auto simp: xo_rules_def Let_def)
    moreover have p1: "g_Player1 (assign_player player g) \<noteq> []"
      using assms(1,6) eq by (auto simp: xo_rules_def Let_def assign_player_def)
    moreover have "CHR ''-'' \<in> set ?b'"
    proof (rule ccontr)
      assume "CHR ''-'' \<notin> set ?b'"
      from full_board_parity [OF cells' this] O len cnt [of "CHR ''X''"] cnt [of "CHR ''O''"] eq
      have "2 * Suc (count_list ?b CHR ''O'') = 9" by simp
      then show False by presburger
    qed
    ultimately show ?thesis
      using O p2 assms(6) len cells' other [of "CHR ''X''"] cnt [of "CHR ''X''"] cnt [of "CHR ''O''"]
      by (simp add: g' xo_rules_def Let_def outcome_of_def)
  qed
qed

lemma xo_take_frame:
  assumes "length (g_Board g) = 9" "1 \<le> space" "space \<le> 9" "xo_take player space g = Ret (Inr g')" "plain player" "plain_game g"
  shows "g_Name g' = g_Name g \<and> plain_game g'"
proof -
  from assms(4) obtain c where c: "moves player g = Some c" and g': "g' = (assign_player player g)\<lparr>g_Board := (g_Board g)[nat (space - 1) := c],
         g_State := outcome_of ((g_Board g)[nat (space - 1) := c]) (if c = CHR ''X'' then ''P2-NEXT'' else ''P1-NEXT'')\<rparr>"
    by (auto simp: xo_take_spec [OF assms(1-3)] Let_def split: option.splits)
  from c have "c \<in> {CHR ''X'', CHR ''O''}" by (auto simp: moves_def Let_def split: if_splits)
  then have "plain ((g_Board g)[nat (space - 1) := c])"
    using assms(6) set_update_subset_insert [of "g_Board g" "nat (space - 1)" c] by (auto simp: plain_def plain_game_def)
  then show ?thesis
    using assms(5,6) by (auto simp: g' plain_game_def assign_player_def plain_def outcome_of_def)
qed

section \<open>The abstract game store\<close>

definition xo_spec :: "XoPayload \<Rightarrow> string \<Rightarrow> (string \<rightharpoonup> Game) \<Rightarrow> (go_error + (string \<rightharpoonup> Game)) outcome" where
  "xo_spec p player M =
    (let name = xp_Name p; reject = (\<lambda>m. Ret (Inl (InvalidTransactionError m []))) in
     if xp_Action p = ''create'' then
       (if M name \<noteq> None then reject ''Game already exists''
        else if length player < 6 then Panic ''slice bounds out of range''
        else Ret (Inr (M(name \<mapsto> \<lparr>g_Board = ''---------'', g_State = ''P1-NEXT'', g_Player1 = [], g_Player2 = [], g_Name = name\<rparr>))))
     else if xp_Action p = ''delete'' then
       (if M name = None then reject ''Delete requires an existing game'' else Ret (Inr (M(name := None))))
     else if xp_Action p = ''take'' then
       (case M name of
          None \<Rightarrow> reject ''Take requires an existing game''
        | Some g \<Rightarrow>
           if g_State g \<in> {''P1-WIN'', ''P2-WIN'', ''TIE''} then reject ''Game has ended''
           else if xp_Space p < 1 \<or> xp_Space p > 9 then Panic ''index out of range''
           else if g_Board g ! nat (xp_Space p - 1) \<noteq> CHR ''-'' then reject ''Space already taken''
           else (case xo_take player (xp_Space p) g of
               Ret (Inr g') \<Rightarrow> if displayTake p player g' = None then Panic (display_panic player)
                               else Ret (Inr (M(name \<mapsto> g')))
             | Ret (Inl e) \<Rightarrow> Ret (Inl e)
             | Panic e \<Rightarrow> Panic e
             | Block \<Rightarrow> Panic []))
     else reject (''Invalid Action : '' @ [CHR 0x27] @ xp_Action p @ [CHR 0x27]))"

definition xo_granted :: "(string \<Rightarrow> bool) \<Rightarrow> (string \<Rightarrow> bool) \<Rightarrow> bool" where
  "xo_granted rd wr \<longleftrightarrow> (\<forall>name. rd (makeAddress name) \<and> wr (makeAddress name))"

lemma xo_rules_new: "xo_rules \<lparr>g_Board = ''---------'', g_State = ''P1-NEXT'', g_Player1 = [], g_Player2 = [], g_Name = n\<rparr>"
  by (simp add: xo_rules_def Let_def has_line_def wins_def)

lemma displayCreate_None: "displayCreate p player = None \<longleftrightarrow> length player < 6"
  by (auto simp: displayCreate_def slice_to_def Repeat_def Let_def)

lemma FromBytes_name:
  assumes "FromBytes d = Inr p"
  shows "plain (xp_Name p) \<and> xp_Name p \<noteq> []"
proof -
  from assms obtain x n as where x: "split_on CHR '','' x = n # as" and n: "n = xp_Name p" "CHR ''|'' \<notin> set n" "n \<noteq> []"
    by (auto simp: FromBytes_def Let_def str_contains_def split: option.splits list.splits if_splits)
  from x have "n \<in> set (split_on CHR '','' x)" by simp
  then have "CHR '','' \<notin> set n" by (rule split_on_parts)
  with n show ?thesis by (simp add: plain_def)
qed

lemma xo_rules_length: "xo_rules g \<Longrightarrow> length (g_Board g) = 9"
  by (simp add: xo_rules_def Let_def)

lemma xo_rules_state:
  "xo_rules g \<Longrightarrow> g_State g \<notin> {''P1-WIN'', ''P2-WIN'', ''TIE''} \<Longrightarrow> g_State g = ''P1-NEXT'' \<or> g_State g = ''P2-NEXT''"
  by (auto simp: xo_rules_def Let_def)

text \<open>The outcomes of the pair of context state and cache, as outcomes of the transaction.\<close>

abbreviation implements_xo ::
  "('s \<Rightarrow> bool) \<Rightarrow> ('s \<Rightarrow> string \<Rightarrow> bytes) \<Rightarrow> ('s \<times> xo_cache, go_error option) proc \<Rightarrow> 's \<times> xo_cache \<Rightarrow>
   (go_error + (string \<rightharpoonup> Game)) outcome \<Rightarrow> bool" where
  "implements_xo ok view \<equiv> implements (ok \<circ> fst) (view \<circ> fst) (store_wf xo_rules) xo_game"

context state_context
begin

lemma GetGame_then:
  assumes "ok s" "coherent (view s) cache" "store_wf xo_rules (view s)" "xo_granted rd wr"
    and "\<And>s1 cache1. ok s1 \<Longrightarrow> view s1 = view s \<Longrightarrow> coherent (view s1) cache1 \<Longrightarrow>
      implements_xo ok view (f (Inr (xo_game (view s) name))) (s1, cache1) R"
  shows "implements_xo ok view (bindP (GetGame ctx name) f) (s, cache) R"
proof -
  have "rd (makeAddress name)" using assms(4) by (simp add: xo_granted_def)
  with assms(1-3) obtain s1 cache1 where 1: "GetGame ctx name (s, cache) = (Ret (Inr (xo_game (view s) name)), (s1, cache1))"
    "ok s1" "view s1 = view s" "coherent (view s) cache1" by (rule GetGame_ok)
  with assms(5) [of s1 cache1] show ?thesis
    by (auto simp: implements_def split: outcome.splits sum.splits)
qed

lemma xo_stop:
  "ok s \<Longrightarrow> implements_xo ok view (retP (Some e)) (s, cache) (Ret (Inl e))"
  "ok s \<Longrightarrow> implements_xo ok view (panicP m) (s, cache) (Panic m)"
  by (simp_all add: implements_def)

lemma SetGame_implements:
  assumes "ok s" "view s = f" "coherent (view s) cache" "store_wf xo_rules f" "xo_granted rd wr"
    and "plain_game g" "xo_rules g" "g_Name g = name"
  shows "implements_xo ok view (SetGame ctx name g) (s, cache) (Ret (Inr ((xo_game f)(name \<mapsto> g))))"
proof -
  have "rd (makeAddress name)" "wr (makeAddress name)" using assms(5) by (simp_all add: xo_granted_def)
  with assms SetGame_ok [of s cache xo_rules name g] show ?thesis by (auto simp: implements_def)
qed

lemma DeleteGame_implements:
  assumes "ok s" "view s = f" "coherent (view s) cache" "store_wf xo_rules f" "xo_granted rd wr"
  shows "implements_xo ok view (DeleteGame ctx name) (s, cache) (Ret (Inr ((xo_game f)(name := None))))"
proof -
  have "rd (makeAddress name)" "wr (makeAddress name)" using assms(5) by (simp_all add: xo_granted_def)
  with assms DeleteGame_ok [of s cache xo_rules name] show ?thesis by (auto simp: implements_def)
qed

lemma xo_create_implements:
  assumes "ok s" "coherent (view s) cache" "store_wf xo_rules (view s)" "xo_granted rd wr"
    and "plain (xp_Name p)" "xp_Action p = ''create''"
  shows "implements_xo ok view (xo_create ctx p player) (s, cache) (xo_spec p player (xo_game (view s)))"
proof -
  have plain: "plain_game \<lparr>g_Board = ''---------'', g_State = ''P1-NEXT'', g_Player1 = [], g_Player2 = [], g_Name = xp_Name p\<rparr>"
    using assms(5) by (simp add: plain_game_def plain_def)
  show ?thesis
    unfolding xo_create_def validateCreate_def bindP_assoc
  proof (rule GetGame_then [OF assms(1-4)], goal_cases)
    case (1 s1 cache1)
    show ?case
    proof (cases "xo_game (view s) (xp_Name p) \<noteq> None \<or> displayCreate p player = None")
      case True
      then show ?thesis using 1(1,2) assms(6) displayCreate_None [of p player]
        by (auto simp: xo_spec_def Let_def implements_def)
    next
      case False
      then show ?thesis
        using SetGame_implements [OF 1 assms(3,4) plain xo_rules_new] assms(6) displayCreate_None [of p player]
        by (auto simp: xo_spec_def Let_def)
    qed
  qed
qed

lemma xo_delete_implements:
  assumes "ok s" "coherent (view s) cache" "store_wf xo_rules (view s)" "xo_granted rd wr" "xp_Action p = ''delete''"
  shows "implements_xo ok view (xo_delete ctx p) (s, cache) (xo_spec p player (xo_game (view s)))"
  unfolding xo_delete_def validateDelete_def bindP_assoc
proof (rule GetGame_then [OF assms(1-4)], goal_cases)
  case (1 s1 cache1)
  then show ?case
    using DeleteGame_implements [OF 1 assms(3,4)] assms(5)
    by (cases "xo_game (view s) (xp_Name p)") (auto simp: xo_spec_def implements_def)
qed

lemma xo_take_game_implements:
  assumes "ok s" "view s = f" "coherent (view s) cache" "store_wf xo_rules f" "xo_granted rd wr"
    and "xo_game f (xp_Name p) = Some g" "g_State g \<notin> {''P1-WIN'', ''P2-WIN'', ''TIE''}"
    and "1 \<le> xp_Space p" "xp_Space p \<le> 9" "g_Board g ! nat (xp_Space p - 1) = CHR ''-''"
    and "plain player" "player \<noteq> []" "xp_Action p = ''take''"
  shows "implements_xo ok view (xo_take_game ctx p player g) (s, cache) (xo_spec p player (xo_game f))"
proof -
  from store_wf_game [OF assms(4,6)] have g: "g_Name g = xp_Name p" "plain_game g" "xo_rules g" by auto
  note len = xo_rules_length [OF g(3)]
  have spec: "xo_spec p player (xo_game f) = (case xo_take player (xp_Space p) g of
               Ret (Inr g') \<Rightarrow> if displayTake p player g' = None then Panic (display_panic player)
                               else Ret (Inr ((xo_game f)(xp_Name p \<mapsto> g')))
             | Ret (Inl e) \<Rightarrow> Ret (Inl e)
             | Panic e \<Rightarrow> Panic e
             | Block \<Rightarrow> Panic [])"
    using assms by (simp add: xo_spec_def Let_def)
  show ?thesis
  proof (cases "\<exists>g'. xo_take player (xp_Space p) g = Ret (Inr g') \<and> displayTake p player g' \<noteq> None")
    case False
    then show ?thesis
      unfolding spec xo_take_game_def using assms(1)
      by (auto simp: implements_def split: outcome.splits sum.splits option.splits)
  next
    case True
    then obtain g' where g': "xo_take player (xp_Space p) g = Ret (Inr g')" "displayTake p player g' \<noteq> None" by blast
    have "xo_rules g'"
      using xo_take_rules [OF g(3) xo_rules_state [OF g(3) assms(7)] assms(8-10,12) g'(1)] .
    moreover have "g_Name g' = xp_Name p" "plain_game g'"
      using xo_take_frame [OF len assms(8,9) g'(1) assms(11) g(2)] g(1) by auto
    ultimately have "implements_xo ok view (SetGame ctx (xp_Name p) g') (s, cache) (Ret (Inr ((xo_game f)(xp_Name p \<mapsto> g'))))"
      by (intro SetGame_implements [OF assms(1-5)]) auto
    with g' show ?thesis unfolding spec xo_take_game_def by auto
  qed
qed

lemma xo_take_space_implements:
  assumes "ok s" "coherent (view s) cache" "store_wf xo_rules (view s)" "xo_granted rd wr"
    and "plain player" "player \<noteq> []" "xp_Action p = ''take''"
  shows "implements_xo ok view (xo_take_space ctx p player) (s, cache) (xo_spec p player (xo_game (view s)))"
  unfolding xo_take_space_def validateTake_def bindP_assoc
proof (rule GetGame_then [OF assms(1-4)], goal_cases)
  case (1 s1 cache1)
  show ?case
  proof (cases "xo_game (view s) (xp_Name p)")
    case None
    with 1(1,2) assms(7) show ?thesis by (auto simp: xo_spec_def Let_def implements_def)
  next
    case (Some g)
    from store_wf_game [OF assms(3) Some] have len: "length (g_Board g) = 9" by (auto dest: xo_rules_length)
    show ?thesis
    proof (cases "g_State g \<notin> {''P1-WIN'', ''P2-WIN'', ''TIE''} \<and> 1 \<le> xp_Space p \<and> xp_Space p \<le> 9 \<and>
        g_Board g ! nat (xp_Space p - 1) = CHR ''-''")
      case False
      with 1(1,2) Some assms(7) len show ?thesis
        by (auto simp: xo_spec_def Let_def implements_def index_at_def)
    next
      case True
      have wf1: "store_wf xo_rules (view s1)" using assms(3) 1(2) by simp
      have "implements_xo ok view (bindP (GetGame ctx (xp_Name p)) (\<lambda>r. case r of
             Inl e \<Rightarrow> retP (Some e)
           | Inr None \<Rightarrow> panicP ''nil pointer dereference''
           | Inr (Some game) \<Rightarrow> xo_take_game ctx p player game)) (s1, cache1) (xo_spec p player (xo_game (view s)))"
      proof (rule GetGame_then [OF 1(1,3) wf1 assms(4)], goal_cases)
        case (1 s2 cache2)
        with True Some \<open>view s1 = view s\<close> show ?case
          using xo_take_game_implements [OF 1(1) _ 1(3) assms(3,4) Some] assms(5-7) by simp
      qed
      with True Some len show ?thesis by (simp add: index_at_def)
    qed
  qed
qed

lemma xo_run_implements:
  assumes "ok s" "store_wf xo_rules (view s)" "xo_granted rd wr" "plain player" "player \<noteq> []" "plain (xp_Name p)"
  shows "implements_xo ok view (xo_run ctx p player) (s, NewXoState) (xo_spec p player (xo_game (view s)))"
proof -
  have "implements_xo ok view (retP (Some (InvalidTransactionError m []))) (s, NewXoState)
      (Ret (Inl (InvalidTransactionError m [])))" for m
    using assms(1) by (simp add: implements_def)
  moreover have "xo_spec p player M = Ret (Inl (InvalidTransactionError (''Invalid Action : '' @ [CHR 0x27] @ xp_Action p @ [CHR 0x27]) []))"
    if "xp_Action p \<notin> {''create'', ''delete'', ''take''}" for M
    using that by (simp add: xo_spec_def Let_def)
  ultimately show ?thesis
    using xo_create_implements [OF assms(1) coherent_new assms(2,3,6)] xo_delete_implements [OF assms(1) coherent_new assms(2,3)]
      xo_take_space_implements [OF assms(1) coherent_new assms(2-5)]
    unfolding xo_run_def by (cases "xp_Action p \<in> {''create'', ''delete'', ''take''}") auto
qed

lemma Xo_Apply_implements:
  assumes "ok s" "store_wf xo_rules (view s)" "xo_granted rd wr"
    and "plain (GetSignerPublicKey (TpProcessRequest_Header q))" "GetSignerPublicKey (TpProcessRequest_Header q) \<noteq> []"
    and "FromBytes (TpProcessRequest_Payload q) = Inr p"
  shows "implements ok view (store_wf xo_rules) xo_game (Xo_Apply q ctx) s
    (xo_spec p (GetSignerPublicKey (TpProcessRequest_Header q)) (xo_game (view s)))"
  using xo_run_implements [OF assms(1-5), of p] FromBytes_name [OF assms(6)] assms(6)
  by (auto simp: implements_def Xo_Apply_def Let_def split: outcome.splits sum.splits)

lemma Xo_Apply_wf:
  assumes "ok s" "store_wf xo_rules (view s)" "xo_granted rd wr"
    and "plain (GetSignerPublicKey (TpProcessRequest_Header q))" "GetSignerPublicKey (TpProcessRequest_Header q) \<noteq> []"
    and "Xo_Apply q ctx s = (r, s')"
  shows "ok s' \<and> store_wf xo_rules (view s')"
proof (cases "FromBytes (TpProcessRequest_Payload q)")
  case (Inl e)
  with assms show ?thesis by (auto simp: Xo_Apply_def Let_def)
next
  case (Inr p)
  show ?thesis by (rule implements_wf [OF Xo_Apply_implements [OF assms(1-5) Inr] assms(2,6)])
qed

end

section \<open>Long names\<close>

lemma Itoa_digit: "1 \<le> n \<Longrightarrow> n \<le> 9 \<Longrightarrow> length (Itoa n) = 1"
  by (simp add: Itoa_def nat_digits.simps)

lemma center_None: "int (length t) \<ge> width \<Longrightarrow> center t width = None"
proof -
  assume "width \<le> int (length t)"
  then have neg: "width - int (length t) - 2 \<le> - 2" by simp
  then have "(width - int (length t) - 2) sdiv 2 < 0"
    by (simp add: signed_divide_int_def sgn_if)
  then show ?thesis by (simp add: center_def Let_def Repeat_def)
qed

lemma displayTake_long_name:
  assumes "1 \<le> xp_Space p" "xp_Space p \<le> 9" "25 \<le> length (g_Name g)"
  shows "displayTake p player g = None"
proof (cases "slice_to player 6")
  case (Some sg)
  then have "length sg = 6" by (auto simp: slice_to_def split: if_splits)
  then have "center (''Game: '' @ g_Name g) (int (length (''+ Player '' @ sg @ '' takes space '' @ Itoa (xp_Space p) @ '' +''))) = None"
    using assms(3) Itoa_digit [OF assms(1,2)] by (intro center_None) simp
  then show ?thesis by (simp add: displayTake_def Some Let_def split: option.split)
qed (simp add: displayTake_def)

section \<open>Concrete requests\<close>

definition demo_xo_request :: "string \<Rightarrow> string \<Rightarrow> TpProcessRequest" where
  "demo_xo_request signer payload = \<lparr>TpProcessRequest_Header = Some \<lparr>TransactionHeader_BatcherPublicKey = [],
       TransactionHeader_Dependencies = [], TransactionHeader_FamilyName = ''xo'', TransactionHeader_FamilyVersion = ''1.0'',
       TransactionHeader_Inputs = [], TransactionHeader_Nonce = [], TransactionHeader_Outputs = [],
       TransactionHeader_PayloadSha512 = [], TransactionHeader_SignerPublicKey = signer\<rparr>,
     TpProcessRequest_Payload = Some payload, TpProcessRequest_Signature = [], TpProcessRequest_ContextId = ''ctx''\<rparr>"

lemma demo_xo_request_simps [simp]:
  "GetSignerPublicKey (TpProcessRequest_Header (demo_xo_request signer payload)) = signer"
  "TpProcessRequest_Payload (demo_xo_request signer payload) = Some payload"
  by (simp_all add: demo_xo_request_def)

lemma store_wf_empty [simp]: "store_wf P (\<lambda>a. [])"
  by (simp add: store_wf_def)

lemma xo_game_empty [simp]: "xo_game (\<lambda>a. []) = Map.empty"
  by (simp add: xo_game_def games_at_def fun_eq_iff)

lemma xo_granted_all [simp]: "xo_granted (\<lambda>a. True) (\<lambda>a. True)"
  by (simp add: xo_granted_def)

text \<open>A validator state that stores one running game under a given name.\<close>

definition demo_game :: "string \<Rightarrow> Game" where
  "demo_game name = \<lparr>g_Board = ''---------'', g_State = ''P1-NEXT'', g_Player1 = [], g_Player2 = [], g_Name = name\<rparr>"

definition demo_store :: "string \<Rightarrow> string \<Rightarrow> bytes" where
  "demo_store name a = (if a = makeAddress name then serialize [demo_game name] else [])"

lemma demo_deserialize: "plain name \<Longrightarrow> deserialize (serialize [demo_game name]) = Inr [(name, demo_game name)]"
  by (subst deserialize_serialize) (auto simp: demo_game_def plain_game_def plain_def)

lemma demo_store_wf: "plain name \<Longrightarrow> store_wf xo_rules (demo_store name)"
  using demo_deserialize [of name] xo_rules_new [of name]
  by (auto simp: store_wf_def demo_store_def games_ok_def demo_game_def plain_game_def plain_def)

lemma demo_store_game: "plain name \<Longrightarrow> xo_game (demo_store name) name = Some (demo_game name)"
  using demo_deserialize [of name] serialize_nonempty [of "[demo_game name]"]
  by (simp add: xo_game_def demo_store_def games_at_def)

section \<open>Properties\<close>

text \<open>
  C12: the xo handler implements the abstract store of games.  On a well-formed state whose game
  addresses are readable and writable, a request with a decodable payload from a signer whose key
  is not empty and has no separator has the outcome of the specification: create adds a fresh
  game under an unused name, delete removes an existing one, take plays a move on a running game;
  every other request is rejected with the specified error and leaves the state unchanged.
\<close>

theorem Xo_Apply_refines:
  assumes "state_conn pb cid st rd wr react c" "store_wf xo_rules (st (peer c))" "xo_granted rd wr"
    and "plain (GetSignerPublicKey (TpProcessRequest_Header q))" "GetSignerPublicKey (TpProcessRequest_Header q) \<noteq> []"
    and "FromBytes (TpProcessRequest_Payload q) = Inr p"
  shows "implements (state_conn pb cid st rd wr react) (\<lambda>c. st (peer c)) (store_wf xo_rules) xo_game
    (Xo_Apply q (tp_methods pb cid)) c (xo_spec p (GetSignerPublicKey (TpProcessRequest_Header q)) (xo_game (st (peer c))))"
  using assms by (rule tp.Xo_Apply_implements)

lemma Xo_Apply_refines_witness:
  "\<exists>c'. Xo_Apply (demo_xo_request ''02abcdef'' ''g,create,'') (tp_methods unary_tp_pb ''ctx'')
      (demo_conn (\<lambda>a. True) (\<lambda>a. True) (\<lambda>a. [])) = (Ret None, c') \<and> xo_game (peer c') = [''g'' \<mapsto> demo_game ''g'']"
  using Xo_Apply_refines [OF demo_state_conn [of "''ctx''" "\<lambda>a. True" "\<lambda>a. True" "\<lambda>a. []"],
      where q = "demo_xo_request ''02abcdef'' ''g,create,''" and p = "\<lparr>xp_Name = ''g'', xp_Action = ''create'', xp_Space = 0\<rparr>"]
  by (simp add: FromBytes_def str_contains_def plain_def implements_def xo_spec_def Let_def demo_game_def) blast

text \<open>
  C17: every game follows the rules of tic-tac-toe.  Over any sequence of requests from such
  signers, also one that a panic cuts short, every stored game has nine cells and alternating
  marks with X first; P1-NEXT and P2-NEXT name the player whose turn it is, and then no line is
  complete and a space is free; P1-WIN and P2-WIN hold exactly with a line of X and of O, TIE with
  a full board and no line; and no address outside the xo namespace changes.
\<close>

theorem Xo_run_rules:
  assumes "state_conn pb cid st rd wr react c" "store_wf xo_rules (st (peer c))" "xo_granted rd wr"
    and "\<forall>q \<in> set qs. plain (GetSignerPublicKey (TpProcessRequest_Header q)) \<and> GetSignerPublicKey (TpProcessRequest_Header q) \<noteq> []"
    and "apply_all (\<lambda>q. Xo_Apply q (tp_methods pb cid)) qs c = (r, c')"
  shows "store_wf xo_rules (st (peer c')) \<and> (\<forall>name g. xo_game (st (peer c')) name = Some g \<longrightarrow> xo_rules g \<and> g_Name g = name) \<and>
    (\<forall>a. \<not> prefix xo_Namespace a \<longrightarrow> st (peer c') a = st (peer c) a)"
proof -
  have "store_wf xo_rules (st (peer c'))"
  proof (rule apply_all_invariant [where view = "\<lambda>c. st (peer c)" and ok = "state_conn pb cid st rd wr react"
        and wfd = "store_wf xo_rules", OF _ assms(1,2,5)])
    fix q s r s'
    assume "q \<in> set qs" "state_conn pb cid st rd wr react s" "store_wf xo_rules (st (peer s))"
      "Xo_Apply q (tp_methods pb cid) s = (r, s')"
    with assms(3,4) show "state_conn pb cid st rd wr react s' \<and> store_wf xo_rules (st (peer s'))"
      by (intro tp.Xo_Apply_wf [of pb cid st rd wr react s q r s']) auto
  qed
  then show ?thesis
    using store_wf_game xo.apply_all_confined [OF assms(1,5)] by blast
qed

lemma Xo_run_rules_witness:
  "store_wf xo_rules (peer (snd (apply_all (\<lambda>q. Xo_Apply q (tp_methods unary_tp_pb ''ctx''))
     [demo_xo_request ''02abcdef'' ''g,create,'', demo_xo_request ''02abcdef'' ''g,take,5'', demo_xo_request ''03abcdef'' ''g,take,5'']
     (demo_conn (\<lambda>a. True) (\<lambda>a. True) (\<lambda>a. [])))))"
proof -
  let ?qs = "[demo_xo_request ''02abcdef'' ''g,create,'', demo_xo_request ''02abcdef'' ''g,take,5'', demo_xo_request ''03abcdef'' ''g,take,5'']"
  let ?run = "apply_all (\<lambda>q. Xo_Apply q (tp_methods unary_tp_pb ''ctx'')) ?qs (demo_conn (\<lambda>a. True) (\<lambda>a. True) (\<lambda>a. []))"
  have "?run = (fst ?run, snd ?run)" by simp
  from Xo_run_rules [OF demo_state_conn _ xo_granted_all _ this] show ?thesis by (simp add: plain_def)
qed

text \<open>
  A move fills exactly one space.  On a board of nine cells, a successful take leaves the
  name and every other cell, puts the mark of the player whose turn it is on the chosen free
  space, and lowers the number of free spaces by one; so a game takes at most nine moves.
\<close>

theorem xo_take_effect:
  assumes "length (g_Board g) = 9" "1 \<le> space" "space \<le> 9" "g_Board g ! nat (space - 1) = CHR ''-''"
    and "xo_take player space g = Ret (Inr g')"
  shows "g_Board g' = (g_Board g)[nat (space - 1) := (if g_State g = ''P1-NEXT'' then CHR ''X'' else CHR ''O'')] \<and>
    g_Name g' = g_Name g \<and>
    (if g_State g = ''P1-NEXT'' then g_Player1 g' = player else g_State g = ''P2-NEXT'' \<and> g_Player2 g' = player) \<and>
    Suc (count_list (g_Board g') CHR ''-'') = count_list (g_Board g) CHR ''-''"
proof -
  let ?i = "nat (space - 1)"
  from assms(5) obtain c where c: "moves player g = Some c" and g': "g' = (assign_player player g)\<lparr>g_Board := (g_Board g)[?i := c],
         g_State := outcome_of ((g_Board g)[?i := c]) (if c = CHR ''X'' then ''P2-NEXT'' else ''P1-NEXT'')\<rparr>"
    by (auto simp: xo_take_spec [OF assms(1-3)] Let_def split: option.splits)
  have i: "?i < length (g_Board g)" using assms(1-3) by simp
  then have "CHR ''-'' \<in> set (g_Board g)" using assms(4) by (metis nth_mem)
  then have "count_list (g_Board g) CHR ''-'' \<noteq> 0" by (simp add: count_list_0_iff)
  moreover have "c = (if g_State g = ''P1-NEXT'' then CHR ''X'' else CHR ''O'')"
    using c by (auto simp: moves_def Let_def split: if_splits)
  ultimately show ?thesis
    using c count_list_upd [OF i assms(4), of c "CHR ''-''"]
    by (auto simp: g' moves_def Let_def split: if_splits)
qed

lemma xo_take_effect_witness:
  "\<exists>g'. xo_take ''02abcdef'' 5 (demo_game ''g'') = Ret (Inr g') \<and> g_Board g' = ''----X----'' \<and> count_list (g_Board g') CHR ''-'' = 8"
proof -
  have "length (g_Board (demo_game ''g'')) = 9" "g_Board (demo_game ''g'') ! nat (5 - 1) = CHR ''-''"
    by (simp_all add: demo_game_def)
  moreover obtain g' where "xo_take ''02abcdef'' 5 (demo_game ''g'') = Ret (Inr g')"
    by (simp add: xo_take_spec demo_game_def moves_def assign_player_def Let_def)
  ultimately show ?thesis
    using xo_take_effect [of "demo_game ''g''" 5 "''02abcdef''" g'] by (simp add: demo_game_def)
qed

text \<open>
  C27: the serialisation of games is lossless.  Games with different names and without separators
  in their fields, at least one, serialise to data that deserialises to exactly these games, in
  order.
\<close>

theorem games_roundtrip:
  assumes "gs \<noteq> []" "\<forall>g \<in> set gs. plain_game g" "distinct (map g_Name gs)"
  shows "deserialize (serialize gs) = Inr (map (\<lambda>g. (g_Name g, g)) gs)"
  using assms by (rule deserialize_serialize)

lemma games_roundtrip_witness:
  "deserialize (serialize [demo_game ''a'', demo_game ''b'']) = Inr [(''a'', demo_game ''a''), (''b'', demo_game ''b'')]"
  by (subst games_roundtrip) (auto simp: demo_game_def plain_game_def plain_def)

text \<open>
  A payload is read back as it was written.  For a name without separators, not empty, an
  action without a comma, not empty, and a space in the 64-bit range, the text name,action,space
  parses to the name, the action and the space, the latter only for the action take.
\<close>

theorem FromBytes_roundtrip:
  assumes "plain name" "name \<noteq> []" "CHR '','' \<notin> set action" "action \<noteq> []" "- (2 ^ 63) \<le> space" "space < 2 ^ 63"
  shows "FromBytes (Some (join_with CHR '','' [name, action, Itoa space])) =
    Inr \<lparr>xp_Name = name, xp_Action = action, xp_Space = (if action = ''take'' then space else 0)\<rparr>"
proof -
  have "CHR '','' \<notin> set (nat_digits n)" for n
    using nat_digits_digits [of n] by (auto simp: list_all_iff is_digit_def)
  then have "CHR '','' \<notin> set (Itoa space)" by (auto simp: Itoa_def)
  then have "split_on CHR '','' (join_with CHR '','' [name, action, Itoa space]) = [name, action, Itoa space]"
    using assms(1,3) by (intro split_on_join) (auto simp: plain_def)
  with assms show ?thesis by (simp add: FromBytes_def str_contains_def plain_def Let_def)
qed

lemma FromBytes_roundtrip_witness:
  "FromBytes (Some (join_with CHR '','' [''g'', ''take'', Itoa 5])) = Inr \<lparr>xp_Name = ''g'', xp_Action = ''take'', xp_Space = 5\<rparr>"
  by (subst FromBytes_roundtrip) (auto simp: plain_def)

text \<open>
  The space of a take is not checked.  A take on a running game with a space outside 1 to 9
  makes the handler panic with an index out of range.
\<close>

theorem Xo_space_panics:
  assumes "state_conn pb cid st rd wr react c" "store_wf xo_rules (st (peer c))" "xo_granted rd wr"
    and "plain (GetSignerPublicKey (TpProcessRequest_Header q))" "GetSignerPublicKey (TpProcessRequest_Header q) \<noteq> []"
    and "FromBytes (TpProcessRequest_Payload q) = Inr p" "xp_Action p = ''take''" "xp_Space p < 1 \<or> 9 < xp_Space p"
    and "xo_game (st (peer c)) (xp_Name p) = Some g" "g_State g \<in> {''P1-NEXT'', ''P2-NEXT''}"
  shows "fst (Xo_Apply q (tp_methods pb cid) c) = Panic ''index out of range''"
  using tp.Xo_Apply_implements [OF assms(1-6)] assms(7-10) by (auto simp: implements_def xo_spec_def Let_def)

lemma Xo_space_panics_witness:
  "fst (Xo_Apply (demo_xo_request ''02abcdef'' ''g,take,0'') (tp_methods unary_tp_pb ''ctx'')
      (demo_conn (\<lambda>a. True) (\<lambda>a. True) (demo_store ''g''))) = Panic ''index out of range''"
  by (rule Xo_space_panics [OF demo_state_conn, where p = "\<lparr>xp_Name = ''g'', xp_Action = ''take'', xp_Space = 0\<rparr>" and g = "demo_game ''g''"])
    (auto simp: plain_def FromBytes_def str_contains_def Atoi_def is_digit_def digits_val_def digit_val_def
      demo_store_wf demo_store_game demo_game_def)

text \<open>
  C40: a long name makes a game unplayable.  When a game's name has 25 characters or more, a legal
  take on it panics while the game is printed, so the move is never stored.
\<close>

theorem Xo_long_name_panics:
  assumes "state_conn pb cid st rd wr react c" "store_wf xo_rules (st (peer c))" "xo_granted rd wr"
    and "plain (GetSignerPublicKey (TpProcessRequest_Header q))" "GetSignerPublicKey (TpProcessRequest_Header q) \<noteq> []"
    and "FromBytes (TpProcessRequest_Payload q) = Inr p" "xp_Action p = ''take''" "1 \<le> xp_Space p" "xp_Space p \<le> 9"
    and "xo_game (st (peer c)) (xp_Name p) = Some g" "g_State g \<in> {''P1-NEXT'', ''P2-NEXT''}"
    and "g_Board g ! nat (xp_Space p - 1) = CHR ''-''"
    and "xo_take (GetSignerPublicKey (TpProcessRequest_Header q)) (xp_Space p) g = Ret (Inr g')"
    and "25 \<le> length (xp_Name p)"
  shows "\<exists>c'. Xo_Apply q (tp_methods pb cid) c = (Panic (display_panic (GetSignerPublicKey (TpProcessRequest_Header q))), c') \<and> st (peer c') = st (peer c)"
proof -
  from store_wf_game [OF assms(2,10)] have g: "g_Name g = xp_Name p" "plain_game g" "length (g_Board g) = 9"
    by (auto dest: xo_rules_length)
  have "g_Name g' = xp_Name p" using xo_take_frame [OF g(3) assms(8,9,13,4) g(2)] g(1) by simp
  then have "displayTake p player g' = None" for player
    using assms(14) by (intro displayTake_long_name [OF assms(8,9)]) simp
  then show ?thesis
    using tp.Xo_Apply_implements [OF assms(1-6)] assms(7-13) by (auto simp: implements_def xo_spec_def Let_def)
qed

lemma Xo_long_name_panics_witness:
  "\<exists>c'. Xo_Apply (demo_xo_request ''02abcdef'' ''a-game-with-quite-a-long-name,take,1'') (tp_methods unary_tp_pb ''ctx'')
      (demo_conn (\<lambda>a. True) (\<lambda>a. True) (demo_store ''a-game-with-quite-a-long-name'')) =
      (Panic ''strings: negative Repeat count'', c') \<and> peer c' = demo_store ''a-game-with-quite-a-long-name''"
proof -
  let ?n = "''a-game-with-quite-a-long-name''"
  have plain: "plain ?n" by (simp add: plain_def)
  have p: "FromBytes (Some ''a-game-with-quite-a-long-name,take,1'') = Inr \<lparr>xp_Name = ?n, xp_Action = ''take'', xp_Space = 1\<rparr>"
    by (simp add: FromBytes_def str_contains_def Atoi_def is_digit_def digits_val_def digit_val_def)
  obtain g' where g': "xo_take ''02abcdef'' 1 (demo_game ?n) = Ret (Inr g')"
    by (simp add: xo_take_spec demo_game_def moves_def assign_player_def Let_def)
  show ?thesis
    using Xo_long_name_panics [OF demo_state_conn [of "''ctx''" "\<lambda>a. True" "\<lambda>a. True" "demo_store ?n"],
        where q = "demo_xo_request ''02abcdef'' ''a-game-with-quite-a-long-name,take,1''"
          and p = "\<lparr>xp_Name = ?n, xp_Action = ''take'', xp_Space = 1\<rparr>" and g = "demo_game ?n" and g' = g']
      p g' demo_store_wf [OF plain] demo_store_game [OF plain]
    by (simp add: plain_def demo_game_def display_panic_def)
qed

end
