(* ===== verification/Worker.thy ===== *)
theory Worker
  imports Transaction_Family
begin

text \<open>
  processor/worker.go: the worker thread, which takes process requests off the queue, finds the
  handler, runs it and sends the response.  The queue is the list of the messages a worker
  receives until the queue is closed.
\<close>

section \<open>The worker\<close>

fun findHandler :: "'s TransactionHandler list \<Rightarrow> TransactionHeader option \<Rightarrow> go_error + 's TransactionHandler" where
  "findHandler [] header =
    Inl (ErrorString (''Unknown handler: ('' @ GetFamilyName header @ '', '' @ GetFamilyVersion header @ '')''))"
| "findHandler (handler # handlers) header =
    (if GetFamilyName header \<noteq> h_FamilyName handler then findHandler handlers header
     else if GetFamilyVersion header \<notin> set (h_FamilyVersions handler) then findHandler handlers header
     else Inr handler)"

text \<open>The response to the handler's result: lines 70 to 96.\<close>

definition process_response :: "go_error option \<Rightarrow> TpProcessResponse" where
  "process_response err =
    (case err of
       None \<Rightarrow> \<lparr>TpProcessResponse_Status = TpProcessResponse_OK,
                TpProcessResponse_Message = [], TpProcessResponse_ExtendedData = []\<rparr>
     | Some (InvalidTransactionError msg ext) \<Rightarrow>
         \<lparr>TpProcessResponse_Status = TpProcessResponse_INVALID_TRANSACTION,
          TpProcessResponse_Message = msg, TpProcessResponse_ExtendedData = ext\<rparr>
     | Some (InternalError msg ext) \<Rightarrow>
         \<lparr>TpProcessResponse_Status = TpProcessResponse_INTERNAL_ERROR,
          TpProcessResponse_Message = msg, TpProcessResponse_ExtendedData = ext\<rparr>
     | Some (AuthorizationException msg ext) \<Rightarrow>
         \<lparr>TpProcessResponse_Status = TpProcessResponse_INVALID_TRANSACTION,
          TpProcessResponse_Message = msg, TpProcessResponse_ExtendedData = ext\<rparr>
     | Some e \<Rightarrow>
         \<lparr>TpProcessResponse_Status = TpProcessResponse_INTERNAL_ERROR,
          TpProcessResponse_Message = Error e, TpProcessResponse_ExtendedData = []\<rparr>)"

text \<open>One turn of the loop: True goes on, False is a break.\<close>

definition worker_step ::
  "tp_pb \<Rightarrow> 's Connection \<Rightarrow> 's TransactionHandler list \<Rightarrow> Message \<Rightarrow> ('s, bool) proc" where
  "worker_step pb connection handlers msg =
    (case Unmarshal (pbTpProcessRequest pb) (GetContent (Some msg)) of
       (_, Some err) \<Rightarrow> retP False
     | (request, None) \<Rightarrow>
       (case findHandler handlers (TpProcessRequest_Header request) of
          Inl err \<Rightarrow> retP False
        | Inr handler \<Rightarrow>
          (let context = NewContext connection (TpProcessRequest_ContextId request) in
           bindP (h_Apply handler request (methods pb context)) (\<lambda>err.
             case Marshal (pbTpProcessResponse pb) (process_response err) of
               (_, Some e) \<Rightarrow> retP False
             | (responseData, None) \<Rightarrow>
                bindP (c_SendMsg connection Message_TP_PROCESS_RESPONSE responseData (GetCorrelationId (Some msg)))
                  (\<lambda>err. retP (err = None))))))"

text \<open>The loop returns the messages it leaves on the queue.\<close>

fun worker_loop ::
  "tp_pb \<Rightarrow> 's Connection \<Rightarrow> 's TransactionHandler list \<Rightarrow> Message list \<Rightarrow> ('s, Message list) proc" where
  "worker_loop pb connection handlers [] = retP []"
| "worker_loop pb connection handlers (msg # queue) =
    bindP (worker_step pb connection handlers msg) (\<lambda>go_on.
      if go_on then worker_loop pb connection handlers queue else retP queue)"

text \<open>
  The thread: it signals done with false when it cannot connect, and with true when its loop has
  ended, for whatever reason; the connection is closed at the end.
\<close>

definition worker ::
  "tp_pb \<Rightarrow> 'p zmq_context \<Rightarrow> (nat \<Rightarrow> string) \<Rightarrow> nat \<Rightarrow> int \<Rightarrow> string \<Rightarrow> Message list \<Rightarrow>
   'p ZmqConnection TransactionHandler list \<Rightarrow> bool outcome \<times> Message list \<times> 'p ZmqConnection option" where
  "worker pb ctx uuid n dealer uri queue handlers =
    (case NewConnection ctx uuid n dealer uri False of
       Inl err \<Rightarrow> (Ret False, queue, None)
     | Inr connection \<Rightarrow>
        (case worker_loop pb (zmq_Connection (pbMessage pb)) handlers queue connection of
           (Ret rest, connection') \<Rightarrow> (Ret True, rest, Some (snd (Close connection')))
         | (Panic e, connection') \<Rightarrow> (Panic e, [], Some connection')
         | (Block, connection') \<Rightarrow> (Block, [], Some connection')))"

lemma findHandler_Inr:
  "findHandler hs header = Inr h \<Longrightarrow> h \<in> set hs \<and> h_FamilyName h = GetFamilyName header \<and>
     GetFamilyVersion header \<in> set (h_FamilyVersions h)"
  by (induction hs) (auto split: if_splits)

lemma findHandler_Inl:
  "(\<exists>e. findHandler hs header = Inl e) \<longleftrightarrow>
     (\<forall>h \<in> set hs. h_FamilyName h \<noteq> GetFamilyName header \<or> GetFamilyVersion header \<notin> set (h_FamilyVersions h))"
  by (induction hs) auto

section \<open>Serving a queue\<close>

text \<open>
  What the worker relies on: in a state that satisfies the invariant, an acceptable message
  decodes, has a handler, the handler's Apply returns, and the response can be encoded and sent,
  all of which keeps the invariant.  Then the loop serves any queue of such messages to the end.
\<close>

locale request_service =
  fixes pb :: tp_pb
    and C :: "'s Connection"
    and hs :: "'s TransactionHandler list"
    and good :: "Message \<Rightarrow> bool"
    and I :: "'s \<Rightarrow> bool"
  assumes decodes: "good msg \<Longrightarrow> \<exists>request h. Unmarshal (pbTpProcessRequest pb) (Message_Content msg) = (request, None) \<and>
      findHandler hs (TpProcessRequest_Header request) = Inr h"
    and applies: "I s \<Longrightarrow> good msg \<Longrightarrow> Unmarshal (pbTpProcessRequest pb) (Message_Content msg) = (request, None) \<Longrightarrow>
      findHandler hs (TpProcessRequest_Header request) = Inr h \<Longrightarrow>
      \<exists>e s'. h_Apply h request (methods pb (NewContext C (TpProcessRequest_ContextId request))) s = (Ret e, s') \<and> I s'"
    and encodes: "I s \<Longrightarrow> snd (Marshal (pbTpProcessResponse pb) r) = None"
    and responds: "I s \<Longrightarrow> \<exists>s'. c_SendMsg C Message_TP_PROCESS_RESPONSE b k s = (Ret None, s') \<and> I s'"
begin

lemma step_serves:
  assumes "I s" "good msg"
  shows "\<exists>s'. worker_step pb C hs msg s = (Ret True, s') \<and> I s'"
proof -
  from decodes [OF assms(2)] obtain request h where d: "Unmarshal (pbTpProcessRequest pb) (Message_Content msg) = (request, None)"
    "findHandler hs (TpProcessRequest_Header request) = Inr h" by blast
  from applies [OF assms d] obtain e s1 where a: "h_Apply h request (methods pb (NewContext C (TpProcessRequest_ContextId request))) s = (Ret e, s1)"
    "I s1" by blast
  obtain b where b: "Marshal (pbTpProcessResponse pb) (process_response e) = (b, None)"
    using encodes [OF a(2), of "process_response e"] by (cases "Marshal (pbTpProcessResponse pb) (process_response e)") auto
  from responds [OF a(2), of b "Message_CorrelationId msg"] show ?thesis
    using d a(1) b by (auto simp: worker_step_def Let_def)
qed

lemma loop_serves:
  "I s \<Longrightarrow> \<forall>msg \<in> set queue. good msg \<Longrightarrow> \<exists>s'. worker_loop pb C hs queue s = (Ret [], s') \<and> I s'"
proof (induction queue arbitrary: s)
  case Nil
  then show ?case by simp
next
  case (Cons msg queue)
  with step_serves [of s msg] obtain s1 where "worker_step pb C hs msg s = (Ret True, s1)" "I s1" by auto
  with Cons show ?case by auto
qed

end

end
