(* ===== verification/Tp_System.thy ===== *)
theory Tp_System
  imports Worker Intkey
begin

text \<open>
  The transaction processor end to end: a worker that serves process requests with the intkey
  handler, over a ZmqConnection to a validator.  The layers meet in the interpretation of the
  worker's interface.
\<close>

definition intkey_handler :: "intkey_cbor \<Rightarrow> IntkeyHandler \<Rightarrow> 's TransactionHandler" where
  "intkey_handler cb self = \<lparr>h_FamilyName = Intkey_FamilyName self, h_FamilyVersions = Intkey_FamilyVersions self,
     h_Namespaces = Intkey_Namespaces self, h_Apply = Intkey_Apply cb self\<rparr>"

text \<open>Messages a worker with this handler serves: process requests of the intkey family.\<close>

definition intkey_message :: "tp_pb \<Rightarrow> Message \<Rightarrow> bool" where
  "intkey_message pb msg \<longleftrightarrow> (\<exists>request. Unmarshal (pbTpProcessRequest pb) (Message_Content msg) = (request, None) \<and>
     GetFamilyName (TpProcessRequest_Header request) = ''intkey'' \<and> GetFamilyVersion (TpProcessRequest_Header request) = ''1.0'')"

text \<open>The connection serves state for every context, and the intkey state is well formed.\<close>

definition intkey_serving ::
  "tp_pb \<Rightarrow> ('p \<Rightarrow> string \<Rightarrow> bytes) \<Rightarrow> (string \<Rightarrow> bool) \<Rightarrow> (string \<Rightarrow> bool) \<Rightarrow>
   ('p \<Rightarrow> Message_MessageType \<Rightarrow> bytes \<Rightarrow> (Message_MessageType \<times> bytes \<times> 'p) option) \<Rightarrow>
   intkey_cbor \<Rightarrow> IntkeyHandler \<Rightarrow> 'p ZmqConnection \<Rightarrow> bool" where
  "intkey_serving pb st rd wr react cb self c \<longleftrightarrow> (\<forall>cid. state_conn pb cid st rd wr react c) \<and>
     intkey_cbor_ok cb \<and> intkey_wf cb self (st (peer c)) \<and> (\<forall>r. snd (Marshal (pbTpProcessResponse pb) r) = None)"

lemma state_conn_any:
  assumes "\<forall>cid. state_conn pb cid st rd wr react c" "state_conn pb k st rd wr react c'"
  shows "\<forall>cid. state_conn pb cid st rd wr react c'"
  using assms by (simp add: state_conn_def)

lemma intkey_serving_apply:
  assumes "intkey_serving pb st rd wr react cb self c"
  shows "\<exists>e c'. Intkey_Apply cb self q (tp_methods pb cid) c = (Ret e, c') \<and> intkey_serving pb st rd wr react cb self c'"
proof -
  have c: "state_conn pb cid st rd wr react c" "intkey_cbor_ok cb" "intkey_wf cb self (st (peer c))"
    using assms by (simp_all add: intkey_serving_def)
  then obtain e c' where "Intkey_Apply cb self q (tp_methods pb cid) c = (Ret e, c')"
    "state_conn pb cid st rd wr react c'" "intkey_wf cb self (st (peer c'))"
    by (rule tp.Intkey_Apply_total)
  with assms show ?thesis using state_conn_any [of pb st rd wr react c cid c'] by (auto simp: intkey_serving_def)
qed

text \<open>Sending a response leaves the connection and the validator's state as they are.\<close>

lemma SendMsg_response:
  assumes "state_conn pb k st rd wr react c"
  obtains c' where "SendMsg (pbMessage pb) Message_TP_PROCESS_RESPONSE b corr c = (Ret None, c')"
    "state_conn pb k st rd wr react c'" "st (peer c') = st (peer c)"
proof -
  from assms have z: "zmq_ready (pbMessage pb) react c" and t: "takes_responses pb st (sk_deliver (conn_socket c))"
    by (simp_all add: state_conn_def)
  then have "codec_ok (pbMessage pb) \<lparr>Message_MessageType = Message_TP_PROCESS_RESPONSE, Message_CorrelationId = corr, Message_Content = b\<rparr>"
    by (simp add: zmq_ready_def)
  then obtain d where d: "DumpMsg (pbMessage pb) Message_TP_PROCESS_RESPONSE b corr = (d, None)"
    by (auto simp: DumpMsg_def elim: codec_okE)
  with t obtain p' where p': "sk_deliver (conn_socket c) (peer c) [d] = (p', [], None)" "st p' = st (peer c)"
    unfolding takes_responses_def by (metis fst_conv)
  let ?c' = "c\<lparr>conn_socket := (conn_socket c)\<lparr>sk_peer := p', sk_inbox := inbox c @ []\<rparr>\<rparr>"
  have "SendMsg (pbMessage pb) Message_TP_PROCESS_RESPONSE b corr c = (Ret None, ?c')"
    using z d p'(1) by (simp add: SendMsg_def SendMsgTo_def SendData_def SendMessage_def zmq_ready_def)
  moreover have "state_conn pb k st rd wr react ?c'"
    using assms by (simp add: state_conn_def zmq_ready_def)
  ultimately show thesis using p'(2) by (intro that [of ?c']) simp_all
qed

interpretation intkey_worker: request_service pb "zmq_Connection (pbMessage pb)" "[intkey_handler cb self]"
    "intkey_message pb" "intkey_serving pb st rd wr react cb self"
  for pb st rd wr react cb self
proof (unfold_locales, goal_cases)
  case (1 msg)
  then show ?case
    by (auto simp: intkey_message_def intkey_handler_def Intkey_FamilyName_def Intkey_FamilyVersions_def)
next
  case (2 s msg request h)
  then have "h = intkey_handler cb self" by (auto split: if_splits)
  with intkey_serving_apply [OF 2(1), of request "TpProcessRequest_ContextId request"] show ?case
    by (simp add: intkey_handler_def tp_methods_def)
next
  case (3 s r)
  then show ?case by (simp add: intkey_serving_def)
next
  case (4 s b k)
  then have "state_conn pb [] st rd wr react s" by (simp add: intkey_serving_def)
  then obtain s' where "SendMsg (pbMessage pb) Message_TP_PROCESS_RESPONSE b k s = (Ret None, s')"
    "state_conn pb [] st rd wr react s'" "st (peer s') = st (peer s)" by (rule SendMsg_response)
  with 4 state_conn_any [of pb st rd wr react s "[]" s'] show ?case
    by (auto simp: intkey_serving_def zmq_Connection_def)
qed

section \<open>Properties\<close>

text \<open>
  C20: a worker answers a request with the handler's verdict.  When the message decodes to a
  request, a registered handler has its family name and version, and Apply returns, the worker
  sends exactly one message, of type TP_PROCESS_RESPONSE and with the correlation id of the
  request: status OK when the handler returns nil, INVALID_TRANSACTION with its message and data
  for an InvalidTransactionError or an AuthorizationException, INTERNAL_ERROR for an InternalError
  and for every other error, whose text is the message; and it goes on unless the send fails.
\<close>

theorem worker_step_responds:
  fixes C :: "'s Connection"
  assumes "Unmarshal (pbTpProcessRequest pb) (Message_Content msg) = (request, None)"
    and "findHandler hs (TpProcessRequest_Header request) = Inr h"
    and "h_Apply h request (methods pb (NewContext C (TpProcessRequest_ContextId request))) s = (Ret err, s1)"
    and "\<forall>r. snd (Marshal (pbTpProcessResponse pb) r) = None"
  shows "\<exists>r. worker_step pb C hs msg s =
      bindP (c_SendMsg C Message_TP_PROCESS_RESPONSE (fst (Marshal (pbTpProcessResponse pb) r)) (Message_CorrelationId msg))
        (\<lambda>e. retP (e = None)) s1 \<and>
    (err = None \<longleftrightarrow> TpProcessResponse_Status r = TpProcessResponse_OK) \<and>
    (\<forall>m x. err = Some (InvalidTransactionError m x) \<or> err = Some (AuthorizationException m x) \<longrightarrow>
       r = \<lparr>TpProcessResponse_Status = TpProcessResponse_INVALID_TRANSACTION, TpProcessResponse_Message = m, TpProcessResponse_ExtendedData = x\<rparr>) \<and>
    (\<forall>m x. err = Some (InternalError m x) \<longrightarrow>
       r = \<lparr>TpProcessResponse_Status = TpProcessResponse_INTERNAL_ERROR, TpProcessResponse_Message = m, TpProcessResponse_ExtendedData = x\<rparr>) \<and>
    (\<forall>m. err = Some (ErrorString m) \<longrightarrow>
       TpProcessResponse_Status r = TpProcessResponse_INTERNAL_ERROR \<and> TpProcessResponse_Message r = m)"
proof -
  obtain b where "Marshal (pbTpProcessResponse pb) (process_response err) = (b, None)"
    using assms(4) by (cases "Marshal (pbTpProcessResponse pb) (process_response err)") (auto dest: spec [of _ "process_response err"])
  with assms(1-3) show ?thesis
    by (intro exI [of _ "process_response err"])
      (auto simp: worker_step_def Let_def process_response_def split: option.split go_error.split)
qed

text \<open>A handler that rejects everything.\<close>

definition demo_rejecting :: "'s TransactionHandler" where
  "demo_rejecting = \<lparr>h_FamilyName = ''intkey'', h_FamilyVersions = [''1.0''], h_Namespaces = [],
     h_Apply = (\<lambda>request context. retP (Some (InvalidTransactionError ''no'' [])))\<rparr>"

definition demo_process_request :: TpProcessRequest where
  "demo_process_request = (demo_request \<lparr>pl_Verb = ''set'', pl_Name = ''x'', pl_Value = 7\<rparr>)\<lparr>TpProcessRequest_Header :=
     Some \<lparr>TransactionHeader_BatcherPublicKey = [],
       TransactionHeader_Dependencies = [], TransactionHeader_FamilyName = ''intkey'', TransactionHeader_FamilyVersion = ''1.0'',
       TransactionHeader_Inputs = [], TransactionHeader_Nonce = [], TransactionHeader_Outputs = [],
       TransactionHeader_PayloadSha512 = [], TransactionHeader_SignerPublicKey = []\<rparr>\<rparr>"

definition demo_process_message :: "string \<Rightarrow> Message" where
  "demo_process_message k = \<lparr>Message_MessageType = Message_TP_PROCESS_REQUEST, Message_CorrelationId = k,
     Message_Content = fst (Marshal unary_codec demo_process_request)\<rparr>"

lemma demo_process_decodes:
  "Unmarshal (pbTpProcessRequest unary_tp_pb) (Message_Content (demo_process_message k)) = (demo_process_request, None)"
  by (simp add: demo_process_message_def)

lemma worker_step_responds_witness:
  "\<exists>r. worker_step unary_tp_pb (zmq_Connection unary_codec) [demo_rejecting] (demo_process_message ''7'') demo_unit_conn =
      bindP (c_SendMsg (zmq_Connection unary_codec) Message_TP_PROCESS_RESPONSE (fst (Marshal unary_codec r)) ''7'')
        (\<lambda>e. retP (e = None)) demo_unit_conn \<and>
    r = \<lparr>TpProcessResponse_Status = TpProcessResponse_INVALID_TRANSACTION, TpProcessResponse_Message = ''no'', TpProcessResponse_ExtendedData = []\<rparr>"
proof -
  have "findHandler [demo_rejecting :: unit ZmqConnection TransactionHandler] (TpProcessRequest_Header demo_process_request) = Inr demo_rejecting"
    by (simp add: demo_rejecting_def demo_process_request_def)
  from worker_step_responds [OF demo_process_decodes [of "''7''"] this, of "zmq_Connection unary_codec" demo_unit_conn
      "Some (InvalidTransactionError ''no'' [])" demo_unit_conn]
  show ?thesis by (auto simp: demo_rejecting_def demo_process_message_def)
qed

text \<open>
  End to end, a worker with the intkey handler serves every queue.  Connected to a validator
  that serves state, from a well-formed state, the worker's loop takes every intkey request off
  the queue, sends a response for each and leaves none; it ends normally, whatever the payloads,
  and in the validator's state every intkey value is within 0 to 4294967295.
\<close>

theorem intkey_worker_serves:
  assumes "intkey_serving pb st rd wr react cb self c" "\<forall>msg \<in> set queue. intkey_message pb msg"
  shows "\<exists>c'. worker_loop pb (zmq_Connection (pbMessage pb)) [intkey_handler cb self] queue c = (Ret [], c') \<and>
    intkey_serving pb st rd wr react cb self c' \<and>
    (\<forall>n v. intkey_value cb self (st (peer c')) n = Some v \<longrightarrow> MIN_VALUE \<le> v \<and> v \<le> MAX_VALUE)"
proof -
  from intkey_worker.loop_serves [OF assms] obtain c' where
    "worker_loop pb (zmq_Connection (pbMessage pb)) [intkey_handler cb self] queue c = (Ret [], c')"
    "intkey_serving pb st rd wr react cb self c'" by blast
  then show ?thesis using intkey_wf_value_bounds by (auto simp: intkey_serving_def)
qed

lemma intkey_worker_serves_witness:
  "\<exists>c'. worker_loop unary_tp_pb (zmq_Connection (pbMessage unary_tp_pb)) [intkey_handler demo_cbor (NewIntkeyHandler ''1cf126'')]
      [demo_process_message ''1'', demo_process_message ''2''] (demo_conn (\<lambda>a. True) (\<lambda>a. True) (\<lambda>a. [])) = (Ret [], c')"
proof -
  have "intkey_serving unary_tp_pb (\<lambda>f. f) (\<lambda>a. True) (\<lambda>a. True) (validator_react unary_tp_pb (\<lambda>a. True) (\<lambda>a. True))
      demo_cbor (NewIntkeyHandler ''1cf126'') (demo_conn (\<lambda>a. True) (\<lambda>a. True) (\<lambda>a. []))"
    by (simp add: intkey_serving_def)
  moreover have "intkey_message unary_tp_pb (demo_process_message k)" for k
    using demo_process_decodes [of k] by (auto simp: intkey_message_def demo_process_request_def)
  ultimately show ?thesis
    using intkey_worker_serves [of unary_tp_pb "\<lambda>f. f" "\<lambda>a. True" "\<lambda>a. True" _ demo_cbor "NewIntkeyHandler ''1cf126''" _
        "[demo_process_message ''1'', demo_process_message ''2'']"] by fastforce
qed

text \<open>
  C39: a request for an unknown family stops the worker.  When no registered handler has the
  family name and version of the request, the worker sends nothing, ends its loop and leaves the
  rest of the queue unserved, although it reports done with true.
\<close>

theorem worker_unknown_family_stops:
  assumes "Unmarshal (pbTpProcessRequest pb) (Message_Content msg) = (request, None)"
    and "\<forall>h \<in> set hs. h_FamilyName h \<noteq> GetFamilyName (TpProcessRequest_Header request) \<or>
      GetFamilyVersion (TpProcessRequest_Header request) \<notin> set (h_FamilyVersions h)"
  shows "worker_loop pb C hs (msg # queue) s = (Ret queue, s)"
proof -
  from assms(2) obtain e where "findHandler hs (TpProcessRequest_Header request) = Inl e"
    using findHandler_Inl [of hs "TpProcessRequest_Header request"] by blast
  with assms(1) show ?thesis by (simp add: worker_step_def)
qed

lemma worker_unknown_family_stops_witness:
  "worker_loop unary_tp_pb (zmq_Connection unary_codec) [] [demo_process_message ''1'', demo_process_message ''2''] demo_unit_conn =
    (Ret [demo_process_message ''2''], demo_unit_conn)"
  by (rule worker_unknown_family_stops [OF demo_process_decodes]) simp

end
