(* ===== verification/Processor.thy ===== *)
theory Processor
  imports Transaction_Family
begin

text \<open>
  processor/processor.go: the main thread of a transaction processor, which routes messages
  between the validator and the worker threads, registers the handlers and shuts down.

  The state holds the two connections, the buffered work queue and the table of the workers
  that wait for a response.  The connections are given by their methods, so that the results hold
  for every implementation of the Connection interface.
\<close>

section \<open>State\<close>

abbreviation (input) DEFAULT_MAX_WORK_QUEUE_SIZE :: nat where "DEFAULT_MAX_WORK_QUEUE_SIZE \<equiv> 100"

record 's TransactionProcessor =
  tp_uri :: string
  tp_handlers :: "'s TransactionHandler list"
  tp_nThreads :: nat
  tp_maxQueue :: nat

definition NewTransactionProcessor :: "nat \<Rightarrow> string \<Rightarrow> 's TransactionProcessor" where
  "NewTransactionProcessor procs uri =
    \<lparr>tp_uri = uri, tp_handlers = [], tp_nThreads = procs, tp_maxQueue = DEFAULT_MAX_WORK_QUEUE_SIZE\<rparr>"

definition AddHandler :: "'s TransactionHandler \<Rightarrow> 's TransactionProcessor \<Rightarrow> 's TransactionProcessor" where
  "AddHandler handler self = self\<lparr>tp_handlers := tp_handlers self @ [handler]\<rparr>"

definition SetThreadCount :: "nat \<Rightarrow> 's TransactionProcessor \<Rightarrow> 's TransactionProcessor" where
  "SetThreadCount n self = self\<lparr>tp_nThreads := n\<rparr>"

definition SetMaxQueueSize :: "nat \<Rightarrow> 's TransactionProcessor \<Rightarrow> 's TransactionProcessor" where
  "SetMaxQueueSize n self = self\<lparr>tp_maxQueue := n\<rparr>"

text \<open>
  The main thread: the connections to the validator and to the workers, the pair of sockets
  \<open>shutdown_tx\<close> and \<open>shutdown_rx\<close> inside the process (one state, since what is sent on the one
  arrives at the other), the queue of capacity \<open>r_cap\<close>, the routing table, and whether the queue and the
  monitor socket are closed.
\<close>

record ('v, 'w, 'x) router =
  r_validator :: 'v
  r_workers :: 'w
  r_shutdown :: 'x
  r_ids :: "string \<rightharpoonup> string"
  r_queue :: "Message list"
  r_cap :: nat
  r_closed :: bool
  r_monitor_closed :: bool

definition on_validator :: "('v, 'a) proc \<Rightarrow> (('v, 'w, 'x) router, 'a) proc" where
  "on_validator m r = (case m (r_validator r) of (x, v) \<Rightarrow> (x, r\<lparr>r_validator := v\<rparr>))"

definition on_workers :: "('w, 'a) proc \<Rightarrow> (('v, 'w, 'x) router, 'a) proc" where
  "on_workers m r = (case m (r_workers r) of (x, w) \<Rightarrow> (x, r\<lparr>r_workers := w\<rparr>))"

definition on_shutdown :: "('x, 'a) proc \<Rightarrow> (('v, 'w, 'x) router, 'a) proc" where
  "on_shutdown m r = (case m (r_shutdown r) of (x, p) \<Rightarrow> (x, r\<lparr>r_shutdown := p\<rparr>))"

section \<open>Routing\<close>

text \<open>
  The select with a default: the message is queued when there is room; a send on a closed channel
  panics.  This is a channel with a buffer.  With a maximal queue size of 0 the channel of the code
  has none, and a message can still go to a worker that is waiting for one; here it is always
  denied, one of the two outcomes that the code has in that case.
\<close>

definition try_send :: "Message \<Rightarrow> (('v, 'w, 'x) router, bool) proc" where
  "try_send msg r =
    (if r_closed r then (Panic ''send on closed channel'', r)
     else if length (r_queue r) < r_cap r then (Ret True, r\<lparr>r_queue := r_queue r @ [msg]\<rparr>)
     else (Ret False, r))"

definition deny_request :: "tp_pb \<Rightarrow> 'v Connection \<Rightarrow> string \<Rightarrow> (('v, 'w, 'x) router, unit) proc" where
  "deny_request pb Cv corrId =
    (let (data, err) = Marshal (pbTpProcessResponse pb)
           \<lparr>TpProcessResponse_Status = TpProcessResponse_INTERNAL_ERROR,
            TpProcessResponse_Message = ''Work queue is full, denying request'', TpProcessResponse_ExtendedData = []\<rparr>
     in bindP (on_validator (c_SendMsg Cv Message_TP_PROCESS_RESPONSE data corrId)) (\<lambda>err. retP ()))"

text \<open>What is done with a message from the validator: lines 240 to 309.\<close>

definition route_validator ::
  "tp_pb \<Rightarrow> 'v Connection \<Rightarrow> 'w Connection \<Rightarrow> bytes \<Rightarrow> (('v, 'w, 'x) router, unit) proc" where
  "route_validator pb Cv Cw data =
    (case LoadMsg (pbMessage pb) data of
       (_, Some err) \<Rightarrow> retP ()
     | (msg, None) \<Rightarrow>
       (let t = GetMessageType (Some msg); corrId = GetCorrelationId (Some msg) in
        if t = Message_TP_PROCESS_REQUEST then
          bindP (try_send msg) (\<lambda>queued. if queued then retP () else deny_request pb Cv corrId)
        else if t = Message_PING_REQUEST then
          (let (pong, err) = Marshal (pbPingResponse pb) PingResponse
           in bindP (on_validator (c_SendMsg Cv Message_PING_RESPONSE pong corrId)) (\<lambda>err. retP ()))
        else
          (\<lambda>r. case r_ids r corrId of
             Some workerId \<Rightarrow>
              (if corrId \<noteq> [] then
                 bindP (on_workers (c_SendData Cw workerId data)) (\<lambda>err r'.
                   case err of
                     Some e \<Rightarrow> (Ret (), r')
                   | None \<Rightarrow> (Ret (), r'\<lparr>r_ids := (r_ids r')(corrId := None)\<rparr>)) r
               else (Ret (), r))
           | None \<Rightarrow> (Ret (), r))))"

text \<open>A deferred function recovers from a panic: the call then returns.\<close>

definition recovering :: "('s, unit) proc \<Rightarrow> ('s, unit) proc" where
  "recovering m s = (case m s of (Panic e, s') \<Rightarrow> (Ret (), s') | x \<Rightarrow> x)"

definition receiveValidator ::
  "tp_pb \<Rightarrow> 'v Connection \<Rightarrow> 'w Connection \<Rightarrow> (('v, 'w, 'x) router, unit) proc" where
  "receiveValidator pb Cv Cw =
    recovering (bindP (on_validator (c_RecvData Cv)) (\<lambda>(_, data, err).
      case err of Some e \<Rightarrow> retP () | None \<Rightarrow> route_validator pb Cv Cw data))"

text \<open>What is done with a message from a worker: lines 342 to 361.\<close>

definition route_worker ::
  "tp_pb \<Rightarrow> 'v Connection \<Rightarrow> string \<Rightarrow> bytes \<Rightarrow> (('v, 'w, 'x) router, unit) proc" where
  "route_worker pb Cv workerId data =
    (case LoadMsg (pbMessage pb) data of
       (_, Some err) \<Rightarrow> retP ()
     | (msg, None) \<Rightarrow>
       (let t = GetMessageType (Some msg); corrId = GetCorrelationId (Some msg) in
        bindP (\<lambda>r. (Ret (), if t \<noteq> Message_TP_PROCESS_RESPONSE then r\<lparr>r_ids := (r_ids r)(corrId \<mapsto> workerId)\<rparr> else r))
          (\<lambda>_. bindP (on_validator (c_SendData Cv [] data)) (\<lambda>err. retP ()))))"

definition receiveWorkers ::
  "tp_pb \<Rightarrow> 'v Connection \<Rightarrow> 'w Connection \<Rightarrow> (('v, 'w, 'x) router, unit) proc" where
  "receiveWorkers pb Cv Cw =
    bindP (on_workers (c_RecvData Cw)) (\<lambda>(workerId, data, err).
      case err of Some e \<Rightarrow> retP () | None \<Rightarrow> route_worker pb Cv workerId data)"

section \<open>Monitor, shutdown and registration\<close>

text \<open>An event of the monitor socket: the error of the receive, or the event.\<close>

definition receiveMonitor ::
  "'x Connection \<Rightarrow> int \<Rightarrow> go_error + int \<Rightarrow> (('v, 'w, 'x) router, bool) proc" where
  "receiveMonitor Ctx EVENT_DISCONNECTED received =
    (case received of
       Inl err \<Rightarrow> retP False
     | Inr event \<Rightarrow>
        bindP (on_shutdown (c_SendData Ctx [] ''restart'')) (\<lambda>err. retP (event = EVENT_DISCONNECTED)))"

text \<open>Shutdown does nothing before start has created the sending end, the value None.\<close>

definition Shutdown :: "'x Connection option \<Rightarrow> (('v, 'w, 'x) router, unit) proc" where
  "Shutdown shutdown_tx =
    (case shutdown_tx of
       None \<Rightarrow> retP ()
     | Some Ctx \<Rightarrow> bindP (on_shutdown (c_SendData Ctx [] ''shutdown'')) (\<lambda>err. retP ()))"

datatype shutdown_log = UnregisterSuccessful | UnregisterTimedOut

text \<open>
  The goroutine that waits for the response runs beside the select.  It receives, or waits; what it
  receives only decides what it logs, and it never sends on the channel \<open>unregistered\<close>: whatever the
  outcome of its receive, the list of what it sends is empty.  It touches nothing but the connection
  to the validator, which is closed next, so its receive is run here before the select ends.
\<close>

definition await_unregister :: "'v Connection \<Rightarrow> string \<Rightarrow> 'v \<Rightarrow> bool list \<times> 'v" where
  "await_unregister Cv corrId v = (case c_RecvMsgWithId Cv corrId v of (_, v') \<Rightarrow> ([], v'))"

text \<open>
  shutdown closes the queue, the workers and the monitor, unregisters unless forced, closes the rest and waits
  for the done signals of all workers; with too few signals it waits for ever.
\<close>

definition shutdown ::
  "tp_pb \<Rightarrow> 'v Connection \<Rightarrow> 'w Connection \<Rightarrow> 'x Connection \<Rightarrow> nat \<Rightarrow> bool list \<Rightarrow> bool \<Rightarrow>
   (('v, 'w, 'x) router, shutdown_log list) proc" where
  "shutdown pb Cv Cw Crx worker_count workers_done force r =
    (if r_closed r then (Panic ''close of closed channel'', r)
     else
       bindP (on_workers (c_Close Cw)) (\<lambda>_.
       bindP (\<lambda>r. (Ret (), r\<lparr>r_monitor_closed := True\<rparr>)) (\<lambda>_.
       bindP (if force then retP []
              else
                bindP (on_validator (c_SendNewMsg Cv Message_TP_UNREGISTER_REQUEST
                    (fst (Marshal (pbTpUnregisterRequest pb) TpUnregisterRequest)))) (\<lambda>(corrId, err) r.
                  (case await_unregister Cv corrId (r_validator r) of
                     (sent, v) \<Rightarrow> (Ret [if sent = [] then UnregisterTimedOut else UnregisterSuccessful], r\<lparr>r_validator := v\<rparr>)))) (\<lambda>log.
       bindP (on_validator (c_Close Cv)) (\<lambda>_.
       bindP (on_shutdown (c_Close Crx)) (\<lambda>_ r.
         if worker_count \<le> length workers_done then (Ret log, r) else (Block, r))))))
       (r\<lparr>r_closed := True\<rparr>))"

text \<open>An unknown command, also the empty one after a failed receive, is ignored.\<close>

definition receiveShutdown ::
  "tp_pb \<Rightarrow> 'v Connection \<Rightarrow> 'w Connection \<Rightarrow> 'x Connection \<Rightarrow> nat \<Rightarrow> bool list \<Rightarrow> (('v, 'w, 'x) router, bool) proc" where
  "receiveShutdown pb Cv Cw Crx worker_count workers_done =
    bindP (on_shutdown (c_RecvData Crx)) (\<lambda>(_, cmd, err).
      if cmd \<noteq> ''restart'' \<and> cmd \<noteq> ''shutdown'' then retP False
      else bindP (shutdown pb Cv Cw Crx worker_count workers_done (cmd = ''restart''))
        (\<lambda>log. retP (cmd = ''restart'')))"

text \<open>
  Registration waits for a message of the validator or of the shutdown socket, whichever comes
  first.  The message from the validator ends it in any case; a message with another correlation
  id goes to the queue, a send that waits when the queue is full.  The workers run already:
  \<open>taken\<close> is the number of messages they have taken off the queue by then.
\<close>

datatype register_event = ValidatorReady nat | ShutdownReady | PollFailed go_error

definition queue_send :: "nat \<Rightarrow> Message option \<Rightarrow> (('v, 'w, 'x) router, unit) proc" where
  "queue_send taken msg r =
    (let r = r\<lparr>r_queue := drop taken (r_queue r)\<rparr> in
     case msg of
       None \<Rightarrow> (Ret (), r)
     | Some m \<Rightarrow> if length (r_queue r) < r_cap r then (Ret (), r\<lparr>r_queue := r_queue r @ [m]\<rparr>) else (Block, r))"

definition register_response :: "tp_pb \<Rightarrow> Message option \<Rightarrow> go_error option" where
  "register_response pb msg =
    (if GetMessageType msg \<noteq> Message_TP_REGISTER_RESPONSE
     then Some (ErrorString (''Received unexpected message type: '' @ Message_MessageType_String (GetMessageType msg)))
     else (case Unmarshal (pbTpRegisterResponse pb) (GetContent msg) of
         (_, Some e) \<Rightarrow> Some e
       | (regResponse, None) \<Rightarrow>
          if TpRegisterResponse_Status regResponse \<noteq> TpRegisterResponse_OK
          then Some (ErrorString (''Got response: '' @
            EnumStringOf TpRegisterResponse_Status_name (TpRegisterResponse_Status regResponse)))
          else None))"

definition register ::
  "tp_pb \<Rightarrow> 'v Connection \<Rightarrow> 's TransactionHandler \<Rightarrow> string \<Rightarrow> nat \<Rightarrow> register_event \<Rightarrow> nat \<Rightarrow>
   (('v, 'w, 'x) router, go_error option) proc" where
  "register pb Cv handler version maxOccupancy ev k =
    (case Marshal (pbTpRegisterRequest pb)
        \<lparr>TpRegisterRequest_Family = h_FamilyName handler, TpRegisterRequest_Version = version,
         TpRegisterRequest_Namespaces = h_Namespaces handler, TpRegisterRequest_MaxOccupancy = of_nat maxOccupancy\<rparr> of
       (_, Some err) \<Rightarrow> retP (Some err)
     | (regRequestData, None) \<Rightarrow>
        bindP (on_validator (c_SendNewMsg Cv Message_TP_REGISTER_REQUEST regRequestData)) (\<lambda>(corrId, err).
          case err of
            Some e \<Rightarrow> retP (Some e)
          | None \<Rightarrow>
             (case ev of
                PollFailed e \<Rightarrow> retP (Some (ErrorString (''Polling failed: '' @ Error e)))
              | ShutdownReady \<Rightarrow> retP (Some (ErrorString ''Received shutdown while registering''))
              | ValidatorReady taken \<Rightarrow>
                 bindP (on_validator (c_RecvMsg Cv k)) (\<lambda>(_, msg, err).
                   case err of
                     Some e \<Rightarrow> retP (Some e)
                   | None \<Rightarrow>
                      bindP (if GetCorrelationId msg \<noteq> corrId then queue_send taken msg else retP ())
                        (\<lambda>_. retP (register_response pb msg))))))"

text \<open>All handlers with all their versions, one after the other; the first error ends it.\<close>

fun register_all ::
  "tp_pb \<Rightarrow> 'v Connection \<Rightarrow> nat \<Rightarrow> ('s TransactionHandler \<times> string) list \<Rightarrow> (register_event \<times> nat) list \<Rightarrow>
   (('v, 'w, 'x) router, go_error option) proc" where
  "register_all pb Cv maxQueue [] evs = retP None"
| "register_all pb Cv maxQueue (hv # hvs) [] = (\<lambda>r. (Block, r))"
| "register_all pb Cv maxQueue ((handler, version) # hvs) ((ev, k) # evs) =
    bindP (register pb Cv handler version maxQueue ev k) (\<lambda>err.
      case err of
        Some e \<Rightarrow> retP (Some (ErrorString (''Error registering handler ('' @ h_FamilyName handler @ '', '' @ version
          @ '', '' @ show_strings (h_Namespaces handler) @ ''): '' @ Error e)))
      | None \<Rightarrow> register_all pb Cv maxQueue hvs evs)"

definition handler_versions :: "'s TransactionHandler list \<Rightarrow> ('s TransactionHandler \<times> string) list" where
  "handler_versions handlers = concat (map (\<lambda>h. map (Pair h) (h_FamilyVersions h)) handlers)"

section \<open>The poll loop and Start\<close>

text \<open>
  What the loop of start is told: which socket is ready, with the event of the monitor socket, or
  that polling failed; and that a worker thread has taken the oldest message off the queue.
\<close>

datatype poll_event =
    PollValidator | PollMonitor "go_error + int" | PollWorkers | PollShutdown | PollError go_error | WorkTaken

text \<open>The loop returns the restart flag and an error; when nothing more happens it waits.\<close>

fun poll_loop ::
  "tp_pb \<Rightarrow> 'v Connection \<Rightarrow> 'w Connection \<Rightarrow> 'x Connection \<Rightarrow> 'x Connection \<Rightarrow> int \<Rightarrow> nat \<Rightarrow> bool list \<Rightarrow> bool \<Rightarrow>
   poll_event list \<Rightarrow> (('v, 'w, 'x) router, bool \<times> go_error option) proc" where
  "poll_loop pb Cv Cw Ctx Crx disc n done restart [] = (\<lambda>r. (Block, r))"
| "poll_loop pb Cv Cw Ctx Crx disc n done restart (ev # evs) =
    (case ev of
       PollError e \<Rightarrow> retP (restart, Some (ErrorString (''Polling failed: '' @ Error e)))
     | PollValidator \<Rightarrow>
        bindP (receiveValidator pb Cv Cw) (\<lambda>_. poll_loop pb Cv Cw Ctx Crx disc n done restart evs)
     | PollMonitor received \<Rightarrow>
        bindP (receiveMonitor Ctx disc received) (\<lambda>restart'. poll_loop pb Cv Cw Ctx Crx disc n done restart' evs)
     | PollWorkers \<Rightarrow>
        bindP (receiveWorkers pb Cv Cw) (\<lambda>_. poll_loop pb Cv Cw Ctx Crx disc n done restart evs)
     | PollShutdown \<Rightarrow> bindP (receiveShutdown pb Cv Cw Crx n done) (\<lambda>restart'. retP (restart', None))
     | WorkTaken \<Rightarrow>
        (\<lambda>r. poll_loop pb Cv Cw Ctx Crx disc n done restart evs (r\<lparr>r_queue := tl (r_queue r)\<rparr>)))"

text \<open>
  One run of start sees a ZMQ context, an identifier source per connection, the answers to the
  registrations, the events of the loop and the done signals of the workers.  How the two ends of
  the shutdown pair are linked inside the ZMQ library is the parameter \<open>pair\<close>; the source ignores
  an error in creating the sending end.
\<close>

record 'p start_input =
  si_context :: "'p zmq_context"
  si_uuid :: "nat \<Rightarrow> nat \<Rightarrow> string"
  si_registrations :: "(register_event \<times> nat) list"
  si_events :: "poll_event list"
  si_workers_done :: "bool list"

definition start ::
  "tp_pb \<Rightarrow> zmq_constants \<Rightarrow> ((go_error + 'p ZmqConnection) \<Rightarrow> 'p ZmqConnection \<Rightarrow> 'x) \<Rightarrow> 'x Connection \<Rightarrow> 'x Connection \<Rightarrow>
   's TransactionProcessor \<Rightarrow> 'p start_input \<Rightarrow> (bool \<times> go_error option) outcome" where
  "start pb Z pair Ctx Crx self inp =
    (let ctx = si_context inp; C = zmq_Connection (pbMessage pb);
         fail = (\<lambda>what err. Ret (False, Some (ErrorString (what @ Error err)))) in
     case NewConnection ctx (si_uuid inp 0) 0 (z_DEALER Z) (tp_uri self) False of
       Inl err \<Rightarrow> fail ''Could not connect to validator: '' err
     | Inr validator \<Rightarrow>
    (case Monitor ctx (z_EVENT_DISCONNECTED Z) validator of
       (Panic e, _) \<Rightarrow> Panic e
     | (Block, _) \<Rightarrow> Block
     | (Ret (Inl err), _) \<Rightarrow> fail ''Could not monitor validator connection: '' err
     | (Ret (Inr monitor), validator) \<Rightarrow>
    (case NewConnection ctx (si_uuid inp 1) 0 (z_ROUTER Z) ''inproc://workers'' True of
       Inl err \<Rightarrow> fail ''Could not create thread pool router: '' err
     | Inr workers \<Rightarrow>
    (case NewConnection ctx (si_uuid inp 2) 0 (zc_PAIR ctx) ''inproc://shutdown'' True of
       Inl err \<Rightarrow> fail ''Could not create shutdown connection: '' err
     | Inr shutdown_rx \<Rightarrow>
       (let shutdown_tx = NewConnection ctx (si_uuid inp 3) 0 (zc_PAIR ctx) ''inproc://shutdown'' False in
        fst (bindP (register_all pb C (tp_maxQueue self) (handler_versions (tp_handlers self)) (si_registrations inp))
          (\<lambda>err. case err of
              Some e \<Rightarrow> retP (False, Some e)
            | None \<Rightarrow> poll_loop pb C C Ctx Crx (z_EVENT_DISCONNECTED Z) (tp_nThreads self) (si_workers_done inp) False (si_events inp))
          \<lparr>r_validator = validator, r_workers = workers, r_shutdown = pair shutdown_tx shutdown_rx, r_ids = Map.empty,
           r_queue = [], r_cap = tp_maxQueue self, r_closed = False, r_monitor_closed = False\<rparr>))))))"

text \<open>
  Start calls start again as long as it asks for a reconnect; each turn makes a new ZMQ context,
  or panics when that fails.
\<close>

fun Start ::
  "tp_pb \<Rightarrow> zmq_constants \<Rightarrow> ((go_error + 'p ZmqConnection) \<Rightarrow> 'p ZmqConnection \<Rightarrow> 'x) \<Rightarrow> 'x Connection \<Rightarrow> 'x Connection \<Rightarrow>
   's TransactionProcessor \<Rightarrow> (go_error + 'p start_input) list \<Rightarrow> go_error option outcome" where
  "Start pb Z pair Ctx Crx self [] = Block"
| "Start pb Z pair Ctx Crx self (Inl err # inps) = Panic (''Failed to create ZMQ context: '' @ Error err)"
| "Start pb Z pair Ctx Crx self (Inr inp # inps) =
    (case start pb Z pair Ctx Crx self inp of
       Ret (reconnect, Some err) \<Rightarrow> Ret (Some err)
     | Ret (reconnect, None) \<Rightarrow> if reconnect then Start pb Z pair Ctx Crx self inps else Ret None
     | Panic e \<Rightarrow> Panic e
     | Block \<Rightarrow> Block)"

section \<open>Routing over connections that return\<close>

text \<open>What the router relies on: a send returns, with or without an error.\<close>

locale live_connection =
  fixes C :: "'s Connection"
  assumes send_returns: "\<exists>e s'. c_SendData C i d s = (Ret e, s')"
    and send_msg_returns: "\<exists>e s'. c_SendMsg C t b k s = (Ret e, s')"

interpretation zmq_live: live_connection "zmq_Connection cm" for cm
  by unfold_locales
    (auto simp: zmq_Connection_def SendData_def SendMsg_def SendMsgTo_def Let_def split: prod.splits option.splits)

text \<open>What can happen between two messages: messages are routed, a worker takes work.\<close>

datatype route_event = FromValidator bytes | FromWorker string bytes | TakeWork

fun route :: "tp_pb \<Rightarrow> 'v Connection \<Rightarrow> 'w Connection \<Rightarrow> route_event \<Rightarrow> (('v, 'w, 'x) router, unit) proc" where
  "route pb Cv Cw (FromValidator data) = recovering (route_validator pb Cv Cw data)"
| "route pb Cv Cw (FromWorker w data) = route_worker pb Cv w data"
| "route pb Cv Cw TakeWork = (\<lambda>r. (Ret (), r\<lparr>r_queue := tl (r_queue r)\<rparr>))"

fun route_run :: "tp_pb \<Rightarrow> 'v Connection \<Rightarrow> 'w Connection \<Rightarrow> route_event list \<Rightarrow> (('v, 'w, 'x) router, unit) proc" where
  "route_run pb Cv Cw [] = retP ()"
| "route_run pb Cv Cw (ev # evs) = bindP (route pb Cv Cw ev) (\<lambda>_. route_run pb Cv Cw evs)"

definition corr_of :: "tp_pb \<Rightarrow> route_event \<Rightarrow> string option" where
  "corr_of pb ev = (case ev of
      FromValidator d \<Rightarrow> Some (Message_CorrelationId (fst (Unmarshal (pbMessage pb) d)))
    | FromWorker w d \<Rightarrow> Some (Message_CorrelationId (fst (Unmarshal (pbMessage pb) d)))
    | TakeWork \<Rightarrow> None)"

text \<open>The branches of the router, one equation each.\<close>

lemma route_validator_bad: "Unmarshal (pbMessage pb) d = (m, Some e) \<Longrightarrow> route_validator pb Cv Cw d r = (Ret (), r)"
  by (simp add: route_validator_def LoadMsg_def)

lemma route_validator_request:
  assumes "Unmarshal (pbMessage pb) d = (m, None)" "Message_MessageType m = Message_TP_PROCESS_REQUEST"
  shows "route_validator pb Cv Cw d r =
    (if r_closed r then (Panic ''send on closed channel'', r)
     else if length (r_queue r) < r_cap r then (Ret (), r\<lparr>r_queue := r_queue r @ [m]\<rparr>)
     else deny_request pb Cv (Message_CorrelationId m) r)"
  using assms by (simp add: route_validator_def LoadMsg_def try_send_def)

lemma route_validator_ping:
  assumes "Unmarshal (pbMessage pb) d = (m, None)" "Message_MessageType m = Message_PING_REQUEST"
  shows "route_validator pb Cv Cw d r =
    bindP (on_validator (c_SendMsg Cv Message_PING_RESPONSE (fst (Marshal (pbPingResponse pb) PingResponse)) (Message_CorrelationId m)))
      (\<lambda>err. retP ()) r"
  using assms by (simp add: route_validator_def LoadMsg_def split: prod.split)

lemma forget_id_eq:
  "(case err of Some e \<Rightarrow> (Ret (), r) | None \<Rightarrow> (Ret (), r\<lparr>r_ids := (r_ids r)(k := None)\<rparr>)) =
    (Ret (), if err = None then r\<lparr>r_ids := (r_ids r)(k := None)\<rparr> else r)"
  by (simp split: option.split)

lemma route_validator_response:
  assumes "Unmarshal (pbMessage pb) d = (m, None)"
    and "Message_MessageType m \<notin> {Message_TP_PROCESS_REQUEST, Message_PING_REQUEST}"
  shows "route_validator pb Cv Cw d r =
    (case r_ids r (Message_CorrelationId m) of
       None \<Rightarrow> (Ret (), r)
     | Some w \<Rightarrow> if Message_CorrelationId m = [] then (Ret (), r)
        else bindP (on_workers (c_SendData Cw w d)) (\<lambda>err r'. (Ret (),
          if err = None then r'\<lparr>r_ids := (r_ids r')(Message_CorrelationId m := None)\<rparr> else r')) r)"
  using assms by (simp add: route_validator_def LoadMsg_def Let_def forget_id_eq split: option.split)

lemma route_worker_ok:
  assumes "Unmarshal (pbMessage pb) d = (m, None)"
  shows "route_worker pb Cv w d r = bindP (on_validator (c_SendData Cv [] d)) (\<lambda>err. retP ())
    (if Message_MessageType m \<noteq> Message_TP_PROCESS_RESPONSE
     then r\<lparr>r_ids := (r_ids r)(Message_CorrelationId m \<mapsto> w)\<rparr> else r)"
  using assms by (simp add: route_worker_def LoadMsg_def)

text \<open>
  Every event returns.  It touches the routing table only at its own correlation id, keeps the
  queue within its capacity and adds only process requests to it.
\<close>

definition routed :: "tp_pb \<Rightarrow> route_event \<Rightarrow> ('v, 'w, 'x) router \<Rightarrow> ('v, 'w, 'x) router \<Rightarrow> bool" where
  "routed pb ev r r' \<longleftrightarrow> (\<forall>k. corr_of pb ev \<noteq> Some k \<longrightarrow> r_ids r' k = r_ids r k) \<and> r_cap r' = r_cap r \<and>
     (length (r_queue r) \<le> r_cap r \<longrightarrow> length (r_queue r') \<le> r_cap r) \<and>
     (\<forall>m \<in> set (r_queue r') - set (r_queue r). Message_MessageType m = Message_TP_PROCESS_REQUEST)"

locale router_connections = v: live_connection Cv + w: live_connection Cw
  for Cv :: "'v Connection" and Cw :: "'w Connection"
begin

lemma validator_send:
  obtains e v where "on_validator (c_SendMsg Cv t b k) r = (Ret e, r\<lparr>r_validator := v\<rparr>)"
  using v.send_msg_returns [of t b k "r_validator r"] that by (auto simp: on_validator_def)

lemma validator_data:
  obtains e v where "on_validator (c_SendData Cv i d) r = (Ret e, r\<lparr>r_validator := v\<rparr>)"
  using v.send_returns [of i d "r_validator r"] that by (auto simp: on_validator_def)

lemma workers_data:
  obtains e w where "on_workers (c_SendData Cw i d) r = (Ret e, r\<lparr>r_workers := w\<rparr>)"
  using w.send_returns [of i d "r_workers r"] that by (auto simp: on_workers_def)

lemma deny_returns: "\<exists>v. deny_request pb Cv k r = (Ret (), r\<lparr>r_validator := v\<rparr>)"
proof -
  let ?b = "fst (Marshal (pbTpProcessResponse pb)
           \<lparr>TpProcessResponse_Status = TpProcessResponse_INTERNAL_ERROR,
            TpProcessResponse_Message = ''Work queue is full, denying request'', TpProcessResponse_ExtendedData = []\<rparr>)"
  obtain e v where "on_validator (c_SendMsg Cv Message_TP_PROCESS_RESPONSE ?b k) r = (Ret e, r\<lparr>r_validator := v\<rparr>)"
    by (rule validator_send)
  then show ?thesis by (auto simp: deny_request_def Let_def case_prod_unfold)
qed

lemma route_validator_returns:
  assumes m: "Unmarshal (pbMessage pb) d = (m, e)"
  shows "\<exists>r'. (route_validator pb Cv Cw d r = (Ret (), r') \<or> (\<exists>p. route_validator pb Cv Cw d r = (Panic p, r'))) \<and>
    routed pb (FromValidator d) r r'"
proof (cases e)
  case (Some x)
  with m show ?thesis by (auto simp: route_validator_bad routed_def)
next
  case None
  note m = m [unfolded None]
  consider (req) "Message_MessageType m = Message_TP_PROCESS_REQUEST" | (ping) "Message_MessageType m = Message_PING_REQUEST"
    | (resp) "Message_MessageType m \<notin> {Message_TP_PROCESS_REQUEST, Message_PING_REQUEST}" by blast
  then show ?thesis
  proof cases
    case req
    from deny_returns [of pb "Message_CorrelationId m" r] obtain v where
      "deny_request pb Cv (Message_CorrelationId m) r = (Ret (), r\<lparr>r_validator := v\<rparr>)" by blast
    with req show ?thesis by (auto simp: route_validator_request [OF m] routed_def)
  next
    case ping
    obtain x v where "on_validator (c_SendMsg Cv Message_PING_RESPONSE (fst (Marshal (pbPingResponse pb) PingResponse))
        (Message_CorrelationId m)) r = (Ret x, r\<lparr>r_validator := v\<rparr>)" by (rule validator_send)
    with ping show ?thesis by (auto simp: route_validator_ping [OF m] routed_def)
  next
    case resp
    show ?thesis
    proof (cases "r_ids r (Message_CorrelationId m)")
      case None
      with resp show ?thesis by (auto simp: route_validator_response [OF m] routed_def)
    next
      case (Some w)
      obtain x w' where "on_workers (c_SendData Cw w d) r = (Ret x, r\<lparr>r_workers := w'\<rparr>)" by (rule workers_data)
      with resp Some show ?thesis by (auto simp: route_validator_response [OF m] routed_def corr_of_def m)
    qed
  qed
qed

lemma route_returns: "\<exists>r'. route pb Cv Cw ev r = (Ret (), r') \<and> routed pb ev r r'"
proof (cases ev)
  case (FromValidator d)
  obtain m e where "Unmarshal (pbMessage pb) d = (m, e)" by (cases "Unmarshal (pbMessage pb) d")
  from route_validator_returns [OF this, of r] show ?thesis by (auto simp: FromValidator recovering_def)
next
  case (FromWorker w d)
  obtain m e where m: "Unmarshal (pbMessage pb) d = (m, e)" by (cases "Unmarshal (pbMessage pb) d")
  show ?thesis
  proof (cases e)
    case (Some x)
    with m show ?thesis by (auto simp: FromWorker route_worker_def LoadMsg_def routed_def)
  next
    case None
    let ?r = "if Message_MessageType m \<noteq> Message_TP_PROCESS_RESPONSE then r\<lparr>r_ids := (r_ids r)(Message_CorrelationId m \<mapsto> w)\<rparr> else r"
    obtain x v where "on_validator (c_SendData Cv [] d) ?r = (Ret x, ?r\<lparr>r_validator := v\<rparr>)" by (rule validator_data)
    with None m show ?thesis by (auto simp: FromWorker route_worker_ok routed_def corr_of_def)
  qed
next
  case TakeWork
  then show ?thesis by (cases "r_queue r") (auto simp: routed_def)
qed

lemma route_run_returns:
  "\<exists>r'. route_run pb Cv Cw evs r = (Ret (), r') \<and> r_cap r' = r_cap r \<and>
    (\<forall>k. (\<forall>ev \<in> set evs. corr_of pb ev \<noteq> Some k) \<longrightarrow> r_ids r' k = r_ids r k) \<and>
    (length (r_queue r) \<le> r_cap r \<longrightarrow> length (r_queue r') \<le> r_cap r) \<and>
    (\<forall>m \<in> set (r_queue r') - set (r_queue r). Message_MessageType m = Message_TP_PROCESS_REQUEST)"
proof (induction evs arbitrary: r)
  case Nil
  then show ?case by simp
next
  case (Cons ev evs)
  from route_returns [of pb ev r] obtain r1 where 1: "route pb Cv Cw ev r = (Ret (), r1)" "routed pb ev r r1" by blast
  from Cons.IH [of r1] obtain r2 where 2: "route_run pb Cv Cw evs r1 = (Ret (), r2)" "r_cap r2 = r_cap r1"
    "\<forall>k. (\<forall>ev \<in> set evs. corr_of pb ev \<noteq> Some k) \<longrightarrow> r_ids r2 k = r_ids r1 k"
    "length (r_queue r1) \<le> r_cap r1 \<longrightarrow> length (r_queue r2) \<le> r_cap r1"
    "\<forall>m \<in> set (r_queue r2) - set (r_queue r1). Message_MessageType m = Message_TP_PROCESS_REQUEST" by blast
  show ?case
  proof (intro exI [of _ r2] conjI)
    show "\<forall>m \<in> set (r_queue r2) - set (r_queue r). Message_MessageType m = Message_TP_PROCESS_REQUEST"
      using 1(2) 2(5) unfolding routed_def by blast
  qed (use 1 2 in \<open>auto simp: routed_def\<close>)
qed

text \<open>A request of a worker is remembered until its response comes.\<close>

lemma response_reaches_worker:
  assumes "Unmarshal (pbMessage pb) d1 = (m1, None)" "Message_MessageType m1 \<noteq> Message_TP_PROCESS_RESPONSE"
    and "Message_CorrelationId m1 = k" "k \<noteq> []"
    and "\<forall>ev \<in> set evs. corr_of pb ev \<noteq> Some k"
    and "Unmarshal (pbMessage pb) d2 = (m2, None)" "Message_CorrelationId m2 = k"
    and "Message_MessageType m2 \<notin> {Message_TP_PROCESS_REQUEST, Message_PING_REQUEST}"
  shows "\<exists>r1. route_run pb Cv Cw (FromWorker w d1 # evs) r = (Ret (), r1) \<and> r_ids r1 k = Some w \<and>
    route_validator pb Cv Cw d2 r1 = bindP (on_workers (c_SendData Cw w d2)) (\<lambda>err r'. (Ret (),
      if err = None then r'\<lparr>r_ids := (r_ids r')(k := None)\<rparr> else r')) r1"
proof -
  let ?r = "r\<lparr>r_ids := (r_ids r)(k \<mapsto> w)\<rparr>"
  obtain x v where "on_validator (c_SendData Cv [] d1) ?r = (Ret x, ?r\<lparr>r_validator := v\<rparr>)" by (rule validator_data)
  with assms(1-3) have 1: "route pb Cv Cw (FromWorker w d1) r = (Ret (), ?r\<lparr>r_validator := v\<rparr>)"
    by (simp add: route_worker_ok)
  obtain r1 where 2: "route_run pb Cv Cw evs (?r\<lparr>r_validator := v\<rparr>) = (Ret (), r1)"
    "r_ids r1 k = r_ids (?r\<lparr>r_validator := v\<rparr>) k"
    using route_run_returns [of pb evs "?r\<lparr>r_validator := v\<rparr>"] assms(5) by blast
  show ?thesis
  proof (intro exI [of _ r1] conjI)
    show "route_run pb Cv Cw (FromWorker w d1 # evs) r = (Ret (), r1)" using 1 2(1) by simp
    show ids: "r_ids r1 k = Some w" using 2(2) by simp
    show "route_validator pb Cv Cw d2 r1 = bindP (on_workers (c_SendData Cw w d2)) (\<lambda>err r'. (Ret (),
      if err = None then r'\<lparr>r_ids := (r_ids r')(k := None)\<rparr> else r')) r1"
      using ids assms(4) by (simp add: route_validator_response [OF assms(6,8)] assms(7) cong: if_cong)
  qed
qed

end

interpretation zmq_router: router_connections "zmq_Connection cm" "zmq_Connection cm" for cm
  by unfold_locales

text \<open>Closing a ZMQ connection and sending on it always return.\<close>

lemma zmq_Close [simp]:
  "c_Close (zmq_Connection cm) c = (Ret (), c\<lparr>conn_socket := (conn_socket c)\<lparr>sk_closed := True\<rparr>\<rparr>)"
  by (simp add: zmq_Connection_def Close_def)

lemma zmq_SendNewMsg_returns: "\<exists>k e c'. c_SendNewMsg (zmq_Connection cm) t b c = (Ret (k, e), c')"
  by (simp add: zmq_Connection_def SendNewMsg_def SendNewMsgTo_def GenerateId_def SendMsgTo_def SendData_def Let_def
      bindP_def split: prod.split option.split)

section \<open>Properties\<close>

text \<open>
  C13: a response of the validator reaches the worker that asked.  When a worker has sent a
  request with a correlation id, the main thread remembers the worker, whatever other messages of
  the validator and of the workers it routes meanwhile, as long as these have other correlation
  ids; a response with that id is then sent, unchanged, to exactly that worker, and the id is
  forgotten when the send succeeds.
\<close>

theorem worker_response_routed:
  fixes r :: "('p ZmqConnection, 'p ZmqConnection, 'x) router"
  assumes "Unmarshal (pbMessage pb) d1 = (m1, None)" "Message_MessageType m1 \<noteq> Message_TP_PROCESS_RESPONSE"
    and "Message_CorrelationId m1 = k" "k \<noteq> []"
    and "\<forall>ev \<in> set evs. corr_of pb ev \<noteq> Some k"
    and "Unmarshal (pbMessage pb) d2 = (m2, None)" "Message_CorrelationId m2 = k"
    and "Message_MessageType m2 \<notin> {Message_TP_PROCESS_REQUEST, Message_PING_REQUEST}"
  shows "\<exists>r1. route_run pb (zmq_Connection cm) (zmq_Connection cm) (FromWorker w d1 # evs) r = (Ret (), r1) \<and> r_ids r1 k = Some w \<and>
    (\<forall>err ws. SendData w d2 (r_workers r1) = (Ret err, ws) \<longrightarrow>
      route_validator pb (zmq_Connection cm) (zmq_Connection cm) d2 r1 =
        (Ret (), r1\<lparr>r_workers := ws, r_ids := if err = None then (r_ids r1)(k := None) else r_ids r1\<rparr>))"
proof -
  from zmq_router.response_reaches_worker [OF assms, of cm w r] obtain r1 where r1:
    "route_run pb (zmq_Connection cm) (zmq_Connection cm) (FromWorker w d1 # evs) r = (Ret (), r1)" "r_ids r1 k = Some w"
    "route_validator pb (zmq_Connection cm) (zmq_Connection cm) d2 r1 =
      bindP (on_workers (c_SendData (zmq_Connection cm) w d2)) (\<lambda>err r'. (Ret (),
        if err = None then r'\<lparr>r_ids := (r_ids r')(k := None)\<rparr> else r')) r1" by blast
  moreover have "route_validator pb (zmq_Connection cm) (zmq_Connection cm) d2 r1 =
      (Ret (), r1\<lparr>r_workers := ws, r_ids := if err = None then (r_ids r1)(k := None) else r_ids r1\<rparr>)"
    if "SendData w d2 (r_workers r1) = (Ret err, ws)" for err ws
    using that unfolding r1(3) by (simp add: on_workers_def zmq_Connection_def bindP_def)
  ultimately show ?thesis by blast
qed

text \<open>A router on two connections that accept every message.\<close>

definition demo_router :: "nat \<Rightarrow> Message list \<Rightarrow> (unit ZmqConnection, unit ZmqConnection, unit ZmqConnection) router" where
  "demo_router cap queue = \<lparr>r_validator = demo_unit_conn, r_workers = demo_unit_conn, r_shutdown = demo_unit_conn,
     r_ids = Map.empty, r_queue = queue, r_cap = cap, r_closed = False, r_monitor_closed = False\<rparr>"

definition demo_wire :: "Message_MessageType \<Rightarrow> string \<Rightarrow> bytes" where
  "demo_wire t k = fst (Marshal unary_codec \<lparr>Message_MessageType = t, Message_CorrelationId = k, Message_Content = []\<rparr>)"

lemma demo_wire_decodes [simp]:
  "Unmarshal unary_codec (demo_wire t k) = (\<lparr>Message_MessageType = t, Message_CorrelationId = k, Message_Content = []\<rparr>, None)"
  by (simp add: demo_wire_def)

lemma worker_response_routed_witness:
  "\<exists>r1. route_run unary_tp_pb (zmq_Connection unary_codec) (zmq_Connection unary_codec)
      [FromWorker ''w1'' (demo_wire Message_TP_STATE_GET_REQUEST ''1''),
       FromWorker ''w2'' (demo_wire Message_TP_STATE_GET_REQUEST ''2''),
       FromValidator (demo_wire Message_TP_STATE_GET_RESPONSE ''2'')] (demo_router 5 []) = (Ret (), r1) \<and>
    r_ids r1 ''1'' = Some ''w1''"
proof -
  have "\<forall>ev \<in> set [FromWorker ''w2'' (demo_wire Message_TP_STATE_GET_REQUEST ''2''),
       FromValidator (demo_wire Message_TP_STATE_GET_RESPONSE ''2'')]. corr_of unary_tp_pb ev \<noteq> Some ''1''"
    by (simp add: corr_of_def)
  from worker_response_routed [OF _ _ _ _ this,
      of "demo_wire Message_TP_STATE_GET_REQUEST ''1''"
        "\<lparr>Message_MessageType = Message_TP_STATE_GET_REQUEST, Message_CorrelationId = ''1'', Message_Content = []\<rparr>"
        "demo_wire Message_TP_STATE_GET_RESPONSE ''1''"
        "\<lparr>Message_MessageType = Message_TP_STATE_GET_RESPONSE, Message_CorrelationId = ''1'', Message_Content = []\<rparr>"
        unary_codec "''w1''" "demo_router 5 []"]
  obtain r1 where "route_run unary_tp_pb (zmq_Connection unary_codec) (zmq_Connection unary_codec)
      [FromWorker ''w1'' (demo_wire Message_TP_STATE_GET_REQUEST ''1''),
       FromWorker ''w2'' (demo_wire Message_TP_STATE_GET_REQUEST ''2''),
       FromValidator (demo_wire Message_TP_STATE_GET_RESPONSE ''2'')] (demo_router 5 []) = (Ret (), r1)"
    "r_ids r1 ''1'' = Some ''w1''" by (auto simp del: route_run.simps)
  then show ?thesis by blast
qed

text \<open>
  C21: the work queue stays bounded and holds only work.  Routing any sequence of messages,
  interleaved with workers that take work, always returns, also after a panic inside; the queue
  never exceeds its capacity, everything added to it is a process request, and the ids table
  changes only at the correlation ids of the messages routed.
\<close>

theorem route_run_bounded:
  fixes r :: "('p ZmqConnection, 'p ZmqConnection, 'x) router"
  assumes "length (r_queue r) \<le> r_cap r"
  shows "\<exists>r'. route_run pb (zmq_Connection cm) (zmq_Connection cm) evs r = (Ret (), r') \<and> r_cap r' = r_cap r \<and>
    length (r_queue r') \<le> r_cap r' \<and>
    (\<forall>m \<in> set (r_queue r') - set (r_queue r). Message_MessageType m = Message_TP_PROCESS_REQUEST) \<and>
    (\<forall>k. (\<forall>ev \<in> set evs. corr_of pb ev \<noteq> Some k) \<longrightarrow> r_ids r' k = r_ids r k)"
proof -
  from zmq_router.route_run_returns [of pb cm evs r] obtain r' where r':
    "route_run pb (zmq_Connection cm) (zmq_Connection cm) evs r = (Ret (), r')" "r_cap r' = r_cap r"
    "\<forall>k. (\<forall>ev \<in> set evs. corr_of pb ev \<noteq> Some k) \<longrightarrow> r_ids r' k = r_ids r k"
    "length (r_queue r) \<le> r_cap r \<longrightarrow> length (r_queue r') \<le> r_cap r"
    "\<forall>m \<in> set (r_queue r') - set (r_queue r). Message_MessageType m = Message_TP_PROCESS_REQUEST" by blast
  with assms show ?thesis by auto
qed

lemma route_run_bounded_witness:
  "\<exists>r'. route_run unary_tp_pb (zmq_Connection unary_codec) (zmq_Connection unary_codec)
      [FromValidator (demo_wire Message_TP_PROCESS_REQUEST ''1''), FromValidator (demo_wire Message_TP_PROCESS_REQUEST ''2'')]
      (demo_router 1 []) = (Ret (), r') \<and> length (r_queue r') \<le> 1"
  using route_run_bounded [of "demo_router 1 []" unary_tp_pb unary_codec
      "[FromValidator (demo_wire Message_TP_PROCESS_REQUEST ''1''), FromValidator (demo_wire Message_TP_PROCESS_REQUEST ''2'')]"]
  by (fastforce simp: demo_router_def)

text \<open>
  A process request is queued or denied, never lost.  With room the message is put at the
  end of the queue and nothing is sent; when the queue is full, nothing is queued and one
  response with status INTERNAL_ERROR and the correlation id of the request is sent to the
  validator.  A ping is answered at once, whatever the state of the queue.
\<close>

theorem request_queued_or_denied:
  assumes "Unmarshal (pbMessage pb) d = (m, None)" "\<not> r_closed r"
  shows "(Message_MessageType m = Message_TP_PROCESS_REQUEST \<longrightarrow>
      route_validator pb Cv Cw d r =
        (if length (r_queue r) < r_cap r then (Ret (), r\<lparr>r_queue := r_queue r @ [m]\<rparr>)
         else bindP (on_validator (c_SendMsg Cv Message_TP_PROCESS_RESPONSE (fst (Marshal (pbTpProcessResponse pb)
             \<lparr>TpProcessResponse_Status = TpProcessResponse_INTERNAL_ERROR,
              TpProcessResponse_Message = ''Work queue is full, denying request'', TpProcessResponse_ExtendedData = []\<rparr>))
             (Message_CorrelationId m))) (\<lambda>err. retP ()) r)) \<and>
    (Message_MessageType m = Message_PING_REQUEST \<longrightarrow>
      route_validator pb Cv Cw d r =
        bindP (on_validator (c_SendMsg Cv Message_PING_RESPONSE (fst (Marshal (pbPingResponse pb) PingResponse))
          (Message_CorrelationId m))) (\<lambda>err. retP ()) r)"
  using assms route_validator_request [OF assms(1), of Cv Cw r] route_validator_ping [OF assms(1), of Cv Cw r]
  by (auto simp: deny_request_def case_prod_unfold Let_def)

lemma request_queued_or_denied_witness:
  "route_validator unary_tp_pb (zmq_Connection unary_codec) (zmq_Connection unary_codec)
      (demo_wire Message_TP_PROCESS_REQUEST ''1'') (demo_router 1 []) =
    (Ret (), demo_router 1 [\<lparr>Message_MessageType = Message_TP_PROCESS_REQUEST, Message_CorrelationId = ''1'', Message_Content = []\<rparr>])"
  using request_queued_or_denied [of unary_tp_pb "demo_wire Message_TP_PROCESS_REQUEST ''1''" _ "demo_router 1 []"
      "zmq_Connection unary_codec" "zmq_Connection unary_codec"]
  by (simp add: demo_router_def)

text \<open>
  C33: a shutdown ends once the workers are done, and it always reports that unregistering timed
  out, whatever the validator answers: nothing is ever sent on the channel it waits for.  The
  queue, the monitor and all three connections are closed.
\<close>

theorem shutdown_times_out:
  fixes r :: "('p ZmqConnection, 'p ZmqConnection, 'p ZmqConnection) router"
  assumes "\<not> r_closed r" "worker_count \<le> length workers_done"
  shows "\<exists>r'. shutdown pb (zmq_Connection cm) (zmq_Connection cm) (zmq_Connection cm) worker_count workers_done False r =
      (Ret [UnregisterTimedOut], r') \<and> r_closed r' \<and> r_monitor_closed r' \<and> sk_closed (conn_socket (r_validator r')) \<and>
      sk_closed (conn_socket (r_workers r')) \<and> sk_closed (conn_socket (r_shutdown r'))"
proof -
  let ?b = "fst (Marshal (pbTpUnregisterRequest pb) TpUnregisterRequest)"
  obtain k e c1 where "c_SendNewMsg (zmq_Connection cm) Message_TP_UNREGISTER_REQUEST ?b (r_validator r) = (Ret (k, e), c1)"
    using zmq_SendNewMsg_returns [of cm Message_TP_UNREGISTER_REQUEST ?b "r_validator r"] by blast
  with assms show ?thesis
    by (auto simp: shutdown_def bindP_def on_workers_def on_validator_def on_shutdown_def await_unregister_def split: prod.split)
qed

lemma shutdown_times_out_witness:
  "\<exists>r'. shutdown unary_tp_pb (zmq_Connection unary_codec) (zmq_Connection unary_codec) (zmq_Connection unary_codec)
      2 [True, False] False (demo_router 1 []) = (Ret [UnregisterTimedOut], r')"
  using shutdown_times_out [of "demo_router 1 []" 2 "[True, False]" unary_tp_pb unary_codec]
  by (auto simp: demo_router_def)

text \<open>
  A process request that arrives before the answer to a registration ends the processor's
  start.  The message is put on the queue, as the comment in the source foresees, but register
  then returns an error about its type instead of waiting on for the response.
\<close>

theorem register_early_request_fails:
  assumes "Marshal (pbTpRegisterRequest pb)
      \<lparr>TpRegisterRequest_Family = h_FamilyName handler, TpRegisterRequest_Version = version,
       TpRegisterRequest_Namespaces = h_Namespaces handler, TpRegisterRequest_MaxOccupancy = of_nat maxQueue\<rparr> = (b, None)"
    and "c_SendNewMsg Cv Message_TP_REGISTER_REQUEST b (r_validator r) = (Ret (corrId, None), v1)"
    and "c_RecvMsg Cv k v1 = (Ret (i, Some m, None), v2)"
    and "Message_MessageType m = Message_TP_PROCESS_REQUEST" "Message_CorrelationId m \<noteq> corrId"
    and "length (r_queue r) < r_cap r"
  shows "register_all pb Cv maxQueue ((handler, version) # hvs) ((ValidatorReady 0, k) # evs) r =
    (Ret (Some (ErrorString (''Error registering handler ('' @ h_FamilyName handler @ '', '' @ version @ '', '' @
       show_strings (h_Namespaces handler) @ ''): Received unexpected message type: TP_PROCESS_REQUEST''))),
     r\<lparr>r_validator := v2, r_queue := r_queue r @ [m]\<rparr>)"
  using assms
  by (simp add: register_def on_validator_def queue_send_def register_response_def Message_MessageType_String_def
      EnumStringOf_def Message_MessageType_name_def)

text \<open>A validator that answers a registration with a process request.\<close>

definition demo_impatient :: "unit ZmqConnection" where
  "demo_impatient = demo_unit_conn\<lparr>conn_uuid := (\<lambda>n. ''id''), conn_socket := (conn_socket demo_unit_conn)\<lparr>
     sk_deliver := (\<lambda>p frs. (p, [Inr [demo_wire Message_TP_PROCESS_REQUEST ''x'']], None))\<rparr>\<rparr>"

definition demo_plain_handler :: "unit TransactionHandler" where
  "demo_plain_handler = \<lparr>h_FamilyName = ''f'', h_FamilyVersions = [''1.0''], h_Namespaces = [''abc''],
     h_Apply = (\<lambda>request context. retP None)\<rparr>"

lemma demo_impatient_exchange:
  "\<exists>v1 v2. c_SendNewMsg (zmq_Connection unary_codec) Message_TP_REGISTER_REQUEST b demo_impatient = (Ret (''id'', None), v1) \<and>
    c_RecvMsg (zmq_Connection unary_codec) 0 v1 = (Ret ([], Some \<lparr>Message_MessageType = Message_TP_PROCESS_REQUEST,
      Message_CorrelationId = ''x'', Message_Content = []\<rparr>, None), v2)"
  by (simp add: zmq_Connection_def SendNewMsg_def SendNewMsgTo_def GenerateId_def SendMsgTo_def SendData_def SendMessage_def
      DumpMsg_def LoadMsg_def RecvMsg_def RecvData_def RecvMessage_def demo_impatient_def demo_unit_conn_def
      bindP_def split: prod.split option.split)
    (simp add: unary_codec_def)

lemma register_early_request_fails_witness:
  "\<exists>r'. register_all unary_tp_pb (zmq_Connection unary_codec) 100 [(demo_plain_handler, ''1.0'')] [(ValidatorReady 0, 0)]
      ((demo_router 100 [])\<lparr>r_validator := demo_impatient\<rparr>) =
    (Ret (Some (ErrorString (''Error registering handler (f, 1.0, [abc]): Received unexpected message type: TP_PROCESS_REQUEST''))), r')"
proof -
  let ?req = "\<lparr>TpRegisterRequest_Family = ''f'', TpRegisterRequest_Version = ''1.0'',
       TpRegisterRequest_Namespaces = [''abc''], TpRegisterRequest_MaxOccupancy = of_nat 100\<rparr>"
  from demo_impatient_exchange [of "fst (Marshal unary_codec ?req)"] obtain v1 v2 where ex:
    "c_SendNewMsg (zmq_Connection unary_codec) Message_TP_REGISTER_REQUEST (fst (Marshal unary_codec ?req)) demo_impatient = (Ret (''id'', None), v1)"
    "c_RecvMsg (zmq_Connection unary_codec) 0 v1 = (Ret ([], Some \<lparr>Message_MessageType = Message_TP_PROCESS_REQUEST,
      Message_CorrelationId = ''x'', Message_Content = []\<rparr>, None), v2)" by blast
  show ?thesis
    using register_early_request_fails [of unary_tp_pb demo_plain_handler "''1.0''" 100 _ "zmq_Connection unary_codec"
        "(demo_router 100 [])\<lparr>r_validator := demo_impatient\<rparr>", OF _ _ ex(2), of "fst (Marshal unary_codec ?req)" "''id''" "[]" "[]"] ex(1)
    by (simp add: demo_plain_handler_def demo_router_def show_strings_def unary_codec_def)
qed

text \<open>
  Every event of the monitor socket leads to a reconnect.  When the restart command that the
  event causes comes out of the shutdown socket and the workers are done, start returns with the
  restart flag and without an error, so Start goes on with a new run; this holds for a disconnect
  and also for the events that receiveMonitor reports as unexpected.
\<close>

theorem monitor_event_reconnects:
  fixes r :: "('p ZmqConnection, 'p ZmqConnection, 'x) router"
  assumes "\<not> r_closed r" "n \<le> length workers_done"
    and "c_SendData Ctx [] ''restart'' (r_shutdown r) = (Ret e1, x1)"
    and "c_RecvData Crx x1 = (Ret (i, ''restart'', e2), x2)" "c_Close Crx x2 = (Ret (), x3)"
  shows "\<exists>r'. poll_loop pb (zmq_Connection cm) (zmq_Connection cm) Ctx Crx disc n workers_done restart
      (PollMonitor (Inr event) # PollShutdown # evs) r = (Ret (True, None), r') \<and> r_closed r'"
  using assms
  by (simp add: receiveMonitor_def receiveShutdown_def shutdown_def on_shutdown_def on_workers_def on_validator_def bindP_def)

text \<open>Both ends of the pair in one state: what is sent arrives.\<close>

definition demo_pair :: "unit ZmqConnection" where
  "demo_pair = demo_unit_conn\<lparr>conn_socket := (conn_socket demo_unit_conn)\<lparr>sk_deliver := (\<lambda>p frs. (p, [Inr frs], None))\<rparr>\<rparr>"

lemma monitor_event_reconnects_witness:
  "\<exists>r'. poll_loop unary_tp_pb (zmq_Connection unary_codec) (zmq_Connection unary_codec) (zmq_Connection unary_codec)
      (zmq_Connection unary_codec) 512 1 [True] False [PollMonitor (Inr 512), PollShutdown]
      ((demo_router 1 [])\<lparr>r_shutdown := demo_pair\<rparr>) = (Ret (True, None), r') \<and> r_closed r'"
proof (rule monitor_event_reconnects)
  let ?C = "zmq_Connection unary_codec :: unit ZmqConnection Connection" and ?r = "(demo_router 1 [])\<lparr>r_shutdown := demo_pair\<rparr>"
  show "c_SendData ?C [] ''restart'' (r_shutdown ?r) = (Ret None, set_inbox [Inr [''restart'']] demo_pair)"
    by (simp add: demo_pair_def demo_unit_conn_def zmq_Connection_def SendData_def SendMessage_def)
  show "c_RecvData ?C (set_inbox [Inr [''restart'']] demo_pair) = (Ret ([], ''restart'', None), demo_pair)"
    by (simp add: demo_pair_def demo_unit_conn_def zmq_Connection_def RecvData_def RecvMessage_def)
  show "c_Close ?C demo_pair = (Ret (), snd (Close demo_pair))" by (simp add: Close_def)
qed (simp_all add: demo_router_def)

end
