(* ===== verification/Tp_Routed.thy ===== *)
theory Tp_Routed
  imports Processor Tp_System
begin

text \<open>
  A worker thread behind the main thread of processor/processor.go.  A worker is connected to the
  router socket of the main thread, not to the validator: what it sends goes through
  receiveWorkers to the validator, and what the validator answers goes through receiveValidator
  back to the worker.

  Here the peer of the worker's socket is the main thread itself, with its connection to the
  validator inside.  It is shown to keep the contract of a connection that serves state, so every
  result about handlers and workers that rests on this contract holds for a worker inside
  a transaction processor as well.
\<close>

section \<open>The main thread as a peer\<close>

text \<open>The socket to the workers records what is sent on it: lists of the worker's identity and the data.\<close>

type_synonym ('p, 'x) main_thread = "('p ZmqConnection, bytes list list ZmqConnection, 'x) router"

abbreviation main_C :: "tp_pb \<Rightarrow> 'p ZmqConnection Connection" where
  "main_C pb \<equiv> zmq_Connection (pbMessage pb)"

text \<open>The main thread handles what waits at its socket to the validator.\<close>

fun drain_validator :: "tp_pb \<Rightarrow> nat \<Rightarrow> ('p, 'x) main_thread \<Rightarrow> ('p, 'x) main_thread" where
  "drain_validator pb 0 r = r"
| "drain_validator pb (Suc n) r = drain_validator pb n (snd (receiveValidator pb (main_C pb) (main_C pb) r))"

text \<open>
  What happens when worker \<open>w\<close> sends: its message arrives at the main thread with the worker's
  identity before it, the main thread routes it and then what the validator answers; what it
  sends to \<open>w\<close> arrives there without the identity.
\<close>

definition main_turn ::
  "tp_pb \<Rightarrow> string \<Rightarrow> ('p, 'x) main_thread \<Rightarrow> bytes list \<Rightarrow> ('p, 'x) main_thread \<times> (go_error + bytes list) list \<times> go_error option" where
  "main_turn pb w r frs =
    (let r = r\<lparr>r_workers := set_inbox (inbox (r_workers r) @ [Inr (w # frs)]) (r_workers r)\<rparr>;
         r = snd (receiveWorkers pb (main_C pb) (main_C pb) r);
         r = drain_validator pb (length (inbox (r_validator r))) r;
         out = peer (r_workers r);
         r = r\<lparr>r_workers := (r_workers r)\<lparr>conn_socket := (conn_socket (r_workers r))\<lparr>sk_peer := filter (\<lambda>fr. hd fr \<noteq> w) out\<rparr>\<rparr>\<rparr>
     in (r, map (\<lambda>fr. Inr (tl fr)) (filter (\<lambda>fr. hd fr = w) out), None))"

text \<open>Nothing is in flight inside the main thread, and its sockets are open.\<close>

definition main_idle :: "('p, 'x) main_thread \<Rightarrow> bool" where
  "main_idle r \<longleftrightarrow> \<not> sk_closed (conn_socket (r_validator r)) \<and> inbox (r_validator r) = [] \<and>
     \<not> sk_closed (conn_socket (r_workers r)) \<and> inbox (r_workers r) = [] \<and> peer (r_workers r) = [] \<and>
     sk_deliver (conn_socket (r_workers r)) = recorder"

abbreviation validator_peer :: "'p \<Rightarrow> ('p, 'x) main_thread \<Rightarrow> ('p, 'x) main_thread" where
  "validator_peer p r \<equiv> r\<lparr>r_validator := (r_validator r)\<lparr>conn_socket := (conn_socket (r_validator r))\<lparr>sk_peer := p\<rparr>\<rparr>\<rparr>"

text \<open>The main thread passes a worker's message to the validator.\<close>

lemma receiveWorkers_forwards:
  assumes "main_idle r" "Unmarshal (pbMessage pb) d = (m, None)"
    and "sk_deliver (conn_socket (r_validator r)) (peer (r_validator r)) [d] = (p, arr, None)"
  shows "receiveWorkers pb (main_C pb) (main_C pb) (r\<lparr>r_workers := set_inbox [Inr [w, d]] (r_workers r)\<rparr>) =
    (Ret (), (validator_peer p r)\<lparr>r_validator := set_inbox arr (r_validator (validator_peer p r)),
       r_ids := if Message_MessageType m \<noteq> Message_TP_PROCESS_RESPONSE then (r_ids r)(Message_CorrelationId m \<mapsto> w) else r_ids r\<rparr>)"
proof -
  let ?ws = "set_inbox [Inr [w, d]] (r_workers r)"
  have i: "\<not> sk_closed (conn_socket (r_validator r))" "inbox (r_validator r) = []" "\<not> sk_closed (conn_socket (r_workers r))"
    "inbox (r_workers r) = []"
    using assms(1) by (simp_all add: main_idle_def)
  have same: "set_inbox [] (r_workers r) = r_workers r" using i(4) by (rule set_inbox_id)
  have recv: "RecvData ?ws = (Ret (w, d, None), r_workers r)"
    using i(3) same RecvData_frame [of ?ws "[w, d]" "[]" w d] by (simp add: frame_data_def)
  have send: "SendData [] d (r_validator r) = (Ret None, set_inbox arr (r_validator (validator_peer p r)))"
    using i(1,2) assms(3) by (simp add: SendData_def SendMessage_def)
  show ?thesis
    using recv send
    by (cases r) (simp add: receiveWorkers_def on_workers_def zmq_Connection_def route_worker_ok [OF assms(2)] on_validator_def bindP_def)
qed

text \<open>The main thread passes the validator's answer to the worker it remembers.\<close>

lemma receiveValidator_forwards:
  assumes "main_idle r" "Unmarshal (pbMessage pb) d = (m, None)"
    and "Message_MessageType m \<notin> {Message_TP_PROCESS_REQUEST, Message_PING_REQUEST}"
    and "Message_CorrelationId m \<noteq> []" "w \<noteq> []" "ids (Message_CorrelationId m) = Some w"
  shows "receiveValidator pb (main_C pb) (main_C pb) (r\<lparr>r_validator := set_inbox [Inr [d]] (r_validator r), r_ids := ids\<rparr>) =
    (Ret (), r\<lparr>r_workers := (r_workers r)\<lparr>conn_socket := (conn_socket (r_workers r))\<lparr>sk_peer := [[w, d]]\<rparr>\<rparr>,
       r_ids := ids(Message_CorrelationId m := None)\<rparr>)"
proof -
  let ?v = "set_inbox [Inr [d]] (r_validator r)"
  have i: "\<not> sk_closed (conn_socket (r_validator r))" "inbox (r_validator r) = []" "\<not> sk_closed (conn_socket (r_workers r))"
    "inbox (r_workers r) = []" "peer (r_workers r) = []" "sk_deliver (conn_socket (r_workers r)) = recorder"
    using assms(1) by (simp_all add: main_idle_def)
  have same: "set_inbox [] (r_validator r) = r_validator r" using i(2) by (rule set_inbox_id)
  have recv: "RecvData ?v = (Ret ([], d, None), r_validator r)"
    using i(1) same RecvData_frame [of ?v "[d]" "[]" "[]" d] by (simp add: frame_data_def)
  have "conn_socket (r_workers r)\<lparr>sk_peer := [[w, d]], sk_inbox := []\<rparr> = conn_socket (r_workers r)\<lparr>sk_peer := [[w, d]]\<rparr>"
    using i(4) by (cases "conn_socket (r_workers r)") simp
  then have send: "SendData w d (r_workers r) = (Ret None, (r_workers r)\<lparr>conn_socket := (conn_socket (r_workers r))\<lparr>sk_peer := [[w, d]]\<rparr>\<rparr>)"
    using i(3-6) assms(5) by (simp add: SendData_def SendMessage_def recorder_def)
  show ?thesis
    using recv send assms(4,6)
    by (cases r) (simp add: receiveValidator_def recovering_def on_validator_def zmq_Connection_def
        route_validator_response [OF assms(2,3)] on_workers_def bindP_def)
qed

text \<open>A request of the worker that the validator answers, and a response that it only takes.\<close>

lemma main_turn_request:
  assumes "main_idle r" "Unmarshal (pbMessage pb) d = (m, None)" "Unmarshal (pbMessage pb) d' = (m', None)"
    and "Message_MessageType m \<noteq> Message_TP_PROCESS_RESPONSE"
    and "Message_MessageType m' \<notin> {Message_TP_PROCESS_REQUEST, Message_PING_REQUEST}"
    and "Message_CorrelationId m' = Message_CorrelationId m" "Message_CorrelationId m \<noteq> []" "w \<noteq> []"
    and "sk_deliver (conn_socket (r_validator r)) (peer (r_validator r)) [d] = (p, [Inr [d']], None)"
  shows "main_turn pb w r [d] = ((validator_peer p r)\<lparr>r_ids := (r_ids r)(Message_CorrelationId m := None)\<rparr>, [Inr [d']], None)"
proof -
  let ?r = "validator_peer p r"
  have idle: "main_idle ?r" using assms(1) by (simp add: main_idle_def)
  have i: "inbox (r_workers r) = []" "peer (r_workers r) = []" using assms(1) by (simp_all add: main_idle_def)
  have 1: "receiveWorkers pb (main_C pb) (main_C pb) (r\<lparr>r_workers := set_inbox [Inr [w, d]] (r_workers r)\<rparr>) =
    (Ret (), ?r\<lparr>r_validator := set_inbox [Inr [d']] (r_validator ?r), r_ids := (r_ids r)(Message_CorrelationId m \<mapsto> w)\<rparr>)"
    using receiveWorkers_forwards [OF assms(1,2,9), of w] assms(4) by simp
  have 2: "receiveValidator pb (main_C pb) (main_C pb)
      (?r\<lparr>r_validator := set_inbox [Inr [d']] (r_validator ?r), r_ids := (r_ids r)(Message_CorrelationId m \<mapsto> w)\<rparr>) =
    (Ret (), ?r\<lparr>r_workers := (r_workers ?r)\<lparr>conn_socket := (conn_socket (r_workers ?r))\<lparr>sk_peer := [[w, d']]\<rparr>\<rparr>,
       r_ids := (r_ids r)(Message_CorrelationId m := None)\<rparr>)"
    using receiveValidator_forwards [OF idle assms(3,5), of w "(r_ids r)(Message_CorrelationId m \<mapsto> w)"] assms(6-8) by simp
  have 3: "(r_workers r)\<lparr>conn_socket := (conn_socket (r_workers r))\<lparr>sk_peer := []\<rparr>\<rparr> = r_workers r"
    using i(2) by (cases "r_workers r"; cases "conn_socket (r_workers r)") simp
  show ?thesis by (simp add: main_turn_def Let_def i 1 2 [simplified] 3)
qed

lemma main_turn_response:
  assumes "main_idle r" "Unmarshal (pbMessage pb) d = (m, None)" "Message_MessageType m = Message_TP_PROCESS_RESPONSE"
    and "sk_deliver (conn_socket (r_validator r)) (peer (r_validator r)) [d] = (p, [], None)"
  shows "main_turn pb w r [d] = (validator_peer p r, [], None)"
proof -
  let ?r = "validator_peer p r"
  have i: "inbox (r_workers r) = []" "peer (r_workers r) = []" "inbox (r_validator r) = []"
    using assms(1) by (simp_all add: main_idle_def)
  have v: "set_inbox [] (r_validator ?r) = r_validator ?r" by (rule set_inbox_id) (simp add: i(3))
  have 1: "receiveWorkers pb (main_C pb) (main_C pb) (r\<lparr>r_workers := set_inbox [Inr [w, d]] (r_workers r)\<rparr>) = (Ret (), ?r)"
    unfolding receiveWorkers_forwards [OF assms(1,2,4), of w] v using assms(3) by simp
  have 2: "(r_workers r)\<lparr>conn_socket := (conn_socket (r_workers r))\<lparr>sk_peer := []\<rparr>\<rparr> = r_workers r"
    using i(2) by (cases "r_workers r"; cases "conn_socket (r_workers r)") simp
  show ?thesis by (simp add: main_turn_def Let_def i 1 2)
qed

section \<open>A worker behind the main thread\<close>

text \<open>
  The state of a worker's connection has the main thread as its peer, and that has the validator.
  The abbreviations name the parts: the main thread and the validator's state.
\<close>

abbreviation main_of :: "('p, 'x) main_thread ZmqConnection \<Rightarrow> ('p, 'x) main_thread" where
  "main_of s \<equiv> peer s"

abbreviation validator_of :: "('p, 'x) main_thread ZmqConnection \<Rightarrow> 'p" where
  "validator_of s \<equiv> peer (r_validator (peer s))"

text \<open>
  What is relied on of the validator: it answers each state request at once and never with a
  new request; it takes process responses without an answer, which leaves its state, and what
  it has been told of each transaction (\<open>ans\<close>: correlation id and response) grows by exactly that
  response.  The identifiers that the worker makes up and its own identity are not empty.
\<close>

definition validator_contract ::
  "tp_pb \<Rightarrow> string \<Rightarrow> ('p \<Rightarrow> string \<Rightarrow> bytes) \<Rightarrow> (string \<Rightarrow> bool) \<Rightarrow> (string \<Rightarrow> bool) \<Rightarrow>
   ('p \<Rightarrow> Message_MessageType \<Rightarrow> bytes \<Rightarrow> (Message_MessageType \<times> bytes \<times> 'p) option) \<Rightarrow> ('p \<Rightarrow> (string \<times> bytes) list) \<Rightarrow>
   ('p \<Rightarrow> bytes list \<Rightarrow> 'p \<times> (go_error + bytes list) list \<times> go_error option) \<Rightarrow> bool" where
  "validator_contract pb cid st rd wr react ans deliver \<longleftrightarrow>
     serves_state pb cid st rd wr react \<and> state_codecs_ok pb \<and> (\<forall>m. codec_ok (pbMessage pb) m) \<and>
     peer_reacts (pbMessage pb) deliver react \<and>
     (\<forall>p t b t' b' p'. react p t b = Some (t', b', p') \<longrightarrow> ans p' = ans p \<and> t \<noteq> Message_TP_PROCESS_RESPONSE \<and>
        t' \<notin> {Message_TP_PROCESS_REQUEST, Message_PING_REQUEST}) \<and>
     (\<forall>p b k. \<exists>p'. deliver p [fst (DumpMsg (pbMessage pb) Message_TP_PROCESS_RESPONSE b k)] = (p', [], None) \<and>
        st p' = st p \<and> ans p' = ans p @ [(k, b)])"

definition routed_conn ::
  "tp_pb \<Rightarrow> string \<Rightarrow> ('p \<Rightarrow> string \<Rightarrow> bytes) \<Rightarrow> (string \<Rightarrow> bool) \<Rightarrow> (string \<Rightarrow> bool) \<Rightarrow>
   ('p \<Rightarrow> Message_MessageType \<Rightarrow> bytes \<Rightarrow> (Message_MessageType \<times> bytes \<times> 'p) option) \<Rightarrow> ('p \<Rightarrow> (string \<times> bytes) list) \<Rightarrow>
   string \<Rightarrow> Message list \<times> nat \<times> (string \<times> bytes) list \<Rightarrow> ('p, 'x) main_thread ZmqConnection \<Rightarrow> bool" where
  "routed_conn pb cid st rd wr react ans w fixd s \<longleftrightarrow>
     validator_contract pb cid st rd wr react ans (sk_deliver (conn_socket (r_validator (main_of s)))) \<and>
     main_idle (main_of s) \<and> w \<noteq> [] \<and> (\<forall>n. conn_uuid s n \<noteq> []) \<and>
     sk_deliver (conn_socket s) = main_turn pb w \<and> \<not> sk_closed (conn_socket s) \<and> inbox s = [] \<and> conn_incoming s = [] \<and>
     \<not> r_closed (main_of s) \<and> (r_queue (main_of s), r_cap (main_of s), ans (validator_of s)) = fixd"

definition routed_reply ::
  "('p \<Rightarrow> Message_MessageType \<Rightarrow> bytes \<Rightarrow> (Message_MessageType \<times> bytes \<times> 'p) option) \<Rightarrow> ('p, 'x) main_thread ZmqConnection \<Rightarrow>
   Message_MessageType \<Rightarrow> bytes \<Rightarrow> (Message_MessageType \<times> bytes \<times> ('p, 'x) main_thread ZmqConnection) option" where
  "routed_reply react s t b = map_option (\<lambda>(t', b', p). (t', b',
     s\<lparr>conn_uuid_next := Suc (conn_uuid_next s),
       conn_socket := (conn_socket s)\<lparr>sk_peer := (validator_peer p (main_of s))\<lparr>
         r_ids := (r_ids (main_of s))(conn_uuid s (conn_uuid_next s) := None)\<rparr>\<rparr>\<rparr>)) (react (validator_of s) t b)"

lemma routed_exchange:
  assumes "routed_conn pb cid st rd wr react ans w fixd s" "routed_reply react s t b = Some (t', b', s')"
  defines "k \<equiv> conn_uuid s (conn_uuid_next s)"
  shows "\<exists>s1. SendNewMsg (pbMessage pb) t b s = (Ret (k, None), s1) \<and>
    RecvMsgWithId (pbMessage pb) k s1 = (Ret ([], Some \<lparr>Message_MessageType = t',
      Message_CorrelationId = k, Message_Content = b'\<rparr>, None), s') \<and> routed_conn pb cid st rd wr react ans w fixd s'"
proof -
  let ?cm = "pbMessage pb" and ?r = "main_of s"
  from assms(1) have idle: "main_idle ?r" and w: "w \<noteq> []" and k: "k \<noteq> []" and deliver: "sk_deliver (conn_socket s) = main_turn pb w"
    and s: "\<not> sk_closed (conn_socket s)" "inbox s = []" "conn_incoming s = []"
    and con: "validator_contract pb cid st rd wr react ans (sk_deliver (conn_socket (r_validator ?r)))"
    by (simp_all add: routed_conn_def k_def)
  from assms(2) obtain p where p: "react (validator_of s) t b = Some (t', b', p)"
    and s': "s' = s\<lparr>conn_uuid_next := Suc (conn_uuid_next s), conn_socket := (conn_socket s)\<lparr>
      sk_peer := (validator_peer p ?r)\<lparr>r_ids := (r_ids ?r)(k := None)\<rparr>\<rparr>\<rparr>"
    by (auto simp: routed_reply_def k_def)
  have ok: "codec_ok ?cm m" for m using con by (simp add: validator_contract_def)
  have types: "t \<noteq> Message_TP_PROCESS_RESPONSE" "t' \<notin> {Message_TP_PROCESS_REQUEST, Message_PING_REQUEST}" "ans p = ans (validator_of s)"
    using con p unfolding validator_contract_def by blast+
  let ?m = "\<lparr>Message_MessageType = t, Message_CorrelationId = k, Message_Content = b\<rparr>"
  let ?m' = "\<lparr>Message_MessageType = t', Message_CorrelationId = k, Message_Content = b'\<rparr>"
  let ?d = "fst (DumpMsg ?cm t b k)" and ?d' = "fst (DumpMsg ?cm t' b' k)"
  have dec: "Unmarshal ?cm ?d = (?m, None)" "Unmarshal ?cm ?d' = (?m', None)"
    using ok [of ?m] ok [of ?m'] by (simp_all add: DumpMsg_def)
  have dl: "sk_deliver (conn_socket (r_validator ?r)) (peer (r_validator ?r)) [?d] = (p, [Inr [?d']], None)"
    using con p by (auto simp: validator_contract_def peer_reacts_def)
  have turn: "main_turn pb w ?r [?d] = ((validator_peer p ?r)\<lparr>r_ids := (r_ids ?r)(k := None)\<rparr>, [Inr [?d']], None)"
    using main_turn_request [OF idle dec _ _ _ _ w dl] types k by simp
  let ?s1 = "s\<lparr>conn_uuid_next := Suc (conn_uuid_next s), conn_socket := (conn_socket s)\<lparr>
      sk_peer := (validator_peer p ?r)\<lparr>r_ids := (r_ids ?r)(k := None)\<rparr>, sk_inbox := [Inr [?d']]\<rparr>\<rparr>"
  have send: "SendNewMsg ?cm t b s = (Ret (k, None), ?s1)"
    using SendNewMsg_delivers [OF s(1) ok [of ?m] k_def [THEN meta_eq_to_obj_eq]] turn s(2) by (simp add: deliver)
  have "RecvMsgWithId_loop ?cm k ?s1 = (Ret ([], Some ?m', None), set_inbox [] ?s1)"
    using s dec(2) by (intro RecvMsgWithId_loop_hit [where fr = "[?d']"]) (auto simp: frame_data_def)
  moreover have "set_inbox [] ?s1 = s'" using s(2) by (cases s; cases "conn_socket s") (simp add: s')
  ultimately have recv: "RecvMsgWithId ?cm k ?s1 = (Ret ([], Some ?m', None), s')"
    using s(3) by (simp add: RecvMsgWithId_def)
  have "routed_conn pb cid st rd wr react ans w fixd s'"
    using assms(1) types(3) by (simp add: routed_conn_def s' main_idle_def)
  with send recv show ?thesis by blast
qed

interpretation routed: state_service "zmq_Connection (pbMessage pb)" "routed_conn pb cid st rd wr react ans w fixd" "routed_reply react"
    pb cid "\<lambda>s. st (validator_of s)" rd wr
  for pb cid st rd wr react ans w fixd
proof (unfold_locales, goal_cases)
  case (1 s t b t' b' s')
  from routed_exchange [OF this] show ?case by (auto simp: zmq_Connection_def)
next
  case (2 s t b t' b' s')
  from routed_exchange [OF this] show ?case by blast
next
  case (3 s)
  then show ?case by (simp add: routed_conn_def validator_contract_def)
next
  case (4 s as)
  then have "serves_state pb cid st rd wr react" by (simp add: routed_conn_def validator_contract_def)
  then obtain p' where "react (validator_of s) Message_TP_STATE_GET_REQUEST (fst (Marshal (pbTpStateGetRequest pb)
         \<lparr>TpStateGetRequest_ContextId = cid, TpStateGetRequest_Addresses = as\<rparr>)) =
       Some (Message_TP_STATE_GET_RESPONSE,
         fst (Marshal (pbTpStateGetResponse pb) (get_response rd (st (validator_of s)) as)), p')" "st p' = st (validator_of s)"
    unfolding serves_state_def by blast
  then show ?case by (simp add: routed_reply_def)
next
  case (5 s ps)
  then have "serves_state pb cid st rd wr react" by (simp add: routed_conn_def validator_contract_def)
  with 5(2) obtain p' where "react (validator_of s) Message_TP_STATE_SET_REQUEST (fst (Marshal (pbTpStateSetRequest pb)
         \<lparr>TpStateSetRequest_ContextId = cid, TpStateSetRequest_Entries =
            map (\<lambda>(a, d). \<lparr>TpStateEntry_Address = a, TpStateEntry_Data = d\<rparr>) ps\<rparr>)) =
       Some (Message_TP_STATE_SET_RESPONSE, fst (Marshal (pbTpStateSetResponse pb) (set_response wr ps)), p')"
     "st p' = (if list_all wr (map fst ps) then state_upd (st (validator_of s)) ps else st (validator_of s))"
    unfolding serves_state_def by blast
  then show ?case by (simp add: routed_reply_def)
next
  case (6 s as)
  then have "serves_state pb cid st rd wr react" by (simp add: routed_conn_def validator_contract_def)
  then obtain p' where "react (validator_of s) Message_TP_STATE_DELETE_REQUEST (fst (Marshal (pbTpStateDeleteRequest pb)
         \<lparr>TpStateDeleteRequest_ContextId = cid, TpStateDeleteRequest_Addresses = as\<rparr>)) =
       Some (Message_TP_STATE_DELETE_RESPONSE,
         fst (Marshal (pbTpStateDeleteResponse pb) (delete_response wr (st (validator_of s)) as)), p')"
     "st p' = (if list_all wr as then (\<lambda>a. if a \<in> set as then [] else st (validator_of s) a) else st (validator_of s))"
    unfolding serves_state_def by blast
  then show ?case by (simp add: routed_reply_def)
qed

end
