(* ===== verification/Processor_System.thy ===== *)
theory Processor_System
  imports Tp_Routed "HOL-Library.Multiset"
begin

text \<open>
  A whole transaction processor: the validator's requests arrive at the main thread, which queues
  or denies them; a worker takes them off the queue and runs the handler of its family, whose
  state accesses and whose responses go through the main thread.  The steps of the two threads
  can come in any order.  The processor here has one worker thread, as after SetThreadCount with 1;
  Processor\_Pool and Tp\_Concurrent have several.

  The locale \<open>processing_family\<close> says what a handler promises: on well-formed states it has the
  verdict of a specification over abstract states.  In it is proved, once for all families, that
  the processor refines an abstract machine with a store, a bounded queue and a list of answers.
\<close>

section \<open>The threads\<close>

text \<open>A message of the validator arrives, and the main thread handles it.\<close>

definition request_arrives :: "tp_pb \<Rightarrow> Message \<Rightarrow> (('p, 'x) main_thread ZmqConnection, bool) proc" where
  "request_arrives pb m s =
    (let r = main_of s;
         v = set_inbox (inbox (r_validator r) @ [Inr [fst (Marshal (pbMessage pb) m)]]) (r_validator r) in
     case receiveValidator pb (main_C pb) (main_C pb) (r\<lparr>r_validator := v\<rparr>) of
       (Ret _, r') \<Rightarrow> (Ret True, s\<lparr>conn_socket := (conn_socket s)\<lparr>sk_peer := r'\<rparr>\<rparr>)
     | (Panic e, r') \<Rightarrow> (Panic e, s\<lparr>conn_socket := (conn_socket s)\<lparr>sk_peer := r'\<rparr>\<rparr>)
     | (Block, r') \<Rightarrow> (Block, s\<lparr>conn_socket := (conn_socket s)\<lparr>sk_peer := r'\<rparr>\<rparr>))"

text \<open>
  The worker takes the oldest message off the queue, if there is one, and serves it.  The result is
  False when the worker gives up.
\<close>

definition worker_turn ::
  "tp_pb \<Rightarrow> ('p, 'x) main_thread ZmqConnection TransactionHandler list \<Rightarrow> (('p, 'x) main_thread ZmqConnection, bool) proc" where
  "worker_turn pb hs s =
    (case r_queue (main_of s) of
       [] \<Rightarrow> (Ret True, s)
     | m # q \<Rightarrow> worker_step pb (zmq_Connection (pbMessage pb)) hs m
         (s\<lparr>conn_socket := (conn_socket s)\<lparr>sk_peer := (main_of s)\<lparr>r_queue := q\<rparr>\<rparr>\<rparr>))"

datatype thread_event = RequestArrives Message | WorkerTurn

fun thread_step ::
  "tp_pb \<Rightarrow> ('p, 'x) main_thread ZmqConnection TransactionHandler list \<Rightarrow> thread_event \<Rightarrow> (('p, 'x) main_thread ZmqConnection, bool) proc" where
  "thread_step pb hs (RequestArrives m) = request_arrives pb m"
| "thread_step pb hs WorkerTurn = worker_turn pb hs"

text \<open>A sequence of steps; it ends early, with False, when the worker gives up.\<close>

fun thread_run ::
  "tp_pb \<Rightarrow> ('p, 'x) main_thread ZmqConnection TransactionHandler list \<Rightarrow> thread_event list \<Rightarrow> (('p, 'x) main_thread ZmqConnection, bool) proc" where
  "thread_run pb hs [] = retP True"
| "thread_run pb hs (ev # evs) = bindP (thread_step pb hs ev) (\<lambda>go_on. if go_on then thread_run pb hs evs else retP False)"

section \<open>The abstract machine\<close>

text \<open>
  Requests are pairs of a correlation id and what was asked; an answer says whether the transaction
  was accepted.  A request that finds the queue full is answered at once, with no.  The
  specification of a family gives a verdict; a crash stops the machine, for a panic in a worker
  ends the whole process.
\<close>

datatype 'm verdict = Crash | Refuse | Commit 'm

record ('q, 'm) machine =
  mc_store :: 'm
  mc_queue :: "(string \<times> 'q) list"
  mc_answers :: "(string \<times> bool) list"

datatype 'q machine_event = Ask string 'q | Serve

fun machine_step :: "('q \<Rightarrow> 'm \<Rightarrow> 'm verdict) \<Rightarrow> nat \<Rightarrow> 'q machine_event \<Rightarrow> ('q, 'm) machine \<Rightarrow> ('q, 'm) machine option" where
  "machine_step spec cap (Ask k q) M =
    Some (if length (mc_queue M) < cap then M\<lparr>mc_queue := mc_queue M @ [(k, q)]\<rparr>
      else M\<lparr>mc_answers := mc_answers M @ [(k, False)]\<rparr>)"
| "machine_step spec cap Serve M =
    (case mc_queue M of
       [] \<Rightarrow> Some M
     | (k, q) # rest \<Rightarrow>
        (case spec q (mc_store M) of
           Crash \<Rightarrow> None
         | Refuse \<Rightarrow> Some (M\<lparr>mc_queue := rest, mc_answers := mc_answers M @ [(k, False)]\<rparr>)
         | Commit m \<Rightarrow> Some (M\<lparr>mc_store := m, mc_queue := rest, mc_answers := mc_answers M @ [(k, True)]\<rparr>)))"

fun machine_run :: "('q \<Rightarrow> 'm \<Rightarrow> 'm verdict) \<Rightarrow> nat \<Rightarrow> 'q machine_event list \<Rightarrow> ('q, 'm) machine \<Rightarrow> ('q, 'm) machine option" where
  "machine_run spec cap [] M = Some M"
| "machine_run spec cap (ev # evs) M =
    (case machine_step spec cap ev M of None \<Rightarrow> None | Some M' \<Rightarrow> machine_run spec cap evs M')"

lemma machine_run_append:
  "machine_run spec cap (xs @ ys) M = (case machine_run spec cap xs M of None \<Rightarrow> None | Some M' \<Rightarrow> machine_run spec cap ys M')"
  by (induction xs arbitrary: M) (auto split: option.split)

text \<open>A family that never crashes keeps the machine running.\<close>

lemma machine_run_total:
  assumes "\<And>q m. spec q m \<noteq> Crash"
  shows "\<exists>M'. machine_run spec cap evs M = Some M'"
proof (induction evs arbitrary: M)
  case (Cons ev evs)
  have "machine_step spec cap ev M \<noteq> None"
    using assms by (cases ev) (auto split: list.split verdict.split)
  with Cons show ?case by auto
qed simp

text \<open>Every request is waiting or answered, exactly once.\<close>

fun asked :: "'q machine_event list \<Rightarrow> string list" where
  "asked [] = []"
| "asked (Ask k q # evs) = k # asked evs"
| "asked (Serve # evs) = asked evs"

definition known :: "('q, 'm) machine \<Rightarrow> string multiset" where
  "known M = mset (map fst (mc_queue M)) + mset (map fst (mc_answers M))"

lemma known_step: "machine_step spec cap ev M = Some M' \<Longrightarrow> known M' = known M + mset (asked [ev])"
  by (cases ev) (auto simp: known_def split: list.splits verdict.splits)

lemma known_run: "machine_run spec cap evs M = Some M' \<Longrightarrow> known M' = known M + mset (asked evs)"
proof (induction evs arbitrary: M)
  case (Cons ev evs)
  have "mset (asked (ev # evs)) = mset (asked [ev]) + mset (asked evs)" by (cases ev) simp_all
  with Cons show ?case by (auto simp del: machine_step.simps dest!: known_step split: option.splits)
qed simp

lemma step_queue_bounded:
  "machine_step spec cap ev M = Some M' \<Longrightarrow> length (mc_queue M) \<le> cap \<Longrightarrow> length (mc_queue M') \<le> cap"
  by (cases ev) (auto split: list.splits verdict.splits if_splits)

lemma machine_queue_bounded:
  "machine_run spec cap evs M = Some M' \<Longrightarrow> length (mc_queue M) \<le> cap \<Longrightarrow> length (mc_queue M') \<le> cap"
  by (induction evs arbitrary: M) (auto simp del: machine_step.simps dest: step_queue_bounded split: option.splits)

lemma serve_queue: "machine_step spec cap Serve M = Some M' \<Longrightarrow> mc_queue M' = tl (mc_queue M)"
  by (auto split: list.splits verdict.splits)

lemma serve_all:
  "machine_run spec cap (replicate n Serve) M = Some M' \<Longrightarrow> length (mc_queue M) \<le> n \<Longrightarrow> mc_queue M' = []"
proof (induction n arbitrary: M)
  case (Suc n)
  then obtain M1 where 1: "machine_step spec cap Serve M = Some M1" "machine_run spec cap (replicate n Serve) M1 = Some M'"
    by (auto simp del: machine_step.simps split: option.splits)
  have "length (mc_queue M1) \<le> n" using Suc.prems(2) by (simp add: serve_queue [OF 1(1)])
  with Suc.IH [OF 1(2)] show ?case .
qed simp

lemma asked_serves [simp]: "asked (evs @ replicate n Serve) = asked evs"
proof (induction evs)
  case Nil
  show ?case by (induction n) simp_all
next
  case (Cons ev evs)
  then show ?case by (cases ev) simp_all
qed

text \<open>As many turns as the queue can hold leave every request answered.\<close>

lemma machine_answers_all:
  assumes "machine_run spec cap (evs @ replicate n Serve) M = Some M'" "length (mc_queue M) \<le> cap" "cap \<le> n"
  shows "mc_queue M' = [] \<and> mset (map fst (mc_answers M')) = known M + mset (asked evs)"
proof -
  from assms(1) obtain M1 where 1: "machine_run spec cap evs M = Some M1" "machine_run spec cap (replicate n Serve) M1 = Some M'"
    by (auto simp: machine_run_append split: option.splits)
  have "mc_queue M' = []" using machine_queue_bounded [OF 1(1) assms(2)] assms(3) by (intro serve_all [OF 1(2)]) simp
  with known_run [OF assms(1)] show ?thesis by (simp add: known_def)
qed

section \<open>Answers and states\<close>

lemma routed_conn_any:
  assumes "\<forall>cid. routed_conn pb cid st rd wr react ans w fixd s" "routed_conn pb k st rd wr react ans w fixd' s'"
  shows "\<forall>cid. routed_conn pb cid st rd wr react ans w fixd' s'"
proof
  fix cid
  from assms(1) have "serves_state pb cid st rd wr react" by (simp add: routed_conn_def validator_contract_def)
  with assms(2) show "routed_conn pb cid st rd wr react ans w fixd' s'" by (simp add: routed_conn_def validator_contract_def)
qed

definition request_of :: "tp_pb \<Rightarrow> Message \<Rightarrow> TpProcessRequest" where
  "request_of pb m = fst (Unmarshal (pbTpProcessRequest pb) (Message_Content m))"

definition accepted :: "tp_pb \<Rightarrow> bytes \<Rightarrow> bool" where
  "accepted pb b \<longleftrightarrow> TpProcessResponse_Status (fst (Unmarshal (pbTpProcessResponse pb) b)) = TpProcessResponse_OK"

text \<open>A message that asks for a transaction the handler serves.\<close>

definition family_message :: "tp_pb \<Rightarrow> 's TransactionHandler \<Rightarrow> (TpProcessRequest \<Rightarrow> bool) \<Rightarrow> Message \<Rightarrow> bool" where
  "family_message pb h fits m \<longleftrightarrow> snd (Unmarshal (pbTpProcessRequest pb) (Message_Content m)) = None \<and>
     (let q = request_of pb m in GetFamilyName (TpProcessRequest_Header q) = h_FamilyName h \<and>
        GetFamilyVersion (TpProcessRequest_Header q) \<in> set (h_FamilyVersions h) \<and> fits q)"

text \<open>
  The processor works for a family: the worker's connection keeps its contract for every
  transaction context, the queue holds messages of the family and the stored values are well
  formed.  \<open>fixd\<close> has the queue, its capacity and the answers.
\<close>

definition processing ::
  "tp_pb \<Rightarrow> ('p \<Rightarrow> string \<Rightarrow> bytes) \<Rightarrow> (string \<Rightarrow> bool) \<Rightarrow> (string \<Rightarrow> bool) \<Rightarrow>
   ('p \<Rightarrow> Message_MessageType \<Rightarrow> bytes \<Rightarrow> (Message_MessageType \<times> bytes \<times> 'p) option) \<Rightarrow> ('p \<Rightarrow> (string \<times> bytes) list) \<Rightarrow>
   string \<Rightarrow> ('p, 'x) main_thread ZmqConnection TransactionHandler \<Rightarrow> (TpProcessRequest \<Rightarrow> bool) \<Rightarrow> ((string \<Rightarrow> bytes) \<Rightarrow> bool) \<Rightarrow>
   Message list \<times> nat \<times> (string \<times> bytes) list \<Rightarrow> ('p, 'x) main_thread ZmqConnection \<Rightarrow> bool" where
  "processing pb st rd wr react ans w h fits good fixd s \<longleftrightarrow> (\<forall>cid. routed_conn pb cid st rd wr react ans w fixd s) \<and>
     list_all (family_message pb h fits) (fst fixd) \<and> good (st (validator_of s)) \<and> (\<forall>r. codec_ok (pbTpProcessResponse pb) r)"

text \<open>The abstraction: what the processor and the validator behind it stand for.\<close>

definition machine_of ::
  "tp_pb \<Rightarrow> ('p \<Rightarrow> string \<Rightarrow> bytes) \<Rightarrow> ('p \<Rightarrow> (string \<times> bytes) list) \<Rightarrow> ((string \<Rightarrow> bytes) \<Rightarrow> 'm) \<Rightarrow>
   ('p, 'x) main_thread ZmqConnection \<Rightarrow> (TpProcessRequest, 'm) machine" where
  "machine_of pb st ans abst s =
    \<lparr>mc_store = abst (st (validator_of s)),
     mc_queue = map (\<lambda>m. (Message_CorrelationId m, request_of pb m)) (r_queue (main_of s)),
     mc_answers = map (\<lambda>(k, b). (k, accepted pb b)) (ans (validator_of s))\<rparr>"

fun event_of :: "tp_pb \<Rightarrow> thread_event \<Rightarrow> TpProcessRequest machine_event" where
  "event_of pb (RequestArrives m) = Ask (Message_CorrelationId m) (request_of pb m)"
| "event_of pb WorkerTurn = Serve"

text \<open>The messages that arrive in a run are process requests of the family.\<close>

definition family_events ::
  "tp_pb \<Rightarrow> 's TransactionHandler \<Rightarrow> (TpProcessRequest \<Rightarrow> bool) \<Rightarrow> thread_event list \<Rightarrow> bool" where
  "family_events pb h fits evs \<longleftrightarrow> list_all (\<lambda>ev. case ev of WorkerTurn \<Rightarrow> True
     | RequestArrives m \<Rightarrow> family_message pb h fits m \<and> Message_MessageType m = Message_TP_PROCESS_REQUEST) evs"

lemma machine_of_fields [simp]:
  "mc_store (machine_of pb st ans abst s) = abst (st (validator_of s))"
  "mc_queue (machine_of pb st ans abst s) = map (\<lambda>m. (Message_CorrelationId m, request_of pb m)) (r_queue (main_of s))"
  "map fst (mc_answers (machine_of pb st ans abst s)) = map fst (ans (validator_of s))"
  by (simp_all add: machine_of_def case_prod_unfold comp_def)

text \<open>A response of the worker reaches the validator and adds one answer.\<close>

lemma routed_SendMsg_response:
  assumes "routed_conn pb cid st rd wr react ans w (Q, cap, A) s"
  obtains s' where "SendMsg (pbMessage pb) Message_TP_PROCESS_RESPONSE b k s = (Ret None, s')"
    "routed_conn pb cid st rd wr react ans w (Q, cap, A @ [(k, b)]) s'" "st (validator_of s') = st (validator_of s)"
proof -
  let ?r = "main_of s" and ?m = "\<lparr>Message_MessageType = Message_TP_PROCESS_RESPONSE, Message_CorrelationId = k, Message_Content = b\<rparr>"
  from assms have idle: "main_idle ?r" and deliver: "sk_deliver (conn_socket s) = main_turn pb w"
    and s: "\<not> sk_closed (conn_socket s)" "inbox s = []"
    and con: "validator_contract pb cid st rd wr react ans (sk_deliver (conn_socket (r_validator ?r)))"
    by (simp_all add: routed_conn_def)
  from con have "codec_ok (pbMessage pb) ?m" by (simp add: validator_contract_def)
  then obtain d where d: "DumpMsg (pbMessage pb) Message_TP_PROCESS_RESPONSE b k = (d, None)" "Unmarshal (pbMessage pb) d = (?m, None)"
    by (auto simp: DumpMsg_def elim: codec_okE)
  from con have "\<exists>p'. sk_deliver (conn_socket (r_validator ?r)) (validator_of s) [fst (DumpMsg (pbMessage pb) Message_TP_PROCESS_RESPONSE b k)] = (p', [], None) \<and>
        st p' = st (validator_of s) \<and> ans p' = ans (validator_of s) @ [(k, b)]" unfolding validator_contract_def by blast
  with d obtain p' where p': "sk_deliver (conn_socket (r_validator ?r)) (validator_of s) [d] = (p', [], None)"
    "st p' = st (validator_of s)" "ans p' = ans (validator_of s) @ [(k, b)]" by auto
  have turn: "main_turn pb w ?r [d] = (validator_peer p' ?r, [], None)"
    by (rule main_turn_response [OF idle d(2) _ p'(1)]) simp
  let ?s' = "s\<lparr>conn_socket := (conn_socket s)\<lparr>sk_peer := validator_peer p' ?r, sk_inbox := inbox s @ []\<rparr>\<rparr>"
  have "SendMsg (pbMessage pb) Message_TP_PROCESS_RESPONSE b k s = (Ret None, ?s')"
    using s(1) turn by (simp add: SendMsg_def SendMsgTo_def SendData_def SendMessage_def d(1) deliver)
  moreover have "routed_conn pb cid st rd wr react ans w (Q, cap, A @ [(k, b)]) ?s'"
    using assms p'(3) by (simp add: routed_conn_def main_idle_def)
  ultimately show thesis using p'(2) by (intro that [of ?s']) simp_all
qed

text \<open>A message arrives: the main thread receives it and hands it to route.\<close>

lemma request_arrives_routes:
  assumes "main_idle (main_of s)"
  shows "request_arrives pb m s =
    (case recovering (route_validator pb (main_C pb) (main_C pb) (fst (Marshal (pbMessage pb) m))) (main_of s) of
       (Ret _, r') \<Rightarrow> (Ret True, s\<lparr>conn_socket := (conn_socket s)\<lparr>sk_peer := r'\<rparr>\<rparr>)
     | (Panic e, r') \<Rightarrow> (Panic e, s\<lparr>conn_socket := (conn_socket s)\<lparr>sk_peer := r'\<rparr>\<rparr>)
     | (Block, r') \<Rightarrow> (Block, s\<lparr>conn_socket := (conn_socket s)\<lparr>sk_peer := r'\<rparr>\<rparr>))"
proof -
  let ?r = "main_of s" and ?d = "fst (Marshal (pbMessage pb) m)"
  have i: "\<not> sk_closed (conn_socket (r_validator ?r))" "inbox (r_validator ?r) = []"
    using assms by (simp_all add: main_idle_def)
  have same: "set_inbox [] (r_validator ?r) = r_validator ?r" using i(2) by (rule set_inbox_id)
  have "RecvData (set_inbox [Inr [?d]] (r_validator ?r)) = (Ret ([], ?d, None), r_validator ?r)"
    using i(1) same RecvData_frame [of "set_inbox [Inr [?d]] (r_validator ?r)" "[?d]" "[]" "[]" ?d] by (simp add: frame_data_def)
  moreover have "?r\<lparr>r_validator := r_validator ?r\<rparr> = ?r" by (cases ?r) simp
  ultimately have "receiveValidator pb (main_C pb) (main_C pb) (?r\<lparr>r_validator := set_inbox [Inr [?d]] (r_validator ?r)\<rparr>) =
      recovering (route_validator pb (main_C pb) (main_C pb) ?d) ?r"
    by (simp add: receiveValidator_def recovering_def on_validator_def zmq_Connection_def bindP_def)
  then show ?thesis by (simp add: request_arrives_def i(2))
qed

lemma routed_decodes:
  assumes "routed_conn pb cid st rd wr react ans w fixd s"
  shows "Unmarshal (pbMessage pb) (fst (Marshal (pbMessage pb) m)) = (m, None)"
proof -
  from assms have "codec_ok (pbMessage pb) m" unfolding routed_conn_def validator_contract_def by blast
  then show ?thesis by (rule codec_okE) simp
qed

text \<open>A denied request is answered by the main thread itself.\<close>

lemma deny_answers:
  assumes "routed_conn pb cid st rd wr react ans w (Q, cap, A) s" "\<forall>r. codec_ok (pbTpProcessResponse pb) r"
  obtains p' b where "deny_request pb (main_C pb) k (main_of s) = (Ret (), validator_peer p' (main_of s))"
    "st p' = st (validator_of s)" "ans p' = ans (validator_of s) @ [(k, b)]" "\<not> accepted pb b"
proof -
  let ?r = "main_of s" and ?v = "r_validator (main_of s)"
  let ?resp = "\<lparr>TpProcessResponse_Status = TpProcessResponse_INTERNAL_ERROR,
            TpProcessResponse_Message = ''Work queue is full, denying request'', TpProcessResponse_ExtendedData = []\<rparr>"
  obtain b where b: "Marshal (pbTpProcessResponse pb) ?resp = (b, None)" "Unmarshal (pbTpProcessResponse pb) b = (?resp, None)"
    using assms(2) by (blast elim: codec_okE)
  let ?m = "\<lparr>Message_MessageType = Message_TP_PROCESS_RESPONSE, Message_CorrelationId = k, Message_Content = b\<rparr>"
  from assms(1) have con: "validator_contract pb cid st rd wr react ans (sk_deliver (conn_socket ?v))" and "main_idle ?r"
    by (simp_all add: routed_conn_def)
  then have i: "\<not> sk_closed (conn_socket ?v)" "inbox ?v = []" by (simp_all add: main_idle_def)
  from con have "codec_ok (pbMessage pb) ?m" by (simp add: validator_contract_def)
  then obtain d where d: "DumpMsg (pbMessage pb) Message_TP_PROCESS_RESPONSE b k = (d, None)"
    by (auto simp: DumpMsg_def elim: codec_okE)
  from con have "\<exists>p'. sk_deliver (conn_socket ?v) (peer ?v) [fst (DumpMsg (pbMessage pb) Message_TP_PROCESS_RESPONSE b k)] = (p', [], None) \<and>
        st p' = st (peer ?v) \<and> ans p' = ans (peer ?v) @ [(k, b)]" unfolding validator_contract_def by blast
  with d obtain p' where p': "sk_deliver (conn_socket ?v) (peer ?v) [d] = (p', [], None)"
    "st p' = st (peer ?v)" "ans p' = ans (peer ?v) @ [(k, b)]" by auto
  have "conn_socket ?v\<lparr>sk_peer := p', sk_inbox := []\<rparr> = conn_socket ?v\<lparr>sk_peer := p'\<rparr>" using i(2) by (cases "conn_socket ?v") simp
  then have "deny_request pb (main_C pb) k ?r = (Ret (), validator_peer p' ?r)"
    using i p'(1) b(1) d
    by (simp add: deny_request_def on_validator_def zmq_Connection_def SendMsg_def SendMsgTo_def SendData_def SendMessage_def bindP_def)
  moreover have "\<not> accepted pb b" by (simp add: accepted_def b(2))
  ultimately show thesis using p'(2,3) by (intro that [of p' b]) simp_all
qed

text \<open>What a worker does with a message of a family it serves, over any connection.\<close>

lemma family_message_decodes:
  "family_message pb h fits m \<Longrightarrow> Unmarshal (pbTpProcessRequest pb) (Message_Content m) = (request_of pb m, None)"
  by (cases "Unmarshal (pbTpProcessRequest pb) (Message_Content m)") (auto simp: family_message_def request_of_def)

lemma worker_step_returns:
  assumes "family_message pb h fits m" "codec_ok (pbTpProcessResponse pb) (process_response e)"
    and "h_Apply h (request_of pb m) (methods pb (NewContext C (TpProcessRequest_ContextId (request_of pb m)))) s = (Ret e, s1)"
  obtains b where "accepted pb b \<longleftrightarrow> e = None"
    "\<And>s2. c_SendMsg C Message_TP_PROCESS_RESPONSE b (Message_CorrelationId m) s1 = (Ret None, s2) \<Longrightarrow> worker_step pb C [h] m s = (Ret True, s2)"
proof -
  obtain b where b: "Marshal (pbTpProcessResponse pb) (process_response e) = (b, None)"
    "Unmarshal (pbTpProcessResponse pb) b = (process_response e, None)"
    using assms(2) by (blast elim: codec_okE)
  have "worker_step pb C [h] m s = (Ret True, s2)"
    if "c_SendMsg C Message_TP_PROCESS_RESPONSE b (Message_CorrelationId m) s1 = (Ret None, s2)" for s2
    using assms(1,3) b(1) that by (simp add: worker_step_def family_message_decodes [OF assms(1)] family_message_def Let_def)
  moreover have "accepted pb b \<longleftrightarrow> e = None"
    by (auto simp: accepted_def b(2) process_response_def split: option.split go_error.split)
  ultimately show thesis by (intro that)
qed

lemma worker_step_panics:
  assumes "family_message pb h fits m"
    and "h_Apply h (request_of pb m) (methods pb (NewContext C (TpProcessRequest_ContextId (request_of pb m)))) s = (Panic e, s1)"
  shows "worker_step pb C [h] m s = (Panic e, s1)"
  using assms by (simp add: worker_step_def family_message_decodes [OF assms(1)] family_message_def Let_def)

section \<open>The threads refine the machine\<close>

text \<open>
  What a handler promises the processor, over the connection of a worker: on a well-formed state
  its Apply has the verdict of the specification.
\<close>

locale processing_family =
  fixes pb :: tp_pb
    and st :: "'p \<Rightarrow> string \<Rightarrow> bytes"
    and rd wr :: "string \<Rightarrow> bool"
    and react :: "'p \<Rightarrow> Message_MessageType \<Rightarrow> bytes \<Rightarrow> (Message_MessageType \<times> bytes \<times> 'p) option"
    and ans :: "'p \<Rightarrow> (string \<times> bytes) list"
    and w :: string
    and h :: "('p, 'x) main_thread ZmqConnection TransactionHandler"
    and fits :: "TpProcessRequest \<Rightarrow> bool"
    and good :: "(string \<Rightarrow> bytes) \<Rightarrow> bool"
    and abst :: "(string \<Rightarrow> bytes) \<Rightarrow> 'm"
    and spec :: "TpProcessRequest \<Rightarrow> 'm \<Rightarrow> 'm verdict"
  assumes apply_verdict:
    "routed_conn pb cid st rd wr react ans w fixd s \<Longrightarrow> good (st (validator_of s)) \<Longrightarrow> fits q \<Longrightarrow>
     \<exists>r s'. h_Apply h q (methods pb (NewContext (zmq_Connection (pbMessage pb)) cid)) s = (r, s') \<and>
       (case spec q (abst (st (validator_of s))) of
          Crash \<Rightarrow> \<exists>e. r = Panic e
        | Refuse \<Rightarrow> (\<exists>e. r = Ret (Some e)) \<and> routed_conn pb cid st rd wr react ans w fixd s' \<and>
            good (st (validator_of s')) \<and> abst (st (validator_of s')) = abst (st (validator_of s))
        | Commit M \<Rightarrow> r = Ret None \<and> routed_conn pb cid st rd wr react ans w fixd s' \<and>
            good (st (validator_of s')) \<and> abst (st (validator_of s')) = M)"
begin

abbreviation running :: "Message list \<Rightarrow> nat \<Rightarrow> (string \<times> bytes) list \<Rightarrow> ('p, 'x) main_thread ZmqConnection \<Rightarrow> bool" where
  "running Q cap A \<equiv> processing pb st rd wr react ans w h fits good (Q, cap, A)"

abbreviation machine :: "('p, 'x) main_thread ZmqConnection \<Rightarrow> (TpProcessRequest, 'm) machine" where
  "machine \<equiv> machine_of pb st ans abst"

text \<open>A handler that has returned is answered for.\<close>

lemma worker_responds:
  assumes "running Q cap A s" "family_message pb h fits m"
    and "h_Apply h (request_of pb m) (methods pb (NewContext (zmq_Connection (pbMessage pb)) (TpProcessRequest_ContextId (request_of pb m)))) s = (Ret e, s1)"
    and "routed_conn pb cid st rd wr react ans w (Q, cap, A) s1" "good (st (validator_of s1))"
  obtains s' b where "worker_step pb (zmq_Connection (pbMessage pb)) [h] m s = (Ret True, s')"
    "running Q cap (A @ [(Message_CorrelationId m, b)]) s'" "accepted pb b \<longleftrightarrow> e = None"
    "st (validator_of s') = st (validator_of s1)"
proof -
  let ?C = "zmq_Connection (pbMessage pb)" and ?k = "Message_CorrelationId m"
  from assms(1) have all: "\<forall>cid. routed_conn pb cid st rd wr react ans w (Q, cap, A) s"
    and rc: "\<forall>r. codec_ok (pbTpProcessResponse pb) r" by (simp_all add: processing_def)
  obtain b where b: "accepted pb b \<longleftrightarrow> e = None"
    "\<And>s2. c_SendMsg ?C Message_TP_PROCESS_RESPONSE b ?k s1 = (Ret None, s2) \<Longrightarrow> worker_step pb ?C [h] m s = (Ret True, s2)"
    using worker_step_returns [OF assms(2) rc [rule_format] assms(3)] by blast
  obtain s2 where s2: "SendMsg (pbMessage pb) Message_TP_PROCESS_RESPONSE b ?k s1 = (Ret None, s2)"
    "routed_conn pb cid st rd wr react ans w (Q, cap, A @ [(?k, b)]) s2" "st (validator_of s2) = st (validator_of s1)"
    by (rule routed_SendMsg_response [OF assms(4)])
  have "worker_step pb ?C [h] m s = (Ret True, s2)" using b(2) s2(1) by (simp add: zmq_Connection_def)
  moreover have "running Q cap (A @ [(?k, b)]) s2"
    using assms(1,5) routed_conn_any [OF all s2(2)] s2(3) by (simp add: processing_def)
  ultimately show thesis using b(1) s2(3) by (rule that)
qed

text \<open>The steps of the main thread.\<close>

lemma request_queued:
  assumes "running Q cap A s" "family_message pb h fits m" "Message_MessageType m = Message_TP_PROCESS_REQUEST" "length Q < cap"
  shows "\<exists>s'. request_arrives pb m s = (Ret True, s') \<and> running (Q @ [m]) cap A s' \<and>
    machine_step spec cap (event_of pb (RequestArrives m)) (machine s) = Some (machine s')"
proof -
  let ?r = "main_of s" and ?s' = "s\<lparr>conn_socket := (conn_socket s)\<lparr>sk_peer := (main_of s)\<lparr>r_queue := Q @ [m]\<rparr>\<rparr>\<rparr>"
  from assms(1) have all: "\<forall>cid. routed_conn pb cid st rd wr react ans w (Q, cap, A) s" by (simp add: processing_def)
  then have c: "routed_conn pb [] st rd wr react ans w (Q, cap, A) s" by blast
  then have idle: "main_idle ?r" and r: "\<not> r_closed ?r" "r_queue ?r = Q" "r_cap ?r = cap" "ans (validator_of s) = A"
    by (simp_all add: routed_conn_def)
  note route = route_validator_request [OF routed_decodes [OF c] assms(3), of "main_C pb" "main_C pb" ?r]
  have cs: "routed_conn pb [] st rd wr react ans w (Q @ [m], cap, A) ?s'"
    using c by (simp add: routed_conn_def main_idle_def)
  show ?thesis
  proof (intro exI conjI)
    show "request_arrives pb m s = (Ret True, ?s')"
      using assms(4) r by (simp add: request_arrives_routes [OF idle] recovering_def route)
    show "running (Q @ [m]) cap A ?s'"
      using assms(1,2) routed_conn_any [OF all cs] by (simp add: processing_def)
    show "machine_step spec cap (event_of pb (RequestArrives m)) (machine s) = Some (machine ?s')"
      using assms(4) r by (simp add: machine_of_def)
  qed
qed

lemma request_denied:
  assumes "running Q cap A s" "Message_MessageType m = Message_TP_PROCESS_REQUEST" "\<not> length Q < cap"
  shows "\<exists>s' b. request_arrives pb m s = (Ret True, s') \<and> running Q cap (A @ [(Message_CorrelationId m, b)]) s' \<and>
    machine_step spec cap (event_of pb (RequestArrives m)) (machine s) = Some (machine s')"
proof -
  let ?r = "main_of s"
  from assms(1) have all: "\<forall>cid. routed_conn pb cid st rd wr react ans w (Q, cap, A) s" and rc: "\<forall>r. codec_ok (pbTpProcessResponse pb) r"
    by (simp_all add: processing_def)
  then have c: "routed_conn pb [] st rd wr react ans w (Q, cap, A) s" by blast
  then have idle: "main_idle ?r" and r: "\<not> r_closed ?r" "r_queue ?r = Q" "r_cap ?r = cap" "ans (validator_of s) = A"
    by (simp_all add: routed_conn_def)
  note route = route_validator_request [OF routed_decodes [OF c] assms(2), of "main_C pb" "main_C pb" ?r]
  obtain p' b where d: "deny_request pb (main_C pb) (Message_CorrelationId m) ?r = (Ret (), validator_peer p' ?r)"
    "st p' = st (validator_of s)" "ans p' = ans (validator_of s) @ [(Message_CorrelationId m, b)]" "\<not> accepted pb b"
    by (rule deny_answers [OF c rc])
  let ?s' = "s\<lparr>conn_socket := (conn_socket s)\<lparr>sk_peer := validator_peer p' ?r\<rparr>\<rparr>" and ?A = "A @ [(Message_CorrelationId m, b)]"
  have cs: "routed_conn pb [] st rd wr react ans w (Q, cap, ?A) ?s'"
    using c d(3) by (simp add: routed_conn_def main_idle_def)
  show ?thesis
  proof (intro exI conjI)
    show "request_arrives pb m s = (Ret True, ?s')"
      using assms(3) r d(1) by (simp add: request_arrives_routes [OF idle] recovering_def route)
    show "running Q cap ?A ?s'"
      using assms(1) routed_conn_any [OF all cs] d(2) by (simp add: processing_def)
    show "machine_step spec cap (event_of pb (RequestArrives m)) (machine s) = Some (machine ?s')"
      using assms(3) r d(2-4) by (simp add: machine_of_def)
  qed
qed

text \<open>The worker serves one request.\<close>

lemma worker_serves:
  assumes "running Q cap A s" "family_message pb h fits m"
  shows "case spec (request_of pb m) (abst (st (validator_of s))) of
      Crash \<Rightarrow> \<exists>e s'. worker_step pb (zmq_Connection (pbMessage pb)) [h] m s = (Panic e, s')
    | v \<Rightarrow> \<exists>s' b. worker_step pb (zmq_Connection (pbMessage pb)) [h] m s = (Ret True, s') \<and>
        running Q cap (A @ [(Message_CorrelationId m, b)]) s' \<and>
        (v = Refuse \<and> \<not> accepted pb b \<and> abst (st (validator_of s')) = abst (st (validator_of s)) \<or>
         v = Commit (abst (st (validator_of s'))) \<and> accepted pb b)"
proof -
  let ?q = "request_of pb m"
  from assms(1) have c: "routed_conn pb (TpProcessRequest_ContextId ?q) st rd wr react ans w (Q, cap, A) s" and g: "good (st (validator_of s))"
    by (simp_all add: processing_def)
  have "fits ?q" using assms(2) by (simp add: family_message_def Let_def)
  from apply_verdict [OF c g this] obtain r s1 where
    ap: "h_Apply h ?q (methods pb (NewContext (zmq_Connection (pbMessage pb)) (TpProcessRequest_ContextId ?q))) s = (r, s1)"
    and v: "case spec ?q (abst (st (validator_of s))) of
          Crash \<Rightarrow> \<exists>e. r = Panic e
        | Refuse \<Rightarrow> (\<exists>e. r = Ret (Some e)) \<and> routed_conn pb (TpProcessRequest_ContextId ?q) st rd wr react ans w (Q, cap, A) s1 \<and>
            good (st (validator_of s1)) \<and> abst (st (validator_of s1)) = abst (st (validator_of s))
        | Commit M \<Rightarrow> r = Ret None \<and> routed_conn pb (TpProcessRequest_ContextId ?q) st rd wr react ans w (Q, cap, A) s1 \<and>
            good (st (validator_of s1)) \<and> abst (st (validator_of s1)) = M" by blast
  show ?thesis
  proof (cases "spec ?q (abst (st (validator_of s)))")
    case Crash
    with v ap worker_step_panics [OF assms(2)] show ?thesis by auto
  next
    case Refuse
    with v obtain e where e: "r = Ret (Some e)" and s1: "routed_conn pb (TpProcessRequest_ContextId ?q) st rd wr react ans w (Q, cap, A) s1"
      "good (st (validator_of s1))" "abst (st (validator_of s1)) = abst (st (validator_of s))" by auto
    obtain s' b where "worker_step pb (zmq_Connection (pbMessage pb)) [h] m s = (Ret True, s')"
      "running Q cap (A @ [(Message_CorrelationId m, b)]) s'" "accepted pb b \<longleftrightarrow> Some e = None"
      "st (validator_of s') = st (validator_of s1)"
      by (rule worker_responds [OF assms ap [unfolded e] s1(1,2)])
    with Refuse s1(3) show ?thesis by auto
  next
    case (Commit M)
    with v have e: "r = Ret None" and s1: "routed_conn pb (TpProcessRequest_ContextId ?q) st rd wr react ans w (Q, cap, A) s1"
      "good (st (validator_of s1))" "abst (st (validator_of s1)) = M" by auto
    obtain s' b where "worker_step pb (zmq_Connection (pbMessage pb)) [h] m s = (Ret True, s')"
      "running Q cap (A @ [(Message_CorrelationId m, b)]) s'" "accepted pb b \<longleftrightarrow> (None :: go_error option) = None"
      "st (validator_of s') = st (validator_of s1)"
      by (rule worker_responds [OF assms ap [unfolded e] s1(1,2)])
    with Commit s1(3) show ?thesis by auto
  qed
qed

text \<open>One step of a thread: a simulation that also covers the crash.\<close>

definition matches :: "nat \<Rightarrow> (bool outcome \<times> ('p, 'x) main_thread ZmqConnection) \<Rightarrow> (TpProcessRequest, 'm) machine option \<Rightarrow> bool" where
  "matches cap res M \<longleftrightarrow> (case M of
     None \<Rightarrow> \<exists>e. fst res = Panic e
   | Some M' \<Rightarrow> fst res = Ret True \<and> machine (snd res) = M' \<and> (\<exists>Q A. running Q cap A (snd res)))"

lemma worker_turn_matches:
  assumes "running Q cap A s"
  shows "matches cap (worker_turn pb [h] s) (machine_step spec cap Serve (machine s))"
proof -
  from assms have all: "\<forall>cid. routed_conn pb cid st rd wr react ans w (Q, cap, A) s" and msgs: "list_all (family_message pb h fits) Q"
    by (simp_all add: processing_def)
  then have c: "routed_conn pb [] st rd wr react ans w (Q, cap, A) s" by blast
  then have r: "r_queue (main_of s) = Q" "ans (validator_of s) = A" by (simp_all add: routed_conn_def)
  show ?thesis
  proof (cases Q)
    case Nil
    with r assms show ?thesis by (auto simp: matches_def worker_turn_def)
  next
    case (Cons m q)
    let ?s = "s\<lparr>conn_socket := (conn_socket s)\<lparr>sk_peer := (main_of s)\<lparr>r_queue := q\<rparr>\<rparr>\<rparr>"
    have cs: "routed_conn pb [] st rd wr react ans w (q, cap, A) ?s" using c by (simp add: routed_conn_def main_idle_def)
    have run: "running q cap A ?s"
      using assms routed_conn_any [OF all cs] Cons by (simp add: processing_def)
    have fm: "family_message pb h fits m" using msgs Cons by simp
    have same: "validator_of ?s = validator_of s" by simp
    have turn: "worker_turn pb [h] s = worker_step pb (zmq_Connection (pbMessage pb)) [h] m ?s"
      using Cons r by (simp add: worker_turn_def)
    have fields: "r_queue (main_of s') = q" "ans (validator_of s') = A @ [(Message_CorrelationId m, b)]"
      if "running q cap (A @ [(Message_CorrelationId m, b)]) s'" for s' b
      using that by (simp_all add: processing_def routed_conn_def)
    note serves = worker_serves [OF run fm, unfolded same]
    show ?thesis
    proof (cases "spec (request_of pb m) (abst (st (validator_of s)))")
      case Crash
      with serves r Cons show ?thesis by (auto simp: matches_def turn)
    next
      case Refuse
      with serves obtain s' b where s': "worker_step pb (zmq_Connection (pbMessage pb)) [h] m ?s = (Ret True, s')"
        "running q cap (A @ [(Message_CorrelationId m, b)]) s'" "\<not> accepted pb b"
        "abst (st (validator_of s')) = abst (st (validator_of s))" by auto
      from s'(1,3,4) fields [OF s'(2)] s'(2) Refuse r Cons show ?thesis by (auto simp: matches_def turn machine_of_def)
    next
      case (Commit M)
      with serves obtain s' b where s': "worker_step pb (zmq_Connection (pbMessage pb)) [h] m ?s = (Ret True, s')"
        "running q cap (A @ [(Message_CorrelationId m, b)]) s'" "accepted pb b" "abst (st (validator_of s')) = M" by auto
      from s'(1,3,4) fields [OF s'(2)] s'(2) Commit r Cons show ?thesis by (auto simp: matches_def turn machine_of_def)
    qed
  qed
qed

lemma thread_step_matches:
  assumes "running Q cap A s" "family_events pb h fits [ev]"
  shows "matches cap (thread_step pb [h] ev s) (machine_step spec cap (event_of pb ev) (machine s))"
proof (cases ev)
  case (RequestArrives m)
  with assms(2) have m: "family_message pb h fits m" "Message_MessageType m = Message_TP_PROCESS_REQUEST"
    by (simp_all add: family_events_def)
  obtain s' Q' A' where s': "request_arrives pb m s = (Ret True, s')" "running Q' cap A' s'"
      "machine_step spec cap (event_of pb ev) (machine s) = Some (machine s')"
    using request_queued [OF assms(1) m] request_denied [OF assms(1) m(2)] unfolding RequestArrives by blast
  from s'(2) have "\<exists>Q A. running Q cap A s'" by (intro exI)
  with s'(1,3) RequestArrives show ?thesis by (simp add: matches_def del: machine_step.simps)
next
  case WorkerTurn
  with worker_turn_matches [OF assms(1)] show ?thesis by simp
qed

lemma thread_run_matches:
  assumes "running Q cap A s" "family_events pb h fits evs"
  shows "matches cap (thread_run pb [h] evs s) (machine_run spec cap (map (event_of pb) evs) (machine s))"
  using assms
proof (induction evs arbitrary: s Q A)
  case Nil
  then show ?case by (auto simp: matches_def)
next
  case (Cons ev evs)
  from Cons.prems(2) have ev: "family_events pb h fits [ev]" and evs: "family_events pb h fits evs" by (simp_all add: family_events_def)
  note step = thread_step_matches [OF Cons.prems(1) ev]
  show ?case
  proof (cases "machine_step spec cap (event_of pb ev) (machine s)")
    case None
    with step obtain e s1 where "thread_step pb [h] ev s = (Panic e, s1)"
      by (cases "thread_step pb [h] ev s") (auto simp: matches_def)
    with None show ?thesis by (simp add: matches_def bindP_def)
  next
    case (Some M)
    with step obtain s1 Q1 A1 where 1: "thread_step pb [h] ev s = (Ret True, s1)" "machine s1 = M" "running Q1 cap A1 s1"
      by (cases "thread_step pb [h] ev s") (auto simp: matches_def)
    from Cons.IH [OF 1(3) evs] 1(1,2) Some show ?thesis by (simp add: bindP_def)
  qed
qed

text \<open>The simulation as a statement about steps and runs.\<close>

lemma step_refines:
  assumes "running Q cap A s" "family_events pb h fits [ev]"
  shows "case machine_step spec cap (event_of pb ev) (machine s) of
      None \<Rightarrow> \<exists>e s'. thread_step pb [h] ev s = (Panic e, s')
    | Some M \<Rightarrow> \<exists>s' Q' A'. thread_step pb [h] ev s = (Ret True, s') \<and> running Q' cap A' s' \<and> machine s' = M"
  using thread_step_matches [OF assms] by (cases "thread_step pb [h] ev s") (auto simp: matches_def split: option.splits)

lemma run_refines:
  assumes "running Q cap A s" "family_events pb h fits evs"
  shows "case machine_run spec cap (map (event_of pb) evs) (machine s) of
      None \<Rightarrow> \<exists>e s'. thread_run pb [h] evs s = (Panic e, s')
    | Some M \<Rightarrow> \<exists>s' Q' A'. thread_run pb [h] evs s = (Ret True, s') \<and> running Q' cap A' s' \<and> machine s' = M"
  using thread_run_matches [OF assms] by (cases "thread_run pb [h] evs s") (auto simp: matches_def split: option.splits)

end

end
