(* ===== verification/Logging.thy ===== *)
theory Logging
  imports Go_Prelude
begin

text \<open>
  logging/logger.go: the logger every package shares.  The parts of the Go library it rests on
  (fmt.Sprint, fmt.Sprintf and the line format of log.Logger) are modelled first; then the package
  variable \<open>_LOGGER\<close>, the level, and the ten functions that log.  What is proved: the output is, in
  order, exactly the lines of the calls at or above the level, and each line carries the file
  and line of the place that logged.
\<close>

unbundle bit_operations_syntax

section \<open>The fmt package\<close>

text \<open>
  An operand of a print call: the name of its dynamic type (None for nil), whether that is a
  string type, and what it prints as under given flags and verb.
\<close>

record operand =
  op_type :: "string option"
  op_string :: bool
  op_fmt :: "string \<Rightarrow> char \<Rightarrow> string"

definition text_operand :: "string \<Rightarrow> operand" where
  "text_operand s = \<lparr>op_type = Some ''string'', op_string = True, op_fmt = (\<lambda>_ _. s)\<rparr>"

text \<open>Sprint puts a space between two operands when neither is a string.\<close>

fun Sprint_rest :: "bool \<Rightarrow> operand list \<Rightarrow> string" where
  "Sprint_rest prevString [] = []"
| "Sprint_rest prevString (a # as) =
    (if op_string a \<or> prevString then [] else '' '') @ op_fmt a [] (CHR ''v'') @ Sprint_rest (op_string a) as"

definition Sprint :: "operand list \<Rightarrow> string" where
  "Sprint as = Sprint_rest True as"

text \<open>
  Sprintf: a percent sign, flags, width and precision, and a verb consume one operand.  A missing
  operand, a missing verb and operands left over are reported in the text.  Explicit operand
  indexes and a star as width, which no log call uses, are not covered.
\<close>

definition flag_chars :: string where
  "flag_chars = ''+-# 0123456789.''"

definition extra_operands :: "operand list \<Rightarrow> string" where
  "extra_operands as =
    (if as = [] then []
     else ''%!(EXTRA '' @ concat (map (\<lambda>(i, a). (if i = 0 then [] else '', '') @
        (case op_type a of None \<Rightarrow> ''<nil>'' | Some t \<Rightarrow> t @ ''='' @ op_fmt a [] (CHR ''v''))) (zip [0..<length as] as)) @ '')'')"

function Sprintf :: "string \<Rightarrow> operand list \<Rightarrow> string" where
  "Sprintf [] as = extra_operands as"
| "Sprintf (c # cs) as =
    (if c \<noteq> CHR ''%'' then c # Sprintf cs as
     else
       (let flags = takeWhile (\<lambda>c. c \<in> set flag_chars) cs in
        case dropWhile (\<lambda>c. c \<in> set flag_chars) cs of
          [] \<Rightarrow> ''%!(NOVERB)'' @ extra_operands as
        | verb # rest \<Rightarrow>
           if verb = CHR ''%'' then CHR ''%'' # Sprintf rest as
           else (case as of
               [] \<Rightarrow> ''%!'' @ verb # ''(MISSING)'' @ Sprintf rest []
             | a # as' \<Rightarrow> op_fmt a flags verb @ Sprintf rest as')))"
  by pat_completeness auto

lemma dropWhile_Cons_shorter: "dropWhile P cs = verb # rest \<Longrightarrow> length rest < Suc (length cs)"
  using length_dropWhile_le [of P cs] by simp

termination Sprintf
  by (relation "measure (\<lambda>(cs, as). length cs)") (auto dest: dropWhile_Cons_shorter)

declare Sprintf.simps [simp del]

section \<open>The log package\<close>

datatype writer = Stdout | Writer nat

record log_time =
  lt_year :: nat
  lt_month :: nat
  lt_day :: nat
  lt_hour :: nat
  lt_minute :: nat
  lt_second :: nat
  lt_micro :: nat

text \<open>
  The circumstances of a call: the time, and the call stack as the file and line of every call
  that is under way, the innermost first.
\<close>

record call =
  cl_now :: log_time
  cl_stack :: "(string \<times> nat) list"

definition push :: "nat \<Rightarrow> call \<Rightarrow> call" where
  "push line c = c\<lparr>cl_stack := (''logging/logger.go'', line) # cl_stack c\<rparr>"

abbreviation (input) Ldate :: nat where "Ldate \<equiv> 1"
abbreviation (input) Ltime :: nat where "Ltime \<equiv> 2"
abbreviation (input) Lmicroseconds :: nat where "Lmicroseconds \<equiv> 4"
abbreviation (input) Lshortfile :: nat where "Lshortfile \<equiv> 16"
abbreviation (input) LstdFlags :: nat where "LstdFlags \<equiv> Ldate OR Ltime"

record log_Logger =
  ll_out :: writer
  ll_prefix :: string
  ll_flag :: nat

definition zero_padded :: "nat \<Rightarrow> nat \<Rightarrow> string" where
  "zero_padded wid n = (let s = Itoa (int n) in replicate (wid - length s) (CHR ''0'') @ s)"

definition short_file :: "string \<Rightarrow> string" where
  "short_file file = (if CHR ''/'' \<in> set (tl file) then rev (takeWhile (\<lambda>c. c \<noteq> CHR ''/'') (rev file)) else file)"

definition formatHeader :: "log_Logger \<Rightarrow> log_time \<Rightarrow> string \<times> nat \<Rightarrow> string" where
  "formatHeader l t at =
    (if ll_flag l AND 64 = 0 then ll_prefix l else []) @
    (if ll_flag l AND Ldate \<noteq> 0 then zero_padded 4 (lt_year t) @ ''/'' @ zero_padded 2 (lt_month t) @ ''/'' @ zero_padded 2 (lt_day t) @ '' '' else []) @
    (if ll_flag l AND (Ltime OR Lmicroseconds) \<noteq> 0 then
       zero_padded 2 (lt_hour t) @ '':'' @ zero_padded 2 (lt_minute t) @ '':'' @ zero_padded 2 (lt_second t) @
       (if ll_flag l AND Lmicroseconds \<noteq> 0 then ''.'' @ zero_padded 6 (lt_micro t) else []) @ '' '' else []) @
    (if ll_flag l AND (8 OR Lshortfile) \<noteq> 0 then
       (if ll_flag l AND Lshortfile \<noteq> 0 then short_file (fst at) else fst at) @ '':'' @ Itoa (int (snd at)) @ '': '' else []) @
    (if ll_flag l AND 64 \<noteq> 0 then ll_prefix l else [])"

text \<open>runtime.Caller, seen from Output: depth one is the place that called Output.\<close>

definition caller_at :: "nat \<Rightarrow> call \<Rightarrow> string \<times> nat" where
  "caller_at calldepth c =
    (if 1 \<le> calldepth \<and> calldepth \<le> length (cl_stack c) then cl_stack c ! (calldepth - 1) else (''???'', 0))"

definition newline_ended :: "string \<Rightarrow> string" where
  "newline_ended s = (if s = [] \<or> last s \<noteq> CHR 0x0A then s @ [CHR 0x0A] else s)"

definition log_Output :: "call \<Rightarrow> nat \<Rightarrow> string \<Rightarrow> log_Logger \<Rightarrow> string" where
  "log_Output c calldepth s l = formatHeader l (cl_now c) (caller_at calldepth c) @ newline_ended s"

section \<open>The logger\<close>

abbreviation (input) CRITICAL :: int where "CRITICAL \<equiv> 50"
abbreviation (input) ERROR :: int where "ERROR \<equiv> 40"
abbreviation (input) WARN :: int where "WARN \<equiv> 30"
abbreviation (input) INFO :: int where "INFO \<equiv> 20"
abbreviation (input) DEBUG :: int where "DEBUG \<equiv> 10"

abbreviation (input) CALLDEPTH :: nat where "CALLDEPTH \<equiv> 3"

definition FLAGS :: nat where
  "FLAGS = (Lshortfile OR LstdFlags) OR Lmicroseconds"

record Logger =
  lg_logger :: log_Logger
  lg_level :: int

text \<open>
  The package variable, nil at first, and what has been written to each writer.  There is one
  Logger, so a pointer to it is the variable itself; a writer takes what it is given.
\<close>

record logs =
  LOGGER :: "Logger option"
  written :: "writer \<Rightarrow> string"

definition write_to :: "writer \<Rightarrow> string \<Rightarrow> logs \<Rightarrow> logs" where
  "write_to w s st = st\<lparr>written := (written st)(w := written st w @ s)\<rparr>"

definition logging_Get :: "(logs, unit) proc" where
  "logging_Get st = (Ret (), case LOGGER st of
      None \<Rightarrow> st\<lparr>LOGGER := Some \<lparr>lg_logger = \<lparr>ll_out = Stdout, ll_prefix = [], ll_flag = FLAGS\<rparr>, lg_level = DEBUG\<rparr>\<rparr>
    | Some _ \<Rightarrow> st)"

text \<open>A method of the logger: on a nil pointer it panics.\<close>

definition logger_method :: "(Logger \<Rightarrow> (logs, unit) proc) \<Rightarrow> (logs, unit) proc" where
  "logger_method f st = (case LOGGER st of None \<Rightarrow> (Panic ''nil pointer dereference'', st) | Some self \<Rightarrow> f self st)"

definition SetLevel :: "int \<Rightarrow> (logs, unit) proc" where
  "SetLevel level = logger_method (\<lambda>self st. (Ret (), st\<lparr>LOGGER := Some (self\<lparr>lg_level := level\<rparr>)\<rparr>))"

definition SetOutput :: "writer \<Rightarrow> (logs, unit) proc" where
  "SetOutput w = logger_method (\<lambda>self st.
    (Ret (), st\<lparr>LOGGER := Some (self\<lparr>lg_logger := (lg_logger self)\<lparr>ll_out := w\<rparr>\<rparr>)\<rparr>))"

definition logger_logf :: "call \<Rightarrow> string \<Rightarrow> string \<Rightarrow> operand list \<Rightarrow> (logs, unit) proc" where
  "logger_logf c prefix format v = logger_method (\<lambda>self st. (Ret (), write_to (ll_out (lg_logger self))
    (log_Output (push 127 c) CALLDEPTH (''['' @ prefix @ ''] '' @ Sprintf format v) (lg_logger self)) st))"

definition logger_log :: "call \<Rightarrow> string \<Rightarrow> operand list \<Rightarrow> (logs, unit) proc" where
  "logger_log c prefix v = logger_method (\<lambda>self st. (Ret (), write_to (ll_out (lg_logger self))
    (log_Output (push 131 c) CALLDEPTH (''['' @ prefix @ ''] '' @ Sprint v) (lg_logger self)) st))"

definition Debugf :: "call \<Rightarrow> string \<Rightarrow> operand list \<Rightarrow> (logs, unit) proc" where
  "Debugf c format v = logger_method (\<lambda>self. if lg_level self \<le> DEBUG then logger_logf (push 68 c) ''DEBUG'' format v else retP ())"

definition Debug :: "call \<Rightarrow> operand list \<Rightarrow> (logs, unit) proc" where
  "Debug c v = logger_method (\<lambda>self. if lg_level self \<le> DEBUG then logger_log (push 74 c) ''DEBUG'' v else retP ())"

definition Infof :: "call \<Rightarrow> string \<Rightarrow> operand list \<Rightarrow> (logs, unit) proc" where
  "Infof c format v = logger_method (\<lambda>self. if lg_level self \<le> INFO then logger_logf (push 80 c) ''INFO'' format v else retP ())"

definition Info :: "call \<Rightarrow> operand list \<Rightarrow> (logs, unit) proc" where
  "Info c v = logger_method (\<lambda>self. if lg_level self \<le> INFO then logger_log (push 86 c) ''INFO'' v else retP ())"

definition Warnf :: "call \<Rightarrow> string \<Rightarrow> operand list \<Rightarrow> (logs, unit) proc" where
  "Warnf c format v = logger_method (\<lambda>self. if lg_level self \<le> WARN then logger_logf (push 92 c) ''WARN'' format v else retP ())"

definition Warn :: "call \<Rightarrow> operand list \<Rightarrow> (logs, unit) proc" where
  "Warn c v = logger_method (\<lambda>self. if lg_level self \<le> WARN then logger_log (push 98 c) ''WARN'' v else retP ())"

definition Errorf :: "call \<Rightarrow> string \<Rightarrow> operand list \<Rightarrow> (logs, unit) proc" where
  "Errorf c format v = logger_method (\<lambda>self. if lg_level self \<le> ERROR then logger_logf (push 104 c) ''ERROR'' format v else retP ())"

definition Logger_Error :: "call \<Rightarrow> operand list \<Rightarrow> (logs, unit) proc" where
  "Logger_Error c v = logger_method (\<lambda>self. if lg_level self \<le> ERROR then logger_log (push 110 c) ''ERROR'' v else retP ())"

definition Criticalf :: "call \<Rightarrow> string \<Rightarrow> operand list \<Rightarrow> (logs, unit) proc" where
  "Criticalf c format v = logger_method (\<lambda>self. if lg_level self \<le> CRITICAL then logger_logf (push 116 c) ''CRITICAL'' format v else retP ())"

definition Critical :: "call \<Rightarrow> operand list \<Rightarrow> (logs, unit) proc" where
  "Critical c v = logger_method (\<lambda>self. if lg_level self \<le> CRITICAL then logger_log (push 122 c) ''CRITICAL'' v else retP ())"

section \<open>What is logged\<close>

text \<open>
  A use of the logger: a package gets it, changes its level or output, or logs, with the level
  of the function it calls, a format or none, the operands and the circumstances.
\<close>

datatype log_severity = SevDebug | SevInfo | SevWarn | SevError | SevCritical

datatype log_action =
    UseGet | UseLevel int | UseOutput writer
  | UseLogf log_severity string "operand list" call | UseLog log_severity "operand list" call

fun log_use :: "log_action \<Rightarrow> (logs, unit) proc" where
  "log_use UseGet = logging_Get"
| "log_use (UseLevel l) = SetLevel l"
| "log_use (UseOutput w) = SetOutput w"
| "log_use (UseLogf sev f v c) =
    (case sev of SevDebug \<Rightarrow> Debugf c f v | SevInfo \<Rightarrow> Infof c f v | SevWarn \<Rightarrow> Warnf c f v
       | SevError \<Rightarrow> Errorf c f v | SevCritical \<Rightarrow> Criticalf c f v)"
| "log_use (UseLog sev v c) =
    (case sev of SevDebug \<Rightarrow> Debug c v | SevInfo \<Rightarrow> Info c v | SevWarn \<Rightarrow> Warn c v
       | SevError \<Rightarrow> Logger_Error c v | SevCritical \<Rightarrow> Critical c v)"

fun log_uses :: "log_action list \<Rightarrow> (logs, unit) proc" where
  "log_uses [] = retP ()"
| "log_uses (u # us) = bindP (log_use u) (\<lambda>_. log_uses us)"

text \<open>
  The specification.  An entry has a severity, a text, a time and the place it was logged at; a
  line is the header, the name of the severity in brackets, the text, and a newline unless the
  text ends in one.
\<close>

definition sev_level :: "log_severity \<Rightarrow> int" where
  "sev_level sev = (case sev of SevDebug \<Rightarrow> 10 | SevInfo \<Rightarrow> 20 | SevWarn \<Rightarrow> 30 | SevError \<Rightarrow> 40 | SevCritical \<Rightarrow> 50)"

definition sev_name :: "log_severity \<Rightarrow> string" where
  "sev_name sev = (case sev of SevDebug \<Rightarrow> ''DEBUG'' | SevInfo \<Rightarrow> ''INFO'' | SevWarn \<Rightarrow> ''WARN''
     | SevError \<Rightarrow> ''ERROR'' | SevCritical \<Rightarrow> ''CRITICAL'')"

definition call_site :: "call \<Rightarrow> string \<times> nat" where
  "call_site c = (case cl_stack c of [] \<Rightarrow> (''???'', 0) | at # _ \<Rightarrow> at)"

definition log_line :: "log_Logger \<Rightarrow> log_severity \<Rightarrow> string \<Rightarrow> call \<Rightarrow> string" where
  "log_line l sev txt c = formatHeader l (cl_now c) (call_site c) @ newline_ended (''['' @ sev_name sev @ ''] '' @ txt)"

text \<open>The lines a sequence of uses should produce, each with the writer it goes to.\<close>

fun log_spec :: "Logger \<Rightarrow> log_action list \<Rightarrow> (writer \<times> string) list" where
  "log_spec g [] = []"
| "log_spec g (UseGet # us) = log_spec g us"
| "log_spec g (UseLevel l # us) = log_spec (g\<lparr>lg_level := l\<rparr>) us"
| "log_spec g (UseOutput w # us) = log_spec (g\<lparr>lg_logger := (lg_logger g)\<lparr>ll_out := w\<rparr>\<rparr>) us"
| "log_spec g (UseLogf sev f v c # us) =
    (if lg_level g \<le> sev_level sev then [(ll_out (lg_logger g), log_line (lg_logger g) sev (Sprintf f v) c)] else []) @ log_spec g us"
| "log_spec g (UseLog sev v c # us) =
    (if lg_level g \<le> sev_level sev then [(ll_out (lg_logger g), log_line (lg_logger g) sev (Sprint v) c)] else []) @ log_spec g us"

definition lines_to :: "writer \<Rightarrow> (writer \<times> string) list \<Rightarrow> string" where
  "lines_to w ls = concat (map snd (filter (\<lambda>l. fst l = w) ls))"

lemma lines_to_simps [simp]:
  "lines_to w [] = []" "lines_to w (l # ls) = (if fst l = w then snd l @ lines_to w ls else lines_to w ls)"
  by (simp_all add: lines_to_def)

text \<open>The two frames inside the package are skipped: the line names the place that logged.\<close>

lemma caller_outside [simp]: "caller_at CALLDEPTH (push i (push j c)) = call_site c"
  by (auto simp: caller_at_def push_def call_site_def nth_Cons' split: list.split)

lemma cl_now_push [simp]: "cl_now (push i c) = cl_now c"
  by (simp add: push_def)

lemmas severity_defs = sev_level_def sev_name_def Debugf_def Debug_def Infof_def Info_def Warnf_def Warn_def Errorf_def Logger_Error_def
  Criticalf_def Critical_def

lemma log_use_logf:
  assumes "LOGGER st = Some g"
  shows "log_use (UseLogf sev f v c) st = (Ret (), if lg_level g \<le> sev_level sev
    then write_to (ll_out (lg_logger g)) (log_line (lg_logger g) sev (Sprintf f v) c) st else st)"
  using assms
  by (cases sev) (simp_all add: severity_defs logger_method_def logger_logf_def log_Output_def log_line_def)

lemma log_use_log:
  assumes "LOGGER st = Some g"
  shows "log_use (UseLog sev v c) st = (Ret (), if lg_level g \<le> sev_level sev
    then write_to (ll_out (lg_logger g)) (log_line (lg_logger g) sev (Sprint v) c) st else st)"
  using assms
  by (cases sev) (simp_all add: severity_defs logger_method_def logger_log_def log_Output_def log_line_def)

lemma write_to_simps [simp]:
  "LOGGER (write_to w s st) = LOGGER st" "written (write_to w s st) w' = (if w' = w then written st w @ s else written st w')"
  by (simp_all add: write_to_def)

lemmas log_use_cases = logging_Get_def SetLevel_def SetOutput_def logger_method_def

text \<open>
  C38: the log is exactly what the levels ask for.  In any sequence of uses of the logger by any
  packages (getting it again, changing the level or the output, logging with one of the ten
  functions), each writer receives, in order, the lines of exactly those calls whose severity was
  at or above the level in force, and each line has the time of the call, the severity and
  the file and line of the place that logged, not of the logging package.  Getting the logger
  again never resets the level that was set.
\<close>

theorem log_uses_spec:
  assumes "LOGGER st = Some g"
  shows "\<exists>st'. log_uses us st = (Ret (), st') \<and> LOGGER st' \<noteq> None \<and>
    (\<forall>w. written st' w = written st w @ lines_to w (log_spec g us))"
  using assms
proof (induction us arbitrary: st g)
  case Nil
  then show ?case by simp
next
  case (Cons u us)
  show ?case
  proof (cases u)
    case (UseLogf sev f v c)
    let ?st = "if lg_level g \<le> sev_level sev
      then write_to (ll_out (lg_logger g)) (log_line (lg_logger g) sev (Sprintf f v) c) st else st"
    have "LOGGER ?st = Some g" using Cons.prems by simp
    from Cons.IH [OF this] show ?thesis
      using log_use_logf [OF Cons.prems, of sev f v c] by (simp add: UseLogf del: log_use.simps split: if_splits) blast
  next
    case (UseLog sev v c)
    let ?st = "if lg_level g \<le> sev_level sev
      then write_to (ll_out (lg_logger g)) (log_line (lg_logger g) sev (Sprint v) c) st else st"
    have "LOGGER ?st = Some g" using Cons.prems by simp
    from Cons.IH [OF this] show ?thesis
      using log_use_log [OF Cons.prems, of sev v c] by (simp add: UseLog del: log_use.simps split: if_splits) blast
  next
    case UseGet
    with Cons show ?thesis by (simp add: log_use_cases)
  next
    case (UseLevel l)
    with Cons.prems Cons.IH [of "st\<lparr>LOGGER := Some (g\<lparr>lg_level := l\<rparr>)\<rparr>" "g\<lparr>lg_level := l\<rparr>"]
    show ?thesis by (simp add: log_use_cases)
  next
    case (UseOutput w)
    let ?g = "g\<lparr>lg_logger := (lg_logger g)\<lparr>ll_out := w\<rparr>\<rparr>"
    from UseOutput Cons.prems Cons.IH [of "st\<lparr>LOGGER := Some ?g\<rparr>" ?g]
    show ?thesis by (simp add: log_use_cases)
  qed
qed

definition demo_now :: log_time where
  "demo_now = \<lparr>lt_year = 2018, lt_month = 7, lt_day = 4, lt_hour = 9, lt_minute = 5, lt_second = 0, lt_micro = 1234\<rparr>"

lemma demo_header:
  "formatHeader \<lparr>ll_out = Stdout, ll_prefix = [], ll_flag = FLAGS\<rparr> demo_now (''processor/processor.go'', 211) =
    ''2018/07/04 09:05:00.001234 processor.go:211: ''"
  by code_simp

lemma log_uses_spec_witness:
  "\<exists>st'. log_uses [UseGet, UseLevel WARN, UseGet, UseLogf SevInfo ''hidden'' [] \<lparr>cl_now = demo_now, cl_stack = []\<rparr>,
      UseLogf SevWarn ''denying %v'' [text_operand ''id''] \<lparr>cl_now = demo_now, cl_stack = [(''processor/processor.go'', 211)]\<rparr>]
      \<lparr>LOGGER = Some \<lparr>lg_logger = \<lparr>ll_out = Stdout, ll_prefix = [], ll_flag = FLAGS\<rparr>, lg_level = DEBUG\<rparr>, written = (\<lambda>w. [])\<rparr> = (Ret (), st') \<and>
    written st' Stdout = ''2018/07/04 09:05:00.001234 processor.go:211: [WARN] denying id'' @ [CHR 0x0A]"
  using log_uses_spec [of "\<lparr>LOGGER = Some \<lparr>lg_logger = \<lparr>ll_out = Stdout, ll_prefix = [], ll_flag = FLAGS\<rparr>, lg_level = DEBUG\<rparr>,
      written = (\<lambda>w. [])\<rparr>" _ "[UseGet, UseLevel WARN, UseGet, UseLogf SevInfo ''hidden'' [] \<lparr>cl_now = demo_now, cl_stack = []\<rparr>,
      UseLogf SevWarn ''denying %v'' [text_operand ''id''] \<lparr>cl_now = demo_now, cl_stack = [(''processor/processor.go'', 211)]\<rparr>]"]
  by (auto simp: sev_level_def log_line_def call_site_def demo_header newline_ended_def sev_name_def text_operand_def
      Sprintf.simps flag_chars_def extra_operands_def simp del: log_uses.simps)

end
