(* ===== verification/Consensus_Pb.thy ===== *)
theory Consensus_Pb
  imports Protobuf
begin

text \<open>
  The generated messages of the consensus engine side (consensus_pb2/consensus.pb.go): structs as
  records, status enums as their int32 values with their names, message pointers as options, and
  the codecs of the messages that travel.
\<close>

type_synonym ConsensusRegisterResponse_Status = int

abbreviation (input) ConsensusRegisterResponse_STATUS_UNSET :: ConsensusRegisterResponse_Status where "ConsensusRegisterResponse_STATUS_UNSET \<equiv> 0"
abbreviation (input) ConsensusRegisterResponse_OK :: ConsensusRegisterResponse_Status where "ConsensusRegisterResponse_OK \<equiv> 1"
abbreviation (input) ConsensusRegisterResponse_BAD_REQUEST :: ConsensusRegisterResponse_Status where "ConsensusRegisterResponse_BAD_REQUEST \<equiv> 2"
abbreviation (input) ConsensusRegisterResponse_SERVICE_ERROR :: ConsensusRegisterResponse_Status where "ConsensusRegisterResponse_SERVICE_ERROR \<equiv> 3"
abbreviation (input) ConsensusRegisterResponse_NOT_READY :: ConsensusRegisterResponse_Status where "ConsensusRegisterResponse_NOT_READY \<equiv> 4"

definition ConsensusRegisterResponse_Status_name :: "(int \<times> string) list" where
  "ConsensusRegisterResponse_Status_name =
   [(0, ''STATUS_UNSET''),
    (1, ''OK''),
    (2, ''BAD_REQUEST''),
    (3, ''SERVICE_ERROR''),
    (4, ''NOT_READY'')]"

type_synonym ConsensusSendToResponse_Status = int

abbreviation (input) ConsensusSendToResponse_STATUS_UNSET :: ConsensusSendToResponse_Status where "ConsensusSendToResponse_STATUS_UNSET \<equiv> 0"
abbreviation (input) ConsensusSendToResponse_OK :: ConsensusSendToResponse_Status where "ConsensusSendToResponse_OK \<equiv> 1"
abbreviation (input) ConsensusSendToResponse_BAD_REQUEST :: ConsensusSendToResponse_Status where "ConsensusSendToResponse_BAD_REQUEST \<equiv> 2"
abbreviation (input) ConsensusSendToResponse_SERVICE_ERROR :: ConsensusSendToResponse_Status where "ConsensusSendToResponse_SERVICE_ERROR \<equiv> 3"
abbreviation (input) ConsensusSendToResponse_NOT_READY :: ConsensusSendToResponse_Status where "ConsensusSendToResponse_NOT_READY \<equiv> 4"
abbreviation (input) ConsensusSendToResponse_UNKNOWN_PEER :: ConsensusSendToResponse_Status where "ConsensusSendToResponse_UNKNOWN_PEER \<equiv> 5"
abbreviation (input) ConsensusSendToResponse_NOT_ACTIVE_ENGINE :: ConsensusSendToResponse_Status where "ConsensusSendToResponse_NOT_ACTIVE_ENGINE \<equiv> 6"

definition ConsensusSendToResponse_Status_name :: "(int \<times> string) list" where
  "ConsensusSendToResponse_Status_name =
   [(0, ''STATUS_UNSET''),
    (1, ''OK''),
    (2, ''BAD_REQUEST''),
    (3, ''SERVICE_ERROR''),
    (4, ''NOT_READY''),
    (5, ''UNKNOWN_PEER''),
    (6, ''NOT_ACTIVE_ENGINE'')]"

type_synonym ConsensusBroadcastResponse_Status = int

abbreviation (input) ConsensusBroadcastResponse_STATUS_UNSET :: ConsensusBroadcastResponse_Status where "ConsensusBroadcastResponse_STATUS_UNSET \<equiv> 0"
abbreviation (input) ConsensusBroadcastResponse_OK :: ConsensusBroadcastResponse_Status where "ConsensusBroadcastResponse_OK \<equiv> 1"
abbreviation (input) ConsensusBroadcastResponse_BAD_REQUEST :: ConsensusBroadcastResponse_Status where "ConsensusBroadcastResponse_BAD_REQUEST \<equiv> 2"
abbreviation (input) ConsensusBroadcastResponse_SERVICE_ERROR :: ConsensusBroadcastResponse_Status where "ConsensusBroadcastResponse_SERVICE_ERROR \<equiv> 3"
abbreviation (input) ConsensusBroadcastResponse_NOT_READY :: ConsensusBroadcastResponse_Status where "ConsensusBroadcastResponse_NOT_READY \<equiv> 4"
abbreviation (input) ConsensusBroadcastResponse_NOT_ACTIVE_ENGINE :: ConsensusBroadcastResponse_Status where "ConsensusBroadcastResponse_NOT_ACTIVE_ENGINE \<equiv> 5"

definition ConsensusBroadcastResponse_Status_name :: "(int \<times> string) list" where
  "ConsensusBroadcastResponse_Status_name =
   [(0, ''STATUS_UNSET''),
    (1, ''OK''),
    (2, ''BAD_REQUEST''),
    (3, ''SERVICE_ERROR''),
    (4, ''NOT_READY''),
    (5, ''NOT_ACTIVE_ENGINE'')]"

type_synonym ConsensusInitializeBlockResponse_Status = int

abbreviation (input) ConsensusInitializeBlockResponse_STATUS_UNSET :: ConsensusInitializeBlockResponse_Status where "ConsensusInitializeBlockResponse_STATUS_UNSET \<equiv> 0"
abbreviation (input) ConsensusInitializeBlockResponse_OK :: ConsensusInitializeBlockResponse_Status where "ConsensusInitializeBlockResponse_OK \<equiv> 1"
abbreviation (input) ConsensusInitializeBlockResponse_BAD_REQUEST :: ConsensusInitializeBlockResponse_Status where "ConsensusInitializeBlockResponse_BAD_REQUEST \<equiv> 2"
abbreviation (input) ConsensusInitializeBlockResponse_SERVICE_ERROR :: ConsensusInitializeBlockResponse_Status where "ConsensusInitializeBlockResponse_SERVICE_ERROR \<equiv> 3"
abbreviation (input) ConsensusInitializeBlockResponse_NOT_READY :: ConsensusInitializeBlockResponse_Status where "ConsensusInitializeBlockResponse_NOT_READY \<equiv> 4"
abbreviation (input) ConsensusInitializeBlockResponse_INVALID_STATE :: ConsensusInitializeBlockResponse_Status where "ConsensusInitializeBlockResponse_INVALID_STATE \<equiv> 5"
abbreviation (input) ConsensusInitializeBlockResponse_UNKNOWN_BLOCK :: ConsensusInitializeBlockResponse_Status where "ConsensusInitializeBlockResponse_UNKNOWN_BLOCK \<equiv> 6"
abbreviation (input) ConsensusInitializeBlockResponse_NOT_ACTIVE_ENGINE :: ConsensusInitializeBlockResponse_Status where "ConsensusInitializeBlockResponse_NOT_ACTIVE_ENGINE \<equiv> 7"

definition ConsensusInitializeBlockResponse_Status_name :: "(int \<times> string) list" where
  "ConsensusInitializeBlockResponse_Status_name =
   [(0, ''STATUS_UNSET''),
    (1, ''OK''),
    (2, ''BAD_REQUEST''),
    (3, ''SERVICE_ERROR''),
    (4, ''NOT_READY''),
    (5, ''INVALID_STATE''),
    (6, ''UNKNOWN_BLOCK''),
    (7, ''NOT_ACTIVE_ENGINE'')]"

type_synonym ConsensusSummarizeBlockResponse_Status = int

abbreviation (input) ConsensusSummarizeBlockResponse_STATUS_UNSET :: ConsensusSummarizeBlockResponse_Status where "ConsensusSummarizeBlockResponse_STATUS_UNSET \<equiv> 0"
abbreviation (input) ConsensusSummarizeBlockResponse_OK :: ConsensusSummarizeBlockResponse_Status where "ConsensusSummarizeBlockResponse_OK \<equiv> 1"
abbreviation (input) ConsensusSummarizeBlockResponse_BAD_REQUEST :: ConsensusSummarizeBlockResponse_Status where "ConsensusSummarizeBlockResponse_BAD_REQUEST \<equiv> 2"
abbreviation (input) ConsensusSummarizeBlockResponse_SERVICE_ERROR :: ConsensusSummarizeBlockResponse_Status where "ConsensusSummarizeBlockResponse_SERVICE_ERROR \<equiv> 3"
abbreviation (input) ConsensusSummarizeBlockResponse_NOT_READY :: ConsensusSummarizeBlockResponse_Status where "ConsensusSummarizeBlockResponse_NOT_READY \<equiv> 4"
abbreviation (input) ConsensusSummarizeBlockResponse_INVALID_STATE :: ConsensusSummarizeBlockResponse_Status where "ConsensusSummarizeBlockResponse_INVALID_STATE \<equiv> 5"
abbreviation (input) ConsensusSummarizeBlockResponse_BLOCK_NOT_READY :: ConsensusSummarizeBlockResponse_Status where "ConsensusSummarizeBlockResponse_BLOCK_NOT_READY \<equiv> 6"
abbreviation (input) ConsensusSummarizeBlockResponse_NOT_ACTIVE_ENGINE :: ConsensusSummarizeBlockResponse_Status where "ConsensusSummarizeBlockResponse_NOT_ACTIVE_ENGINE \<equiv> 7"

definition ConsensusSummarizeBlockResponse_Status_name :: "(int \<times> string) list" where
  "ConsensusSummarizeBlockResponse_Status_name =
   [(0, ''STATUS_UNSET''),
    (1, ''OK''),
    (2, ''BAD_REQUEST''),
    (3, ''SERVICE_ERROR''),
    (4, ''NOT_READY''),
    (5, ''INVALID_STATE''),
    (6, ''BLOCK_NOT_READY''),
    (7, ''NOT_ACTIVE_ENGINE'')]"

type_synonym ConsensusFinalizeBlockResponse_Status = int

abbreviation (input) ConsensusFinalizeBlockResponse_STATUS_UNSET :: ConsensusFinalizeBlockResponse_Status where "ConsensusFinalizeBlockResponse_STATUS_UNSET \<equiv> 0"
abbreviation (input) ConsensusFinalizeBlockResponse_OK :: ConsensusFinalizeBlockResponse_Status where "ConsensusFinalizeBlockResponse_OK \<equiv> 1"
abbreviation (input) ConsensusFinalizeBlockResponse_BAD_REQUEST :: ConsensusFinalizeBlockResponse_Status where "ConsensusFinalizeBlockResponse_BAD_REQUEST \<equiv> 2"
abbreviation (input) ConsensusFinalizeBlockResponse_SERVICE_ERROR :: ConsensusFinalizeBlockResponse_Status where "ConsensusFinalizeBlockResponse_SERVICE_ERROR \<equiv> 3"
abbreviation (input) ConsensusFinalizeBlockResponse_NOT_READY :: ConsensusFinalizeBlockResponse_Status where "ConsensusFinalizeBlockResponse_NOT_READY \<equiv> 4"
abbreviation (input) ConsensusFinalizeBlockResponse_INVALID_STATE :: ConsensusFinalizeBlockResponse_Status where "ConsensusFinalizeBlockResponse_INVALID_STATE \<equiv> 5"
abbreviation (input) ConsensusFinalizeBlockResponse_BLOCK_NOT_READY :: ConsensusFinalizeBlockResponse_Status where "ConsensusFinalizeBlockResponse_BLOCK_NOT_READY \<equiv> 6"
abbreviation (input) ConsensusFinalizeBlockResponse_NOT_ACTIVE_ENGINE :: ConsensusFinalizeBlockResponse_Status where "ConsensusFinalizeBlockResponse_NOT_ACTIVE_ENGINE \<equiv> 7"

definition ConsensusFinalizeBlockResponse_Status_name :: "(int \<times> string) list" where
  "ConsensusFinalizeBlockResponse_Status_name =
   [(0, ''STATUS_UNSET''),
    (1, ''OK''),
    (2, ''BAD_REQUEST''),
    (3, ''SERVICE_ERROR''),
    (4, ''NOT_READY''),
    (5, ''INVALID_STATE''),
    (6, ''BLOCK_NOT_READY''),
    (7, ''NOT_ACTIVE_ENGINE'')]"

type_synonym ConsensusCancelBlockResponse_Status = int

abbreviation (input) ConsensusCancelBlockResponse_STATUS_UNSET :: ConsensusCancelBlockResponse_Status where "ConsensusCancelBlockResponse_STATUS_UNSET \<equiv> 0"
abbreviation (input) ConsensusCancelBlockResponse_OK :: ConsensusCancelBlockResponse_Status where "ConsensusCancelBlockResponse_OK \<equiv> 1"
abbreviation (input) ConsensusCancelBlockResponse_BAD_REQUEST :: ConsensusCancelBlockResponse_Status where "ConsensusCancelBlockResponse_BAD_REQUEST \<equiv> 2"
abbreviation (input) ConsensusCancelBlockResponse_SERVICE_ERROR :: ConsensusCancelBlockResponse_Status where "ConsensusCancelBlockResponse_SERVICE_ERROR \<equiv> 3"
abbreviation (input) ConsensusCancelBlockResponse_NOT_READY :: ConsensusCancelBlockResponse_Status where "ConsensusCancelBlockResponse_NOT_READY \<equiv> 4"
abbreviation (input) ConsensusCancelBlockResponse_INVALID_STATE :: ConsensusCancelBlockResponse_Status where "ConsensusCancelBlockResponse_INVALID_STATE \<equiv> 5"
abbreviation (input) ConsensusCancelBlockResponse_NOT_ACTIVE_ENGINE :: ConsensusCancelBlockResponse_Status where "ConsensusCancelBlockResponse_NOT_ACTIVE_ENGINE \<equiv> 6"

definition ConsensusCancelBlockResponse_Status_name :: "(int \<times> string) list" where
  "ConsensusCancelBlockResponse_Status_name =
   [(0, ''STATUS_UNSET''),
    (1, ''OK''),
    (2, ''BAD_REQUEST''),
    (3, ''SERVICE_ERROR''),
    (4, ''NOT_READY''),
    (5, ''INVALID_STATE''),
    (6, ''NOT_ACTIVE_ENGINE'')]"

type_synonym ConsensusCheckBlocksResponse_Status = int

abbreviation (input) ConsensusCheckBlocksResponse_STATUS_UNSET :: ConsensusCheckBlocksResponse_Status where "ConsensusCheckBlocksResponse_STATUS_UNSET \<equiv> 0"
abbreviation (input) ConsensusCheckBlocksResponse_OK :: ConsensusCheckBlocksResponse_Status where "ConsensusCheckBlocksResponse_OK \<equiv> 1"
abbreviation (input) ConsensusCheckBlocksResponse_BAD_REQUEST :: ConsensusCheckBlocksResponse_Status where "ConsensusCheckBlocksResponse_BAD_REQUEST \<equiv> 2"
abbreviation (input) ConsensusCheckBlocksResponse_SERVICE_ERROR :: ConsensusCheckBlocksResponse_Status where "ConsensusCheckBlocksResponse_SERVICE_ERROR \<equiv> 3"
abbreviation (input) ConsensusCheckBlocksResponse_NOT_READY :: ConsensusCheckBlocksResponse_Status where "ConsensusCheckBlocksResponse_NOT_READY \<equiv> 4"
abbreviation (input) ConsensusCheckBlocksResponse_UNKNOWN_BLOCK :: ConsensusCheckBlocksResponse_Status where "ConsensusCheckBlocksResponse_UNKNOWN_BLOCK \<equiv> 5"
abbreviation (input) ConsensusCheckBlocksResponse_NOT_ACTIVE_ENGINE :: ConsensusCheckBlocksResponse_Status where "ConsensusCheckBlocksResponse_NOT_ACTIVE_ENGINE \<equiv> 6"

definition ConsensusCheckBlocksResponse_Status_name :: "(int \<times> string) list" where
  "ConsensusCheckBlocksResponse_Status_name =
   [(0, ''STATUS_UNSET''),
    (1, ''OK''),
    (2, ''BAD_REQUEST''),
    (3, ''SERVICE_ERROR''),
    (4, ''NOT_READY''),
    (5, ''UNKNOWN_BLOCK''),
    (6, ''NOT_ACTIVE_ENGINE'')]"

type_synonym ConsensusCommitBlockResponse_Status = int

abbreviation (input) ConsensusCommitBlockResponse_STATUS_UNSET :: ConsensusCommitBlockResponse_Status where "ConsensusCommitBlockResponse_STATUS_UNSET \<equiv> 0"
abbreviation (input) ConsensusCommitBlockResponse_OK :: ConsensusCommitBlockResponse_Status where "ConsensusCommitBlockResponse_OK \<equiv> 1"
abbreviation (input) ConsensusCommitBlockResponse_BAD_REQUEST :: ConsensusCommitBlockResponse_Status where "ConsensusCommitBlockResponse_BAD_REQUEST \<equiv> 2"
abbreviation (input) ConsensusCommitBlockResponse_SERVICE_ERROR :: ConsensusCommitBlockResponse_Status where "ConsensusCommitBlockResponse_SERVICE_ERROR \<equiv> 3"
abbreviation (input) ConsensusCommitBlockResponse_NOT_READY :: ConsensusCommitBlockResponse_Status where "ConsensusCommitBlockResponse_NOT_READY \<equiv> 4"
abbreviation (input) ConsensusCommitBlockResponse_UNKNOWN_BLOCK :: ConsensusCommitBlockResponse_Status where "ConsensusCommitBlockResponse_UNKNOWN_BLOCK \<equiv> 5"
abbreviation (input) ConsensusCommitBlockResponse_NOT_ACTIVE_ENGINE :: ConsensusCommitBlockResponse_Status where "ConsensusCommitBlockResponse_NOT_ACTIVE_ENGINE \<equiv> 6"

definition ConsensusCommitBlockResponse_Status_name :: "(int \<times> string) list" where
  "ConsensusCommitBlockResponse_Status_name =
   [(0, ''STATUS_UNSET''),
    (1, ''OK''),
    (2, ''BAD_REQUEST''),
    (3, ''SERVICE_ERROR''),
    (4, ''NOT_READY''),
    (5, ''UNKNOWN_BLOCK''),
    (6, ''NOT_ACTIVE_ENGINE'')]"

type_synonym ConsensusIgnoreBlockResponse_Status = int

abbreviation (input) ConsensusIgnoreBlockResponse_STATUS_UNSET :: ConsensusIgnoreBlockResponse_Status where "ConsensusIgnoreBlockResponse_STATUS_UNSET \<equiv> 0"
abbreviation (input) ConsensusIgnoreBlockResponse_OK :: ConsensusIgnoreBlockResponse_Status where "ConsensusIgnoreBlockResponse_OK \<equiv> 1"
abbreviation (input) ConsensusIgnoreBlockResponse_BAD_REQUEST :: ConsensusIgnoreBlockResponse_Status where "ConsensusIgnoreBlockResponse_BAD_REQUEST \<equiv> 2"
abbreviation (input) ConsensusIgnoreBlockResponse_SERVICE_ERROR :: ConsensusIgnoreBlockResponse_Status where "ConsensusIgnoreBlockResponse_SERVICE_ERROR \<equiv> 3"
abbreviation (input) ConsensusIgnoreBlockResponse_NOT_READY :: ConsensusIgnoreBlockResponse_Status where "ConsensusIgnoreBlockResponse_NOT_READY \<equiv> 4"
abbreviation (input) ConsensusIgnoreBlockResponse_UNKNOWN_BLOCK :: ConsensusIgnoreBlockResponse_Status where "ConsensusIgnoreBlockResponse_UNKNOWN_BLOCK \<equiv> 5"
abbreviation (input) ConsensusIgnoreBlockResponse_NOT_ACTIVE_ENGINE :: ConsensusIgnoreBlockResponse_Status where "ConsensusIgnoreBlockResponse_NOT_ACTIVE_ENGINE \<equiv> 6"

definition ConsensusIgnoreBlockResponse_Status_name :: "(int \<times> string) list" where
  "ConsensusIgnoreBlockResponse_Status_name =
   [(0, ''STATUS_UNSET''),
    (1, ''OK''),
    (2, ''BAD_REQUEST''),
    (3, ''SERVICE_ERROR''),
    (4, ''NOT_READY''),
    (5, ''UNKNOWN_BLOCK''),
    (6, ''NOT_ACTIVE_ENGINE'')]"

type_synonym ConsensusFailBlockResponse_Status = int

abbreviation (input) ConsensusFailBlockResponse_STATUS_UNSET :: ConsensusFailBlockResponse_Status where "ConsensusFailBlockResponse_STATUS_UNSET \<equiv> 0"
abbreviation (input) ConsensusFailBlockResponse_OK :: ConsensusFailBlockResponse_Status where "ConsensusFailBlockResponse_OK \<equiv> 1"
abbreviation (input) ConsensusFailBlockResponse_BAD_REQUEST :: ConsensusFailBlockResponse_Status where "ConsensusFailBlockResponse_BAD_REQUEST \<equiv> 2"
abbreviation (input) ConsensusFailBlockResponse_SERVICE_ERROR :: ConsensusFailBlockResponse_Status where "ConsensusFailBlockResponse_SERVICE_ERROR \<equiv> 3"
abbreviation (input) ConsensusFailBlockResponse_NOT_READY :: ConsensusFailBlockResponse_Status where "ConsensusFailBlockResponse_NOT_READY \<equiv> 4"
abbreviation (input) ConsensusFailBlockResponse_UNKNOWN_BLOCK :: ConsensusFailBlockResponse_Status where "ConsensusFailBlockResponse_UNKNOWN_BLOCK \<equiv> 5"
abbreviation (input) ConsensusFailBlockResponse_NOT_ACTIVE_ENGINE :: ConsensusFailBlockResponse_Status where "ConsensusFailBlockResponse_NOT_ACTIVE_ENGINE \<equiv> 6"

definition ConsensusFailBlockResponse_Status_name :: "(int \<times> string) list" where
  "ConsensusFailBlockResponse_Status_name =
   [(0, ''STATUS_UNSET''),
    (1, ''OK''),
    (2, ''BAD_REQUEST''),
    (3, ''SERVICE_ERROR''),
    (4, ''NOT_READY''),
    (5, ''UNKNOWN_BLOCK''),
    (6, ''NOT_ACTIVE_ENGINE'')]"

type_synonym ConsensusBlocksGetResponse_Status = int

abbreviation (input) ConsensusBlocksGetResponse_STATUS_UNSET :: ConsensusBlocksGetResponse_Status where "ConsensusBlocksGetResponse_STATUS_UNSET \<equiv> 0"
abbreviation (input) ConsensusBlocksGetResponse_OK :: ConsensusBlocksGetResponse_Status where "ConsensusBlocksGetResponse_OK \<equiv> 1"
abbreviation (input) ConsensusBlocksGetResponse_BAD_REQUEST :: ConsensusBlocksGetResponse_Status where "ConsensusBlocksGetResponse_BAD_REQUEST \<equiv> 2"
abbreviation (input) ConsensusBlocksGetResponse_SERVICE_ERROR :: ConsensusBlocksGetResponse_Status where "ConsensusBlocksGetResponse_SERVICE_ERROR \<equiv> 3"
abbreviation (input) ConsensusBlocksGetResponse_NOT_READY :: ConsensusBlocksGetResponse_Status where "ConsensusBlocksGetResponse_NOT_READY \<equiv> 4"
abbreviation (input) ConsensusBlocksGetResponse_UNKNOWN_BLOCK :: ConsensusBlocksGetResponse_Status where "ConsensusBlocksGetResponse_UNKNOWN_BLOCK \<equiv> 5"
abbreviation (input) ConsensusBlocksGetResponse_NOT_ACTIVE_ENGINE :: ConsensusBlocksGetResponse_Status where "ConsensusBlocksGetResponse_NOT_ACTIVE_ENGINE \<equiv> 6"

definition ConsensusBlocksGetResponse_Status_name :: "(int \<times> string) list" where
  "ConsensusBlocksGetResponse_Status_name =
   [(0, ''STATUS_UNSET''),
    (1, ''OK''),
    (2, ''BAD_REQUEST''),
    (3, ''SERVICE_ERROR''),
    (4, ''NOT_READY''),
    (5, ''UNKNOWN_BLOCK''),
    (6, ''NOT_ACTIVE_ENGINE'')]"

type_synonym ConsensusChainHeadGetResponse_Status = int

abbreviation (input) ConsensusChainHeadGetResponse_STATUS_UNSET :: ConsensusChainHeadGetResponse_Status where "ConsensusChainHeadGetResponse_STATUS_UNSET \<equiv> 0"
abbreviation (input) ConsensusChainHeadGetResponse_OK :: ConsensusChainHeadGetResponse_Status where "ConsensusChainHeadGetResponse_OK \<equiv> 1"
abbreviation (input) ConsensusChainHeadGetResponse_BAD_REQUEST :: ConsensusChainHeadGetResponse_Status where "ConsensusChainHeadGetResponse_BAD_REQUEST \<equiv> 2"
abbreviation (input) ConsensusChainHeadGetResponse_SERVICE_ERROR :: ConsensusChainHeadGetResponse_Status where "ConsensusChainHeadGetResponse_SERVICE_ERROR \<equiv> 3"
abbreviation (input) ConsensusChainHeadGetResponse_NOT_READY :: ConsensusChainHeadGetResponse_Status where "ConsensusChainHeadGetResponse_NOT_READY \<equiv> 4"
abbreviation (input) ConsensusChainHeadGetResponse_NO_CHAIN_HEAD :: ConsensusChainHeadGetResponse_Status where "ConsensusChainHeadGetResponse_NO_CHAIN_HEAD \<equiv> 5"
abbreviation (input) ConsensusChainHeadGetResponse_NOT_ACTIVE_ENGINE :: ConsensusChainHeadGetResponse_Status where "ConsensusChainHeadGetResponse_NOT_ACTIVE_ENGINE \<equiv> 6"

definition ConsensusChainHeadGetResponse_Status_name :: "(int \<times> string) list" where
  "ConsensusChainHeadGetResponse_Status_name =
   [(0, ''STATUS_UNSET''),
    (1, ''OK''),
    (2, ''BAD_REQUEST''),
    (3, ''SERVICE_ERROR''),
    (4, ''NOT_READY''),
    (5, ''NO_CHAIN_HEAD''),
    (6, ''NOT_ACTIVE_ENGINE'')]"

type_synonym ConsensusSettingsGetResponse_Status = int

abbreviation (input) ConsensusSettingsGetResponse_STATUS_UNSET :: ConsensusSettingsGetResponse_Status where "ConsensusSettingsGetResponse_STATUS_UNSET \<equiv> 0"
abbreviation (input) ConsensusSettingsGetResponse_OK :: ConsensusSettingsGetResponse_Status where "ConsensusSettingsGetResponse_OK \<equiv> 1"
abbreviation (input) ConsensusSettingsGetResponse_BAD_REQUEST :: ConsensusSettingsGetResponse_Status where "ConsensusSettingsGetResponse_BAD_REQUEST \<equiv> 2"
abbreviation (input) ConsensusSettingsGetResponse_SERVICE_ERROR :: ConsensusSettingsGetResponse_Status where "ConsensusSettingsGetResponse_SERVICE_ERROR \<equiv> 3"
abbreviation (input) ConsensusSettingsGetResponse_NOT_READY :: ConsensusSettingsGetResponse_Status where "ConsensusSettingsGetResponse_NOT_READY \<equiv> 4"
abbreviation (input) ConsensusSettingsGetResponse_UNKNOWN_BLOCK :: ConsensusSettingsGetResponse_Status where "ConsensusSettingsGetResponse_UNKNOWN_BLOCK \<equiv> 5"
abbreviation (input) ConsensusSettingsGetResponse_NOT_ACTIVE_ENGINE :: ConsensusSettingsGetResponse_Status where "ConsensusSettingsGetResponse_NOT_ACTIVE_ENGINE \<equiv> 6"

definition ConsensusSettingsGetResponse_Status_name :: "(int \<times> string) list" where
  "ConsensusSettingsGetResponse_Status_name =
   [(0, ''STATUS_UNSET''),
    (1, ''OK''),
    (2, ''BAD_REQUEST''),
    (3, ''SERVICE_ERROR''),
    (4, ''NOT_READY''),
    (5, ''UNKNOWN_BLOCK''),
    (6, ''NOT_ACTIVE_ENGINE'')]"

type_synonym ConsensusStateGetResponse_Status = int

abbreviation (input) ConsensusStateGetResponse_STATUS_UNSET :: ConsensusStateGetResponse_Status where "ConsensusStateGetResponse_STATUS_UNSET \<equiv> 0"
abbreviation (input) ConsensusStateGetResponse_OK :: ConsensusStateGetResponse_Status where "ConsensusStateGetResponse_OK \<equiv> 1"
abbreviation (input) ConsensusStateGetResponse_BAD_REQUEST :: ConsensusStateGetResponse_Status where "ConsensusStateGetResponse_BAD_REQUEST \<equiv> 2"
abbreviation (input) ConsensusStateGetResponse_SERVICE_ERROR :: ConsensusStateGetResponse_Status where "ConsensusStateGetResponse_SERVICE_ERROR \<equiv> 3"
abbreviation (input) ConsensusStateGetResponse_NOT_READY :: ConsensusStateGetResponse_Status where "ConsensusStateGetResponse_NOT_READY \<equiv> 4"
abbreviation (input) ConsensusStateGetResponse_UNKNOWN_BLOCK :: ConsensusStateGetResponse_Status where "ConsensusStateGetResponse_UNKNOWN_BLOCK \<equiv> 5"
abbreviation (input) ConsensusStateGetResponse_NOT_ACTIVE_ENGINE :: ConsensusStateGetResponse_Status where "ConsensusStateGetResponse_NOT_ACTIVE_ENGINE \<equiv> 6"

definition ConsensusStateGetResponse_Status_name :: "(int \<times> string) list" where
  "ConsensusStateGetResponse_Status_name =
   [(0, ''STATUS_UNSET''),
    (1, ''OK''),
    (2, ''BAD_REQUEST''),
    (3, ''SERVICE_ERROR''),
    (4, ''NOT_READY''),
    (5, ''UNKNOWN_BLOCK''),
    (6, ''NOT_ACTIVE_ENGINE'')]"

record ConsensusRegisterRequest_Protocol =
  ConsensusRegisterRequest_Protocol_Name :: "string"
  ConsensusRegisterRequest_Protocol_Version :: "string"

instance ConsensusRegisterRequest_Protocol_ext :: (countable) countable
  by (rule countable_classI [of "\<lambda>r. to_nat (ConsensusRegisterRequest_Protocol_Name r, ConsensusRegisterRequest_Protocol_Version r, ConsensusRegisterRequest_Protocol.more r)"]) simp

record ConsensusPeerInfo =
  ConsensusPeerInfo_PeerId :: "bytes"

instance ConsensusPeerInfo_ext :: (countable) countable
  by (rule countable_classI [of "\<lambda>r. to_nat (ConsensusPeerInfo_PeerId r, ConsensusPeerInfo.more r)"]) simp

record ConsensusBlock =
  ConsensusBlock_BlockId :: "bytes"
  ConsensusBlock_PreviousId :: "bytes"
  ConsensusBlock_SignerId :: "bytes"
  ConsensusBlock_BlockNum :: "64 word"
  ConsensusBlock_Payload :: "bytes"
  ConsensusBlock_Summary :: "bytes"

instance ConsensusBlock_ext :: (countable) countable
  by (rule countable_classI [of "\<lambda>r. to_nat (ConsensusBlock_BlockId r, ConsensusBlock_PreviousId r, ConsensusBlock_SignerId r, ConsensusBlock_BlockNum r, ConsensusBlock_Payload r, ConsensusBlock_Summary r, ConsensusBlock.more r)"]) simp

record ConsensusPeerMessageHeader =
  ConsensusPeerMessageHeader_SignerId :: "bytes"
  ConsensusPeerMessageHeader_ContentSha512 :: "bytes"
  ConsensusPeerMessageHeader_MessageType :: "string"
  ConsensusPeerMessageHeader_Name :: "string"
  ConsensusPeerMessageHeader_Version :: "string"

instance ConsensusPeerMessageHeader_ext :: (countable) countable
  by (rule countable_classI [of "\<lambda>r. to_nat (ConsensusPeerMessageHeader_SignerId r, ConsensusPeerMessageHeader_ContentSha512 r, ConsensusPeerMessageHeader_MessageType r, ConsensusPeerMessageHeader_Name r, ConsensusPeerMessageHeader_Version r, ConsensusPeerMessageHeader.more r)"]) simp

record ConsensusPeerMessage =
  ConsensusPeerMessage_Header :: "bytes"
  ConsensusPeerMessage_HeaderSignature :: "bytes"
  ConsensusPeerMessage_Content :: "bytes"

instance ConsensusPeerMessage_ext :: (countable) countable
  by (rule countable_classI [of "\<lambda>r. to_nat (ConsensusPeerMessage_Header r, ConsensusPeerMessage_HeaderSignature r, ConsensusPeerMessage_Content r, ConsensusPeerMessage.more r)"]) simp

record ConsensusRegisterRequest =
  ConsensusRegisterRequest_Name :: "string"
  ConsensusRegisterRequest_Version :: "string"
  ConsensusRegisterRequest_AdditionalProtocols :: "ConsensusRegisterRequest_Protocol list"

instance ConsensusRegisterRequest_ext :: (countable) countable
  by (rule countable_classI [of "\<lambda>r. to_nat (ConsensusRegisterRequest_Name r, ConsensusRegisterRequest_Version r, ConsensusRegisterRequest_AdditionalProtocols r, ConsensusRegisterRequest.more r)"]) simp

record ConsensusRegisterResponse =
  ConsensusRegisterResponse_Status :: "ConsensusRegisterResponse_Status"
  ConsensusRegisterResponse_ChainHead :: "ConsensusBlock option"
  ConsensusRegisterResponse_Peers :: "ConsensusPeerInfo list"
  ConsensusRegisterResponse_LocalPeerInfo :: "ConsensusPeerInfo option"

instance ConsensusRegisterResponse_ext :: (countable) countable
  by (rule countable_classI [of "\<lambda>r. to_nat (ConsensusRegisterResponse_Status r, ConsensusRegisterResponse_ChainHead r, ConsensusRegisterResponse_Peers r, ConsensusRegisterResponse_LocalPeerInfo r, ConsensusRegisterResponse.more r)"]) simp

record ConsensusNotifyPeerConnected =
  ConsensusNotifyPeerConnected_PeerInfo :: "ConsensusPeerInfo option"

instance ConsensusNotifyPeerConnected_ext :: (countable) countable
  by (rule countable_classI [of "\<lambda>r. to_nat (ConsensusNotifyPeerConnected_PeerInfo r, ConsensusNotifyPeerConnected.more r)"]) simp

record ConsensusNotifyPeerDisconnected =
  ConsensusNotifyPeerDisconnected_PeerId :: "bytes"

instance ConsensusNotifyPeerDisconnected_ext :: (countable) countable
  by (rule countable_classI [of "\<lambda>r. to_nat (ConsensusNotifyPeerDisconnected_PeerId r, ConsensusNotifyPeerDisconnected.more r)"]) simp

record ConsensusNotifyPeerMessage =
  ConsensusNotifyPeerMessage_Message :: "ConsensusPeerMessage option"
  ConsensusNotifyPeerMessage_SenderId :: "bytes"

instance ConsensusNotifyPeerMessage_ext :: (countable) countable
  by (rule countable_classI [of "\<lambda>r. to_nat (ConsensusNotifyPeerMessage_Message r, ConsensusNotifyPeerMessage_SenderId r, ConsensusNotifyPeerMessage.more r)"]) simp

record ConsensusNotifyBlockNew =
  ConsensusNotifyBlockNew_Block :: "ConsensusBlock option"

instance ConsensusNotifyBlockNew_ext :: (countable) countable
  by (rule countable_classI [of "\<lambda>r. to_nat (ConsensusNotifyBlockNew_Block r, ConsensusNotifyBlockNew.more r)"]) simp

record ConsensusNotifyBlockValid =
  ConsensusNotifyBlockValid_BlockId :: "bytes"

instance ConsensusNotifyBlockValid_ext :: (countable) countable
  by (rule countable_classI [of "\<lambda>r. to_nat (ConsensusNotifyBlockValid_BlockId r, ConsensusNotifyBlockValid.more r)"]) simp

record ConsensusNotifyBlockInvalid =
  ConsensusNotifyBlockInvalid_BlockId :: "bytes"

instance ConsensusNotifyBlockInvalid_ext :: (countable) countable
  by (rule countable_classI [of "\<lambda>r. to_nat (ConsensusNotifyBlockInvalid_BlockId r, ConsensusNotifyBlockInvalid.more r)"]) simp

record ConsensusNotifyBlockCommit =
  ConsensusNotifyBlockCommit_BlockId :: "bytes"

instance ConsensusNotifyBlockCommit_ext :: (countable) countable
  by (rule countable_classI [of "\<lambda>r. to_nat (ConsensusNotifyBlockCommit_BlockId r, ConsensusNotifyBlockCommit.more r)"]) simp

record ConsensusNotifyEngineActivated =
  ConsensusNotifyEngineActivated_ChainHead :: "ConsensusBlock option"
  ConsensusNotifyEngineActivated_Peers :: "ConsensusPeerInfo list"
  ConsensusNotifyEngineActivated_LocalPeerInfo :: "ConsensusPeerInfo option"

instance ConsensusNotifyEngineActivated_ext :: (countable) countable
  by (rule countable_classI [of "\<lambda>r. to_nat (ConsensusNotifyEngineActivated_ChainHead r, ConsensusNotifyEngineActivated_Peers r, ConsensusNotifyEngineActivated_LocalPeerInfo r, ConsensusNotifyEngineActivated.more r)"]) simp

datatype ConsensusNotifyAck = ConsensusNotifyAck

instance ConsensusNotifyAck :: countable
  by countable_datatype

record ConsensusSettingsEntry =
  ConsensusSettingsEntry_Key :: "string"
  ConsensusSettingsEntry_Value :: "string"

instance ConsensusSettingsEntry_ext :: (countable) countable
  by (rule countable_classI [of "\<lambda>r. to_nat (ConsensusSettingsEntry_Key r, ConsensusSettingsEntry_Value r, ConsensusSettingsEntry.more r)"]) simp

record ConsensusStateEntry =
  ConsensusStateEntry_Address :: "string"
  ConsensusStateEntry_Data :: "bytes"

instance ConsensusStateEntry_ext :: (countable) countable
  by (rule countable_classI [of "\<lambda>r. to_nat (ConsensusStateEntry_Address r, ConsensusStateEntry_Data r, ConsensusStateEntry.more r)"]) simp

record ConsensusSendToRequest =
  ConsensusSendToRequest_Content :: "bytes"
  ConsensusSendToRequest_MessageType :: "string"
  ConsensusSendToRequest_ReceiverId :: "bytes"

instance ConsensusSendToRequest_ext :: (countable) countable
  by (rule countable_classI [of "\<lambda>r. to_nat (ConsensusSendToRequest_Content r, ConsensusSendToRequest_MessageType r, ConsensusSendToRequest_ReceiverId r, ConsensusSendToRequest.more r)"]) simp

record ConsensusSendToResponse =
  ConsensusSendToResponse_Status :: "ConsensusSendToResponse_Status"

instance ConsensusSendToResponse_ext :: (countable) countable
  by (rule countable_classI [of "\<lambda>r. to_nat (ConsensusSendToResponse_Status r, ConsensusSendToResponse.more r)"]) simp

record ConsensusBroadcastRequest =
  ConsensusBroadcastRequest_Content :: "bytes"
  ConsensusBroadcastRequest_MessageType :: "string"

instance ConsensusBroadcastRequest_ext :: (countable) countable
  by (rule countable_classI [of "\<lambda>r. to_nat (ConsensusBroadcastRequest_Content r, ConsensusBroadcastRequest_MessageType r, ConsensusBroadcastRequest.more r)"]) simp

record ConsensusBroadcastResponse =
  ConsensusBroadcastResponse_Status :: "ConsensusBroadcastResponse_Status"

instance ConsensusBroadcastResponse_ext :: (countable) countable
  by (rule countable_classI [of "\<lambda>r. to_nat (ConsensusBroadcastResponse_Status r, ConsensusBroadcastResponse.more r)"]) simp

record ConsensusInitializeBlockRequest =
  ConsensusInitializeBlockRequest_PreviousId :: "bytes"

instance ConsensusInitializeBlockRequest_ext :: (countable) countable
  by (rule countable_classI [of "\<lambda>r. to_nat (ConsensusInitializeBlockRequest_PreviousId r, ConsensusInitializeBlockRequest.more r)"]) simp

record ConsensusInitializeBlockResponse =
  ConsensusInitializeBlockResponse_Status :: "ConsensusInitializeBlockResponse_Status"

instance ConsensusInitializeBlockResponse_ext :: (countable) countable
  by (rule countable_classI [of "\<lambda>r. to_nat (ConsensusInitializeBlockResponse_Status r, ConsensusInitializeBlockResponse.more r)"]) simp

datatype ConsensusSummarizeBlockRequest = ConsensusSummarizeBlockRequest

instance ConsensusSummarizeBlockRequest :: countable
  by countable_datatype

record ConsensusSummarizeBlockResponse =
  ConsensusSummarizeBlockResponse_Status :: "ConsensusSummarizeBlockResponse_Status"
  ConsensusSummarizeBlockResponse_Summary :: "bytes"

instance ConsensusSummarizeBlockResponse_ext :: (countable) countable
  by (rule countable_classI [of "\<lambda>r. to_nat (ConsensusSummarizeBlockResponse_Status r, ConsensusSummarizeBlockResponse_Summary r, ConsensusSummarizeBlockResponse.more r)"]) simp

record ConsensusFinalizeBlockRequest =
  ConsensusFinalizeBlockRequest_Data :: "bytes"

instance ConsensusFinalizeBlockRequest_ext :: (countable) countable
  by (rule countable_classI [of "\<lambda>r. to_nat (ConsensusFinalizeBlockRequest_Data r, ConsensusFinalizeBlockRequest.more r)"]) simp

record ConsensusFinalizeBlockResponse =
  ConsensusFinalizeBlockResponse_Status :: "ConsensusFinalizeBlockResponse_Status"
  ConsensusFinalizeBlockResponse_BlockId :: "bytes"

instance ConsensusFinalizeBlockResponse_ext :: (countable) countable
  by (rule countable_classI [of "\<lambda>r. to_nat (ConsensusFinalizeBlockResponse_Status r, ConsensusFinalizeBlockResponse_BlockId r, ConsensusFinalizeBlockResponse.more r)"]) simp

datatype ConsensusCancelBlockRequest = ConsensusCancelBlockRequest

instance ConsensusCancelBlockRequest :: countable
  by countable_datatype

record ConsensusCancelBlockResponse =
  ConsensusCancelBlockResponse_Status :: "ConsensusCancelBlockResponse_Status"

instance ConsensusCancelBlockResponse_ext :: (countable) countable
  by (rule countable_classI [of "\<lambda>r. to_nat (ConsensusCancelBlockResponse_Status r, ConsensusCancelBlockResponse.more r)"]) simp

record ConsensusCheckBlocksRequest =
  ConsensusCheckBlocksRequest_BlockIds :: "(bytes list)"

instance ConsensusCheckBlocksRequest_ext :: (countable) countable
  by (rule countable_classI [of "\<lambda>r. to_nat (ConsensusCheckBlocksRequest_BlockIds r, ConsensusCheckBlocksRequest.more r)"]) simp

record ConsensusCheckBlocksResponse =
  ConsensusCheckBlocksResponse_Status :: "ConsensusCheckBlocksResponse_Status"

instance ConsensusCheckBlocksResponse_ext :: (countable) countable
  by (rule countable_classI [of "\<lambda>r. to_nat (ConsensusCheckBlocksResponse_Status r, ConsensusCheckBlocksResponse.more r)"]) simp

record ConsensusCommitBlockRequest =
  ConsensusCommitBlockRequest_BlockId :: "bytes"

instance ConsensusCommitBlockRequest_ext :: (countable) countable
  by (rule countable_classI [of "\<lambda>r. to_nat (ConsensusCommitBlockRequest_BlockId r, ConsensusCommitBlockRequest.more r)"]) simp

record ConsensusCommitBlockResponse =
  ConsensusCommitBlockResponse_Status :: "ConsensusCommitBlockResponse_Status"

instance ConsensusCommitBlockResponse_ext :: (countable) countable
  by (rule countable_classI [of "\<lambda>r. to_nat (ConsensusCommitBlockResponse_Status r, ConsensusCommitBlockResponse.more r)"]) simp

record ConsensusIgnoreBlockRequest =
  ConsensusIgnoreBlockRequest_BlockId :: "bytes"

instance ConsensusIgnoreBlockRequest_ext :: (countable) countable
  by (rule countable_classI [of "\<lambda>r. to_nat (ConsensusIgnoreBlockRequest_BlockId r, ConsensusIgnoreBlockRequest.more r)"]) simp

record ConsensusIgnoreBlockResponse =
  ConsensusIgnoreBlockResponse_Status :: "ConsensusIgnoreBlockResponse_Status"

instance ConsensusIgnoreBlockResponse_ext :: (countable) countable
  by (rule countable_classI [of "\<lambda>r. to_nat (ConsensusIgnoreBlockResponse_Status r, ConsensusIgnoreBlockResponse.more r)"]) simp

record ConsensusFailBlockRequest =
  ConsensusFailBlockRequest_BlockId :: "bytes"

instance ConsensusFailBlockRequest_ext :: (countable) countable
  by (rule countable_classI [of "\<lambda>r. to_nat (ConsensusFailBlockRequest_BlockId r, ConsensusFailBlockRequest.more r)"]) simp

record ConsensusFailBlockResponse =
  ConsensusFailBlockResponse_Status :: "ConsensusFailBlockResponse_Status"

instance ConsensusFailBlockResponse_ext :: (countable) countable
  by (rule countable_classI [of "\<lambda>r. to_nat (ConsensusFailBlockResponse_Status r, ConsensusFailBlockResponse.more r)"]) simp

record ConsensusBlocksGetRequest =
  ConsensusBlocksGetRequest_BlockIds :: "(bytes list)"

instance ConsensusBlocksGetRequest_ext :: (countable) countable
  by (rule countable_classI [of "\<lambda>r. to_nat (ConsensusBlocksGetRequest_BlockIds r, ConsensusBlocksGetRequest.more r)"]) simp

record ConsensusBlocksGetResponse =
  ConsensusBlocksGetResponse_Status :: "ConsensusBlocksGetResponse_Status"
  ConsensusBlocksGetResponse_Blocks :: "ConsensusBlock list"

instance ConsensusBlocksGetResponse_ext :: (countable) countable
  by (rule countable_classI [of "\<lambda>r. to_nat (ConsensusBlocksGetResponse_Status r, ConsensusBlocksGetResponse_Blocks r, ConsensusBlocksGetResponse.more r)"]) simp

datatype ConsensusChainHeadGetRequest = ConsensusChainHeadGetRequest

instance ConsensusChainHeadGetRequest :: countable
  by countable_datatype

record ConsensusChainHeadGetResponse =
  ConsensusChainHeadGetResponse_Status :: "ConsensusChainHeadGetResponse_Status"
  ConsensusChainHeadGetResponse_Block :: "ConsensusBlock option"

instance ConsensusChainHeadGetResponse_ext :: (countable) countable
  by (rule countable_classI [of "\<lambda>r. to_nat (ConsensusChainHeadGetResponse_Status r, ConsensusChainHeadGetResponse_Block r, ConsensusChainHeadGetResponse.more r)"]) simp

record ConsensusSettingsGetRequest =
  ConsensusSettingsGetRequest_BlockId :: "bytes"
  ConsensusSettingsGetRequest_Keys :: "string list"

instance ConsensusSettingsGetRequest_ext :: (countable) countable
  by (rule countable_classI [of "\<lambda>r. to_nat (ConsensusSettingsGetRequest_BlockId r, ConsensusSettingsGetRequest_Keys r, ConsensusSettingsGetRequest.more r)"]) simp

record ConsensusSettingsGetResponse =
  ConsensusSettingsGetResponse_Status :: "ConsensusSettingsGetResponse_Status"
  ConsensusSettingsGetResponse_Entries :: "ConsensusSettingsEntry list"

instance ConsensusSettingsGetResponse_ext :: (countable) countable
  by (rule countable_classI [of "\<lambda>r. to_nat (ConsensusSettingsGetResponse_Status r, ConsensusSettingsGetResponse_Entries r, ConsensusSettingsGetResponse.more r)"]) simp

record ConsensusStateGetRequest =
  ConsensusStateGetRequest_BlockId :: "bytes"
  ConsensusStateGetRequest_Addresses :: "string list"

instance ConsensusStateGetRequest_ext :: (countable) countable
  by (rule countable_classI [of "\<lambda>r. to_nat (ConsensusStateGetRequest_BlockId r, ConsensusStateGetRequest_Addresses r, ConsensusStateGetRequest.more r)"]) simp

record ConsensusStateGetResponse =
  ConsensusStateGetResponse_Status :: "ConsensusStateGetResponse_Status"
  ConsensusStateGetResponse_Entries :: "ConsensusStateEntry list"

instance ConsensusStateGetResponse_ext :: (countable) countable
  by (rule countable_classI [of "\<lambda>r. to_nat (ConsensusStateGetResponse_Status r, ConsensusStateGetResponse_Entries r, ConsensusStateGetResponse.more r)"]) simp

record cons_pb =
  cpMessage :: "Message codec"
  cpPingResponse :: "PingResponse codec"
  cpPeerMessageHeader :: "ConsensusPeerMessageHeader codec"
  cpRegisterRequest :: "ConsensusRegisterRequest codec"
  cpRegisterResponse :: "ConsensusRegisterResponse codec"
  cpNotifyPeerConnected :: "ConsensusNotifyPeerConnected codec"
  cpNotifyPeerDisconnected :: "ConsensusNotifyPeerDisconnected codec"
  cpNotifyPeerMessage :: "ConsensusNotifyPeerMessage codec"
  cpNotifyBlockNew :: "ConsensusNotifyBlockNew codec"
  cpNotifyBlockValid :: "ConsensusNotifyBlockValid codec"
  cpNotifyBlockInvalid :: "ConsensusNotifyBlockInvalid codec"
  cpNotifyBlockCommit :: "ConsensusNotifyBlockCommit codec"
  cpNotifyEngineActivated :: "ConsensusNotifyEngineActivated codec"
  cpNotifyAck :: "ConsensusNotifyAck codec"
  cpSendToRequest :: "ConsensusSendToRequest codec"
  cpSendToResponse :: "ConsensusSendToResponse codec"
  cpBroadcastRequest :: "ConsensusBroadcastRequest codec"
  cpBroadcastResponse :: "ConsensusBroadcastResponse codec"
  cpInitializeBlockRequest :: "ConsensusInitializeBlockRequest codec"
  cpInitializeBlockResponse :: "ConsensusInitializeBlockResponse codec"
  cpSummarizeBlockRequest :: "ConsensusSummarizeBlockRequest codec"
  cpSummarizeBlockResponse :: "ConsensusSummarizeBlockResponse codec"
  cpFinalizeBlockRequest :: "ConsensusFinalizeBlockRequest codec"
  cpFinalizeBlockResponse :: "ConsensusFinalizeBlockResponse codec"
  cpCancelBlockRequest :: "ConsensusCancelBlockRequest codec"
  cpCancelBlockResponse :: "ConsensusCancelBlockResponse codec"
  cpCheckBlocksRequest :: "ConsensusCheckBlocksRequest codec"
  cpCheckBlocksResponse :: "ConsensusCheckBlocksResponse codec"
  cpCommitBlockRequest :: "ConsensusCommitBlockRequest codec"
  cpCommitBlockResponse :: "ConsensusCommitBlockResponse codec"
  cpIgnoreBlockRequest :: "ConsensusIgnoreBlockRequest codec"
  cpIgnoreBlockResponse :: "ConsensusIgnoreBlockResponse codec"
  cpFailBlockRequest :: "ConsensusFailBlockRequest codec"
  cpFailBlockResponse :: "ConsensusFailBlockResponse codec"
  cpBlocksGetRequest :: "ConsensusBlocksGetRequest codec"
  cpBlocksGetResponse :: "ConsensusBlocksGetResponse codec"
  cpChainHeadGetRequest :: "ConsensusChainHeadGetRequest codec"
  cpChainHeadGetResponse :: "ConsensusChainHeadGetResponse codec"
  cpSettingsGetRequest :: "ConsensusSettingsGetRequest codec"
  cpSettingsGetResponse :: "ConsensusSettingsGetResponse codec"
  cpStateGetRequest :: "ConsensusStateGetRequest codec"
  cpStateGetResponse :: "ConsensusStateGetResponse codec"

definition unary_cons_pb :: cons_pb where
  "unary_cons_pb = \<lparr>cpMessage = unary_codec,
     cpPingResponse = unary_codec,
     cpPeerMessageHeader = unary_codec,
     cpRegisterRequest = unary_codec,
     cpRegisterResponse = unary_codec,
     cpNotifyPeerConnected = unary_codec,
     cpNotifyPeerDisconnected = unary_codec,
     cpNotifyPeerMessage = unary_codec,
     cpNotifyBlockNew = unary_codec,
     cpNotifyBlockValid = unary_codec,
     cpNotifyBlockInvalid = unary_codec,
     cpNotifyBlockCommit = unary_codec,
     cpNotifyEngineActivated = unary_codec,
     cpNotifyAck = unary_codec,
     cpSendToRequest = unary_codec,
     cpSendToResponse = unary_codec,
     cpBroadcastRequest = unary_codec,
     cpBroadcastResponse = unary_codec,
     cpInitializeBlockRequest = unary_codec,
     cpInitializeBlockResponse = unary_codec,
     cpSummarizeBlockRequest = unary_codec,
     cpSummarizeBlockResponse = unary_codec,
     cpFinalizeBlockRequest = unary_codec,
     cpFinalizeBlockResponse = unary_codec,
     cpCancelBlockRequest = unary_codec,
     cpCancelBlockResponse = unary_codec,
     cpCheckBlocksRequest = unary_codec,
     cpCheckBlocksResponse = unary_codec,
     cpCommitBlockRequest = unary_codec,
     cpCommitBlockResponse = unary_codec,
     cpIgnoreBlockRequest = unary_codec,
     cpIgnoreBlockResponse = unary_codec,
     cpFailBlockRequest = unary_codec,
     cpFailBlockResponse = unary_codec,
     cpBlocksGetRequest = unary_codec,
     cpBlocksGetResponse = unary_codec,
     cpChainHeadGetRequest = unary_codec,
     cpChainHeadGetResponse = unary_codec,
     cpSettingsGetRequest = unary_codec,
     cpSettingsGetResponse = unary_codec,
     cpStateGetRequest = unary_codec,
     cpStateGetResponse = unary_codec\<rparr>"

lemma unary_cons_pb_simps [simp]:
  "cpMessage unary_cons_pb = unary_codec"
  "cpPingResponse unary_cons_pb = unary_codec"
  "cpPeerMessageHeader unary_cons_pb = unary_codec"
  "cpRegisterRequest unary_cons_pb = unary_codec"
  "cpRegisterResponse unary_cons_pb = unary_codec"
  "cpNotifyPeerConnected unary_cons_pb = unary_codec"
  "cpNotifyPeerDisconnected unary_cons_pb = unary_codec"
  "cpNotifyPeerMessage unary_cons_pb = unary_codec"
  "cpNotifyBlockNew unary_cons_pb = unary_codec"
  "cpNotifyBlockValid unary_cons_pb = unary_codec"
  "cpNotifyBlockInvalid unary_cons_pb = unary_codec"
  "cpNotifyBlockCommit unary_cons_pb = unary_codec"
  "cpNotifyEngineActivated unary_cons_pb = unary_codec"
  "cpNotifyAck unary_cons_pb = unary_codec"
  "cpSendToRequest unary_cons_pb = unary_codec"
  "cpSendToResponse unary_cons_pb = unary_codec"
  "cpBroadcastRequest unary_cons_pb = unary_codec"
  "cpBroadcastResponse unary_cons_pb = unary_codec"
  "cpInitializeBlockRequest unary_cons_pb = unary_codec"
  "cpInitializeBlockResponse unary_cons_pb = unary_codec"
  "cpSummarizeBlockRequest unary_cons_pb = unary_codec"
  "cpSummarizeBlockResponse unary_cons_pb = unary_codec"
  "cpFinalizeBlockRequest unary_cons_pb = unary_codec"
  "cpFinalizeBlockResponse unary_cons_pb = unary_codec"
  "cpCancelBlockRequest unary_cons_pb = unary_codec"
  "cpCancelBlockResponse unary_cons_pb = unary_codec"
  "cpCheckBlocksRequest unary_cons_pb = unary_codec"
  "cpCheckBlocksResponse unary_cons_pb = unary_codec"
  "cpCommitBlockRequest unary_cons_pb = unary_codec"
  "cpCommitBlockResponse unary_cons_pb = unary_codec"
  "cpIgnoreBlockRequest unary_cons_pb = unary_codec"
  "cpIgnoreBlockResponse unary_cons_pb = unary_codec"
  "cpFailBlockRequest unary_cons_pb = unary_codec"
  "cpFailBlockResponse unary_cons_pb = unary_codec"
  "cpBlocksGetRequest unary_cons_pb = unary_codec"
  "cpBlocksGetResponse unary_cons_pb = unary_codec"
  "cpChainHeadGetRequest unary_cons_pb = unary_codec"
  "cpChainHeadGetResponse unary_cons_pb = unary_codec"
  "cpSettingsGetRequest unary_cons_pb = unary_codec"
  "cpSettingsGetResponse unary_cons_pb = unary_codec"
  "cpStateGetRequest unary_cons_pb = unary_codec"
  "cpStateGetResponse unary_cons_pb = unary_codec"
  by (simp_all add: unary_cons_pb_def)

end
