(* ===== verification/Consensus_Types.thy ===== *)
theory Consensus_Types
  imports Consensus_Pb
begin

text \<open>
  consensus/types.go: block and peer identifiers, blocks, peer messages, the startup state and the
  updates an engine receives.  The Go interfaces (Block, PeerInfo, PeerMessage and so on) have one
  implementation each, a struct with an accessor per field: a record, whose selectors are the
  accessors.
\<close>

section \<open>Identifiers\<close>

type_synonym BlockId = string
type_synonym PeerId = string

definition isSliceOfZeroes :: "bytes \<Rightarrow> bool" where
  "isSliceOfZeroes bs \<longleftrightarrow> list_all (\<lambda>b. b = CHR 0x00) bs"

abbreviation (input) BLOCK_ID_NULL :: BlockId where "BLOCK_ID_NULL \<equiv> []"
abbreviation (input) PEER_ID_NULL :: PeerId where "PEER_ID_NULL \<equiv> []"

definition BlockId_String :: "BlockId \<Rightarrow> string" where
  "BlockId_String self = EncodeToString self"

text \<open>A nil slice and an empty one are the same on the wire and to bytes.Compare.\<close>

definition BlockId_AsBytes :: "BlockId \<Rightarrow> bytes" where
  "BlockId_AsBytes self = (if self = BLOCK_ID_NULL then [] else self)"

definition NewBlockIdFromBytes :: "bytes \<Rightarrow> BlockId" where
  "NewBlockIdFromBytes blockIdBytes = (if isSliceOfZeroes blockIdBytes then BLOCK_ID_NULL else blockIdBytes)"

definition NewBlockIdFromString :: "string \<Rightarrow> BlockId" where
  "NewBlockIdFromString blockIdString = NewBlockIdFromBytes (fst (DecodeString blockIdString))"

definition PeerId_String :: "PeerId \<Rightarrow> string" where
  "PeerId_String self = EncodeToString self"

definition PeerId_AsBytes :: "PeerId \<Rightarrow> bytes" where
  "PeerId_AsBytes self = (if self = PEER_ID_NULL then [] else self)"

definition NewPeerIdFromSlice :: "bytes \<Rightarrow> PeerId" where
  "NewPeerIdFromSlice peerIdBytes = (if isSliceOfZeroes peerIdBytes then PEER_ID_NULL else peerIdBytes)"

section \<open>Blocks\<close>

record block =
  block_BlockId :: BlockId
  block_PreviousId :: BlockId
  block_SignerId :: PeerId
  block_BlockNum :: "64 word"
  block_Payload :: bytes
  block_Summary :: bytes

text \<open>The getters of the protocol buffer are safe on a nil message.\<close>

definition nil_block :: ConsensusBlock where
  "nil_block = \<lparr>ConsensusBlock_BlockId = [], ConsensusBlock_PreviousId = [], ConsensusBlock_SignerId = [],
     ConsensusBlock_BlockNum = 0, ConsensusBlock_Payload = [], ConsensusBlock_Summary = []\<rparr>"

definition newBlockFromProto :: "ConsensusBlock option \<Rightarrow> block" where
  "newBlockFromProto blockProto =
    (let p = (case blockProto of None \<Rightarrow> nil_block | Some p \<Rightarrow> p) in
     \<lparr>block_BlockId = NewBlockIdFromBytes (ConsensusBlock_BlockId p),
      block_PreviousId = NewBlockIdFromBytes (ConsensusBlock_PreviousId p),
      block_SignerId = NewPeerIdFromSlice (ConsensusBlock_SignerId p),
      block_BlockNum = ConsensusBlock_BlockNum p,
      block_Payload = ConsensusBlock_Payload p,
      block_Summary = ConsensusBlock_Summary p\<rparr>)"

definition block_String :: "block \<Rightarrow> string" where
  "block_String self = ''Block(BlockNum: '' @ nat_digits (unat (block_BlockNum self))
     @ '', BlockId: '' @ BlockId_String (block_BlockId self)
     @ '', PreviousId: '' @ BlockId_String (block_PreviousId self)
     @ '', SignerId: '' @ PeerId_String (block_SignerId self)
     @ '', Payload: '' @ EncodeToString (block_Payload self)
     @ '', Summary: '' @ EncodeToString (block_Summary self) @ '')''"

section \<open>Peers and their messages\<close>

record peerInfo =
  peerInfo_PeerId :: PeerId

record peerMessageHeader =
  header_SignerId :: bytes
  header_ContentSha512 :: bytes
  header_MessageType :: string
  header_Name :: string
  header_Version :: string

record peerMessage =
  message_Header :: peerMessageHeader
  message_HeaderSignature :: bytes
  message_Content :: bytes

definition newPeerMessageFromProto :: "cons_pb \<Rightarrow> ConsensusPeerMessage option \<Rightarrow> peerMessage outcome" where
  "newPeerMessageFromProto pb peerMessageProto =
    (let p = (case peerMessageProto of
          None \<Rightarrow> \<lparr>ConsensusPeerMessage_Header = [], ConsensusPeerMessage_HeaderSignature = [], ConsensusPeerMessage_Content = []\<rparr>
        | Some p \<Rightarrow> p)
     in case Unmarshal (cpPeerMessageHeader pb) (ConsensusPeerMessage_Header p) of
          (_, Some err) \<Rightarrow> Panic (''Error unmarshaling peer message: '' @ Error err)
        | (headerProto, None) \<Rightarrow>
            Ret \<lparr>message_Header =
                  \<lparr>header_SignerId = ConsensusPeerMessageHeader_SignerId headerProto,
                   header_ContentSha512 = ConsensusPeerMessageHeader_ContentSha512 headerProto,
                   header_MessageType = ConsensusPeerMessageHeader_MessageType headerProto,
                   header_Name = ConsensusPeerMessageHeader_Name headerProto,
                   header_Version = ConsensusPeerMessageHeader_Version headerProto\<rparr>,
                message_HeaderSignature = ConsensusPeerMessage_HeaderSignature p,
                message_Content = ConsensusPeerMessage_Content p\<rparr>)"

record startupState =
  startup_ChainHead :: block
  startup_Peers :: "peerInfo list"
  startup_LocalPeerInfo :: peerInfo

definition GetPeerId :: "ConsensusPeerInfo option \<Rightarrow> bytes" where
  "GetPeerId p = (case p of None \<Rightarrow> [] | Some x \<Rightarrow> ConsensusPeerInfo_PeerId x)"

definition newStartupStateFromProtos ::
  "ConsensusBlock option \<Rightarrow> ConsensusPeerInfo list \<Rightarrow> ConsensusPeerInfo option \<Rightarrow> startupState" where
  "newStartupStateFromProtos chainHeadProto peersProto localPeerInfoProto =
    \<lparr>startup_ChainHead = newBlockFromProto chainHeadProto,
     startup_Peers = map (\<lambda>regPeer. \<lparr>peerInfo_PeerId = NewPeerIdFromSlice (ConsensusPeerInfo_PeerId regPeer)\<rparr>) peersProto,
     startup_LocalPeerInfo = \<lparr>peerInfo_PeerId = NewPeerIdFromSlice (GetPeerId localPeerInfoProto)\<rparr>\<rparr>"

section \<open>Updates\<close>

text \<open>
  The dynamic types a ConsensusUpdate can have.  The method GetType has a value receiver, so a
  pointer to an update is an update too; the sources create one such pointer, to UpdateShutdown.
  The type switch of an engine tells the two apart.
\<close>

datatype ConsensusUpdate =
    UpdatePeerConnected peerInfo
  | UpdatePeerDisconnected peerInfo
  | UpdatePeerMessage peerMessage PeerId
  | UpdateBlockNew block
  | UpdateBlockValid BlockId
  | UpdateBlockInvalid BlockId
  | UpdateBlockCommit BlockId
  | UpdateShutdown
  | UpdateShutdown_pointer

fun GetType :: "ConsensusUpdate \<Rightarrow> string" where
  "GetType (UpdatePeerConnected _) = ''UpdatePeerConnected''"
| "GetType (UpdatePeerDisconnected _) = ''UpdatePeerDisconnected''"
| "GetType (UpdatePeerMessage _ _) = ''UpdatePeerMessage''"
| "GetType (UpdateBlockNew _) = ''UpdateBlockNew''"
| "GetType (UpdateBlockValid _) = ''UpdateBlockValid''"
| "GetType (UpdateBlockInvalid _) = ''UpdateBlockInvalid''"
| "GetType (UpdateBlockCommit _) = ''UpdateBlockCommit''"
| "GetType UpdateShutdown = ''UpdateShutdown''"
| "GetType UpdateShutdown_pointer = ''UpdateShutdown''"

section \<open>Normal identifiers\<close>

text \<open>
  An identifier is normal when it is the null identifier or has a byte other than zero.  All
  constructors return normal identifiers, and on these the conversions are inverse to each other.
\<close>

definition normal_id :: "string \<Rightarrow> bool" where
  "normal_id i \<longleftrightarrow> i = [] \<or> \<not> isSliceOfZeroes i"

definition block_wf :: "block \<Rightarrow> bool" where
  "block_wf b \<longleftrightarrow> normal_id (block_BlockId b) \<and> normal_id (block_PreviousId b) \<and> normal_id (block_SignerId b)"

definition startup_wf :: "startupState \<Rightarrow> bool" where
  "startup_wf s \<longleftrightarrow> block_wf (startup_ChainHead s) \<and> list_all (\<lambda>p. normal_id (peerInfo_PeerId p)) (startup_Peers s) \<and>
     normal_id (peerInfo_PeerId (startup_LocalPeerInfo s))"

fun update_wf :: "ConsensusUpdate \<Rightarrow> bool" where
  "update_wf (UpdatePeerConnected p) = normal_id (peerInfo_PeerId p)"
| "update_wf (UpdatePeerDisconnected p) = normal_id (peerInfo_PeerId p)"
| "update_wf (UpdatePeerMessage m i) = normal_id i"
| "update_wf (UpdateBlockNew b) = block_wf b"
| "update_wf (UpdateBlockValid i) = normal_id i"
| "update_wf (UpdateBlockInvalid i) = normal_id i"
| "update_wf (UpdateBlockCommit i) = normal_id i"
| "update_wf UpdateShutdown = True"
| "update_wf UpdateShutdown_pointer = True"

lemma AsBytes_id [simp]: "BlockId_AsBytes i = i" "PeerId_AsBytes i = i"
  by (simp_all add: BlockId_AsBytes_def PeerId_AsBytes_def)

lemma normal_New [simp]: "normal_id (NewBlockIdFromBytes b)" "normal_id (NewPeerIdFromSlice b)"
  by (simp_all add: normal_id_def NewBlockIdFromBytes_def NewPeerIdFromSlice_def isSliceOfZeroes_def)

lemma New_normal [simp]: "normal_id i \<Longrightarrow> NewBlockIdFromBytes i = i" "normal_id i \<Longrightarrow> NewPeerIdFromSlice i = i"
  by (auto simp: normal_id_def NewBlockIdFromBytes_def NewPeerIdFromSlice_def)

lemma block_wf_newBlockFromProto [simp]: "block_wf (newBlockFromProto p)"
  by (simp add: block_wf_def newBlockFromProto_def Let_def)

lemma startup_wf_new [simp]: "startup_wf (newStartupStateFromProtos c ps l)"
  by (simp add: startup_wf_def newStartupStateFromProtos_def list_all_iff)

text \<open>A block as the validator encodes it.\<close>

definition block_proto :: "block \<Rightarrow> ConsensusBlock" where
  "block_proto b = \<lparr>ConsensusBlock_BlockId = block_BlockId b, ConsensusBlock_PreviousId = block_PreviousId b,
     ConsensusBlock_SignerId = block_SignerId b, ConsensusBlock_BlockNum = block_BlockNum b,
     ConsensusBlock_Payload = block_Payload b, ConsensusBlock_Summary = block_Summary b\<rparr>"

lemma newBlockFromProto_proto [simp]: "block_wf b \<Longrightarrow> newBlockFromProto (Some (block_proto b)) = b"
  by (simp add: newBlockFromProto_def block_proto_def block_wf_def)

lemma block_proto_BlockId [simp]: "ConsensusBlock_BlockId (block_proto b) = block_BlockId b"
  by (simp add: block_proto_def)

section \<open>Properties\<close>

text \<open>
  C28: identifiers survive their textual and their binary form.  Reading the hexadecimal string of
  a block identifier, or the bytes a block or peer identifier is sent as, gives the identifier back
  exactly when it is normal; an identifier of zero bytes only becomes the null identifier, and the
  null identifier is sent as no bytes.  Different identifiers have different strings.
\<close>

theorem identifiers_roundtrip:
  "(NewBlockIdFromString (BlockId_String i) = i \<longleftrightarrow> normal_id i) \<and>
   (NewBlockIdFromBytes (BlockId_AsBytes i) = i \<longleftrightarrow> normal_id i) \<and>
   (NewPeerIdFromSlice (PeerId_AsBytes p) = p \<longleftrightarrow> normal_id p) \<and>
   (isSliceOfZeroes i \<longrightarrow> NewBlockIdFromString (BlockId_String i) = BLOCK_ID_NULL \<and> NewBlockIdFromBytes i = BLOCK_ID_NULL \<and>
      NewPeerIdFromSlice i = PEER_ID_NULL) \<and>
   BlockId_AsBytes BLOCK_ID_NULL = [] \<and> PeerId_AsBytes PEER_ID_NULL = [] \<and>
   (BlockId_String i = BlockId_String j \<longrightarrow> i = j) \<and> (PeerId_String p = PeerId_String q \<longrightarrow> p = q)"
proof -
  have "NewBlockIdFromString (BlockId_String i) = NewBlockIdFromBytes i"
    by (simp add: NewBlockIdFromString_def BlockId_String_def)
  moreover have "x = y" if "EncodeToString x = EncodeToString y" for x y
    using arg_cong [OF that, of DecodeString] by (simp only: Decode_Encode prod.inject)
  ultimately show ?thesis
    by (auto simp: NewBlockIdFromBytes_def NewPeerIdFromSlice_def normal_id_def BlockId_String_def PeerId_String_def)
qed

lemma identifiers_roundtrip_witness:
  "isSliceOfZeroes [CHR 0x00, CHR 0x00] \<and>
   NewBlockIdFromString (BlockId_String [CHR 0x00, CHR 0x00]) = BLOCK_ID_NULL \<and>
   NewBlockIdFromString (BlockId_String ''ab'') = ''ab'' \<and> NewPeerIdFromSlice (PeerId_AsBytes ''ab'') = ''ab''"
proof (intro conjI)
  show z: "isSliceOfZeroes [CHR 0x00, CHR 0x00]" by (simp add: isSliceOfZeroes_def)
  show "NewBlockIdFromString (BlockId_String [CHR 0x00, CHR 0x00]) = BLOCK_ID_NULL"
    using identifiers_roundtrip z by blast
  have "normal_id ''ab''" by (simp add: normal_id_def isSliceOfZeroes_def)
  then show "NewBlockIdFromString (BlockId_String ''ab'') = ''ab''" "NewPeerIdFromSlice (PeerId_AsBytes ''ab'') = ''ab''"
    using identifiers_roundtrip by blast+
qed

end
