(* ===== verification/Consensus_Service.thy ===== *)
theory Consensus_Service
  imports Consensus_Types Messaging
begin

text \<open>
  consensus/service.go and consensus/iface.go: the service through which an engine sends commands
  and requests to the validator.  Every operation is one remote call by serviceRpc over the
  service's connection; the call is split where another thread can see the state in between.
\<close>

section \<open>The service and its remote call\<close>

text \<open>The connection is nil until Start succeeds; the table of pending ids is a set.\<close>

record 's ZmqService =
  sv_uri :: string
  sv_connection :: "'s option"
  sv_corrIds :: "string set"

definition NewZmqService :: "string \<Rightarrow> 's ZmqService" where
  "NewZmqService uri = \<lparr>sv_uri = uri, sv_connection = None, sv_corrIds = {}\<rparr>"

definition ZmqService_Start ::
  "'p zmq_context \<Rightarrow> (nat \<Rightarrow> string) \<Rightarrow> ('p ZmqConnection ZmqService, unit) proc" where
  "ZmqService_Start ctx uuid self =
    (case NewConnection ctx uuid 0 (zc_PAIR ctx) (sv_uri self) False of
       Inl err \<Rightarrow> (Ret (), self)
     | Inr connection \<Rightarrow> (Ret (), self\<lparr>sv_connection := Some connection\<rparr>))"

text \<open>A method call on the connection; on a nil connection it panics.\<close>

definition on_connection :: "('s, 'a) proc \<Rightarrow> ('s ZmqService, 'a) proc" where
  "on_connection m self =
    (case sv_connection self of
       None \<Rightarrow> (Panic ''nil pointer dereference'', self)
     | Some c \<Rightarrow> (case m c of (x, c') \<Rightarrow> (x, self\<lparr>sv_connection := Some c'\<rparr>)))"

definition ZmqService_Shutdown :: "'s Connection \<Rightarrow> ('s ZmqService, unit) proc" where
  "ZmqService_Shutdown C = on_connection (c_Close C)"

text \<open>The three parts of a remote call: send, record the id, wait for the response.\<close>

definition rpc_send ::
  "'s Connection \<Rightarrow> 'q codec \<Rightarrow> 'q \<Rightarrow> Message_MessageType \<Rightarrow> ('s ZmqService, go_error + string) proc" where
  "rpc_send C cq request requestType =
    (case Marshal cq request of
       (_, Some err) \<Rightarrow> retP (Inl (ErrorString (''Failed to marshal '' @ Message_MessageType_String requestType
          @ '' message: '' @ Error err)))
     | (bytes, None) \<Rightarrow>
        bindP (on_connection (c_SendNewMsg C requestType bytes)) (\<lambda>(corrId, err). retP
          (case err of
             Some e \<Rightarrow> Inl (ErrorString (''Failed to send '' @ Message_MessageType_String requestType @ '' message: '' @ Error e))
           | None \<Rightarrow> Inr corrId)))"

definition rpc_record :: "string \<Rightarrow> ('s ZmqService, unit) proc" where
  "rpc_record corrId self = (Ret (), self\<lparr>sv_corrIds := insert corrId (sv_corrIds self)\<rparr>)"

definition rpc_forget :: "string \<Rightarrow> ('s ZmqService, unit) proc" where
  "rpc_forget corrId self = (Ret (), self\<lparr>sv_corrIds := sv_corrIds self - {corrId}\<rparr>)"

text \<open>The error of the receive is not looked at: a nil message has the empty correlation id.\<close>

definition rpc_receive ::
  "'s Connection \<Rightarrow> string \<Rightarrow> 'r codec \<Rightarrow> Message_MessageType \<Rightarrow> ('s ZmqService, go_error + 'r) proc" where
  "rpc_receive C corrId cr responseType =
    bindP (on_connection (c_RecvMsgWithId C corrId)) (\<lambda>(_, msg, err).
      if GetCorrelationId msg \<noteq> corrId then
        retP (Inl (ErrorString (''Expected message with correlation id '' @ corrId @ '' but received '' @ GetCorrelationId msg)))
      else bindP (rpc_forget corrId) (\<lambda>_. retP
        (if GetMessageType msg \<noteq> responseType then
           Inl (ErrorString (''Expected message with type '' @ Message_MessageType_String responseType @ '' but received ''
             @ Message_MessageType_String (GetMessageType msg)))
         else case Unmarshal cr (GetContent msg) of
           (_, Some err) \<Rightarrow> Inl (ErrorString (''Failed to unmarshal '' @ Message_MessageType_String responseType
              @ '' message: '' @ Error err))
         | (response, None) \<Rightarrow> Inr response)))"

definition serviceRpc ::
  "'s Connection \<Rightarrow> 'q codec \<Rightarrow> 'q \<Rightarrow> Message_MessageType \<Rightarrow> 'r codec \<Rightarrow> Message_MessageType \<Rightarrow>
   ('s ZmqService, go_error + 'r) proc" where
  "serviceRpc C cq request requestType cr responseType =
    bindP (rpc_send C cq request requestType) (\<lambda>sent.
      case sent of
        Inl err \<Rightarrow> retP (Inl err)
      | Inr corrId \<Rightarrow> bindP (rpc_record corrId) (\<lambda>_. rpc_receive C corrId cr responseType))"

definition hasCorrelationId :: "'s ZmqService \<Rightarrow> string \<Rightarrow> bool" where
  "hasCorrelationId self corrId \<longleftrightarrow> corrId \<in> sv_corrIds self"

section \<open>The operations\<close>

definition failed_with :: "(int \<times> string) list \<Rightarrow> int \<Rightarrow> go_error" where
  "failed_with names status = ReceiveError (''Failed with status: '' @ EnumStringOf names status)"

text \<open>The value and the error of an operation: an error of the call, or what the response says.\<close>

definition rpc_value :: "'a \<Rightarrow> (go_error + 'r) \<Rightarrow> ('r \<Rightarrow> go_error option) \<Rightarrow> ('r \<Rightarrow> 'a) \<Rightarrow> 'a \<times> go_error option" where
  "rpc_value nil res check value =
    (case res of
       Inl err \<Rightarrow> (nil, Some err)
     | Inr response \<Rightarrow> (case check response of Some err \<Rightarrow> (nil, Some err) | None \<Rightarrow> (value response, None)))"

abbreviation rpc_error :: "(go_error + 'r) \<Rightarrow> ('r \<Rightarrow> go_error option) \<Rightarrow> go_error option" where
  "rpc_error res check \<equiv> snd (rpc_value () res check (\<lambda>_. ()))"

definition ZmqService_SendTo :: "cons_pb \<Rightarrow> 's Connection \<Rightarrow> PeerId \<Rightarrow> string \<Rightarrow> bytes \<Rightarrow> ('s ZmqService, go_error option) proc" where
  "ZmqService_SendTo pb C receiver messageType payload =
    bindP (serviceRpc C (cpSendToRequest pb) \<lparr>ConsensusSendToRequest_Content = payload, ConsensusSendToRequest_MessageType = messageType, ConsensusSendToRequest_ReceiverId = PeerId_AsBytes receiver\<rparr>
        Message_CONSENSUS_SEND_TO_REQUEST (cpSendToResponse pb) Message_CONSENSUS_SEND_TO_RESPONSE)
      (\<lambda>res. retP (rpc_error res
        (\<lambda>response. let status = ConsensusSendToResponse_Status response in
           if status \<noteq> ConsensusSendToResponse_OK then Some (failed_with ConsensusSendToResponse_Status_name status)
           else None)))"

definition ZmqService_Broadcast :: "cons_pb \<Rightarrow> 's Connection \<Rightarrow> string \<Rightarrow> bytes \<Rightarrow> ('s ZmqService, go_error option) proc" where
  "ZmqService_Broadcast pb C messageType payload =
    bindP (serviceRpc C (cpBroadcastRequest pb) \<lparr>ConsensusBroadcastRequest_Content = payload, ConsensusBroadcastRequest_MessageType = messageType\<rparr>
        Message_CONSENSUS_BROADCAST_REQUEST (cpBroadcastResponse pb) Message_CONSENSUS_BROADCAST_RESPONSE)
      (\<lambda>res. retP (rpc_error res
        (\<lambda>response. let status = ConsensusBroadcastResponse_Status response in
           if status \<noteq> ConsensusBroadcastResponse_OK then Some (failed_with ConsensusBroadcastResponse_Status_name status)
           else None)))"

definition ZmqService_InitializeBlock :: "cons_pb \<Rightarrow> 's Connection \<Rightarrow> BlockId \<Rightarrow> ('s ZmqService, go_error option) proc" where
  "ZmqService_InitializeBlock pb C previousId =
    bindP (serviceRpc C (cpInitializeBlockRequest pb) \<lparr>ConsensusInitializeBlockRequest_PreviousId = BlockId_AsBytes previousId\<rparr>
        Message_CONSENSUS_INITIALIZE_BLOCK_REQUEST (cpInitializeBlockResponse pb) Message_CONSENSUS_INITIALIZE_BLOCK_RESPONSE)
      (\<lambda>res. retP (rpc_error res
        (\<lambda>response. let status = ConsensusInitializeBlockResponse_Status response in
           if status = ConsensusInitializeBlockResponse_INVALID_STATE then Some (InvalidStateError ''Cannot initialize block in current state'')
           else if status = ConsensusInitializeBlockResponse_UNKNOWN_BLOCK then Some (UnknownBlockError ''Block not found'')
           else if status \<noteq> ConsensusInitializeBlockResponse_OK then Some (failed_with ConsensusInitializeBlockResponse_Status_name status)
           else None)))"

definition ZmqService_SummarizeBlock :: "cons_pb \<Rightarrow> 's Connection \<Rightarrow> ('s ZmqService, bytes \<times> go_error option) proc" where
  "ZmqService_SummarizeBlock pb C =
    bindP (serviceRpc C (cpSummarizeBlockRequest pb) ConsensusSummarizeBlockRequest
        Message_CONSENSUS_SUMMARIZE_BLOCK_REQUEST (cpSummarizeBlockResponse pb) Message_CONSENSUS_SUMMARIZE_BLOCK_RESPONSE)
      (\<lambda>res. retP (rpc_value [] res
        (\<lambda>response. let status = ConsensusSummarizeBlockResponse_Status response in
           if status = ConsensusSummarizeBlockResponse_INVALID_STATE then Some (InvalidStateError ''Cannot summarize block in current state'')
           else if status = ConsensusSummarizeBlockResponse_BLOCK_NOT_READY then Some BlockNotReadyError
           else if status \<noteq> ConsensusSummarizeBlockResponse_OK then Some (failed_with ConsensusSummarizeBlockResponse_Status_name status)
           else None)
          (\<lambda>response. ConsensusSummarizeBlockResponse_Summary response)))"

definition ZmqService_FinalizeBlock :: "cons_pb \<Rightarrow> 's Connection \<Rightarrow> bytes \<Rightarrow> ('s ZmqService, BlockId \<times> go_error option) proc" where
  "ZmqService_FinalizeBlock pb C data =
    bindP (serviceRpc C (cpFinalizeBlockRequest pb) \<lparr>ConsensusFinalizeBlockRequest_Data = data\<rparr>
        Message_CONSENSUS_FINALIZE_BLOCK_REQUEST (cpFinalizeBlockResponse pb) Message_CONSENSUS_FINALIZE_BLOCK_RESPONSE)
      (\<lambda>res. retP (rpc_value BLOCK_ID_NULL res
        (\<lambda>response. let status = ConsensusFinalizeBlockResponse_Status response in
           if status = ConsensusFinalizeBlockResponse_INVALID_STATE then Some (InvalidStateError ''Cannot finalize block in current state'')
           else if status = ConsensusFinalizeBlockResponse_BLOCK_NOT_READY then Some BlockNotReadyError
           else if status \<noteq> ConsensusFinalizeBlockResponse_OK then Some (failed_with ConsensusFinalizeBlockResponse_Status_name status)
           else None)
          (\<lambda>response. NewBlockIdFromBytes (ConsensusFinalizeBlockResponse_BlockId response))))"

definition ZmqService_CancelBlock :: "cons_pb \<Rightarrow> 's Connection \<Rightarrow> ('s ZmqService, go_error option) proc" where
  "ZmqService_CancelBlock pb C =
    bindP (serviceRpc C (cpCancelBlockRequest pb) ConsensusCancelBlockRequest
        Message_CONSENSUS_CANCEL_BLOCK_REQUEST (cpCancelBlockResponse pb) Message_CONSENSUS_CANCEL_BLOCK_RESPONSE)
      (\<lambda>res. retP (rpc_error res
        (\<lambda>response. let status = ConsensusCancelBlockResponse_Status response in
           if status = ConsensusCancelBlockResponse_INVALID_STATE then Some (InvalidStateError ''Cannot cancel block in current state'')
           else if status \<noteq> ConsensusCancelBlockResponse_OK then Some (failed_with ConsensusCancelBlockResponse_Status_name status)
           else None)))"

definition ZmqService_CheckBlocks :: "cons_pb \<Rightarrow> 's Connection \<Rightarrow> BlockId list \<Rightarrow> ('s ZmqService, go_error option) proc" where
  "ZmqService_CheckBlocks pb C blockIds =
    bindP (serviceRpc C (cpCheckBlocksRequest pb) \<lparr>ConsensusCheckBlocksRequest_BlockIds = map BlockId_AsBytes blockIds\<rparr>
        Message_CONSENSUS_CHECK_BLOCKS_REQUEST (cpCheckBlocksResponse pb) Message_CONSENSUS_CHECK_BLOCKS_RESPONSE)
      (\<lambda>res. retP (rpc_error res
        (\<lambda>response. let status = ConsensusCheckBlocksResponse_Status response in
           if status = ConsensusCheckBlocksResponse_UNKNOWN_BLOCK then Some (UnknownBlockError ''Block not found'')
           else if status \<noteq> ConsensusCheckBlocksResponse_OK then Some (failed_with ConsensusCheckBlocksResponse_Status_name status)
           else None)))"

definition ZmqService_CommitBlock :: "cons_pb \<Rightarrow> 's Connection \<Rightarrow> BlockId \<Rightarrow> ('s ZmqService, go_error option) proc" where
  "ZmqService_CommitBlock pb C blockId =
    bindP (serviceRpc C (cpCommitBlockRequest pb) \<lparr>ConsensusCommitBlockRequest_BlockId = BlockId_AsBytes blockId\<rparr>
        Message_CONSENSUS_COMMIT_BLOCK_REQUEST (cpCommitBlockResponse pb) Message_CONSENSUS_COMMIT_BLOCK_RESPONSE)
      (\<lambda>res. retP (rpc_error res
        (\<lambda>response. let status = ConsensusCommitBlockResponse_Status response in
           if status = ConsensusCommitBlockResponse_UNKNOWN_BLOCK then Some (UnknownBlockError ''Block not found'')
           else if status \<noteq> ConsensusCommitBlockResponse_OK then Some (failed_with ConsensusCommitBlockResponse_Status_name status)
           else None)))"

definition ZmqService_IgnoreBlock :: "cons_pb \<Rightarrow> 's Connection \<Rightarrow> BlockId \<Rightarrow> ('s ZmqService, go_error option) proc" where
  "ZmqService_IgnoreBlock pb C blockId =
    bindP (serviceRpc C (cpIgnoreBlockRequest pb) \<lparr>ConsensusIgnoreBlockRequest_BlockId = BlockId_AsBytes blockId\<rparr>
        Message_CONSENSUS_IGNORE_BLOCK_REQUEST (cpIgnoreBlockResponse pb) Message_CONSENSUS_IGNORE_BLOCK_RESPONSE)
      (\<lambda>res. retP (rpc_error res
        (\<lambda>response. let status = ConsensusIgnoreBlockResponse_Status response in
           if status = ConsensusIgnoreBlockResponse_UNKNOWN_BLOCK then Some (UnknownBlockError ''Block not found'')
           else if status \<noteq> ConsensusIgnoreBlockResponse_OK then Some (failed_with ConsensusIgnoreBlockResponse_Status_name status)
           else None)))"

definition ZmqService_FailBlock :: "cons_pb \<Rightarrow> 's Connection \<Rightarrow> BlockId \<Rightarrow> ('s ZmqService, go_error option) proc" where
  "ZmqService_FailBlock pb C blockId =
    bindP (serviceRpc C (cpFailBlockRequest pb) \<lparr>ConsensusFailBlockRequest_BlockId = BlockId_AsBytes blockId\<rparr>
        Message_CONSENSUS_FAIL_BLOCK_REQUEST (cpFailBlockResponse pb) Message_CONSENSUS_FAIL_BLOCK_RESPONSE)
      (\<lambda>res. retP (rpc_error res
        (\<lambda>response. let status = ConsensusFailBlockResponse_Status response in
           if status = ConsensusFailBlockResponse_UNKNOWN_BLOCK then Some (UnknownBlockError ''Block not found'')
           else if status \<noteq> ConsensusFailBlockResponse_OK then Some (failed_with ConsensusFailBlockResponse_Status_name status)
           else None)))"

text \<open>The queries collect the entries of the response in a map, later ones winning; a nil map is empty.\<close>

definition entries_map :: "('r \<Rightarrow> 'k) \<Rightarrow> ('r \<Rightarrow> 'v) \<Rightarrow> 'r list \<Rightarrow> ('k \<rightharpoonup> 'v)" where
  "entries_map key value entries = foldl (\<lambda>m e. m(key e \<mapsto> value e)) Map.empty entries"

definition ZmqService_GetBlocks :: "cons_pb \<Rightarrow> 's Connection \<Rightarrow> BlockId list \<Rightarrow> ('s ZmqService, (BlockId \<rightharpoonup> block) \<times> go_error option) proc" where
  "ZmqService_GetBlocks pb C blockIds =
    bindP (serviceRpc C (cpBlocksGetRequest pb) \<lparr>ConsensusBlocksGetRequest_BlockIds = map BlockId_AsBytes blockIds\<rparr>
        Message_CONSENSUS_BLOCKS_GET_REQUEST (cpBlocksGetResponse pb) Message_CONSENSUS_BLOCKS_GET_RESPONSE)
      (\<lambda>res. retP (rpc_value Map.empty res
        (\<lambda>response. let status = ConsensusBlocksGetResponse_Status response in
           if status = ConsensusBlocksGetResponse_UNKNOWN_BLOCK then Some (UnknownBlockError ''Block not found'')
           else if status \<noteq> ConsensusBlocksGetResponse_OK then Some (failed_with ConsensusBlocksGetResponse_Status_name status)
           else None)
          (\<lambda>response. entries_map (\<lambda>p. NewBlockIdFromBytes (ConsensusBlock_BlockId p)) (\<lambda>p. newBlockFromProto (Some p)) (ConsensusBlocksGetResponse_Blocks response))))"

definition ZmqService_GetChainHead :: "cons_pb \<Rightarrow> 's Connection \<Rightarrow> ('s ZmqService, block option \<times> go_error option) proc" where
  "ZmqService_GetChainHead pb C =
    bindP (serviceRpc C (cpChainHeadGetRequest pb) ConsensusChainHeadGetRequest
        Message_CONSENSUS_CHAIN_HEAD_GET_REQUEST (cpChainHeadGetResponse pb) Message_CONSENSUS_CHAIN_HEAD_GET_RESPONSE)
      (\<lambda>res. retP (rpc_value None res
        (\<lambda>response. let status = ConsensusChainHeadGetResponse_Status response in
           if status = ConsensusChainHeadGetResponse_NO_CHAIN_HEAD then Some NoChainHeadError
           else if status \<noteq> ConsensusChainHeadGetResponse_OK then Some (failed_with ConsensusChainHeadGetResponse_Status_name status)
           else None)
          (\<lambda>response. Some (newBlockFromProto (ConsensusChainHeadGetResponse_Block response)))))"

definition ZmqService_GetSettings :: "cons_pb \<Rightarrow> 's Connection \<Rightarrow> BlockId \<Rightarrow> string list \<Rightarrow> ('s ZmqService, (string \<rightharpoonup> string) \<times> go_error option) proc" where
  "ZmqService_GetSettings pb C blockId ks =
    bindP (serviceRpc C (cpSettingsGetRequest pb) \<lparr>ConsensusSettingsGetRequest_BlockId = BlockId_AsBytes blockId, ConsensusSettingsGetRequest_Keys = ks\<rparr>
        Message_CONSENSUS_SETTINGS_GET_REQUEST (cpSettingsGetResponse pb) Message_CONSENSUS_SETTINGS_GET_RESPONSE)
      (\<lambda>res. retP (rpc_value Map.empty res
        (\<lambda>response. let status = ConsensusSettingsGetResponse_Status response in
           if status = ConsensusSettingsGetResponse_UNKNOWN_BLOCK then Some (UnknownBlockError ''Block not found'')
           else if status \<noteq> ConsensusSettingsGetResponse_OK then Some (failed_with ConsensusSettingsGetResponse_Status_name status)
           else None)
          (\<lambda>response. entries_map ConsensusSettingsEntry_Key ConsensusSettingsEntry_Value (ConsensusSettingsGetResponse_Entries response))))"

definition ZmqService_GetState :: "cons_pb \<Rightarrow> 's Connection \<Rightarrow> BlockId \<Rightarrow> string list \<Rightarrow> ('s ZmqService, (string \<rightharpoonup> bytes) \<times> go_error option) proc" where
  "ZmqService_GetState pb C blockId addresses =
    bindP (serviceRpc C (cpStateGetRequest pb) \<lparr>ConsensusStateGetRequest_BlockId = BlockId_AsBytes blockId, ConsensusStateGetRequest_Addresses = addresses\<rparr>
        Message_CONSENSUS_STATE_GET_REQUEST (cpStateGetResponse pb) Message_CONSENSUS_STATE_GET_RESPONSE)
      (\<lambda>res. retP (rpc_value Map.empty res
        (\<lambda>response. let status = ConsensusStateGetResponse_Status response in
           if status = ConsensusStateGetResponse_UNKNOWN_BLOCK then Some (UnknownBlockError ''Block not found'')
           else if status \<noteq> ConsensusStateGetResponse_OK then Some (failed_with ConsensusStateGetResponse_Status_name status)
           else None)
          (\<lambda>response. entries_map ConsensusStateEntry_Address ConsensusStateEntry_Data (ConsensusStateGetResponse_Entries response))))"

section \<open>The interface\<close>

record 's ConsensusService =
  cs_SendTo :: "PeerId \<Rightarrow> string \<Rightarrow> bytes \<Rightarrow> ('s, go_error option) proc"
  cs_Broadcast :: "string \<Rightarrow> bytes \<Rightarrow> ('s, go_error option) proc"
  cs_InitializeBlock :: "BlockId \<Rightarrow> ('s, go_error option) proc"
  cs_SummarizeBlock :: "('s, bytes \<times> go_error option) proc"
  cs_FinalizeBlock :: "bytes \<Rightarrow> ('s, BlockId \<times> go_error option) proc"
  cs_CancelBlock :: "('s, go_error option) proc"
  cs_CheckBlocks :: "BlockId list \<Rightarrow> ('s, go_error option) proc"
  cs_CommitBlock :: "BlockId \<Rightarrow> ('s, go_error option) proc"
  cs_IgnoreBlock :: "BlockId \<Rightarrow> ('s, go_error option) proc"
  cs_FailBlock :: "BlockId \<Rightarrow> ('s, go_error option) proc"
  cs_GetBlocks :: "BlockId list \<Rightarrow> ('s, (BlockId \<rightharpoonup> block) \<times> go_error option) proc"
  cs_GetChainHead :: "('s, block option \<times> go_error option) proc"
  cs_GetSettings :: "BlockId \<Rightarrow> string list \<Rightarrow> ('s, (string \<rightharpoonup> string) \<times> go_error option) proc"
  cs_GetState :: "BlockId \<Rightarrow> string list \<Rightarrow> ('s, (string \<rightharpoonup> bytes) \<times> go_error option) proc"

definition zmq_service :: "cons_pb \<Rightarrow> 's Connection \<Rightarrow> 's ZmqService ConsensusService" where
  "zmq_service pb C = \<lparr>
     cs_SendTo = ZmqService_SendTo pb C,
     cs_Broadcast = ZmqService_Broadcast pb C,
     cs_InitializeBlock = ZmqService_InitializeBlock pb C,
     cs_SummarizeBlock = ZmqService_SummarizeBlock pb C,
     cs_FinalizeBlock = ZmqService_FinalizeBlock pb C,
     cs_CancelBlock = ZmqService_CancelBlock pb C,
     cs_CheckBlocks = ZmqService_CheckBlocks pb C,
     cs_CommitBlock = ZmqService_CommitBlock pb C,
     cs_IgnoreBlock = ZmqService_IgnoreBlock pb C,
     cs_FailBlock = ZmqService_FailBlock pb C,
     cs_GetBlocks = ZmqService_GetBlocks pb C,
     cs_GetChainHead = ZmqService_GetChainHead pb C,
     cs_GetSettings = ZmqService_GetSettings pb C,
     cs_GetState = ZmqService_GetState pb C\<rparr>"

end
