(* ===== verification/Devmode.thy ===== *)
theory Devmode
  imports Consensus_Service
begin

text \<open>
  examples/devmode\_consensus/engine.go: the development consensus engine.  It publishes a block per
  height when its timer expires, checks the consensus data of new blocks, and chooses between a
  valid block and the chain head.  The service is any implementation of the ConsensusService
  interface; the clock and the random numbers are inputs.

  The retry loops and the walk along the chain need not end: they are partial functions, and a
  call that never returns has the outcome \<^const>\<open>Block\<close>.
\<close>

section \<open>The service wrapper\<close>

record 's devmodeService =
  ds_service :: 's
  ds_notReadyToSummarize :: bool
  ds_notReadyToFinalize :: bool

definition NewDevmodeService :: "'s \<Rightarrow> 's devmodeService" where
  "NewDevmodeService service = \<lparr>ds_service = service, ds_notReadyToSummarize = False, ds_notReadyToFinalize = False\<rparr>"

definition on_service :: "('s, 'a) proc \<Rightarrow> ('s devmodeService, 'a) proc" where
  "on_service m d = (case m (ds_service d) of (x, s) \<Rightarrow> (x, d\<lparr>ds_service := s\<rparr>))"

text \<open>A command whose error is a panic.\<close>

definition or_panic :: "string \<Rightarrow> ('s, go_error option) proc \<Rightarrow> ('s devmodeService, unit) proc" where
  "or_panic e m = bindP (on_service m) (\<lambda>err. case err of Some _ \<Rightarrow> panicP e | None \<Rightarrow> retP ())"

definition getChainHead :: "'s ConsensusService \<Rightarrow> ('s devmodeService, block option) proc" where
  "getChainHead S = bindP (on_service (cs_GetChainHead S)) (\<lambda>(head, err).
    case err of Some _ \<Rightarrow> panicP ''Failed to get chain head'' | None \<Rightarrow> retP head)"

text \<open>A block that is not in the map is nil.\<close>

definition getBlock :: "'s ConsensusService \<Rightarrow> BlockId \<Rightarrow> ('s devmodeService, block option) proc" where
  "getBlock S block_id = bindP (on_service (cs_GetBlocks S [block_id])) (\<lambda>(blockIdMap, err).
    case err of Some _ \<Rightarrow> panicP ''Failed to get block'' | None \<Rightarrow> retP (blockIdMap block_id))"

definition initializeBlock :: "'s ConsensusService \<Rightarrow> ('s devmodeService, unit) proc" where
  "initializeBlock S = or_panic ''Failed to initialize'' (cs_InitializeBlock S BLOCK_ID_NULL)"

definition createConsensus :: "bytes \<Rightarrow> bytes" where
  "createConsensus summary = ''Devmode'' @ summary"

definition checkConsensus :: "block \<Rightarrow> bool" where
  "checkConsensus b \<longleftrightarrow> block_Payload b = createConsensus (block_Summary b)"

text \<open>
  The loop that repeats a call while it reports that the block is not ready; \<open>mark\<close> sets the log
  guard.  The value None is a loop that goes on for ever.
\<close>

partial_function (option) retry ::
  "('s devmodeService \<Rightarrow> 's devmodeService) \<Rightarrow> ('s devmodeService, 'a \<times> go_error option) proc \<Rightarrow>
   'a \<times> go_error option \<Rightarrow> 's devmodeService \<Rightarrow> (('a \<times> go_error option) outcome \<times> 's devmodeService) option" where
  "retry mark call r d =
    (case snd r of
       None \<Rightarrow> Some (Ret r, d)
     | Some err \<Rightarrow>
        if \<not> IsBlockNotReadyError err then Some (Ret r, d)
        else case call (mark d) of
            (Ret r', d') \<Rightarrow> retry mark call r' d'
          | (Panic e, d') \<Rightarrow> Some (Panic e, d')
          | (Block, d') \<Rightarrow> Some (Block, d'))"

definition retrying ::
  "('s devmodeService \<Rightarrow> 's devmodeService) \<Rightarrow> ('s devmodeService, 'a \<times> go_error option) proc \<Rightarrow> ('s devmodeService, 'a \<times> go_error option) proc" where
  "retrying mark call = bindP call (\<lambda>r d. case retry mark call r d of None \<Rightarrow> (Block, d) | Some x \<Rightarrow> x)"

text \<open>Any other error of the two calls is not looked at.\<close>

definition finalizeBlock :: "'s ConsensusService \<Rightarrow> ('s devmodeService, BlockId) proc" where
  "finalizeBlock S =
    bindP (retrying (\<lambda>d. d\<lparr>ds_notReadyToSummarize := True\<rparr>) (on_service (cs_SummarizeBlock S))) (\<lambda>(summary, err).
    bindP (\<lambda>d. (Ret (), d\<lparr>ds_notReadyToSummarize := False\<rparr>)) (\<lambda>_.
    bindP (retrying (\<lambda>d. d\<lparr>ds_notReadyToFinalize := True\<rparr>) (on_service (cs_FinalizeBlock S (createConsensus summary)))) (\<lambda>(blockId, err).
    bindP (\<lambda>d. (Ret (), d\<lparr>ds_notReadyToFinalize := False\<rparr>)) (\<lambda>_. retP blockId))))"

definition checkBlock :: "'s ConsensusService \<Rightarrow> BlockId \<Rightarrow> ('s devmodeService, unit) proc" where
  "checkBlock S block_id = or_panic ''Failed to check block'' (cs_CheckBlocks S [block_id])"

definition failBlock :: "'s ConsensusService \<Rightarrow> BlockId \<Rightarrow> ('s devmodeService, unit) proc" where
  "failBlock S block_id = or_panic ''Failed to fail block'' (cs_FailBlock S block_id)"

definition ignoreBlock :: "'s ConsensusService \<Rightarrow> BlockId \<Rightarrow> ('s devmodeService, unit) proc" where
  "ignoreBlock S block_id = or_panic ''Failed to ignore block'' (cs_IgnoreBlock S block_id)"

definition commitBlock :: "'s ConsensusService \<Rightarrow> BlockId \<Rightarrow> ('s devmodeService, unit) proc" where
  "commitBlock S block_id = or_panic ''Failed to commit block'' (cs_CommitBlock S block_id)"

definition cancelBlock :: "'s ConsensusService \<Rightarrow> ('s devmodeService, unit) proc" where
  "cancelBlock S = bindP (on_service (cs_CancelBlock S)) (\<lambda>err.
    case err of
      Some e \<Rightarrow> if IsInvalidStateError e then retP () else panicP (''Failed to cancel block: '' @ Error e)
    | None \<Rightarrow> retP ())"

definition broadcastPublishedBlock :: "'s ConsensusService \<Rightarrow> BlockId \<Rightarrow> ('s devmodeService, unit) proc" where
  "broadcastPublishedBlock S block_id =
    or_panic ''Failed to broadcast published block'' (cs_Broadcast S ''published'' (BlockId_AsBytes block_id))"

definition sendBlockReceived :: "'s ConsensusService \<Rightarrow> block option \<Rightarrow> ('s devmodeService, unit) proc" where
  "sendBlockReceived S b =
    (case b of
       None \<Rightarrow> panicP ''nil pointer dereference''
     | Some b \<Rightarrow> or_panic ''Failed to send block received''
         (cs_SendTo S (block_SignerId b) ''received'' (BlockId_AsBytes (block_BlockId b))))"

definition sendBlockAck :: "'s ConsensusService \<Rightarrow> PeerId \<Rightarrow> BlockId \<Rightarrow> ('s devmodeService, unit) proc" where
  "sendBlockAck S sender_id block_id =
    or_panic ''Failed to send block ack'' (cs_SendTo S sender_id ''ack'' (BlockId_AsBytes block_id))"

text \<open>
  The wait time in nanoseconds.  \<open>rnd n\<close> is the random number below \<open>n\<close>; rand.Intn panics when
  its argument is not positive.  The settings are read when the call has failed.
\<close>

abbreviation (input) defaultWaitTime :: int where "defaultWaitTime \<equiv> 0"

definition setting_value :: "(string \<rightharpoonup> string) \<Rightarrow> string \<Rightarrow> int" where
  "setting_value settings k =
    (case Atoi (case settings k of None \<Rightarrow> [] | Some v \<Rightarrow> v) of None \<Rightarrow> 0 | Some n \<Rightarrow> n)"

definition calculateWaitTime ::
  "'s ConsensusService \<Rightarrow> (int \<Rightarrow> int) \<Rightarrow> BlockId \<Rightarrow> ('s devmodeService, int) proc" where
  "calculateWaitTime S rnd chain_head_id =
    bindP (on_service (cs_GetSettings S chain_head_id
        [''sawtooth.consensus.min_wait_time'', ''sawtooth.consensus.max_wait_time''])) (\<lambda>(settings, err).
      bindP
        (case err of
           Some _ \<Rightarrow>
            (let minWaitTime = setting_value settings ''sawtooth.consensus.min_wait_time'';
                 maxWaitTime = setting_value settings ''sawtooth.consensus.max_wait_time'';
                 rand_range = wrap64 (maxWaitTime - minWaitTime)
             in if minWaitTime \<ge> maxWaitTime then retP defaultWaitTime
                else if rand_range \<le> 0 then panicP ''invalid argument to Intn''
                else retP (wrap64 (rnd rand_range + minWaitTime)))
         | None \<Rightarrow> retP defaultWaitTime)
        (\<lambda>waitTime. retP (wrap64 (waitTime * 1000000000))))"

section \<open>The handlers\<close>

definition HandlePeerMessage :: "'s ConsensusService \<Rightarrow> peerMessage \<Rightarrow> PeerId \<Rightarrow> ('s devmodeService, unit) proc" where
  "HandlePeerMessage S peer_message senderId =
    (let messageType = header_MessageType (message_Header peer_message) in
     if messageType = ''published'' then retP ()
     else if messageType = ''received'' then
       sendBlockAck S senderId (NewBlockIdFromBytes (message_Content peer_message))
     else if messageType = ''ack'' then retP ()
     else panicP ''HandlePeerMessage() recieved an invalid message type'')"

definition HandleBlockNew :: "'s ConsensusService \<Rightarrow> block \<Rightarrow> ('s devmodeService, unit) proc" where
  "HandleBlockNew S b =
    (if block_PreviousId b = BLOCK_ID_NULL then retP ()
     else if checkConsensus b then checkBlock S (block_BlockId b)
     else failBlock S (block_BlockId b))"

text \<open>The walk from the chain head towards the block number \<open>num\<close>; None when it does not end.\<close>

partial_function (option) chain_walk ::
  "'s ConsensusService \<Rightarrow> 64 word \<Rightarrow> BlockId \<Rightarrow> 's devmodeService \<Rightarrow> (block outcome \<times> 's devmodeService) option" where
  "chain_walk S num previousId d =
    (case getBlock S previousId d of
       (Ret None, d') \<Rightarrow> Some (Panic ''nil pointer dereference'', d')
     | (Ret (Some chainBlock), d') \<Rightarrow>
        if block_BlockNum chainBlock = num then Some (Ret chainBlock, d')
        else chain_walk S num (block_PreviousId chainBlock) d'
     | (Panic e, d') \<Rightarrow> Some (Panic e, d')
     | (Block, d') \<Rightarrow> Some (Block, d'))"

text \<open>The choice between the block and the chain head: lines 356 to 387.\<close>

definition choose_head :: "'s ConsensusService \<Rightarrow> BlockId \<Rightarrow> block \<Rightarrow> block \<Rightarrow> ('s devmodeService, unit) proc" where
  "choose_head S blockId b chainHead =
    (let greater = (\<lambda>x y. bytes_Compare (BlockId_AsBytes (block_BlockId x)) (BlockId_AsBytes (block_BlockId y)) > 0) in
     if block_BlockNum b > block_BlockNum chainHead \<or> (block_BlockNum b = block_BlockNum chainHead \<and> greater b chainHead)
     then commitBlock S blockId
     else if block_BlockNum b < block_BlockNum chainHead then
       bindP (\<lambda>d. case chain_walk S (block_BlockNum b) (block_PreviousId chainHead) d of None \<Rightarrow> (Block, d) | Some x \<Rightarrow> x)
         (\<lambda>chainBlock. if greater b chainBlock then commitBlock S blockId else ignoreBlock S blockId)
     else ignoreBlock S blockId)"

definition HandleBlockValid :: "'s ConsensusService \<Rightarrow> BlockId \<Rightarrow> ('s devmodeService, unit) proc" where
  "HandleBlockValid S blockId =
    bindP (getBlock S blockId) (\<lambda>new.
    bindP (sendBlockReceived S new) (\<lambda>_.
    bindP (getChainHead S) (\<lambda>head.
      case (new, head) of
        (Some b, Some chainHead) \<Rightarrow> choose_head S blockId b chainHead
      | _ \<Rightarrow> panicP ''nil pointer dereference'')))"

section \<open>The engine\<close>

record 's DevmodeEngineImpl =
  de_service :: "'s devmodeService"
  de_chainHead :: block
  de_waitTime :: int
  de_publishedAtHeight :: bool
  de_start :: int

abbreviation (input) Devmode_Version :: string where "Devmode_Version \<equiv> ''0.1''"
abbreviation (input) Devmode_Name :: string where "Devmode_Name \<equiv> ''Devmode''"

definition on_engine :: "('s devmodeService, 'a) proc \<Rightarrow> ('s DevmodeEngineImpl, 'a) proc" where
  "on_engine m self = (case m (de_service self) of (x, d) \<Rightarrow> (x, self\<lparr>de_service := d\<rparr>))"

definition HandleBlockCommit ::
  "'s ConsensusService \<Rightarrow> (int \<Rightarrow> int) \<Rightarrow> int \<Rightarrow> BlockId \<Rightarrow> ('s DevmodeEngineImpl, unit) proc" where
  "HandleBlockCommit S rnd now newChainHead =
    bindP (on_engine (cancelBlock S)) (\<lambda>_.
    bindP (on_engine (calculateWaitTime S rnd newChainHead)) (\<lambda>waitTime.
    bindP (\<lambda>self. (Ret (), self\<lparr>de_waitTime := waitTime, de_publishedAtHeight := False, de_start := now\<rparr>)) (\<lambda>_.
      on_engine (initializeBlock S))))"

text \<open>The timer of the select: a block is published when the wait time is over.\<close>

definition publish :: "'s ConsensusService \<Rightarrow> int \<Rightarrow> ('s DevmodeEngineImpl, unit) proc" where
  "publish S now self =
    (if \<not> de_publishedAtHeight self \<and> now - de_start self > de_waitTime self then
       bindP (on_engine (finalizeBlock S)) (\<lambda>newBlockId.
       bindP (\<lambda>self. (Ret (), self\<lparr>de_publishedAtHeight := True\<rparr>)) (\<lambda>_.
         on_engine (broadcastPublishedBlock S newBlockId))) self
     else (Ret (), self))"

text \<open>
  What the select of the loop finds: an update, the closed channel (whose receive returns nil at
  once) or the timer; with the time at which it does.  The result says whether Start returns.
\<close>

datatype select_event = Update ConsensusUpdate | ClosedChannel | Timer

definition engine_step ::
  "'s ConsensusService \<Rightarrow> (int \<Rightarrow> int) \<Rightarrow> int \<Rightarrow> select_event \<Rightarrow> ('s DevmodeEngineImpl, bool) proc" where
  "engine_step S rnd now ev =
    (let go_on = (\<lambda>_. retP False) in
     case ev of
       Update UpdateShutdown \<Rightarrow> retP True
     | Update (UpdateBlockNew b) \<Rightarrow> bindP (on_engine (HandleBlockNew S b)) go_on
     | Update (UpdateBlockValid i) \<Rightarrow> bindP (on_engine (HandleBlockValid S i)) go_on
     | Update (UpdateBlockCommit i) \<Rightarrow> bindP (HandleBlockCommit S rnd now i) go_on
     | Update (UpdatePeerMessage m senderId) \<Rightarrow> bindP (on_engine (HandlePeerMessage S m senderId)) go_on
     | Timer \<Rightarrow> bindP (publish S now) go_on
     | _ \<Rightarrow> retP False)"

fun engine_loop ::
  "'s ConsensusService \<Rightarrow> (int \<Rightarrow> int) \<Rightarrow> (int \<times> select_event) list \<Rightarrow> ('s DevmodeEngineImpl, unit) proc" where
  "engine_loop S rnd [] = (\<lambda>self. (Block, self))"
| "engine_loop S rnd ((now, ev) # evs) =
    bindP (engine_step S rnd now ev) (\<lambda>stop. if stop then retP () else engine_loop S rnd evs)"

text \<open>What Start does before its loop.\<close>

definition engine_begin ::
  "'s ConsensusService \<Rightarrow> (int \<Rightarrow> int) \<Rightarrow> startupState \<Rightarrow> 's \<Rightarrow> int \<Rightarrow> unit outcome \<times> 's DevmodeEngineImpl" where
  "engine_begin S rnd startup service now =
    (let head = startup_ChainHead startup in
     bindP (on_engine (calculateWaitTime S rnd (block_BlockId head))) (\<lambda>waitTime.
     bindP (\<lambda>self. (Ret (), self\<lparr>de_waitTime := waitTime, de_publishedAtHeight := False, de_start := now\<rparr>)) (\<lambda>_.
       on_engine (initializeBlock S)))
     \<lparr>de_service = NewDevmodeService service, de_chainHead = head, de_waitTime = 0, de_publishedAtHeight = False, de_start = 0\<rparr>)"

definition Devmode_Start ::
  "'s ConsensusService \<Rightarrow> (int \<Rightarrow> int) \<Rightarrow> startupState \<Rightarrow> 's \<Rightarrow> int \<Rightarrow> (int \<times> select_event) list \<Rightarrow>
   unit outcome \<times> 's DevmodeEngineImpl" where
  "Devmode_Start S rnd startup service now evs =
    (case engine_begin S rnd startup service now of
       (Ret _, self) \<Rightarrow> engine_loop S rnd evs self
     | (Panic e, self) \<Rightarrow> (Panic e, self)
     | (Block, self) \<Rightarrow> (Block, self))"

text \<open>Start returns only when the update is the value UpdateShutdown.\<close>

lemma engine_step_stops: "engine_step S rnd now ev self = (Ret True, self') \<Longrightarrow> ev = Update UpdateShutdown"
  by (auto simp: engine_step_def Let_def bindP_def
      split: select_event.splits ConsensusUpdate.splits outcome.splits prod.splits)

lemma engine_loop_goes_on:
  "\<forall>(now, ev) \<in> set evs. ev \<noteq> Update UpdateShutdown \<Longrightarrow> fst (engine_loop S rnd evs self) \<noteq> Ret ()"
proof (induction evs arbitrary: self)
  case (Cons x evs)
  obtain now ev where x: "x = (now, ev)" by (cases x)
  obtain r self' where "engine_step S rnd now ev self = (r, self')" by (cases "engine_step S rnd now ev self")
  with Cons x engine_step_stops [of S rnd now ev self self'] show ?case
    by (auto simp: bindP_def split: outcome.splits)
qed simp

end
