(* ===== verification/Consensus_Engine.thy ===== *)
theory Consensus_Engine
  imports Consensus_Service
begin

text \<open>
  consensus/engine.go: the main thread of a consensus engine, which registers with the validator,
  passes notifications to the engine implementation through a channel of capacity two, and
  forwards the service's requests and the validator's responses.

  The implementation and the service run in another thread.  What that thread does meanwhile is
  part of the events: the number of updates it has taken from the channel, and the correlation ids
  it has recorded.
\<close>

section \<open>State\<close>

abbreviation (input) INITIAL_RETRY_DELAY :: nat where "INITIAL_RETRY_DELAY \<equiv> 100"
abbreviation (input) MAX_RETRY_DELAY :: nat where "MAX_RETRY_DELAY \<equiv> 3000"

text \<open>What the engine calls of an implementation before it runs: ConsensusEngineImpl.\<close>

record ConsensusEngineImpl =
  impl_Name :: string
  impl_Version :: string

record ConsensusEngine =
  ce_uri :: string
  ce_impl :: ConsensusEngineImpl

definition NewConsensusEngine :: "string \<Rightarrow> ConsensusEngineImpl \<Rightarrow> ConsensusEngine" where
  "NewConsensusEngine uri impl = \<lparr>ce_uri = uri, ce_impl = impl\<rparr>"

text \<open>
  The connection to the validator, the pair of sockets to the service and the pair for shutdown
  (each pair one state), the pending ids of the service, the channel, the delays slept, in
  milliseconds, and whether the monitor socket is closed.
\<close>

record ('v, 'w, 'x) engine =
  en_validator :: 'v
  en_service :: 'w
  en_shutdown :: 'x
  en_corrIds :: "string set"
  en_updates :: "ConsensusUpdate list"
  en_closed :: bool
  en_slept :: "nat list"
  en_monitor_closed :: bool

definition en_on_validator :: "('v, 'a) proc \<Rightarrow> (('v, 'w, 'x) engine, 'a) proc" where
  "en_on_validator m e = (case m (en_validator e) of (x, v) \<Rightarrow> (x, e\<lparr>en_validator := v\<rparr>))"

definition en_on_service :: "('w, 'a) proc \<Rightarrow> (('v, 'w, 'x) engine, 'a) proc" where
  "en_on_service m e = (case m (en_service e) of (x, w) \<Rightarrow> (x, e\<lparr>en_service := w\<rparr>))"

definition en_on_shutdown :: "('x, 'a) proc \<Rightarrow> (('v, 'w, 'x) engine, 'a) proc" where
  "en_on_shutdown m e = (case m (en_shutdown e) of (x, w) \<Rightarrow> (x, e\<lparr>en_shutdown := w\<rparr>))"

text \<open>
  A send on the channel: a panic when it is closed; with two updates waiting it blocks, unless the
  implementation has taken some (\<open>taken\<close>) meanwhile.
\<close>

definition chan_send :: "nat \<Rightarrow> ConsensusUpdate \<Rightarrow> (('v, 'w, 'x) engine, unit) proc" where
  "chan_send taken u e =
    (if en_closed e then (Panic ''send on closed channel'', e)
     else let us = drop taken (en_updates e) in
       if length us < 2 then (Ret (), e\<lparr>en_updates := us @ [u]\<rparr>) else (Block, e\<lparr>en_updates := us\<rparr>))"

section \<open>Notifications\<close>

text \<open>
  The update in a notification: None when it cannot be decoded, which is logged.  A notification of
  a connected peer without the peer's info is a nil dereference, and a peer message whose header
  cannot be decoded panics.
\<close>

definition update_of :: "cons_pb \<Rightarrow> Message \<Rightarrow> ConsensusUpdate option outcome" where
  "update_of pb msg =
    (let t = Message_MessageType msg; c = Message_Content msg in
     if t = Message_CONSENSUS_NOTIFY_PEER_CONNECTED then
       (case Unmarshal (cpNotifyPeerConnected pb) c of
          (_, Some err) \<Rightarrow> Ret None
        | (u, None) \<Rightarrow> (case ConsensusNotifyPeerConnected_PeerInfo u of
            None \<Rightarrow> Panic ''nil pointer dereference''
          | Some p \<Rightarrow> Ret (Some (UpdatePeerConnected \<lparr>peerInfo_PeerId = NewPeerIdFromSlice (ConsensusPeerInfo_PeerId p)\<rparr>))))
     else if t = Message_CONSENSUS_NOTIFY_PEER_DISCONNECTED then
       (case Unmarshal (cpNotifyPeerDisconnected pb) c of
          (_, Some err) \<Rightarrow> Ret None
        | (u, None) \<Rightarrow> Ret (Some (UpdatePeerDisconnected
            \<lparr>peerInfo_PeerId = NewPeerIdFromSlice (ConsensusNotifyPeerDisconnected_PeerId u)\<rparr>)))
     else if t = Message_CONSENSUS_NOTIFY_PEER_MESSAGE then
       (case Unmarshal (cpNotifyPeerMessage pb) c of
          (_, Some err) \<Rightarrow> Ret None
        | (u, None) \<Rightarrow> (case newPeerMessageFromProto pb (ConsensusNotifyPeerMessage_Message u) of
            Ret m \<Rightarrow> Ret (Some (UpdatePeerMessage m (NewPeerIdFromSlice (ConsensusNotifyPeerMessage_SenderId u))))
          | Panic e \<Rightarrow> Panic e
          | Block \<Rightarrow> Block))
     else if t = Message_CONSENSUS_NOTIFY_BLOCK_NEW then
       (case Unmarshal (cpNotifyBlockNew pb) c of
          (_, Some err) \<Rightarrow> Ret None
        | (u, None) \<Rightarrow> Ret (Some (UpdateBlockNew (newBlockFromProto (ConsensusNotifyBlockNew_Block u)))))
     else if t = Message_CONSENSUS_NOTIFY_BLOCK_VALID then
       (case Unmarshal (cpNotifyBlockValid pb) c of
          (_, Some err) \<Rightarrow> Ret None
        | (u, None) \<Rightarrow> Ret (Some (UpdateBlockValid (NewBlockIdFromBytes (ConsensusNotifyBlockValid_BlockId u)))))
     else if t = Message_CONSENSUS_NOTIFY_BLOCK_INVALID then
       (case Unmarshal (cpNotifyBlockInvalid pb) c of
          (_, Some err) \<Rightarrow> Ret None
        | (u, None) \<Rightarrow> Ret (Some (UpdateBlockInvalid (NewBlockIdFromBytes (ConsensusNotifyBlockInvalid_BlockId u)))))
     else if t = Message_CONSENSUS_NOTIFY_BLOCK_COMMIT then
       (case Unmarshal (cpNotifyBlockCommit pb) c of
          (_, Some err) \<Rightarrow> Ret None
        | (u, None) \<Rightarrow> Ret (Some (UpdateBlockCommit (NewBlockIdFromBytes (ConsensusNotifyBlockCommit_BlockId u)))))
     else Ret None)"

definition handleUpdate :: "cons_pb \<Rightarrow> nat \<Rightarrow> Message \<Rightarrow> (('v, 'w, 'x) engine, unit) proc" where
  "handleUpdate pb taken msg =
    (case update_of pb msg of
       Ret None \<Rightarrow> retP ()
     | Ret (Some update) \<Rightarrow> chan_send taken update
     | Panic e \<Rightarrow> panicP e
     | Block \<Rightarrow> (\<lambda>e. (Block, e)))"

definition is_notification :: "Message_MessageType \<Rightarrow> bool" where
  "is_notification t \<longleftrightarrow> t \<in> {Message_CONSENSUS_NOTIFY_PEER_CONNECTED, Message_CONSENSUS_NOTIFY_PEER_DISCONNECTED,
     Message_CONSENSUS_NOTIFY_PEER_MESSAGE, Message_CONSENSUS_NOTIFY_BLOCK_NEW, Message_CONSENSUS_NOTIFY_BLOCK_VALID,
     Message_CONSENSUS_NOTIFY_BLOCK_INVALID, Message_CONSENSUS_NOTIFY_BLOCK_COMMIT}"

text \<open>What is done with a message from the validator: lines 380 to 447.\<close>

definition engine_route ::
  "cons_pb \<Rightarrow> 'v Connection \<Rightarrow> 'w Connection \<Rightarrow> nat \<Rightarrow> bytes \<Rightarrow> (('v, 'w, 'x) engine, unit) proc" where
  "engine_route pb Cv Cs taken data =
    (case LoadMsg (cpMessage pb) data of
       (_, Some err) \<Rightarrow> retP ()
     | (msg, None) \<Rightarrow>
       (let t = GetMessageType (Some msg); corrId = GetCorrelationId (Some msg) in
        if is_notification t then
          bindP (handleUpdate pb taken msg) (\<lambda>_.
            case Marshal (cpNotifyAck pb) ConsensusNotifyAck of
              (_, Some err) \<Rightarrow> retP ()
            | (ack, None) \<Rightarrow> bindP (en_on_validator (c_SendMsg Cv Message_CONSENSUS_NOTIFY_ACK ack corrId)) (\<lambda>err. retP ()))
        else if t = Message_PING_REQUEST then
          (case Marshal (cpPingResponse pb) PingResponse of
             (_, Some err) \<Rightarrow> retP ()
           | (pong, None) \<Rightarrow> bindP (en_on_validator (c_SendMsg Cv Message_PING_RESPONSE pong corrId)) (\<lambda>err. retP ()))
        else
          (\<lambda>e. if corrId \<noteq> [] \<and> corrId \<in> en_corrIds e
               then bindP (en_on_service (c_SendData Cs [] data)) (\<lambda>err. retP ()) e
               else (Ret (), e))))"

definition Engine_receiveValidator ::
  "cons_pb \<Rightarrow> 'v Connection \<Rightarrow> 'w Connection \<Rightarrow> nat \<Rightarrow> (('v, 'w, 'x) engine, unit) proc" where
  "Engine_receiveValidator pb Cv Cs taken =
    bindP (en_on_validator (c_RecvData Cv)) (\<lambda>(_, data, err).
      case err of Some e \<Rightarrow> retP () | None \<Rightarrow> engine_route pb Cv Cs taken data)"

definition Engine_receiveService ::
  "cons_pb \<Rightarrow> 'v Connection \<Rightarrow> 'w Connection \<Rightarrow> (('v, 'w, 'x) engine, unit) proc" where
  "Engine_receiveService pb Cv Cs =
    bindP (en_on_service (c_RecvData Cs)) (\<lambda>(_, data, err).
      case err of
        Some e \<Rightarrow> retP ()
      | None \<Rightarrow>
         (case LoadMsg (cpMessage pb) data of
            (_, Some e) \<Rightarrow> retP ()
          | (msg, None) \<Rightarrow> bindP (en_on_validator (c_SendData Cv [] data)) (\<lambda>err. retP ())))"

section \<open>Registration\<close>

text \<open>A socket that is ready; \<open>k\<close> is the choice of RecvMsg among stored messages.\<close>

datatype ready_socket = ValidatorSocket nat | ShutdownSocket

definition next_delay :: "nat \<Rightarrow> nat" where
  "next_delay retry_delay = (if retry_delay < MAX_RETRY_DELAY
     then (if retry_delay * 2 > MAX_RETRY_DELAY then MAX_RETRY_DELAY else retry_delay * 2) else retry_delay)"

definition sleep :: "nat \<Rightarrow> (('v, 'w, 'x) engine, unit) proc" where
  "sleep ms e = (Ret (), e\<lparr>en_slept := en_slept e @ [ms]\<rparr>)"

text \<open>
  The ready sockets of one poll, in order: None polls again; otherwise the result, where the
  startup state is nil when the response does not carry it.
\<close>

fun register_polled ::
  "cons_pb \<Rightarrow> 'v Connection \<Rightarrow> bytes \<Rightarrow> nat \<Rightarrow> ready_socket list \<Rightarrow>
   (('v, 'w, 'x) engine, (go_error + startupState option) option) proc" where
  "register_polled pb Cv regRequestData retry_delay [] = retP None"
| "register_polled pb Cv regRequestData retry_delay (ShutdownSocket # rs) =
    retP (Some (Inl (ErrorString ''Received shutdown while registering'')))"
| "register_polled pb Cv regRequestData retry_delay (ValidatorSocket k # rs) =
    bindP (en_on_validator (c_RecvMsg Cv k)) (\<lambda>(_, msg, err).
      case err of
        Some e \<Rightarrow> retP (Some (Inl e))
      | None \<Rightarrow>
         if GetMessageType msg \<noteq> Message_CONSENSUS_REGISTER_RESPONSE then
           retP (Some (Inl (ReceiveError (''Received unexpected message type: '' @ Message_MessageType_String (GetMessageType msg)))))
         else case Unmarshal (cpRegisterResponse pb) (GetContent msg) of
           (_, Some e) \<Rightarrow> retP (Some (Inl e))
         | (regResponse, None) \<Rightarrow>
            (let status = ConsensusRegisterResponse_Status regResponse in
             if status = ConsensusRegisterResponse_OK then
               retP (Some (Inr
                 (if ConsensusRegisterResponse_ChainHead regResponse \<noteq> None \<and> ConsensusRegisterResponse_LocalPeerInfo regResponse \<noteq> None
                  then Some (newStartupStateFromProtos (ConsensusRegisterResponse_ChainHead regResponse)
                    (ConsensusRegisterResponse_Peers regResponse) (ConsensusRegisterResponse_LocalPeerInfo regResponse))
                  else None)))
             else if status = ConsensusRegisterResponse_NOT_READY then
               bindP (sleep retry_delay) (\<lambda>_.
               bindP (en_on_validator (c_SendNewMsg Cv Message_CONSENSUS_REGISTER_REQUEST regRequestData)) (\<lambda>_.
                 register_polled pb Cv regRequestData (next_delay retry_delay) rs))
             else retP (Some (Inl (ReceiveError (''Registration failed with status: '' @
               EnumStringOf ConsensusRegisterResponse_Status_name status))))))"

text \<open>Every poll starts again with the initial delay.\<close>

fun register_poll ::
  "cons_pb \<Rightarrow> 'v Connection \<Rightarrow> bytes \<Rightarrow> (go_error + ready_socket list) list \<Rightarrow>
   (('v, 'w, 'x) engine, go_error + startupState option) proc" where
  "register_poll pb Cv regRequestData [] = (\<lambda>e. (Block, e))"
| "register_poll pb Cv regRequestData (Inl err # polls) = retP (Inl (ErrorString (''Polling failed: '' @ Error err)))"
| "register_poll pb Cv regRequestData (Inr polled # polls) =
    bindP (register_polled pb Cv regRequestData INITIAL_RETRY_DELAY polled) (\<lambda>res.
      case res of Some x \<Rightarrow> retP x | None \<Rightarrow> register_poll pb Cv regRequestData polls)"

definition Engine_register ::
  "cons_pb \<Rightarrow> 'v Connection \<Rightarrow> ConsensusEngineImpl \<Rightarrow> (go_error + ready_socket list) list \<Rightarrow>
   (('v, 'w, 'x) engine, go_error + startupState option) proc" where
  "Engine_register pb Cv impl polls =
    (case Marshal (cpRegisterRequest pb) \<lparr>ConsensusRegisterRequest_Name = impl_Name impl,
        ConsensusRegisterRequest_Version = impl_Version impl, ConsensusRegisterRequest_AdditionalProtocols = []\<rparr> of
       (_, Some err) \<Rightarrow> retP (Inl err)
     | (regRequestData, None) \<Rightarrow>
        bindP (en_on_validator (c_SendNewMsg Cv Message_CONSENSUS_REGISTER_REQUEST regRequestData)) (\<lambda>(_, err).
          case err of Some e \<Rightarrow> retP (Inl e) | None \<Rightarrow> register_poll pb Cv regRequestData polls))"

text \<open>Activation: the first message of the validator ends the wait.\<close>

fun waitUntilActive ::
  "cons_pb \<Rightarrow> 'v Connection \<Rightarrow> (go_error + ready_socket list) list \<Rightarrow> (('v, 'w, 'x) engine, go_error + startupState) proc" where
  "waitUntilActive pb Cv [] = (\<lambda>e. (Block, e))"
| "waitUntilActive pb Cv (Inl err # polls) = retP (Inl (ErrorString (''Polling failed: '' @ Error err)))"
| "waitUntilActive pb Cv (Inr [] # polls) = waitUntilActive pb Cv polls"
| "waitUntilActive pb Cv (Inr (ShutdownSocket # rs) # polls) =
    retP (Inl (ErrorString ''Received shutdown while waiting for activation''))"
| "waitUntilActive pb Cv (Inr (ValidatorSocket k # rs) # polls) =
    bindP (en_on_validator (c_RecvMsg Cv k)) (\<lambda>(_, msg, err).
      case err of
        Some e \<Rightarrow> retP (Inl e)
      | None \<Rightarrow>
         if GetMessageType msg \<noteq> Message_CONSENSUS_NOTIFY_ENGINE_ACTIVATED then
           retP (Inl (ReceiveError (''Received unexpected message type: '' @ Message_MessageType_String (GetMessageType msg))))
         else case Unmarshal (cpNotifyEngineActivated pb) (GetContent msg) of
           (_, Some e) \<Rightarrow> retP (Inl e)
         | (activationResponse, None) \<Rightarrow>
            (case Marshal (cpNotifyAck pb) ConsensusNotifyAck of
               (_, Some e) \<Rightarrow> retP (Inl e)
             | (regAckBytes, None) \<Rightarrow>
                bindP (en_on_validator (c_SendMsg Cv Message_CONSENSUS_NOTIFY_ACK regAckBytes (GetCorrelationId msg))) (\<lambda>err. retP
                  (case err of
                     Some e \<Rightarrow> Inl e
                   | None \<Rightarrow> Inr (newStartupStateFromProtos (ConsensusNotifyEngineActivated_ChainHead activationResponse)
                       (ConsensusNotifyEngineActivated_Peers activationResponse)
                       (ConsensusNotifyEngineActivated_LocalPeerInfo activationResponse))))))"

section \<open>Monitor, shutdown and the poll loop\<close>

definition Engine_receiveMonitor ::
  "'x Connection \<Rightarrow> int \<Rightarrow> go_error + int \<Rightarrow> (('v, 'w, 'x) engine, bool) proc" where
  "Engine_receiveMonitor Ctx EVENT_DISCONNECTED received =
    (case received of
       Inl err \<Rightarrow> retP False
     | Inr event \<Rightarrow>
        bindP (en_on_shutdown (c_SendData Ctx [] ''restart'')) (\<lambda>err. retP (event = EVENT_DISCONNECTED)))"

definition Engine_Shutdown :: "'x Connection option \<Rightarrow> (('v, 'w, 'x) engine, unit) proc" where
  "Engine_Shutdown shutdownTx =
    (case shutdownTx of
       None \<Rightarrow> retP ()
     | Some Ctx \<Rightarrow> bindP (en_on_shutdown (c_SendData Ctx [] ''shutdown'')) (\<lambda>err. retP ()))"

text \<open>The update that tells the implementation to stop: a pointer.\<close>

definition shutdown_update :: ConsensusUpdate where
  "shutdown_update = UpdateShutdown_pointer"

text \<open>
  \<open>Ci\<close> is the service's own end of its pair of sockets, which ZmqService.Shutdown closes; it is nil when
  the Start of the service has failed, and then its Close panics and nothing more is closed.
\<close>

definition performShutdown ::
  "'v Connection \<Rightarrow> 'w Connection \<Rightarrow> 'w Connection \<Rightarrow> 'x Connection \<Rightarrow> nat \<Rightarrow> (('v, 'w, 'x) engine, unit) proc" where
  "performShutdown Cv Cs Ci Crx taken =
    bindP (chan_send taken shutdown_update) (\<lambda>_.
    bindP (\<lambda>e. (Ret (), e\<lparr>en_closed := True\<rparr>)) (\<lambda>_.
    bindP (en_on_service (c_Close Ci)) (\<lambda>_.
    bindP (\<lambda>e. (Ret (), e\<lparr>en_monitor_closed := True\<rparr>)) (\<lambda>_.
    bindP (en_on_validator (c_Close Cv)) (\<lambda>_.
    bindP (en_on_service (c_Close Cs)) (\<lambda>_.
      en_on_shutdown (c_Close Crx)))))))"

definition Engine_receiveShutdown ::
  "'v Connection \<Rightarrow> 'w Connection \<Rightarrow> 'w Connection \<Rightarrow> 'x Connection \<Rightarrow> nat \<Rightarrow> (('v, 'w, 'x) engine, bool) proc" where
  "Engine_receiveShutdown Cv Cs Ci Crx taken =
    bindP (en_on_shutdown (c_RecvData Crx)) (\<lambda>(_, cmd, err).
      if cmd \<noteq> ''restart'' \<and> cmd \<noteq> ''shutdown'' then retP False
      else bindP (performShutdown Cv Cs Ci Crx taken) (\<lambda>_. retP (cmd = ''restart'')))"

text \<open>
  What the loop is told: a ready socket, a failure of the poll, and what the other thread has done:
  it has recorded or forgotten a correlation id.
\<close>

datatype engine_event =
    ReadyValidator nat | ReadyService | ReadyMonitor "go_error + int" | ReadyShutdown nat | EnginePollError go_error
  | IdRecorded string | IdForgotten string

fun engine_poll ::
  "cons_pb \<Rightarrow> 'v Connection \<Rightarrow> 'w Connection \<Rightarrow> 'w Connection \<Rightarrow> 'x Connection \<Rightarrow> 'x Connection \<Rightarrow> int \<Rightarrow> bool \<Rightarrow>
   engine_event list \<Rightarrow> (('v, 'w, 'x) engine, bool \<times> go_error option) proc" where
  "engine_poll pb Cv Cs Ci Ctx Crx disc restart [] = (\<lambda>e. (Block, e))"
| "engine_poll pb Cv Cs Ci Ctx Crx disc restart (ev # evs) =
    (case ev of
       EnginePollError err \<Rightarrow> retP (restart, Some (ErrorString (''Polling failed: '' @ Error err)))
     | ReadyValidator taken \<Rightarrow>
        bindP (Engine_receiveValidator pb Cv Cs taken) (\<lambda>_. engine_poll pb Cv Cs Ci Ctx Crx disc restart evs)
     | ReadyService \<Rightarrow>
        bindP (Engine_receiveService pb Cv Cs) (\<lambda>_. engine_poll pb Cv Cs Ci Ctx Crx disc restart evs)
     | ReadyMonitor received \<Rightarrow>
        bindP (Engine_receiveMonitor Ctx disc received) (\<lambda>restart'. engine_poll pb Cv Cs Ci Ctx Crx disc restart' evs)
     | ReadyShutdown taken \<Rightarrow>
        bindP (Engine_receiveShutdown Cv Cs Ci Crx taken) (\<lambda>restart'. retP (restart', None))
     | IdRecorded k \<Rightarrow> (\<lambda>e. engine_poll pb Cv Cs Ci Ctx Crx disc restart evs (e\<lparr>en_corrIds := insert k (en_corrIds e)\<rparr>))
     | IdForgotten k \<Rightarrow> (\<lambda>e. engine_poll pb Cv Cs Ci Ctx Crx disc restart evs (e\<lparr>en_corrIds := en_corrIds e - {k}\<rparr>)))"

text \<open>
  One run of start.  How the ends of the two pairs of sockets are linked inside the ZMQ library is
  given by \<open>service_pair\<close> and \<open>shutdown_pair\<close>; an error in creating the sending end for shutdown
  is ignored by the source.  The service is started after the registration: its end of the pair,
  whose making always returns, is made earlier here, and nothing reads it before.  The result has the startup state with which the implementation is
  started, if it gets that far.
\<close>

record 'p engine_input =
  ei_context :: "'p zmq_context"
  ei_uuid :: "nat \<Rightarrow> nat \<Rightarrow> string"
  ei_registration :: "(go_error + ready_socket list) list"
  ei_activation :: "(go_error + ready_socket list) list"
  ei_events :: "engine_event list"

definition startup_of ::
  "cons_pb \<Rightarrow> 'v Connection \<Rightarrow> ConsensusEngineImpl \<Rightarrow> (go_error + ready_socket list) list \<Rightarrow> (go_error + ready_socket list) list \<Rightarrow>
   (('v, 'w, 'x) engine, go_error + startupState) proc" where
  "startup_of pb Cv impl registration activation =
    (let who = '' ('' @ impl_Name impl @ '', '' @ impl_Version impl @ ''): '' in
     bindP (Engine_register pb Cv impl registration) (\<lambda>res.
       case res of
         Inl err \<Rightarrow> retP (Inl (ErrorString (''Error registering engine'' @ who @ Error err)))
       | Inr (Some st) \<Rightarrow> retP (Inr st)
       | Inr None \<Rightarrow>
          bindP (waitUntilActive pb Cv activation) (\<lambda>res. retP
            (case res of
               Inl err \<Rightarrow> Inl (ErrorString (''Error waiting for engine activation'' @ who @ Error err))
             | Inr st \<Rightarrow> Inr st))))"

definition Engine_start ::
  "cons_pb \<Rightarrow> zmq_constants \<Rightarrow> ('p ZmqConnection \<Rightarrow> 'p ZmqConnection ZmqService \<Rightarrow> 'w) \<Rightarrow>
   ('p ZmqConnection \<Rightarrow> (go_error + 'p ZmqConnection) \<Rightarrow> 'x) \<Rightarrow> 'w Connection \<Rightarrow> 'w Connection \<Rightarrow> 'x Connection \<Rightarrow> 'x Connection \<Rightarrow>
   ConsensusEngine \<Rightarrow> 'p engine_input \<Rightarrow> (bool \<times> go_error option) outcome \<times> startupState option" where
  "Engine_start pb Z service_pair shutdown_pair Cs Ci Ctx Crx self inp =
    (let ctx = ei_context inp; C = zmq_Connection (cpMessage pb);
         fail = (\<lambda>what err. (Ret (False, Some (ErrorString (what @ Error err))), None)) in
     case NewConnection ctx (ei_uuid inp 0) 0 (z_DEALER Z) (ce_uri self) False of
       Inl err \<Rightarrow> fail ''Could not connect to validator: '' err
     | Inr validator \<Rightarrow>
    (case Monitor ctx (z_EVENT_DISCONNECTED Z) validator of
       (Panic e, _) \<Rightarrow> (Panic e, None)
     | (Block, _) \<Rightarrow> (Block, None)
     | (Ret (Inl err), _) \<Rightarrow> fail ''Could not monitor validator connection: '' err
     | (Ret (Inr monitor), validator) \<Rightarrow>
    (case NewConnection ctx (ei_uuid inp 1) 0 (zc_PAIR ctx) ''inproc://service'' True of
       Inl err \<Rightarrow> fail ''Could not create service router: '' err
     | Inr service \<Rightarrow>
    (case NewConnection ctx (ei_uuid inp 2) 0 (zc_PAIR ctx) ''inproc://shutdown'' True of
       Inl err \<Rightarrow> fail ''Could not create shutdown connection: '' err
     | Inr shutdownRx \<Rightarrow>
       (let shutdownTx = NewConnection ctx (ei_uuid inp 3) 0 (zc_PAIR ctx) ''inproc://shutdown'' False;
            zservice = snd (ZmqService_Start ctx (ei_uuid inp 4) (NewZmqService ''inproc://service'')) in
        case startup_of pb C (ce_impl self) (ei_registration inp) (ei_activation inp)
          \<lparr>en_validator = validator, en_service = service_pair service zservice, en_shutdown = shutdown_pair shutdownRx shutdownTx,
           en_corrIds = {}, en_updates = [], en_closed = False, en_slept = [], en_monitor_closed = False\<rparr> of
          (Panic e, _) \<Rightarrow> (Panic e, None)
        | (Block, _) \<Rightarrow> (Block, None)
        | (Ret (Inl err), _) \<Rightarrow> (Ret (False, Some err), None)
        | (Ret (Inr st), e) \<Rightarrow>
           (fst (engine_poll pb C Cs Ci Ctx Crx (z_EVENT_DISCONNECTED Z) False (ei_events inp) e), Some st))))))"

fun Engine_Start ::
  "cons_pb \<Rightarrow> zmq_constants \<Rightarrow> ('p ZmqConnection \<Rightarrow> 'p ZmqConnection ZmqService \<Rightarrow> 'w) \<Rightarrow>
   ('p ZmqConnection \<Rightarrow> (go_error + 'p ZmqConnection) \<Rightarrow> 'x) \<Rightarrow> 'w Connection \<Rightarrow> 'w Connection \<Rightarrow> 'x Connection \<Rightarrow> 'x Connection \<Rightarrow>
   ConsensusEngine \<Rightarrow> (go_error + 'p engine_input) list \<Rightarrow> go_error option outcome" where
  "Engine_Start pb Z svp shp Cs Ci Ctx Crx self [] = Block"
| "Engine_Start pb Z svp shp Cs Ci Ctx Crx self (Inl err # inps) = Panic (''Failed to create ZMQ context: '' @ Error err)"
| "Engine_Start pb Z svp shp Cs Ci Ctx Crx self (Inr inp # inps) =
    (case fst (Engine_start pb Z svp shp Cs Ci Ctx Crx self inp) of
       Ret (reconnect, Some err) \<Rightarrow> Ret (Some err)
     | Ret (reconnect, None) \<Rightarrow> if reconnect then Engine_Start pb Z svp shp Cs Ci Ctx Crx self inps else Ret None
     | Panic e \<Rightarrow> Panic e
     | Block \<Rightarrow> Block)"

section \<open>Facts about the parts\<close>

lemma slept_on_validator: "en_on_validator m e = (r, e') \<Longrightarrow> en_slept e' = en_slept e"
  by (auto simp: en_on_validator_def split: prod.splits)

definition is_validator_socket :: "ready_socket \<Rightarrow> bool" where
  "is_validator_socket r \<longleftrightarrow> (case r of ValidatorSocket _ \<Rightarrow> True | ShutdownSocket \<Rightarrow> False)"

text \<open>Without a ready validator socket no time is slept; with one, at most one delay.\<close>

lemma register_polled_quiet:
  "filter is_validator_socket rs = [] \<Longrightarrow> register_polled pb Cv q d rs e = (r, e') \<Longrightarrow> e' = e"
  by (cases rs rule: remdups_adj.cases; cases "hd rs") (auto simp: is_validator_socket_def split: if_splits)

lemma register_polled_slept:
  assumes "length (filter is_validator_socket rs) \<le> 1" "register_polled pb Cv q d rs e = (r, e')"
  shows "en_slept e' = en_slept e \<or> en_slept e' = en_slept e @ [d]"
proof (cases rs)
  case (Cons s rs')
  show ?thesis
  proof (cases s)
    case (ValidatorSocket k)
    with assms(1) Cons have quiet: "filter is_validator_socket rs' = []"
      by (simp add: is_validator_socket_def)
    obtain x e1 where rd: "en_on_validator (c_RecvMsg Cv k) e = (x, e1)" by (cases "en_on_validator (c_RecvMsg Cv k) e")
    obtain y e2 where sd: "en_on_validator (c_SendNewMsg Cv Message_CONSENSUS_REGISTER_REQUEST q) (e1\<lparr>en_slept := en_slept e1 @ [d]\<rparr>) = (y, e2)"
      by (cases "en_on_validator (c_SendNewMsg Cv Message_CONSENSUS_REGISTER_REQUEST q) (e1\<lparr>en_slept := en_slept e1 @ [d]\<rparr>)")
    note sl = slept_on_validator [OF rd] slept_on_validator [OF sd]
    show ?thesis
      using assms(2) Cons ValidatorSocket rd sd sl register_polled_quiet [OF quiet, of pb Cv q "next_delay d" e2]
      by (auto simp: bindP_def sleep_def Let_def split: outcome.splits prod.splits option.splits if_splits)
  qed (use assms(2) Cons in auto)
qed (use assms(2) in auto)

lemma register_poll_slept:
  assumes "\<forall>rs. Inr rs \<in> set polls \<longrightarrow> length (filter is_validator_socket rs) \<le> 1"
    and "register_poll pb Cv q polls e = (r, e')"
  shows "\<exists>n. en_slept e' = en_slept e @ replicate n INITIAL_RETRY_DELAY"
  using assms
proof (induction polls arbitrary: e)
  case Nil
  then show ?case by (auto intro: exI [of _ 0])
next
  case (Cons p polls)
  show ?case
  proof (cases p)
    case (Inl err)
    with Cons.prems show ?thesis by (auto intro: exI [of _ 0])
  next
    case (Inr rs)
    obtain r1 e1 where 1: "register_polled pb Cv q INITIAL_RETRY_DELAY rs e = (r1, e1)"
      by (cases "register_polled pb Cv q INITIAL_RETRY_DELAY rs e")
    have "length (filter is_validator_socket rs) \<le> 1" using Cons.prems(1) Inr by simp
    from register_polled_slept [OF this 1] obtain k where k: "en_slept e1 = en_slept e @ replicate k INITIAL_RETRY_DELAY"
      by (metis append_Nil2 replicate_0 replicate_Suc)
    show ?thesis
    proof (cases "r1 = Ret None")
      case True
      with Cons.prems(2) Inr 1 have "register_poll pb Cv q polls e1 = (r, e')" by simp
      with Cons.IH [of e1] Cons.prems(1) obtain n where "en_slept e' = en_slept e1 @ replicate n INITIAL_RETRY_DELAY" by auto
      with k show ?thesis by (auto simp: replicate_add [symmetric] intro: exI [of _ "k + n"])
    next
      case False
      with Cons.prems(2) Inr 1 have "e' = e1" by (auto simp: bindP_def split: outcome.splits option.splits)
      with k show ?thesis by blast
    qed
  qed
qed

lemma register_polled_wf:
  "register_polled pb Cv q d rs e = (Ret (Some (Inr (Some st))), e') \<Longrightarrow> startup_wf st"
  by (induction pb Cv q d rs arbitrary: e rule: register_polled.induct)
    (auto simp: bindP_def Let_def split: outcome.splits prod.splits option.splits if_splits)

lemma register_poll_wf: "register_poll pb Cv q polls e = (Ret (Inr (Some st)), e') \<Longrightarrow> startup_wf st"
  by (induction pb Cv q polls arbitrary: e rule: register_poll.induct)
    (auto simp: bindP_def split: outcome.splits prod.splits option.splits dest: register_polled_wf)

lemma waitUntilActive_wf: "waitUntilActive pb Cv polls e = (Ret (Inr st), e') \<Longrightarrow> startup_wf st"
  by (induction pb Cv polls arbitrary: e rule: waitUntilActive.induct)
    (auto simp: bindP_def split: outcome.splits prod.splits option.splits if_splits)

lemma startup_of_wf: "startup_of pb Cv impl regs acts e = (Ret (Inr st), e') \<Longrightarrow> startup_wf st"
  by (auto simp: startup_of_def Engine_register_def Let_def bindP_def
      split: outcome.splits prod.splits option.splits sum.splits dest: register_poll_wf waitUntilActive_wf)

lemma update_of_wf: "update_of pb msg = Ret (Some u) \<Longrightarrow> update_wf u \<and> u \<notin> {UpdateShutdown, UpdateShutdown_pointer}"
  by (auto simp: update_of_def Let_def split: if_splits prod.splits option.splits outcome.splits)

section \<open>Properties\<close>

text \<open>
  C29: everything an implementation is given is well typed.  Every update put on the channel for a
  notification, and the startup state of the registration or the activation, carries only normal
  identifiers: null or with a non-zero byte, never the all-zero identifiers the validator uses on
  the wire for null; and no notification is turned into a shutdown.
\<close>

theorem engine_values_normal:
  "(update_of pb msg = Ret (Some u) \<longrightarrow> update_wf u \<and> u \<notin> {UpdateShutdown, UpdateShutdown_pointer}) \<and>
   (startup_of pb Cv impl regs acts e = (Ret (Inr st), e') \<longrightarrow> startup_wf st)"
  using update_of_wf startup_of_wf by blast

definition demo_notice :: "Message" where
  "demo_notice = \<lparr>Message_MessageType = Message_CONSENSUS_NOTIFY_BLOCK_COMMIT, Message_CorrelationId = ''k'',
     Message_Content = fst (Marshal unary_codec \<lparr>ConsensusNotifyBlockCommit_BlockId = [CHR 0x00, CHR 0x00]\<rparr>)\<rparr>"

lemma demo_notice_update: "update_of unary_cons_pb demo_notice = Ret (Some (UpdateBlockCommit BLOCK_ID_NULL))"
  by (simp add: update_of_def demo_notice_def NewBlockIdFromBytes_def isSliceOfZeroes_def)

lemma engine_values_normal_witness:
  "update_of unary_cons_pb demo_notice = Ret (Some (UpdateBlockCommit BLOCK_ID_NULL)) \<and> update_wf (UpdateBlockCommit BLOCK_ID_NULL)"
  using engine_values_normal demo_notice_update by blast

text \<open>
  A notification is delivered once and acknowledged.  When the channel has room, the update of
  a notification is appended to it and exactly one acknowledgement with the notification's
  correlation id is sent; a notification that cannot be decoded is acknowledged as well, although
  the implementation never sees it.  The channel never holds more than two updates.
\<close>

theorem notification_delivered:
  assumes "Unmarshal (cpMessage pb) d = (m, None)" "is_notification (Message_MessageType m)"
    and "Marshal (cpNotifyAck pb) ConsensusNotifyAck = (ack, None)"
    and "\<not> en_closed e" "length (drop taken (en_updates e)) < 2"
  shows "(update_of pb m = Ret (Some u) \<longrightarrow>
      engine_route pb Cv Cs taken d e =
        bindP (en_on_validator (c_SendMsg Cv Message_CONSENSUS_NOTIFY_ACK ack (Message_CorrelationId m))) (\<lambda>err. retP ())
          (e\<lparr>en_updates := drop taken (en_updates e) @ [u]\<rparr>) \<and>
      length (drop taken (en_updates e) @ [u]) \<le> 2) \<and>
    (update_of pb m = Ret None \<longrightarrow>
      engine_route pb Cv Cs taken d e =
        bindP (en_on_validator (c_SendMsg Cv Message_CONSENSUS_NOTIFY_ACK ack (Message_CorrelationId m))) (\<lambda>err. retP ()) e)"
  using assms by (auto simp: engine_route_def LoadMsg_def handleUpdate_def chan_send_def)

definition demo_engine :: "(unit ZmqConnection, unit ZmqConnection, unit ZmqConnection) engine" where
  "demo_engine = \<lparr>en_validator = demo_inflight, en_service = demo_inflight, en_shutdown = demo_inflight,
     en_corrIds = {''7''}, en_updates = [], en_closed = False, en_slept = [], en_monitor_closed = False\<rparr>"

lemma notification_delivered_witness:
  "engine_route unary_cons_pb (zmq_Connection unary_codec) (zmq_Connection unary_codec) 0 (fst (Marshal unary_codec demo_notice)) demo_engine =
    bindP (en_on_validator (c_SendMsg (zmq_Connection unary_codec) Message_CONSENSUS_NOTIFY_ACK (fst (Marshal unary_codec ConsensusNotifyAck)) ''k''))
      (\<lambda>err. retP ()) (demo_engine\<lparr>en_updates := [UpdateBlockCommit BLOCK_ID_NULL]\<rparr>)"
proof -
  have "Unmarshal (cpMessage unary_cons_pb) (fst (Marshal unary_codec demo_notice)) = (demo_notice, None)" by simp
  moreover have "is_notification (Message_MessageType demo_notice)" "Message_CorrelationId demo_notice = ''k''"
    by (simp_all add: demo_notice_def is_notification_def)
  moreover have "Marshal (cpNotifyAck unary_cons_pb) ConsensusNotifyAck = (fst (Marshal unary_codec ConsensusNotifyAck), None)"
    by (simp add: unary_codec_def)
  moreover have "\<not> en_closed demo_engine" "length (drop 0 (en_updates demo_engine)) < 2" "en_updates demo_engine = []"
    by (simp_all add: demo_engine_def)
  ultimately show ?thesis
    using notification_delivered [of unary_cons_pb _ demo_notice _ demo_engine 0 "UpdateBlockCommit BLOCK_ID_NULL"
        "zmq_Connection unary_codec" "zmq_Connection unary_codec"] demo_notice_update by auto
qed

text \<open>
  A notification of a connected peer that carries no peer info ends the engine: the main loop
  panics, since nothing recovers from the nil dereference, and no acknowledgement is sent.
\<close>

theorem peer_connected_without_info_panics:
  assumes "c_RecvData Cv (en_validator e) = (Ret (i, d, None), v)" "Unmarshal (cpMessage pb) d = (m, None)"
    and "Message_MessageType m = Message_CONSENSUS_NOTIFY_PEER_CONNECTED"
    and "Unmarshal (cpNotifyPeerConnected pb) (Message_Content m) = (\<lparr>ConsensusNotifyPeerConnected_PeerInfo = None\<rparr>, None)"
  shows "engine_poll pb Cv Cs Ci Ctx Crx disc restart (ReadyValidator taken # evs) e =
    (Panic ''nil pointer dereference'', e\<lparr>en_validator := v\<rparr>)"
  using assms
  by (simp add: Engine_receiveValidator_def en_on_validator_def engine_route_def LoadMsg_def is_notification_def
      handleUpdate_def update_of_def)


definition demo_bad_notice :: "Message" where
  "demo_bad_notice = \<lparr>Message_MessageType = Message_CONSENSUS_NOTIFY_PEER_CONNECTED, Message_CorrelationId = ''k'',
     Message_Content = fst (Marshal unary_codec \<lparr>ConsensusNotifyPeerConnected_PeerInfo = None\<rparr>)\<rparr>"

lemma peer_connected_without_info_panics_witness:
  "engine_poll unary_cons_pb (zmq_Connection unary_codec) (zmq_Connection unary_codec) (zmq_Connection unary_codec)
      (zmq_Connection unary_codec) (zmq_Connection unary_codec) 512 False [ReadyValidator 0]
      (demo_engine\<lparr>en_validator := set_inbox [Inr [fst (Marshal unary_codec demo_bad_notice)]] demo_inflight\<rparr>) =
    (Panic ''nil pointer dereference'', demo_engine\<lparr>en_validator := set_inbox [] demo_inflight\<rparr>)"
proof -
  let ?d = "fst (Marshal unary_codec demo_bad_notice)"
  let ?e = "demo_engine\<lparr>en_validator := set_inbox [Inr [?d]] demo_inflight\<rparr>"
  have 1: "c_RecvData (zmq_Connection unary_codec) (en_validator ?e) = (Ret ([], ?d, None), set_inbox [] demo_inflight)"
    by (simp add: zmq_Connection_def RecvData_def RecvMessage_def demo_inflight_def)
  have 2: "Unmarshal (cpMessage unary_cons_pb) ?d = (demo_bad_notice, None)" by simp
  have 3: "Message_MessageType demo_bad_notice = Message_CONSENSUS_NOTIFY_PEER_CONNECTED"
    "Unmarshal (cpNotifyPeerConnected unary_cons_pb) (Message_Content demo_bad_notice) = (\<lparr>ConsensusNotifyPeerConnected_PeerInfo = None\<rparr>, None)"
    by (simp_all add: demo_bad_notice_def)
  show ?thesis
    using peer_connected_without_info_panics [OF 1 2 3, of "zmq_Connection unary_codec" "zmq_Connection unary_codec"
        "zmq_Connection unary_codec" "zmq_Connection unary_codec" 512 False 0 "[]"] by (simp del: engine_poll.simps)
qed

text \<open>
  The delay between registration attempts never grows.  As long as a poll reports the validator
  socket at most once, which is what a poll of two sockets does, every delay that register sleeps
  after a not-ready answer is the initial 100 ms, however many answers there are: the delay is
  reset at every poll, so the doubling up to three seconds has no effect.
\<close>

theorem register_never_backs_off:
  assumes "\<forall>rs. Inr rs \<in> set polls \<longrightarrow> length (filter is_validator_socket rs) \<le> 1"
    and "Engine_register pb Cv impl polls e = (r, e')"
  shows "\<exists>n. en_slept e' = en_slept e @ replicate n INITIAL_RETRY_DELAY"
proof -
  obtain b err where b: "Marshal (cpRegisterRequest pb) \<lparr>ConsensusRegisterRequest_Name = impl_Name impl,
        ConsensusRegisterRequest_Version = impl_Version impl, ConsensusRegisterRequest_AdditionalProtocols = []\<rparr> = (b, err)"
    by (cases "Marshal (cpRegisterRequest pb) \<lparr>ConsensusRegisterRequest_Name = impl_Name impl,
        ConsensusRegisterRequest_Version = impl_Version impl, ConsensusRegisterRequest_AdditionalProtocols = []\<rparr>")
  obtain x e1 where 1: "en_on_validator (c_SendNewMsg Cv Message_CONSENSUS_REGISTER_REQUEST b) e = (x, e1)"
    by (cases "en_on_validator (c_SendNewMsg Cv Message_CONSENSUS_REGISTER_REQUEST b) e")
  have "(\<exists>r. register_poll pb Cv b polls e1 = (r, e')) \<or> e' = e1 \<or> e' = e"
    using assms(2) b 1 by (auto simp: Engine_register_def bindP_def split: option.splits outcome.splits)
  then show ?thesis
    using register_poll_slept [OF assms(1), of pb Cv b e1] slept_on_validator [OF 1] by (auto intro: exI [of _ 0])
qed

text \<open>A validator that is not ready twice.\<close>

definition demo_not_ready :: "unit ZmqConnection" where
  "demo_not_ready = demo_inflight\<lparr>conn_incoming := [], conn_socket := (conn_socket demo_inflight)\<lparr>sk_inbox := [],
     sk_deliver := (\<lambda>p frs. (p, [Inr [fst (Marshal unary_codec \<lparr>Message_MessageType = Message_CONSENSUS_REGISTER_RESPONSE,
       Message_CorrelationId = [], Message_Content = fst (Marshal unary_codec
         \<lparr>ConsensusRegisterResponse_Status = ConsensusRegisterResponse_NOT_READY, ConsensusRegisterResponse_ChainHead = None,
          ConsensusRegisterResponse_Peers = [], ConsensusRegisterResponse_LocalPeerInfo = None\<rparr>)\<rparr>)]], None))\<rparr>\<rparr>"

lemma register_never_backs_off_witness:
  "\<exists>n. en_slept (snd (Engine_register unary_cons_pb (zmq_Connection unary_codec) \<lparr>impl_Name = ''Devmode'', impl_Version = ''0.1''\<rparr>
      [Inr [ValidatorSocket 0], Inr [ValidatorSocket 0], Inr [ShutdownSocket]] (demo_engine\<lparr>en_validator := demo_not_ready\<rparr>))) =
    replicate n INITIAL_RETRY_DELAY"
proof -
  let ?polls = "[Inr [ValidatorSocket 0], Inr [ValidatorSocket 0], Inr [ShutdownSocket]] :: (go_error + ready_socket list) list"
  have "\<forall>rs. Inr rs \<in> set ?polls \<longrightarrow> length (filter is_validator_socket rs) \<le> 1" by (simp add: is_validator_socket_def)
  from register_never_backs_off [OF this prod.collapse [symmetric]] show ?thesis
    by (metis append_Nil demo_engine_def engine.select_convs(7) engine.surjective engine.update_convs(1))
qed

text \<open>
  A response is forwarded to the service only if its correlation id is already recorded.  The
  service records the id after it has sent the request, in another thread: a response that the
  main loop handles in between is dropped and nothing of it reaches the service; when the id is
  recorded first, the same response is passed on.
\<close>

theorem response_before_record_is_lost:
  assumes "Unmarshal (cpMessage pb) d = (m, None)" "Message_CorrelationId m = k" "k \<noteq> []"
    and "\<not> is_notification (Message_MessageType m)" "Message_MessageType m \<noteq> Message_PING_REQUEST"
    and "c_RecvData Cv (en_validator e) = (Ret (i, d, None), v)"
    and "k \<notin> en_corrIds e"
    and "c_SendData Cs [] d (en_service e) = (Ret None, w)"
  shows "engine_poll pb Cv Cs Ci Ctx Crx disc restart (ReadyValidator taken # IdRecorded k # evs) e =
      engine_poll pb Cv Cs Ci Ctx Crx disc restart evs (e\<lparr>en_validator := v, en_corrIds := insert k (en_corrIds e)\<rparr>) \<and>
    engine_poll pb Cv Cs Ci Ctx Crx disc restart (IdRecorded k # ReadyValidator taken # evs) e =
      engine_poll pb Cv Cs Ci Ctx Crx disc restart evs
        (e\<lparr>en_corrIds := insert k (en_corrIds e), en_validator := v, en_service := w\<rparr>)"
  using assms
  by (simp add: Engine_receiveValidator_def en_on_validator_def en_on_service_def engine_route_def LoadMsg_def bindP_def)

definition demo_answer :: "bytes" where
  "demo_answer = fst (Marshal unary_codec (demo_msg ''k'' ''x''))"

lemma response_before_record_is_lost_witness:
  "\<exists>w. engine_poll unary_cons_pb (zmq_Connection unary_codec) (zmq_Connection unary_codec) (zmq_Connection unary_codec)
      (zmq_Connection unary_codec) (zmq_Connection unary_codec) 512 False [ReadyValidator 0, IdRecorded ''k'']
      (demo_engine\<lparr>en_validator := set_inbox [Inr [demo_answer]] demo_inflight\<rparr>) =
    (Block, w) \<and> en_service w = demo_inflight"
proof -
  let ?C = "zmq_Connection unary_codec :: unit ZmqConnection Connection"
  let ?e = "demo_engine\<lparr>en_validator := set_inbox [Inr [demo_answer]] demo_inflight\<rparr>"
  have "c_RecvData ?C (en_validator ?e) = (Ret ([], demo_answer, None), set_inbox [] demo_inflight)"
    by (simp add: zmq_Connection_def RecvData_def RecvMessage_def demo_inflight_def)
  moreover have "c_SendData ?C [] demo_answer (en_service ?e) = (Ret None, demo_inflight)"
    by (simp add: zmq_Connection_def SendData_def SendMessage_def demo_engine_def demo_inflight_def)
  moreover have "Unmarshal (cpMessage unary_cons_pb) demo_answer = (demo_msg ''k'' ''x'', None)" by (simp add: demo_answer_def)
  moreover have "Message_CorrelationId (demo_msg ''k'' ''x'') = ''k''" "\<not> is_notification (Message_MessageType (demo_msg ''k'' ''x''))"
    "Message_MessageType (demo_msg ''k'' ''x'') \<noteq> Message_PING_REQUEST" "''k'' \<notin> en_corrIds ?e" "en_service ?e = demo_inflight"
    by (simp_all add: demo_msg_def is_notification_def demo_engine_def)
  ultimately show ?thesis
    using response_before_record_is_lost [of unary_cons_pb demo_answer "demo_msg ''k'' ''x''" "''k''" ?C ?e "[]" _ ?C _ ?C ?C ?C 512 False 0 "[]"]
    by auto
qed

end
