(* ===== verification/Signing.thy ===== *)
theory Signing
  imports Go_Errors Sha2
begin

text \<open>
  signing/core.go, signing/secp256k1.go and signing/pem_loader.go: keys, the signing context over
  secp256k1 with its compact signature encoding, signers and the crypto factory.

  The elliptic curve library (btcsuite/btcd/btcec) is not part of the sources: the record
  \<open>ellcurv\<close> holds the functions the package calls, and \<open>ecdsa_ok\<close> what its documentation
  promises of them.  The C function load_pem_key is a parameter too.  SHA-256 is the executable
  definition of Sha2; math/big, make, append and slicing are modelled here.
\<close>

section \<open>math/big: bytes of a number\<close>

text \<open>Int.Bytes: the absolute value, big-endian, without leading zeros; Int.SetBytes reads it back.\<close>

fun nat_Bytes :: "nat \<Rightarrow> bytes" where
  "nat_Bytes n = (if n = 0 then [] else nat_Bytes (n div 256) @ [char_of (n mod 256)])"

declare nat_Bytes.simps [simp del]

definition big_Bytes :: "int \<Rightarrow> bytes" where
  "big_Bytes i = nat_Bytes (nat \<bar>i\<bar>)"

definition nat_SetBytes :: "bytes \<Rightarrow> nat" where
  "nat_SetBytes b = foldl (\<lambda>n c. 256 * n + of_char c) 0 b"

definition SetBytes :: "bytes \<Rightarrow> int" where
  "SetBytes b = int (nat_SetBytes b)"

lemma nat_SetBytes_Nil [simp]: "nat_SetBytes [] = 0"
  by (simp add: nat_SetBytes_def)

lemma nat_SetBytes_snoc [simp]: "nat_SetBytes (b @ [c]) = 256 * nat_SetBytes b + of_char c"
  by (simp add: nat_SetBytes_def)

lemma nat_SetBytes_Bytes [simp]: "nat_SetBytes (nat_Bytes n) = n"
proof (induction n rule: nat_Bytes.induct)
  case (1 n)
  then show ?case by (subst nat_Bytes.simps) auto
qed

lemma nat_SetBytes_zeros [simp]: "nat_SetBytes (replicate k (CHR 0x00) @ b) = nat_SetBytes b"
  by (induction k) (simp_all add: nat_SetBytes_def)

lemma of_char_less_256: "(of_char c :: nat) < 256"
  by simp

lemma nat_SetBytes_less: "nat_SetBytes b < 256 ^ length b"
proof (induction b rule: rev_induct)
  case (snoc c b)
  have "256 * nat_SetBytes b + of_char c < 256 * 256 ^ length b"
    using snoc of_char_less_256 [of c] by linarith
  then show ?case by simp
qed simp

lemma length_nat_Bytes: "length (nat_Bytes n) \<le> k \<longleftrightarrow> n < 256 ^ k"
proof (induction n arbitrary: k rule: nat_Bytes.induct)
  case (1 n)
  show ?case
  proof (cases "n = 0 \<or> k = 0")
    case True
    then show ?thesis by (subst nat_Bytes.simps) auto
  next
    case False
    then obtain j where j: "k = Suc j" by (cases k) auto
    have "n div 256 < 256 ^ j \<longleftrightarrow> n < 256 ^ j * 256" by (rule div_less_iff_less_mult) simp
    with 1 [of j] False j show ?thesis by (subst nat_Bytes.simps) (simp add: mult.commute)
  qed
qed

text \<open>Equal length makes the reading injective: a number has one encoding of a given length.\<close>

lemma nat_SetBytes_inj: "length a = length b \<Longrightarrow> nat_SetBytes a = nat_SetBytes b \<Longrightarrow> a = b"
proof (induction a arbitrary: b rule: rev_induct)
  case (snoc c a)
  then obtain d b' where b: "b = b' @ [d]" by (cases b rule: rev_cases) auto
  have eq: "256 * nat_SetBytes a + of_char c = 256 * nat_SetBytes b' + (of_char d :: nat)"
    using snoc.prems(2) b by simp
  have "nat_SetBytes a = nat_SetBytes b'"
    using eq of_char_less_256 [of c] of_char_less_256 [of d] by linarith
  with eq snoc b show ?case by simp
qed simp

section \<open>The compact encoding of a signature\<close>

text \<open>ellcurv.Signature.\<close>

record ec_Signature =
  sig_R :: int
  sig_S :: int

text \<open>The loop of pad: the counter \<open>i\<close> and the zeros appended so far.\<close>

function pad_zeros :: "int \<Rightarrow> int \<Rightarrow> bytes \<Rightarrow> bytes" where
  "pad_zeros i padLength newbuf = (if i < padLength then pad_zeros (i + 1) padLength (newbuf @ [CHR 0x00]) else newbuf)"
  by pat_completeness auto
termination
  by (relation "measure (\<lambda>(i, padLength, newbuf). nat (padLength - i))") auto

declare pad_zeros.simps [simp del]

definition pad :: "bytes \<Rightarrow> int \<Rightarrow> bytes" where
  "pad buf sz =
    (let padLength = sz - int (length buf) in pad_zeros 0 padLength [] @ buf)"

definition serializeCompact :: "ec_Signature \<Rightarrow> bytes outcome" where
  "serializeCompact sig =
    (let rbytes = pad (big_Bytes (sig_R sig)) 32;
         sbytes = pad (big_Bytes (sig_S sig)) 32;
         b = [] @ rbytes @ sbytes
     in if length b \<noteq> 64 then Panic ''Invalid signature length'' else Ret b)"

text \<open>
  A slice shorter than 32 bytes panics: \<open>b[:32]\<close> may still succeed when the capacity is larger,
  \<open>b[32:]\<close> then does not.
\<close>

definition deserializeCompact :: "bytes \<Rightarrow> ec_Signature outcome" where
  "deserializeCompact b =
    (case (slice_to b 32, slice_from b 32) of
       (Some r, Some s) \<Rightarrow> Ret \<lparr>sig_R = SetBytes r, sig_S = SetBytes s\<rparr>
     | _ \<Rightarrow> Panic ''slice bounds out of range'')"

lemma pad_zeros_replicate: "pad_zeros i n b = b @ replicate (nat (n - i)) (CHR 0x00)"
proof (induction i n b rule: pad_zeros.induct)
  case (1 i n b)
  show ?case
  proof (cases "i < n")
    case True
    then have "nat (n - i) = Suc (nat (n - (i + 1)))" by linarith
    with 1 True show ?thesis by (subst pad_zeros.simps) simp
  qed (subst pad_zeros.simps, simp)
qed

lemma pad_replicate: "pad b n = replicate (nat (n - int (length b))) (CHR 0x00) @ b"
  by (simp add: pad_def pad_zeros_replicate)

lemma length_pad: "length (pad b n) = max (length b) (nat n)"
  by (auto simp: pad_replicate)

lemma SetBytes_pad [simp]: "SetBytes (pad b n) = SetBytes b"
  by (simp add: pad_replicate SetBytes_def)

lemma SetBytes_Bytes [simp]: "SetBytes (big_Bytes i) = \<bar>i\<bar>"
  by (simp add: SetBytes_def big_Bytes_def)

lemma SetBytes_zeros [simp]: "SetBytes (replicate k (CHR 0x00) @ b) = SetBytes b"
  by (simp add: SetBytes_def)

lemma SetBytes_bounds: "0 \<le> SetBytes b" "SetBytes b < 256 ^ length b"
  using nat_SetBytes_less [of b] by (simp_all add: SetBytes_def flip: of_nat_less_iff)

lemma SetBytes_inj: "length a = length b \<Longrightarrow> SetBytes a = SetBytes b \<Longrightarrow> a = b"
  by (simp add: SetBytes_def nat_SetBytes_inj)

lemma length_pad_Bytes: "length (pad (big_Bytes i) 32) = 32 \<longleftrightarrow> \<bar>i\<bar> < 2 ^ 256"
proof -
  have "length (pad (big_Bytes i) 32) = 32 \<longleftrightarrow> nat \<bar>i\<bar> < 256 ^ 32"
    using length_nat_Bytes [of "nat \<bar>i\<bar>" 32] by (auto simp: length_pad big_Bytes_def max_def)
  also have "\<dots> \<longleftrightarrow> \<bar>i\<bar> < 2 ^ 256"
    by (simp add: nat_less_iff)
  finally show ?thesis .
qed

lemma length_pad_ge: "32 \<le> length (pad b 32)"
  by (simp add: length_pad)

lemma serializeCompact_cases:
  "serializeCompact sig =
    (if \<bar>sig_R sig\<bar> < 2 ^ 256 \<and> \<bar>sig_S sig\<bar> < 2 ^ 256
     then Ret (pad (big_Bytes (sig_R sig)) 32 @ pad (big_Bytes (sig_S sig)) 32)
     else Panic ''Invalid signature length'')"
proof -
  have "length (pad (big_Bytes (sig_R sig)) 32) + length (pad (big_Bytes (sig_S sig)) 32) = 64 \<longleftrightarrow>
      length (pad (big_Bytes (sig_R sig)) 32) = 32 \<and> length (pad (big_Bytes (sig_S sig)) 32) = 32"
    using length_pad_ge [of "big_Bytes (sig_R sig)"] length_pad_ge [of "big_Bytes (sig_S sig)"] by linarith
  then show ?thesis by (simp add: serializeCompact_def Let_def length_pad_Bytes)
qed

lemma deserializeCompact_append [simp]:
  "length r = 32 \<Longrightarrow> deserializeCompact (r @ s) = Ret \<lparr>sig_R = SetBytes r, sig_S = SetBytes s\<rparr>"
  by (simp add: deserializeCompact_def slice_to_def slice_from_def)

lemma compact_deserialize_serialize:
  assumes "0 \<le> sig_R sig" "sig_R sig < 2 ^ 256" "0 \<le> sig_S sig" "sig_S sig < 2 ^ 256"
  obtains b where "serializeCompact sig = Ret b" "length b = 64" "deserializeCompact b = Ret sig"
proof
  let ?r = "pad (big_Bytes (sig_R sig)) 32" and ?s = "pad (big_Bytes (sig_S sig)) 32"
  show "serializeCompact sig = Ret (?r @ ?s)" using assms by (simp add: serializeCompact_cases)
  have "length ?r = 32" "length ?s = 32" using assms by (simp_all add: length_pad_Bytes)
  with assms show "length (?r @ ?s) = 64" "deserializeCompact (?r @ ?s) = Ret sig" by simp_all
qed

lemma compact_serialize_deserialize:
  assumes "length b = 64"
  obtains sig where "deserializeCompact b = Ret sig" "serializeCompact sig = Ret b"
proof -
  define r s where "r = take 32 b" and "s = drop 32 b"
  have rs: "b = r @ s" "length r = 32" "length s = 32" using assms by (simp_all add: r_def s_def)
  have pad: "pad (big_Bytes (SetBytes x)) 32 = x" if "length x = 32" for x
  proof (rule SetBytes_inj)
    show "length (pad (big_Bytes (SetBytes x)) 32) = length x"
      using that SetBytes_bounds [of x] length_pad_Bytes [of "SetBytes x"] by simp
  qed (simp add: SetBytes_bounds)
  have "serializeCompact \<lparr>sig_R = SetBytes r, sig_S = SetBytes s\<rparr> = Ret b"
    using rs pad SetBytes_bounds [of r] SetBytes_bounds [of s] by (simp add: serializeCompact_cases)
  with rs that show thesis by simp
qed

section \<open>The interfaces of core.go\<close>

record PrivateKey =
  pk_GetAlgorithmName :: string
  pk_AsHex :: string
  pk_AsBytes :: bytes

record PublicKey =
  pub_GetAlgorithmName :: string
  pub_AsHex :: string
  pub_AsBytes :: bytes

text \<open>
  The methods of a Context.  The random bytes a key is made of are an argument; Sign, Verify and
  NewRandomPrivateKey can panic.
\<close>

record sign_Context =
  ctx_GetAlgorithmName :: string
  ctx_NewRandomPrivateKey :: "bytes \<Rightarrow> PrivateKey outcome"
  ctx_GetPublicKey :: "PrivateKey \<Rightarrow> PublicKey"
  ctx_Sign :: "bytes \<Rightarrow> PrivateKey \<Rightarrow> bytes outcome"
  ctx_Verify :: "bytes \<Rightarrow> bytes \<Rightarrow> PublicKey \<Rightarrow> bool outcome"

record Signer =
  signer_context :: sign_Context
  signer_private_key :: PrivateKey

definition Signer_Sign :: "Signer \<Rightarrow> bytes \<Rightarrow> bytes outcome" where
  "Signer_Sign self message = ctx_Sign (signer_context self) message (signer_private_key self)"

definition Signer_GetPublicKey :: "Signer \<Rightarrow> PublicKey" where
  "Signer_GetPublicKey self = ctx_GetPublicKey (signer_context self) (signer_private_key self)"

record CryptoFactory =
  cf_context :: sign_Context

definition NewCryptoFactory :: "sign_Context \<Rightarrow> CryptoFactory" where
  "NewCryptoFactory context = \<lparr>cf_context = context\<rparr>"

definition GetContext :: "CryptoFactory \<Rightarrow> sign_Context" where
  "GetContext self = cf_context self"

definition NewSigner :: "CryptoFactory \<Rightarrow> PrivateKey \<Rightarrow> Signer" where
  "NewSigner self private_key = \<lparr>signer_context = cf_context self, signer_private_key = private_key\<rparr>"

section \<open>Keys of secp256k1\<close>

record Secp256k1PrivateKey =
  private_key :: bytes

record Secp256k1PublicKey =
  public_key :: bytes

definition Secp256k1PrivateKey_GetAlgorithmName :: "Secp256k1PrivateKey \<Rightarrow> string" where
  "Secp256k1PrivateKey_GetAlgorithmName self = ''secp256k1''"

definition Secp256k1PrivateKey_AsHex :: "Secp256k1PrivateKey \<Rightarrow> string" where
  "Secp256k1PrivateKey_AsHex self = EncodeToString (private_key self)"

definition Secp256k1PrivateKey_AsBytes :: "Secp256k1PrivateKey \<Rightarrow> bytes" where
  "Secp256k1PrivateKey_AsBytes self = private_key self"

definition Secp256k1PublicKey_GetAlgorithmName :: "Secp256k1PublicKey \<Rightarrow> string" where
  "Secp256k1PublicKey_GetAlgorithmName self = ''secp256k1''"

definition Secp256k1PublicKey_AsHex :: "Secp256k1PublicKey \<Rightarrow> string" where
  "Secp256k1PublicKey_AsHex self = EncodeToString (public_key self)"

definition Secp256k1PublicKey_AsBytes :: "Secp256k1PublicKey \<Rightarrow> bytes" where
  "Secp256k1PublicKey_AsBytes self = public_key self"

text \<open>A struct of the package as a value of the interface.\<close>

definition as_PrivateKey :: "Secp256k1PrivateKey \<Rightarrow> PrivateKey" where
  "as_PrivateKey k = \<lparr>pk_GetAlgorithmName = Secp256k1PrivateKey_GetAlgorithmName k,
     pk_AsHex = Secp256k1PrivateKey_AsHex k, pk_AsBytes = Secp256k1PrivateKey_AsBytes k\<rparr>"

definition as_PublicKey :: "Secp256k1PublicKey \<Rightarrow> PublicKey" where
  "as_PublicKey k = \<lparr>pub_GetAlgorithmName = Secp256k1PublicKey_GetAlgorithmName k,
     pub_AsHex = Secp256k1PublicKey_AsHex k, pub_AsBytes = Secp256k1PublicKey_AsBytes k\<rparr>"

definition NewSecp256k1PrivateKey :: "bytes \<Rightarrow> PrivateKey" where
  "NewSecp256k1PrivateKey b = as_PrivateKey \<lparr>private_key = b\<rparr>"

definition NewSecp256k1PublicKey :: "bytes \<Rightarrow> PublicKey" where
  "NewSecp256k1PublicKey b = as_PublicKey \<lparr>public_key = b\<rparr>"

lemma NewSecp256k1_simps [simp]:
  "pk_AsBytes (NewSecp256k1PrivateKey b) = b" "pub_AsBytes (NewSecp256k1PublicKey b) = b"
  "pk_AsHex (NewSecp256k1PrivateKey b) = EncodeToString b" "pub_AsHex (NewSecp256k1PublicKey b) = EncodeToString b"
  by (simp_all add: NewSecp256k1PrivateKey_def NewSecp256k1PublicKey_def as_PrivateKey_def as_PublicKey_def
      Secp256k1PrivateKey_AsBytes_def Secp256k1PublicKey_AsBytes_def
      Secp256k1PrivateKey_AsHex_def Secp256k1PublicKey_AsHex_def)

subsection \<open>Keys from PEM\<close>

text \<open>
  The C function load_pem_key: its error number and the two strings it writes.  A number below -6
  gives an error without text.  The error of hex.DecodeString is one value here.
\<close>

type_synonym load_pem_key = "string \<Rightarrow> nat \<Rightarrow> string \<Rightarrow> int \<times> string \<times> string"

definition pem_errstr :: "int \<Rightarrow> string" where
  "pem_errstr errnum =
    (if errnum = - 1 then ''Failed to decrypt or decode private key''
     else if errnum = - 2 then ''Failed to create new big number context''
     else if errnum = - 3 then ''Failed to load group''
     else if errnum = - 4 then ''Failed to load private key''
     else if errnum = - 5 then ''Failed to load public key point''
     else if errnum = - 6 then ''Failed to construct public key from point''
     else [])"

definition loadPemKey :: "load_pem_key \<Rightarrow> string \<Rightarrow> nat \<Rightarrow> string \<Rightarrow> string \<times> string \<times> go_error option" where
  "loadPemKey C pemstr pemstrLen password =
    (case C pemstr pemstrLen password of (errnum, priv, pub) \<Rightarrow>
       if errnum < 0 then ([], [], Some (ErrorString (pem_errstr errnum))) else (priv, pub, None))"

definition hex_error :: go_error where
  "hex_error = ErrorString ''encoding/hex: invalid string''"

definition pemToPriv :: "load_pem_key \<Rightarrow> string \<Rightarrow> string \<Rightarrow> bytes \<times> go_error option" where
  "pemToPriv C pem password =
    (let pemlen = length pem in
     case loadPemKey C pem pemlen password of
       (_, _, Some err) \<Rightarrow> ([], Some err)
     | (priv, _, None) \<Rightarrow> (case DecodeString priv of (b, ok) \<Rightarrow> (b, if ok then None else Some hex_error)))"

definition PemToSecp256k1PrivateKey ::
  "load_pem_key \<Rightarrow> string \<Rightarrow> string \<Rightarrow> Secp256k1PrivateKey option \<times> go_error option" where
  "PemToSecp256k1PrivateKey C pem password =
    (case pemToPriv C pem password of
       (_, Some err) \<Rightarrow> (None, Some err)
     | (priv, None) \<Rightarrow> (Some \<lparr>private_key = priv\<rparr>, None))"

section \<open>The context of secp256k1\<close>

text \<open>
  The functions of the curve library: \<open>'c\<close> is a curve, \<open>'p\<close> and \<open>'q\<close> its private and public
  keys.  NewPrivateKey takes the random bytes it reads.
\<close>

record ('c, 'p, 'q) ellcurv =
  S256 :: 'c
  NewPrivateKey :: "'c \<Rightarrow> bytes \<Rightarrow> go_error + 'p"
  PrivKeyFromBytes :: "'c \<Rightarrow> bytes \<Rightarrow> 'p \<times> 'q"
  priv_Serialize :: "'p \<Rightarrow> bytes"
  SerializeCompressed :: "'q \<Rightarrow> bytes"
  priv_Sign :: "'p \<Rightarrow> bytes \<Rightarrow> go_error + ec_Signature"
  ParsePubKey :: "bytes \<Rightarrow> 'c \<Rightarrow> go_error + 'q"
  sig_Verify :: "ec_Signature \<Rightarrow> bytes \<Rightarrow> 'q \<Rightarrow> bool"

record 'c Secp256k1Context =
  secp_curve :: 'c

definition doSHA512 :: "bytes \<Rightarrow> bytes" where
  "doSHA512 input = sha512 input"

definition doSHA256 :: "bytes \<Rightarrow> bytes" where
  "doSHA256 input = sha256 input"

definition Secp256k1Context_GetAlgorithmName :: "'c Secp256k1Context \<Rightarrow> string" where
  "Secp256k1Context_GetAlgorithmName self = ''secp256k1''"

text \<open>An error of the library is dropped; the key is then nil and its Serialize panics.\<close>

definition Secp256k1Context_NewRandomPrivateKey ::
  "('c, 'p, 'q) ellcurv \<Rightarrow> 'c Secp256k1Context \<Rightarrow> bytes \<Rightarrow> PrivateKey outcome" where
  "Secp256k1Context_NewRandomPrivateKey L self rand =
    (case NewPrivateKey L (S256 L) rand of
       Inl _ \<Rightarrow> Panic ''nil pointer dereference''
     | Inr priv \<Rightarrow> Ret (as_PrivateKey \<lparr>private_key = priv_Serialize L priv\<rparr>))"

definition Secp256k1Context_GetPublicKey ::
  "('c, 'p, 'q) ellcurv \<Rightarrow> 'c Secp256k1Context \<Rightarrow> PrivateKey \<Rightarrow> PublicKey" where
  "Secp256k1Context_GetPublicKey L self pk =
    (let (_, pub) = PrivKeyFromBytes L (S256 L) (pk_AsBytes pk)
     in NewSecp256k1PublicKey (SerializeCompressed L pub))"

definition Secp256k1Context_Sign ::
  "('c, 'p, 'q) ellcurv \<Rightarrow> 'c Secp256k1Context \<Rightarrow> bytes \<Rightarrow> PrivateKey \<Rightarrow> bytes outcome" where
  "Secp256k1Context_Sign L self message pk =
    (let (priv, _) = PrivKeyFromBytes L (secp_curve self) (pk_AsBytes pk);
         hash = doSHA256 message
     in case priv_Sign L priv hash of
          Inl _ \<Rightarrow> Panic ''Signing failed''
        | Inr sig \<Rightarrow> serializeCompact sig)"

definition Secp256k1Context_Verify ::
  "('c, 'p, 'q) ellcurv \<Rightarrow> 'c Secp256k1Context \<Rightarrow> bytes \<Rightarrow> bytes \<Rightarrow> PublicKey \<Rightarrow> bool outcome" where
  "Secp256k1Context_Verify L self signature message pub =
    (case deserializeCompact signature of
       Panic e \<Rightarrow> Panic e
     | Block \<Rightarrow> Block
     | Ret sig \<Rightarrow>
        (let hash = doSHA256 message in
         case ParsePubKey L (pub_AsBytes pub) (secp_curve self) of
           Inl err \<Rightarrow> Panic (Error err)
         | Inr q \<Rightarrow> Ret (sig_Verify L sig hash q)))"

definition as_Context :: "('c, 'p, 'q) ellcurv \<Rightarrow> 'c Secp256k1Context \<Rightarrow> sign_Context" where
  "as_Context L self = \<lparr>ctx_GetAlgorithmName = Secp256k1Context_GetAlgorithmName self,
     ctx_NewRandomPrivateKey = Secp256k1Context_NewRandomPrivateKey L self,
     ctx_GetPublicKey = Secp256k1Context_GetPublicKey L self,
     ctx_Sign = Secp256k1Context_Sign L self,
     ctx_Verify = Secp256k1Context_Verify L self\<rparr>"

definition NewSecp256k1Context :: "('c, 'p, 'q) ellcurv \<Rightarrow> sign_Context" where
  "NewSecp256k1Context L = as_Context L \<lparr>secp_curve = S256 L\<rparr>"

definition CreateContext :: "('c, 'p, 'q) ellcurv \<Rightarrow> string \<Rightarrow> sign_Context outcome" where
  "CreateContext L algorithmName =
    (if algorithmName = ''secp256k1'' then Ret (NewSecp256k1Context L) else Panic ''No such algorithm'')"

lemma NewSecp256k1Context_simps [simp]:
  "ctx_GetPublicKey (NewSecp256k1Context L) = Secp256k1Context_GetPublicKey L \<lparr>secp_curve = S256 L\<rparr>"
  "ctx_Sign (NewSecp256k1Context L) = Secp256k1Context_Sign L \<lparr>secp_curve = S256 L\<rparr>"
  "ctx_Verify (NewSecp256k1Context L) = Secp256k1Context_Verify L \<lparr>secp_curve = S256 L\<rparr>"
  "ctx_NewRandomPrivateKey (NewSecp256k1Context L) = Secp256k1Context_NewRandomPrivateKey L \<lparr>secp_curve = S256 L\<rparr>"
  by (simp_all add: NewSecp256k1Context_def as_Context_def)

section \<open>The contract of a signing context\<close>

text \<open>
  What a client relies on: for the keys the scheme accepts, signing succeeds with 64 bytes, and
  the signature verifies under the public key of the signing key.
\<close>

locale signing_context =
  fixes ctx :: sign_Context and good :: "PrivateKey \<Rightarrow> bool"
  assumes sign_total: "good k \<Longrightarrow> \<exists>sig. ctx_Sign ctx m k = Ret sig \<and> length sig = 64"
    and sign_verify: "good k \<Longrightarrow> ctx_Sign ctx m k = Ret sig \<Longrightarrow>
      ctx_Verify ctx sig m (ctx_GetPublicKey ctx k) = Ret True"
begin

lemma signer:
  assumes "good (signer_private_key S)" "signer_context S = ctx"
  obtains sig where "Signer_Sign S m = Ret sig" "length sig = 64"
    "ctx_Verify ctx sig m (Signer_GetPublicKey S) = Ret True"
proof -
  from sign_total [OF assms(1), of m] obtain sig where
    "ctx_Sign ctx m (signer_private_key S) = Ret sig" "length sig = 64" by blast
  with sign_verify [OF assms(1)] assms(2) that show thesis
    by (simp add: Signer_Sign_def Signer_GetPublicKey_def)
qed

end

text \<open>
  The documented behaviour of the curve library at a private key: signing a hash succeeds with
  two numbers of at most 256 bits, the signature verifies under the key pair's public half, and a
  serialized public key parses back.
\<close>

definition ecdsa_ok :: "('c, 'p, 'q) ellcurv \<Rightarrow> PrivateKey \<Rightarrow> bool" where
  "ecdsa_ok L k \<longleftrightarrow>
    (let (p, q) = PrivKeyFromBytes L (S256 L) (pk_AsBytes k) in
     (\<forall>h. \<exists>sig. priv_Sign L p h = Inr sig \<and> 0 \<le> sig_R sig \<and> sig_R sig < 2 ^ 256 \<and>
        0 \<le> sig_S sig \<and> sig_S sig < 2 ^ 256 \<and> sig_Verify L sig h q) \<and>
     ParsePubKey L (SerializeCompressed L q) (S256 L) = Inr q)"

lemma Secp256k1_sign_verify:
  assumes "ecdsa_ok L k"
  obtains sig where "Secp256k1Context_Sign L \<lparr>secp_curve = S256 L\<rparr> m k = Ret sig" "length sig = 64"
    "Secp256k1Context_Verify L \<lparr>secp_curve = S256 L\<rparr> sig m
       (Secp256k1Context_GetPublicKey L \<lparr>secp_curve = S256 L\<rparr> k) = Ret True"
proof -
  obtain p q where pq: "PrivKeyFromBytes L (S256 L) (pk_AsBytes k) = (p, q)" by fastforce
  with assms obtain sig where sig: "priv_Sign L p (doSHA256 m) = Inr sig" "0 \<le> sig_R sig" "sig_R sig < 2 ^ 256"
      "0 \<le> sig_S sig" "sig_S sig < 2 ^ 256" "sig_Verify L sig (doSHA256 m) q"
    and parse: "ParsePubKey L (SerializeCompressed L q) (S256 L) = Inr q"
    by (auto simp: ecdsa_ok_def)
  from sig(2-5) obtain b where "serializeCompact sig = Ret b" "length b = 64" "deserializeCompact b = Ret sig"
    by (rule compact_deserialize_serialize)
  with pq sig(1,6) parse that [of b] show thesis
    by (simp add: Secp256k1Context_Sign_def Secp256k1Context_Verify_def Secp256k1Context_GetPublicKey_def)
qed

interpretation secp: signing_context "NewSecp256k1Context L" "ecdsa_ok L" for L
proof
  fix k m
  assume "ecdsa_ok L k"
  then show "\<exists>sig. ctx_Sign (NewSecp256k1Context L) m k = Ret sig \<and> length sig = 64"
    by (rule Secp256k1_sign_verify [of L k m]) auto
next
  fix k m sig
  assume k: "ecdsa_ok L k" and sig: "ctx_Sign (NewSecp256k1Context L) m k = Ret sig"
  from k show "ctx_Verify (NewSecp256k1Context L) sig m (ctx_GetPublicKey (NewSecp256k1Context L) k) = Ret True"
    by (rule Secp256k1_sign_verify [of L k m]) (use sig in auto)
qed

text \<open>A curve library that satisfies the contract: the signature of a hash is the hash itself.\<close>

definition demo_ellcurv :: "(unit, bytes, bytes) ellcurv" where
  "demo_ellcurv = \<lparr>S256 = (), NewPrivateKey = (\<lambda>c r. Inr r), PrivKeyFromBytes = (\<lambda>c b. (b, b)),
     priv_Serialize = (\<lambda>p. p), SerializeCompressed = (\<lambda>q. q),
     priv_Sign = (\<lambda>p h. Inr \<lparr>sig_R = SetBytes h mod 2 ^ 256, sig_S = 1\<rparr>),
     ParsePubKey = (\<lambda>b c. Inr b),
     sig_Verify = (\<lambda>sig h q. sig_R sig = SetBytes h mod 2 ^ 256 \<and> sig_S sig = 1)\<rparr>"

lemma demo_ecdsa_ok [simp]: "ecdsa_ok demo_ellcurv k"
  by (simp add: ecdsa_ok_def demo_ellcurv_def)

section \<open>Properties\<close>

text \<open>
  C16: signing and verifying fit together.  For a key at which the curve library keeps its
  contract, the signer that CryptoFactory builds over the context CreateContext returns signs
  every message without a panic, the signature has 64 bytes, and Verify accepts it with the
  signer's public key, through the padding and the compact encoding of both numbers.
\<close>

theorem Sign_Verify:
  assumes "CreateContext L ''secp256k1'' = Ret ctx" "ecdsa_ok L k"
    and "S = NewSigner (NewCryptoFactory ctx) k"
  shows "\<exists>sig. Signer_Sign S m = Ret sig \<and> length sig = 64 \<and>
    ctx_Verify ctx sig m (Signer_GetPublicKey S) = Ret True"
proof -
  have S: "ctx = NewSecp256k1Context L" "signer_context S = NewSecp256k1Context L" "ecdsa_ok L (signer_private_key S)"
    using assms by (simp_all add: CreateContext_def NewSigner_def NewCryptoFactory_def)
  show ?thesis
    using secp.signer [OF S(3,2), of m] S(1) by blast
qed

lemma Sign_Verify_witness:
  "\<exists>sig. Signer_Sign (NewSigner (NewCryptoFactory (NewSecp256k1Context demo_ellcurv)) (NewSecp256k1PrivateKey ''k'')) ''m'' = Ret sig \<and>
    length sig = 64"
  using Sign_Verify [of demo_ellcurv "NewSecp256k1Context demo_ellcurv" "NewSecp256k1PrivateKey ''k''" _ "''m''", OF _ _ refl]
  by (auto simp: CreateContext_def)

text \<open>
  C26: the compact encoding is exact.  Encoding a signature panics exactly when one of its
  numbers needs more than 256 bits; for non-negative numbers decoding gives the signature back;
  and every slice of 64 bytes is the encoding of the signature it decodes to, so that two
  different 64-byte slices never decode to the same signature.
\<close>

theorem compact_roundtrip:
  "(serializeCompact sig = Panic ''Invalid signature length'' \<longleftrightarrow> 2 ^ 256 \<le> \<bar>sig_R sig\<bar> \<or> 2 ^ 256 \<le> \<bar>sig_S sig\<bar>) \<and>
   (serializeCompact sig = Ret b \<and> 0 \<le> sig_R sig \<and> 0 \<le> sig_S sig \<longrightarrow> length b = 64 \<and> deserializeCompact b = Ret sig) \<and>
   (length c = 64 \<longrightarrow> (\<exists>sig'. deserializeCompact c = Ret sig' \<and> serializeCompact sig' = Ret c))"
proof (intro conjI impI)
  show "serializeCompact sig = Panic ''Invalid signature length'' \<longleftrightarrow> 2 ^ 256 \<le> \<bar>sig_R sig\<bar> \<or> 2 ^ 256 \<le> \<bar>sig_S sig\<bar>"
    by (auto simp: serializeCompact_cases)
next
  assume b: "serializeCompact sig = Ret b \<and> 0 \<le> sig_R sig \<and> 0 \<le> sig_S sig"
  then have "sig_R sig < 2 ^ 256" "sig_S sig < 2 ^ 256" by (auto simp: serializeCompact_cases split: if_splits)
  with b show "length b = 64" "deserializeCompact b = Ret sig"
    using compact_deserialize_serialize [of sig] by (metis outcome.inject(1))+
next
  assume "length c = 64"
  then show "\<exists>sig'. deserializeCompact c = Ret sig' \<and> serializeCompact sig' = Ret c"
    using compact_serialize_deserialize by metis
qed

lemma compact_roundtrip_witness:
  "serializeCompact \<lparr>sig_R = 258, sig_S = 7\<rparr> =
     Ret (replicate 30 (CHR 0x00) @ [CHR 0x01, CHR 0x02] @ replicate 31 (CHR 0x00) @ [CHR 0x07]) \<and>
   deserializeCompact (replicate 30 (CHR 0x00) @ [CHR 0x01, CHR 0x02] @ replicate 31 (CHR 0x00) @ [CHR 0x07]) =
     Ret \<lparr>sig_R = 258, sig_S = 7\<rparr>"
proof -
  have "big_Bytes 258 = [CHR 0x01, CHR 0x02]" "big_Bytes 7 = [CHR 0x07]"
    by (simp_all add: big_Bytes_def nat_Bytes.simps char_of_def bit_0)
  then have "serializeCompact \<lparr>sig_R = 258, sig_S = 7\<rparr> =
     Ret (replicate 30 (CHR 0x00) @ [CHR 0x01, CHR 0x02] @ replicate 31 (CHR 0x00) @ [CHR 0x07])"
    by (simp add: serializeCompact_cases pad_replicate)
  with compact_roundtrip [of "\<lparr>sig_R = 258, sig_S = 7\<rparr>"] show ?thesis by simp
qed

text \<open>
  Verify does not check the length of a signature.  With any number of zero bytes inserted
  after its first 32 bytes a signature gets the same verdict, so a valid signature has infinitely
  many other forms that are accepted; a signature shorter than 32 bytes makes Verify panic.
\<close>

theorem Verify_accepts_padded:
  "(length r = 32 \<longrightarrow> Secp256k1Context_Verify L self (r @ replicate n (CHR 0x00) @ s) m pub =
      Secp256k1Context_Verify L self (r @ s) m pub) \<and>
   (length b < 32 \<longrightarrow> Secp256k1Context_Verify L self b m pub = Panic ''slice bounds out of range'')"
  by (simp add: Secp256k1Context_Verify_def deserializeCompact_def slice_to_def slice_from_def)

lemma Verify_accepts_padded_witness:
  "Secp256k1Context_Verify demo_ellcurv \<lparr>secp_curve = ()\<rparr> (replicate 32 (CHR 0x01) @ replicate 5 (CHR 0x00) @ ''s'') ''m''
     (NewSecp256k1PublicKey ''k'') =
   Secp256k1Context_Verify demo_ellcurv \<lparr>secp_curve = ()\<rparr> (replicate 32 (CHR 0x01) @ ''s'') ''m'' (NewSecp256k1PublicKey ''k'') \<and>
   Secp256k1Context_Verify demo_ellcurv \<lparr>secp_curve = ()\<rparr> [] ''m'' (NewSecp256k1PublicKey ''k'') = Panic ''slice bounds out of range''"
  using Verify_accepts_padded [of "replicate 32 (CHR 0x01)" demo_ellcurv "\<lparr>secp_curve = ()\<rparr>" 5 "''s''" "''m''" "NewSecp256k1PublicKey ''k''" "[]"]
  by simp

end
