(* ===== verification/Batch_Pb.thy ===== *)
theory Batch_Pb
  imports Protobuf
begin

text \<open>
  The generated messages a client submits: transactions (transaction_pb2/transaction.pb.go) and
  batches (batch_pb2/batch.pb.go), as records, with the codecs of the ones that are serialized.
\<close>

record Transaction =
  Transaction_Header :: "bytes"
  Transaction_HeaderSignature :: "string"
  Transaction_Payload :: "bytes"

instance Transaction_ext :: (countable) countable
  by (rule countable_classI [of "\<lambda>r. to_nat (Transaction_Header r, Transaction_HeaderSignature r, Transaction_Payload r, Transaction.more r)"]) simp

record BatchHeader =
  BatchHeader_SignerPublicKey :: "string"
  BatchHeader_TransactionIds :: "string list"

instance BatchHeader_ext :: (countable) countable
  by (rule countable_classI [of "\<lambda>r. to_nat (BatchHeader_SignerPublicKey r, BatchHeader_TransactionIds r, BatchHeader.more r)"]) simp

record Batch =
  Batch_Header :: "bytes"
  Batch_HeaderSignature :: "string"
  Batch_Transactions :: "Transaction list"
  Batch_Trace :: "bool"

instance Batch_ext :: (countable) countable
  by (rule countable_classI [of "\<lambda>r. to_nat (Batch_Header r, Batch_HeaderSignature r, Batch_Transactions r, Batch_Trace r, Batch.more r)"]) simp

record BatchList =
  BatchList_Batches :: "Batch list"

instance BatchList_ext :: (countable) countable
  by (rule countable_classI [of "\<lambda>r. to_nat (BatchList_Batches r, BatchList.more r)"]) simp

record batch_pb =
  bpTransactionHeader :: "TransactionHeader codec"
  bpBatchHeader :: "BatchHeader codec"
  bpBatchList :: "BatchList codec"

definition unary_batch_pb :: batch_pb where
  "unary_batch_pb = \<lparr>bpTransactionHeader = unary_codec, bpBatchHeader = unary_codec, bpBatchList = unary_codec\<rparr>"

lemma unary_batch_pb_simps [simp]:
  "bpTransactionHeader unary_batch_pb = unary_codec"
  "bpBatchHeader unary_batch_pb = unary_codec"
  "bpBatchList unary_batch_pb = unary_codec"
  by (simp_all add: unary_batch_pb_def)

end
