(* ===== verification/Go_Encoding.thy ===== *)
theory Go_Encoding
  imports Go_Prelude
begin

text \<open>
  More of the Go standard library, as the example client uses it: dynamically typed values
  (interface{}) and their %v form, base64.StdEncoding, path.Join, and the difference of times.
\<close>

section \<open>Values of type interface{}\<close>

text \<open>
  The dynamic types a YAML or CBOR document decodes to.  The entries of a map are listed in the
  order in which fmt prints them; a float carries its printed form.
\<close>

datatype any =
    ANil
  | AString string
  | AInt int
  | ABool bool
  | AFloat string
  | ASlice "any list"
  | AMap "(any \<times> any) list"

type_synonym any_map = "(any \<times> any) list"

text \<open>An index expression on a map: a missing key gives nil.\<close>

definition any_at :: "any_map \<Rightarrow> any \<Rightarrow> any" where
  "any_at m k = (case map_of m k of None \<Rightarrow> ANil | Some v \<Rightarrow> v)"

fun fmt_v :: "any \<Rightarrow> string" where
  "fmt_v ANil = ''<nil>''"
| "fmt_v (AString s) = s"
| "fmt_v (AInt i) = Itoa i"
| "fmt_v (ABool b) = (if b then ''true'' else ''false'')"
| "fmt_v (AFloat s) = s"
| "fmt_v (ASlice xs) = CHR ''['' # join_with (CHR '' '') (map fmt_v xs) @ '']''"
| "fmt_v (AMap m) = ''map['' @ join_with (CHR '' '') (map (\<lambda>e. fmt_v (fst e) @ CHR '':'' # fmt_v (snd e)) m) @ '']''"

section \<open>encoding/base64\<close>

definition b64_char :: "nat \<Rightarrow> char" where
  "b64_char d =
    (if d < 26 then char_of (65 + d) else if d < 52 then char_of (71 + d)
     else if d < 62 then char_of (d - 4) else if d = 62 then CHR ''+'' else CHR ''/'')"

definition b64_val :: "char \<Rightarrow> nat option" where
  "b64_val c = (let n = (of_char c :: nat) in
     if 65 \<le> n \<and> n \<le> 90 then Some (n - 65)
     else if 97 \<le> n \<and> n \<le> 122 then Some (n - 71)
     else if 48 \<le> n \<and> n \<le> 57 then Some (n + 4)
     else if n = 43 then Some 62 else if n = 47 then Some 63 else None)"

text \<open>
  The groups of four characters; padding ends the data.  The second component tells whether the
  input is legal.
\<close>

fun b64_groups :: "string \<Rightarrow> bytes \<times> bool" where
  "b64_groups [] = ([], True)"
| "b64_groups (a # b # c # d # s) =
    (case (b64_val a, b64_val b) of
       (Some x, Some y) \<Rightarrow>
        (if c = CHR ''='' then ([char_of (4 * x + y div 16)], d = CHR ''='' \<and> s = [])
         else (case b64_val c of
           None \<Rightarrow> ([], False)
         | Some z \<Rightarrow>
            (if d = CHR ''='' then ([char_of (4 * x + y div 16), char_of (16 * (y mod 16) + z div 4)], s = [])
             else (case b64_val d of
               None \<Rightarrow> ([], False)
             | Some u \<Rightarrow> (let (bs, ok) = b64_groups s in
                 (char_of (4 * x + y div 16) # char_of (16 * (y mod 16) + z div 4) # char_of (64 * (z mod 4) + u) # bs, ok))))))
     | _ \<Rightarrow> ([], False))"
| "b64_groups _ = ([], False)"

text \<open>Line breaks are skipped.\<close>

definition b64_DecodeString :: "string \<Rightarrow> bytes \<times> bool" where
  "b64_DecodeString s = b64_groups (filter (\<lambda>c. c \<noteq> CHR 0x0A \<and> c \<noteq> CHR 0x0D) s)"

fun b64_EncodeToString :: "bytes \<Rightarrow> string" where
  "b64_EncodeToString [] = []"
| "b64_EncodeToString [a] =
    (let x = of_char a in [b64_char (x div 4), b64_char (16 * (x mod 4)), CHR ''='', CHR ''=''])"
| "b64_EncodeToString [a, b] =
    (let x = of_char a; y = of_char b in
     [b64_char (x div 4), b64_char (16 * (x mod 4) + y div 16), b64_char (4 * (y mod 16)), CHR ''=''])"
| "b64_EncodeToString (a # b # c # s) =
    (let x = of_char a; y = of_char b; z = of_char c in
     b64_char (x div 4) # b64_char (16 * (x mod 4) + y div 16) # b64_char (4 * (y mod 16) + z div 64) #
     b64_char (z mod 64) # b64_EncodeToString s)"

lemma b64_char_code:
  "d < 64 \<Longrightarrow> of_char (b64_char d) = (if d < 26 then 65 + d else if d < 52 then 71 + d
     else if d < 62 then d - 4 else if d = 62 then 43 else (47 :: nat))"
  by (auto simp: b64_char_def)

lemma b64_val_char [simp]: "d < 64 \<Longrightarrow> b64_val (b64_char d) = Some d"
  by (auto simp: b64_val_def b64_char_code Let_def)

lemma b64_char_neq [simp]:
  "d < 64 \<Longrightarrow> b64_char d \<noteq> CHR ''=''" "d < 64 \<Longrightarrow> b64_char d \<noteq> CHR 0x0A" "d < 64 \<Longrightarrow> b64_char d \<noteq> CHR 0x0D"
  by (auto dest!: arg_cong [of _ _ "of_char :: char \<Rightarrow> nat"] simp: b64_char_code split: if_splits)

lemma byte_split: "x < 256 \<Longrightarrow> x div 4 < 64" "x < 256 \<Longrightarrow> x div 16 < 16" "x < 256 \<Longrightarrow> x div 64 < 4" for x :: nat
  by linarith+

lemma b64_group_arith:
  fixes x y z :: nat
  assumes "x < 256" "y < 256" "z < 256"
  shows "16 * (x mod 4) + y div 16 < 64" "4 * (y mod 16) + z div 64 < 64"
    "4 * (x div 4) + (16 * (x mod 4) + y div 16) div 16 = x"
    "16 * ((16 * (x mod 4) + y div 16) mod 16) + (4 * (y mod 16) + z div 64) div 4 = y"
    "64 * ((4 * (y mod 16) + z div 64) mod 4) + z mod 64 = z"
proof -
  have q: "y div 16 < 16" "z div 64 < 4" using assms byte_split by auto
  have m: "x mod 4 < 4" "y mod 16 < 16" by simp_all
  show "16 * (x mod 4) + y div 16 < 64" "4 * (y mod 16) + z div 64 < 64" using q m by linarith+
  have d: "(k * m + r) div k = m" "(k * m + r) mod k = r" if "r < k" for k m r :: nat
    using that by (simp_all add: div_mult_self4)
  show "4 * (x div 4) + (16 * (x mod 4) + y div 16) div 16 = x"
    "16 * ((16 * (x mod 4) + y div 16) mod 16) + (4 * (y mod 16) + z div 64) div 4 = y"
    "64 * ((4 * (y mod 16) + z div 64) mod 4) + z mod 64 = z"
    by (simp_all only: d [OF q(1)] d [OF q(2)] mult_div_mod_eq)
qed

lemma b64_Encode_no_break: "filter (\<lambda>c. c \<noteq> CHR 0x0A \<and> c \<noteq> CHR 0x0D) (b64_EncodeToString b) = b64_EncodeToString b"
proof (induction b rule: b64_EncodeToString.induct)
  case (2 a)
  have "(of_char a :: nat) < 256" by simp
  with byte_split b64_group_arith [of "of_char a" 0 0] show ?case by (simp add: Let_def)
next
  case (3 a b)
  have "(of_char a :: nat) < 256" "(of_char b :: nat) < 256" by simp_all
  with byte_split b64_group_arith [of "of_char a" "of_char b" 0] show ?case by (simp add: Let_def)
next
  case (4 a b c s)
  have "(of_char a :: nat) < 256" "(of_char b :: nat) < 256" "(of_char c :: nat) < 256" by simp_all
  with 4 byte_split b64_group_arith [of "of_char a" "of_char b" "of_char c"] show ?case by (simp add: Let_def)
qed simp

lemma b64_groups_Encode: "b64_groups (b64_EncodeToString b) = (b, True)"
proof (induction b rule: b64_EncodeToString.induct)
  case (2 a)
  have "(of_char a :: nat) < 256" by simp
  with byte_split b64_group_arith [of "of_char a" 0 0] show ?case by (simp add: Let_def)
next
  case (3 a b)
  have "(of_char a :: nat) < 256" "(of_char b :: nat) < 256" by simp_all
  with byte_split b64_group_arith [of "of_char a" "of_char b" 0] show ?case by (simp add: Let_def)
next
  case (4 a b c s)
  have "(of_char a :: nat) < 256" "(of_char b :: nat) < 256" "(of_char c :: nat) < 256" by simp_all
  with 4 byte_split b64_group_arith [of "of_char a" "of_char b" "of_char c"] show ?case by (simp add: Let_def)
qed simp

lemma b64_Decode_Encode [simp]: "b64_DecodeString (b64_EncodeToString b) = (b, True)"
  by (simp add: b64_DecodeString_def b64_Encode_no_break b64_groups_Encode)

section \<open>path.Join\<close>

text \<open>The elements of a cleaned path, last first: empty elements and dots vanish, dot-dot removes the element before.\<close>

fun path_elems :: "bool \<Rightarrow> string list \<Rightarrow> string list \<Rightarrow> string list" where
  "path_elems rooted acc [] = acc"
| "path_elems rooted acc (e # es) =
    (if e = [] \<or> e = ''.'' then path_elems rooted acc es
     else if e = ''..'' then
       (case acc of
          [] \<Rightarrow> path_elems rooted (if rooted then [] else [e]) es
        | a # as \<Rightarrow> path_elems rooted (if a = ''..'' then e # acc else as) es)
     else path_elems rooted (e # acc) es)"

definition path_Clean :: "string \<Rightarrow> string" where
  "path_Clean p =
    (let rooted = (p \<noteq> [] \<and> hd p = CHR ''/'');
         out = (if rooted then ''/'' else []) @ join_with (CHR ''/'') (rev (path_elems rooted [] (split_on (CHR ''/'') p)))
     in if out = [] then ''.'' else out)"

definition path_Join :: "string list \<Rightarrow> string" where
  "path_Join elems =
    (case filter (\<lambda>e. e \<noteq> []) elems of [] \<Rightarrow> [] | es \<Rightarrow> path_Clean (join_with (CHR ''/'') es))"

section \<open>Times\<close>

text \<open>Times are counts of nanoseconds; a Duration is an int64, to which Time.Sub saturates.\<close>

definition time_Sub :: "int \<Rightarrow> int \<Rightarrow> int" where
  "time_Sub t u = max (- (2 ^ 63)) (min (2 ^ 63 - 1) (t - u))"

end
