(* ===== verification/Intkey_Client.thy ===== *)
theory Intkey_Client
  imports Intkey Signing Batch_Pb Go_Encoding
begin

text \<open>
  examples/intkey_go/src/sawtooth_intkey_client: the command line client of the intkey family
  (intkey_client.go, constants.go and the helpers of main.go).  It builds a CBOR payload, a signed
  transaction and a signed batch, submits it to the REST API over HTTP and optionally waits for
  its status; and it reads state through the same API.

  The REST API, the clock, the random numbers and the file system are the record \<open>client_env\<close>
  over an explicit world.  The YAML and CBOR libraries are parameters.
\<close>

section \<open>Constants\<close>

abbreviation FAMILY_NAME :: string where "FAMILY_NAME \<equiv> ''intkey''"
abbreviation FAMILY_VERSION :: string where "FAMILY_VERSION \<equiv> ''1.0''"
abbreviation DEFAULT_URL :: string where "DEFAULT_URL \<equiv> ''http://127.0.0.1:8008''"
abbreviation VERB_SET :: string where "VERB_SET \<equiv> ''set''"
abbreviation VERB_INC :: string where "VERB_INC \<equiv> ''inc''"
abbreviation VERB_DEC :: string where "VERB_DEC \<equiv> ''dec''"
abbreviation BATCH_SUBMIT_API :: string where "BATCH_SUBMIT_API \<equiv> ''batches''"
abbreviation BATCH_STATUS_API :: string where "BATCH_STATUS_API \<equiv> ''batch_statuses''"
abbreviation STATE_API :: string where "STATE_API \<equiv> ''state''"
abbreviation CONTENT_TYPE_OCTET_STREAM :: string where
  "CONTENT_TYPE_OCTET_STREAM \<equiv> ''application/octet-stream''"
abbreviation FAMILY_NAMESPACE_ADDRESS_LENGTH :: nat where "FAMILY_NAMESPACE_ADDRESS_LENGTH \<equiv> 6"
abbreviation FAMILY_VERB_ADDRESS_LENGTH :: nat where "FAMILY_VERB_ADDRESS_LENGTH \<equiv> 64"

section \<open>The environment\<close>

text \<open>A response: the body is what reading it to the end gives.\<close>

record http_Response =
  StatusCode :: int
  Status :: string
  Body :: "go_error + bytes"

record 'w client_env =
  http_Post :: "string \<Rightarrow> string \<Rightarrow> bytes \<Rightarrow> ('w, go_error + http_Response) proc"
  http_Get :: "string \<Rightarrow> ('w, go_error + http_Response) proc"
  time_Now :: "'w \<Rightarrow> int \<times> 'w"
  rand_Int :: "'w \<Rightarrow> int \<times> 'w"
  rand_Read :: "'w \<Rightarrow> bytes \<times> 'w"
  ReadFile :: "string \<Rightarrow> 'w \<Rightarrow> (go_error + bytes) \<times> 'w"

text \<open>
  The document libraries: yaml.Unmarshal into a map, cbor.Dumps of a map with string keys and
  cbor.Loads into a map; Loads may panic.
\<close>

record client_docs =
  yaml_Unmarshal :: "string \<Rightarrow> any_map \<times> go_error option"
  cbor_Dumps :: "(string \<rightharpoonup> any) \<Rightarrow> bytes \<times> go_error option"
  cbor_Loads :: "bytes \<Rightarrow> load_result \<times> any_map"

definition pureP :: "'a outcome \<Rightarrow> ('s, 'a) proc" where
  [go_defs]: "pureP x = (\<lambda>s. (x, s))"

definition envP :: "('w \<Rightarrow> 'a \<times> 'w) \<Rightarrow> ('w, 'a) proc" where
  [go_defs]: "envP f = (\<lambda>w. case f w of (x, w') \<Rightarrow> (Ret x, w'))"

lemma pureP_simps [simp]: "pureP (Ret x) = retP x" "pureP (Panic e) = panicP e"
  by (simp_all add: pureP_def retP_def panicP_def)

section \<open>Clients and addresses\<close>

record IntkeyClient =
  ic_url :: string
  ic_signer :: Signer

definition Sha512HashValue :: "string \<Rightarrow> string" where
  "Sha512HashValue value = to_lower (EncodeToString (sha512 value))"

text \<open>
  The key file is used as it is: its bytes are the private key, although key files hold the key in
  hexadecimal.
\<close>

definition NewIntkeyClient ::
  "('c, 'p, 'q) ellcurv \<Rightarrow> 'w client_env \<Rightarrow> string \<Rightarrow> string \<Rightarrow> ('w, go_error + IntkeyClient) proc" where
  "NewIntkeyClient L E url keyfile =
    bindP
      (if keyfile \<noteq> [] then
         bindP (envP (ReadFile E keyfile)) (\<lambda>r. case r of
             Inl err \<Rightarrow> retP (Inl (ErrorString (''Failed to read private key: '' @ Error err)))
           | Inr privateKeyStr \<Rightarrow> retP (Inr (NewSecp256k1PrivateKey privateKeyStr)))
       else bindP (envP (rand_Read E)) (\<lambda>rand.
         bindP (pureP (ctx_NewRandomPrivateKey (NewSecp256k1Context L) rand)) (\<lambda>k. retP (Inr k))))
      (\<lambda>r. case r of
         Inl err \<Rightarrow> retP (Inl err)
       | Inr privateKey \<Rightarrow>
          (let cryptoFactory = NewCryptoFactory (NewSecp256k1Context L);
               signer = NewSigner cryptoFactory privateKey
           in retP (Inr \<lparr>ic_url = url, ic_signer = signer\<rparr>)))"

text \<open>The digest has 128 characters, so the slices are in range.\<close>

definition getPrefix :: "IntkeyClient \<Rightarrow> string" where
  "getPrefix self = take FAMILY_NAMESPACE_ADDRESS_LENGTH (Sha512HashValue FAMILY_NAME)"

definition getAddress :: "IntkeyClient \<Rightarrow> string \<Rightarrow> string" where
  "getAddress self name =
    (let prefix = getPrefix self; nameAddress = drop FAMILY_VERB_ADDRESS_LENGTH (Sha512HashValue name)
     in prefix @ nameAddress)"

text \<open>The handler that the main function of the transaction processor registers.\<close>

definition intkey_main_handler :: IntkeyHandler where
  "intkey_main_handler = NewIntkeyHandler (take 6 (Hexdigest ''intkey''))"

section \<open>Requests to the REST API\<close>

definition http_prefix :: "string \<Rightarrow> bool" where
  "http_prefix url \<longleftrightarrow> take 7 url = ''http://''"

definition request_url :: "IntkeyClient \<Rightarrow> string \<Rightarrow> string" where
  "request_url self apiSuffix =
    (if http_prefix (ic_url self) then ic_url self @ ''/'' @ apiSuffix
     else ''http://'' @ ic_url self @ ''/'' @ apiSuffix)"

definition sendRequest ::
  "'w client_env \<Rightarrow> IntkeyClient \<Rightarrow> string \<Rightarrow> bytes \<Rightarrow> string \<Rightarrow> string \<Rightarrow> ('w, go_error + string) proc" where
  "sendRequest E self apiSuffix data contentType name =
    (let url = request_url self apiSuffix in
     bindP (if length data > 0 then http_Post E url contentType data else http_Get E url) (\<lambda>r.
       case r of
         Inl err \<Rightarrow> retP (Inl (ErrorString (''Failed to connect to REST API: '' @ Error err)))
       | Inr response \<Rightarrow>
          if StatusCode response = 404 then retP (Inl (ErrorString (''No such key: '' @ name)))
          else if StatusCode response \<ge> 400
          then retP (Inl (ErrorString (''Error '' @ Itoa (StatusCode response) @ '': '' @ Status response)))
          else (case Body response of
              Inl err \<Rightarrow> retP (Inl (ErrorString (''Error reading response: '' @ Error err)))
            | Inr responseBody \<Rightarrow> retP (Inr responseBody))))"

text \<open>
  getStatus does not check the shape of the response: a failed type assertion, or an empty list of
  statuses, is a panic.
\<close>

definition status_of :: "any_map \<Rightarrow> string outcome" where
  "status_of responseMap =
    (case any_at responseMap (AString ''data'') of
       ASlice (AMap entry # _) \<Rightarrow> Ret (fmt_v (any_at entry (AString ''status'')))
     | ASlice (_ # _) \<Rightarrow> Panic ''interface conversion''
     | ASlice [] \<Rightarrow> Panic ''index out of range''
     | _ \<Rightarrow> Panic ''interface conversion'')"

definition getStatus ::
  "client_docs \<Rightarrow> 'w client_env \<Rightarrow> IntkeyClient \<Rightarrow> string \<Rightarrow> 64 word \<Rightarrow> ('w, go_error + string) proc" where
  "getStatus D E self batchId wait =
    (let apiSuffix = BATCH_STATUS_API @ ''?id='' @ batchId @ ''&wait='' @ Itoa (uint wait) in
     bindP (sendRequest E self apiSuffix [] [] []) (\<lambda>r. case r of
         Inl err \<Rightarrow> retP (Inl err)
       | Inr response \<Rightarrow> (case yaml_Unmarshal D response of
           (_, Some err) \<Rightarrow> retP (Inl (ErrorString (''Error reading response: '' @ Error err)))
         | (responseMap, None) \<Rightarrow> bindP (pureP (status_of responseMap)) (\<lambda>status. retP (Inr status)))))"

text \<open>
  Several errors are formatted with fmt.Sprint where fmt.Sprintf is meant: the text keeps its
  directive and the error follows it.
\<close>

definition b64_error :: go_error where
  "b64_error = ErrorString ''illegal base64 data''"

definition loads_result :: "client_docs \<Rightarrow> bytes \<Rightarrow> (go_error + any_map) outcome" where
  "loads_result D data =
    (case cbor_Loads D data of
       (LoadPanic, _) \<Rightarrow> Panic ''cbor''
     | (Loaded (Some err), _) \<Rightarrow> Ret (Inl (ErrorString (''Error binary decoding: %v'' @ Error err)))
     | (Loaded None, m) \<Rightarrow> Ret (Inr m))"

definition Show :: "client_docs \<Rightarrow> 'w client_env \<Rightarrow> IntkeyClient \<Rightarrow> string \<Rightarrow> ('w, go_error + string) proc" where
  "Show D E self name =
    (let apiSuffix = STATE_API @ ''/'' @ getAddress self name in
     bindP (sendRequest E self apiSuffix [] [] name) (\<lambda>r. case r of
         Inl err \<Rightarrow> retP (Inl err)
       | Inr response \<Rightarrow> (case yaml_Unmarshal D response of
           (_, Some err) \<Rightarrow> retP (Inl (ErrorString (''Error reading response: %v'' @ Error err)))
         | (responseMap, None) \<Rightarrow> (case any_at responseMap (AString ''data'') of
             AString data \<Rightarrow> (case b64_DecodeString data of
                (_, False) \<Rightarrow> retP (Inl (ErrorString (''Error decoding response: %v'' @ Error b64_error)))
              | (responseData, True) \<Rightarrow> bindP (pureP (loads_result D responseData)) (\<lambda>r. case r of
                   Inl err \<Rightarrow> retP (Inl err)
                 | Inr responseFinal \<Rightarrow> retP (Inr (fmt_v (any_at responseFinal (AString name))))))
           | _ \<Rightarrow> retP (Inl (ErrorString ''Error reading as string''))))))"

text \<open>The loop over the entries of the listing; the first bad entry ends it.\<close>

fun list_entries :: "client_docs \<Rightarrow> any list \<Rightarrow> any_map list \<Rightarrow> (go_error + any_map list) outcome" where
  "list_entries D [] toReturn = Ret (Inr toReturn)"
| "list_entries D (entry # entries) toReturn =
    (case entry of
       AMap entryData \<Rightarrow> (case any_at entryData (AString ''data'') of
          AString stringData \<Rightarrow> (case b64_DecodeString stringData of
             (_, False) \<Rightarrow> Ret (Inl (ErrorString (''Error decoding: %v'' @ Error b64_error)))
           | (decodedBytes, True) \<Rightarrow> (case loads_result D decodedBytes of
                Ret (Inl err) \<Rightarrow> Ret (Inl err)
              | Ret (Inr foundMap) \<Rightarrow> list_entries D entries (toReturn @ [foundMap])
              | Panic e \<Rightarrow> Panic e
              | Block \<Rightarrow> Block))
        | _ \<Rightarrow> Ret (Inl (ErrorString ''Error reading string data'')))
     | _ \<Rightarrow> Ret (Inl (ErrorString ''Error reading entry data'')))"

definition List_values :: "client_docs \<Rightarrow> 'w client_env \<Rightarrow> IntkeyClient \<Rightarrow> ('w, go_error + any_map list) proc" where
  "List_values D E self =
    (let apiSuffix = STATE_API @ ''?address='' @ getPrefix self in
     bindP (sendRequest E self apiSuffix [] [] []) (\<lambda>r. case r of
         Inl err \<Rightarrow> retP (Inl err)
       | Inr response \<Rightarrow> (case yaml_Unmarshal D response of
           (_, Some err) \<Rightarrow> retP (Inl (ErrorString (''Error reading response: '' @ Error err)))
         | (responseMap, None) \<Rightarrow> (case any_at responseMap (AString ''data'') of
             ASlice encodedEntries \<Rightarrow> pureP (list_entries D encodedEntries [])
           | _ \<Rightarrow> panicP ''interface conversion''))))"

section \<open>Transactions and batches\<close>

definition createBatchList :: "batch_pb \<Rightarrow> IntkeyClient \<Rightarrow> Transaction list \<Rightarrow> (go_error + BatchList) outcome" where
  "createBatchList pb self transactions =
    (let transactionSignatures = map Transaction_HeaderSignature transactions;
         rawBatchHeader = \<lparr>BatchHeader_SignerPublicKey = pub_AsHex (Signer_GetPublicKey (ic_signer self)),
           BatchHeader_TransactionIds = transactionSignatures\<rparr>
     in case Marshal (bpBatchHeader pb) rawBatchHeader of
          (_, Some err) \<Rightarrow> Ret (Inl (ErrorString (''Unable to serialize batch header: '' @ Error err)))
        | (batchHeader, None) \<Rightarrow>
           (case Signer_Sign (ic_signer self) batchHeader of
              Panic e \<Rightarrow> Panic e
            | Block \<Rightarrow> Block
            | Ret sig \<Rightarrow>
               (let batchHeaderSignature = EncodeToString sig;
                    batch = \<lparr>Batch_Header = batchHeader, Batch_HeaderSignature = batchHeaderSignature,
                      Batch_Transactions = transactions, Batch_Trace = False\<rparr>
                in Ret (Inr \<lparr>BatchList_Batches = [batch]\<rparr>))))"

text \<open>The header and the transaction of a payload: lines 228 to 257.\<close>

definition transaction_header :: "IntkeyClient \<Rightarrow> string \<Rightarrow> bytes \<Rightarrow> int \<Rightarrow> TransactionHeader" where
  "transaction_header self name payload nonce =
    (let address = getAddress self name in
     \<lparr>TransactionHeader_BatcherPublicKey = pub_AsHex (Signer_GetPublicKey (ic_signer self)),
      TransactionHeader_Dependencies = [],
      TransactionHeader_FamilyName = FAMILY_NAME,
      TransactionHeader_FamilyVersion = FAMILY_VERSION,
      TransactionHeader_Inputs = [address],
      TransactionHeader_Nonce = Itoa nonce,
      TransactionHeader_Outputs = [address],
      TransactionHeader_PayloadSha512 = Sha512HashValue payload,
      TransactionHeader_SignerPublicKey = pub_AsHex (Signer_GetPublicKey (ic_signer self))\<rparr>)"

definition make_transaction ::
  "batch_pb \<Rightarrow> IntkeyClient \<Rightarrow> string \<Rightarrow> bytes \<Rightarrow> int \<Rightarrow> (go_error + Transaction) outcome" where
  "make_transaction pb self name payload nonce =
    (case Marshal (bpTransactionHeader pb) (transaction_header self name payload nonce) of
       (_, Some err) \<Rightarrow> Ret (Inl (ErrorString (''Unable to serialize transaction header: '' @ Error err)))
     | (transactionHeader, None) \<Rightarrow>
        (case Signer_Sign (ic_signer self) transactionHeader of
           Panic e \<Rightarrow> Panic e
         | Block \<Rightarrow> Block
         | Ret sig \<Rightarrow> Ret (Inr \<lparr>Transaction_Header = transactionHeader,
             Transaction_HeaderSignature = EncodeToString sig, Transaction_Payload = payload\<rparr>)))"

text \<open>
  The wait for the batch: lines 281 to 291.  The elapsed time is a count of nanoseconds, the limit
  \<open>wait\<close> is meant in seconds.  The loop may not end, which is None.
\<close>

partial_function (option) wait_status ::
  "client_docs \<Rightarrow> 'w client_env \<Rightarrow> IntkeyClient \<Rightarrow> string \<Rightarrow> 64 word \<Rightarrow> int \<Rightarrow> string \<Rightarrow> 64 word \<Rightarrow> 'w \<Rightarrow>
   ((go_error + string) outcome \<times> 'w) option" where
  "wait_status D E self batchId wait startTime response waitTime w =
    (if waitTime < wait then
       (case getStatus D E self batchId (wait - waitTime) w of
          (Ret (Inl err), w') \<Rightarrow> Some (Ret (Inl err), w')
        | (Ret (Inr status), w') \<Rightarrow>
           (case time_Now E w' of (now, w'') \<Rightarrow>
              if status \<noteq> ''PENDING'' then Some (Ret (Inr response), w'')
              else wait_status D E self batchId wait startTime response (word_of_int (time_Sub now startTime)) w'')
        | (Panic e, w') \<Rightarrow> Some (Panic e, w')
        | (Block, w') \<Rightarrow> Some (Block, w'))
     else Some (Ret (Inr response), w))"

text \<open>The submission of a serialized batch list: lines 273 to 295.\<close>

definition submit ::
  "client_docs \<Rightarrow> 'w client_env \<Rightarrow> IntkeyClient \<Rightarrow> string \<Rightarrow> bytes \<Rightarrow> string \<Rightarrow> 64 word \<Rightarrow> ('w, go_error + string) proc" where
  "submit D E self batchId batchList name wait =
    (if wait > 0 then
       bindP (envP (time_Now E)) (\<lambda>startTime.
       bindP (sendRequest E self BATCH_SUBMIT_API batchList CONTENT_TYPE_OCTET_STREAM name) (\<lambda>r.
         case r of
           Inl err \<Rightarrow> retP (Inl err)
         | Inr response \<Rightarrow> (\<lambda>w. case wait_status D E self batchId wait startTime response 0 w of
             None \<Rightarrow> (Block, w)
           | Some x \<Rightarrow> x)))
     else sendRequest E self BATCH_SUBMIT_API batchList CONTENT_TYPE_OCTET_STREAM name)"

definition payload_map :: "string \<Rightarrow> string \<Rightarrow> 64 word \<Rightarrow> string \<rightharpoonup> any" where
  "payload_map verb name value =
    [''Verb'' \<mapsto> AString verb, ''Name'' \<mapsto> AString name, ''Value'' \<mapsto> AInt (uint value)]"

definition sendTransaction ::
  "batch_pb \<Rightarrow> client_docs \<Rightarrow> 'w client_env \<Rightarrow> IntkeyClient \<Rightarrow> string \<Rightarrow> string \<Rightarrow> 64 word \<Rightarrow> 64 word \<Rightarrow>
   ('w, go_error + string) proc" where
  "sendTransaction pb D E self verb name value wait =
    (case cbor_Dumps D (payload_map verb name value) of
       (_, Some err) \<Rightarrow> retP (Inl (ErrorString (''Failed to construct CBOR: '' @ Error err)))
     | (payload, None) \<Rightarrow>
       bindP (envP (rand_Int E)) (\<lambda>nonce.
       bindP (pureP (make_transaction pb self name payload nonce)) (\<lambda>r. case r of
           Inl err \<Rightarrow> retP (Inl err)
         | Inr transaction \<Rightarrow>
           bindP (pureP (createBatchList pb self [transaction])) (\<lambda>r. case r of
               Inl err \<Rightarrow> retP (Inl (ErrorString (''Unable to construct batch list: '' @ Error err)))
             | Inr rawBatchList \<Rightarrow>
               (let batchId = Batch_HeaderSignature (BatchList_Batches rawBatchList ! 0) in
                case Marshal (bpBatchList pb) rawBatchList of
                  (_, Some err) \<Rightarrow> retP (Inl (ErrorString (''Unable to serialize batch list: '' @ Error err)))
                | (batchList, None) \<Rightarrow> submit D E self batchId batchList name wait)))))"

definition Set :: "batch_pb \<Rightarrow> client_docs \<Rightarrow> 'w client_env \<Rightarrow> IntkeyClient \<Rightarrow> string \<Rightarrow> 64 word \<Rightarrow> 64 word \<Rightarrow>
   ('w, go_error + string) proc" where
  "Set pb D E self name value wait = sendTransaction pb D E self VERB_SET name value wait"

definition Inc :: "batch_pb \<Rightarrow> client_docs \<Rightarrow> 'w client_env \<Rightarrow> IntkeyClient \<Rightarrow> string \<Rightarrow> 64 word \<Rightarrow> 64 word \<Rightarrow>
   ('w, go_error + string) proc" where
  "Inc pb D E self name value wait = sendTransaction pb D E self VERB_INC name value wait"

definition Dec :: "batch_pb \<Rightarrow> client_docs \<Rightarrow> 'w client_env \<Rightarrow> IntkeyClient \<Rightarrow> string \<Rightarrow> 64 word \<Rightarrow> 64 word \<Rightarrow>
   ('w, go_error + string) proc" where
  "Dec pb D E self name value wait = sendTransaction pb D E self VERB_DEC name value wait"

section \<open>Addresses\<close>

lemma Sha512HashValue_Hexdigest: "Sha512HashValue s = Hexdigest s"
  by (simp add: Sha512HashValue_def Hexdigest_def)

lemma getAddress_handler: "getAddress self name = intkey_address intkey_main_handler name"
  by (simp add: getAddress_def getPrefix_def Sha512HashValue_Hexdigest intkey_address_def
      intkey_main_handler_def NewIntkeyHandler_def)

section \<open>What a validator accepts\<close>

text \<open>
  The checks that a validator makes on a batch: every signature verifies under the public key in
  the header it signs, the batch header lists the transactions it carries, the payload has the
  hash of its header, and the batcher of each transaction is the signer of the batch.
\<close>

definition signature_valid :: "sign_Context \<Rightarrow> string \<Rightarrow> bytes \<Rightarrow> string \<Rightarrow> bool" where
  "signature_valid ctx pubhex data sighex \<longleftrightarrow>
    (case (DecodeString pubhex, DecodeString sighex) of
       ((pub, True), (sig, True)) \<Rightarrow> ctx_Verify ctx sig data (NewSecp256k1PublicKey pub) = Ret True
     | _ \<Rightarrow> False)"

definition valid_transaction :: "batch_pb \<Rightarrow> sign_Context \<Rightarrow> string \<Rightarrow> Transaction \<Rightarrow> bool" where
  "valid_transaction pb ctx batcher t \<longleftrightarrow>
    (case Unmarshal (bpTransactionHeader pb) (Transaction_Header t) of
       (h, None) \<Rightarrow> signature_valid ctx (TransactionHeader_SignerPublicKey h) (Transaction_Header t) (Transaction_HeaderSignature t) \<and>
         TransactionHeader_PayloadSha512 h = EncodeToString (sha512 (Transaction_Payload t)) \<and>
         TransactionHeader_BatcherPublicKey h = batcher
     | _ \<Rightarrow> False)"

definition valid_batch :: "batch_pb \<Rightarrow> sign_Context \<Rightarrow> Batch \<Rightarrow> bool" where
  "valid_batch pb ctx b \<longleftrightarrow>
    (case Unmarshal (bpBatchHeader pb) (Batch_Header b) of
       (h, None) \<Rightarrow> signature_valid ctx (BatchHeader_SignerPublicKey h) (Batch_Header b) (Batch_HeaderSignature b) \<and>
         BatchHeader_TransactionIds h = map Transaction_HeaderSignature (Batch_Transactions b) \<and>
         list_all (valid_transaction pb ctx (BatchHeader_SignerPublicKey h)) (Batch_Transactions b)
     | _ \<Rightarrow> False)"

text \<open>The clients that NewIntkeyClient makes, with a key at which the curve library is sound.\<close>

definition client_ok :: "('c, 'p, 'q) ellcurv \<Rightarrow> batch_pb \<Rightarrow> IntkeyClient \<Rightarrow> bool" where
  "client_ok L pb self \<longleftrightarrow> signer_context (ic_signer self) = NewSecp256k1Context L \<and>
     ecdsa_ok L (signer_private_key (ic_signer self)) \<and>
     (\<forall>m. codec_ok (bpTransactionHeader pb) m) \<and> (\<forall>m. codec_ok (bpBatchHeader pb) m) \<and> (\<forall>m. codec_ok (bpBatchList pb) m)"

lemma client_sign:
  assumes "client_ok L pb self"
  obtains sig where "Signer_Sign (ic_signer self) data = Ret sig"
    "signature_valid (NewSecp256k1Context L) (pub_AsHex (Signer_GetPublicKey (ic_signer self))) data (EncodeToString sig)"
proof -
  have ok: "ecdsa_ok L (signer_private_key (ic_signer self))" "signer_context (ic_signer self) = NewSecp256k1Context L"
    using assms by (simp_all add: client_ok_def)
  have pub: "Signer_GetPublicKey (ic_signer self) =
      NewSecp256k1PublicKey (SerializeCompressed L (snd (PrivKeyFromBytes L (S256 L) (pk_AsBytes (signer_private_key (ic_signer self))))))"
    by (simp add: Signer_GetPublicKey_def ok(2) Secp256k1Context_GetPublicKey_def case_prod_beta)
  obtain sig where sig: "Signer_Sign (ic_signer self) data = Ret sig"
    "ctx_Verify (NewSecp256k1Context L) sig data (Signer_GetPublicKey (ic_signer self)) = Ret True"
    using secp.signer [OF ok, of data] by blast
  show thesis
    by (rule that [OF sig(1)]) (use sig(2) pub in \<open>simp add: signature_valid_def\<close>)
qed

lemma make_transaction_valid:
  assumes "client_ok L pb self"
  obtains t where "make_transaction pb self name payload nonce = Ret (Inr t)" "Transaction_Payload t = payload"
    "Unmarshal (bpTransactionHeader pb) (Transaction_Header t) = (transaction_header self name payload nonce, None)"
    "valid_transaction pb (NewSecp256k1Context L) (pub_AsHex (Signer_GetPublicKey (ic_signer self))) t"
proof -
  let ?h = "transaction_header self name payload nonce"
  from assms have "codec_ok (bpTransactionHeader pb) ?h" by (simp add: client_ok_def)
  then obtain d where d: "Marshal (bpTransactionHeader pb) ?h = (d, None)" "Unmarshal (bpTransactionHeader pb) d = (?h, None)"
    by (rule codec_okE)
  from assms obtain sig where sig: "Signer_Sign (ic_signer self) d = Ret sig"
    "signature_valid (NewSecp256k1Context L) (pub_AsHex (Signer_GetPublicKey (ic_signer self))) d (EncodeToString sig)"
    by (rule client_sign)
  let ?t = "\<lparr>Transaction_Header = d, Transaction_HeaderSignature = EncodeToString sig, Transaction_Payload = payload\<rparr>"
  have "valid_transaction pb (NewSecp256k1Context L) (pub_AsHex (Signer_GetPublicKey (ic_signer self))) ?t"
    using d(2) sig(2) by (simp add: valid_transaction_def transaction_header_def Let_def Sha512HashValue_def)
  with d sig(1) that [of ?t] show thesis by (simp add: make_transaction_def)
qed

lemma createBatchList_valid:
  assumes "client_ok L pb self"
    and "list_all (valid_transaction pb (NewSecp256k1Context L) (pub_AsHex (Signer_GetPublicKey (ic_signer self)))) ts"
  obtains b where "createBatchList pb self ts = Ret (Inr \<lparr>BatchList_Batches = [b]\<rparr>)"
    "Batch_Transactions b = ts" "valid_batch pb (NewSecp256k1Context L) b"
proof -
  let ?h = "\<lparr>BatchHeader_SignerPublicKey = pub_AsHex (Signer_GetPublicKey (ic_signer self)),
    BatchHeader_TransactionIds = map Transaction_HeaderSignature ts\<rparr>"
  from assms(1) have "codec_ok (bpBatchHeader pb) ?h" by (simp add: client_ok_def)
  then obtain d where d: "Marshal (bpBatchHeader pb) ?h = (d, None)" "Unmarshal (bpBatchHeader pb) d = (?h, None)"
    by (rule codec_okE)
  from assms(1) obtain sig where sig: "Signer_Sign (ic_signer self) d = Ret sig"
    "signature_valid (NewSecp256k1Context L) (pub_AsHex (Signer_GetPublicKey (ic_signer self))) d (EncodeToString sig)"
    by (rule client_sign)
  let ?b = "\<lparr>Batch_Header = d, Batch_HeaderSignature = EncodeToString sig, Batch_Transactions = ts, Batch_Trace = False\<rparr>"
  have "valid_batch pb (NewSecp256k1Context L) ?b"
    using d(2) sig(2) assms(2) by (simp add: valid_batch_def)
  with d sig(1) that [of ?b] show thesis by (simp add: createBatchList_def Let_def)
qed

section \<open>The wait ends\<close>

text \<open>
  A world with a clock: every reading of the clock is later than the one before, requests do not
  turn it back, and a GET request is answered.
\<close>

definition clock_runs :: "'w client_env \<Rightarrow> ('w \<Rightarrow> int) \<Rightarrow> bool" where
  "clock_runs E clock \<longleftrightarrow>
    (\<forall>w. clock w < fst (time_Now E w) \<and> clock (snd (time_Now E w)) = fst (time_Now E w)) \<and>
    (\<forall>url w. fst (http_Get E url w) \<noteq> Block \<and> clock w \<le> clock (snd (http_Get E url w)))"

lemma getStatus_clock:
  assumes "clock_runs E clock" "getStatus D E self batchId wait w = (r, w')"
  shows "r \<noteq> Block \<and> clock w \<le> clock w'"
proof -
  have "fst (http_Get E url w) \<noteq> Block \<and> clock w \<le> clock (snd (http_Get E url w))" for url
    using assms(1) by (simp add: clock_runs_def)
  from this [of "request_url self (BATCH_STATUS_API @ ''?id='' @ batchId @ ''&wait='' @ Itoa (uint wait))"] assms(2)
  show ?thesis
    by (auto simp: getStatus_def sendRequest_def Let_def bindP_def pureP_def status_of_def
        split: prod.splits outcome.splits sum.splits if_splits option.splits any.splits list.splits)
qed

lemma elapsed_ge:
  assumes "uint wait < 2 ^ 63" "uint wait \<le> now - start"
  shows "\<not> (word_of_int (time_Sub now start) :: 64 word) < wait"
proof -
  have "0 \<le> now - start" using assms uint_ge_0 [of wait] by linarith
  then have "0 \<le> time_Sub now start" "time_Sub now start < 2 ^ 64" by (simp_all add: time_Sub_def)
  then have "uint (word_of_int (time_Sub now start) :: 64 word) = time_Sub now start"
    by (simp add: uint_word_of_int)
  moreover have "uint wait \<le> time_Sub now start" using assms by (simp add: time_Sub_def)
  ultimately show ?thesis by (simp add: word_less_def)
qed

lemma wait_status_ends:
  assumes "clock_runs E clock" "uint wait < 2 ^ 63"
  shows "\<exists>r w'. wait_status D E self batchId wait start response waitTime w = Some (r, w') \<and> r \<noteq> Block"
proof (induction "nat (start + uint wait - clock w)" arbitrary: waitTime w rule: less_induct)
  case less
  obtain r w1 where r: "getStatus D E self batchId (wait - waitTime) w = (r, w1)" by fastforce
  from getStatus_clock [OF assms(1) this] have w1: "r \<noteq> Block" "clock w \<le> clock w1" by simp_all
  obtain now w2 where now: "time_Now E w1 = (now, w2)" by fastforce
  have "clock w1 < fst (time_Now E w1) \<and> clock (snd (time_Now E w1)) = fst (time_Now E w1)"
    using assms(1) unfolding clock_runs_def by blast
  with now have w2: "clock w1 < now" "clock w2 = now" by simp_all
  have rec: "\<exists>r w'. wait_status D E self batchId wait start response (word_of_int (time_Sub now start)) w2 = Some (r, w') \<and> r \<noteq> Block"
  proof (cases "uint wait \<le> now - start")
    case True
    from elapsed_ge [OF assms(2) this] show ?thesis by (subst wait_status.simps) (simp only: if_False, simp)
  next
    case False
    with w1(2) w2 have "nat (start + uint wait - clock w2) < nat (start + uint wait - clock w)" by simp
    then show ?thesis by (rule less)
  qed
  show ?case
  proof (cases "waitTime < wait")
    case False
    then show ?thesis by (subst wait_status.simps) simp
  next
    case True
    consider (err) e where "r = Ret (Inl e)" | (status) s where "r = Ret (Inr s)" | (panic) e where "r = Panic e"
      using w1(1) by (metis outcome.exhaust sum.exhaust)
    then show ?thesis
    proof cases
      case status
      with True r now rec show ?thesis by (cases "s = ''PENDING''") (simp_all add: wait_status.simps [of D E self batchId wait start response waitTime w])
    qed (use True r in \<open>simp_all add: wait_status.simps [of D E self batchId wait start response waitTime w]\<close>)
  qed
qed

lemma sendRequest_answered:
  assumes "\<forall>url w. fst (http_Get E url w) \<noteq> Block" "\<forall>url t d w. fst (http_Post E url t d w) \<noteq> Block"
  shows "fst (sendRequest E self api data t name w) \<noteq> Block"
proof -
  let ?call = "if length data > 0 then http_Post E (request_url self api) t data else http_Get E (request_url self api)"
  obtain r w' where r: "?call w = (r, w')" by fastforce
  then have "r \<noteq> Block" using assms by (metis fst_conv)
  with r show ?thesis
    by (auto simp: sendRequest_def Let_def bindP_def split: outcome.splits sum.splits simp del: length_greater_0_conv)
qed

lemma submit_answered:
  assumes "clock_runs E clock" "uint wait < 2 ^ 63" "\<forall>url t d w. fst (http_Post E url t d w) \<noteq> Block"
  shows "fst (submit D E self batchId batchList name wait w) \<noteq> Block"
proof -
  have "\<forall>url w. fst (http_Get E url w) \<noteq> Block" using assms(1) by (simp add: clock_runs_def)
  from sendRequest_answered [OF this assms(3)]
  have req: "fst (sendRequest E self api data t name w) \<noteq> Block" for api data t name w .
  obtain start w1 where start: "time_Now E w = (start, w1)" by fastforce
  obtain r w2 where r: "sendRequest E self BATCH_SUBMIT_API batchList CONTENT_TYPE_OCTET_STREAM name w1 = (r, w2)" by fastforce
  with req [of BATCH_SUBMIT_API batchList CONTENT_TYPE_OCTET_STREAM name w1] have nb: "r \<noteq> Block" by simp
  have ends: "\<exists>x w'. wait_status D E self batchId wait start response 0 w2 = Some (x, w') \<and> x \<noteq> Block" for response
    using assms(1,2) by (rule wait_status_ends)
  show ?thesis
  proof (cases "wait > 0")
    case False
    then show ?thesis using req by (simp add: submit_def)
  next
    case True
    show ?thesis
    proof (cases r)
      case (Ret x)
      show ?thesis
      proof (cases x)
        case (Inr response)
        from ends [of response] obtain y w' where "wait_status D E self batchId wait start response 0 w2 = Some (y, w')" "y \<noteq> Block"
          by blast
        with True start r Ret Inr show ?thesis by (simp add: submit_def envP_def)
      qed (use True start r Ret in \<open>simp add: submit_def envP_def\<close>)
    qed (use True start r nb in \<open>simp_all add: submit_def envP_def\<close>)
  qed
qed

lemma sendTransaction_submits:
  assumes ok: "client_ok L pb self" and payload: "cbor_Dumps D (payload_map verb name value) = (payload, None)"
    and nonce: "rand_Int E w = (nonce, w1)"
  obtains t b where "Unmarshal (bpTransactionHeader pb) (Transaction_Header t) = (transaction_header self name payload nonce, None)"
    "Transaction_Payload t = payload" "Batch_Transactions b = [t]" "valid_batch pb (NewSecp256k1Context L) b"
    "Unmarshal (bpBatchList pb) (fst (Marshal (bpBatchList pb) \<lparr>BatchList_Batches = [b]\<rparr>)) = (\<lparr>BatchList_Batches = [b]\<rparr>, None)"
    "sendTransaction pb D E self verb name value wait w =
      submit D E self (Batch_HeaderSignature b) (fst (Marshal (bpBatchList pb) \<lparr>BatchList_Batches = [b]\<rparr>)) name wait w1"
proof -
  from ok obtain t where t: "make_transaction pb self name payload nonce = Ret (Inr t)" "Transaction_Payload t = payload"
    "Unmarshal (bpTransactionHeader pb) (Transaction_Header t) = (transaction_header self name payload nonce, None)"
    "valid_transaction pb (NewSecp256k1Context L) (pub_AsHex (Signer_GetPublicKey (ic_signer self))) t"
    by (rule make_transaction_valid)
  from t(4) have "list_all (valid_transaction pb (NewSecp256k1Context L) (pub_AsHex (Signer_GetPublicKey (ic_signer self)))) [t]"
    by simp
  with ok obtain b where b: "createBatchList pb self [t] = Ret (Inr \<lparr>BatchList_Batches = [b]\<rparr>)"
    "Batch_Transactions b = [t]" "valid_batch pb (NewSecp256k1Context L) b"
    by (rule createBatchList_valid)
  from ok have "codec_ok (bpBatchList pb) \<lparr>BatchList_Batches = [b]\<rparr>" by (simp add: client_ok_def)
  then obtain d where d: "Marshal (bpBatchList pb) \<lparr>BatchList_Batches = [b]\<rparr> = (d, None)"
    "Unmarshal (bpBatchList pb) d = (\<lparr>BatchList_Batches = [b]\<rparr>, None)" by (rule codec_okE)
  show thesis
    by (rule that [OF t(3,2) b(2,3)])
      (use d payload nonce t(1) b(1) in \<open>simp_all add: sendTransaction_def envP_def\<close>)
qed

section \<open>A concrete environment\<close>

text \<open>
  A REST API that accepts every batch and reports it as pending; the world is the time, and every
  reading of the clock takes a nanosecond.  The CBOR library encodes every payload as one byte.
\<close>

definition demo_env :: "int client_env" where
  "demo_env = \<lparr>
     http_Post = (\<lambda>url t d w. (Ret (Inr \<lparr>StatusCode = 202, Status = ''202 Accepted'', Body = Inr ''link''\<rparr>), w)),
     http_Get = (\<lambda>url w. (Ret (Inr \<lparr>StatusCode = 200, Status = ''200 OK'', Body = Inr ''pending''\<rparr>), w + 1000)),
     time_Now = (\<lambda>w. (w + 1, w + 1)), rand_Int = (\<lambda>w. (4, w)), rand_Read = (\<lambda>w. (''r'', w)),
     ReadFile = (\<lambda>f w. (Inr ''key'', w))\<rparr>"

definition demo_docs :: client_docs where
  "demo_docs = \<lparr>
     yaml_Unmarshal = (\<lambda>s. ([(AString ''data'', ASlice [AMap [(AString ''status'', AString ''PENDING'')]])], None)),
     cbor_Dumps = (\<lambda>m. (''p'', None)), cbor_Loads = (\<lambda>b. (Loaded None, []))\<rparr>"

definition demo_client :: IntkeyClient where
  "demo_client = \<lparr>ic_url = ''localhost:8008'',
     ic_signer = NewSigner (NewCryptoFactory (NewSecp256k1Context demo_ellcurv)) (NewSecp256k1PrivateKey ''key'')\<rparr>"

lemma demo_client_ok: "client_ok demo_ellcurv unary_batch_pb demo_client"
  by (simp add: client_ok_def demo_client_def NewSigner_def NewCryptoFactory_def)

lemma demo_clock_runs: "clock_runs demo_env (\<lambda>w. w)"
  by (simp add: clock_runs_def demo_env_def)

lemma demo_post: "\<forall>url t d w. fst (http_Post demo_env url t d w) \<noteq> Block"
  by (simp add: demo_env_def)

section \<open>Properties\<close>

text \<open>
  C25: client and transaction processor compute the same addresses.  The address the client puts
  into the inputs and outputs of a transaction, and asks the REST API for, is the address at which
  the handler that the processor's main function registers stores the name; it has 70 characters
  and starts with the prefix under which the client lists all values.
\<close>

theorem client_address_agrees:
  "getAddress self name = intkey_address intkey_main_handler name \<and>
   getPrefix self = ih_namespace intkey_main_handler \<and>
   take 6 (getAddress self name) = getPrefix self \<and> length (getAddress self name) = 70"
  by (simp add: getAddress_def getPrefix_def Sha512HashValue_Hexdigest intkey_address_def
      intkey_main_handler_def NewIntkeyHandler_def)

text \<open>
  C15: every submitted batch passes the checks of a validator.  Whatever the verb, the name, the
  value and the nonce, sendTransaction submits one batch with one transaction: the signatures of
  both verify under the public keys of their headers, the batch header lists the transaction, the
  payload has the hash of its header, and the header names the intkey family and declares the
  handler's address of the name as the only input and output.
\<close>

theorem submitted_batch_valid:
  assumes "client_ok L pb self" "cbor_Dumps D (payload_map verb name value) = (payload, None)"
    and "rand_Int E w = (nonce, w1)"
  shows "\<exists>b data t h. sendTransaction pb D E self verb name value wait w = submit D E self (Batch_HeaderSignature b) data name wait w1 \<and>
    Unmarshal (bpBatchList pb) data = (\<lparr>BatchList_Batches = [b]\<rparr>, None) \<and>
    valid_batch pb (NewSecp256k1Context L) b \<and> Batch_Transactions b = [t] \<and> Transaction_Payload t = payload \<and>
    Unmarshal (bpTransactionHeader pb) (Transaction_Header t) = (h, None) \<and>
    TransactionHeader_FamilyName h = Intkey_FamilyName intkey_main_handler \<and>
    TransactionHeader_FamilyVersion h \<in> set (Intkey_FamilyVersions intkey_main_handler) \<and>
    TransactionHeader_Inputs h = [intkey_address intkey_main_handler name] \<and>
    TransactionHeader_Outputs h = [intkey_address intkey_main_handler name]"
proof -
  obtain t b where t: "Unmarshal (bpTransactionHeader pb) (Transaction_Header t) = (transaction_header self name payload nonce, None)"
      "Transaction_Payload t = payload" "Batch_Transactions b = [t]" "valid_batch pb (NewSecp256k1Context L) b"
      "Unmarshal (bpBatchList pb) (fst (Marshal (bpBatchList pb) \<lparr>BatchList_Batches = [b]\<rparr>)) = (\<lparr>BatchList_Batches = [b]\<rparr>, None)"
      "sendTransaction pb D E self verb name value wait w =
        submit D E self (Batch_HeaderSignature b) (fst (Marshal (bpBatchList pb) \<lparr>BatchList_Batches = [b]\<rparr>)) name wait w1"
    using sendTransaction_submits [OF assms] by blast
  show ?thesis
    by (rule exI [of _ b], rule exI [of _ "fst (Marshal (bpBatchList pb) \<lparr>BatchList_Batches = [b]\<rparr>)"],
        rule exI [of _ t], rule exI [of _ "transaction_header self name payload nonce"])
      (simp add: t, simp add: transaction_header_def Let_def getAddress_handler Intkey_FamilyName_def Intkey_FamilyVersions_def)
qed

lemma submitted_batch_valid_witness:
  "\<exists>b data. sendTransaction unary_batch_pb demo_docs demo_env demo_client ''set'' ''x'' 7 0 100 =
      submit demo_docs demo_env demo_client (Batch_HeaderSignature b) data ''x'' 0 100 \<and>
    valid_batch unary_batch_pb (NewSecp256k1Context demo_ellcurv) b"
  using submitted_batch_valid [OF demo_client_ok, of demo_docs "''set''" "''x''" 7 "''p''" demo_env 100 4 100 0]
  by (auto simp: demo_docs_def demo_env_def)

text \<open>
  C31: a submission with a waiting time ends.  When the clock advances, the REST API answers and
  the waiting time is below 2 to the 63, sendTransaction does not wait for ever, even if the
  status of the batch stays pending: it returns a response or an error, or panics on a status
  response of the wrong shape.
\<close>

theorem sendTransaction_ends:
  assumes "clock_runs E clock" "uint wait < 2 ^ 63" "\<forall>url t d w. fst (http_Post E url t d w) \<noteq> Block"
    and "client_ok L pb self"
  shows "fst (sendTransaction pb D E self verb name value wait w) \<noteq> Block"
proof (cases "cbor_Dumps D (payload_map verb name value)")
  case (Pair payload err)
  show ?thesis
  proof (cases err)
    case None
    obtain nonce w1 where nonce: "rand_Int E w = (nonce, w1)" by fastforce
    from Pair None have payload: "cbor_Dumps D (payload_map verb name value) = (payload, None)" by simp
    show ?thesis
      by (rule sendTransaction_submits [OF assms(4) payload nonce, of wait])
        (simp only: submit_answered [OF assms(1-3)] not_False_eq_True)
  qed (use Pair in \<open>simp add: sendTransaction_def\<close>)
qed

lemma sendTransaction_ends_witness:
  "fst (sendTransaction unary_batch_pb demo_docs demo_env demo_client ''set'' ''x'' 7 60 100) \<noteq> Block"
  by (rule sendTransaction_ends [OF demo_clock_runs _ demo_post demo_client_ok]) simp

text \<open>
  The waiting time is compared with nanoseconds.  The client asks for the status of the batch
  once and then stops waiting, whatever the status, as soon as \<open>wait\<close> nanoseconds have passed
  since the submission, although \<open>wait\<close> counts seconds.
\<close>

theorem wait_polls_once:
  assumes "0 < wait" "uint wait < 2 ^ 63"
    and "getStatus D E self batchId wait w = (Ret (Inr status), w1)" "time_Now E w1 = (now, w2)"
    and "uint wait \<le> now - start"
  shows "wait_status D E self batchId wait start response 0 w = Some (Ret (Inr response), w2)"
proof -
  from elapsed_ge [OF assms(2,5)]
  have "wait_status D E self batchId wait start response (word_of_int (time_Sub now start)) w2 = Some (Ret (Inr response), w2)"
    by (subst wait_status.simps) (simp only: if_False)
  with assms(1,3,4) show ?thesis by (subst wait_status.simps) simp
qed

text \<open>A batch that is still pending after one microsecond, with a waiting time of 60.\<close>

lemma wait_polls_once_witness:
  "wait_status demo_docs demo_env demo_client ''id'' 60 100 ''link'' 0 100 = Some (Ret (Inr ''link''), 1101)"
proof (rule wait_polls_once [where now = 1101])
  show "getStatus demo_docs demo_env demo_client ''id'' 60 100 = (Ret (Inr ''PENDING''), 1100)"
    by (simp add: getStatus_def sendRequest_def Let_def demo_env_def demo_docs_def status_of_def any_at_def)
qed (simp_all add: demo_env_def)

end
