(* ===== verification/Executables.thy ===== *)
theory Executables
  imports Logging Processor Tp_System Smallbank Xo Noop Devmode Consensus_Engine Intkey_Client
begin

text \<open>
  The main functions of the example transaction processors (noop, intkey, smallbank, xo) and of the
  devmode consensus engine, and ShutdownOnSignal of processor/processor.go and
  consensus/engine.go.  A main function reads its options, sets the level of the log, builds the
  processor or engine from the parts modelled elsewhere and starts it.

  The parser of go-flags is a parameter: from the arguments it gives the options, an error, or the
  request for help.  The flag package of the Go library, which noop uses, is modelled.
\<close>

section \<open>The process\<close>

text \<open>
  What a main function acts on: the log, the signals that are relayed to the channel of
  ShutdownOnSignal, and how far the goroutine that waits on that channel has come.
\<close>

datatype waiter = NoWaiter | StartingWaiter | ReadyWaiter | DoneWaiter

record process =
  pr_logs :: logs
  pr_relayed :: "int set"
  pr_waiter :: waiter

definition on_logs :: "(logs, 'a) proc \<Rightarrow> (process, 'a) proc" where
  "on_logs m p = (case m (pr_logs p) of (x, l) \<Rightarrow> (x, p\<lparr>pr_logs := l\<rparr>))"

definition os_Printf :: "string \<Rightarrow> operand list \<Rightarrow> (process, unit) proc" where
  "os_Printf format v = on_logs (\<lambda>l. (Ret (), write_to Stdout (Sprintf format v) l))"

datatype main_end = MainReturns | Exits int

abbreviation (input) SIGINT :: int where "SIGINT \<equiv> 2"
abbreviation (input) SIGTERM :: int where "SIGTERM \<equiv> 15"

text \<open>The operand for an error value, the one for a list of strings and the one for a number.\<close>

definition error_operand :: "go_error \<Rightarrow> operand" where
  "error_operand e = \<lparr>op_type = Some ''error'', op_string = False, op_fmt = (\<lambda>_ _. Error e)\<rparr>"

definition strings_operand :: "string list \<Rightarrow> operand" where
  "strings_operand xs = \<lparr>op_type = Some ''[]string'', op_string = False, op_fmt = (\<lambda>_ _. fmt_v (ASlice (map AString xs)))\<rparr>"

definition int_operand :: "int \<Rightarrow> operand" where
  "int_operand i = \<lparr>op_type = Some ''int'', op_string = False, op_fmt = (\<lambda>_ _. Itoa i)\<rparr>"

section \<open>Signals\<close>

text \<open>
  signal.Notify without signals relays all of them, and signal.Reset without signals resets all.
\<close>

definition listed :: "int list \<Rightarrow> int set" where
  "listed siglist = (if siglist = [] then UNIV else set siglist)"

definition ShutdownOnSignal :: "int list \<Rightarrow> (process, unit) proc" where
  "ShutdownOnSignal siglist p = (Ret (), p\<lparr>pr_relayed := pr_relayed p \<union> listed siglist, pr_waiter := StartingWaiter\<rparr>)"

text \<open>
  What the goroutine does with the first signal it receives.  \<open>shut\<close> is the call of Shutdown on
  the processor or engine, whose state is the second component.
\<close>

definition shutdown_goroutine :: "call \<Rightarrow> int list \<Rightarrow> ('r, unit) proc \<Rightarrow> (process \<times> 'r, unit) proc" where
  "shutdown_goroutine c siglist shut = (\<lambda>(p, r).
    (let p = p\<lparr>pr_relayed := pr_relayed p - listed siglist, pr_waiter := DoneWaiter\<rparr> in
     case on_logs (Warnf c ''Shutting down gracefully (Press Ctrl+C again to force)'' []) p of
       (Ret _, p) \<Rightarrow> (case shut r of (out, r) \<Rightarrow> (out, (p, r)))
     | (Panic e, p) \<Rightarrow> (Panic e, (p, r))
     | (Block, p) \<Rightarrow> (Block, (p, r))))"

text \<open>
  The signals that end a Go program when they are not relayed: those for which the runtime exits,
  with or without a stack dump, and the one that cannot be caught (numbers of Linux: SIGHUP, SIGINT,
  SIGQUIT, SIGILL, SIGTRAP, SIGABRT, SIGBUS, SIGFPE, SIGKILL, SIGSEGV, SIGTERM, SIGSTKFLT, SIGSYS).
\<close>

definition ends_process :: "int \<Rightarrow> bool" where
  "ends_process sig \<longleftrightarrow> sig \<in> {1, 2, 3, 4, 5, 6, 7, 8, 9, 11, 15, 16, 31}"

text \<open>
  A signal arrives.  The result says whether the process goes on.  A signal that is not relayed has
  its default effect.  A relayed one is offered to the channel, which has no buffer: it is received
  when the goroutine waits, and is dropped otherwise.
\<close>

definition signal_arrives :: "call \<Rightarrow> int list \<Rightarrow> ('r, unit) proc \<Rightarrow> int \<Rightarrow> (process \<times> 'r, bool) proc" where
  "signal_arrives c siglist shut sig = (\<lambda>(p, r).
    if sig \<notin> pr_relayed p then (Ret (\<not> ends_process sig), (p, r))
    else if pr_waiter p = ReadyWaiter then bindP (shutdown_goroutine c siglist shut) (\<lambda>_. retP True) (p, r)
    else (Ret True, (p, r)))"

definition goroutine_waits :: "process \<times> 'r \<Rightarrow> process \<times> 'r" where
  "goroutine_waits = (\<lambda>(p, r). (if pr_waiter p = StartingWaiter then p\<lparr>pr_waiter := ReadyWaiter\<rparr> else p, r))"

section \<open>The processors\<close>

text \<open>The end of each main function of a processor: start it and report an error.\<close>

definition start_processor :: "call \<Rightarrow> go_error option outcome \<Rightarrow> (process, main_end) proc" where
  "start_processor c result =
    bindP (ShutdownOnSignal [SIGINT, SIGTERM]) (\<lambda>_.
      case result of
        Ret None \<Rightarrow> retP MainReturns
      | Ret (Some err) \<Rightarrow>
         bindP (on_logs (Logger_Error c [text_operand ''Processor stopped: '', error_operand err])) (\<lambda>_. retP MainReturns)
      | Panic e \<Rightarrow> panicP e
      | Block \<Rightarrow> (\<lambda>p. (Block, p)))"

text \<open>The result of the parser of go-flags.\<close>

datatype 'o flags_result = FlagsHelp | FlagsFailed go_error | FlagsParsed 'o "string list"

record engine_opts =
  opt_Verbose :: "bool list"
  opt_Connect :: string

record processor_opts = engine_opts +
  opt_Queue :: nat
  opt_Threads :: nat

definition verbosity_level :: "nat \<Rightarrow> int" where
  "verbosity_level n = (if n = 2 then DEBUG else if n = 1 then INFO else WARN)"

definition smallbank_level :: "nat \<Rightarrow> int" where
  "smallbank_level n = (if n = 0 then WARN else if n = 1 then INFO else DEBUG)"

text \<open>
  What is outside a main function: the number of processors, the time and place of its log calls
  by line, and how the processor's Start ends, which the model of the main thread gives.
\<close>

record 's main_env =
  me_procs :: nat
  me_call :: "nat \<Rightarrow> call"
  me_args :: "string list"
  me_start :: "'s TransactionProcessor \<Rightarrow> go_error option outcome"

definition intkey_processor :: "intkey_cbor \<Rightarrow> nat \<Rightarrow> processor_opts \<Rightarrow> 's TransactionProcessor" where
  "intkey_processor cb procs opts =
    (let processor = SetMaxQueueSize (opt_Queue opts) (NewTransactionProcessor procs (opt_Connect opts));
         processor = (if opt_Threads opts > 0 then SetThreadCount (opt_Threads opts) processor else processor)
     in AddHandler (intkey_handler cb intkey_main_handler) processor)"

definition intkey_main ::
  "intkey_cbor \<Rightarrow> (string list \<Rightarrow> processor_opts flags_result) \<Rightarrow> 's main_env \<Rightarrow> (process, main_end) proc" where
  "intkey_main cb parse env =
    bindP (on_logs logging_Get) (\<lambda>_.
      case parse (me_args env) of
        FlagsHelp \<Rightarrow> retP (Exits 0)
      | FlagsFailed err \<Rightarrow>
         bindP (on_logs (Errorf (me_call env 48) ''Failed to parse args: %v'' [error_operand err])) (\<lambda>_. retP (Exits 2))
      | FlagsParsed opts remaining \<Rightarrow>
         if length remaining > 0 then
           bindP (os_Printf (''Error: Unrecognized arguments passed: %v'' @ [CHR 0x0A]) [strings_operand remaining]) (\<lambda>_. retP (Exits 2))
         else
           bindP (on_logs (SetLevel (verbosity_level (length (opt_Verbose opts))))) (\<lambda>_.
             start_processor (me_call env 80) (me_start env (intkey_processor cb (me_procs env) opts))))"

definition xo_handler :: "'s TransactionHandler" where
  "xo_handler = \<lparr>h_FamilyName = Xo_FamilyName, h_FamilyVersions = Xo_FamilyVersions,
     h_Namespaces = Xo_Namespaces, h_Apply = Xo_Apply\<rparr>"

definition xo_main ::
  "(string list \<Rightarrow> engine_opts flags_result) \<Rightarrow> 's main_env \<Rightarrow> (process, main_end) proc" where
  "xo_main parse env =
    bindP (on_logs logging_Get) (\<lambda>_.
      case parse (me_args env) of
        FlagsHelp \<Rightarrow> retP (Exits 0)
      | FlagsFailed err \<Rightarrow>
         bindP (on_logs (Errorf (me_call env 45) ''Failed to parse args: %v'' [error_operand err])) (\<lambda>_. retP (Exits 2))
      | FlagsParsed opts remaining \<Rightarrow>
         if length remaining > 0 then
           bindP (os_Printf (''Error: Unrecognized arguments passed: %v'' @ [CHR 0x0A]) [strings_operand remaining]) (\<lambda>_. retP (Exits 2))
         else
           bindP (on_logs (SetLevel (verbosity_level (length (opt_Verbose opts))))) (\<lambda>_.
           bindP (on_logs (Debugf (me_call env 66) ''command line arguments: %v'' [strings_operand (me_args env)])) (\<lambda>_.
           bindP (on_logs (Debugf (me_call env 67) (''verbose = %v'' @ [CHR 0x0A]) [int_operand (int (length (opt_Verbose opts)))])) (\<lambda>_.
           bindP (on_logs (Debugf (me_call env 68) (''endpoint = %v'' @ [CHR 0x0A]) [text_operand (opt_Connect opts)])) (\<lambda>_.
             start_processor (me_call env 76)
               (me_start env (AddHandler xo_handler (NewTransactionProcessor (me_procs env) (opt_Connect opts)))))))))"

definition smallbank_handler :: "smallbank_pb \<Rightarrow> 's TransactionHandler" where
  "smallbank_handler sb = \<lparr>h_FamilyName = Smallbank_FamilyName, h_FamilyVersions = Smallbank_FamilyVersions,
     h_Namespaces = Smallbank_Namespaces, h_Apply = Smallbank_Apply sb\<rparr>"

definition smallbank_processor :: "smallbank_pb \<Rightarrow> nat \<Rightarrow> processor_opts \<Rightarrow> 's TransactionProcessor" where
  "smallbank_processor sb procs opts =
    (let processor = SetMaxQueueSize (opt_Queue opts) (NewTransactionProcessor procs (opt_Connect opts));
         processor = (if opt_Threads opts > 0 then SetThreadCount (opt_Threads opts) processor else processor)
     in AddHandler (smallbank_handler sb) processor)"

text \<open>Arguments left over are not looked at here.\<close>

definition smallbank_main ::
  "smallbank_pb \<Rightarrow> (string list \<Rightarrow> processor_opts flags_result) \<Rightarrow> 's main_env \<Rightarrow> (process, main_end) proc" where
  "smallbank_main sb parse env =
    bindP (on_logs logging_Get) (\<lambda>_.
      case parse (me_args env) of
        FlagsHelp \<Rightarrow> retP (Exits 0)
      | FlagsFailed err \<Rightarrow>
         bindP (on_logs (Logger_Error (me_call env 45) [text_operand ''Failed to parse args: '', error_operand err])) (\<lambda>_. retP (Exits 2))
      | FlagsParsed opts _ \<Rightarrow>
         bindP (on_logs (SetLevel (smallbank_level (length (opt_Verbose opts))))) (\<lambda>_.
         bindP (on_logs (Debugf (me_call env 61) ''command line arguments: %v'' [strings_operand (me_args env)])) (\<lambda>_.
         bindP (on_logs (Debugf (me_call env 62) (''verbose = %v'' @ [CHR 0x0A]) [int_operand (int (length (opt_Verbose opts)))])) (\<lambda>_.
         bindP (on_logs (Debugf (me_call env 63) (''endpoint = %v'' @ [CHR 0x0A]) [text_operand (opt_Connect opts)])) (\<lambda>_.
           start_processor (me_call env 75) (me_start env (smallbank_processor sb (me_procs env) opts)))))))"

subsection \<open>The flag package and noop\<close>

text \<open>The two flags of noop, and the result of flag.Parse: help, an error, or the arguments left over.\<close>

record noop_flags =
  nf_v :: bool
  nf_vv :: bool

datatype flag_result = FlagHelp | FlagBad | FlagsDone noop_flags "string list"

definition ParseBool :: "string \<Rightarrow> bool option" where
  "ParseBool s =
    (if s \<in> {''1'', ''t'', ''T'', ''TRUE'', ''true'', ''True''} then Some True
     else if s \<in> {''0'', ''f'', ''F'', ''FALSE'', ''false'', ''False''} then Some False else None)"

text \<open>A flag may carry a value after an equals sign, which cannot be its first character.\<close>

definition split_value :: "string \<Rightarrow> string \<times> string option" where
  "split_value name =
    (let n = takeWhile (\<lambda>c. c \<noteq> CHR ''='') name in
     if n = name then (name, None) else (n, Some (drop (Suc (length n)) name)))"

definition set_flag :: "string \<Rightarrow> bool \<Rightarrow> noop_flags \<Rightarrow> noop_flags" where
  "set_flag n b flags = (if n = ''v'' then flags\<lparr>nf_v := b\<rparr> else flags\<lparr>nf_vv := b\<rparr>)"

fun flag_Parse :: "noop_flags \<Rightarrow> string list \<Rightarrow> flag_result" where
  "flag_Parse flags [] = FlagsDone flags []"
| "flag_Parse flags (s # args) =
    (if length s < 2 \<or> hd s \<noteq> CHR ''-'' then FlagsDone flags (s # args)
     else if s = ''--'' then FlagsDone flags args
     else
       (let name = (if s ! 1 = CHR ''-'' then drop 2 s else drop 1 s) in
        if name = [] \<or> hd name = CHR ''-'' \<or> hd name = CHR ''='' then FlagBad
        else
          (case split_value name of (n, value') \<Rightarrow>
            if n = ''v'' \<or> n = ''vv'' then
              (case (case value' of None \<Rightarrow> Some True | Some t \<Rightarrow> ParseBool t) of
                 None \<Rightarrow> FlagBad
               | Some b \<Rightarrow> flag_Parse (set_flag n b flags) args)
            else if n = ''help'' \<or> n = ''h'' then FlagHelp
            else FlagBad)))"

definition noop_level :: "noop_flags \<Rightarrow> int" where
  "noop_level flags =
    (let level = WARN;
         level = (if nf_v flags then INFO else level);
         level = (if nf_vv flags then DEBUG else level)
     in level)"

definition noop_handler :: "NoopHandler \<Rightarrow> 's TransactionHandler" where
  "noop_handler self = \<lparr>h_FamilyName = Noop_FamilyName self, h_FamilyVersions = Noop_FamilyVersions self,
     h_Namespaces = Noop_Namespaces self, h_Apply = Noop_Apply self\<rparr>"

text \<open>The name of the program is not among the arguments that flag.Parse sees.\<close>

definition noop_main :: "'s main_env \<Rightarrow> (process, main_end) proc" where
  "noop_main env =
    (case flag_Parse \<lparr>nf_v = False, nf_vv = False\<rparr> (tl (me_args env)) of
       FlagHelp \<Rightarrow> retP (Exits 0)
     | FlagBad \<Rightarrow> retP (Exits 2)
     | FlagsDone flags args \<Rightarrow>
        (let endpoint = (case args of [] \<Rightarrow> ''tcp://localhost:4004'' | a # _ \<Rightarrow> a) in
         bindP (on_logs logging_Get) (\<lambda>_.
         bindP (on_logs (SetLevel (noop_level flags))) (\<lambda>_.
           let prefix = take 6 (Hexdigest ''noop''); handler = NewNoopHandler prefix in
           start_processor (me_call env 58)
             (me_start env (AddHandler (noop_handler handler) (NewTransactionProcessor (me_procs env) endpoint)))))))"

section \<open>The devmode engine\<close>

text \<open>ShutdownOnSignal of the engine is the same code; what Shutdown it calls differs.\<close>

definition Engine_ShutdownOnSignal :: "int list \<Rightarrow> (process, unit) proc" where
  "Engine_ShutdownOnSignal siglist p =
    (Ret (), p\<lparr>pr_relayed := pr_relayed p \<union> listed siglist, pr_waiter := StartingWaiter\<rparr>)"

definition devmode_impl :: ConsensusEngineImpl where
  "devmode_impl = \<lparr>impl_Name = Devmode_Name, impl_Version = Devmode_Version\<rparr>"

text \<open>
  The error that Start returns is not assigned: \<open>err\<close> still is the nil of the successful parse when
  it is tested.
\<close>

definition devmode_main ::
  "(string list \<Rightarrow> engine_opts flags_result) \<Rightarrow> (nat \<Rightarrow> call) \<Rightarrow> (ConsensusEngine \<Rightarrow> go_error option outcome) \<Rightarrow> string list \<Rightarrow>
   (process, main_end) proc" where
  "devmode_main parse at startEngine args =
    bindP (on_logs logging_Get) (\<lambda>_.
      case parse args of
        FlagsHelp \<Rightarrow> retP (Exits 0)
      | FlagsFailed err \<Rightarrow>
         bindP (on_logs (Errorf (at 54) ''Failed to parse args: %v'' [error_operand err])) (\<lambda>_. retP (Exits 2))
      | FlagsParsed opts remaining \<Rightarrow>
         if length remaining > 0 then
           bindP (os_Printf (''Error: Unrecognized arguments passed: %v'' @ [CHR 0x0A]) [strings_operand remaining]) (\<lambda>_. retP (Exits 2))
         else
           bindP (on_logs (SetLevel (verbosity_level (length (opt_Verbose opts))))) (\<lambda>_.
           bindP (Engine_ShutdownOnSignal [SIGINT, SIGTERM]) (\<lambda>_.
             let err = (None :: go_error option) in
             (case startEngine (NewConsensusEngine (opt_Connect opts) devmode_impl) of
                Ret _ \<Rightarrow>
                 (case err of
                    None \<Rightarrow> retP MainReturns
                  | Some e \<Rightarrow> bindP (on_logs (Errorf (at 79) ''Processor stopped: %v'' [error_operand e])) (\<lambda>_. retP MainReturns))
              | Panic e \<Rightarrow> panicP e
              | Block \<Rightarrow> (\<lambda>p. (Block, p))))))"

section \<open>Properties\<close>

text \<open>The logger after Get, the state of the log after Get and SetLevel, and one more line.\<close>

definition got_logger :: "logs \<Rightarrow> Logger" where
  "got_logger l = (case LOGGER l of
      None \<Rightarrow> \<lparr>lg_logger = \<lparr>ll_out = Stdout, ll_prefix = [], ll_flag = FLAGS\<rparr>, lg_level = DEBUG\<rparr>
    | Some g \<Rightarrow> g)"

definition leveled :: "int \<Rightarrow> process \<Rightarrow> process" where
  "leveled lev p = p\<lparr>pr_logs := (pr_logs p)\<lparr>LOGGER := Some ((got_logger (pr_logs p))\<lparr>lg_level := lev\<rparr>)\<rparr>\<rparr>"

definition with_line :: "string \<Rightarrow> process \<Rightarrow> process" where
  "with_line s p = p\<lparr>pr_logs := write_to (ll_out (lg_logger (got_logger (pr_logs p)))) s (pr_logs p)\<rparr>"

definition armed :: "process \<Rightarrow> process" where
  "armed p = p\<lparr>pr_relayed := pr_relayed p \<union> {SIGINT, SIGTERM}, pr_waiter := StartingWaiter\<rparr>"

text \<open>
  How a processor's main function ends, given how Start ends: a normal end returns silently, an
  error is reported in one line at the place of the call, a panic and a wait are passed on.
\<close>

definition main_result :: "call \<Rightarrow> go_error option outcome \<Rightarrow> (process, main_end) proc" where
  "main_result c result p =
    (case result of
       Ret None \<Rightarrow> (Ret MainReturns, p)
     | Ret (Some err) \<Rightarrow> (Ret MainReturns,
         with_line (log_line (lg_logger (got_logger (pr_logs p))) SevError (''Processor stopped: '' @ Error err) c) p)
     | Panic e \<Rightarrow> (Panic e, p)
     | Block \<Rightarrow> (Block, p))"

lemma got_leveled [simp]:
  "got_logger (pr_logs (leveled lev p)) = (got_logger (pr_logs p))\<lparr>lg_level := lev\<rparr>"
  "pr_logs (armed p) = pr_logs p"
  by (simp_all add: got_logger_def leveled_def armed_def)

lemma get_then_level:
  "bindP (on_logs logging_Get) (\<lambda>_. bindP (on_logs (SetLevel lev)) m) p = m () (leveled lev p)"
  by (simp add: on_logs_def logging_Get_def SetLevel_def logger_method_def leveled_def got_logger_def bindP_def split: option.split)

lemma on_logs_get:
  "on_logs logging_Get p = (Ret (), leveled (lg_level (got_logger (pr_logs p))) p)"
proof (cases "LOGGER (pr_logs p)")
  case (Some g)
  have "p = p\<lparr>pr_logs := (pr_logs p)\<lparr>LOGGER := Some g\<rparr>\<rparr>" using Some by (cases p; cases "pr_logs p") simp
  also have "\<dots> = leveled (lg_level (got_logger (pr_logs p))) p" using Some by (simp add: leveled_def got_logger_def)
  finally show ?thesis using Some by (simp add: on_logs_def logging_Get_def)
qed (simp add: on_logs_def logging_Get_def leveled_def got_logger_def)

lemma start_processor_eq:
  assumes "LOGGER (pr_logs p) = Some g" "lg_level g \<le> ERROR"
  shows "start_processor c result p = main_result c result (armed p)"
proof -
  have "Logger_Error c [text_operand ''Processor stopped: '', error_operand err] (pr_logs p) =
      (Ret (), write_to (ll_out (lg_logger g)) (log_line (lg_logger g) SevError (''Processor stopped: '' @ Error err) c) (pr_logs p))" for err
    using log_use_log [OF assms(1), of SevError "[text_operand ''Processor stopped: '', error_operand err]" c] assms(2)
    by (simp add: sev_level_def Sprint_def text_operand_def error_operand_def)
  then show ?thesis using assms
    by (cases result) (auto simp: start_processor_def ShutdownOnSignal_def listed_def main_result_def armed_def on_logs_def
        with_line_def got_logger_def bindP_def split: option.split)
qed

lemma leveled_start:
  assumes "lev \<le> ERROR"
  shows "start_processor c result (leveled lev p) = main_result c result (armed (leveled lev p))"
  using assms by (intro start_processor_eq [where g = "(got_logger (pr_logs p))\<lparr>lg_level := lev\<rparr>"]) (simp_all add: leveled_def)

lemma level_bounds [simp]: "verbosity_level n \<le> ERROR" "smallbank_level n \<le> ERROR" "noop_level flags \<le> ERROR"
  by (simp_all add: verbosity_level_def smallbank_level_def noop_level_def)

text \<open>The three lines with which xo and smallbank report their settings, at level DEBUG.\<close>

definition debug_lines :: "call \<Rightarrow> call \<Rightarrow> call \<Rightarrow> string list \<Rightarrow> nat \<Rightarrow> string \<Rightarrow> process \<Rightarrow> process" where
  "debug_lines c1 c2 c3 args n endpoint p =
    (let g = got_logger (pr_logs p); line = log_line (lg_logger g) SevDebug in
     if lg_level g \<le> DEBUG then
       with_line (line (Sprintf (''endpoint = %v'' @ [CHR 0x0A]) [text_operand endpoint]) c3)
         (with_line (line (Sprintf (''verbose = %v'' @ [CHR 0x0A]) [int_operand (int n)]) c2)
           (with_line (line (Sprintf ''command line arguments: %v'' [strings_operand args]) c1) p))
     else p)"

lemma on_logs_debugf:
  assumes "LOGGER (pr_logs p) = Some g"
  shows "on_logs (Debugf c f v) p = (Ret (),
    if lg_level g \<le> DEBUG then with_line (log_line (lg_logger g) SevDebug (Sprintf f v) c) p else p)"
  using log_use_logf [OF assms, of SevDebug f v c] assms
  by (simp add: on_logs_def with_line_def got_logger_def sev_level_def)

lemma with_line_logger [simp]: "LOGGER (pr_logs (with_line s p)) = LOGGER (pr_logs p)" "got_logger (pr_logs (with_line s p)) = got_logger (pr_logs p)"
  by (simp_all add: with_line_def got_logger_def)

lemma debug_lines_run:
  assumes "LOGGER (pr_logs p) = Some g"
  shows "bindP (on_logs (Debugf c1 ''command line arguments: %v'' [strings_operand args])) (\<lambda>_.
     bindP (on_logs (Debugf c2 (''verbose = %v'' @ [CHR 0x0A]) [int_operand (int n)])) (\<lambda>_.
     bindP (on_logs (Debugf c3 (''endpoint = %v'' @ [CHR 0x0A]) [text_operand endpoint])) m)) p =
    m () (debug_lines c1 c2 c3 args n endpoint p)"
  using assms by (simp add: bindP_def on_logs_debugf debug_lines_def Let_def got_logger_def del: append.simps(2))

lemma debug_lines_logger [simp]:
  "LOGGER (pr_logs (debug_lines c1 c2 c3 args n endpoint p)) = LOGGER (pr_logs p)"
  by (simp add: debug_lines_def Let_def)

lemma leveled_debug_start:
  assumes "lev \<le> ERROR"
  shows "bindP (on_logs (Debugf c1 ''command line arguments: %v'' [strings_operand args])) (\<lambda>_.
     bindP (on_logs (Debugf c2 (''verbose = %v'' @ [CHR 0x0A]) [int_operand (int n)])) (\<lambda>_.
     bindP (on_logs (Debugf c3 (''endpoint = %v'' @ [CHR 0x0A]) [text_operand endpoint])) (\<lambda>_.
       start_processor c result))) (leveled lev p) =
    main_result c result (armed (debug_lines c1 c2 c3 args n endpoint (leveled lev p)))"
proof -
  let ?p = "debug_lines c1 c2 c3 args n endpoint (leveled lev p)" and ?g = "(got_logger (pr_logs p))\<lparr>lg_level := lev\<rparr>"
  have g: "LOGGER (pr_logs (leveled lev p)) = Some ?g" by (simp add: leveled_def)
  then have "start_processor c result ?p = main_result c result (armed ?p)"
    using assms by (intro start_processor_eq [where g = ?g]) simp_all
  then show ?thesis by (simp only: debug_lines_run [OF g])
qed

text \<open>The four main functions, with the levels spelt out.\<close>

lemmas processor_defs = AddHandler_def NewTransactionProcessor_def SetMaxQueueSize_def SetThreadCount_def

lemma verbosity_level_cases: "verbosity_level n = (if n = 0 \<or> n > 2 then WARN else if n = 1 then INFO else DEBUG)"
  by (simp add: verbosity_level_def)

lemma debug_lines_quiet: "\<not> lev \<le> DEBUG \<Longrightarrow> debug_lines c1 c2 c3 as k e (leveled lev p) = leveled lev p"
  by (simp add: debug_lines_def Let_def)

lemma intkey_main_starts:
  assumes "parse (me_args env) = FlagsParsed opts []" "n = length (opt_Verbose opts)"
  shows "intkey_main cb parse env p = main_result (me_call env 80)
      (me_start env \<lparr>tp_uri = opt_Connect opts, tp_handlers = [intkey_handler cb intkey_main_handler],
         tp_nThreads = (if opt_Threads opts = 0 then me_procs env else opt_Threads opts), tp_maxQueue = opt_Queue opts\<rparr>)
      (armed (leveled (if n = 0 \<or> n > 2 then WARN else if n = 1 then INFO else DEBUG) p))"
  unfolding verbosity_level_cases [symmetric] using assms
  by (simp add: intkey_main_def get_then_level leveled_start intkey_processor_def processor_defs)

lemma xo_main_starts:
  assumes "parse (me_args env) = FlagsParsed opts []" "n = length (opt_Verbose opts)"
  shows "xo_main parse env p = main_result (me_call env 76)
      (me_start env \<lparr>tp_uri = opt_Connect opts, tp_handlers = [xo_handler], tp_nThreads = me_procs env, tp_maxQueue = 100\<rparr>)
      (armed (if n = 2 then debug_lines (me_call env 66) (me_call env 67) (me_call env 68) (me_args env) 2 (opt_Connect opts) (leveled DEBUG p)
        else leveled (if n = 1 then INFO else WARN) p))"
proof -
  have "xo_main parse env p = main_result (me_call env 76)
      (me_start env \<lparr>tp_uri = opt_Connect opts, tp_handlers = [xo_handler], tp_nThreads = me_procs env, tp_maxQueue = 100\<rparr>)
      (armed (debug_lines (me_call env 66) (me_call env 67) (me_call env 68) (me_args env) n (opt_Connect opts) (leveled (verbosity_level n) p)))"
    using assms by (simp add: xo_main_def get_then_level leveled_debug_start processor_defs del: append.simps(2))
  then show ?thesis by (simp add: verbosity_level_def debug_lines_quiet)
qed

lemma smallbank_main_starts:
  assumes "parse (me_args env) = FlagsParsed opts remaining" "n = length (opt_Verbose opts)"
  shows "smallbank_main sb parse env p = main_result (me_call env 75)
      (me_start env \<lparr>tp_uri = opt_Connect opts, tp_handlers = [smallbank_handler sb],
         tp_nThreads = (if opt_Threads opts = 0 then me_procs env else opt_Threads opts), tp_maxQueue = opt_Queue opts\<rparr>)
      (armed (if n \<ge> 2 then debug_lines (me_call env 61) (me_call env 62) (me_call env 63) (me_args env) n (opt_Connect opts) (leveled DEBUG p)
        else leveled (if n = 1 then INFO else WARN) p))"
proof -
  have "smallbank_main sb parse env p = main_result (me_call env 75)
      (me_start env \<lparr>tp_uri = opt_Connect opts, tp_handlers = [smallbank_handler sb],
         tp_nThreads = (if opt_Threads opts = 0 then me_procs env else opt_Threads opts), tp_maxQueue = opt_Queue opts\<rparr>)
      (armed (debug_lines (me_call env 61) (me_call env 62) (me_call env 63) (me_args env) n (opt_Connect opts) (leveled (smallbank_level n) p)))"
    using assms by (simp add: smallbank_main_def get_then_level leveled_debug_start smallbank_processor_def processor_defs del: append.simps(2))
  then show ?thesis by (cases "n = 0 \<or> n = 1") (auto simp: smallbank_level_def debug_lines_quiet)
qed

lemma noop_main_starts:
  assumes "flag_Parse \<lparr>nf_v = False, nf_vv = False\<rparr> (tl (me_args env)) = FlagsDone flags args"
  shows "noop_main env p = main_result (me_call env 58)
      (me_start env \<lparr>tp_uri = (if args = [] then ''tcp://localhost:4004'' else hd args),
         tp_handlers = [noop_handler (NewNoopHandler (take 6 (Hexdigest ''noop'')))],
         tp_nThreads = me_procs env, tp_maxQueue = 100\<rparr>)
      (armed (leveled (if nf_vv flags then DEBUG else if nf_v flags then INFO else WARN) p))"
  using assms by (cases args) (simp_all add: noop_main_def get_then_level leveled_start processor_defs noop_level_def)


definition demo_env :: "unit main_env" where
  "demo_env = \<lparr>me_procs = 4, me_call = (\<lambda>line. \<lparr>cl_now = demo_now, cl_stack = [(''sawtooth_noop/main.go'', line)]\<rparr>),
     me_args = [''noop'', ''-v''], me_start = (\<lambda>self. Ret (Some (ErrorString ''Polling failed'')))\<rparr>"

definition demo_process :: process where
  "demo_process = \<lparr>pr_logs = \<lparr>LOGGER = None, written = (\<lambda>w. [])\<rparr>, pr_relayed = {}, pr_waiter = NoWaiter\<rparr>"

lemma demo_stopped_line:
  "log_line \<lparr>ll_out = Stdout, ll_prefix = [], ll_flag = FLAGS\<rparr> SevError (''Processor stopped: '' @ ''Polling failed'')
      \<lparr>cl_now = demo_now, cl_stack = [(''sawtooth_noop/main.go'', 58)]\<rparr> =
    ''2018/07/04 09:05:00.001234 main.go:58: [ERROR] Processor stopped: Polling failed'' @ [CHR 0x0A]"
  by code_simp


text \<open>
  Arguments that are not accepted: help ends the process with status 0, a parse error and arguments
  left over with status 2, in the main functions that use go-flags (smallbank does not look at
  arguments left over), before anything is started.
\<close>

theorem rejected_arguments_exit:
  "(parse (me_args env) = FlagsHelp \<longrightarrow>
      (\<exists>p'. intkey_main cb parse env p = (Ret (Exits 0), p') \<and> smallbank_main sb parse env p = (Ret (Exits 0), p'))) \<and>
   (parse (me_args env) = FlagsFailed err \<longrightarrow>
      (\<exists>p' p''. intkey_main cb parse env p = (Ret (Exits 2), p') \<and> smallbank_main sb parse env p = (Ret (Exits 2), p''))) \<and>
   (parse (me_args env) = FlagsParsed opts rest \<and> rest \<noteq> [] \<longrightarrow> (\<exists>p'. intkey_main cb parse env p = (Ret (Exits 2), p')))"
  by (auto simp: intkey_main_def smallbank_main_def bindP_simps(1) [OF on_logs_get])
    (auto simp: leveled_def os_Printf_def on_logs_def Errorf_def Logger_Error_def
      logger_method_def logger_logf_def logger_log_def bindP_def)

text \<open>
  The devmode engine stops without a word.  Whatever error the engine's Start returns, main
  returns as after a normal stop and writes nothing to the log: the state is the same for every
  error and for none.
\<close>

theorem devmode_main_silent:
  assumes "parse args = FlagsParsed opts []"
    and "startEngine (NewConsensusEngine (opt_Connect opts) devmode_impl) = Ret err"
  shows "devmode_main parse at startEngine args p =
    (Ret MainReturns, armed (leveled (verbosity_level (length (opt_Verbose opts))) p))"
  using assms
  by (simp add: devmode_main_def get_then_level Engine_ShutdownOnSignal_def listed_def armed_def)

lemma devmode_main_silent_witness:
  "\<exists>p. devmode_main (\<lambda>_. FlagsParsed \<lparr>opt_Verbose = [], opt_Connect = ''tcp://localhost:5050''\<rparr> [])
      (\<lambda>line. \<lparr>cl_now = demo_now, cl_stack = []\<rparr>) (\<lambda>_. Ret (Some (ErrorString ''Could not connect to validator''))) [''devmode'']
      demo_process = (Ret MainReturns, p) \<and> written (pr_logs p) Stdout = []"
  using devmode_main_silent [of "\<lambda>_. FlagsParsed \<lparr>opt_Verbose = [], opt_Connect = ''tcp://localhost:5050''\<rparr> []" "[''devmode'']" _
      "\<lambda>_. Ret (Some (ErrorString ''Could not connect to validator''))" _ "\<lambda>line. \<lparr>cl_now = demo_now, cl_stack = []\<rparr>" demo_process]
  by (simp add: armed_def leveled_def demo_process_def)

text \<open>
  C36: the first SIGINT or SIGTERM stops the processor, the second kills it.  After ShutdownOnSignal a
  signal is dropped until the goroutine waits.  Then the first one puts the command on the main
  thread's shutdown socket, and the next turn of its loop, once the workers are done, returns
  without asking for a restart and without an error, with the queue, the monitor socket and the
  connections to the validator, to the workers and for shutdown all closed.  From the first signal on
  the two signals have their default effect again: a second one ends the process at once.
\<close>

theorem signal_stops_processor:
  fixes r :: "('p ZmqConnection, 'p ZmqConnection, 'x) router"
  assumes "sig \<in> {SIGINT, SIGTERM}" "LOGGER (pr_logs p) = Some g" "\<not> r_closed r" "n \<le> length workers_done"
    and "c_SendData Ctx [] ''shutdown'' (r_shutdown r) = (Ret e1, x1)"
    and "c_RecvData Crx x1 = (Ret (i, ''shutdown'', e2), x2)" "c_Close Crx x2 = (Ret (), x3)"
  shows "\<exists>p0 p' r' r''. ShutdownOnSignal [SIGINT, SIGTERM] p = (Ret (), p0) \<and>
    signal_arrives c [SIGINT, SIGTERM] (Shutdown (Some Ctx)) sig (p0, r) = (Ret True, (p0, r)) \<and>
    signal_arrives c [SIGINT, SIGTERM] (Shutdown (Some Ctx)) sig (goroutine_waits (p0, r)) = (Ret True, (p', r')) \<and>
    poll_loop pb (zmq_Connection cm) (zmq_Connection cm) Ctx Crx disc n workers_done False (PollShutdown # evs) r' = (Ret (False, None), r'') \<and>
    r_closed r'' \<and> r_monitor_closed r'' \<and> sk_closed (conn_socket (r_validator r'')) \<and> sk_closed (conn_socket (r_workers r'')) \<and>
    r_shutdown r'' = x3 \<and>
    (\<forall>sig2 \<in> {SIGINT, SIGTERM}. \<forall>t. signal_arrives c [SIGINT, SIGTERM] (Shutdown (Some Ctx)) sig2 (p', t) = (Ret False, (p', t)))"
proof -
  let ?sigs = "[SIGINT, SIGTERM]" and ?r1 = "r\<lparr>r_shutdown := x1\<rparr>"
  let ?p0 = "p\<lparr>pr_relayed := pr_relayed p \<union> {SIGINT, SIGTERM}, pr_waiter := StartingWaiter\<rparr>"
  let ?p1 = "p\<lparr>pr_relayed := pr_relayed p - {SIGINT, SIGTERM}, pr_waiter := DoneWaiter\<rparr>"
  obtain l where l: "Warnf c ''Shutting down gracefully (Press Ctrl+C again to force)'' [] (pr_logs p) = (Ret (), l)"
    using log_use_logf [OF assms(2), of SevWarn "''Shutting down gracefully (Press Ctrl+C again to force)''" "[]" c] by auto
  have "ShutdownOnSignal ?sigs p = (Ret (), ?p0)" by (simp add: ShutdownOnSignal_def listed_def)
  moreover have "signal_arrives c ?sigs (Shutdown (Some Ctx)) sig (?p0, r) = (Ret True, (?p0, r))"
    using assms(1) by (auto simp: signal_arrives_def)
  moreover have "signal_arrives c ?sigs (Shutdown (Some Ctx)) sig (goroutine_waits (?p0, r)) = (Ret True, (?p1\<lparr>pr_logs := l\<rparr>, ?r1))"
    using assms(1,5) l
    by (auto simp: signal_arrives_def goroutine_waits_def shutdown_goroutine_def listed_def on_logs_def Shutdown_def on_shutdown_def bindP_def)
  moreover obtain k e c1 where s: "c_SendNewMsg (zmq_Connection cm) Message_TP_UNREGISTER_REQUEST
      (fst (Marshal (pbTpUnregisterRequest pb) TpUnregisterRequest)) (r_validator r) = (Ret (k, e), c1)"
    using zmq_SendNewMsg_returns [of cm Message_TP_UNREGISTER_REQUEST _ "r_validator r"] by blast
  have "\<exists>r''. poll_loop pb (zmq_Connection cm) (zmq_Connection cm) Ctx Crx disc n workers_done False (PollShutdown # evs) ?r1 =
      (Ret (False, None), r'') \<and> r_closed r'' \<and> r_monitor_closed r'' \<and> sk_closed (conn_socket (r_validator r'')) \<and>
      sk_closed (conn_socket (r_workers r'')) \<and> r_shutdown r'' = x3"
    using assms(3,4,6,7) s
    by (auto simp: receiveShutdown_def shutdown_def on_shutdown_def on_workers_def on_validator_def await_unregister_def bindP_def split: prod.split)
  moreover have "signal_arrives c ?sigs (Shutdown (Some Ctx)) sig2 (?p1\<lparr>pr_logs := l\<rparr>, t) = (Ret False, (?p1\<lparr>pr_logs := l\<rparr>, t))"
    if "sig2 \<in> {SIGINT, SIGTERM}" for sig2 t
    using that by (auto simp: signal_arrives_def ends_process_def)
  ultimately show ?thesis by blast
qed

lemma signal_stops_processor_witness:
  "\<exists>p0 p' r' r''. ShutdownOnSignal [SIGINT, SIGTERM]
      (demo_process\<lparr>pr_logs := (pr_logs demo_process)\<lparr>LOGGER := Some (got_logger (pr_logs demo_process))\<rparr>\<rparr>) = (Ret (), p0) \<and>
    signal_arrives (me_call demo_env 1) [SIGINT, SIGTERM] (Shutdown (Some (zmq_Connection unary_codec))) SIGTERM
      (goroutine_waits (p0, (demo_router 1 [])\<lparr>r_shutdown := demo_pair\<rparr>)) = (Ret True, (p', r')) \<and>
    poll_loop unary_tp_pb (zmq_Connection unary_codec) (zmq_Connection unary_codec) (zmq_Connection unary_codec) (zmq_Connection unary_codec)
      512 1 [True] False [PollShutdown] r' = (Ret (False, None), r'') \<and> r_closed r'' \<and> sk_closed (conn_socket (r_validator r'')) \<and>
    signal_arrives (me_call demo_env 1) [SIGINT, SIGTERM] (Shutdown (Some (zmq_Connection unary_codec))) SIGINT (p', r'') = (Ret False, (p', r''))"
proof -
  let ?C = "zmq_Connection unary_codec :: unit ZmqConnection Connection"
  let ?r = "(demo_router 1 [])\<lparr>r_shutdown := demo_pair\<rparr>"
  have 1: "c_SendData ?C [] ''shutdown'' (r_shutdown ?r) = (Ret None, set_inbox [Inr [''shutdown'']] demo_pair)"
    by (simp add: demo_pair_def demo_unit_conn_def zmq_Connection_def SendData_def SendMessage_def)
  have 2: "c_RecvData ?C (set_inbox [Inr [''shutdown'']] demo_pair) = (Ret ([], ''shutdown'', None), demo_pair)"
    by (simp add: demo_pair_def demo_unit_conn_def zmq_Connection_def RecvData_def RecvMessage_def)
  have 3: "c_Close ?C demo_pair = (Ret (), snd (Close demo_pair))" by (simp add: Close_def)
  have 4: "LOGGER (pr_logs (demo_process\<lparr>pr_logs := (pr_logs demo_process)\<lparr>LOGGER := Some (got_logger (pr_logs demo_process))\<rparr>\<rparr>)) =
      Some (got_logger (pr_logs demo_process))" by simp
  have 5: "\<not> r_closed ?r" "1 \<le> length [True]" "SIGTERM \<in> {SIGINT, SIGTERM}" by (simp_all add: demo_router_def)
  from signal_stops_processor [OF 5(3) 4 5(1,2) 1 2 3, of "me_call demo_env 1" unary_tp_pb unary_codec 512 "[]"] show ?thesis by fast
qed

text \<open>
  A signal that comes too early is lost.  Before the goroutine waits, the channel without a
  buffer drops it; and when the goroutine has received one before start has made the shutdown
  socket, Shutdown does nothing, so the processor goes on and the signal has been used up.
\<close>

theorem early_signal_lost:
  assumes "sig \<in> pr_relayed p"
  shows "(pr_waiter p = StartingWaiter \<longrightarrow> signal_arrives c siglist shut sig (p, r) = (Ret True, (p, r))) \<and>
    (pr_waiter p = ReadyWaiter \<and> LOGGER (pr_logs p) = Some g \<longrightarrow>
      (\<exists>p'. signal_arrives c siglist (Shutdown None) sig (p, r) = (Ret True, (p', r)) \<and> pr_waiter p' = DoneWaiter))"
proof (intro conjI impI)
  assume w: "pr_waiter p = ReadyWaiter \<and> LOGGER (pr_logs p) = Some g"
  then obtain l where "Warnf c ''Shutting down gracefully (Press Ctrl+C again to force)'' [] (pr_logs p) = (Ret (), l)"
    using log_use_logf [of "pr_logs p" g SevWarn "''Shutting down gracefully (Press Ctrl+C again to force)''" "[]" c] by auto
  with w show "\<exists>p'. signal_arrives c siglist (Shutdown None) sig (p, r) = (Ret True, (p', r)) \<and> pr_waiter p' = DoneWaiter"
    using assms by (simp add: signal_arrives_def shutdown_goroutine_def on_logs_def Shutdown_def bindP_def)
qed (use assms in \<open>simp add: signal_arrives_def\<close>)

end
