(* ===== verification/Processor_Families.thy ===== *)
theory Processor_Families
  imports Processor_System Executables
begin

text \<open>
  The processors of the examples: the handlers of intkey, smallbank, xo and noop, as their main
  functions register them, inside a transaction processor.  Each keeps the promise of the locale
  \<open>processing_family\<close>, so each processor refines the abstract machine over its own store: a map from
  names to integers, a bank, a set of games, and nothing at all.  A validator that records what it
  is sent, and requests to it, serve for the examples.
\<close>

section \<open>The families\<close>

text \<open>A specification with errors and panics, as a verdict.\<close>

fun verdict_of :: "(go_error + 'm) outcome \<Rightarrow> 'm verdict" where
  "verdict_of (Ret (Inl e)) = Refuse"
| "verdict_of (Ret (Inr m)) = Commit m"
| "verdict_of (Panic e) = Crash"
| "verdict_of Block = Crash"

lemma implements_verdict:
  assumes "implements ok view wfd abst p s R" "wfd (view s)" "\<And>f. wfd f \<Longrightarrow> good f"
  shows "\<exists>r s'. p s = (r, s') \<and> (case verdict_of R of
      Crash \<Rightarrow> \<exists>e. r = Panic e
    | Refuse \<Rightarrow> (\<exists>e. r = Ret (Some e)) \<and> ok s' \<and> good (view s') \<and> abst (view s') = abst (view s)
    | Commit M \<Rightarrow> r = Ret None \<and> ok s' \<and> good (view s') \<and> abst (view s') = M)"
  using assms by (auto simp: implements_def split: outcome.splits sum.splits)

text \<open>Intkey: every request is refused or committed.\<close>

definition intkey_verdict :: "intkey_cbor \<Rightarrow> TpProcessRequest \<Rightarrow> (string \<rightharpoonup> int) \<Rightarrow> (string \<rightharpoonup> int) verdict" where
  "intkey_verdict cb q M = (case intkey_accepts cb q of
     None \<Rightarrow> Refuse
   | Some p \<Rightarrow> (case intkey_spec p M of None \<Rightarrow> Refuse | Some M' \<Rightarrow> Commit M'))"

lemma intkey_verdict_no_crash: "intkey_verdict cb q M \<noteq> Crash"
  by (simp add: intkey_verdict_def split: option.split)

lemma intkey_machine_total: "\<exists>M'. machine_run (intkey_verdict cb) cap evs M = Some M'"
  by (rule machine_run_total) (rule intkey_verdict_no_crash)

definition intkey_state :: "intkey_cbor \<Rightarrow> IntkeyHandler \<Rightarrow> (string \<Rightarrow> bool) \<Rightarrow> (string \<Rightarrow> bool) \<Rightarrow> (string \<Rightarrow> bytes) \<Rightarrow> bool" where
  "intkey_state cb self rd wr f \<longleftrightarrow> intkey_cbor_ok cb \<and> intkey_wf cb self f \<and>
     (\<forall>n. rd (intkey_address self n) \<and> wr (intkey_address self n))"

context state_context
begin

lemma Intkey_Apply_verdict:
  assumes "ok s" "intkey_state cb self rd wr (view s)"
  shows "\<exists>r s'. Intkey_Apply cb self q ctx s = (r, s') \<and> (case intkey_verdict cb q (intkey_value cb self (view s)) of
      Crash \<Rightarrow> \<exists>e. r = Panic e
    | Refuse \<Rightarrow> (\<exists>e. r = Ret (Some e)) \<and> ok s' \<and> intkey_state cb self rd wr (view s') \<and>
        intkey_value cb self (view s') = intkey_value cb self (view s)
    | Commit M \<Rightarrow> r = Ret None \<and> ok s' \<and> intkey_state cb self rd wr (view s') \<and> intkey_value cb self (view s') = M)"
proof (cases "intkey_accepts cb q")
  case None
  from assms(2) have wf: "intkey_cbor_ok cb" "intkey_wf cb self (view s)" by (simp_all add: intkey_state_def)
  from assms(1) wf obtain e s' where r: "Intkey_Apply cb self q ctx s = (Ret e, s')" "ok s'" "intkey_wf cb self (view s')"
    by (rule Intkey_Apply_total)
  from Intkey_Apply_effect [OF assms(1) r(1)] None have "view s' = view s" "e \<noteq> None" by auto
  with r None assms(2) show ?thesis by (simp add: intkey_verdict_def)
next
  case (Some p)
  from assms(2) have wf: "intkey_cbor_ok cb" "intkey_wf cb self (view s)"
    and "rd (intkey_address self (pl_Name p))" "wr (intkey_address self (pl_Name p))" by (simp_all add: intkey_state_def)
  with Intkey_Apply_spec [OF assms(1) wf Some] have
    "case intkey_spec p (intkey_value cb self (view s)) of
      None \<Rightarrow> \<exists>e s'. Intkey_Apply cb self q ctx s = (Ret (Some (InvalidTransactionError e [])), s') \<and> ok s' \<and> view s' = view s
    | Some M \<Rightarrow> \<exists>s'. Intkey_Apply cb self q ctx s = (Ret None, s') \<and> ok s' \<and>
        intkey_wf cb self (view s') \<and> intkey_value cb self (view s') = M" by blast
  with Some assms(2) show ?thesis
    by (cases "intkey_spec p (intkey_value cb self (view s))") (auto simp: intkey_verdict_def intkey_state_def)
qed

end

text \<open>Smallbank: a payload whose data message is missing crashes the processor.\<close>

definition smallbank_verdict :: "smallbank_pb \<Rightarrow> TpProcessRequest \<Rightarrow> bank \<Rightarrow> bank verdict" where
  "smallbank_verdict sb q B = (case unpackPayload sb (TpProcessRequest_Payload q) of
     Inl e \<Rightarrow> Refuse
   | Inr p \<Rightarrow> verdict_of (bank_step p B))"

lemma smallbank_crash:
  "smallbank_verdict sb q B = Crash \<longleftrightarrow> (\<exists>p. unpackPayload sb (TpProcessRequest_Payload q) = Inr p \<and>
     (case SmallbankTransactionPayload_PayloadType p of
        t \<Rightarrow> t = 1 \<and> SmallbankTransactionPayload_CreateAccount p = None \<or> t = 2 \<and> SmallbankTransactionPayload_DepositChecking p = None \<or>
          t = 3 \<and> SmallbankTransactionPayload_WriteCheck p = None \<or> t = 4 \<and> SmallbankTransactionPayload_TransactSavings p = None \<or>
          t = 5 \<and> SmallbankTransactionPayload_SendPayment p = None \<or> t = 6 \<and> SmallbankTransactionPayload_Amalgamate p = None))"
proof (cases "unpackPayload sb (TpProcessRequest_Payload q)")
  case (Inr p)
  have a: "verdict_of (on_account B cid f) = Crash \<longleftrightarrow> (\<exists>acc. B (smallbank_address cid) = Some acc \<and> verdict_of (f acc) = Crash)" for cid f
    by (simp add: on_account_def split: option.split)
  have aa: "verdict_of (on_accounts B src dst f) = Crash \<longrightarrow> (\<exists>x y. verdict_of (f x y) = Crash)" for src dst f
    by (auto simp: on_accounts_def split: option.split)
  have d: "verdict_of (on_data x f) = Crash \<longleftrightarrow> x = None \<or> (\<exists>y. x = Some y \<and> verdict_of (f y) = Crash)" for x :: "'d option" and f
    by (simp add: on_data_def split: option.split)
  from Inr show ?thesis
    by (auto simp: smallbank_verdict_def bank_step_def bank_create_def a d Let_def dest!: aa [rule_format] split: if_splits)
qed (simp add: smallbank_verdict_def)

definition smallbank_state :: "smallbank_pb \<Rightarrow> (string \<Rightarrow> bool) \<Rightarrow> (string \<Rightarrow> bool) \<Rightarrow> (string \<Rightarrow> bytes) \<Rightarrow> bool" where
  "smallbank_state sb rd wr f \<longleftrightarrow> account_codec_ok sb \<and> bank_granted rd wr \<and> bank_wf sb f"

text \<open>Xo: the key of the signer must be usable in a stored game, as in the other results on xo.\<close>

definition xo_fits :: "TpProcessRequest \<Rightarrow> bool" where
  "xo_fits q \<longleftrightarrow> (let player = GetSignerPublicKey (TpProcessRequest_Header q) in plain player \<and> player \<noteq> [])"

definition xo_verdict :: "TpProcessRequest \<Rightarrow> (string \<rightharpoonup> Game) \<Rightarrow> (string \<rightharpoonup> Game) verdict" where
  "xo_verdict q M = (case FromBytes (TpProcessRequest_Payload q) of
     Inl e \<Rightarrow> Refuse
   | Inr p \<Rightarrow> verdict_of (xo_spec p (GetSignerPublicKey (TpProcessRequest_Header q)) M))"

definition xo_state :: "(string \<Rightarrow> bool) \<Rightarrow> (string \<Rightarrow> bool) \<Rightarrow> (string \<Rightarrow> bytes) \<Rightarrow> bool" where
  "xo_state rd wr f \<longleftrightarrow> xo_granted rd wr \<and> store_wf xo_rules f"

context state_context
begin

lemma Smallbank_Apply_verdict:
  assumes "ok s" "smallbank_state sb rd wr (view s)"
  shows "\<exists>r s'. Smallbank_Apply sb q ctx s = (r, s') \<and> (case smallbank_verdict sb q (bank_of sb (view s)) of
      Crash \<Rightarrow> \<exists>e. r = Panic e
    | Refuse \<Rightarrow> (\<exists>e. r = Ret (Some e)) \<and> ok s' \<and> smallbank_state sb rd wr (view s') \<and> bank_of sb (view s') = bank_of sb (view s)
    | Commit M \<Rightarrow> r = Ret None \<and> ok s' \<and> smallbank_state sb rd wr (view s') \<and> bank_of sb (view s') = M)"
proof (cases "unpackPayload sb (TpProcessRequest_Payload q)")
  case (Inl e)
  with assms show ?thesis by (simp add: smallbank_verdict_def Smallbank_Apply_def)
next
  case (Inr p)
  from assms(2) have b: "bank_wf sb (view s)" "bank_granted rd wr" "account_codec_ok sb" by (simp_all add: smallbank_state_def)
  from implements_verdict [OF Smallbank_Apply_bank [OF assms(1) b Inr] b(1), where good = "smallbank_state sb rd wr"] b(2,3) Inr
  show ?thesis by (simp add: smallbank_verdict_def smallbank_state_def [of sb rd wr])
qed

lemma Xo_Apply_verdict:
  assumes "ok s" "xo_state rd wr (view s)" "xo_fits q"
  shows "\<exists>r s'. Xo_Apply q ctx s = (r, s') \<and> (case xo_verdict q (xo_game (view s)) of
      Crash \<Rightarrow> \<exists>e. r = Panic e
    | Refuse \<Rightarrow> (\<exists>e. r = Ret (Some e)) \<and> ok s' \<and> xo_state rd wr (view s') \<and> xo_game (view s') = xo_game (view s)
    | Commit M \<Rightarrow> r = Ret None \<and> ok s' \<and> xo_state rd wr (view s') \<and> xo_game (view s') = M)"
proof (cases "FromBytes (TpProcessRequest_Payload q)")
  case (Inl e)
  with assms show ?thesis by (simp add: xo_verdict_def Xo_Apply_def)
next
  case (Inr p)
  from assms(2,3) have b: "store_wf xo_rules (view s)" "xo_granted rd wr"
    "plain (GetSignerPublicKey (TpProcessRequest_Header q))" "GetSignerPublicKey (TpProcessRequest_Header q) \<noteq> []"
    by (simp_all add: xo_state_def xo_fits_def Let_def)
  from implements_verdict [OF Xo_Apply_implements [OF assms(1) b Inr] b(1), where good = "xo_state rd wr"] b(2) Inr
  show ?thesis by (simp add: xo_verdict_def xo_state_def)
qed

end

text \<open>The four handlers keep the promise.\<close>

interpretation intkey_tp: processing_family pb st rd wr react ans w "intkey_handler cb self" "\<lambda>q. True"
    "intkey_state cb self rd wr" "intkey_value cb self" "intkey_verdict cb"
  for pb st rd wr react ans w cb self
  by unfold_locales (simp only: intkey_handler_def TransactionHandler.simps, rule routed.Intkey_Apply_verdict)

interpretation smallbank_tp: processing_family pb st rd wr react ans w "smallbank_handler sb" "\<lambda>q. True"
    "smallbank_state sb rd wr" "bank_of sb" "smallbank_verdict sb"
  for pb st rd wr react ans w sb
  by unfold_locales (simp only: smallbank_handler_def TransactionHandler.simps, rule routed.Smallbank_Apply_verdict)

interpretation xo_tp: processing_family pb st rd wr react ans w xo_handler xo_fits "xo_state rd wr" xo_game xo_verdict
  for pb st rd wr react ans w
  by unfold_locales (simp only: xo_handler_def TransactionHandler.simps, rule routed.Xo_Apply_verdict)

interpretation noop_tp: processing_family pb st rd wr react ans w "noop_handler self" "\<lambda>q. True" "\<lambda>f. True" "\<lambda>f. ()" "\<lambda>q M. Commit M"
  for pb st rd wr react ans w self
  by unfold_locales (simp add: noop_handler_def Noop_Apply_def)

section \<open>A processor with a concrete validator\<close>

text \<open>A validator that keeps the state and a list of the process responses it has received.\<close>

definition recording_react ::
  "tp_pb \<Rightarrow> (string \<Rightarrow> bytes) \<times> (string \<times> bytes) list \<Rightarrow> Message_MessageType \<Rightarrow> bytes \<Rightarrow>
   (Message_MessageType \<times> bytes \<times> ((string \<Rightarrow> bytes) \<times> (string \<times> bytes) list)) option" where
  "recording_react pb p t b = map_option (\<lambda>(t', b', f). (t', b', (f, snd p))) (validator_react pb (\<lambda>a. True) (\<lambda>a. True) (fst p) t b)"

definition recording_deliver ::
  "tp_pb \<Rightarrow> (string \<Rightarrow> bytes) \<times> (string \<times> bytes) list \<Rightarrow> bytes list \<Rightarrow>
   ((string \<Rightarrow> bytes) \<times> (string \<times> bytes) list) \<times> (go_error + bytes list) list \<times> go_error option" where
  "recording_deliver pb p frs =
    (case frs of
       [d] \<Rightarrow> (let m = fst (Unmarshal (pbMessage pb) d) in
          if Message_MessageType m = Message_TP_PROCESS_RESPONSE
          then ((fst p, snd p @ [(Message_CorrelationId m, Message_Content m)]), [], None)
          else answering (pbMessage pb) (recording_react pb) p frs)
     | _ \<Rightarrow> (p, [], None))"

lemma recording_react_types:
  assumes "recording_react pb p t b = Some (t', b', p')"
  shows "snd p' = snd p \<and> t \<noteq> Message_TP_PROCESS_RESPONSE \<and> t' \<notin> {Message_TP_PROCESS_REQUEST, Message_PING_REQUEST}"
  using assms by (auto simp: recording_react_def validator_react_def Let_def split: if_splits)

lemma recording_serves: "serves_state unary_tp_pb cid fst (\<lambda>a. True) (\<lambda>a. True) (recording_react unary_tp_pb)"
  using validator_serves [OF unary_state_codecs, of cid "\<lambda>a. True" "\<lambda>a. True"]
  unfolding serves_state_def recording_react_def by fastforce

lemma recording_contract:
  "validator_contract unary_tp_pb cid fst (\<lambda>a. True) (\<lambda>a. True) (recording_react unary_tp_pb) snd (recording_deliver unary_tp_pb)"
  unfolding validator_contract_def
proof (intro conjI recording_serves)
  show "peer_reacts (pbMessage unary_tp_pb) (recording_deliver unary_tp_pb) (recording_react unary_tp_pb)"
    using recording_react_types by (auto simp: peer_reacts_def recording_deliver_def answering_def DumpMsg_def Let_def)
  show "\<forall>p b k. \<exists>p'. recording_deliver unary_tp_pb p [fst (DumpMsg (pbMessage unary_tp_pb) Message_TP_PROCESS_RESPONSE b k)] = (p', [], None) \<and>
        fst p' = fst p \<and> snd p' = snd p @ [(k, b)]"
    by (simp add: recording_deliver_def DumpMsg_def)
qed (use recording_react_types in \<open>auto\<close>)

definition demo_processor ::
  "(string \<Rightarrow> bytes) \<Rightarrow> nat \<Rightarrow> ((string \<Rightarrow> bytes) \<times> (string \<times> bytes) list, unit) main_thread ZmqConnection" where
  "demo_processor f cap =
    (let open_socket = (\<lambda>p deliver. \<lparr>sk_peer = p, sk_deliver = deliver, sk_inbox = [], sk_closed = False,
           sk_closed_error = ErrorString ''Socket is closed''\<rparr>);
         connection = (\<lambda>p deliver. \<lparr>conn_identity = [], conn_uri = [], conn_socket = open_socket p deliver, conn_incoming = [],
           conn_uuid = (\<lambda>n. CHR ''u'' # nat_digits n), conn_uuid_next = 0\<rparr>);
         main = \<lparr>r_validator = connection (f, []) (recording_deliver unary_tp_pb),
           r_workers = \<lparr>conn_identity = [], conn_uri = [], conn_socket = \<lparr>sk_peer = [], sk_deliver = recorder, sk_inbox = [], sk_closed = False,
             sk_closed_error = ErrorString ''Socket is closed''\<rparr>, conn_incoming = [], conn_uuid = (\<lambda>n. []), conn_uuid_next = 0\<rparr>,
           r_shutdown = (), r_ids = Map.empty, r_queue = [], r_cap = cap, r_closed = False, r_monitor_closed = False\<rparr>
     in \<lparr>conn_identity = ''w'', conn_uri = [], conn_socket = \<lparr>sk_peer = main, sk_deliver = main_turn unary_tp_pb ''w'', sk_inbox = [],
           sk_closed = False, sk_closed_error = ErrorString ''Socket is closed''\<rparr>, conn_incoming = [],
         conn_uuid = (\<lambda>n. CHR ''u'' # nat_digits n), conn_uuid_next = 0\<rparr>)"

lemma demo_processor_parts [simp]:
  "conn_uuid (demo_processor f cap) n = CHR ''u'' # nat_digits n" "inbox (demo_processor f cap) = []" "conn_incoming (demo_processor f cap) = []"
  "\<not> sk_closed (conn_socket (demo_processor f cap))" "sk_deliver (conn_socket (demo_processor f cap)) = main_turn unary_tp_pb ''w''"
  "r_queue (main_of (demo_processor f cap)) = []" "r_cap (main_of (demo_processor f cap)) = cap" "\<not> r_closed (main_of (demo_processor f cap))"
  "main_idle (main_of (demo_processor f cap))" "validator_of (demo_processor f cap) = (f, [])"
  "sk_deliver (conn_socket (r_validator (main_of (demo_processor f cap)))) = recording_deliver unary_tp_pb"
  by (simp_all add: demo_processor_def Let_def main_idle_def)


lemma demo_contract: "routed_conn unary_tp_pb cid fst (\<lambda>a. True) (\<lambda>a. True) (recording_react unary_tp_pb) snd ''w'' ([], cap, []) (demo_processor f cap)"
  by (simp add: routed_conn_def recording_contract)

lemma demo_processing:
  assumes "good f"
  shows "processing unary_tp_pb fst (\<lambda>a. True) (\<lambda>a. True) (recording_react unary_tp_pb) snd ''w'' h fits good ([], cap, []) (demo_processor f cap)"
  using assms by (simp add: processing_def demo_contract)

lemma demo_machine:
  "machine_of unary_tp_pb fst snd abst (demo_processor f cap) = \<lparr>mc_store = abst f, mc_queue = [], mc_answers = []\<rparr>"
  by (simp add: machine_of_def)

text \<open>A process request as a message.\<close>

definition demo_ask :: "TpProcessRequest \<Rightarrow> string \<Rightarrow> Message" where
  "demo_ask q k = \<lparr>Message_MessageType = Message_TP_PROCESS_REQUEST, Message_CorrelationId = k,
     Message_Content = fst (Marshal (pbTpProcessRequest unary_tp_pb) q)\<rparr>"

lemma demo_ask_simps [simp]:
  "request_of unary_tp_pb (demo_ask q k) = q" "Message_CorrelationId (demo_ask q k) = k"
  "Message_MessageType (demo_ask q k) = Message_TP_PROCESS_REQUEST"
  "snd (Unmarshal (pbTpProcessRequest unary_tp_pb) (Message_Content (demo_ask q k))) = None"
  by (simp_all add: request_of_def demo_ask_def)

lemma demo_ask_message:
  "family_message unary_tp_pb h fits (demo_ask q k) \<longleftrightarrow> GetFamilyName (TpProcessRequest_Header q) = h_FamilyName h \<and>
     GetFamilyVersion (TpProcessRequest_Header q) \<in> set (h_FamilyVersions h) \<and> fits q"
  by (simp add: family_message_def Let_def del: unary_tp_pb_simps)

abbreviation demo_intkey_run :: "thread_event list" where
  "demo_intkey_run \<equiv> [RequestArrives (demo_ask demo_process_request ''1''), RequestArrives (demo_ask demo_process_request ''2''),
     WorkerTurn, RequestArrives (demo_ask demo_process_request ''3''), WorkerTurn]"

lemma demo_intkey_events: "family_events unary_tp_pb (intkey_handler cb self) (\<lambda>q. True) demo_intkey_run"
  by (simp add: family_events_def demo_ask_message demo_process_request_def intkey_handler_def Intkey_FamilyName_def Intkey_FamilyVersions_def)

lemma demo_intkey_value: "intkey_value demo_cbor (NewIntkeyHandler ''1cf126'') (\<lambda>a. []) = Map.empty"
  by (auto simp: intkey_value_def)

lemma demo_intkey_verdict:
  "intkey_verdict demo_cbor demo_process_request Map.empty = Commit [''x'' \<mapsto> 7]"
  "intkey_verdict demo_cbor demo_process_request [''x'' \<mapsto> 7] = Refuse"
proof -
  let ?p = "\<lparr>pl_Verb = ''set'', pl_Name = ''x'', pl_Value = 7\<rparr>"
  have "intkey_accepts demo_cbor (demo_request ?p) = Some ?p" by (rule demo_accepts) (simp add: intkey_check_def)
  then have "intkey_accepts demo_cbor demo_process_request = Some ?p"
    by (simp add: intkey_accepts_def demo_process_request_def)
  then show "intkey_verdict demo_cbor demo_process_request Map.empty = Commit [''x'' \<mapsto> 7]"
    "intkey_verdict demo_cbor demo_process_request [''x'' \<mapsto> 7] = Refuse"
    by (simp_all add: intkey_verdict_def intkey_spec_def)
qed

text \<open>A deposit of 2 for customer 1, and a payload of type 1 without its data.\<close>

definition demo_bank_request :: "int \<Rightarrow> TpProcessRequest" where
  "demo_bank_request t = (demo_sb_request (demo_sb_payload t))\<lparr>TpProcessRequest_Header :=
     Some \<lparr>TransactionHeader_BatcherPublicKey = [],
       TransactionHeader_Dependencies = [], TransactionHeader_FamilyName = ''smallbank'', TransactionHeader_FamilyVersion = ''1.0'',
       TransactionHeader_Inputs = [], TransactionHeader_Nonce = [], TransactionHeader_Outputs = [],
       TransactionHeader_PayloadSha512 = [], TransactionHeader_SignerPublicKey = []\<rparr>\<rparr>"

lemma demo_bank_verdict:
  "B (smallbank_address 1) = Some (demo_account 1 7) \<Longrightarrow>
    smallbank_verdict demo_sb (demo_bank_request 2) B = Commit (B(smallbank_address 1 \<mapsto> demo_account 1 9))"
  "smallbank_verdict demo_sb (demo_bank_request 1) B = Crash"
proof -
  have u: "unpackPayload demo_sb (TpProcessRequest_Payload (demo_bank_request t)) = Inr (demo_sb_payload t)" for t
    by (simp add: demo_bank_request_def)
  show "B (smallbank_address 1) = Some (demo_account 1 7) \<Longrightarrow>
      smallbank_verdict demo_sb (demo_bank_request 2) B = Commit (B(smallbank_address 1 \<mapsto> demo_account 1 9))"
    by (simp add: smallbank_verdict_def u bank_step_def on_data_def on_account_def put_def demo_account_def)
  show "smallbank_verdict demo_sb (demo_bank_request 1) B = Crash"
    by (simp add: smallbank_verdict_def u bank_step_def on_data_def demo_sb_payload_def)
qed

lemma demo_xo_verdict:
  "xo_verdict (demo_xo_request ''02abcdef'' ''g,create,'') Map.empty = Commit [''g'' \<mapsto> demo_game ''g'']"
  "xo_verdict (demo_xo_request ''03abcdef'' ''g,create,'') [''g'' \<mapsto> demo_game ''g''] = Refuse"
  by (simp_all add: xo_verdict_def FromBytes_def str_contains_def xo_spec_def Let_def demo_game_def)

end
