(* ===== verification/Processor_Pool.thy ===== *)
theory Processor_Pool
  imports Processor_Families
begin

text \<open>
  A transaction processor with any number of workers: one main thread, one queue, and a list of
  workers, each with its own identity and connection.  Requests arrive and workers take turns in
  any order.  A turn is one request from the queue to its response; what the other threads can do
  inside a turn is the subject of Tp\_Concurrent.

  The locale \<open>processing_pool\<close> extends the contract of a family to every worker, and is interpreted on
  the same four handlers.  The pool refines the same abstract machine as a single worker.
\<close>

section \<open>Pools\<close>

record ('p, 'x) pool =
  pl_main :: "('p, 'x) main_thread"
  pl_workers :: "(string \<times> ('p, 'x) main_thread ZmqConnection) list"

text \<open>A worker's connection, with the main thread as it is now at the other end.\<close>

abbreviation with_main :: "'q ZmqConnection \<Rightarrow> 'q \<Rightarrow> 'q ZmqConnection" where
  "with_main c r \<equiv> c\<lparr>conn_socket := (conn_socket c)\<lparr>sk_peer := r\<rparr>\<rparr>"

definition pool_arrives :: "tp_pb \<Rightarrow> Message \<Rightarrow> (('p, 'x) pool, bool) proc" where
  "pool_arrives pb m P =
    (let r = pl_main P;
         v = set_inbox (inbox (r_validator r) @ [Inr [fst (Marshal (pbMessage pb) m)]]) (r_validator r) in
     case receiveValidator pb (main_C pb) (main_C pb) (r\<lparr>r_validator := v\<rparr>) of
       (Ret _, r') \<Rightarrow> (Ret True, P\<lparr>pl_main := r'\<rparr>)
     | (Panic e, r') \<Rightarrow> (Panic e, P\<lparr>pl_main := r'\<rparr>)
     | (Block, r') \<Rightarrow> (Block, P\<lparr>pl_main := r'\<rparr>))"

definition pool_turn ::
  "tp_pb \<Rightarrow> ('p, 'x) main_thread ZmqConnection TransactionHandler list \<Rightarrow> nat \<Rightarrow> (('p, 'x) pool, bool) proc" where
  "pool_turn pb hs i P =
    (if i < length (pl_workers P) then
       (case pl_workers P ! i of (w, c) \<Rightarrow>
         (case worker_turn pb hs (with_main c (pl_main P)) of (x, s') \<Rightarrow>
            (x, P\<lparr>pl_main := main_of s', pl_workers := (pl_workers P)[i := (w, s')]\<rparr>)))
     else (Ret True, P))"

datatype pool_event = PoolArrives Message | PoolTurn nat

fun pool_step ::
  "tp_pb \<Rightarrow> ('p, 'x) main_thread ZmqConnection TransactionHandler list \<Rightarrow> pool_event \<Rightarrow> (('p, 'x) pool, bool) proc" where
  "pool_step pb hs (PoolArrives m) = pool_arrives pb m"
| "pool_step pb hs (PoolTurn i) = pool_turn pb hs i"

fun pool_run ::
  "tp_pb \<Rightarrow> ('p, 'x) main_thread ZmqConnection TransactionHandler list \<Rightarrow> pool_event list \<Rightarrow> (('p, 'x) pool, bool) proc" where
  "pool_run pb hs [] = retP True"
| "pool_run pb hs (ev # evs) = bindP (pool_step pb hs ev) (\<lambda>go_on. if go_on then pool_run pb hs evs else retP False)"

text \<open>The turns are of workers that exist, and what arrives is process requests of the family.\<close>

definition pool_events ::
  "tp_pb \<Rightarrow> 's TransactionHandler \<Rightarrow> (TpProcessRequest \<Rightarrow> bool) \<Rightarrow> nat \<Rightarrow> pool_event list \<Rightarrow> bool" where
  "pool_events pb h fits n evs \<longleftrightarrow> list_all (\<lambda>ev. case ev of PoolTurn i \<Rightarrow> i < n
     | PoolArrives m \<Rightarrow> family_message pb h fits m \<and> Message_MessageType m = Message_TP_PROCESS_REQUEST) evs"

fun pool_event_of :: "tp_pb \<Rightarrow> pool_event \<Rightarrow> TpProcessRequest machine_event" where
  "pool_event_of pb (PoolArrives m) = Ask (Message_CorrelationId m) (request_of pb m)"
| "pool_event_of pb (PoolTurn i) = Serve"

text \<open>Every worker works on the same queue and the same validator.\<close>

definition pool_processing ::
  "tp_pb \<Rightarrow> ('p \<Rightarrow> string \<Rightarrow> bytes) \<Rightarrow> (string \<Rightarrow> bool) \<Rightarrow> (string \<Rightarrow> bool) \<Rightarrow>
   ('p \<Rightarrow> Message_MessageType \<Rightarrow> bytes \<Rightarrow> (Message_MessageType \<times> bytes \<times> 'p) option) \<Rightarrow> ('p \<Rightarrow> (string \<times> bytes) list) \<Rightarrow>
   ('p, 'x) main_thread ZmqConnection TransactionHandler \<Rightarrow> (TpProcessRequest \<Rightarrow> bool) \<Rightarrow> ((string \<Rightarrow> bytes) \<Rightarrow> bool) \<Rightarrow>
   Message list \<times> nat \<times> (string \<times> bytes) list \<Rightarrow> ('p, 'x) pool \<Rightarrow> bool" where
  "pool_processing pb st rd wr react ans h fits good fixd P \<longleftrightarrow> pl_workers P \<noteq> [] \<and>
     (\<forall>i < length (pl_workers P). processing pb st rd wr react ans (fst (pl_workers P ! i)) h fits good fixd
        (with_main (snd (pl_workers P ! i)) (pl_main P)))"

definition pool_machine ::
  "tp_pb \<Rightarrow> ('p \<Rightarrow> string \<Rightarrow> bytes) \<Rightarrow> ('p \<Rightarrow> (string \<times> bytes) list) \<Rightarrow> ((string \<Rightarrow> bytes) \<Rightarrow> 'm) \<Rightarrow>
   ('p, 'x) pool \<Rightarrow> (TpProcessRequest, 'm) machine" where
  "pool_machine pb st ans abst P =
    \<lparr>mc_store = abst (st (peer (r_validator (pl_main P)))),
     mc_queue = map (\<lambda>m. (Message_CorrelationId m, request_of pb m)) (r_queue (pl_main P)),
     mc_answers = map (\<lambda>(k, b). (k, accepted pb b)) (ans (peer (r_validator (pl_main P))))\<rparr>"

lemma pool_machine_fields [simp]:
  "mc_queue (pool_machine pb st ans abst P) = map (\<lambda>m. (Message_CorrelationId m, request_of pb m)) (r_queue (pl_main P))"
  "map fst (mc_answers (pool_machine pb st ans abst P)) = map fst (ans (peer (r_validator (pl_main P))))"
  by (simp_all add: pool_machine_def case_prod_unfold comp_def)

text \<open>The correlation ids of the requests that arrive in a run.\<close>

definition pool_arrivals :: "pool_event list \<Rightarrow> string list" where
  "pool_arrivals evs = concat (map (\<lambda>ev. case ev of PoolArrives m \<Rightarrow> [Message_CorrelationId m] | PoolTurn i \<Rightarrow> []) evs)"

lemma asked_pool_events: "asked (map (pool_event_of pb) evs) = pool_arrivals evs"
proof (induction evs)
  case (Cons ev evs)
  then show ?case by (cases ev) (simp_all add: pool_arrivals_def)
qed (simp add: pool_arrivals_def)

lemma pool_events_turns [simp]:
  "pool_events pb h fits n (evs @ map PoolTurn turns) \<longleftrightarrow> pool_events pb h fits n evs \<and> (\<forall>i \<in> set turns. i < n)"
  by (induction turns) (auto simp: pool_events_def)

lemma pool_machine_worker: "machine_of pb st ans abst (with_main c (pl_main P)) = pool_machine pb st ans abst P"
  by (simp add: machine_of_def pool_machine_def)

text \<open>The main thread does the same whichever worker it is seen from.\<close>

lemma pool_arrives_worker:
  "pool_arrives pb m P = (case request_arrives pb m (with_main c (pl_main P)) of (x, s') \<Rightarrow> (x, P\<lparr>pl_main := main_of s'\<rparr>))"
  by (auto simp: pool_arrives_def request_arrives_def Let_def split: prod.split outcome.split)

text \<open>A step through one worker is a step for all of them.\<close>

lemma processing_other_worker:
  assumes "processing pb st rd wr react ans v h fits good fixd (with_main c r)"
    and "processing pb st rd wr react ans w h fits good fixd' s'"
  shows "processing pb st rd wr react ans v h fits good fixd' (with_main c (main_of s'))"
proof -
  have "routed_conn pb cid st rd wr react ans v fixd' (with_main c (main_of s'))" for cid
  proof -
    from assms have "routed_conn pb cid st rd wr react ans v fixd (with_main c r)" "routed_conn pb cid st rd wr react ans w fixd' s'"
      by (simp_all add: processing_def)
    then show ?thesis by (simp add: routed_conn_def)
  qed
  with assms(2) show ?thesis by (simp add: processing_def)
qed

section \<open>The pool refines the machine\<close>

locale processing_pool =
  fixes pb :: tp_pb
    and st :: "'p \<Rightarrow> string \<Rightarrow> bytes"
    and rd wr :: "string \<Rightarrow> bool"
    and react :: "'p \<Rightarrow> Message_MessageType \<Rightarrow> bytes \<Rightarrow> (Message_MessageType \<times> bytes \<times> 'p) option"
    and ans :: "'p \<Rightarrow> (string \<times> bytes) list"
    and h :: "('p, 'x) main_thread ZmqConnection TransactionHandler"
    and fits :: "TpProcessRequest \<Rightarrow> bool"
    and good :: "(string \<Rightarrow> bytes) \<Rightarrow> bool"
    and abst :: "(string \<Rightarrow> bytes) \<Rightarrow> 'm"
    and spec :: "TpProcessRequest \<Rightarrow> 'm \<Rightarrow> 'm verdict"
  assumes family: "\<And>w. processing_family pb st rd wr react ans w h fits good abst spec"
begin

abbreviation pool_running :: "Message list \<Rightarrow> nat \<Rightarrow> (string \<times> bytes) list \<Rightarrow> ('p, 'x) pool \<Rightarrow> bool" where
  "pool_running Q cap A \<equiv> pool_processing pb st rd wr react ans h fits good (Q, cap, A)"

abbreviation pmachine :: "('p, 'x) pool \<Rightarrow> (TpProcessRequest, 'm) machine" where
  "pmachine \<equiv> pool_machine pb st ans abst"

lemma pool_running_worker:
  "pool_running Q cap A P \<Longrightarrow> i < length (pl_workers P) \<Longrightarrow>
    processing pb st rd wr react ans (fst (pl_workers P ! i)) h fits good (Q, cap, A) (with_main (snd (pl_workers P ! i)) (pl_main P))"
  by (simp add: pool_processing_def)

text \<open>What one worker leaves is good for every other one.\<close>

lemma pool_running_update:
  assumes "pool_running Q cap A P" "i < length (pl_workers P)"
    and "processing pb st rd wr react ans (fst (pl_workers P ! i)) h fits good (Q', cap, A') s'"
  shows "pool_running Q' cap A' (P\<lparr>pl_main := main_of s'\<rparr>)"
    and "pool_running Q' cap A' (P\<lparr>pl_main := main_of s', pl_workers := (pl_workers P)[i := (fst (pl_workers P ! i), s')]\<rparr>)"
proof -
  have "processing pb st rd wr react ans (fst (pl_workers P ! j)) h fits good (Q', cap, A') (with_main (snd (pl_workers P ! j)) (main_of s'))"
    if "j < length (pl_workers P)" for j
    by (rule processing_other_worker [OF pool_running_worker [OF assms(1) that] assms(3)])
  moreover have "with_main s' (main_of s') = s'" by simp
  ultimately show "pool_running Q' cap A' (P\<lparr>pl_main := main_of s'\<rparr>)"
    "pool_running Q' cap A' (P\<lparr>pl_main := main_of s', pl_workers := (pl_workers P)[i := (fst (pl_workers P ! i), s')]\<rparr>)"
    using assms by (auto simp: pool_processing_def nth_list_update)
qed

definition pool_matches :: "nat \<Rightarrow> nat \<Rightarrow> (bool outcome \<times> ('p, 'x) pool) \<Rightarrow> (TpProcessRequest, 'm) machine option \<Rightarrow> bool" where
  "pool_matches n cap res M \<longleftrightarrow> (case M of
     None \<Rightarrow> \<exists>e. fst res = Panic e
   | Some M' \<Rightarrow> fst res = Ret True \<and> pmachine (snd res) = M' \<and> length (pl_workers (snd res)) = n \<and>
       (\<exists>Q A. pool_running Q cap A (snd res)))"

lemma pool_arrival_matches:
  assumes "pool_running Q cap A P" "pool_events pb h fits n [PoolArrives m]"
  shows "pool_matches (length (pl_workers P)) cap (pool_arrives pb m P)
    (machine_step spec cap (pool_event_of pb (PoolArrives m)) (pmachine P))"
proof -
  let ?c = "snd (pl_workers P ! 0)" and ?w = "fst (pl_workers P ! 0)"
  from assms(1) have nonempty: "0 < length (pl_workers P)" by (simp add: pool_processing_def)
  have "family_events pb h fits [RequestArrives m]" using assms(2) by (simp add: pool_events_def family_events_def)
  from processing_family.step_refines [OF family pool_running_worker [OF assms(1) nonempty] this]
  obtain s' Q' A' where
    s': "request_arrives pb m (with_main ?c (pl_main P)) = (Ret True, s')"
    "processing pb st rd wr react ans ?w h fits good (Q', cap, A') s'"
    "machine_step spec cap (pool_event_of pb (PoolArrives m)) (pmachine P) = Some (machine_of pb st ans abst s')"
    by (auto simp: pool_machine_worker)
  have "machine_of pb st ans abst s' = pmachine (P\<lparr>pl_main := main_of s'\<rparr>)" by (simp add: machine_of_def pool_machine_def)
  with s'(3) pool_running_update(1) [OF assms(1) nonempty s'(2)] s'(1) pool_arrives_worker [of pb m P ?c]
  show ?thesis by (auto simp: pool_matches_def simp del: machine_step.simps pool_event_of.simps)
qed

lemma pool_turn_matches:
  assumes "pool_running Q cap A P" "i < length (pl_workers P)"
  shows "pool_matches (length (pl_workers P)) cap (pool_turn pb [h] i P) (machine_step spec cap Serve (pmachine P))"
proof -
  let ?c = "snd (pl_workers P ! i)" and ?w = "fst (pl_workers P ! i)"
  have "family_events pb h fits [WorkerTurn]" by (simp add: family_events_def)
  note step = processing_family.step_refines
    [OF family pool_running_worker [OF assms] this, unfolded event_of.simps thread_step.simps pool_machine_worker]
  have turn: "pool_turn pb [h] i P = (case worker_turn pb [h] (with_main ?c (pl_main P)) of (x, s') \<Rightarrow>
      (x, P\<lparr>pl_main := main_of s', pl_workers := (pl_workers P)[i := (?w, s')]\<rparr>))"
    using assms(2) by (simp add: pool_turn_def case_prod_unfold)
  show ?thesis
  proof (cases "machine_step spec cap Serve (pmachine P)")
    case None
    with step obtain e s' where "worker_turn pb [h] (with_main ?c (pl_main P)) = (Panic e, s')" by auto
    with None show ?thesis by (simp add: turn pool_matches_def)
  next
    case (Some M)
    with step obtain s' Q' A' where s': "worker_turn pb [h] (with_main ?c (pl_main P)) = (Ret True, s')"
      "processing pb st rd wr react ans ?w h fits good (Q', cap, A') s'" "machine_of pb st ans abst s' = M" by auto
    have "pmachine (P\<lparr>pl_main := main_of s', pl_workers := (pl_workers P)[i := (?w, s')]\<rparr>) = M"
      using s'(3) by (simp add: machine_of_def pool_machine_def)
    with Some s'(1) pool_running_update(2) [OF assms s'(2)] show ?thesis
      by (auto simp: pool_matches_def turn simp del: machine_step.simps)
  qed
qed

lemma pool_step_matches:
  assumes "pool_running Q cap A P" "pool_events pb h fits (length (pl_workers P)) [ev]"
  shows "pool_matches (length (pl_workers P)) cap (pool_step pb [h] ev P) (machine_step spec cap (pool_event_of pb ev) (pmachine P))"
proof (cases ev)
  case (PoolArrives m)
  with pool_arrival_matches [OF assms(1)] assms(2) show ?thesis by (simp del: machine_step.simps)
next
  case (PoolTurn i)
  with assms(2) have "i < length (pl_workers P)" by (simp add: pool_events_def)
  from pool_turn_matches [OF assms(1) this] PoolTurn show ?thesis by (simp del: machine_step.simps)
qed

lemma pool_run_matches:
  assumes "pool_running Q cap A P" "pool_events pb h fits (length (pl_workers P)) evs"
  shows "pool_matches (length (pl_workers P)) cap (pool_run pb [h] evs P)
    (machine_run spec cap (map (pool_event_of pb) evs) (pmachine P))"
  using assms
proof (induction evs arbitrary: P Q A)
  case Nil
  then show ?case by (auto simp: pool_matches_def)
next
  case (Cons ev evs)
  let ?n = "length (pl_workers P)"
  from Cons.prems(2) have ev: "pool_events pb h fits ?n [ev]" and evs: "pool_events pb h fits ?n evs" by (simp_all add: pool_events_def)
  note step = pool_step_matches [OF Cons.prems(1) ev]
  show ?case
  proof (cases "machine_step spec cap (pool_event_of pb ev) (pmachine P)")
    case None
    with step obtain e P1 where "pool_step pb [h] ev P = (Panic e, P1)"
      by (cases "pool_step pb [h] ev P") (auto simp: pool_matches_def)
    with None show ?thesis by (simp add: pool_matches_def bindP_def)
  next
    case (Some M)
    with step obtain P1 Q1 A1 where 1: "pool_step pb [h] ev P = (Ret True, P1)" "pmachine P1 = M" "length (pl_workers P1) = ?n"
      "pool_running Q1 cap A1 P1"
      by (cases "pool_step pb [h] ev P") (auto simp: pool_matches_def)
    from Cons.IH [OF 1(4)] evs 1(1-3) Some show ?thesis by (simp add: bindP_def)
  qed
qed

text \<open>The pool refines the machine, whichever worker takes each turn.\<close>

lemma pool_run_refines:
  assumes "pool_running Q cap A P" "pool_events pb h fits (length (pl_workers P)) evs"
  shows "case machine_run spec cap (map (pool_event_of pb) evs) (pmachine P) of
      None \<Rightarrow> \<exists>e P'. pool_run pb [h] evs P = (Panic e, P')
    | Some M \<Rightarrow> \<exists>P' Q' A'. pool_run pb [h] evs P = (Ret True, P') \<and> pool_running Q' cap A' P' \<and> pmachine P' = M"
  using pool_run_matches [OF assms] by (cases "pool_run pb [h] evs P") (auto simp: pool_matches_def split: option.splits)

text \<open>As many turns as the queue can hold, of any of the workers, leave every request answered.\<close>

lemma pool_answers_all:
  assumes "pool_running Q cap A P" "pool_events pb h fits (length (pl_workers P)) evs" "length Q \<le> cap"
    and "cap \<le> length turns" "\<forall>i \<in> set turns. i < length (pl_workers P)"
    and "machine_run spec cap (map (pool_event_of pb) (evs @ map PoolTurn turns)) (pmachine P) = Some M"
  shows "\<exists>P'. pool_run pb [h] (evs @ map PoolTurn turns) P = (Ret True, P') \<and> r_queue (pl_main P') = [] \<and>
    mset (map fst (ans (peer (r_validator (pl_main P'))))) =
      mset (map fst A) + mset (map Message_CorrelationId Q) + mset (pool_arrivals evs)"
proof -
  from assms(1) have "0 < length (pl_workers P)" by (simp add: pool_processing_def)
  from pool_running_worker [OF assms(1) this] have r: "r_queue (pl_main P) = Q" "ans (peer (r_validator (pl_main P))) = A"
    by (simp_all add: processing_def routed_conn_def)
  have "pool_events pb h fits (length (pl_workers P)) (evs @ map PoolTurn turns)" using assms(2,5) by simp
  from pool_run_refines [OF assms(1) this] assms(6) obtain P' where
    P': "pool_run pb [h] (evs @ map PoolTurn turns) P = (Ret True, P')" "pmachine P' = M" by auto
  have "mc_queue M = [] \<and> mset (map fst (mc_answers M)) = known (pmachine P) + mset (asked (map (pool_event_of pb) evs))"
    by (rule machine_answers_all [where n = "length turns"]) (use assms(3,4,6) r in \<open>simp_all add: map_replicate_const comp_def\<close>)
  then have "r_queue (pl_main P') = []" "mset (map fst (ans (peer (r_validator (pl_main P'))))) = known (pmachine P) + mset (pool_arrivals evs)"
    unfolding P'(2) [symmetric] asked_pool_events pool_machine_fields by simp_all
  moreover have "known (pmachine P) = mset (map fst A) + mset (map Message_CorrelationId Q)"
    unfolding known_def pool_machine_fields r by (simp add: comp_def)
  ultimately show ?thesis using P'(1) by auto
qed

end

text \<open>The four handlers keep the promise for every worker.\<close>

interpretation intkey_pool: processing_pool pb st rd wr react ans "intkey_handler cb self" "\<lambda>q. True"
    "intkey_state cb self rd wr" "intkey_value cb self" "intkey_verdict cb"
  for pb st rd wr react ans cb self
  by unfold_locales

interpretation smallbank_pool: processing_pool pb st rd wr react ans "smallbank_handler sb" "\<lambda>q. True"
    "smallbank_state sb rd wr" "bank_of sb" "smallbank_verdict sb"
  for pb st rd wr react ans sb
  by unfold_locales

interpretation xo_pool: processing_pool pb st rd wr react ans xo_handler xo_fits "xo_state rd wr" xo_game xo_verdict
  for pb st rd wr react ans
  by unfold_locales

interpretation noop_pool: processing_pool pb st rd wr react ans "noop_handler self" "\<lambda>q. True" "\<lambda>f. True" "\<lambda>f. ()" "\<lambda>q M. Commit M"
  for pb st rd wr react ans self
  by unfold_locales

section \<open>A pool of two workers\<close>

definition demo_pool ::
  "(string \<Rightarrow> bytes) \<Rightarrow> nat \<Rightarrow> ((string \<Rightarrow> bytes) \<times> (string \<times> bytes) list, unit) pool" where
  "demo_pool f cap =
    (let c = demo_processor f cap in
     \<lparr>pl_main = main_of c,
      pl_workers = [(''w'', c),
        (''v'', c\<lparr>conn_identity := ''v'', conn_socket := (conn_socket c)\<lparr>sk_deliver := main_turn unary_tp_pb ''v''\<rparr>\<rparr>)]\<rparr>)"

lemma demo_pool_workers [simp]: "length (pl_workers (demo_pool f cap)) = 2"
  by (simp add: demo_pool_def Let_def)

lemma demo_pool_machine:
  "pool_machine unary_tp_pb fst snd abst (demo_pool f cap) = \<lparr>mc_store = abst f, mc_queue = [], mc_answers = []\<rparr>"
  by (simp add: pool_machine_def demo_pool_def Let_def)

lemma demo_pool_processing:
  assumes "good f"
  shows "pool_processing unary_tp_pb fst (\<lambda>a. True) (\<lambda>a. True) (recording_react unary_tp_pb) snd h fits good ([], cap, []) (demo_pool f cap)"
proof -
  have "processing unary_tp_pb fst (\<lambda>a. True) (\<lambda>a. True) (recording_react unary_tp_pb) snd (fst x) h fits good ([], cap, [])
      (with_main (snd x) (main_of (demo_processor f cap)))" if "x \<in> set (pl_workers (demo_pool f cap))" for x
    using that assms by (auto simp: demo_pool_def Let_def processing_def routed_conn_def recording_contract)
  from this [OF nth_mem] show ?thesis by (simp add: pool_processing_def) (simp add: demo_pool_def Let_def)
qed

text \<open>Runs in which the two workers take their turns among the arrivals.\<close>

abbreviation demo_intkey_pool :: "pool_event list" where
  "demo_intkey_pool \<equiv> [PoolArrives (demo_ask demo_process_request ''1''), PoolArrives (demo_ask demo_process_request ''2''),
     PoolTurn 1, PoolArrives (demo_ask demo_process_request ''3''), PoolTurn 0]"

abbreviation demo_bank_pool :: "pool_event list" where
  "demo_bank_pool \<equiv> [PoolArrives (demo_ask (demo_bank_request 2) ''1''), PoolArrives (demo_ask (demo_bank_request 1) ''2''), PoolTurn 1]"

abbreviation demo_xo_pool :: "pool_event list" where
  "demo_xo_pool \<equiv> [PoolArrives (demo_ask (demo_xo_request ''02abcdef'' ''g,create,'') ''1''), PoolTurn 0,
     PoolArrives (demo_ask (demo_xo_request ''03abcdef'' ''g,create,'') ''2''), PoolTurn 1]"

lemma demo_pool_events:
  "pool_events unary_tp_pb (intkey_handler cb self) (\<lambda>q. True) 2 demo_intkey_pool"
  "pool_events unary_tp_pb (smallbank_handler sb) (\<lambda>q. True) 2 demo_bank_pool"
  "pool_events unary_tp_pb (smallbank_handler sb) (\<lambda>q. True) 2 (demo_bank_pool @ [PoolTurn 0])"
  by (simp_all add: pool_events_def demo_ask_message demo_process_request_def intkey_handler_def Intkey_FamilyName_def Intkey_FamilyVersions_def
      demo_bank_request_def smallbank_handler_def Smallbank_FamilyName_def Smallbank_FamilyVersions_def)

lemma demo_xo_pool_events: "pool_events unary_tp_pb xo_handler xo_fits 2 demo_xo_pool"
  by (simp add: pool_events_def demo_ask_message xo_fits_def plain_def xo_handler_def Xo_FamilyName_def Xo_FamilyVersions_def)
    (simp add: demo_xo_request_def)

lemma demo_family_pools:
  "pool_processing unary_tp_pb fst (\<lambda>a. True) (\<lambda>a. True) (recording_react unary_tp_pb) snd
     (intkey_handler demo_cbor (NewIntkeyHandler ''1cf126'')) (\<lambda>q. True)
     (intkey_state demo_cbor (NewIntkeyHandler ''1cf126'') (\<lambda>a. True) (\<lambda>a. True)) ([], cap, []) (demo_pool (\<lambda>a. []) cap)"
  "pool_processing unary_tp_pb fst (\<lambda>a. True) (\<lambda>a. True) (recording_react unary_tp_pb) snd (smallbank_handler demo_sb) (\<lambda>q. True)
     (smallbank_state demo_sb (\<lambda>a. True) (\<lambda>a. True)) ([], cap, []) (demo_pool (demo_bank 1 7) cap)"
  "pool_processing unary_tp_pb fst (\<lambda>a. True) (\<lambda>a. True) (recording_react unary_tp_pb) snd xo_handler xo_fits
     (xo_state (\<lambda>a. True) (\<lambda>a. True)) ([], cap, []) (demo_pool (\<lambda>a. []) cap)"
  by (rule demo_pool_processing, simp add: intkey_state_def smallbank_state_def xo_state_def)+

section \<open>Properties\<close>

text \<open>
  C1: a transaction processor is a queue of requests in front of an abstract store, however many
  workers it has.  Whatever the order in which requests arrive at the main thread and the workers
  take their turns, a processor with the intkey handler, all its state accesses and responses going
  through the main thread, does what the abstract machine does: a request is queued while there is
  room and refused at once otherwise, requests are served in the order of arrival, each with the
  effect of the specified operation on the map from names to values and with the answer OK exactly
  when that operation is defined.  No step panics or waits for ever, and no worker gives up.
\<close>

theorem processor_refines_store:
  assumes "pool_processing pb st rd wr react ans (intkey_handler cb self) (\<lambda>q. True) (intkey_state cb self rd wr) (Q, cap, A) P"
    and "pool_events pb (intkey_handler cb self :: ('p, 'x) main_thread ZmqConnection TransactionHandler) (\<lambda>q. True) (length (pl_workers P)) evs"
  shows "\<exists>P' :: ('p, 'x) pool. pool_run pb [intkey_handler cb self] evs P = (Ret True, P') \<and>
    (\<exists>Q' A'. pool_processing pb st rd wr react ans (intkey_handler cb self) (\<lambda>q. True) (intkey_state cb self rd wr) (Q', cap, A') P') \<and>
    machine_run (intkey_verdict cb) cap (map (pool_event_of pb) evs) (pool_machine pb st ans (intkey_value cb self) P) =
      Some (pool_machine pb st ans (intkey_value cb self) P')"
proof -
  let ?M = "pool_machine pb st ans (intkey_value cb self) P"
  obtain M where M: "machine_run (intkey_verdict cb) cap (map (pool_event_of pb) evs) ?M = Some M"
    using intkey_machine_total by blast
  from intkey_pool.pool_run_refines [OF assms] M show ?thesis by auto
qed

lemma processor_refines_store_witness:
  "\<exists>P'. pool_run unary_tp_pb [intkey_handler demo_cbor (NewIntkeyHandler ''1cf126'')] demo_intkey_pool (demo_pool (\<lambda>a. []) 1) = (Ret True, P') \<and>
    pool_machine unary_tp_pb fst snd (intkey_value demo_cbor (NewIntkeyHandler ''1cf126'')) P' =
      \<lparr>mc_store = [''x'' \<mapsto> 7], mc_queue = [], mc_answers = [(''2'', False), (''1'', True), (''3'', False)]\<rparr>"
  using processor_refines_store [OF demo_family_pools(1) [of 1], unfolded demo_pool_workers, OF demo_pool_events(1)]
  by (auto simp: demo_pool_machine demo_intkey_value demo_intkey_verdict simp del: pool_run.simps)

text \<open>
  A run \<open>evs\<close> of a processor, followed by \<open>turns\<close> of its workers: the state fits the family, what arrives
  is process requests of the family, and there are as many turns as the queue can hold.
\<close>

definition drained_run ::
  "tp_pb \<Rightarrow> ('p \<Rightarrow> string \<Rightarrow> bytes) \<Rightarrow> (string \<Rightarrow> bool) \<Rightarrow> (string \<Rightarrow> bool) \<Rightarrow>
   ('p \<Rightarrow> Message_MessageType \<Rightarrow> bytes \<Rightarrow> (Message_MessageType \<times> bytes \<times> 'p) option) \<Rightarrow> ('p \<Rightarrow> (string \<times> bytes) list) \<Rightarrow>
   ('p, 'x) main_thread ZmqConnection TransactionHandler \<Rightarrow> (TpProcessRequest \<Rightarrow> bool) \<Rightarrow> ((string \<Rightarrow> bytes) \<Rightarrow> bool) \<Rightarrow>
   Message list \<times> nat \<times> (string \<times> bytes) list \<Rightarrow> ('p, 'x) pool \<Rightarrow> pool_event list \<Rightarrow> nat list \<Rightarrow> bool" where
  "drained_run pb st rd wr react ans h fits good fixd P evs turns \<longleftrightarrow>
     pool_processing pb st rd wr react ans h fits good fixd P \<and> pool_events pb h fits (length (pl_workers P)) evs \<and>
     length (fst fixd) \<le> fst (snd fixd) \<and> fst (snd fixd) \<le> length turns \<and> (\<forall>i \<in> set turns. i < length (pl_workers P))"

text \<open>
  The processor is still running, its queue is empty, and the process responses the validator has
  received since are, each once, for the requests that waited and those that arrived.
\<close>

definition answered_once ::
  "tp_pb \<Rightarrow> ('p \<Rightarrow> (string \<times> bytes) list) \<Rightarrow> ('p, 'x) main_thread ZmqConnection TransactionHandler \<Rightarrow>
   Message list \<times> nat \<times> (string \<times> bytes) list \<Rightarrow> ('p, 'x) pool \<Rightarrow> pool_event list \<Rightarrow> nat list \<Rightarrow> bool" where
  "answered_once pb ans h fixd P evs turns \<longleftrightarrow> (\<exists>P'. pool_run pb [h] (evs @ map PoolTurn turns) P = (Ret True, P') \<and>
     r_queue (pl_main P') = [] \<and>
     mset (map fst (ans (peer (r_validator (pl_main P'))))) =
       mset (map fst (snd (snd fixd))) + mset (map Message_CorrelationId (fst fixd)) + mset (pool_arrivals evs))"

definition pool_panics ::
  "tp_pb \<Rightarrow> ('p, 'x) main_thread ZmqConnection TransactionHandler \<Rightarrow> ('p, 'x) pool \<Rightarrow> pool_event list \<Rightarrow> bool" where
  "pool_panics pb h P evs \<longleftrightarrow> (\<exists>e P'. pool_run pb [h] evs P = (Panic e, P'))"

context processing_pool
begin

lemma drained_answered:
  assumes "drained_run pb st rd wr react ans h fits good (Q, cap, A) P evs turns"
  shows "if machine_run spec cap (map (pool_event_of pb) (evs @ map PoolTurn turns)) (pmachine P) = None
    then pool_panics pb h P (evs @ map PoolTurn turns) else answered_once pb ans h (Q, cap, A) P evs turns"
proof (cases "machine_run spec cap (map (pool_event_of pb) (evs @ map PoolTurn turns)) (pmachine P)")
  case None
  from assms have "pool_running Q cap A P" "pool_events pb h fits (length (pl_workers P)) (evs @ map PoolTurn turns)"
    by (simp_all add: drained_run_def)
  from pool_run_refines [OF this] None show ?thesis by (simp add: pool_panics_def)
next
  case (Some M)
  from assms have d: "pool_running Q cap A P" "pool_events pb h fits (length (pl_workers P)) evs" "length Q \<le> cap" "cap \<le> length turns"
    "\<forall>i \<in> set turns. i < length (pl_workers P)" by (simp_all add: drained_run_def)
  from pool_answers_all [OF d Some] Some show ?thesis by (simp add: answered_once_def)
qed

end

text \<open>
  C7: the processor of each of the four families answers every request of its family exactly once.
  It starts on a state that fits the family, and process requests of its family and version, for xo
  of signers with a usable key, arrive and workers take turns in any order.  Then as many turns
  as the queue can hold, of whichever workers, empty the queue, and the process responses that the validator
  has received carry, each exactly once, the correlation ids of the requests that were waiting at
  the start and of all that arrived: no request is lost, and none is answered twice.  For intkey
  and noop this always holds.  For smallbank and xo it holds unless the handler panics on a request
  (the abstract machine stops); then the whole processor panics.  A request of another family is
  not covered: the worker that gets it stops without an answer.
\<close>

theorem every_request_answered_once:
  fixes P :: "('p, 'x) pool"
  shows
    "(drained_run pb st rd wr react ans (intkey_handler cb self) (\<lambda>q. True) (intkey_state cb self rd wr) (Q, cap, A) P evs turns \<longrightarrow>
       answered_once pb ans (intkey_handler cb self) (Q, cap, A) P evs turns) \<and>
     (drained_run pb st rd wr react ans (noop_handler noop) (\<lambda>q. True) (\<lambda>f. True) (Q, cap, A) P evs turns \<longrightarrow>
       answered_once pb ans (noop_handler noop) (Q, cap, A) P evs turns) \<and>
     (drained_run pb st rd wr react ans (smallbank_handler sb) (\<lambda>q. True) (smallbank_state sb rd wr) (Q, cap, A) P evs turns \<longrightarrow>
       (if machine_run (smallbank_verdict sb) cap (map (pool_event_of pb) (evs @ map PoolTurn turns)) (pool_machine pb st ans (bank_of sb) P) = None
        then pool_panics pb (smallbank_handler sb) P (evs @ map PoolTurn turns)
        else answered_once pb ans (smallbank_handler sb) (Q, cap, A) P evs turns)) \<and>
     (drained_run pb st rd wr react ans xo_handler xo_fits (xo_state rd wr) (Q, cap, A) P evs turns \<longrightarrow>
       (if machine_run xo_verdict cap (map (pool_event_of pb) (evs @ map PoolTurn turns)) (pool_machine pb st ans xo_game P) = None
        then pool_panics pb xo_handler P (evs @ map PoolTurn turns)
        else answered_once pb ans xo_handler (Q, cap, A) P evs turns))"
proof (intro conjI impI)
  have total: "machine_run (intkey_verdict cb) n es M \<noteq> None" for n es M using intkey_machine_total [of cb n es M] by auto
  show "answered_once pb ans (intkey_handler cb self) (Q, cap, A) P evs turns"
    if "drained_run pb st rd wr react ans (intkey_handler cb self) (\<lambda>q. True) (intkey_state cb self rd wr) (Q, cap, A) P evs turns"
    using intkey_pool.drained_answered [OF that] unfolding if_not_P [OF total] .
  have commit: "machine_run (\<lambda>q M. Commit M) n es M \<noteq> None" for n es and M :: "(TpProcessRequest, unit) machine"
    using machine_run_total [of "\<lambda>q M. Commit M" n es M] by auto
  show "answered_once pb ans (noop_handler noop) (Q, cap, A) P evs turns"
    if "drained_run pb st rd wr react ans (noop_handler noop) (\<lambda>q. True) (\<lambda>f. True) (Q, cap, A) P evs turns"
    using noop_pool.drained_answered [OF that] unfolding if_not_P [OF commit] .
qed (rule smallbank_pool.drained_answered xo_pool.drained_answered, assumption)+

text \<open>Three intkey requests for a queue of one, and a deposit for the bank.\<close>

lemma demo_drained:
  "drained_run unary_tp_pb fst (\<lambda>a. True) (\<lambda>a. True) (recording_react unary_tp_pb) snd (intkey_handler demo_cbor (NewIntkeyHandler ''1cf126''))
     (\<lambda>q. True) (intkey_state demo_cbor (NewIntkeyHandler ''1cf126'') (\<lambda>a. True) (\<lambda>a. True)) ([], 1, []) (demo_pool (\<lambda>a. []) 1) demo_intkey_pool [1]"
  "drained_run unary_tp_pb fst (\<lambda>a. True) (\<lambda>a. True) (recording_react unary_tp_pb) snd (smallbank_handler demo_sb)
     (\<lambda>q. True) (smallbank_state demo_sb (\<lambda>a. True) (\<lambda>a. True)) ([], 2, []) (demo_pool (demo_bank 1 7) 2) demo_bank_pool [0, 1]"
  "drained_run unary_tp_pb fst (\<lambda>a. True) (\<lambda>a. True) (recording_react unary_tp_pb) snd xo_handler
     xo_fits (xo_state (\<lambda>a. True) (\<lambda>a. True)) ([], 1, []) (demo_pool (\<lambda>a. []) 1) demo_xo_pool [0]"
  unfolding drained_run_def demo_pool_workers by (simp_all add: demo_family_pools demo_pool_events demo_xo_pool_events del: One_nat_def)

lemma every_request_answered_once_witness:
  "(\<exists>P'. pool_run unary_tp_pb [intkey_handler demo_cbor (NewIntkeyHandler ''1cf126'')] (demo_intkey_pool @ map PoolTurn [1])
      (demo_pool (\<lambda>a. []) 1) = (Ret True, P') \<and>
    mset (map fst (snd (peer (r_validator (pl_main P'))))) = {#''1'', ''2'', ''3''#}) \<and>
   pool_panics unary_tp_pb (smallbank_handler demo_sb) (demo_pool (demo_bank 1 7) 2) (demo_bank_pool @ map PoolTurn [0, 1]) \<and>
   answered_once unary_tp_pb snd xo_handler ([], 1, []) (demo_pool (\<lambda>a. []) 1) demo_xo_pool [0]"
proof -
  have none: "machine_run (smallbank_verdict demo_sb) 2 (map (pool_event_of unary_tp_pb) (demo_bank_pool @ map PoolTurn [0, 1]))
      (pool_machine unary_tp_pb fst snd (bank_of demo_sb) (demo_pool (demo_bank 1 7) 2)) = None"
    by (simp add: demo_pool_machine demo_bank_verdict)
  have some: "machine_run xo_verdict 1 (map (pool_event_of unary_tp_pb) (demo_xo_pool @ map PoolTurn [0]))
      (pool_machine unary_tp_pb fst snd xo_game (demo_pool (\<lambda>a. []) 1)) \<noteq> None"
    by (simp add: demo_pool_machine demo_xo_verdict)
  have "pool_panics unary_tp_pb (smallbank_handler demo_sb) (demo_pool (demo_bank 1 7) 2) (demo_bank_pool @ map PoolTurn [0, 1])"
    using every_request_answered_once [THEN conjunct2, THEN conjunct2, THEN conjunct1, THEN mp, OF demo_drained(2)] unfolding if_P [OF none] .
  moreover have "answered_once unary_tp_pb snd xo_handler ([], 1, []) (demo_pool (\<lambda>a. []) 1) demo_xo_pool [0]"
    using every_request_answered_once [THEN conjunct2, THEN conjunct2, THEN conjunct2, THEN mp, OF demo_drained(3)] unfolding if_not_P [OF some] .
  moreover have "pool_arrivals demo_intkey_pool = [''1'', ''2'', ''3'']" by (simp add: pool_arrivals_def)
  ultimately show ?thesis
    using every_request_answered_once [THEN conjunct1, THEN mp, OF demo_drained(1)] unfolding answered_once_def
    by (auto simp del: pool_run.simps)
qed

text \<open>
  C9: the processor of the smallbank family is a queue of requests in front of a bank.  Whatever
  the number of workers and the order of arrivals and turns, it does what the abstract machine does
  over the bank: it commits the specified change of the accounts and answers OK, or refuses and
  leaves the bank as it was.  The machine stops when a request is served whose payload lacks the
  data of its type (smallbank\_crash); then that worker panics, and with it the whole processor.
\<close>

theorem smallbank_processor_refines:
  assumes "pool_processing pb st rd wr react ans (smallbank_handler sb) (\<lambda>q. True) (smallbank_state sb rd wr) (Q, cap, A) P"
    and "pool_events pb (smallbank_handler sb :: ('p, 'x) main_thread ZmqConnection TransactionHandler) (\<lambda>q. True) (length (pl_workers P)) evs"
  shows "case machine_run (smallbank_verdict sb) cap (map (pool_event_of pb) evs) (pool_machine pb st ans (bank_of sb) P) of
      None \<Rightarrow> \<exists>e P'. pool_run pb [smallbank_handler sb] evs P = (Panic e, P' :: ('p, 'x) pool)
    | Some M \<Rightarrow> \<exists>P' Q' A'. pool_run pb [smallbank_handler sb] evs P = (Ret True, P') \<and>
        pool_processing pb st rd wr react ans (smallbank_handler sb) (\<lambda>q. True) (smallbank_state sb rd wr) (Q', cap, A') P' \<and>
        pool_machine pb st ans (bank_of sb) P' = M"
  using assms by (rule smallbank_pool.pool_run_refines)

lemma smallbank_processor_refines_witness:
  "(\<exists>P'. pool_run unary_tp_pb [smallbank_handler demo_sb] demo_bank_pool (demo_pool (demo_bank 1 7) 2) = (Ret True, P') \<and>
      pool_machine unary_tp_pb fst snd (bank_of demo_sb) P' =
        \<lparr>mc_store = (bank_of demo_sb (demo_bank 1 7))(smallbank_address 1 \<mapsto> demo_account 1 9),
         mc_queue = [(''2'', demo_bank_request 1)], mc_answers = [(''1'', True)]\<rparr>) \<and>
   (\<exists>e P'. pool_run unary_tp_pb [smallbank_handler demo_sb] (demo_bank_pool @ [PoolTurn 0]) (demo_pool (demo_bank 1 7) 2) = (Panic e, P'))"
  using smallbank_processor_refines [OF demo_family_pools(2) [of 2], unfolded demo_pool_workers, OF demo_pool_events(2)]
    smallbank_processor_refines [OF demo_family_pools(2) [of 2], unfolded demo_pool_workers, OF demo_pool_events(3)]
  by (auto simp: demo_pool_machine demo_bank_verdict simp del: pool_run.simps)

text \<open>
  C10: the processor of the xo family is a queue of requests in front of a store of games.  For
  requests whose signer has a usable key, whatever the number of workers and the order of arrivals
  and turns, it does what the abstract machine does over the games; the machine stops when the
  specification panics (a space out of range, a name too long to print, a key too short to print),
  and then the whole processor panics.
\<close>

theorem xo_processor_refines:
  assumes "pool_processing pb st rd wr react ans xo_handler xo_fits (xo_state rd wr) (Q, cap, A) P"
    and "pool_events pb (xo_handler :: ('p, 'x) main_thread ZmqConnection TransactionHandler) xo_fits (length (pl_workers P)) evs"
  shows "case machine_run xo_verdict cap (map (pool_event_of pb) evs) (pool_machine pb st ans xo_game P) of
      None \<Rightarrow> \<exists>e P'. pool_run pb [xo_handler] evs P = (Panic e, P' :: ('p, 'x) pool)
    | Some M \<Rightarrow> \<exists>P' Q' A'. pool_run pb [xo_handler] evs P = (Ret True, P') \<and>
        pool_processing pb st rd wr react ans xo_handler xo_fits (xo_state rd wr) (Q', cap, A') P' \<and>
        pool_machine pb st ans xo_game P' = M"
  using assms by (rule xo_pool.pool_run_refines)

lemma xo_processor_refines_witness:
  "\<exists>P'. pool_run unary_tp_pb [xo_handler] demo_xo_pool (demo_pool (\<lambda>a. []) 1) = (Ret True, P') \<and>
    pool_machine unary_tp_pb fst snd xo_game P' =
      \<lparr>mc_store = [''g'' \<mapsto> demo_game ''g''], mc_queue = [], mc_answers = [(''1'', True), (''2'', False)]\<rparr>"
  using xo_processor_refines [OF demo_family_pools(3) [of 1], unfolded demo_pool_workers, OF demo_xo_pool_events]
  by (auto simp: demo_pool_machine demo_xo_verdict simp del: pool_run.simps)

end
