(* ===== verification/Engine_Service.thy ===== *)
theory Engine_Service
  imports Consensus_Engine
begin

text \<open>
  A call of the consensus service and the main thread of the engine that carries it.  The service
  (consensus/service.go) runs in the thread of the implementation; its request goes over a pair of
  sockets to the main thread (consensus/engine.go), which forwards it to the validator, and passes
  the answer on if the service's table of pending ids has its correlation id.  The call is cut
  where the main thread can act, and both orders are compared.
\<close>

section \<open>The two threads\<close>

type_synonym ('p, 'x) engine_main = "('p ZmqConnection, bytes list list ZmqConnection, 'x) engine"

text \<open>
  Both ends of the pair record what is sent on them; it arrives at the other end when it is carried
  over.
\<close>

definition to_engine ::
  "bytes list list ZmqConnection \<Rightarrow> ('p, 'x) engine_main \<Rightarrow> bytes list list ZmqConnection \<times> ('p, 'x) engine_main" where
  "to_engine c e = (c\<lparr>conn_socket := (conn_socket c)\<lparr>sk_peer := []\<rparr>\<rparr>,
     e\<lparr>en_service := set_inbox (inbox (en_service e) @ map Inr (peer c)) (en_service e)\<rparr>)"

definition to_service ::
  "bytes list list ZmqConnection \<Rightarrow> ('p, 'x) engine_main \<Rightarrow> bytes list list ZmqConnection \<times> ('p, 'x) engine_main" where
  "to_service c e = (set_inbox (inbox c @ map Inr (peer (en_service e))) c,
     e\<lparr>en_service := (en_service e)\<lparr>conn_socket := (conn_socket (en_service e))\<lparr>sk_peer := []\<rparr>\<rparr>\<rparr>)"

text \<open>
  A turn of the main thread: it receives what the service has sent and then what the validator
  has answered.  The table of pending ids is the one of the service, as it is at that time.
\<close>

definition engine_turn ::
  "cons_pb \<Rightarrow> bytes list list ZmqConnection ZmqService \<times> ('p, 'x) engine_main \<Rightarrow>
   bytes list list ZmqConnection ZmqService \<times> ('p, 'x) engine_main" where
  "engine_turn pb = (\<lambda>(sv, e).
    case sv_connection sv of
      None \<Rightarrow> (sv, e)
    | Some c \<Rightarrow>
       (let (c, e) = to_engine c e;
            e = snd (Engine_receiveService pb (zmq_Connection (cpMessage pb)) (zmq_Connection (cpMessage pb)) (e\<lparr>en_corrIds := sv_corrIds sv\<rparr>));
            e = snd (Engine_receiveValidator pb (zmq_Connection (cpMessage pb)) (zmq_Connection (cpMessage pb)) 0 e);
            (c, e) = to_service c e
        in (sv\<lparr>sv_connection := Some c\<rparr>, e)))"

definition on_sv :: "('s, 'a) proc \<Rightarrow> ('s \<times> 'e, 'a) proc" where
  "on_sv m = (\<lambda>(sv, e). case m sv of (x, sv') \<Rightarrow> (x, (sv', e)))"

text \<open>
  The steps of serviceRpc with the main thread's turn before (\<open>early\<close>) or after the correlation id
  is recorded.
\<close>

definition interleaved_rpc ::
  "bool \<Rightarrow> cons_pb \<Rightarrow> 'q codec \<Rightarrow> 'q \<Rightarrow> Message_MessageType \<Rightarrow> 'r codec \<Rightarrow> Message_MessageType \<Rightarrow>
   (bytes list list ZmqConnection ZmqService \<times> ('p, 'x) engine_main, go_error + 'r) proc" where
  "interleaved_rpc early pb cq request requestType cr responseType =
    bindP (on_sv (rpc_send (zmq_Connection (cpMessage pb)) cq request requestType)) (\<lambda>sent.
      case sent of
        Inl err \<Rightarrow> retP (Inl err)
      | Inr corrId \<Rightarrow>
         bindP (\<lambda>s. (Ret (), if early then engine_turn pb s else s)) (\<lambda>_.
         bindP (on_sv (rpc_record corrId)) (\<lambda>_.
         bindP (\<lambda>s. (Ret (), if early then s else engine_turn pb s)) (\<lambda>_.
           on_sv (rpc_receive (zmq_Connection (cpMessage pb)) corrId cr responseType)))))"

section \<open>One turn of the main thread\<close>

definition pair_idle :: "bytes list list ZmqConnection \<Rightarrow> bool" where
  "pair_idle c \<longleftrightarrow> \<not> sk_closed (conn_socket c) \<and> inbox c = [] \<and> peer c = [] \<and> sk_deliver (conn_socket c) = recorder"

text \<open>The main thread forwards the request; the answer then waits at the socket to the validator.\<close>

lemma Engine_receiveService_forwards:
  assumes "pair_idle (en_service e)" "\<not> sk_closed (conn_socket (en_validator e))" "inbox (en_validator e) = []"
    and "Unmarshal (cpMessage pb) d = (m, None)"
    and "sk_deliver (conn_socket (en_validator e)) (peer (en_validator e)) [d] = (p, arr, None)"
  shows "Engine_receiveService pb (zmq_Connection (cpMessage pb)) (zmq_Connection (cpMessage pb))
      (e\<lparr>en_service := set_inbox [Inr [d]] (en_service e), en_corrIds := ids\<rparr>) =
    (Ret (), e\<lparr>en_corrIds := ids, en_validator := (en_validator e)\<lparr>conn_socket := (conn_socket (en_validator e))\<lparr>sk_peer := p, sk_inbox := arr\<rparr>\<rparr>\<rparr>)"
proof -
  let ?w = "set_inbox [Inr [d]] (en_service e)"
  have i: "\<not> sk_closed (conn_socket (en_service e))" "inbox (en_service e) = []" using assms(1) by (simp_all add: pair_idle_def)
  have same: "set_inbox [] (en_service e) = en_service e" using i(2) by (rule set_inbox_id)
  have "RecvData ?w = (Ret ([], d, None), en_service e)"
    using i(1) same RecvData_frame [of ?w "[d]" "[]" "[]" d] by (simp add: frame_data_def)
  moreover have "SendData [] d (en_validator e) =
      (Ret None, (en_validator e)\<lparr>conn_socket := (conn_socket (en_validator e))\<lparr>sk_peer := p, sk_inbox := arr\<rparr>\<rparr>)"
    using assms(2,3,5) by (simp add: SendData_def SendMessage_def)
  ultimately show ?thesis
    using assms(4) by (cases e)
      (simp add: Engine_receiveService_def en_on_service_def en_on_validator_def zmq_Connection_def LoadMsg_def bindP_def)
qed

text \<open>The answer is passed on exactly when its id is in the table.\<close>

lemma Engine_receiveValidator_answer:
  assumes "pair_idle (en_service e)" "\<not> sk_closed (conn_socket (en_validator e))"
    and "Unmarshal (cpMessage pb) d = (m, None)" "Message_CorrelationId m \<noteq> []"
    and "\<not> is_notification (Message_MessageType m)" "Message_MessageType m \<noteq> Message_PING_REQUEST"
    and "inbox (en_validator e) = [Inr [d]]"
  shows "snd (Engine_receiveValidator pb (zmq_Connection (cpMessage pb)) (zmq_Connection (cpMessage pb)) 0 e) =
    e\<lparr>en_validator := set_inbox [] (en_validator e),
      en_service := (en_service e)\<lparr>conn_socket := (conn_socket (en_service e))\<lparr>sk_peer := if Message_CorrelationId m \<in> en_corrIds e then [[d]] else []\<rparr>\<rparr>\<rparr>"
proof -
  have i: "\<not> sk_closed (conn_socket (en_service e))" "inbox (en_service e) = []" "peer (en_service e) = []"
    "sk_deliver (conn_socket (en_service e)) = recorder" using assms(1) by (simp_all add: pair_idle_def)
  have recv: "RecvData (en_validator e) = (Ret ([], d, None), set_inbox [] (en_validator e))"
    using assms(2,7) by (rule RecvData_frame) (simp add: frame_data_def)
  have "conn_socket (en_service e)\<lparr>sk_peer := [[d]], sk_inbox := []\<rparr> = conn_socket (en_service e)\<lparr>sk_peer := [[d]]\<rparr>"
    using i(2) by (cases "conn_socket (en_service e)") simp
  then have send: "SendData [] d (en_service e) = (Ret None, (en_service e)\<lparr>conn_socket := (conn_socket (en_service e))\<lparr>sk_peer := [[d]]\<rparr>\<rparr>)"
    using i by (simp add: SendData_def SendMessage_def recorder_def)
  note defs = Engine_receiveValidator_def en_on_validator_def en_on_service_def zmq_Connection_def engine_route_def LoadMsg_def bindP_def
  show ?thesis
  proof (cases "Message_CorrelationId m \<in> en_corrIds e")
    case True
    with recv send assms(3-6) show ?thesis by (simp add: defs)
  next
    case False
    have "snd (Engine_receiveValidator pb (zmq_Connection (cpMessage pb)) (zmq_Connection (cpMessage pb)) 0 e) =
        e\<lparr>en_validator := set_inbox [] (en_validator e), en_service := en_service e\<rparr>"
      using False recv assms(3-6) by (cases e) (simp add: defs)
    also have "\<dots> = e\<lparr>en_validator := set_inbox [] (en_validator e),
        en_service := (en_service e)\<lparr>conn_socket := (conn_socket (en_service e))\<lparr>sk_peer := []\<rparr>\<rparr>\<rparr>"
      using i(3) by (cases e; cases "en_service e"; cases "conn_socket (en_service e)") simp
    finally show ?thesis unfolding if_not_P [OF False] .
  qed
qed

section \<open>A call\<close>

text \<open>The state in which a call starts: the sockets are open and empty, and the service is started.\<close>

definition call_ready ::
  "cons_pb \<Rightarrow> ('p \<Rightarrow> Message_MessageType \<Rightarrow> bytes \<Rightarrow> (Message_MessageType \<times> bytes \<times> 'p) option) \<Rightarrow>
   bytes list list ZmqConnection \<Rightarrow> bytes list list ZmqConnection ZmqService \<Rightarrow> ('p, 'x) engine_main \<Rightarrow> bool" where
  "call_ready pb react c sv e \<longleftrightarrow> sv_connection sv = Some c \<and> pair_idle c \<and> conn_incoming c = [] \<and> pair_idle (en_service e) \<and>
     zmq_ready (cpMessage pb) react (en_validator e) \<and> conn_uuid c (conn_uuid_next c) \<noteq> [] \<and>
     conn_uuid c (conn_uuid_next c) \<notin> sv_corrIds sv"

text \<open>The connection of the service after the send.\<close>

abbreviation (input) sent_conn :: "bytes \<Rightarrow> bytes list list ZmqConnection \<Rightarrow> bytes list list ZmqConnection" where
  "sent_conn d c \<equiv> c\<lparr>conn_uuid_next := Suc (conn_uuid_next c), conn_socket := (conn_socket c)\<lparr>sk_peer := [[d]]\<rparr>\<rparr>"

lemma rpc_send_records:
  fixes pb c cq request t
  assumes "call_ready pb react c sv e" "codec_ok cq request"
  defines "k \<equiv> conn_uuid c (conn_uuid_next c)"
  defines "d \<equiv> fst (DumpMsg (cpMessage pb) t (fst (Marshal cq request)) k)"
  shows "on_sv (rpc_send (zmq_Connection (cpMessage pb)) cq request t) (sv, e) =
    (Ret (Inr k), (sv\<lparr>sv_connection := Some (sent_conn d c)\<rparr>, e))"
proof -
  from assms(1) have c: "sv_connection sv = Some c" "\<not> sk_closed (conn_socket c)" "inbox c = []" "peer c = []"
    "sk_deliver (conn_socket c) = recorder" and ok: "codec_ok (cpMessage pb) m" for m
    by (simp_all add: call_ready_def pair_idle_def zmq_ready_def)
  from assms(2) obtain b where b: "Marshal cq request = (b, None)" by (rule codec_okE)
  have s: "conn_socket c\<lparr>sk_peer := [[d]], sk_inbox := []\<rparr> = conn_socket c\<lparr>sk_peer := [[d]]\<rparr>" using c(3) by (cases "conn_socket c") simp
  have "SendNewMsg (cpMessage pb) t b c = (Ret (k, None), sent_conn d c)"
    using SendNewMsg_delivers [OF c(2) ok k_def [THEN meta_eq_to_obj_eq], of t b "[[d]]" "[]" None] c s
    by (simp add: recorder_def d_def b)
  then show ?thesis by (simp add: on_sv_def rpc_send_def b on_connection_def c(1) zmq_Connection_def bindP_def)
qed

text \<open>The main thread's turn, with the table of pending ids as it is then.\<close>

lemma engine_turn_carries:
  fixes pb c t b t' b'
  assumes "call_ready pb react c sv e" "react (peer (en_validator e)) t b = Some (t', b', p)"
    and "\<not> is_notification t'" "t' \<noteq> Message_PING_REQUEST" "sv_corrIds sv' = ids"
  defines "k \<equiv> conn_uuid c (conn_uuid_next c)"
  defines "d \<equiv> fst (DumpMsg (cpMessage pb) t b k)" and "d' \<equiv> fst (DumpMsg (cpMessage pb) t' b' k)"
  assumes "sv_connection sv' = Some (sent_conn d c)"
  shows "\<exists>e'. engine_turn pb (sv', e) =
    (sv'\<lparr>sv_connection := Some (set_inbox (if k \<in> ids then [Inr [d']] else []) (c\<lparr>conn_uuid_next := Suc (conn_uuid_next c)\<rparr>))\<rparr>, e')"
proof -
  let ?C = "zmq_Connection (cpMessage pb)"
  from assms(1) have c: "\<not> sk_closed (conn_socket c)" "inbox c = []" "peer c = []" and k: "k \<noteq> []"
    and w: "pair_idle (en_service e)" and z: "zmq_ready (cpMessage pb) react (en_validator e)"
    by (simp_all add: call_ready_def pair_idle_def k_def)
  from z have v: "\<not> sk_closed (conn_socket (en_validator e))" "inbox (en_validator e) = []" and ok: "codec_ok (cpMessage pb) m" for m
    by (simp_all add: zmq_ready_def)
  have dec: "Unmarshal (cpMessage pb) d = (\<lparr>Message_MessageType = t, Message_CorrelationId = k, Message_Content = b\<rparr>, None)"
    "Unmarshal (cpMessage pb) d' = (\<lparr>Message_MessageType = t', Message_CorrelationId = k, Message_Content = b'\<rparr>, None)"
    using ok [of "\<lparr>Message_MessageType = t, Message_CorrelationId = k, Message_Content = b\<rparr>"]
      ok [of "\<lparr>Message_MessageType = t', Message_CorrelationId = k, Message_Content = b'\<rparr>"]
    by (simp_all add: d_def d'_def DumpMsg_def)
  have dl: "sk_deliver (conn_socket (en_validator e)) (peer (en_validator e)) [d] = (p, [Inr [d']], None)"
    using z assms(2) by (auto simp: zmq_ready_def peer_reacts_def d_def d'_def)
  let ?e1 = "e\<lparr>en_corrIds := ids, en_validator := (en_validator e)\<lparr>conn_socket := (conn_socket (en_validator e))\<lparr>sk_peer := p, sk_inbox := [Inr [d']]\<rparr>\<rparr>\<rparr>"
  have 1: "snd (Engine_receiveService pb ?C ?C (e\<lparr>en_service := set_inbox [Inr [d]] (en_service e), en_corrIds := ids\<rparr>)) = ?e1"
    by (simp add: Engine_receiveService_forwards [OF w v dec(1) dl])
  have 2: "peer (en_service (snd (Engine_receiveValidator pb ?C ?C 0 ?e1))) = (if k \<in> ids then [[d']] else [])"
    using Engine_receiveValidator_answer [of ?e1 pb d'] w v(1) dec(2) k assms(3,4) by simp
  have 3: "inbox (en_service e) = []" using w by (simp add: pair_idle_def)
  have 4: "conn_socket c\<lparr>sk_peer := []\<rparr> = conn_socket c" using c(3) by (cases "conn_socket c") simp
  show ?thesis
    using assms(5) by (simp add: engine_turn_def to_engine_def to_service_def assms(9) Let_def 1 2 3 4 c(2))
qed

text \<open>The service receives the answer if it is there, and waits otherwise.\<close>

lemma rpc_receive_answer:
  assumes "sv_connection sv = Some (set_inbox [Inr [d]] c)" "\<not> sk_closed (conn_socket c)" "conn_incoming c = []"
    and "Unmarshal cm d = (\<lparr>Message_MessageType = t, Message_CorrelationId = k, Message_Content = b\<rparr>, None)"
    and "Unmarshal cr b = (response, None)"
  shows "\<exists>sv'. rpc_receive (zmq_Connection cm) k cr t sv = (Ret (Inr response), sv')"
proof -
  let ?m = "\<lparr>Message_MessageType = t, Message_CorrelationId = k, Message_Content = b\<rparr>"
  have "RecvMsgWithId_loop cm k (set_inbox [Inr [d]] c) = (Ret ([], Some ?m, None), set_inbox [] (set_inbox [Inr [d]] c))"
    using assms(2,4) by (intro RecvMsgWithId_loop_hit [where fr = "[d]"]) (simp_all add: frame_data_def)
  then show ?thesis
    using assms(1,3,5) by (simp add: rpc_receive_def on_connection_def zmq_Connection_def RecvMsgWithId_def rpc_forget_def bindP_def)
qed

lemma rpc_receive_waits:
  assumes "sv_connection sv = Some c" "\<not> sk_closed (conn_socket c)" "conn_incoming c = []" "inbox c = []"
  shows "\<exists>sv'. rpc_receive (zmq_Connection cm) k cr t sv = (Block, sv')"
  using assms RecvMsgWithId_loop_block [OF assms(2,4), of cm k]
  by (simp add: rpc_receive_def on_connection_def zmq_Connection_def RecvMsgWithId_def bindP_def)

section \<open>Properties\<close>

text \<open>
  C35: the outcome of a consensus service call hangs on a race.  The service sends its request
  before it records the correlation id.  When the main thread's turn comes after the recording,
  the call returns the validator's response; when it comes between the sending and the
  recording, the main thread drops the same response as unexpected and the call waits for ever.
\<close>

theorem service_call_race:
  fixes e :: "('p, 'x) engine_main" and response :: 'r
  assumes "call_ready pb react c sv e" "codec_ok cq request" "codec_ok cr response"
    and "react (peer (en_validator e)) t (fst (Marshal cq request)) = Some (t', fst (Marshal cr response), p)"
    and "\<not> is_notification t'" "t' \<noteq> Message_PING_REQUEST"
  shows "(\<exists>s. interleaved_rpc False pb cq request t cr t' (sv, e) = (Ret (Inr response), s)) \<and>
    (\<exists>s. interleaved_rpc True pb cq request t cr t' (sv, e) = (Block, s))"
proof -
  let ?C = "zmq_Connection (cpMessage pb) :: bytes list list ZmqConnection Connection" and ?k = "conn_uuid c (conn_uuid_next c)"
  let ?b = "fst (Marshal cq request)" and ?b' = "fst (Marshal cr response)"
  let ?d = "fst (DumpMsg (cpMessage pb) t ?b ?k)" and ?d' = "fst (DumpMsg (cpMessage pb) t' ?b' ?k)"
  let ?c1 = "c\<lparr>conn_uuid_next := Suc (conn_uuid_next c)\<rparr>" and ?sv1 = "sv\<lparr>sv_connection := Some (sent_conn ?d c)\<rparr>"
  from assms(1) have c: "\<not> sk_closed (conn_socket ?c1)" "conn_incoming ?c1 = []" and fresh: "?k \<notin> sv_corrIds sv"
    and ok: "codec_ok (cpMessage pb) m" for m by (simp_all add: call_ready_def pair_idle_def zmq_ready_def)
  have dec: "Unmarshal (cpMessage pb) ?d' = (\<lparr>Message_MessageType = t', Message_CorrelationId = ?k, Message_Content = ?b'\<rparr>, None)"
    using ok [of "\<lparr>Message_MessageType = t', Message_CorrelationId = ?k, Message_Content = ?b'\<rparr>"] by (simp add: DumpMsg_def)
  have resp: "Unmarshal cr ?b' = (response, None)" using assms(3) by simp
  have send: "bindP (on_sv (rpc_send ?C cq request t)) f (sv, e) = f (Inr ?k) (?sv1, e)"
    for f :: "go_error + string \<Rightarrow> (bytes list list ZmqConnection ZmqService \<times> ('p, 'x) engine_main, go_error + 'r) proc"
    using rpc_send_records [OF assms(1,2), of t] by (rule bindP_simps(1))
  let ?sv2 = "?sv1\<lparr>sv_corrIds := insert ?k (sv_corrIds sv)\<rparr>"
  from engine_turn_carries [OF assms(1,4-6), of ?sv2] obtain e1 where
    late: "engine_turn pb (?sv2, e) = (?sv2\<lparr>sv_connection := Some (set_inbox [Inr [?d']] ?c1)\<rparr>, e1)" by auto
  from engine_turn_carries [OF assms(1,4-6), of ?sv1] fresh obtain e2 where
    early: "engine_turn pb (?sv1, e) = (?sv1\<lparr>sv_connection := Some (set_inbox [] ?c1)\<rparr>, e2)" by auto
  have "\<exists>sv'. rpc_receive ?C ?k cr t' (?sv2\<lparr>sv_connection := Some (set_inbox [Inr [?d']] ?c1)\<rparr>) = (Ret (Inr response), sv')"
    by (rule rpc_receive_answer [OF _ c dec resp]) simp
  moreover have "\<exists>sv'. rpc_receive ?C ?k cr t' (?sv1\<lparr>sv_connection := Some (set_inbox [] ?c1), sv_corrIds := insert ?k (sv_corrIds sv)\<rparr>) = (Block, sv')"
    by (rule rpc_receive_waits [of _ "set_inbox [] ?c1"]) (use c in simp_all)
  ultimately show ?thesis
    unfolding interleaved_rpc_def send using late early by (auto simp: on_sv_def rpc_record_def bindP_def)
qed

text \<open>A validator that answers every request with an empty chain head response.\<close>

definition demo_head_react :: "unit \<Rightarrow> Message_MessageType \<Rightarrow> bytes \<Rightarrow> (Message_MessageType \<times> bytes \<times> unit) option" where
  "demo_head_react p t b = Some (Message_CONSENSUS_CHAIN_HEAD_GET_RESPONSE, fst (Marshal unary_codec
     \<lparr>ConsensusChainHeadGetResponse_Status = ConsensusChainHeadGetResponse_NO_CHAIN_HEAD, ConsensusChainHeadGetResponse_Block = None\<rparr>), ())"

definition demo_pair_conn :: "'p \<Rightarrow> ('p \<Rightarrow> bytes list \<Rightarrow> 'p \<times> (go_error + bytes list) list \<times> go_error option) \<Rightarrow> 'p ZmqConnection" where
  "demo_pair_conn p deliver = \<lparr>conn_identity = [], conn_uri = [], conn_socket = \<lparr>sk_peer = p, sk_deliver = deliver, sk_inbox = [],
     sk_closed = False, sk_closed_error = ErrorString ''closed''\<rparr>, conn_incoming = [], conn_uuid = (\<lambda>n. ''id''), conn_uuid_next = 0\<rparr>"

definition demo_head_deliver :: "unit \<Rightarrow> bytes list \<Rightarrow> unit \<times> (go_error + bytes list) list \<times> go_error option" where
  "demo_head_deliver p frs =
    (case frs of
       [d] \<Rightarrow> (let m = fst (Unmarshal (unary_codec :: Message codec) d) in
          case demo_head_react p (Message_MessageType m) (Message_Content m) of
            None \<Rightarrow> ((), [], None)
          | Some (t, b, p') \<Rightarrow> (p', [Inr [fst (DumpMsg unary_codec t b (Message_CorrelationId m))]], None))
     | _ \<Rightarrow> ((), [], None))"

definition demo_caller :: "bytes list list ZmqConnection ZmqService" where
  "demo_caller = \<lparr>sv_uri = [], sv_connection = Some (demo_pair_conn [] recorder), sv_corrIds = {}\<rparr>"

definition demo_carrier :: "(unit, unit) engine_main" where
  "demo_carrier = \<lparr>en_validator = demo_pair_conn () demo_head_deliver, en_service = demo_pair_conn [] recorder, en_shutdown = (),
     en_corrIds = {}, en_updates = [], en_closed = False, en_slept = [], en_monitor_closed = False\<rparr>"

lemma demo_call_ready: "call_ready unary_cons_pb demo_head_react (demo_pair_conn [] recorder) demo_caller demo_carrier"
  by (simp add: call_ready_def pair_idle_def demo_caller_def demo_carrier_def demo_pair_conn_def zmq_ready_def peer_reacts_def
      demo_head_deliver_def DumpMsg_def demo_head_react_def)

lemma service_call_race_witness:
  "\<exists>s s'. interleaved_rpc False unary_cons_pb unary_codec ConsensusChainHeadGetRequest Message_CONSENSUS_CHAIN_HEAD_GET_REQUEST
      unary_codec Message_CONSENSUS_CHAIN_HEAD_GET_RESPONSE (demo_caller, demo_carrier) =
      (Ret (Inr \<lparr>ConsensusChainHeadGetResponse_Status = ConsensusChainHeadGetResponse_NO_CHAIN_HEAD, ConsensusChainHeadGetResponse_Block = None\<rparr>), s) \<and>
    interleaved_rpc True unary_cons_pb unary_codec ConsensusChainHeadGetRequest Message_CONSENSUS_CHAIN_HEAD_GET_REQUEST
      (unary_codec :: ConsensusChainHeadGetResponse codec) Message_CONSENSUS_CHAIN_HEAD_GET_RESPONSE (demo_caller, demo_carrier) = (Block, s')"
  using service_call_race [OF demo_call_ready, of unary_codec ConsensusChainHeadGetRequest unary_codec
      "\<lparr>ConsensusChainHeadGetResponse_Status = ConsensusChainHeadGetResponse_NO_CHAIN_HEAD, ConsensusChainHeadGetResponse_Block = None\<rparr>"
      Message_CONSENSUS_CHAIN_HEAD_GET_REQUEST Message_CONSENSUS_CHAIN_HEAD_GET_RESPONSE "()"]
  by (simp add: demo_head_react_def is_notification_def)

end
