(* ===== verification/Engine_Threads.thy ===== *)
theory Engine_Threads
  imports Engine_Service
begin

text \<open>
  The two threads of a consensus engine, the channel and the sockets between them: the main thread
  of consensus/engine.go, which receives notifications and carries the calls of the service, and the
  implementation, which takes updates off the channel at its own pace and calls the service
  (consensus/service.go) in between.  The threads are a step relation; every interleaving is a path.
  What is proved holds in every reachable state, by induction over the steps.
\<close>

section \<open>The steps\<close>

text \<open>
  Where the implementation is: outside of a call of the service, or in serviceRpc, after the request
  has been sent or after its correlation id has been recorded, when it receives the response.
\<close>

datatype impl_call = NoCall | Sent string | Waiting string

text \<open>
  The state: the main thread and the service with its end of the pair of sockets, the data the main
  thread has received from the validator and is handling, the call of the implementation, the updates
  it has taken so far, and the data handled so far.
\<close>

record ('p, 'x) engine_threads =
  th_engine :: "('p, 'x) engine_main"
  th_service :: "bytes list list ZmqConnection ZmqService"
  th_held :: "bytes option"
  th_call :: impl_call
  th_taken :: "ConsensusUpdate list"
  th_handled :: "bytes list"

text \<open>What waits on one end of the pair of sockets arrives at the other.\<close>

definition sent_over ::
  "bytes list list ZmqConnection ZmqService \<Rightarrow> ('p, 'x) engine_main \<Rightarrow> bytes list list ZmqConnection ZmqService \<times> ('p, 'x) engine_main" where
  "sent_over sv e = (case sv_connection sv of None \<Rightarrow> (sv, e)
     | Some c \<Rightarrow> (case to_engine c e of (c', e') \<Rightarrow> (sv\<lparr>sv_connection := Some c'\<rparr>, e')))"

definition passed_back ::
  "bytes list list ZmqConnection ZmqService \<Rightarrow> ('p, 'x) engine_main \<Rightarrow> bytes list list ZmqConnection ZmqService \<times> ('p, 'x) engine_main" where
  "passed_back sv e = (case sv_connection sv of None \<Rightarrow> (sv, e)
     | Some c \<Rightarrow> (case to_service c e of (c', e') \<Rightarrow> (sv\<lparr>sv_connection := Some c'\<rparr>, e')))"

abbreviation (input) call_receive ::
  "cons_pb \<Rightarrow> string \<Rightarrow> ('q ZmqConnection ZmqService, string \<times> Message option \<times> go_error option) proc" where
  "call_receive pb k \<equiv> on_connection (c_RecvMsgWithId (zmq_Connection (cpMessage pb)) k)"

text \<open>
  The steps between the start of the implementation and the shutdown.  The main thread receives one
  message of the validator at a time, any message at any time, and handles it to the end before it
  looks at its sockets again: with a full channel it waits.  The table of pending ids that it
  consults is the one of the service.  The implementation takes an update or starts a call only
  when it is not in a call; it leaves the call when the receive returns.
\<close>

inductive engine_threads_step ::
  "cons_pb \<Rightarrow> ('p, 'x) engine_threads \<Rightarrow> ('p, 'x) engine_threads \<Rightarrow> bool" for pb :: cons_pb where
  main_receives: "th_held s = None \<Longrightarrow> engine_threads_step pb s (s\<lparr>th_held := Some d\<rparr>)"
| main_handles: "th_held s = Some d \<Longrightarrow>
    engine_route pb (zmq_Connection (cpMessage pb)) (zmq_Connection (cpMessage pb)) 0 d
      ((th_engine s)\<lparr>en_corrIds := sv_corrIds (th_service s)\<rparr>) = (Ret (), e) \<Longrightarrow>
    passed_back (th_service s) e = (sv', e') \<Longrightarrow>
    engine_threads_step pb s (s\<lparr>th_engine := e', th_service := sv', th_held := None, th_handled := th_handled s @ [d]\<rparr>)"
| main_forwards: "th_held s = None \<Longrightarrow>
    Engine_receiveService pb (zmq_Connection (cpMessage pb)) (zmq_Connection (cpMessage pb)) (th_engine s) = (Ret (), e') \<Longrightarrow>
    engine_threads_step pb s (s\<lparr>th_engine := e'\<rparr>)"
| impl_takes: "th_call s = NoCall \<Longrightarrow> en_updates (th_engine s) = u # rest \<Longrightarrow>
    engine_threads_step pb s (s\<lparr>th_engine := (th_engine s)\<lparr>en_updates := rest\<rparr>, th_taken := th_taken s @ [u]\<rparr>)"
| impl_sends: "th_call s = NoCall \<Longrightarrow> t \<noteq> Message_CONSENSUS_NOTIFY_ACK \<Longrightarrow>
    on_connection (c_SendNewMsg (zmq_Connection (cpMessage pb)) t b) (th_service s) = (Ret (k, None), sv) \<Longrightarrow>
    sent_over sv (th_engine s) = (sv', e') \<Longrightarrow>
    engine_threads_step pb s (s\<lparr>th_engine := e', th_service := sv', th_call := Sent k\<rparr>)"
| impl_records: "th_call s = Sent k \<Longrightarrow> rpc_record k (th_service s) = (Ret (), sv') \<Longrightarrow>
    engine_threads_step pb s (s\<lparr>th_service := sv', th_call := Waiting k\<rparr>)"
| impl_returns: "th_call s = Waiting k \<Longrightarrow> call_receive pb k (th_service s) = (Ret (i, msg, err), sv) \<Longrightarrow>
    (if GetCorrelationId msg = k then rpc_forget k else retP ()) sv = (Ret (), sv') \<Longrightarrow>
    engine_threads_step pb s (s\<lparr>th_service := sv', th_call := NoCall\<rparr>)"

abbreviation engine_threads_reach :: "cons_pb \<Rightarrow> ('p, 'x) engine_threads \<Rightarrow> ('p, 'x) engine_threads \<Rightarrow> bool" where
  "engine_threads_reach pb \<equiv> (engine_threads_step pb)\<^sup>*\<^sup>*"

section \<open>What a message means\<close>

text \<open>The update a message from the validator carries, if any, and the acknowledgement it calls for.\<close>

definition updates_in :: "cons_pb \<Rightarrow> bytes \<Rightarrow> ConsensusUpdate list" where
  "updates_in pb d =
    (case Unmarshal (cpMessage pb) d of
       (m, None) \<Rightarrow> if is_notification (Message_MessageType m)
          then (case update_of pb m of Ret (Some u) \<Rightarrow> [u] | _ \<Rightarrow> []) else []
     | _ \<Rightarrow> [])"

definition acks_for :: "cons_pb \<Rightarrow> bytes \<Rightarrow> string list" where
  "acks_for pb d =
    (case Unmarshal (cpMessage pb) d of
       (m, None) \<Rightarrow> if is_notification (Message_MessageType m) then [Message_CorrelationId m] else []
     | _ \<Rightarrow> [])"

text \<open>
  A validator that counts acknowledgements: \<open>acks\<close> is the list of the correlation ids it has received
  acknowledgements for.  Messages and acknowledgements can be encoded.
\<close>

definition counts_acks ::
  "cons_pb \<Rightarrow> ('p \<Rightarrow> string list) \<Rightarrow> ('p \<Rightarrow> bytes list \<Rightarrow> 'p \<times> (go_error + bytes list) list \<times> go_error option) \<Rightarrow> bool" where
  "counts_acks pb acks deliver \<longleftrightarrow> (\<forall>m. codec_ok (cpMessage pb) m) \<and> codec_ok (cpNotifyAck pb) ConsensusNotifyAck \<and>
     (\<forall>p t b k. acks (fst (deliver p [fst (DumpMsg (cpMessage pb) t b k)])) =
        (if t = Message_CONSENSUS_NOTIFY_ACK then acks p @ [k] else acks p))"

definition engine_open :: "cons_pb \<Rightarrow> ('p \<Rightarrow> string list) \<Rightarrow> ('p ZmqConnection, 'w, 'x) engine \<Rightarrow> bool" where
  "engine_open pb acks e \<longleftrightarrow> counts_acks pb acks (sk_deliver (conn_socket (en_validator e))) \<and>
     \<not> sk_closed (conn_socket (en_validator e)) \<and> \<not> en_closed e \<and> length (en_updates e) \<le> 2"

lemma SendMsg_counted:
  assumes "counts_acks pb acks (sk_deliver (conn_socket c))" "\<not> sk_closed (conn_socket c)"
  obtains err c' where "SendMsg (cpMessage pb) t b k c = (Ret err, c')"
    "acks (peer c') = (if t = Message_CONSENSUS_NOTIFY_ACK then acks (peer c) @ [k] else acks (peer c))"
    "sk_deliver (conn_socket c') = sk_deliver (conn_socket c)" "\<not> sk_closed (conn_socket c')"
proof -
  let ?m = "\<lparr>Message_MessageType = t, Message_CorrelationId = k, Message_Content = b\<rparr>"
  from assms(1) have "codec_ok (cpMessage pb) ?m" unfolding counts_acks_def by blast
  then obtain d where d: "DumpMsg (cpMessage pb) t b k = (d, None)" by (auto simp: DumpMsg_def elim: codec_okE)
  obtain p arr err where dl: "sk_deliver (conn_socket c) (peer c) [d] = (p, arr, err)"
    by (cases "sk_deliver (conn_socket c) (peer c) [d]")
  let ?c' = "c\<lparr>conn_socket := (conn_socket c)\<lparr>sk_peer := p, sk_inbox := inbox c @ arr\<rparr>\<rparr>"
  have "SendMsg (cpMessage pb) t b k c = (Ret err, ?c')"
    using assms(2) by (simp add: SendMsg_def SendMsgTo_def SendData_def SendMessage_def d dl)
  moreover have "acks p = (if t = Message_CONSENSUS_NOTIFY_ACK then acks (peer c) @ [k] else acks (peer c))"
    using assms(1) d dl unfolding counts_acks_def by (metis fst_conv)
  ultimately show thesis using assms(2) by (intro that [of err ?c']) simp_all
qed

lemma send_to_validator:
  assumes "engine_open pb acks e"
  obtains v where "bindP (en_on_validator (c_SendMsg (zmq_Connection (cpMessage pb)) t b k)) (\<lambda>err. retP ()) e = (Ret (), e\<lparr>en_validator := v\<rparr>)"
    "acks (peer v) = (if t = Message_CONSENSUS_NOTIFY_ACK then acks (peer (en_validator e)) @ [k] else acks (peer (en_validator e)))"
    "engine_open pb acks (e\<lparr>en_validator := v\<rparr>)"
proof -
  from assms have c: "counts_acks pb acks (sk_deliver (conn_socket (en_validator e)))" "\<not> sk_closed (conn_socket (en_validator e))"
    by (simp_all add: engine_open_def)
  show thesis
  proof (rule SendMsg_counted [OF c, of t b k])
    fix err v
    assume v: "SendMsg (cpMessage pb) t b k (en_validator e) = (Ret err, v)"
      "acks (peer v) = (if t = Message_CONSENSUS_NOTIFY_ACK then acks (peer (en_validator e)) @ [k] else acks (peer (en_validator e)))"
      "sk_deliver (conn_socket v) = sk_deliver (conn_socket (en_validator e))" "\<not> sk_closed (conn_socket v)"
    show thesis
    proof (rule that [OF _ v(2)])
      show "bindP (en_on_validator (c_SendMsg (zmq_Connection (cpMessage pb)) t b k)) (\<lambda>err. retP ()) e = (Ret (), e\<lparr>en_validator := v\<rparr>)"
        using v(1) by (simp add: en_on_validator_def zmq_Connection_def bindP_def)
      show "engine_open pb acks (e\<lparr>en_validator := v\<rparr>)" using assms v(3,4) by (simp add: engine_open_def)
    qed
  qed
qed

text \<open>The main thread's handling of a notification, when the channel has room.\<close>

lemma engine_route_notification:
  assumes "engine_open pb acks e" "Unmarshal (cpMessage pb) d = (m, None)" "is_notification (Message_MessageType m)"
    and "update_of pb m = Ret uo" "uo \<noteq> None \<longrightarrow> length (en_updates e) < 2"
  obtains v where "engine_route pb (zmq_Connection (cpMessage pb)) Cs 0 d e =
      (Ret (), e\<lparr>en_updates := en_updates e @ updates_in pb d, en_validator := v\<rparr>)"
    "acks (peer v) = acks (peer (en_validator e)) @ acks_for pb d"
    "engine_open pb acks (e\<lparr>en_updates := en_updates e @ updates_in pb d, en_validator := v\<rparr>)"
proof -
  let ?e = "e\<lparr>en_updates := en_updates e @ updates_in pb d\<rparr>"
  from assms(1) have "codec_ok (cpNotifyAck pb) ConsensusNotifyAck" unfolding engine_open_def counts_acks_def by blast
  then obtain ack where ack: "Marshal (cpNotifyAck pb) ConsensusNotifyAck = (ack, None)" by (rule codec_okE)
  have in_d: "updates_in pb d = (case uo of Some u \<Rightarrow> [u] | None \<Rightarrow> [])" "acks_for pb d = [Message_CorrelationId m]"
    using assms(2-4) by (simp_all add: updates_in_def acks_for_def split: option.split)
  have op: "engine_open pb acks ?e" using assms(1,5) by (cases uo) (simp_all add: engine_open_def in_d)
  have hu: "handleUpdate pb 0 m e = (Ret (), ?e)"
  proof (cases uo)
    case None
    then show ?thesis using assms(4) by (simp add: handleUpdate_def in_d)
  next
    case (Some u)
    then show ?thesis using assms(1,4,5) by (simp add: handleUpdate_def in_d chan_send_def engine_open_def)
  qed
  show thesis
  proof (rule send_to_validator [OF op, of Message_CONSENSUS_NOTIFY_ACK ack "Message_CorrelationId m"])
    fix v
    assume v: "bindP (en_on_validator (c_SendMsg (zmq_Connection (cpMessage pb)) Message_CONSENSUS_NOTIFY_ACK ack (Message_CorrelationId m)))
        (\<lambda>err. retP ()) ?e = (Ret (), ?e\<lparr>en_validator := v\<rparr>)"
      "acks (peer v) = (if Message_CONSENSUS_NOTIFY_ACK = Message_CONSENSUS_NOTIFY_ACK
         then acks (peer (en_validator ?e)) @ [Message_CorrelationId m] else acks (peer (en_validator ?e)))"
      "engine_open pb acks (?e\<lparr>en_validator := v\<rparr>)"
    show thesis
    proof (rule that [of v])
      show "engine_route pb (zmq_Connection (cpMessage pb)) Cs 0 d e =
        (Ret (), e\<lparr>en_updates := en_updates e @ updates_in pb d, en_validator := v\<rparr>)"
        using assms(2,3) hu ack v(1) by (simp add: engine_route_def LoadMsg_def)
    qed (use v(2,3) in \<open>simp_all add: in_d\<close>)
  qed
qed

text \<open>Other messages are always handled to the end, and concern neither the channel nor the acknowledgements.\<close>

lemma engine_route_other:
  assumes "engine_open pb acks e" "\<forall>m. Unmarshal (cpMessage pb) d = (m, None) \<longrightarrow> \<not> is_notification (Message_MessageType m)"
  obtains e' where "engine_route pb (zmq_Connection (cpMessage pb)) (zmq_Connection (cpMessage pb)) 0 d e = (Ret (), e')"
    "engine_open pb acks e'" "en_updates e' = en_updates e" "acks (peer (en_validator e')) = acks (peer (en_validator e))"
    "en_service e' = en_service e \<or> (\<exists>err. SendData [] d (en_service e) = (Ret err, en_service e'))"
proof -
  obtain m x where m: "Unmarshal (cpMessage pb) d = (m, x)" by (cases "Unmarshal (cpMessage pb) d")
  consider (bad) err where "x = Some err" | (ping) "x = None" "Message_MessageType m = Message_PING_REQUEST"
    | (answer) "x = None" "Message_MessageType m \<noteq> Message_PING_REQUEST" by (cases x) auto
  then show thesis
  proof cases
    case bad
    then show thesis using m assms(1) by (intro that [of e]) (simp_all add: engine_route_def LoadMsg_def)
  next
    case ping
    obtain pong y where pong: "Marshal (cpPingResponse pb) PingResponse = (pong, y)" by (cases "Marshal (cpPingResponse pb) PingResponse")
    obtain v where v: "bindP (en_on_validator (c_SendMsg (zmq_Connection (cpMessage pb)) Message_PING_RESPONSE pong (Message_CorrelationId m)))
        (\<lambda>err. retP ()) e = (Ret (), e\<lparr>en_validator := v\<rparr>)"
      "acks (peer v) = (if Message_PING_RESPONSE = Message_CONSENSUS_NOTIFY_ACK
         then acks (peer (en_validator e)) @ [Message_CorrelationId m] else acks (peer (en_validator e)))"
      "engine_open pb acks (e\<lparr>en_validator := v\<rparr>)"
      by (rule send_to_validator [OF assms(1)])
    have no: "\<not> is_notification (Message_MessageType m)" using assms(2) m ping by simp
    show thesis
    proof (cases y)
      case None
      with v m ping pong no show thesis by (intro that [of "e\<lparr>en_validator := v\<rparr>"]) (simp_all add: engine_route_def LoadMsg_def)
    next
      case (Some err)
      with assms(1) m ping pong no show thesis by (intro that [of e]) (simp_all add: engine_route_def LoadMsg_def)
    qed
  next
    case answer
    have no: "\<not> is_notification (Message_MessageType m)" using assms(2) m answer by simp
    obtain err w where w: "SendData [] d (en_service e) = (Ret err, w)" by (simp add: SendData_def case_prod_unfold Let_def)
    let ?e = "if Message_CorrelationId m \<noteq> [] \<and> Message_CorrelationId m \<in> en_corrIds e then e\<lparr>en_service := w\<rparr> else e"
    have "engine_route pb (zmq_Connection (cpMessage pb)) (zmq_Connection (cpMessage pb)) 0 d e = (Ret (), ?e)"
      using m answer no w by (simp add: engine_route_def LoadMsg_def en_on_service_def zmq_Connection_def bindP_def Let_def)
    then show thesis using assms(1) w by (intro that [of ?e]) (auto simp: engine_open_def)
  qed
qed

text \<open>A notification with which the main thread panics.\<close>

definition panics_on :: "cons_pb \<Rightarrow> bytes \<Rightarrow> bool" where
  "panics_on pb d \<longleftrightarrow> (case Unmarshal (cpMessage pb) d of
     (m, None) \<Rightarrow> is_notification (Message_MessageType m) \<and> (case update_of pb m of Panic e \<Rightarrow> True | _ \<Rightarrow> False)
   | _ \<Rightarrow> False)"

lemma newPeerMessage_not_Block: "newPeerMessageFromProto pb m \<noteq> Block"
  by (simp add: newPeerMessageFromProto_def split: option.split prod.split)

lemma update_of_not_Block: "update_of pb m \<noteq> Block"
  using newPeerMessage_not_Block by (simp add: update_of_def Let_def split: option.split prod.split outcome.split)

lemma panics_on_route:
  assumes "panics_on pb d"
  shows "engine_route pb Cv Cs 0 d e \<noteq> (Ret (), e')"
proof -
  from assms obtain m x where m: "Unmarshal (cpMessage pb) d = (m, None)" "is_notification (Message_MessageType m)" "update_of pb m = Panic x"
    unfolding panics_on_def by (auto split: option.splits prod.splits outcome.splits)
  then have "handleUpdate pb 0 m e = (Panic x, e)" by (simp add: handleUpdate_def panicP_def)
  with m(1,2) show ?thesis by (simp add: engine_route_def LoadMsg_def bindP_def)
qed

text \<open>The message can be handled now, or the channel is full.\<close>

lemma engine_route_cases:
  assumes "engine_open pb acks e"
  obtains (finishes) e' where "engine_route pb (zmq_Connection (cpMessage pb)) (zmq_Connection (cpMessage pb)) 0 d e = (Ret (), e')"
      "engine_open pb acks e'" "en_updates e' = en_updates e @ updates_in pb d"
      "acks (peer (en_validator e')) = acks (peer (en_validator e)) @ acks_for pb d"
      "en_service e' = en_service e \<or> (\<exists>err. SendData [] d (en_service e) = (Ret err, en_service e'))"
    | (stuck) "panics_on pb d \<or> length (en_updates e) = 2 \<and> updates_in pb d \<noteq> []"
      "\<nexists>e'. engine_route pb (zmq_Connection (cpMessage pb)) (zmq_Connection (cpMessage pb)) 0 d e = (Ret (), e')"
proof -
  obtain m x where m: "Unmarshal (cpMessage pb) d = (m, x)" by (cases "Unmarshal (cpMessage pb) d")
  show thesis
  proof (cases "x = None \<and> is_notification (Message_MessageType m)")
    case False
    have in_d: "updates_in pb d = []" "acks_for pb d = []"
      using False m by (auto simp: updates_in_def acks_for_def split: option.split)
    show thesis
      by (rule engine_route_other [OF assms, of d]) (use False m in \<open>auto intro!: finishes simp: in_d\<close>)
  next
    case True
    note m = m [unfolded conjunct1 [OF True]]
    have "length (en_updates e) < 2 \<or> length (en_updates e) = 2" using assms by (auto simp: engine_open_def)
    then consider uo where "update_of pb m = Ret uo" "uo = None \<or> length (en_updates e) < 2"
      | u where "update_of pb m = Ret (Some u)" "length (en_updates e) = 2" | x where "update_of pb m = Panic x"
      by (metis option.exhaust outcome.exhaust update_of_not_Block)
    then show thesis
    proof cases
      case (1 uo)
      obtain v where v: "engine_route pb (zmq_Connection (cpMessage pb)) (zmq_Connection (cpMessage pb)) 0 d e =
          (Ret (), e\<lparr>en_updates := en_updates e @ updates_in pb d, en_validator := v\<rparr>)"
        "acks (peer v) = acks (peer (en_validator e)) @ acks_for pb d"
        "engine_open pb acks (e\<lparr>en_updates := en_updates e @ updates_in pb d, en_validator := v\<rparr>)"
        by (rule engine_route_notification [OF assms m _ 1(1)]) (use True 1(2) in auto)
      show thesis by (rule finishes [OF v(1,3)]) (simp_all add: v(2))
    next
      case (2 u)
      then have "handleUpdate pb 0 m e = (Block, e\<lparr>en_updates := en_updates e\<rparr>)"
        using assms by (simp add: handleUpdate_def chan_send_def engine_open_def)
      then show thesis using m True 2 by (intro stuck) (simp_all add: engine_route_def LoadMsg_def updates_in_def bindP_def)
    next
      case (3 x)
      then have "panics_on pb d" using m True by (simp add: panics_on_def)
      then show thesis by (intro stuck) (simp_all add: panics_on_route)
    qed
  qed
qed

section \<open>In every reachable state\<close>

definition all_updates :: "cons_pb \<Rightarrow> bytes list \<Rightarrow> ConsensusUpdate list" where
  "all_updates pb ds = concat (map (updates_in pb) ds)"

definition all_acks :: "cons_pb \<Rightarrow> bytes list \<Rightarrow> string list" where
  "all_acks pb ds = concat (map (acks_for pb) ds)"

text \<open>
  The pair of sockets between the threads: what waits at the main thread's end is requests of the
  service, and nothing is under way at the service's end but what has arrived.
\<close>

definition pair_ok :: "cons_pb \<Rightarrow> bytes list list ZmqConnection \<Rightarrow> bytes list list ZmqConnection ZmqService \<Rightarrow> bool" where
  "pair_ok pb w sv \<longleftrightarrow> sk_deliver (conn_socket w) = recorder \<and> \<not> sk_closed (conn_socket w) \<and>
     (\<forall>x \<in> set (inbox w). \<exists>t b k. x = Inr [fst (DumpMsg (cpMessage pb) t b k)] \<and> t \<noteq> Message_CONSENSUS_NOTIFY_ACK) \<and>
     (\<exists>c. sv_connection sv = Some c \<and> sk_deliver (conn_socket c) = recorder \<and> \<not> sk_closed (conn_socket c) \<and> peer c = [])"

text \<open>The state at the start, and the invariant.\<close>

definition threads_start :: "cons_pb \<Rightarrow> ('p \<Rightarrow> string list) \<Rightarrow> ('p, 'x) engine_threads \<Rightarrow> bool" where
  "threads_start pb acks s \<longleftrightarrow> engine_open pb acks (th_engine s) \<and> en_updates (th_engine s) = [] \<and>
     pair_ok pb (en_service (th_engine s)) (th_service s) \<and>
     th_held s = None \<and> th_call s = NoCall \<and> th_taken s = [] \<and> th_handled s = []"

definition threads_inv :: "cons_pb \<Rightarrow> ('p \<Rightarrow> string list) \<Rightarrow> string list \<Rightarrow> ('p, 'x) engine_threads \<Rightarrow> bool" where
  "threads_inv pb acks before s \<longleftrightarrow> engine_open pb acks (th_engine s) \<and> pair_ok pb (en_service (th_engine s)) (th_service s) \<and>
     th_taken s @ en_updates (th_engine s) = all_updates pb (th_handled s) \<and>
     acks (peer (en_validator (th_engine s))) = before @ all_acks pb (th_handled s)"

lemma engine_open_corrIds [simp]: "engine_open pb acks (e\<lparr>en_corrIds := ids\<rparr>) = engine_open pb acks e"
  "engine_open pb acks (e\<lparr>en_service := w\<rparr>) = engine_open pb acks e"
  by (simp_all add: engine_open_def)

text \<open>Receiving takes from the inbox only.\<close>

lemma RecvData_socket:
  "RecvData c = (r, c') \<Longrightarrow> peer c' = peer c \<and> sk_deliver (conn_socket c') = sk_deliver (conn_socket c) \<and>
    sk_closed (conn_socket c') = sk_closed (conn_socket c) \<and> (\<forall>e. r \<noteq> Panic e)"
  by (auto simp: RecvData_def RecvMessage_def split: if_splits list.splits)

lemma RecvMsgWithId_loop_socket:
  "RecvMsgWithId_loop cm k c = (r, c') \<Longrightarrow> peer c' = peer c \<and> sk_deliver (conn_socket c') = sk_deliver (conn_socket c) \<and>
    sk_closed (conn_socket c') = sk_closed (conn_socket c) \<and> (\<forall>e. r \<noteq> Panic e)"
proof (induction cm k c rule: RecvMsgWithId_loop.induct)
  case (1 cm k c)
  obtain r1 c1 where rd: "RecvData c = (r1, c1)" by (cases "RecvData c")
  note keep = RecvData_socket [OF rd]
  show ?case
  proof (cases "\<exists>i d. r1 = Ret (i, d, None) \<and> GetCorrelationId (Some (fst (LoadMsg cm d))) \<noteq> k")
    case True
    then obtain i d where d: "r1 = Ret (i, d, None)" "GetCorrelationId (Some (fst (LoadMsg cm d))) \<noteq> k" by blast
    obtain m e where m: "LoadMsg cm d = (m, e)" by (cases "LoadMsg cm d")
    from 1(1) [of r1 c1 "(i, d, None)" i "(d, None)" d None] 1(2) rd d m keep show ?thesis
      by (subst (asm) RecvMsgWithId_loop.simps) auto
  next
    case False
    with 1(2) rd keep show ?thesis
      by (subst (asm) (1) RecvMsgWithId_loop.simps) (auto simp: Let_def split: outcome.splits option.splits prod.splits if_splits)
  qed
qed

lemma RecvMsgWithId_socket:
  "RecvMsgWithId cm k c = (r, c') \<Longrightarrow> peer c' = peer c \<and> sk_deliver (conn_socket c') = sk_deliver (conn_socket c) \<and>
    sk_closed (conn_socket c') = sk_closed (conn_socket c) \<and> (\<forall>e. r \<noteq> Panic e)"
  using RecvMsgWithId_loop_socket [of cm k c r c'] by (auto simp: RecvMsgWithId_def split: option.splits)

text \<open>Sending on an end of the pair adds to what is under way.\<close>

lemma pair_ok_SendData:
  "pair_ok pb w sv \<Longrightarrow> SendData [] d w = (Ret err, w') \<Longrightarrow> pair_ok pb w' sv"
  by (auto simp: pair_ok_def SendData_def SendMessage_def recorder_def split: if_splits)

lemma passed_back_ok:
  assumes "pair_ok pb (en_service e) sv" "passed_back sv e = (sv', e')"
  shows "pair_ok pb (en_service e') sv'" "\<exists>w. e' = e\<lparr>en_service := w\<rparr>"
  using assms by (auto simp: pair_ok_def passed_back_def to_service_def)

lemma sent_over_ok:
  assumes p: "pair_ok pb (en_service e) sv" and ok: "\<forall>m. codec_ok (cpMessage pb) m" and t: "t \<noteq> Message_CONSENSUS_NOTIFY_ACK"
    and send: "on_connection (c_SendNewMsg (zmq_Connection (cpMessage pb)) t b) sv = (Ret (k, None), sv1)"
    and over: "sent_over sv1 e = (sv', e')"
  shows "pair_ok pb (en_service e') sv'" "\<exists>w. e' = e\<lparr>en_service := w\<rparr>"
proof -
  from p obtain c where c: "sv_connection sv = Some c" "sk_deliver (conn_socket c) = recorder" "\<not> sk_closed (conn_socket c)" "peer c = []"
    unfolding pair_ok_def by blast
  let ?k = "conn_uuid c (conn_uuid_next c)"
  have "SendNewMsg (cpMessage pb) t b c = (Ret (?k, None), c\<lparr>conn_uuid_next := Suc (conn_uuid_next c),
      conn_socket := (conn_socket c)\<lparr>sk_peer := [[fst (DumpMsg (cpMessage pb) t b ?k)]], sk_inbox := inbox c @ []\<rparr>\<rparr>)"
    using c ok by (intro SendNewMsg_delivers) (simp_all add: recorder_def)
  with send c(1) have sv1: "sv1 = sv\<lparr>sv_connection := Some (c\<lparr>conn_uuid_next := Suc (conn_uuid_next c),
      conn_socket := (conn_socket c)\<lparr>sk_peer := [[fst (DumpMsg (cpMessage pb) t b ?k)]], sk_inbox := inbox c @ []\<rparr>\<rparr>)\<rparr>"
    by (auto simp: on_connection_def zmq_Connection_def)
  have e': "e' = e\<lparr>en_service := set_inbox (inbox (en_service e) @ [Inr [fst (DumpMsg (cpMessage pb) t b ?k)]]) (en_service e)\<rparr>"
    and c': "sv_connection sv' = Some (c\<lparr>conn_uuid_next := Suc (conn_uuid_next c), conn_socket := (conn_socket c)\<lparr>sk_peer := []\<rparr>\<rparr>)"
    using over unfolding sv1 by (auto simp: sent_over_def to_engine_def)
  show "\<exists>w. e' = e\<lparr>en_service := w\<rparr>" using e' by blast
  have "\<exists>t' b' k'. Inr [fst (DumpMsg (cpMessage pb) t b ?k)] = (Inr [fst (DumpMsg (cpMessage pb) t' b' k')] :: go_error + bytes list) \<and>
      t' \<noteq> Message_CONSENSUS_NOTIFY_ACK" using t by blast
  then show "pair_ok pb (en_service e') sv'" using p c(2,3) unfolding pair_ok_def e' c' by simp
qed

text \<open>What the service has sent is forwarded to the validator as it is; it holds no acknowledgement.\<close>

lemma forward_ok:
  assumes p: "pair_ok pb (en_service e) sv" and op: "engine_open pb acks e"
    and fwd: "Engine_receiveService pb (zmq_Connection (cpMessage pb)) (zmq_Connection (cpMessage pb)) e = (Ret (), e')"
  shows "pair_ok pb (en_service e') sv \<and> engine_open pb acks e' \<and> en_updates e' = en_updates e \<and>
    acks (peer (en_validator e')) = acks (peer (en_validator e))"
proof (cases "inbox (en_service e)")
  case Nil
  then show ?thesis using p fwd
    by (simp add: pair_ok_def Engine_receiveService_def en_on_service_def zmq_Connection_def RecvData_def RecvMessage_def bindP_def)
next
  case (Cons x xs)
  with p obtain t b k where x: "x = Inr [fst (DumpMsg (cpMessage pb) t b k)]" "t \<noteq> Message_CONSENSUS_NOTIFY_ACK"
    unfolding pair_ok_def by auto
  let ?d = "fst (DumpMsg (cpMessage pb) t b k)" and ?w = "set_inbox xs (en_service e)"
  have recv: "RecvData (en_service e) = (Ret ([], ?d, None), ?w)"
    using p by (intro RecvData_frame [OF _ Cons [unfolded x(1)]]) (simp_all add: pair_ok_def frame_data_def)
  have ok: "codec_ok (cpMessage pb) m" for m using op unfolding engine_open_def counts_acks_def by blast
  have dec: "LoadMsg (cpMessage pb) ?d = (\<lparr>Message_MessageType = t, Message_CorrelationId = k, Message_Content = b\<rparr>, None)"
    using ok [of "\<lparr>Message_MessageType = t, Message_CorrelationId = k, Message_Content = b\<rparr>"] by (simp add: LoadMsg_def DumpMsg_def)
  obtain q arr err where dl: "sk_deliver (conn_socket (en_validator e)) (peer (en_validator e)) [?d] = (q, arr, err)"
    by (cases "sk_deliver (conn_socket (en_validator e)) (peer (en_validator e)) [?d]")
  then have q: "acks q = acks (peer (en_validator e))"
    using op x(2) unfolding engine_open_def counts_acks_def by (metis fst_conv)
  let ?v = "(en_validator e)\<lparr>conn_socket := (conn_socket (en_validator e))\<lparr>sk_peer := q, sk_inbox := inbox (en_validator e) @ arr\<rparr>\<rparr>"
  have "SendData [] ?d (en_validator e) = (Ret err, ?v)"
    using op dl by (simp add: engine_open_def SendData_def SendMessage_def)
  with fwd recv dec have "e' = e\<lparr>en_service := ?w, en_validator := ?v\<rparr>"
    by (simp add: Engine_receiveService_def en_on_service_def en_on_validator_def zmq_Connection_def bindP_def)
  then show ?thesis using p op q Cons by (auto simp: pair_ok_def engine_open_def)
qed

text \<open>The call of the implementation ends when the receive returns, and never panics.\<close>

lemma call_receive_ok:
  assumes "pair_ok pb w sv" "call_receive pb k sv = (r, sv1)"
  shows "pair_ok pb w sv1" "\<forall>e. r \<noteq> Panic e"
proof -
  from assms(1) obtain c where c: "sv_connection sv = Some c" unfolding pair_ok_def by blast
  obtain r' c' where r: "RecvMsgWithId (cpMessage pb) k c = (r', c')" by (cases "RecvMsgWithId (cpMessage pb) k c")
  with assms(2) c have "r = r'" "sv1 = sv\<lparr>sv_connection := Some c'\<rparr>" by (simp_all add: on_connection_def zmq_Connection_def)
  with RecvMsgWithId_socket [OF r] assms(1) c show "pair_ok pb w sv1" "\<forall>e. r \<noteq> Panic e" by (auto simp: pair_ok_def)
qed

lemma rpc_forget_ok:
  assumes "(if b then rpc_forget k else retP ()) sv = (Ret (), sv')"
  shows "pair_ok pb w sv' = pair_ok pb w sv"
  using assms by (cases b) (auto simp: rpc_forget_def pair_ok_def)

lemma threads_step_inv:
  assumes "engine_threads_step pb s s'" "threads_inv pb acks before s"
  shows "threads_inv pb acks before s'"
  using assms
proof (induction rule: engine_threads_step.induct)
  case (main_handles s d e sv' e')
  let ?e = "(th_engine s)\<lparr>en_corrIds := sv_corrIds (th_service s)\<rparr>"
  from main_handles.prems have op: "engine_open pb acks ?e" and p: "pair_ok pb (en_service ?e) (th_service s)"
    by (simp_all add: threads_inv_def)
  from op show ?case
  proof (cases rule: engine_route_cases [where d = d])
    case (finishes e1)
    with main_handles.hyps(2) have e: "e1 = e" by simp
    have "pair_ok pb (en_service e) (th_service s)" using finishes(5) p unfolding e by (auto intro: pair_ok_SendData)
    from passed_back_ok [OF this main_handles.hyps(3)] finishes main_handles.prems show ?thesis
      unfolding e by (auto simp: threads_inv_def all_updates_def all_acks_def simp flip: append_assoc)
  next
    case stuck
    with main_handles.hyps(2) show ?thesis by blast
  qed
next
  case (main_forwards s e')
  then show ?case using forward_ok [of pb "th_engine s" "th_service s" acks e'] by (simp add: threads_inv_def)
next
  case (impl_sends s t b k sv sv' e')
  then have "\<forall>m. codec_ok (cpMessage pb) m" by (simp add: threads_inv_def engine_open_def counts_acks_def)
  with impl_sends sent_over_ok [of pb "th_engine s" "th_service s" t b k sv sv' e'] show ?case by (auto simp: threads_inv_def)
next
  case (impl_records s k sv')
  then show ?case by (auto simp: threads_inv_def rpc_record_def pair_ok_def)
next
  case (impl_returns s k i msg err sv sv')
  then show ?case
    using call_receive_ok(1) [OF _ impl_returns.hyps(2)] rpc_forget_ok [OF impl_returns.hyps(3)] by (simp add: threads_inv_def)
qed (auto simp: threads_inv_def engine_open_def)

lemma threads_reach_inv:
  assumes "engine_threads_reach pb s s'" "threads_inv pb acks before s"
  shows "threads_inv pb acks before s'"
  using assms by (induction rule: rtranclp_induct) (auto intro: threads_step_inv)

section \<open>When the threads wait for each other\<close>

text \<open>
  The main thread holds a notification with an update for a full channel, and the implementation,
  which alone takes from the channel, is in a call whose response has not been passed on.
\<close>

definition deadlocked :: "cons_pb \<Rightarrow> ('p, 'x) engine_threads \<Rightarrow> bool" where
  "deadlocked pb s \<longleftrightarrow> (case th_held s of None \<Rightarrow> False | Some d \<Rightarrow> updates_in pb d \<noteq> []) \<and>
     length (en_updates (th_engine s)) = 2 \<and>
     (case th_call s of NoCall \<Rightarrow> False
      | Sent k \<Rightarrow> fst (call_receive pb k (th_service s)) = Block
      | Waiting k \<Rightarrow> fst (call_receive pb k (th_service s)) = Block)"

text \<open>The message can never be handled.\<close>

definition never_handled :: "cons_pb \<Rightarrow> bytes \<Rightarrow> ('p, 'x) engine_threads \<Rightarrow> bool" where
  "never_handled pb d s \<longleftrightarrow> th_held s = Some d \<and> (deadlocked pb s \<or> panics_on pb d)"

lemma never_handled_route:
  assumes "threads_inv pb acks before s" "never_handled pb d s"
  shows "engine_route pb (zmq_Connection (cpMessage pb)) (zmq_Connection (cpMessage pb)) 0 d
      ((th_engine s)\<lparr>en_corrIds := sv_corrIds (th_service s)\<rparr>) \<noteq> (Ret (), e)"
proof -
  let ?e = "(th_engine s)\<lparr>en_corrIds := sv_corrIds (th_service s)\<rparr>"
  have "engine_open pb acks ?e" using assms(1) by (simp add: threads_inv_def)
  then show ?thesis
  proof (cases rule: engine_route_cases [where d = d])
    case (finishes e')
    have "deadlocked pb s \<Longrightarrow> length (en_updates e') > 2"
      using assms(2) finishes(3) by (auto simp: deadlocked_def never_handled_def)
    then show ?thesis using assms(2) finishes(1,2) by (auto simp: never_handled_def engine_open_def panics_on_route)
  qed auto
qed

lemma never_handled_step:
  assumes "engine_threads_step pb s s'" "threads_inv pb acks before s" "never_handled pb d s"
  shows "never_handled pb d s' \<and> th_handled s' = th_handled s \<and> (deadlocked pb s \<longrightarrow> deadlocked pb s' \<and> th_taken s' = th_taken s)"
  using assms
proof (induction rule: engine_threads_step.induct)
  case (main_handles s d' e sv' e')
  then have "d' = d" by (simp add: never_handled_def)
  with main_handles never_handled_route [OF main_handles.prems] show ?case by simp
next
  case (impl_records s k sv')
  then show ?case by (auto simp: never_handled_def deadlocked_def rpc_record_def on_connection_def split: option.splits prod.splits)
next
  case (impl_sends s t b k sv sv' e')
  then show ?case by (auto simp: never_handled_def deadlocked_def)
qed (auto simp: never_handled_def deadlocked_def)

lemma never_handled_reach:
  assumes "engine_threads_reach pb s s'" "threads_inv pb acks before s" "never_handled pb d s"
  shows "threads_inv pb acks before s' \<and> never_handled pb d s' \<and> th_handled s' = th_handled s \<and>
    (deadlocked pb s \<longrightarrow> deadlocked pb s' \<and> th_taken s' = th_taken s)"
  using assms
proof (induction rule: rtranclp_induct)
  case (step s1 s2)
  then have now: "threads_inv pb acks before s1" "never_handled pb d s1" and so_far: "th_handled s1 = th_handled s"
    "deadlocked pb s \<longrightarrow> deadlocked pb s1 \<and> th_taken s1 = th_taken s" by simp_all
  from never_handled_step [OF step.hyps(2) now] threads_step_inv [OF step.hyps(2) now(1)] so_far show ?case by auto
qed simp

lemma deadlocked_reach:
  assumes "engine_threads_reach pb s s'" "threads_inv pb acks before s" "deadlocked pb s"
  shows "th_handled s' = th_handled s \<and> th_taken s' = th_taken s \<and> th_call s' \<noteq> NoCall"
proof -
  from assms(3) obtain d where "th_held s = Some d" by (auto simp: deadlocked_def split: option.splits)
  with assms(3) have "never_handled pb d s" by (simp add: never_handled_def)
  from never_handled_reach [OF assms(1,2) this] assms(3) show ?thesis by (auto simp: deadlocked_def)
qed

text \<open>Otherwise the message is handled after at most four steps: the call returns, an update is taken.\<close>

lemma handled_now:
  assumes "threads_inv pb acks before s" "th_held s = Some d" "\<not> panics_on pb d"
    and "length (en_updates (th_engine s)) < 2 \<or> updates_in pb d = []"
  shows "\<exists>s'. engine_threads_step pb s s' \<and> th_handled s' = th_handled s @ [d]"
proof -
  let ?e = "(th_engine s)\<lparr>en_corrIds := sv_corrIds (th_service s)\<rparr>"
  have "engine_open pb acks ?e" using assms(1) by (simp add: threads_inv_def)
  then show ?thesis
  proof (cases rule: engine_route_cases [where d = d])
    case (finishes e)
    obtain sv' e' where "passed_back (th_service s) e = (sv', e')" by (cases "passed_back (th_service s) e")
    with engine_threads_step.main_handles [OF assms(2) finishes(1)] show ?thesis by fastforce
  qed (use assms in auto)
qed

lemma idle_handled:
  assumes inv: "threads_inv pb acks before s" and d: "th_held s = Some d" "\<not> panics_on pb d" and "th_call s = NoCall"
  shows "\<exists>s'. engine_threads_reach pb s s' \<and> th_handled s' = th_handled s @ [d]"
proof (cases "length (en_updates (th_engine s)) < 2")
  case True
  with handled_now [OF inv d] show ?thesis by blast
next
  case False
  then obtain u rest where u: "en_updates (th_engine s) = u # rest" by (cases "en_updates (th_engine s)") auto
  let ?s = "s\<lparr>th_engine := (th_engine s)\<lparr>en_updates := rest\<rparr>, th_taken := th_taken s @ [u]\<rparr>"
  have st: "engine_threads_step pb s ?s" using assms(4) u by (rule impl_takes)
  have "length rest < 2" using inv u by (simp add: threads_inv_def engine_open_def)
  then show ?thesis
    using handled_now [OF threads_step_inv [OF st inv], of d] d st by (auto intro: converse_rtranclp_into_rtranclp)
qed

lemma waiting_returns:
  assumes "threads_inv pb acks before s" "th_call s = Waiting k" "fst (call_receive pb k (th_service s)) \<noteq> Block"
  shows "\<exists>s'. engine_threads_step pb s s' \<and> th_call s' = NoCall \<and> th_held s' = th_held s \<and> th_handled s' = th_handled s"
proof -
  obtain r sv where r: "call_receive pb k (th_service s) = (r, sv)" by (cases "call_receive pb k (th_service s)")
  have "pair_ok pb (en_service (th_engine s)) (th_service s)" using assms(1) by (simp add: threads_inv_def)
  from call_receive_ok(2) [OF this r] assms(3) r obtain i msg err where "r = Ret (i, msg, err)" by (cases r) auto
  moreover obtain sv' where "(if GetCorrelationId msg = k then rpc_forget k else retP ()) sv = (Ret (), sv')"
    by (cases "GetCorrelationId msg = k") (simp_all add: rpc_forget_def)
  ultimately have "engine_threads_step pb s (s\<lparr>th_service := sv', th_call := NoCall\<rparr>)"
    using impl_returns [OF assms(2)] r by blast
  then show ?thesis by (rule exI [where x = "s\<lparr>th_service := sv', th_call := NoCall\<rparr>", OF conjI]) simp
qed

lemma message_handled:
  assumes inv: "threads_inv pb acks before s" and d: "th_held s = Some d" "\<not> panics_on pb d" and live: "\<not> deadlocked pb s"
  shows "\<exists>s'. engine_threads_reach pb s s' \<and> th_handled s' = th_handled s @ [d]"
proof (cases "length (en_updates (th_engine s)) < 2 \<or> updates_in pb d = []")
  case True
  with handled_now [OF inv d] show ?thesis by blast
next
  case False
  with inv have full: "length (en_updates (th_engine s)) = 2" "updates_in pb d \<noteq> []"
    by (auto simp: threads_inv_def engine_open_def)
  have waiting: "\<exists>s'. engine_threads_reach pb t s' \<and> th_handled s' = th_handled t @ [d]"
    if "threads_inv pb acks before t" "th_held t = Some d" "th_call t = Waiting k" "fst (call_receive pb k (th_service t)) \<noteq> Block" for t k
    using waiting_returns [OF that(1,3,4)] idle_handled threads_step_inv that d(2)
    by (metis converse_rtranclp_into_rtranclp)
  show ?thesis
  proof (cases "th_call s")
    case NoCall
    with idle_handled [OF inv d] show ?thesis by blast
  next
    case (Waiting k)
    then show ?thesis using live full d by (intro waiting [OF inv d(1)]) (auto simp: deadlocked_def)
  next
    case (Sent k)
    let ?s = "s\<lparr>th_service := (th_service s)\<lparr>sv_corrIds := insert k (sv_corrIds (th_service s))\<rparr>, th_call := Waiting k\<rparr>"
    have st: "engine_threads_step pb s ?s" using Sent by (rule impl_records) (simp add: rpc_record_def)
    have "fst (call_receive pb k (th_service s)) \<noteq> Block" using Sent live full d by (auto simp: deadlocked_def)
    then have "fst (call_receive pb k (th_service ?s)) \<noteq> Block" by (auto simp: on_connection_def split: option.splits prod.splits)
    from waiting [OF threads_step_inv [OF st inv] _ _ this] d(1) st show ?thesis
      by (auto intro: converse_rtranclp_into_rtranclp)
  qed
qed

text \<open>A notification is taken in while the implementation is in a call and there is room.\<close>

lemma notification_taken_in:
  assumes inv: "threads_inv pb acks before s" and idle: "th_held s = None" "peer (en_service (th_engine s)) = []"
    and m: "Unmarshal (cpMessage pb) d = (m, None)" "is_notification (Message_MessageType m)" "update_of pb m = Ret (Some u)"
    and room: "length (en_updates (th_engine s)) < 2"
  shows "\<exists>s'. engine_threads_reach pb s s' \<and> th_held s' = None \<and> peer (en_service (th_engine s')) = [] \<and> th_call s' = th_call s \<and>
    th_service s' = th_service s \<and> th_handled s' = th_handled s @ [d] \<and> en_updates (th_engine s') = en_updates (th_engine s) @ [u]"
proof -
  let ?s = "s\<lparr>th_held := Some d\<rparr>" and ?e = "(th_engine s)\<lparr>en_corrIds := sv_corrIds (th_service s)\<rparr>"
  have op: "engine_open pb acks ?e" using inv by (simp add: threads_inv_def)
  have u: "updates_in pb d = [u]" using m by (simp add: updates_in_def)
  obtain v where v: "engine_route pb (zmq_Connection (cpMessage pb)) (zmq_Connection (cpMessage pb)) 0 d ?e =
      (Ret (), ?e\<lparr>en_updates := en_updates ?e @ updates_in pb d, en_validator := v\<rparr>)"
    by (rule engine_route_notification [OF op m]) (use room in auto)
  from inv obtain c where c: "sv_connection (th_service s) = Some c" unfolding threads_inv_def pair_ok_def by blast
  let ?e' = "?e\<lparr>en_updates := en_updates ?e @ [u], en_validator := v, en_service := (en_service ?e)\<lparr>conn_socket := (conn_socket (en_service ?e))\<lparr>sk_peer := []\<rparr>\<rparr>\<rparr>"
  have "passed_back (th_service s) (?e\<lparr>en_updates := en_updates ?e @ [u], en_validator := v\<rparr>) = (th_service s, ?e')"
    using c idle(2) by (cases "th_service s") (simp add: passed_back_def to_service_def set_inbox_id)
  then have "engine_threads_step pb ?s (?s\<lparr>th_engine := ?e', th_service := th_service s, th_held := None, th_handled := th_handled ?s @ [d]\<rparr>)"
    using v u by (intro main_handles [where e = "?e\<lparr>en_updates := en_updates ?e @ [u], en_validator := v\<rparr>"]) simp_all
  with main_receives [OF idle(1), of pb d] show ?thesis
    by (intro exI [where x = "?s\<lparr>th_engine := ?e', th_service := th_service s, th_held := None, th_handled := th_handled s @ [d]\<rparr>"])
      (auto intro: converse_rtranclp_into_rtranclp)
qed

text \<open>Three notifications during a call are enough for a deadlock.\<close>

lemma deadlock_reachable:
  assumes inv: "threads_inv pb acks before s" and idle: "th_held s = None" "peer (en_service (th_engine s)) = []" "en_updates (th_engine s) = []"
    and call: "th_call s = Sent k" "fst (call_receive pb k (th_service s)) = Block"
    and m: "Unmarshal (cpMessage pb) d = (m, None)" "is_notification (Message_MessageType m)" "update_of pb m = Ret (Some u)"
  shows "\<exists>s'. engine_threads_reach pb s s' \<and> deadlocked pb s' \<and> th_handled s' = th_handled s @ [d, d]"
proof -
  from notification_taken_in [OF inv idle(1,2) m] idle(3) obtain s1 where s1: "engine_threads_reach pb s s1" "th_held s1 = None"
    "peer (en_service (th_engine s1)) = []" "th_call s1 = th_call s" "th_service s1 = th_service s"
    "th_handled s1 = th_handled s @ [d]" "en_updates (th_engine s1) = [u]" by auto
  from notification_taken_in [OF threads_reach_inv [OF s1(1) inv] s1(2,3) m] s1(4-7) obtain s2 where s2: "engine_threads_reach pb s1 s2"
    "th_held s2 = None" "th_call s2 = th_call s" "th_service s2 = th_service s" "th_handled s2 = th_handled s @ [d, d]"
    "en_updates (th_engine s2) = [u, u]" by auto
  have "engine_threads_reach pb s (s2\<lparr>th_held := Some d\<rparr>)"
    using s1(1) s2(1) main_receives [OF s2(2), of pb d] by (meson rtranclp.rtrancl_into_rtrancl rtranclp_trans)
  moreover have "deadlocked pb (s2\<lparr>th_held := Some d\<rparr>)" using s2 call m by (simp add: deadlocked_def updates_in_def)
  ultimately show ?thesis using s2(5) by (intro exI [where x = "s2\<lparr>th_held := Some d\<rparr>"]) simp
qed

section \<open>Properties\<close>

text \<open>
  C19: the threads of a consensus engine, in every order of their steps.  The updates the
  implementation has taken and those that wait in the channel are, in this order, exactly the updates
  of the notifications handled; at most two wait; and each notification handled has been
  acknowledged once, in order.  A message that the main thread holds can be handled to the end
  unless it makes the main thread panic (a connected peer without info, a peer message whose header
  cannot be decoded) or the threads are deadlocked: the channel is full, the message carries an
  update, and the implementation is in a call of the service whose response has not been passed on.
  Then neither thread ever gets any further.
\<close>

theorem updates_in_order:
  fixes s :: "('p, 'x) engine_threads"
  assumes "threads_start pb acks s0" "engine_threads_reach pb s0 s"
  shows "th_taken s @ en_updates (th_engine s) = all_updates pb (th_handled s) \<and>
    length (en_updates (th_engine s)) \<le> 2 \<and>
    acks (peer (en_validator (th_engine s))) = acks (peer (en_validator (th_engine s0))) @ all_acks pb (th_handled s) \<and>
    (\<forall>d. th_held s = Some d \<longrightarrow>
      ((\<exists>s'. engine_threads_reach pb s s' \<and> th_handled s' = th_handled s @ [d]) \<longleftrightarrow> \<not> deadlocked pb s \<and> \<not> panics_on pb d)) \<and>
    (deadlocked pb s \<longrightarrow> (\<forall>s'. engine_threads_reach pb s s' \<longrightarrow>
      th_handled s' = th_handled s \<and> th_taken s' = th_taken s \<and> th_call s' \<noteq> NoCall))"
proof -
  let ?before = "acks (peer (en_validator (th_engine s0)))"
  have "threads_inv pb acks ?before s0"
    using assms(1) by (simp add: threads_start_def threads_inv_def all_updates_def all_acks_def)
  then have inv: "threads_inv pb acks ?before s" by (rule threads_reach_inv [OF assms(2)])
  have "\<forall>d. th_held s = Some d \<longrightarrow>
    ((\<exists>s'. engine_threads_reach pb s s' \<and> th_handled s' = th_handled s @ [d]) \<longleftrightarrow> \<not> deadlocked pb s \<and> \<not> panics_on pb d)"
    (is "\<forall>d. _ \<longrightarrow> ?handled d")
  proof (intro allI impI)
    fix d
    assume d: "th_held s = Some d"
    show "?handled d"
    proof (cases "deadlocked pb s \<or> panics_on pb d")
      case True
      with d have "never_handled pb d s" by (simp add: never_handled_def)
      then have "engine_threads_reach pb s s' \<Longrightarrow> th_handled s' = th_handled s" for s' using never_handled_reach inv by blast
      then have "\<nexists>s'. engine_threads_reach pb s s' \<and> th_handled s' = th_handled s @ [d]" by (metis append_self_conv not_Cons_self2)
      with True show ?thesis by blast
    qed (use message_handled [OF inv d] in blast)
  qed
  moreover have "length (en_updates (th_engine s)) \<le> 2" using inv by (simp add: threads_inv_def engine_open_def)
  moreover have "th_taken s @ en_updates (th_engine s) = all_updates pb (th_handled s)"
    "acks (peer (en_validator (th_engine s))) = ?before @ all_acks pb (th_handled s)" using inv by (simp_all add: threads_inv_def)
  moreover have "deadlocked pb s \<longrightarrow> (\<forall>s'. engine_threads_reach pb s s' \<longrightarrow>
      th_handled s' = th_handled s \<and> th_taken s' = th_taken s \<and> th_call s' \<noteq> NoCall)" using deadlocked_reach [OF _ inv] by blast
  ultimately show ?thesis by (intro conjI)
qed

text \<open>A validator that records the ids of the acknowledgements, and the threads at the start.\<close>

definition demo_ack_deliver :: "string list \<Rightarrow> bytes list \<Rightarrow> string list \<times> (go_error + bytes list) list \<times> go_error option" where
  "demo_ack_deliver p frs =
    (case frs of
       [d] \<Rightarrow> (let m = fst (Unmarshal (unary_codec :: Message codec) d) in
          (if Message_MessageType m = Message_CONSENSUS_NOTIFY_ACK then p @ [Message_CorrelationId m] else p, [], None))
     | _ \<Rightarrow> (p, [], None))"

definition demo_listening :: "(string list, unit) engine_main" where
  "demo_listening = \<lparr>en_validator = demo_pair_conn [] demo_ack_deliver, en_service = demo_pair_conn [] recorder, en_shutdown = (),
     en_corrIds = {}, en_updates = [], en_closed = False, en_slept = [], en_monitor_closed = False\<rparr>"

definition demo_threads :: "(string list, unit) engine_threads" where
  "demo_threads = \<lparr>th_engine = demo_listening, th_service = demo_caller, th_held = None, th_call = NoCall, th_taken = [], th_handled = []\<rparr>"

lemma demo_threads_start: "threads_start unary_cons_pb (\<lambda>p. p) demo_threads"
  by (simp add: threads_start_def engine_open_def counts_acks_def pair_ok_def demo_threads_def demo_listening_def demo_caller_def
      demo_pair_conn_def demo_ack_deliver_def DumpMsg_def)

text \<open>The implementation asks for the chain head.\<close>

lemma demo_threads_call:
  "\<exists>s. engine_threads_step unary_cons_pb demo_threads s \<and> th_held s = None \<and> peer (en_service (th_engine s)) = [] \<and>
    en_updates (th_engine s) = [] \<and> th_call s = Sent ''id'' \<and> fst (call_receive unary_cons_pb ''id'' (th_service s)) = Block \<and> th_handled s = []"
proof -
  let ?c = "demo_pair_conn [] recorder" and ?pb = unary_cons_pb and ?t = Message_CONSENSUS_CHAIN_HEAD_GET_REQUEST
  define d where "d = fst (DumpMsg (cpMessage ?pb) ?t [] ''id'')"
  let ?c1 = "?c\<lparr>conn_uuid_next := 1\<rparr>"
  let ?w = "set_inbox [Inr [d]] (en_service demo_listening)"
  have "SendNewMsg (cpMessage ?pb) ?t [] ?c = (Ret (''id'', None), ?c1\<lparr>conn_socket := (conn_socket ?c)\<lparr>sk_peer := [[d]]\<rparr>\<rparr>)"
  proof -
    have c: "\<not> sk_closed (conn_socket ?c)" "''id'' = conn_uuid ?c (conn_uuid_next ?c)" "inbox ?c = []" "conn_uuid_next ?c = 0"
      "sk_deliver (conn_socket ?c) (peer ?c) [d] = ([[d]], [], None)" by (simp_all add: demo_pair_conn_def recorder_def)
    have "conn_socket ?c\<lparr>sk_peer := [[d]], sk_inbox := []\<rparr> = conn_socket ?c\<lparr>sk_peer := [[d]]\<rparr>" using c(3) by (cases "conn_socket ?c") simp
    then show ?thesis
      using SendNewMsg_delivers [OF c(1) _ c(2) c(5) [unfolded d_def]] c(3,4) unfolding d_def [symmetric] by simp
  qed
  then have 1: "on_connection (c_SendNewMsg (zmq_Connection (cpMessage ?pb)) ?t []) (th_service demo_threads) =
      (Ret (''id'', None), demo_caller\<lparr>sv_connection := Some (?c1\<lparr>conn_socket := (conn_socket ?c)\<lparr>sk_peer := [[d]]\<rparr>\<rparr>)\<rparr>)"
    by (simp add: on_connection_def zmq_Connection_def demo_threads_def demo_caller_def)
  have 2: "sent_over (demo_caller\<lparr>sv_connection := Some (?c1\<lparr>conn_socket := (conn_socket ?c)\<lparr>sk_peer := [[d]]\<rparr>\<rparr>)\<rparr>) (th_engine demo_threads) =
      (demo_caller\<lparr>sv_connection := Some ?c1\<rparr>, demo_listening\<lparr>en_service := ?w\<rparr>)"
    by (simp add: sent_over_def to_engine_def demo_threads_def demo_listening_def demo_pair_conn_def)
  let ?s = "demo_threads\<lparr>th_engine := demo_listening\<lparr>en_service := ?w\<rparr>, th_service := demo_caller\<lparr>sv_connection := Some ?c1\<rparr>, th_call := Sent ''id''\<rparr>"
  have "engine_threads_step ?pb demo_threads ?s" by (rule impl_sends [OF _ _ 1 2]) (simp_all add: demo_threads_def)
  moreover have "fst (call_receive ?pb ''id'' (th_service ?s)) = Block"
    using RecvMsgWithId_loop_block [of ?c1 "cpMessage ?pb" "''id''"]
    by (simp add: on_connection_def zmq_Connection_def RecvMsgWithId_def demo_pair_conn_def del: RecvMsgWithId_loop.simps)
  ultimately show ?thesis
    by (intro exI [where x = ?s]) (simp add: demo_threads_def demo_listening_def demo_pair_conn_def)
qed

text \<open>Three notifications of a committed block arrive during the call.\<close>

abbreviation demo_notice_data :: bytes where
  "demo_notice_data \<equiv> fst (Marshal unary_codec demo_notice)"

lemma demo_threads_deadlock:
  "\<exists>s. engine_threads_reach unary_cons_pb demo_threads s \<and> deadlocked unary_cons_pb s \<and> th_handled s = [demo_notice_data, demo_notice_data]"
proof -
  obtain s where s: "engine_threads_step unary_cons_pb demo_threads s" "th_held s = None" "peer (en_service (th_engine s)) = []"
    "en_updates (th_engine s) = []" "th_call s = Sent ''id''" "fst (call_receive unary_cons_pb ''id'' (th_service s)) = Block" "th_handled s = []"
    using demo_threads_call by blast
  have "threads_inv unary_cons_pb (\<lambda>p. p) [] demo_threads"
    using demo_threads_start by (simp add: threads_start_def threads_inv_def all_updates_def all_acks_def demo_threads_def demo_listening_def demo_pair_conn_def)
  note inv = threads_step_inv [OF s(1) this]
  have "\<exists>s'. engine_threads_reach unary_cons_pb s s' \<and> deadlocked unary_cons_pb s' \<and> th_handled s' = th_handled s @ [demo_notice_data, demo_notice_data]"
    by (rule deadlock_reachable [OF inv s(2-6) _ _ demo_notice_update]) (simp_all add: demo_notice_def is_notification_def)
  then show ?thesis using s(1,7) by (auto intro: converse_rtranclp_into_rtranclp)
qed

lemma updates_in_order_witness:
  "\<exists>s. engine_threads_reach unary_cons_pb demo_threads s \<and> deadlocked unary_cons_pb s \<and> length (en_updates (th_engine s)) \<le> 2 \<and>
     th_taken s @ en_updates (th_engine s) = [UpdateBlockCommit BLOCK_ID_NULL, UpdateBlockCommit BLOCK_ID_NULL] \<and>
     peer (en_validator (th_engine s)) = [''k'', ''k''] \<and>
     (\<forall>s'. engine_threads_reach unary_cons_pb s s' \<longrightarrow> th_handled s' = [demo_notice_data, demo_notice_data])"
proof -
  obtain s where s: "engine_threads_reach unary_cons_pb demo_threads s" "deadlocked unary_cons_pb s"
    "th_handled s = [demo_notice_data, demo_notice_data]" using demo_threads_deadlock by blast
  have "updates_in unary_cons_pb demo_notice_data = [UpdateBlockCommit BLOCK_ID_NULL]" "acks_for unary_cons_pb demo_notice_data = [''k'']"
    using demo_notice_update by (simp_all add: updates_in_def acks_for_def) (simp_all add: demo_notice_def is_notification_def)
  moreover have "peer (en_validator (th_engine demo_threads)) = []" by (simp add: demo_threads_def demo_listening_def demo_pair_conn_def)
  ultimately show ?thesis
    using updates_in_order [OF demo_threads_start s(1)] s by (auto simp: all_updates_def all_acks_def)
qed

end
