(* ===== verification/Consensus_Contract.thy ===== *)
theory Consensus_Contract
  imports Consensus_Service State_Instance
begin

text \<open>
  What an engine can rely on when it calls the consensus service: an abstract validator, the
  contract of the ConsensusService interface over it, and the proof that ZmqService keeps the
  contract on a connection to a validator that answers as the abstract one does.

  The validator is not part of the sources; its answers are those the consensus API documents
  (OK, UNKNOWN_BLOCK, UNKNOWN_PEER, INVALID_STATE, BLOCK_NOT_READY).
\<close>

section \<open>The abstract validator\<close>

text \<open>The commands a validator has accepted, oldest first.\<close>

datatype command =
    SentTo PeerId string bytes
  | Broadcasted string bytes
  | Initialized BlockId
  | Finalized bytes
  | Cancelled
  | Checked "BlockId list"
  | Committed BlockId
  | Ignored BlockId
  | FailedBlock BlockId

text \<open>
  The validator knows blocks, a chain head, peers and settings; it may be building a block, whose
  summary is ready after a number of further requests, and it names the next block.
\<close>

record chain =
  ch_blocks :: "BlockId \<rightharpoonup> block"
  ch_head :: block
  ch_peers :: "PeerId set"
  ch_settings :: "(string \<times> string) list"
  ch_building :: bool
  ch_not_ready :: nat
  ch_summary :: bytes
  ch_next :: BlockId
  ch_log :: "command list"

definition chain_wf :: "chain \<Rightarrow> bool" where
  "chain_wf ch \<longleftrightarrow> (\<forall>i b. ch_blocks ch i = Some b \<longrightarrow> block_BlockId b = i \<and> block_wf b) \<and> block_wf (ch_head ch) \<and>
     normal_id (ch_next ch)"

definition logged :: "command \<Rightarrow> chain \<Rightarrow> chain" where
  "logged c ch = ch\<lparr>ch_log := ch_log ch @ [c]\<rparr>"

definition v_SendTo :: "ConsensusSendToRequest \<Rightarrow> chain \<Rightarrow> ConsensusSendToResponse \<times> chain" where
  "v_SendTo q ch = (if ConsensusSendToRequest_ReceiverId q \<in> ch_peers ch
     then (\<lparr>ConsensusSendToResponse_Status = ConsensusSendToResponse_OK\<rparr>, logged (SentTo (ConsensusSendToRequest_ReceiverId q)
       (ConsensusSendToRequest_MessageType q) (ConsensusSendToRequest_Content q)) ch)
     else (\<lparr>ConsensusSendToResponse_Status = ConsensusSendToResponse_UNKNOWN_PEER\<rparr>, ch))"

definition v_Broadcast :: "ConsensusBroadcastRequest \<Rightarrow> chain \<Rightarrow> ConsensusBroadcastResponse \<times> chain" where
  "v_Broadcast q ch = (\<lparr>ConsensusBroadcastResponse_Status = ConsensusBroadcastResponse_OK\<rparr>,
     logged (Broadcasted (ConsensusBroadcastRequest_MessageType q) (ConsensusBroadcastRequest_Content q)) ch)"

definition v_InitializeBlock :: "ConsensusInitializeBlockRequest \<Rightarrow> chain \<Rightarrow> ConsensusInitializeBlockResponse \<times> chain" where
  "v_InitializeBlock q ch =
    (if ch_building ch then (\<lparr>ConsensusInitializeBlockResponse_Status = ConsensusInitializeBlockResponse_INVALID_STATE\<rparr>, ch)
     else (\<lparr>ConsensusInitializeBlockResponse_Status = ConsensusInitializeBlockResponse_OK\<rparr>,
       logged (Initialized (ConsensusInitializeBlockRequest_PreviousId q)) (ch\<lparr>ch_building := True\<rparr>)))"

definition v_SummarizeBlock :: "ConsensusSummarizeBlockRequest \<Rightarrow> chain \<Rightarrow> ConsensusSummarizeBlockResponse \<times> chain" where
  "v_SummarizeBlock q ch =
    (if \<not> ch_building ch then (\<lparr>ConsensusSummarizeBlockResponse_Status = ConsensusSummarizeBlockResponse_INVALID_STATE,
       ConsensusSummarizeBlockResponse_Summary = []\<rparr>, ch)
     else case ch_not_ready ch of
       Suc n \<Rightarrow> (\<lparr>ConsensusSummarizeBlockResponse_Status = ConsensusSummarizeBlockResponse_BLOCK_NOT_READY,
         ConsensusSummarizeBlockResponse_Summary = []\<rparr>, ch\<lparr>ch_not_ready := n\<rparr>)
     | 0 \<Rightarrow> (\<lparr>ConsensusSummarizeBlockResponse_Status = ConsensusSummarizeBlockResponse_OK,
         ConsensusSummarizeBlockResponse_Summary = ch_summary ch\<rparr>, ch))"

definition v_FinalizeBlock :: "ConsensusFinalizeBlockRequest \<Rightarrow> chain \<Rightarrow> ConsensusFinalizeBlockResponse \<times> chain" where
  "v_FinalizeBlock q ch =
    (if \<not> ch_building ch then (\<lparr>ConsensusFinalizeBlockResponse_Status = ConsensusFinalizeBlockResponse_INVALID_STATE,
       ConsensusFinalizeBlockResponse_BlockId = []\<rparr>, ch)
     else case ch_not_ready ch of
       Suc n \<Rightarrow> (\<lparr>ConsensusFinalizeBlockResponse_Status = ConsensusFinalizeBlockResponse_BLOCK_NOT_READY,
         ConsensusFinalizeBlockResponse_BlockId = []\<rparr>, ch\<lparr>ch_not_ready := n\<rparr>)
     | 0 \<Rightarrow> (\<lparr>ConsensusFinalizeBlockResponse_Status = ConsensusFinalizeBlockResponse_OK,
         ConsensusFinalizeBlockResponse_BlockId = ch_next ch\<rparr>,
         logged (Finalized (ConsensusFinalizeBlockRequest_Data q)) (ch\<lparr>ch_building := False\<rparr>)))"

definition v_CancelBlock :: "ConsensusCancelBlockRequest \<Rightarrow> chain \<Rightarrow> ConsensusCancelBlockResponse \<times> chain" where
  "v_CancelBlock q ch =
    (if ch_building ch then (\<lparr>ConsensusCancelBlockResponse_Status = ConsensusCancelBlockResponse_OK\<rparr>,
       logged Cancelled (ch\<lparr>ch_building := False\<rparr>))
     else (\<lparr>ConsensusCancelBlockResponse_Status = ConsensusCancelBlockResponse_INVALID_STATE\<rparr>, ch))"

definition v_CheckBlocks :: "ConsensusCheckBlocksRequest \<Rightarrow> chain \<Rightarrow> ConsensusCheckBlocksResponse \<times> chain" where
  "v_CheckBlocks q ch = (let ids = ConsensusCheckBlocksRequest_BlockIds q in
     if set ids \<subseteq> dom (ch_blocks ch) then (\<lparr>ConsensusCheckBlocksResponse_Status = ConsensusCheckBlocksResponse_OK\<rparr>, logged (Checked ids) ch)
     else (\<lparr>ConsensusCheckBlocksResponse_Status = ConsensusCheckBlocksResponse_UNKNOWN_BLOCK\<rparr>, ch))"

definition v_CommitBlock :: "ConsensusCommitBlockRequest \<Rightarrow> chain \<Rightarrow> ConsensusCommitBlockResponse \<times> chain" where
  "v_CommitBlock q ch = (let i = ConsensusCommitBlockRequest_BlockId q in
     if i \<in> dom (ch_blocks ch) then (\<lparr>ConsensusCommitBlockResponse_Status = ConsensusCommitBlockResponse_OK\<rparr>, logged (Committed i) ch)
     else (\<lparr>ConsensusCommitBlockResponse_Status = ConsensusCommitBlockResponse_UNKNOWN_BLOCK\<rparr>, ch))"

definition v_IgnoreBlock :: "ConsensusIgnoreBlockRequest \<Rightarrow> chain \<Rightarrow> ConsensusIgnoreBlockResponse \<times> chain" where
  "v_IgnoreBlock q ch = (let i = ConsensusIgnoreBlockRequest_BlockId q in
     if i \<in> dom (ch_blocks ch) then (\<lparr>ConsensusIgnoreBlockResponse_Status = ConsensusIgnoreBlockResponse_OK\<rparr>, logged (Ignored i) ch)
     else (\<lparr>ConsensusIgnoreBlockResponse_Status = ConsensusIgnoreBlockResponse_UNKNOWN_BLOCK\<rparr>, ch))"

definition v_FailBlock :: "ConsensusFailBlockRequest \<Rightarrow> chain \<Rightarrow> ConsensusFailBlockResponse \<times> chain" where
  "v_FailBlock q ch = (let i = ConsensusFailBlockRequest_BlockId q in
     if i \<in> dom (ch_blocks ch) then (\<lparr>ConsensusFailBlockResponse_Status = ConsensusFailBlockResponse_OK\<rparr>, logged (FailedBlock i) ch)
     else (\<lparr>ConsensusFailBlockResponse_Status = ConsensusFailBlockResponse_UNKNOWN_BLOCK\<rparr>, ch))"

definition v_BlocksGet :: "ConsensusBlocksGetRequest \<Rightarrow> chain \<Rightarrow> ConsensusBlocksGetResponse \<times> chain" where
  "v_BlocksGet q ch = (let ids = ConsensusBlocksGetRequest_BlockIds q in
     if set ids \<subseteq> dom (ch_blocks ch)
     then (\<lparr>ConsensusBlocksGetResponse_Status = ConsensusBlocksGetResponse_OK,
            ConsensusBlocksGetResponse_Blocks = map (\<lambda>i. block_proto (the (ch_blocks ch i))) ids\<rparr>, ch)
     else (\<lparr>ConsensusBlocksGetResponse_Status = ConsensusBlocksGetResponse_UNKNOWN_BLOCK, ConsensusBlocksGetResponse_Blocks = []\<rparr>, ch))"

definition v_ChainHeadGet :: "ConsensusChainHeadGetRequest \<Rightarrow> chain \<Rightarrow> ConsensusChainHeadGetResponse \<times> chain" where
  "v_ChainHeadGet q ch = (\<lparr>ConsensusChainHeadGetResponse_Status = ConsensusChainHeadGetResponse_OK,
     ConsensusChainHeadGetResponse_Block = Some (block_proto (ch_head ch))\<rparr>, ch)"

definition v_SettingsGet :: "ConsensusSettingsGetRequest \<Rightarrow> chain \<Rightarrow> ConsensusSettingsGetResponse \<times> chain" where
  "v_SettingsGet q ch =
    (if ConsensusSettingsGetRequest_BlockId q \<in> dom (ch_blocks ch)
     then (\<lparr>ConsensusSettingsGetResponse_Status = ConsensusSettingsGetResponse_OK, ConsensusSettingsGetResponse_Entries =
        map (\<lambda>(k, v). \<lparr>ConsensusSettingsEntry_Key = k, ConsensusSettingsEntry_Value = v\<rparr>) (ch_settings ch)\<rparr>, ch)
     else (\<lparr>ConsensusSettingsGetResponse_Status = ConsensusSettingsGetResponse_UNKNOWN_BLOCK, ConsensusSettingsGetResponse_Entries = []\<rparr>, ch))"

section \<open>The contract of the service\<close>

text \<open>\<open>performs I view m s x ch\<close>: the call returns \<open>x\<close>, and the validator is then as \<open>ch\<close>.\<close>

definition performs :: "('s \<Rightarrow> bool) \<Rightarrow> ('s \<Rightarrow> chain) \<Rightarrow> ('s, 'a) proc \<Rightarrow> 's \<Rightarrow> 'a \<Rightarrow> chain \<Rightarrow> bool" where
  "performs I view m s x ch \<longleftrightarrow> (\<exists>s'. m s = (Ret x, s') \<and> I s' \<and> view s' = ch)"

lemma performsI: "m s = (Ret x, s') \<Longrightarrow> I s' \<Longrightarrow> view s' = ch \<Longrightarrow> performs I view m s x ch"
  by (auto simp: performs_def)

lemma performs_retP [simp]: "I s \<Longrightarrow> performs I view (retP x) s y ch \<longleftrightarrow> x = y \<and> view s = ch"
  by (auto simp: performs_def)

lemma performs_bindP:
  assumes "performs I view m s x ch" "\<And>s'. I s' \<Longrightarrow> view s' = ch \<Longrightarrow> performs I view (f x) s' y ch'"
  shows "performs I view (bindP m f) s y ch'"
  using assms unfolding performs_def by (auto simp: bindP_def)

locale consensus_contract =
  fixes S :: "'s ConsensusService"
    and I :: "'s \<Rightarrow> bool"
    and view :: "'s \<Rightarrow> chain"
  assumes known: "I s \<Longrightarrow> chain_wf (view s)"
    and GetBlocks: "I s \<Longrightarrow> ch_blocks (view s) i = Some b \<Longrightarrow>
      performs I view (cs_GetBlocks S [i]) s ([i \<mapsto> b], None) (view s)"
    and GetBlocks_unknown: "I s \<Longrightarrow> ch_blocks (view s) i = None \<Longrightarrow>
      performs I view (cs_GetBlocks S [i]) s (Map.empty, Some (UnknownBlockError ''Block not found'')) (view s)"
    and GetChainHead: "I s \<Longrightarrow> performs I view (cs_GetChainHead S) s (Some (ch_head (view s)), None) (view s)"
    and SendTo: "I s \<Longrightarrow> p \<in> ch_peers (view s) \<Longrightarrow>
      performs I view (cs_SendTo S p t d) s None (logged (SentTo p t d) (view s))"
    and SendTo_unknown: "I s \<Longrightarrow> p \<notin> ch_peers (view s) \<Longrightarrow> performs I view (cs_SendTo S p t d) s
      (Some (failed_with ConsensusSendToResponse_Status_name ConsensusSendToResponse_UNKNOWN_PEER)) (view s)"
    and Broadcast: "I s \<Longrightarrow> performs I view (cs_Broadcast S t d) s None (logged (Broadcasted t d) (view s))"
    and CheckBlocks: "I s \<Longrightarrow> set is \<subseteq> dom (ch_blocks (view s)) \<Longrightarrow>
      performs I view (cs_CheckBlocks S is) s None (logged (Checked is) (view s))"
    and CheckBlocks_unknown: "I s \<Longrightarrow> \<not> set is \<subseteq> dom (ch_blocks (view s)) \<Longrightarrow>
      performs I view (cs_CheckBlocks S is) s (Some (UnknownBlockError ''Block not found'')) (view s)"
    and CommitBlock: "I s \<Longrightarrow> i \<in> dom (ch_blocks (view s)) \<Longrightarrow>
      performs I view (cs_CommitBlock S i) s None (logged (Committed i) (view s))"
    and IgnoreBlock: "I s \<Longrightarrow> i \<in> dom (ch_blocks (view s)) \<Longrightarrow>
      performs I view (cs_IgnoreBlock S i) s None (logged (Ignored i) (view s))"
    and FailBlock: "I s \<Longrightarrow> i \<in> dom (ch_blocks (view s)) \<Longrightarrow>
      performs I view (cs_FailBlock S i) s None (logged (FailedBlock i) (view s))"
    and FailBlock_unknown: "I s \<Longrightarrow> i \<notin> dom (ch_blocks (view s)) \<Longrightarrow>
      performs I view (cs_FailBlock S i) s (Some (UnknownBlockError ''Block not found'')) (view s)"
    and InitializeBlock: "I s \<Longrightarrow> \<not> ch_building (view s) \<Longrightarrow>
      performs I view (cs_InitializeBlock S i) s None (logged (Initialized i) ((view s)\<lparr>ch_building := True\<rparr>))"
    and CancelBlock: "I s \<Longrightarrow> ch_building (view s) \<Longrightarrow>
      performs I view (cs_CancelBlock S) s None (logged Cancelled ((view s)\<lparr>ch_building := False\<rparr>))"
    and CancelBlock_idle: "I s \<Longrightarrow> \<not> ch_building (view s) \<Longrightarrow>
      performs I view (cs_CancelBlock S) s (Some (InvalidStateError ''Cannot cancel block in current state'')) (view s)"
    and SummarizeBlock: "I s \<Longrightarrow> ch_building (view s) \<Longrightarrow> ch_not_ready (view s) = 0 \<Longrightarrow>
      performs I view (cs_SummarizeBlock S) s (ch_summary (view s), None) (view s)"
    and SummarizeBlock_not_ready: "I s \<Longrightarrow> ch_building (view s) \<Longrightarrow> ch_not_ready (view s) = Suc n \<Longrightarrow>
      performs I view (cs_SummarizeBlock S) s ([], Some BlockNotReadyError) ((view s)\<lparr>ch_not_ready := n\<rparr>)"
    and SummarizeBlock_idle: "I s \<Longrightarrow> \<not> ch_building (view s) \<Longrightarrow>
      performs I view (cs_SummarizeBlock S) s ([], Some (InvalidStateError ''Cannot summarize block in current state'')) (view s)"
    and FinalizeBlock: "I s \<Longrightarrow> ch_building (view s) \<Longrightarrow> ch_not_ready (view s) = 0 \<Longrightarrow>
      performs I view (cs_FinalizeBlock S d) s (ch_next (view s), None) (logged (Finalized d) ((view s)\<lparr>ch_building := False\<rparr>))"
    and FinalizeBlock_idle: "I s \<Longrightarrow> \<not> ch_building (view s) \<Longrightarrow>
      performs I view (cs_FinalizeBlock S d) s (BLOCK_ID_NULL, Some (InvalidStateError ''Cannot finalize block in current state'')) (view s)"
    and GetSettings: "I s \<Longrightarrow> \<exists>res err. performs I view (cs_GetSettings S i ks) s (res, err) (view s) \<and>
      (err \<noteq> None \<longrightarrow> res = Map.empty)"

section \<open>ZmqService keeps the contract\<close>

text \<open>A peer answers a type of request as the function \<open>f\<close> of the abstract validator does.\<close>

definition answers ::
  "('p \<Rightarrow> Message_MessageType \<Rightarrow> bytes \<Rightarrow> (Message_MessageType \<times> bytes \<times> 'p) option) \<Rightarrow> ('p \<Rightarrow> chain) \<Rightarrow>
   'q codec \<Rightarrow> Message_MessageType \<Rightarrow> 'r codec \<Rightarrow> Message_MessageType \<Rightarrow> ('q \<Rightarrow> chain \<Rightarrow> 'r \<times> chain) \<Rightarrow> bool" where
  "answers react st cq tq cr tr f \<longleftrightarrow> (\<forall>q. codec_ok cq q) \<and> (\<forall>r. codec_ok cr r) \<and>
    (\<forall>p q. \<exists>p'. react p tq (fst (Marshal cq q)) = Some (tr, fst (Marshal cr (fst (f q (st p)))), p') \<and>
       st p' = snd (f q (st p)))"

definition serves_consensus ::
  "cons_pb \<Rightarrow> ('p \<Rightarrow> chain) \<Rightarrow> ('p \<Rightarrow> Message_MessageType \<Rightarrow> bytes \<Rightarrow> (Message_MessageType \<times> bytes \<times> 'p) option) \<Rightarrow> bool" where
  "serves_consensus pb st react \<longleftrightarrow>
    answers react st (cpSendToRequest pb) Message_CONSENSUS_SEND_TO_REQUEST
      (cpSendToResponse pb) Message_CONSENSUS_SEND_TO_RESPONSE v_SendTo \<and>
    answers react st (cpBroadcastRequest pb) Message_CONSENSUS_BROADCAST_REQUEST
      (cpBroadcastResponse pb) Message_CONSENSUS_BROADCAST_RESPONSE v_Broadcast \<and>
    answers react st (cpInitializeBlockRequest pb) Message_CONSENSUS_INITIALIZE_BLOCK_REQUEST
      (cpInitializeBlockResponse pb) Message_CONSENSUS_INITIALIZE_BLOCK_RESPONSE v_InitializeBlock \<and>
    answers react st (cpSummarizeBlockRequest pb) Message_CONSENSUS_SUMMARIZE_BLOCK_REQUEST
      (cpSummarizeBlockResponse pb) Message_CONSENSUS_SUMMARIZE_BLOCK_RESPONSE v_SummarizeBlock \<and>
    answers react st (cpFinalizeBlockRequest pb) Message_CONSENSUS_FINALIZE_BLOCK_REQUEST
      (cpFinalizeBlockResponse pb) Message_CONSENSUS_FINALIZE_BLOCK_RESPONSE v_FinalizeBlock \<and>
    answers react st (cpCancelBlockRequest pb) Message_CONSENSUS_CANCEL_BLOCK_REQUEST
      (cpCancelBlockResponse pb) Message_CONSENSUS_CANCEL_BLOCK_RESPONSE v_CancelBlock \<and>
    answers react st (cpCheckBlocksRequest pb) Message_CONSENSUS_CHECK_BLOCKS_REQUEST
      (cpCheckBlocksResponse pb) Message_CONSENSUS_CHECK_BLOCKS_RESPONSE v_CheckBlocks \<and>
    answers react st (cpCommitBlockRequest pb) Message_CONSENSUS_COMMIT_BLOCK_REQUEST
      (cpCommitBlockResponse pb) Message_CONSENSUS_COMMIT_BLOCK_RESPONSE v_CommitBlock \<and>
    answers react st (cpIgnoreBlockRequest pb) Message_CONSENSUS_IGNORE_BLOCK_REQUEST
      (cpIgnoreBlockResponse pb) Message_CONSENSUS_IGNORE_BLOCK_RESPONSE v_IgnoreBlock \<and>
    answers react st (cpFailBlockRequest pb) Message_CONSENSUS_FAIL_BLOCK_REQUEST
      (cpFailBlockResponse pb) Message_CONSENSUS_FAIL_BLOCK_RESPONSE v_FailBlock \<and>
    answers react st (cpBlocksGetRequest pb) Message_CONSENSUS_BLOCKS_GET_REQUEST
      (cpBlocksGetResponse pb) Message_CONSENSUS_BLOCKS_GET_RESPONSE v_BlocksGet \<and>
    answers react st (cpChainHeadGetRequest pb) Message_CONSENSUS_CHAIN_HEAD_GET_REQUEST
      (cpChainHeadGetResponse pb) Message_CONSENSUS_CHAIN_HEAD_GET_RESPONSE v_ChainHeadGet \<and>
    answers react st (cpSettingsGetRequest pb) Message_CONSENSUS_SETTINGS_GET_REQUEST
      (cpSettingsGetResponse pb) Message_CONSENSUS_SETTINGS_GET_RESPONSE v_SettingsGet"

definition service_view :: "('p \<Rightarrow> chain) \<Rightarrow> 'p ZmqConnection ZmqService \<Rightarrow> chain" where
  "service_view st self = st (peer (the (sv_connection self)))"

definition service_ready ::
  "cons_pb \<Rightarrow> ('p \<Rightarrow> chain) \<Rightarrow> ('p \<Rightarrow> Message_MessageType \<Rightarrow> bytes \<Rightarrow> (Message_MessageType \<times> bytes \<times> 'p) option) \<Rightarrow>
   'p ZmqConnection ZmqService \<Rightarrow> bool" where
  "service_ready pb st react self \<longleftrightarrow> (\<exists>c. sv_connection self = Some c \<and> zmq_ready (cpMessage pb) react c) \<and>
     serves_consensus pb st react \<and> chain_wf (service_view st self)"

lemma chain_wf_logged [simp]: "chain_wf (logged c ch) = chain_wf ch"
  by (simp add: chain_wf_def logged_def)

lemma chain_wf_building [simp]:
  "chain_wf (ch\<lparr>ch_building := x\<rparr>) = chain_wf ch" "chain_wf (ch\<lparr>ch_not_ready := n\<rparr>) = chain_wf ch"
  by (simp_all add: chain_wf_def)

lemma serviceRpc_performs:
  assumes ready: "service_ready pb st react self" and ans: "answers react st cq tq cr tr f"
    and wf: "chain_wf (snd (f q (service_view st self)))"
  shows "performs (service_ready pb st react) (service_view st)
    (serviceRpc (zmq_Connection (cpMessage pb)) cq q tq cr tr) self
    (Inr (fst (f q (service_view st self)))) (snd (f q (service_view st self)))"
proof -
  from ready obtain c where c: "sv_connection self = Some c" "zmq_ready (cpMessage pb) react c"
    and sv: "serves_consensus pb st react" by (auto simp: service_ready_def)
  let ?ch = "st (peer c)" and ?C = "zmq_Connection (cpMessage pb)"
  from ans obtain p' where p': "react (peer c) tq (fst (Marshal cq q)) = Some (tr, fst (Marshal cr (fst (f q ?ch))), p')"
    "st p' = snd (f q ?ch)" unfolding answers_def by blast
  define c' where "c' = c\<lparr>conn_uuid_next := Suc (conn_uuid_next c), conn_socket := (conn_socket c)\<lparr>sk_peer := p'\<rparr>\<rparr>"
  have reply: "zmq_reply react c tq (fst (Marshal cq q)) = Some (tr, fst (Marshal cr (fst (f q ?ch))), c')"
    by (simp add: zmq_reply_def p'(1) c'_def)
  from c(2) reply obtain corr s1 i where ex:
    "c_SendNewMsg ?C tq (fst (Marshal cq q)) c = (Ret (corr, None), s1)"
    "c_RecvMsgWithId ?C corr s1 = (Ret (i, Some \<lparr>Message_MessageType = tr, Message_CorrelationId = corr,
        Message_Content = fst (Marshal cr (fst (f q ?ch)))\<rparr>, None), c')"
    by (rule zmq.exchange_obtain)
  have ok: "codec_ok cq q" "codec_ok cr (fst (f q ?ch))" using ans by (simp_all add: answers_def)
  then obtain b where b: "Marshal cq q = (b, None)" by (auto elim: codec_okE)
  let ?self' = "self\<lparr>sv_connection := Some c', sv_corrIds := insert corr (sv_corrIds self) - {corr}\<rparr>"
  show ?thesis
  proof (rule performsI)
    show "serviceRpc ?C cq q tq cr tr self = (Ret (Inr (fst (f q (service_view st self)))), ?self')"
      using ex b c(1) ok
      by (simp add: serviceRpc_def rpc_send_def rpc_record_def rpc_receive_def rpc_forget_def on_connection_def service_view_def)
    show "service_ready pb st react ?self'" "service_view st ?self' = snd (f q (service_view st self))"
      using zmq.exchange_ready [OF c(2) reply] sv wf p'(2) by (simp_all add: service_ready_def service_view_def c(1) c'_def)
  qed
qed

lemma rpc_op_performs:
  assumes "service_ready pb st react self" "answers react st cq tq cr tr f"
    and "chain_wf (snd (f q (service_view st self)))"
    and "g (Inr (fst (f q (service_view st self)))) = x" "snd (f q (service_view st self)) = ch"
  shows "performs (service_ready pb st react) (service_view st)
    (bindP (serviceRpc (zmq_Connection (cpMessage pb)) cq q tq cr tr) (\<lambda>res. retP (g res))) self x ch"
  using serviceRpc_performs [OF assms(1-3)] by (rule performs_bindP) (simp add: assms(4,5))

lemmas zmq_service_defs = zmq_service_def ZmqService_SendTo_def ZmqService_Broadcast_def ZmqService_InitializeBlock_def
  ZmqService_SummarizeBlock_def ZmqService_FinalizeBlock_def ZmqService_CancelBlock_def ZmqService_CheckBlocks_def
  ZmqService_CommitBlock_def ZmqService_IgnoreBlock_def ZmqService_FailBlock_def ZmqService_GetBlocks_def
  ZmqService_GetChainHead_def ZmqService_GetSettings_def ZmqService_GetState_def

lemmas validator_defs = v_SendTo_def v_Broadcast_def v_InitializeBlock_def v_SummarizeBlock_def v_FinalizeBlock_def
  v_CancelBlock_def v_CheckBlocks_def v_CommitBlock_def v_IgnoreBlock_def v_FailBlock_def v_BlocksGet_def
  v_ChainHeadGet_def v_SettingsGet_def

lemma service_ready_wf: "service_ready pb st react self \<Longrightarrow> chain_wf (service_view st self)"
  by (simp add: service_ready_def)

lemma service_answers:
  assumes "service_ready pb st react self"
  shows "answers react st (cpSendToRequest pb) 802 (cpSendToResponse pb) 803 v_SendTo"
    "answers react st (cpBroadcastRequest pb) 804 (cpBroadcastResponse pb) 805 v_Broadcast"
    "answers react st (cpInitializeBlockRequest pb) 806 (cpInitializeBlockResponse pb) 807 v_InitializeBlock"
    "answers react st (cpSummarizeBlockRequest pb) 828 (cpSummarizeBlockResponse pb) 829 v_SummarizeBlock"
    "answers react st (cpFinalizeBlockRequest pb) 808 (cpFinalizeBlockResponse pb) 809 v_FinalizeBlock"
    "answers react st (cpCancelBlockRequest pb) 810 (cpCancelBlockResponse pb) 811 v_CancelBlock"
    "answers react st (cpCheckBlocksRequest pb) 812 (cpCheckBlocksResponse pb) 813 v_CheckBlocks"
    "answers react st (cpCommitBlockRequest pb) 814 (cpCommitBlockResponse pb) 815 v_CommitBlock"
    "answers react st (cpIgnoreBlockRequest pb) 816 (cpIgnoreBlockResponse pb) 817 v_IgnoreBlock"
    "answers react st (cpFailBlockRequest pb) 818 (cpFailBlockResponse pb) 819 v_FailBlock"
    "answers react st (cpBlocksGetRequest pb) 824 (cpBlocksGetResponse pb) 825 v_BlocksGet"
    "answers react st (cpChainHeadGetRequest pb) 826 (cpChainHeadGetResponse pb) 827 v_ChainHeadGet"
    "answers react st (cpSettingsGetRequest pb) 820 (cpSettingsGetResponse pb) 821 v_SettingsGet"
  using assms by (simp_all add: service_ready_def serves_consensus_def)

lemma entries_map_single [simp]: "entries_map k v [e] = [k e \<mapsto> v e]"
  by (simp add: entries_map_def)

lemma map_AsBytes [simp]: "map BlockId_AsBytes is = is"
  by (induction "is") simp_all

lemma chain_wf_block:
  "chain_wf ch \<Longrightarrow> ch_blocks ch i = Some b \<Longrightarrow> block_BlockId b = i \<and> block_wf b \<and> normal_id i"
  by (auto simp: chain_wf_def block_wf_def)

lemma chain_wf_head: "chain_wf ch \<Longrightarrow> block_wf (ch_head ch) \<and> normal_id (ch_next ch)"
  by (simp add: chain_wf_def)

lemma GetSettings_performs:
  assumes "service_ready pb st react s"
  shows "\<exists>res err. performs (service_ready pb st react) (service_view st)
      (cs_GetSettings (zmq_service pb (zmq_Connection (cpMessage pb))) i ks) s (res, err) (service_view st s) \<and>
    (err \<noteq> None \<longrightarrow> res = Map.empty)"
proof -
  let ?check = "\<lambda>response. let status = ConsensusSettingsGetResponse_Status response in
           if status = ConsensusSettingsGetResponse_UNKNOWN_BLOCK then Some (UnknownBlockError ''Block not found'')
           else if status \<noteq> ConsensusSettingsGetResponse_OK then Some (failed_with ConsensusSettingsGetResponse_Status_name status)
           else None"
  let ?q = "\<lparr>ConsensusSettingsGetRequest_BlockId = BlockId_AsBytes i, ConsensusSettingsGetRequest_Keys = ks\<rparr>"
  let ?x = "rpc_value Map.empty (Inr (fst (v_SettingsGet ?q (service_view st s)))) ?check
    (\<lambda>response. entries_map ConsensusSettingsEntry_Key ConsensusSettingsEntry_Value (ConsensusSettingsGetResponse_Entries response))"
  have "performs (service_ready pb st react) (service_view st)
      (cs_GetSettings (zmq_service pb (zmq_Connection (cpMessage pb))) i ks) s ?x (service_view st s)"
    unfolding zmq_service_defs ConsensusService.simps
    by (rule rpc_op_performs [OF assms service_answers(13) [OF assms]])
      (use service_ready_wf [OF assms] in \<open>simp_all add: v_SettingsGet_def\<close>)
  moreover have "snd ?x \<noteq> None \<longrightarrow> fst ?x = Map.empty"
    by (simp add: rpc_value_def split: option.split)
  ultimately show ?thesis by (intro exI [of _ "fst ?x"] exI [of _ "snd ?x"] conjI) simp_all
qed

interpretation zmq_validator: consensus_contract "zmq_service pb (zmq_Connection (cpMessage pb))"
    "service_ready pb st react" "service_view st"
  for pb st react
  by (unfold_locales; (rule GetSettings_performs service_ready_wf, assumption)?;
      (unfold zmq_service_defs ConsensusService.simps)?;
      (rule rpc_op_performs, assumption, rule service_answers, assumption;
       (frule service_ready_wf; auto simp: validator_defs rpc_value_def Let_def dest: chain_wf_block chain_wf_head)))

end
