(* ===== verification/Devmode_Correct.thy ===== *)
theory Devmode_Correct
  imports Devmode Consensus_Contract
begin

text \<open>
  Correctness of the devmode engine against the contract of the consensus service: the fork choice
  of HandleBlockValid is a comparison with the block of the same number on the current chain, the
  loops end, and over any sequence of events the engine publishes at most one block per height.
\<close>

section \<open>The wrapper over a service that keeps the contract\<close>

lemma performs_on_service:
  "performs I view m (ds_service d) x ch \<Longrightarrow> performs (I \<circ> ds_service) (view \<circ> ds_service) (on_service m) d x ch"
  by (auto simp: performs_def on_service_def)

lemma performs_on_engine:
  "performs I view m (de_service self) x ch \<Longrightarrow> performs (I \<circ> de_service) (view \<circ> de_service) (on_engine m) self x ch"
  by (auto simp: performs_def on_engine_def)

lemma performs_or_panic:
  "performs I view m (ds_service d) None ch \<Longrightarrow> performs (I \<circ> ds_service) (view \<circ> ds_service) (or_panic e m) d () ch"
  unfolding or_panic_def by (rule performs_bindP, erule performs_on_service) simp

lemma or_panic_fails:
  assumes "performs I view m (ds_service d) (Some err) ch"
  obtains d' where "or_panic e m d = (Panic e, d')" "I (ds_service d')" "view (ds_service d') = ch"
  using assms by (auto simp: performs_def or_panic_def on_service_def bindP_def)

lemma performs_elim:
  assumes "performs I view m s x ch"
  obtains s' where "m s = (Ret x, s')" "I s'" "view s' = ch"
  using assms by (auto simp: performs_def)

section \<open>Fork choice\<close>

text \<open>The block \<open>k\<close> steps below a block.\<close>

fun ancestor :: "(BlockId \<rightharpoonup> block) \<Rightarrow> nat \<Rightarrow> block \<Rightarrow> block option" where
  "ancestor B 0 b = Some b"
| "ancestor B (Suc k) b = (case B (block_PreviousId b) of None \<Rightarrow> None | Some p \<Rightarrow> ancestor B k p)"

text \<open>Every known block but one with number zero has a known parent whose number is one less.\<close>

definition chain_linked :: "chain \<Rightarrow> bool" where
  "chain_linked ch \<longleftrightarrow> ch_blocks ch (block_BlockId (ch_head ch)) = Some (ch_head ch) \<and>
     (\<forall>i b. ch_blocks ch i = Some b \<longrightarrow> block_BlockNum b \<noteq> 0 \<longrightarrow>
        (\<exists>p. ch_blocks ch (block_PreviousId b) = Some p \<and> unat (block_BlockNum b) = Suc (unat (block_BlockNum p))))"

text \<open>
  The rule of the engine: a longer chain wins; otherwise the block is compared with the block of
  the same number on the current chain, and the greater identifier wins.
\<close>

definition prefers :: "chain \<Rightarrow> block \<Rightarrow> bool" where
  "prefers ch b \<longleftrightarrow> block_BlockNum (ch_head ch) < block_BlockNum b \<or>
     (block_BlockNum b \<le> block_BlockNum (ch_head ch) \<and>
      (\<exists>c. ancestor (ch_blocks ch) (unat (block_BlockNum (ch_head ch)) - unat (block_BlockNum b)) (ch_head ch) = Some c \<and>
         block_BlockId c < block_BlockId b))"

lemma linked_parent:
  assumes "chain_linked ch" "ch_blocks ch i = Some b" "unat (block_BlockNum b) = Suc k"
  obtains p where "ch_blocks ch (block_PreviousId b) = Some p" "unat (block_BlockNum p) = k"
proof -
  have "block_BlockNum b \<noteq> 0" using assms(3) by auto
  with assms obtain p where "ch_blocks ch (block_PreviousId b) = Some p" "unat (block_BlockNum b) = Suc (unat (block_BlockNum p))"
    unfolding chain_linked_def by blast
  with assms(3) show thesis by (intro that) simp_all
qed

lemma chain_logged [simp]:
  "ch_blocks (logged c ch) = ch_blocks ch" "ch_head (logged c ch) = ch_head ch" "ch_peers (logged c ch) = ch_peers ch"
  "ch_building (logged c ch) = ch_building ch" "ch_not_ready (logged c ch) = ch_not_ready ch"
  "ch_summary (logged c ch) = ch_summary ch" "ch_next (logged c ch) = ch_next ch"
  "ch_log (logged c ch) = ch_log ch @ [c]"
  by (simp_all add: logged_def)

lemma chain_linked_logged [simp]: "chain_linked (logged c ch) = chain_linked ch"
  by (simp add: chain_linked_def)

lemma prefers_logged [simp]: "prefers (logged c ch) b = prefers ch b"
  by (simp add: prefers_def)

text \<open>The three ways in which the numbers of a block and of the chain head can compare.\<close>

lemma prefers_longer: "block_BlockNum (ch_head ch) < block_BlockNum b \<Longrightarrow> prefers ch b"
  by (simp add: prefers_def)

lemma prefers_same:
  "block_BlockNum b = block_BlockNum (ch_head ch) \<Longrightarrow> prefers ch b \<longleftrightarrow> block_BlockId (ch_head ch) < block_BlockId b"
  by (simp add: prefers_def)

lemma prefers_shorter:
  assumes "block_BlockNum b < block_BlockNum (ch_head ch)"
    and "ch_blocks ch (block_PreviousId (ch_head ch)) = Some p"
    and "unat (block_BlockNum (ch_head ch)) = Suc (k + unat (block_BlockNum b))"
    and "ancestor (ch_blocks ch) k p = Some c"
  shows "prefers ch b \<longleftrightarrow> block_BlockId c < block_BlockId b"
  using assms by (auto simp: prefers_def Suc_diff_le)

context consensus_contract
begin

lemma getBlock_performs:
  assumes "I (ds_service d)" "ch_blocks (view (ds_service d)) i = Some b"
  shows "performs (I \<circ> ds_service) (view \<circ> ds_service) (getBlock S i) d (Some b) (view (ds_service d))"
  unfolding getBlock_def by (rule performs_bindP, rule performs_on_service, rule GetBlocks [OF assms]) simp

lemma getChainHead_performs:
  assumes "I (ds_service d)"
  shows "performs (I \<circ> ds_service) (view \<circ> ds_service) (getChainHead S) d (Some (ch_head (view (ds_service d)))) (view (ds_service d))"
  unfolding getChainHead_def by (rule performs_bindP, rule performs_on_service, rule GetChainHead [OF assms]) simp

lemma chain_walk_finds:
  assumes "chain_linked (view (ds_service d))" "I (ds_service d)"
    and "ch_blocks (view (ds_service d)) i = Some p" "unat (block_BlockNum p) = k + unat num"
  shows "\<exists>c d'. ancestor (ch_blocks (view (ds_service d))) k p = Some c \<and> block_BlockNum c = num \<and>
    chain_walk S num i d = Some (Ret c, d') \<and> I (ds_service d') \<and> view (ds_service d') = view (ds_service d)"
  using assms
proof (induction k arbitrary: i p d)
  case 0
  then have "block_BlockNum p = num" by (simp add: word_unat_eq_iff)
  moreover obtain d' where "getBlock S i d = (Ret (Some p), d')" "I (ds_service d')" "view (ds_service d') = view (ds_service d)"
    using getBlock_performs [OF 0(2,3)] by (auto elim: performs_elim)
  ultimately show ?case by (subst chain_walk.simps) simp
next
  case (Suc k)
  then have num: "unat (block_BlockNum p) = Suc (k + unat num)" by simp
  then have ne: "block_BlockNum p \<noteq> num" by auto
  from Suc.prems(1,3) num obtain q where q: "ch_blocks (view (ds_service d)) (block_PreviousId p) = Some q"
    "unat (block_BlockNum q) = k + unat num" by (rule linked_parent)
  obtain d' where d': "getBlock S i d = (Ret (Some p), d')" "I (ds_service d')" "view (ds_service d') = view (ds_service d)"
    using getBlock_performs [OF Suc.prems(2,3)] by (auto elim: performs_elim)
  from Suc.IH [of d' "block_PreviousId p" q] Suc.prems(1) d' q obtain c d'' where
    "ancestor (ch_blocks (view (ds_service d))) k q = Some c" "block_BlockNum c = num"
    "chain_walk S num (block_PreviousId p) d' = Some (Ret c, d'')" "I (ds_service d'')"
    "view (ds_service d'') = view (ds_service d)" by auto
  with d'(1) ne q(1) show ?case by (subst chain_walk.simps) simp
qed

lemma commit_or_ignore:
  assumes "I (ds_service d)" "i \<in> dom (ch_blocks (view (ds_service d)))"
  shows "performs (I \<circ> ds_service) (view \<circ> ds_service) (if P then commitBlock S i else ignoreBlock S i) d ()
    (logged (if P then Committed i else Ignored i) (view (ds_service d)))"
  using performs_or_panic [OF CommitBlock [OF assms]] performs_or_panic [OF IgnoreBlock [OF assms]]
  by (simp add: commitBlock_def ignoreBlock_def)

text \<open>The decision, after the block has been fetched and its receipt reported.\<close>

lemma fork_choice:
  assumes "I (ds_service d)" "chain_linked (view (ds_service d))" "ch_blocks (view (ds_service d)) i = Some b"
    and "block_BlockNum b < block_BlockNum (ch_head (view (ds_service d)))"
  shows "\<exists>c d'. chain_walk S (block_BlockNum b) (block_PreviousId (ch_head (view (ds_service d)))) d = Some (Ret c, d') \<and>
    I (ds_service d') \<and> view (ds_service d') = view (ds_service d) \<and>
    (prefers (view (ds_service d)) b \<longleftrightarrow> block_BlockId c < block_BlockId b)"
proof -
  let ?ch = "view (ds_service d)"
  define k where "k = unat (block_BlockNum (ch_head ?ch)) - Suc (unat (block_BlockNum b))"
  have k: "unat (block_BlockNum (ch_head ?ch)) = Suc (k + unat (block_BlockNum b))"
    using assms(4) by (simp add: k_def word_less_nat_alt)
  have "ch_blocks ?ch (block_BlockId (ch_head ?ch)) = Some (ch_head ?ch)" using assms(2) by (simp add: chain_linked_def)
  from assms(2) this k obtain p where p: "ch_blocks ?ch (block_PreviousId (ch_head ?ch)) = Some p"
    "unat (block_BlockNum p) = k + unat (block_BlockNum b)" by (rule linked_parent)
  from chain_walk_finds [OF assms(2,1) p] obtain c d' where
    "ancestor (ch_blocks ?ch) k p = Some c" "chain_walk S (block_BlockNum b) (block_PreviousId (ch_head ?ch)) d = Some (Ret c, d')"
    "I (ds_service d')" "view (ds_service d') = ?ch" by blast
  with prefers_shorter [OF assms(4) p(1) k] show ?thesis by blast
qed

lemma choose_head_performs:
  assumes "I (ds_service d)" "chain_linked (view (ds_service d))" "ch_blocks (view (ds_service d)) i = Some b"
  shows "performs (I \<circ> ds_service) (view \<circ> ds_service) (choose_head S i b (ch_head (view (ds_service d)))) d ()
    (logged (if prefers (view (ds_service d)) b then Committed i else Ignored i) (view (ds_service d)))"
proof -
  let ?ch = "view (ds_service d)"
  have decided: "performs (I \<circ> ds_service) (view \<circ> ds_service)
      (if P then commitBlock S i else ignoreBlock S i) d' () (logged (if P then Committed i else Ignored i) ?ch)"
    if "I (ds_service d')" "view (ds_service d') = ?ch" for d' P
    using commit_or_ignore [OF that(1), of i P] that(2) assms(3) by (simp add: domI)
  consider "block_BlockNum (ch_head ?ch) < block_BlockNum b" | "block_BlockNum b = block_BlockNum (ch_head ?ch)"
    | "block_BlockNum b < block_BlockNum (ch_head ?ch)" by (rule linorder_cases)
  then show ?thesis
  proof cases
    case 1
    with decided [OF assms(1), of True] prefers_longer [OF 1] show ?thesis by (simp add: choose_head_def)
  next
    case 2
    with decided [OF assms(1), of "prefers ?ch b"] prefers_same [OF 2] show ?thesis
      by (simp add: choose_head_def bytes_Compare_pos cong: if_cong)
  next
    case 3
    from fork_choice [OF assms 3] obtain c d' where c:
      "chain_walk S (block_BlockNum b) (block_PreviousId (ch_head ?ch)) d = Some (Ret c, d')"
      "I (ds_service d')" "view (ds_service d') = ?ch" "prefers ?ch b \<longleftrightarrow> block_BlockId c < block_BlockId b" by blast
    from decided [OF c(2,3), of "prefers ?ch b"] 3 c(1,4) show ?thesis
      by (auto simp: choose_head_def performs_def bytes_Compare_pos Let_def)
  qed
qed

lemma HandleBlockValid_performs:
  assumes "I (ds_service d)" "chain_linked (view (ds_service d))" "ch_blocks (view (ds_service d)) i = Some b"
    and "block_SignerId b \<in> ch_peers (view (ds_service d))"
  shows "performs (I \<circ> ds_service) (view \<circ> ds_service) (HandleBlockValid S i) d ()
    (logged (if prefers (view (ds_service d)) b then Committed i else Ignored i)
      (logged (SentTo (block_SignerId b) ''received'' i) (view (ds_service d))))"
proof -
  let ?ch = "view (ds_service d)" let ?ch1 = "logged (SentTo (block_SignerId b) ''received'' i) ?ch"
  have bid: "block_BlockId b = i" using known [OF assms(1)] assms(3) by (auto simp: chain_wf_def)
  obtain d1 where 1: "getBlock S i d = (Ret (Some b), d1)" "I (ds_service d1)" "view (ds_service d1) = ?ch"
    using getBlock_performs [OF assms(1,3)] by (auto elim: performs_elim)
  have "performs (I \<circ> ds_service) (view \<circ> ds_service) (sendBlockReceived S (Some b)) d1 () ?ch1"
    using performs_or_panic [OF SendTo [OF 1(2)]] 1(3) assms(4) bid by (simp add: sendBlockReceived_def)
  then obtain d2 where 2: "sendBlockReceived S (Some b) d1 = (Ret (), d2)" "I (ds_service d2)" "view (ds_service d2) = ?ch1"
    by (auto elim: performs_elim)
  obtain d3 where 3: "getChainHead S d2 = (Ret (Some (ch_head ?ch)), d3)" "I (ds_service d3)" "view (ds_service d3) = ?ch1"
    using getChainHead_performs [OF 2(2)] 2(3) by (auto elim: performs_elim)
  from choose_head_performs [OF 3(2), of i b] 3(3) assms(2,3) show ?thesis
    by (simp add: HandleBlockValid_def performs_def 1(1) 2(1) 3(1))
qed

text \<open>A block that the validator does not know, or whose signer is not connected, ends the engine.\<close>

lemma HandleBlockValid_unknown:
  assumes "I (ds_service d)" "ch_blocks (view (ds_service d)) i = None"
  shows "\<exists>d'. HandleBlockValid S i d = (Panic ''Failed to get block'', d') \<and> I (ds_service d') \<and> view (ds_service d') = view (ds_service d)"
  using performs_on_service [OF GetBlocks_unknown [OF assms]]
  by (auto simp: HandleBlockValid_def getBlock_def bindP_def elim!: performs_elim)

lemma HandleBlockValid_no_peer:
  assumes "I (ds_service d)" "ch_blocks (view (ds_service d)) i = Some b" "block_SignerId b \<notin> ch_peers (view (ds_service d))"
  shows "\<exists>d'. HandleBlockValid S i d = (Panic ''Failed to send block received'', d') \<and> I (ds_service d') \<and>
    view (ds_service d') = view (ds_service d)"
proof -
  obtain d1 where 1: "getBlock S i d = (Ret (Some b), d1)" "I (ds_service d1)" "view (ds_service d1) = view (ds_service d)"
    using getBlock_performs [OF assms(1,2)] by (auto elim: performs_elim)
  with assms(3) have "block_SignerId b \<notin> ch_peers (view (ds_service d1))" by simp
  from SendTo_unknown [OF 1(2) this] obtain d2 where
    "sendBlockReceived S (Some b) d1 = (Panic ''Failed to send block received'', d2)" "I (ds_service d2)" "view (ds_service d2) = view (ds_service d1)"
    unfolding sendBlockReceived_def option.case by (rule or_panic_fails)
  with 1 show ?thesis by (simp add: HandleBlockValid_def bindP_def)
qed

end

section \<open>The other handlers\<close>

lemma retry_done [simp]: "retry mark call (x, None) d = Some (Ret (x, None), d)"
  by (simp add: retry.simps)

lemma retrying_done: "call d = (Ret (x, None), d') \<Longrightarrow> retrying mark call d = (Ret (x, None), d')"
  by (simp add: retrying_def)

lemma setting_value_empty [simp]: "setting_value Map.empty k = 0"
  by (simp add: setting_value_def Atoi_def)

context consensus_contract
begin

lemma calculateWaitTime_performs:
  assumes "I (ds_service d)"
  shows "performs (I \<circ> ds_service) (view \<circ> ds_service) (calculateWaitTime S rnd i) d 0 (view (ds_service d))"
proof -
  from GetSettings [OF assms] obtain res err where g: "performs I view (cs_GetSettings S i
      [''sawtooth.consensus.min_wait_time'', ''sawtooth.consensus.max_wait_time'']) (ds_service d) (res, err) (view (ds_service d))"
    "err \<noteq> None \<longrightarrow> res = Map.empty" by blast
  show ?thesis
    unfolding calculateWaitTime_def
    by (rule performs_bindP, rule performs_on_service, rule g(1)) (use g(2) in \<open>auto simp: performs_def split: option.split\<close>)
qed

lemma initializeBlock_performs:
  assumes "I (ds_service d)" "\<not> ch_building (view (ds_service d))"
  shows "performs (I \<circ> ds_service) (view \<circ> ds_service) (initializeBlock S) d ()
    (logged (Initialized BLOCK_ID_NULL) ((view (ds_service d))\<lparr>ch_building := True\<rparr>))"
  unfolding initializeBlock_def by (rule performs_or_panic, rule InitializeBlock [OF assms])

lemma cancelBlock_performs:
  assumes "I (ds_service d)"
  shows "\<exists>d'. cancelBlock S d = (Ret (), d') \<and> I (ds_service d') \<and> \<not> ch_building (view (ds_service d')) \<and>
    ch_log (view (ds_service d')) = ch_log (view (ds_service d)) @ (if ch_building (view (ds_service d)) then [Cancelled] else []) \<and>
    view (ds_service d') = (view (ds_service d))\<lparr>ch_building := False, ch_log := ch_log (view (ds_service d'))\<rparr>"
proof (cases "ch_building (view (ds_service d))")
  case True
  from performs_on_service [OF CancelBlock [OF assms True]] show ?thesis
    using True by (auto simp: cancelBlock_def bindP_def logged_def elim!: performs_elim)
next
  case False
  from performs_on_service [OF CancelBlock_idle [OF assms False]] show ?thesis
    using False by (cases "view (ds_service d)")
      (auto simp: cancelBlock_def bindP_def IsInvalidStateError_def elim!: performs_elim)
qed

lemma HandleBlockNew_performs:
  assumes "I (ds_service d)" "block_PreviousId b \<noteq> BLOCK_ID_NULL \<longrightarrow> block_BlockId b \<in> dom (ch_blocks (view (ds_service d)))"
  shows "performs (I \<circ> ds_service) (view \<circ> ds_service) (HandleBlockNew S b) d ()
    (if block_PreviousId b = BLOCK_ID_NULL then view (ds_service d)
     else logged (if checkConsensus b then Checked [block_BlockId b] else FailedBlock (block_BlockId b)) (view (ds_service d)))"
  using assms performs_or_panic [OF CheckBlocks [of "ds_service d" "[block_BlockId b]"]]
    performs_or_panic [OF FailBlock [of "ds_service d" "block_BlockId b"]]
  by (simp add: HandleBlockNew_def checkBlock_def failBlock_def)

lemma HandlePeerMessage_performs:
  assumes "I (ds_service d)" "header_MessageType (message_Header m) \<in> {''published'', ''received'', ''ack''}"
    and "header_MessageType (message_Header m) = ''received'' \<longrightarrow> sender \<in> ch_peers (view (ds_service d))"
  shows "performs (I \<circ> ds_service) (view \<circ> ds_service) (HandlePeerMessage S m sender) d ()
    (if header_MessageType (message_Header m) = ''received''
     then logged (SentTo sender ''ack'' (NewBlockIdFromBytes (message_Content m))) (view (ds_service d)) else view (ds_service d))"
  using assms performs_or_panic [OF SendTo [of "ds_service d" sender]]
  by (auto simp: HandlePeerMessage_def sendBlockAck_def)

lemma HandleBlockNew_unknown:
  assumes "I (ds_service d)" "block_PreviousId b \<noteq> BLOCK_ID_NULL" "block_BlockId b \<notin> dom (ch_blocks (view (ds_service d)))"
  shows "\<exists>e d'. HandleBlockNew S b d = (Panic e, d')"
proof -
  have "\<not> set [block_BlockId b] \<subseteq> dom (ch_blocks (view (ds_service d)))" using assms(3) by simp
  from CheckBlocks_unknown [OF assms(1) this] obtain d1 where "checkBlock S (block_BlockId b) d = (Panic ''Failed to check block'', d1)"
    unfolding checkBlock_def by (rule or_panic_fails)
  moreover from FailBlock_unknown [OF assms(1,3)] obtain d2 where "failBlock S (block_BlockId b) d = (Panic ''Failed to fail block'', d2)"
    unfolding failBlock_def by (rule or_panic_fails)
  ultimately show ?thesis using assms(2) by (auto simp: HandleBlockNew_def)
qed

lemma HandlePeerMessage_unknown:
  assumes "I (ds_service d)" "header_MessageType (message_Header m) \<notin> {''published'', ''received'', ''ack''} \<or>
    header_MessageType (message_Header m) = ''received'' \<and> sender \<notin> ch_peers (view (ds_service d))"
  shows "\<exists>e d'. HandlePeerMessage S m sender d = (Panic e, d')"
proof (cases "header_MessageType (message_Header m) = ''received''")
  case True
  with assms(2) have "sender \<notin> ch_peers (view (ds_service d))" by auto
  from SendTo_unknown [OF assms(1) this] obtain d1 where
    "sendBlockAck S sender (NewBlockIdFromBytes (message_Content m)) d = (Panic ''Failed to send block ack'', d1)"
    unfolding sendBlockAck_def by (rule or_panic_fails)
  with True show ?thesis by (simp add: HandlePeerMessage_def)
next
  case False
  with assms(2) show ?thesis by (simp add: HandlePeerMessage_def)
qed

text \<open>Summarizing waits until the block is ready; finalizing then succeeds at once.\<close>

lemma summarize_step:
  assumes "I (ds_service d)" "ch_building (view (ds_service d))"
  obtains n d' where "ch_not_ready (view (ds_service d)) = Suc n"
      "on_service (cs_SummarizeBlock S) d = (Ret ([], Some BlockNotReadyError), d')"
      "I (ds_service d')" "view (ds_service d') = (view (ds_service d))\<lparr>ch_not_ready := n\<rparr>"
  | d' where "ch_not_ready (view (ds_service d)) = 0"
      "on_service (cs_SummarizeBlock S) d = (Ret (ch_summary (view (ds_service d)), None), d')"
      "I (ds_service d')" "view (ds_service d') = view (ds_service d)"
proof (cases "ch_not_ready (view (ds_service d))")
  case 0
  from performs_on_service [OF SummarizeBlock [OF assms 0]] show thesis
    using 0 that(2) by (auto elim!: performs_elim)
next
  case (Suc n)
  from performs_on_service [OF SummarizeBlock_not_ready [OF assms Suc]] show thesis
    using Suc that(1) by (auto elim!: performs_elim)
qed

lemma retry_summarize:
  assumes "I (ds_service d)" "ch_building (view (ds_service d))" "\<And>x. ds_service (mark x) = ds_service x"
  shows "\<exists>d'. retry mark (on_service (cs_SummarizeBlock S)) ([], Some BlockNotReadyError) d =
      Some (Ret (ch_summary (view (ds_service d)), None), d') \<and> I (ds_service d') \<and>
    view (ds_service d') = (view (ds_service d))\<lparr>ch_not_ready := 0\<rparr>"
  using assms(1,2)
proof (induction "ch_not_ready (view (ds_service d))" arbitrary: d)
  case 0
  have m: "I (ds_service (mark d))" "ch_building (view (ds_service (mark d)))" using 0 assms(3) by simp_all
  from m show ?case
  proof (cases rule: summarize_step)
    case (2 d')
    then show ?thesis
      using 0 assms(3)
      by (subst retry.simps) (auto simp: IsBlockNotReadyError_def)
  qed (use 0 assms(3) in simp)
next
  case (Suc n)
  have m: "I (ds_service (mark d))" "ch_building (view (ds_service (mark d)))" using Suc.prems assms(3) by simp_all
  from m show ?case
  proof (cases rule: summarize_step)
    case (1 n' d')
    with Suc assms(3) have "n = ch_not_ready (view (ds_service d'))" "ch_building (view (ds_service d'))" by simp_all
    from Suc.hyps(1) [OF this(1) 1(3) this(2)] 1 assms(3) show ?thesis
      by (subst retry.simps) (auto simp: IsBlockNotReadyError_def)
  qed (use Suc.hyps(2) assms(3) in simp)
qed

lemma retrying_summarize:
  assumes "I (ds_service d)" "ch_building (view (ds_service d))" "\<And>x. ds_service (mark x) = ds_service x"
  shows "\<exists>d'. retrying mark (on_service (cs_SummarizeBlock S)) d = (Ret (ch_summary (view (ds_service d)), None), d') \<and>
    I (ds_service d') \<and> view (ds_service d') = (view (ds_service d))\<lparr>ch_not_ready := 0\<rparr>"
  using assms(1,2)
proof (cases rule: summarize_step)
  case (1 n d')
  from retry_summarize [OF 1(3) _ assms(3)] 1 assms(2) show ?thesis by (auto simp: retrying_def)
next
  case (2 d')
  then show ?thesis
    by (cases "view (ds_service d)") (auto simp: retrying_done)
qed

lemma finalizeBlock_performs:
  assumes "I (ds_service d)" "ch_building (view (ds_service d))"
  shows "performs (I \<circ> ds_service) (view \<circ> ds_service) (finalizeBlock S) d (ch_next (view (ds_service d)))
    (logged (Finalized (createConsensus (ch_summary (view (ds_service d)))))
      ((view (ds_service d))\<lparr>ch_not_ready := 0, ch_building := False\<rparr>))"
proof -
  let ?mark = "\<lambda>d. d\<lparr>ds_notReadyToSummarize := True\<rparr>"
  obtain d1 where 1: "retrying ?mark (on_service (cs_SummarizeBlock S)) d = (Ret (ch_summary (view (ds_service d)), None), d1)"
    "I (ds_service d1)" "view (ds_service d1) = (view (ds_service d))\<lparr>ch_not_ready := 0\<rparr>"
    using retrying_summarize [OF assms, of ?mark] by auto
  let ?d1 = "d1\<lparr>ds_notReadyToSummarize := False\<rparr>"
  have "performs I view (cs_FinalizeBlock S (createConsensus (ch_summary (view (ds_service d))))) (ds_service ?d1)
      (ch_next (view (ds_service d)), None) (logged (Finalized (createConsensus (ch_summary (view (ds_service d)))))
      ((view (ds_service d))\<lparr>ch_not_ready := 0, ch_building := False\<rparr>))"
    using FinalizeBlock [of "ds_service ?d1"] 1(2,3) assms(2) by simp
  from performs_on_service [OF this] show ?thesis
    unfolding performs_def finalizeBlock_def
    by (auto simp: 1(1) retrying_done)
qed

end

text \<open>Without a block in progress both calls of finalizeBlock fail, and both errors are dropped.\<close>

lemma retry_other_error [simp]:
  "\<not> IsBlockNotReadyError e \<Longrightarrow> retry mark call (x, Some e) d = Some (Ret (x, Some e), d)"
  by (simp add: retry.simps)

context consensus_contract
begin

lemma publish_idle:
  assumes "I (ds_service (de_service self))" "\<not> ch_building (view (ds_service (de_service self)))"
    and "\<not> de_publishedAtHeight self" "now - de_start self > de_waitTime self"
  shows "\<exists>self'. publish S now self = (Ret (), self') \<and> de_publishedAtHeight self' \<and> I (ds_service (de_service self')) \<and>
    view (ds_service (de_service self')) = logged (Broadcasted ''published'' BLOCK_ID_NULL) (view (ds_service (de_service self)))"
proof -
  let ?d = "de_service self" let ?ch = "view (ds_service ?d)"
  obtain d1 where 1: "on_service (cs_SummarizeBlock S) ?d =
      (Ret ([], Some (InvalidStateError ''Cannot summarize block in current state'')), d1)"
    "I (ds_service d1)" "view (ds_service d1) = ?ch"
    using performs_on_service [OF SummarizeBlock_idle [OF assms(1,2)]] by (auto elim: performs_elim)
  let ?d1 = "d1\<lparr>ds_notReadyToSummarize := False\<rparr>"
  have idle: "I (ds_service ?d1)" "\<not> ch_building (view (ds_service ?d1))" using 1 assms(2) by simp_all
  obtain d2 where 2: "on_service (cs_FinalizeBlock S (createConsensus [])) ?d1 =
      (Ret (BLOCK_ID_NULL, Some (InvalidStateError ''Cannot finalize block in current state'')), d2)"
    "I (ds_service d2)" "view (ds_service d2) = ?ch"
    using performs_on_service [OF FinalizeBlock_idle [OF idle, of "createConsensus []"]] 1(3) by (auto elim: performs_elim)
  let ?d2 = "d2\<lparr>ds_notReadyToFinalize := False\<rparr>"
  have fin: "finalizeBlock S ?d = (Ret BLOCK_ID_NULL, ?d2)"
    using 1(1) 2(1) by (simp add: finalizeBlock_def retrying_def IsBlockNotReadyError_def)
  have "I (ds_service ?d2)" using 2(2) by simp
  from performs_or_panic [OF Broadcast [OF this, of "''published''" "BLOCK_ID_NULL"], of "''Failed to broadcast published block''"]
  obtain d3 where 3: "broadcastPublishedBlock S BLOCK_ID_NULL ?d2 = (Ret (), d3)" "I (ds_service d3)"
    "view (ds_service d3) = logged (Broadcasted ''published'' BLOCK_ID_NULL) ?ch"
    using 2(3) by (auto simp: broadcastPublishedBlock_def elim: performs_elim)
  from assms(3,4) fin 3 show ?thesis by (simp add: publish_def on_engine_def bindP_def)
qed

end

section \<open>Runs of the engine\<close>

text \<open>How many blocks were started, finalized and announced.\<close>

definition started :: "command list \<Rightarrow> nat" where
  "started log = length (filter (\<lambda>c. case c of Initialized _ \<Rightarrow> True | _ \<Rightarrow> False) log)"

definition finalized :: "command list \<Rightarrow> nat" where
  "finalized log = length (filter (\<lambda>c. case c of Finalized _ \<Rightarrow> True | _ \<Rightarrow> False) log)"

definition announced :: "command list \<Rightarrow> nat" where
  "announced log = length (filter (\<lambda>c. case c of Broadcasted _ _ \<Rightarrow> True | _ \<Rightarrow> False) log)"

lemmas count_defs = started_def finalized_def announced_def

text \<open>
  The invariant.  \<open>free\<close> says whether the validator may abandon or start blocks by itself; if it does
  not, a block is being built exactly when none was published at this height.
\<close>

definition engine_inv :: "('s \<Rightarrow> bool) \<Rightarrow> ('s \<Rightarrow> chain) \<Rightarrow> bool \<Rightarrow> 's DevmodeEngineImpl \<Rightarrow> bool" where
  "engine_inv I view free self \<longleftrightarrow> (let s = ds_service (de_service self); log = ch_log (view s) in
     I s \<and> chain_linked (view s) \<and> finalized log \<le> announced log \<and>
     announced log + (if de_publishedAtHeight self then 0 else 1) \<le> started log \<and>
     (free \<or> ch_building (view s) = (\<not> de_publishedAtHeight self) \<and> announced log = finalized log))"

text \<open>
  An event that the engine can handle: a new block is known to the validator unless it is a genesis
  block, a valid block is known and its signer is connected, a peer message is of a kind of the
  protocol and one that asks for an answer comes from a connected peer.
\<close>

fun event_ok :: "chain \<Rightarrow> select_event \<Rightarrow> bool" where
  "event_ok ch (Update (UpdateBlockNew b)) =
    (block_PreviousId b \<noteq> BLOCK_ID_NULL \<longrightarrow> block_BlockId b \<in> dom (ch_blocks ch))"
| "event_ok ch (Update (UpdateBlockValid i)) =
    (case ch_blocks ch i of None \<Rightarrow> False | Some b \<Rightarrow> block_SignerId b \<in> ch_peers ch)"
| "event_ok ch (Update (UpdatePeerMessage m sender)) =
    (header_MessageType (message_Header m) \<in> {''published'', ''received'', ''ack''} \<and>
     (header_MessageType (message_Header m) = ''received'' \<longrightarrow> sender \<in> ch_peers ch))"
| "event_ok ch ev = True"

text \<open>
  The states an engine reaches: after its start, by handling events, and while the validator goes
  on by itself (new blocks, a new head, other peers and settings; with \<open>free\<close> also the block in
  progress).  The log is the history of the commands of this engine: nothing else adds to it.
\<close>

inductive engine_reach ::
  "'s ConsensusService \<Rightarrow> ('s \<Rightarrow> bool) \<Rightarrow> ('s \<Rightarrow> chain) \<Rightarrow> bool \<Rightarrow> 's DevmodeEngineImpl \<Rightarrow> bool" for S I view free where
  reach_start: "I s \<Longrightarrow> chain_linked (view s) \<Longrightarrow> \<not> ch_building (view s) \<Longrightarrow> ch_log (view s) = [] \<Longrightarrow>
    engine_begin S rnd startup s now = (Ret (), self) \<Longrightarrow> engine_reach S I view free self"
| reach_event: "engine_reach S I view free self \<Longrightarrow> engine_step S rnd now ev self = (Ret stop, self') \<Longrightarrow> engine_reach S I view free self'"
| reach_validator: "engine_reach S I view free self \<Longrightarrow> I s \<Longrightarrow> chain_linked (view s) \<Longrightarrow>
    ch_log (view s) = ch_log (view (ds_service (de_service self))) \<Longrightarrow>
    free \<or> ch_building (view s) = ch_building (view (ds_service (de_service self))) \<Longrightarrow>
    engine_reach S I view free (self\<lparr>de_service := (de_service self)\<lparr>ds_service := s\<rparr>\<rparr>)"

lemma chain_linked_update [simp]:
  "chain_linked (ch\<lparr>ch_building := x\<rparr>) = chain_linked ch" "chain_linked (ch\<lparr>ch_not_ready := n\<rparr>) = chain_linked ch"
  "chain_linked (ch\<lparr>ch_log := l\<rparr>) = chain_linked ch"
  by (simp_all add: chain_linked_def)

text \<open>A handler that only sends commands of other kinds keeps the invariant.\<close>

lemma engine_inv_quiet:
  assumes "engine_inv I view free self" "performs (I \<circ> ds_service) (view \<circ> ds_service) m (de_service self) () ch"
    and "ch_log ch = ch_log (view (ds_service (de_service self))) @ l"
    and "ch = (view (ds_service (de_service self)))\<lparr>ch_log := ch_log ch\<rparr>"
    and "started l = 0" "finalized l = 0" "announced l = 0"
  shows "\<exists>self'. bindP (on_engine m) (\<lambda>_. retP False) self = (Ret False, self') \<and> engine_inv I view free self'"
proof -
  from assms(2) obtain d where d: "m (de_service self) = (Ret (), d)" "I (ds_service d)" "view (ds_service d) = ch"
    by (auto elim: performs_elim)
  have "chain_linked ch = chain_linked (view (ds_service (de_service self)))"
    "ch_building ch = ch_building (view (ds_service (de_service self)))"
    by (subst assms(4), simp)+
  with assms(1,3,5-7) d show ?thesis
    by (auto simp: on_engine_def bindP_def engine_inv_def Let_def count_defs)
qed

context consensus_contract
begin

lemma commit_event_ok:
  assumes "engine_inv I view free self"
  shows "\<exists>self'. HandleBlockCommit S rnd now i self = (Ret (), self') \<and> engine_inv I view free self'"
proof -
  let ?d = "de_service self" let ?ch = "view (ds_service ?d)"
  have I: "I (ds_service ?d)" using assms by (simp add: engine_inv_def Let_def)
  from cancelBlock_performs [OF I] obtain d1 where 1: "cancelBlock S ?d = (Ret (), d1)" "I (ds_service d1)"
    "\<not> ch_building (view (ds_service d1))"
    "ch_log (view (ds_service d1)) = ch_log ?ch @ (if ch_building ?ch then [Cancelled] else [])"
    "view (ds_service d1) = ?ch\<lparr>ch_building := False, ch_log := ch_log (view (ds_service d1))\<rparr>" by blast
  obtain d2 where 2: "calculateWaitTime S rnd i d1 = (Ret 0, d2)" "I (ds_service d2)" "view (ds_service d2) = view (ds_service d1)"
    using calculateWaitTime_performs [OF 1(2), of rnd i] by (auto elim: performs_elim)
  obtain d3 where 3: "initializeBlock S d2 = (Ret (), d3)" "I (ds_service d3)"
    "view (ds_service d3) = logged (Initialized BLOCK_ID_NULL) ((view (ds_service d1))\<lparr>ch_building := True\<rparr>)"
    using initializeBlock_performs [OF 2(2)] 1(3) 2(3) by (auto elim: performs_elim)
  have "chain_linked (view (ds_service d1))" by (subst 1(5)) (use assms in \<open>simp add: engine_inv_def Let_def\<close>)
  with assms 1 2 3 show ?thesis
    by (auto simp: HandleBlockCommit_def on_engine_def bindP_def engine_inv_def Let_def count_defs)
qed

lemma timer_event_ok:
  assumes "engine_inv I view free self"
  shows "\<exists>self'. publish S now self = (Ret (), self') \<and> engine_inv I view free self'"
proof (cases "\<not> de_publishedAtHeight self \<and> now - de_start self > de_waitTime self")
  case True
  show ?thesis
  proof (cases "ch_building (view (ds_service (de_service self)))")
    case building: True
    let ?d = "de_service self" let ?ch = "view (ds_service ?d)"
    have I: "I (ds_service ?d)" "ch_building ?ch" using assms building by (simp_all add: engine_inv_def Let_def)
    let ?ch1 = "logged (Finalized (createConsensus (ch_summary ?ch))) (?ch\<lparr>ch_not_ready := 0, ch_building := False\<rparr>)"
    obtain d1 where 1: "finalizeBlock S ?d = (Ret (ch_next ?ch), d1)" "I (ds_service d1)" "view (ds_service d1) = ?ch1"
      using finalizeBlock_performs [OF I] by (auto elim: performs_elim)
    obtain d2 where 2: "broadcastPublishedBlock S (ch_next ?ch) d1 = (Ret (), d2)" "I (ds_service d2)"
      "view (ds_service d2) = logged (Broadcasted ''published'' (ch_next ?ch)) ?ch1"
      using performs_or_panic [OF Broadcast [OF 1(2), of "''published''" "ch_next ?ch"], of "''Failed to broadcast published block''"] 1(3)
      by (auto simp: broadcastPublishedBlock_def elim: performs_elim)
    from assms True 1 2 show ?thesis
      by (auto simp: publish_def on_engine_def bindP_def engine_inv_def Let_def count_defs)
  next
    case idle: False
    have I: "I (ds_service (de_service self))" and free: free using assms True idle by (auto simp: engine_inv_def Let_def)
    from publish_idle [OF I idle, of now] True obtain self' where
      "publish S now self = (Ret (), self')" "de_publishedAtHeight self'" "I (ds_service (de_service self'))"
      "view (ds_service (de_service self')) = logged (Broadcasted ''published'' BLOCK_ID_NULL) (view (ds_service (de_service self)))" by auto
    with assms True free show ?thesis by (auto simp: engine_inv_def Let_def count_defs)
  qed
qed (use assms in \<open>auto simp: publish_def\<close>)

lemma valid_event_ok:
  assumes "engine_inv I view free self" "ch_blocks (view (ds_service (de_service self))) i = Some b"
    and "block_SignerId b \<in> ch_peers (view (ds_service (de_service self)))"
  shows "\<exists>self'. bindP (on_engine (HandleBlockValid S i)) (\<lambda>_. retP False) self = (Ret False, self') \<and> engine_inv I view free self'"
proof -
  have inv: "I (ds_service (de_service self))" "chain_linked (view (ds_service (de_service self)))"
    using assms(1) by (simp_all add: engine_inv_def Let_def)
  show ?thesis
    by (rule engine_inv_quiet [OF assms(1) HandleBlockValid_performs [OF inv assms(2,3)], where
          l = "[SentTo (block_SignerId b) ''received'' i, if prefers (view (ds_service (de_service self))) b then Committed i else Ignored i]"])
      (simp_all add: count_defs logged_def)
qed

lemma new_event_ok:
  assumes "engine_inv I view free self"
    and "block_PreviousId b \<noteq> BLOCK_ID_NULL \<longrightarrow> block_BlockId b \<in> dom (ch_blocks (view (ds_service (de_service self))))"
  shows "\<exists>self'. bindP (on_engine (HandleBlockNew S b)) (\<lambda>_. retP False) self = (Ret False, self') \<and> engine_inv I view free self'"
proof -
  have inv: "I (ds_service (de_service self))" using assms(1) by (simp add: engine_inv_def Let_def)
  show ?thesis
    by (rule engine_inv_quiet [OF assms(1) HandleBlockNew_performs [OF inv assms(2)], where
          l = "if block_PreviousId b = [] then [] else [if checkConsensus b then Checked [block_BlockId b] else FailedBlock (block_BlockId b)]"])
      (simp_all add: count_defs logged_def)
qed

lemma message_event_ok:
  assumes "engine_inv I view free self" "header_MessageType (message_Header m) \<in> {''published'', ''received'', ''ack''}"
    and "header_MessageType (message_Header m) = ''received'' \<longrightarrow> sender \<in> ch_peers (view (ds_service (de_service self)))"
  shows "\<exists>self'. bindP (on_engine (HandlePeerMessage S m sender)) (\<lambda>_. retP False) self = (Ret False, self') \<and> engine_inv I view free self'"
proof -
  have inv: "I (ds_service (de_service self))" using assms(1) by (simp add: engine_inv_def Let_def)
  show ?thesis
    by (rule engine_inv_quiet [OF assms(1) HandlePeerMessage_performs [OF inv assms(2,3)], where
          l = "if header_MessageType (message_Header m) = ''received'' then [SentTo sender ''ack'' (NewBlockIdFromBytes (message_Content m))] else []"])
      (simp_all add: count_defs logged_def)
qed

text \<open>Every acceptable event is handled without a panic and without waiting for ever.\<close>

lemma engine_step_ok:
  assumes "engine_inv I view free self" "event_ok (view (ds_service (de_service self))) ev"
  shows "\<exists>self'. engine_step S rnd now ev self = (Ret (ev = Update UpdateShutdown), self') \<and> engine_inv I view free self'"
proof (cases ev)
  case (Update u)
  show ?thesis
  proof (cases u)
    case (UpdateBlockNew b)
    with Update new_event_ok [OF assms(1), of b] assms(2) show ?thesis by (simp add: engine_step_def Let_def)
  next
    case (UpdateBlockValid i)
    with Update assms(2) obtain b where "ch_blocks (view (ds_service (de_service self))) i = Some b"
      "block_SignerId b \<in> ch_peers (view (ds_service (de_service self)))" by (auto split: option.splits)
    from valid_event_ok [OF assms(1) this] Update UpdateBlockValid show ?thesis by (simp add: engine_step_def Let_def)
  next
    case (UpdateBlockCommit i)
    from commit_event_ok [OF assms(1), of rnd now i] Update UpdateBlockCommit show ?thesis
      by (auto simp: engine_step_def Let_def)
  next
    case (UpdatePeerMessage m sender)
    with Update message_event_ok [OF assms(1), of m sender] assms(2) show ?thesis by (simp add: engine_step_def Let_def)
  qed (use Update assms(1) in \<open>auto simp: engine_step_def Let_def\<close>)
next
  case Timer
  from timer_event_ok [OF assms(1), of now] Timer show ?thesis by (auto simp: engine_step_def Let_def)
qed (use assms(1) in \<open>auto simp: engine_step_def Let_def\<close>)

lemma engine_step_panics:
  assumes "engine_inv I view free self" "\<not> event_ok (view (ds_service (de_service self))) ev"
  shows "\<exists>e self'. engine_step S rnd now ev self = (Panic e, self')"
proof -
  have I: "I (ds_service (de_service self))" using assms(1) by (simp add: engine_inv_def Let_def)
  have panics: "\<exists>e self'. bindP (on_engine m) (\<lambda>_. retP False) self = (Panic e, self')" if "\<exists>e d. m (de_service self) = (Panic e, d)" for m
    using that by (auto simp: on_engine_def bindP_def)
  note panics [of "HandleBlockNew S b" for b, OF HandleBlockNew_unknown [OF I]]
    panics [of "HandlePeerMessage S m p" for m p, OF HandlePeerMessage_unknown [OF I]] panics [of "HandleBlockValid S i" for i]
  moreover have "\<exists>e d. HandleBlockValid S i (de_service self) = (Panic e, d)"
    if "\<not> event_ok (view (ds_service (de_service self))) (Update (UpdateBlockValid i))" for i
    using that HandleBlockValid_unknown [OF I, of i] HandleBlockValid_no_peer [OF I, of i] by (auto split: option.splits)
  ultimately show ?thesis
    using assms(2)
    by (cases "(view (ds_service (de_service self)), ev)" rule: event_ok.cases) (auto simp: engine_step_def Let_def)
qed

lemma engine_begin_ok:
  assumes "I s" "chain_linked (view s)" "\<not> ch_building (view s)" "ch_log (view s) = []"
  shows "\<exists>self. engine_begin S rnd startup s now = (Ret (), self) \<and> engine_inv I view free self"
proof -
  let ?d = "NewDevmodeService s"
  have s: "ds_service ?d = s" by (simp add: NewDevmodeService_def)
  obtain d1 where 1: "calculateWaitTime S rnd (block_BlockId (startup_ChainHead startup)) ?d = (Ret 0, d1)"
    "I (ds_service d1)" "view (ds_service d1) = view s"
    using calculateWaitTime_performs [of ?d rnd "block_BlockId (startup_ChainHead startup)"] assms(1) s by (auto elim: performs_elim)
  obtain d2 where 2: "initializeBlock S d1 = (Ret (), d2)" "I (ds_service d2)"
    "view (ds_service d2) = logged (Initialized BLOCK_ID_NULL) ((view s)\<lparr>ch_building := True\<rparr>)"
    using initializeBlock_performs [OF 1(2)] assms(3) 1(3) by (auto elim: performs_elim)
  from assms 1(1) 2 show ?thesis
    by (auto simp: engine_begin_def on_engine_def bindP_def engine_inv_def Let_def count_defs)
qed

lemma engine_reach_inv: "engine_reach S I view free self \<Longrightarrow> engine_inv I view free self"
proof (induction rule: engine_reach.induct)
  case (reach_start s rnd startup now self)
  then show ?case using engine_begin_ok [of s rnd startup now] by auto
next
  case (reach_event self rnd now ev stop self')
  have "event_ok (view (ds_service (de_service self))) ev"
    using engine_step_panics [OF reach_event.IH, of ev rnd now] reach_event.hyps(2) by auto
  from engine_step_ok [OF reach_event.IH this, of rnd now] reach_event.hyps(2) show ?case by auto
next
  case (reach_validator self s)
  then show ?case by (auto simp: engine_inv_def Let_def)
qed

end

end
