(* ===== verification/Devmode_System.thy ===== *)
theory Devmode_System
  imports Devmode_Correct
begin

text \<open>
  The devmode engine end to end: over a ZmqService whose connection reaches a validator.  A concrete
  validator shows that the conditions can hold; the properties follow from the contract of the
  service, which ZmqService keeps.
\<close>

section \<open>A concrete validator\<close>

definition handle ::
  "'q codec \<Rightarrow> ('q \<Rightarrow> chain \<Rightarrow> 'r \<times> chain) \<Rightarrow> 'r codec \<Rightarrow> Message_MessageType \<Rightarrow> bytes \<Rightarrow> chain \<Rightarrow>
   (Message_MessageType \<times> bytes \<times> chain) option" where
  "handle cq f cr t b ch = (case f (fst (Unmarshal cq b)) ch of (r, ch') \<Rightarrow> Some (t, fst (Marshal cr r), ch'))"

definition cons_react :: "cons_pb \<Rightarrow> chain \<Rightarrow> Message_MessageType \<Rightarrow> bytes \<Rightarrow> (Message_MessageType \<times> bytes \<times> chain) option" where
  "cons_react pb ch t b =
    (if t = Message_CONSENSUS_SEND_TO_REQUEST then handle (cpSendToRequest pb) v_SendTo (cpSendToResponse pb) Message_CONSENSUS_SEND_TO_RESPONSE b ch
     else if t = Message_CONSENSUS_BROADCAST_REQUEST then handle (cpBroadcastRequest pb) v_Broadcast (cpBroadcastResponse pb) Message_CONSENSUS_BROADCAST_RESPONSE b ch
     else if t = Message_CONSENSUS_INITIALIZE_BLOCK_REQUEST then handle (cpInitializeBlockRequest pb) v_InitializeBlock (cpInitializeBlockResponse pb) Message_CONSENSUS_INITIALIZE_BLOCK_RESPONSE b ch
     else if t = Message_CONSENSUS_SUMMARIZE_BLOCK_REQUEST then handle (cpSummarizeBlockRequest pb) v_SummarizeBlock (cpSummarizeBlockResponse pb) Message_CONSENSUS_SUMMARIZE_BLOCK_RESPONSE b ch
     else if t = Message_CONSENSUS_FINALIZE_BLOCK_REQUEST then handle (cpFinalizeBlockRequest pb) v_FinalizeBlock (cpFinalizeBlockResponse pb) Message_CONSENSUS_FINALIZE_BLOCK_RESPONSE b ch
     else if t = Message_CONSENSUS_CANCEL_BLOCK_REQUEST then handle (cpCancelBlockRequest pb) v_CancelBlock (cpCancelBlockResponse pb) Message_CONSENSUS_CANCEL_BLOCK_RESPONSE b ch
     else if t = Message_CONSENSUS_CHECK_BLOCKS_REQUEST then handle (cpCheckBlocksRequest pb) v_CheckBlocks (cpCheckBlocksResponse pb) Message_CONSENSUS_CHECK_BLOCKS_RESPONSE b ch
     else if t = Message_CONSENSUS_COMMIT_BLOCK_REQUEST then handle (cpCommitBlockRequest pb) v_CommitBlock (cpCommitBlockResponse pb) Message_CONSENSUS_COMMIT_BLOCK_RESPONSE b ch
     else if t = Message_CONSENSUS_IGNORE_BLOCK_REQUEST then handle (cpIgnoreBlockRequest pb) v_IgnoreBlock (cpIgnoreBlockResponse pb) Message_CONSENSUS_IGNORE_BLOCK_RESPONSE b ch
     else if t = Message_CONSENSUS_FAIL_BLOCK_REQUEST then handle (cpFailBlockRequest pb) v_FailBlock (cpFailBlockResponse pb) Message_CONSENSUS_FAIL_BLOCK_RESPONSE b ch
     else if t = Message_CONSENSUS_BLOCKS_GET_REQUEST then handle (cpBlocksGetRequest pb) v_BlocksGet (cpBlocksGetResponse pb) Message_CONSENSUS_BLOCKS_GET_RESPONSE b ch
     else if t = Message_CONSENSUS_CHAIN_HEAD_GET_REQUEST then handle (cpChainHeadGetRequest pb) v_ChainHeadGet (cpChainHeadGetResponse pb) Message_CONSENSUS_CHAIN_HEAD_GET_RESPONSE b ch
     else if t = Message_CONSENSUS_SETTINGS_GET_REQUEST then handle (cpSettingsGetRequest pb) v_SettingsGet (cpSettingsGetResponse pb) Message_CONSENSUS_SETTINGS_GET_RESPONSE b ch
     else None)"

lemma cons_react_serves: "serves_consensus unary_cons_pb (\<lambda>ch. ch) (cons_react unary_cons_pb)"
  by (simp add: serves_consensus_def answers_def cons_react_def handle_def split: prod.split)

text \<open>A chain of three blocks with a fork at number one.\<close>

definition demo_block :: "BlockId \<Rightarrow> BlockId \<Rightarrow> nat \<Rightarrow> block" where
  "demo_block i p n = \<lparr>block_BlockId = i, block_PreviousId = p, block_SignerId = ''peer'', block_BlockNum = of_nat n,
     block_Payload = ''Devmode'', block_Summary = []\<rparr>"

definition demo_chain :: chain where
  "demo_chain = \<lparr>ch_blocks = [''g'' \<mapsto> demo_block ''g'' [] 0, ''a'' \<mapsto> demo_block ''a'' ''g'' 1, ''b'' \<mapsto> demo_block ''b'' ''g'' 1,
       ''h'' \<mapsto> demo_block ''h'' ''a'' 2],
     ch_head = demo_block ''h'' ''a'' 2, ch_peers = {''peer''},
     ch_settings = [(''sawtooth.consensus.min_wait_time'', ''3''), (''sawtooth.consensus.max_wait_time'', ''9'')],
     ch_building = False, ch_not_ready = 2, ch_summary = ''sum'', ch_next = ''n'', ch_log = []\<rparr>"

definition demo_service :: "chain \<Rightarrow> chain ZmqConnection ZmqService" where
  "demo_service ch = \<lparr>sv_uri = ''inproc://service'', sv_connection = Some \<lparr>conn_identity = ''engine'', conn_uri = ''inproc://service'',
     conn_socket = \<lparr>sk_peer = ch, sk_deliver = answering (cpMessage unary_cons_pb) (cons_react unary_cons_pb),
       sk_inbox = [], sk_closed = False, sk_closed_error = ErrorString ''Socket is closed''\<rparr>,
     conn_incoming = [], conn_uuid = nat_digits, conn_uuid_next = 0\<rparr>, sv_corrIds = {}\<rparr>"

lemma demo_chain_wf [simp]: "chain_wf demo_chain"
  by (auto simp: chain_wf_def demo_chain_def demo_block_def block_wf_def normal_id_def isSliceOfZeroes_def)

lemma demo_chain_linked [simp]: "chain_linked demo_chain"
  by (auto simp: chain_linked_def demo_chain_def demo_block_def)

lemma demo_service_view [simp]: "service_view (\<lambda>ch. ch) (demo_service ch) = ch"
  by (simp add: service_view_def demo_service_def)

lemma demo_service_ready:
  "chain_wf ch \<Longrightarrow> service_ready unary_cons_pb (\<lambda>ch. ch) (cons_react unary_cons_pb) (demo_service ch)"
  by (simp add: service_ready_def cons_react_serves)
    (simp add: demo_service_def zmq_ready_def peer_reacts_answering)

abbreviation zmq_svc :: "cons_pb \<Rightarrow> 'p ZmqConnection ZmqService ConsensusService" where
  "zmq_svc pb \<equiv> zmq_service pb (zmq_Connection (cpMessage pb))"

section \<open>Properties\<close>

text \<open>
  C8: the fork choice of the engine.  For a valid block that the validator knows and whose signer is a
  connected peer, HandleBlockValid reports its receipt to the signer and then commits it exactly when
  it is higher than the chain head, or has a greater identifier than the block of its own number on
  the current chain, and ignores it otherwise; the walk along the chain, over the wire, always ends.
  When the signer is not a connected peer, or the validator does not know the block, the handler
  panics, and with it the engine; the validator has been told nothing then.
\<close>

theorem HandleBlockValid_fork_choice:
  fixes d :: "'p ZmqConnection ZmqService devmodeService" and st :: "'p \<Rightarrow> chain"
  defines "ch \<equiv> service_view st (ds_service d)"
  assumes "service_ready pb st react (ds_service d)" "chain_linked ch"
  shows "\<exists>r d'. HandleBlockValid (zmq_svc pb) i d = (r, d') \<and> service_ready pb st react (ds_service d') \<and>
    (case ch_blocks ch i of
       None \<Rightarrow> r = Panic ''Failed to get block'' \<and> service_view st (ds_service d') = ch
     | Some b \<Rightarrow>
        if block_SignerId b \<in> ch_peers ch
        then r = Ret () \<and> service_view st (ds_service d') =
          logged (if prefers ch b then Committed i else Ignored i) (logged (SentTo (block_SignerId b) ''received'' i) ch)
        else r = Panic ''Failed to send block received'' \<and> service_view st (ds_service d') = ch)"
proof (cases "ch_blocks ch i")
  case None
  then show ?thesis using zmq_validator.HandleBlockValid_unknown [OF assms(2), of i] unfolding ch_def by auto
next
  case (Some b)
  show ?thesis
  proof (cases "block_SignerId b \<in> ch_peers ch")
    case True
    have "performs (service_ready pb st react \<circ> ds_service) (service_view st \<circ> ds_service) (HandleBlockValid (zmq_svc pb) i) d ()
      (logged (if prefers ch b then Committed i else Ignored i) (logged (SentTo (block_SignerId b) ''received'' i) ch))"
      using assms(2,3) Some True unfolding ch_def by (rule zmq_validator.HandleBlockValid_performs)
    with Some True show ?thesis by (auto elim!: performs_elim)
  next
    case False
    with Some zmq_validator.HandleBlockValid_no_peer [OF assms(2), of i b] show ?thesis unfolding ch_def by auto
  qed
qed

text \<open>The block b, at number one, beats the block a of the chain head h at number two.\<close>

lemma HandleBlockValid_fork_choice_witness:
  "\<exists>d'. HandleBlockValid (zmq_svc unary_cons_pb) ''b'' (NewDevmodeService (demo_service demo_chain)) = (Ret (), d') \<and>
    ch_log (service_view (\<lambda>ch. ch) (ds_service d')) = [SentTo ''peer'' ''received'' ''b'', Committed ''b'']"
proof -
  let ?d = "NewDevmodeService (demo_service demo_chain)" and ?b = "demo_block ''b'' ''g'' 1"
  have d: "ds_service ?d = demo_service demo_chain" by (simp add: NewDevmodeService_def)
  have b: "ch_blocks demo_chain ''b'' = Some ?b" "block_SignerId ?b \<in> ch_peers demo_chain"
    by (simp_all add: demo_chain_def demo_block_def)
  have "prefers demo_chain ?b \<longleftrightarrow> block_BlockId (demo_block ''a'' ''g'' 1) < block_BlockId ?b"
    by (rule prefers_shorter [where k = 0 and p = "demo_block ''a'' ''g'' 1"]) (simp_all add: demo_chain_def demo_block_def)
  then have "prefers demo_chain ?b" by (simp add: demo_block_def)
  moreover have "service_ready unary_cons_pb (\<lambda>ch. ch) (cons_react unary_cons_pb) (ds_service ?d)"
    by (simp add: d demo_service_ready)
  moreover note b
  moreover have "ch_log demo_chain = []" "block_SignerId ?b = ''peer''" by (simp_all add: demo_chain_def demo_block_def)
  ultimately show ?thesis
    using HandleBlockValid_fork_choice [of unary_cons_pb "\<lambda>ch. ch" "cons_react unary_cons_pb" ?d "''b''"] by (auto simp: d)
qed

text \<open>
  C18: at most one block per height.  In every state that an engine reaches over a ZmqService, by
  any events and whatever the validator does in between to its blocks, head, peers and settings and
  even to the block in progress, the engine has announced at most one block for each time it started
  one, and none for the last start while it is still to publish; it never finalized more blocks than
  it announced.  If the validator leaves the block in progress alone
  (\<open>free\<close> is False), a block is being built exactly while the engine is still to publish, and every
  announced block was finalized.  What the engine does with the next event is settled: it handles it
  and reaches such a state again exactly when the event is acceptable (\<open>event_ok\<close>: a block it is told of
  is known to the validator, the signer of a valid block and the peer it has to answer are
  connected, the message type is one of its three), and panics otherwise.
\<close>

theorem engine_publishes_once:
  fixes self :: "'p ZmqConnection ZmqService DevmodeEngineImpl"
  assumes "engine_reach (zmq_svc pb) (service_ready pb st react) (service_view st) free self"
  shows "let ch = service_view st (ds_service (de_service self)) in
    finalized (ch_log ch) \<le> announced (ch_log ch) \<and>
    announced (ch_log ch) + (if de_publishedAtHeight self then 0 else 1) \<le> started (ch_log ch) \<and>
    (free \<or> ch_building ch = (\<not> de_publishedAtHeight self) \<and> announced (ch_log ch) = finalized (ch_log ch)) \<and>
    (\<forall>ev rnd now. if event_ok ch ev
       then \<exists>self'. engine_step (zmq_svc pb) rnd now ev self = (Ret (ev = Update UpdateShutdown), self') \<and>
         engine_reach (zmq_svc pb) (service_ready pb st react) (service_view st) free self'
       else \<exists>e self'. engine_step (zmq_svc pb) rnd now ev self = (Panic e, self'))"
proof -
  have inv: "engine_inv (service_ready pb st react) (service_view st) free self"
    using assms by (rule zmq_validator.engine_reach_inv)
  have "\<exists>self'. engine_step (zmq_svc pb) rnd now ev self = (Ret (ev = Update UpdateShutdown), self') \<and>
       engine_reach (zmq_svc pb) (service_ready pb st react) (service_view st) free self'"
    if "event_ok (service_view st (ds_service (de_service self))) ev" for ev rnd now
  proof -
    from zmq_validator.engine_step_ok [OF inv that] obtain self' where
      "engine_step (zmq_svc pb) rnd now ev self = (Ret (ev = Update UpdateShutdown), self')" by blast
    with reach_event [OF assms this] show ?thesis by blast
  qed
  with inv zmq_validator.engine_step_panics [OF inv] show ?thesis by (simp add: engine_inv_def Let_def)
qed

text \<open>After its start the engine handles the timer, and a message of an unknown kind makes it panic.\<close>

lemma engine_publishes_once_witness:
  "\<exists>self. engine_reach (zmq_svc unary_cons_pb) (service_ready unary_cons_pb (\<lambda>ch. ch) (cons_react unary_cons_pb)) (service_view (\<lambda>ch. ch)) False self \<and>
    (\<exists>self'. engine_step (zmq_svc unary_cons_pb) (\<lambda>n. 0) 7 Timer self = (Ret False, self')) \<and>
    (\<exists>e self'. engine_step (zmq_svc unary_cons_pb) (\<lambda>n. 0) 7 (Update (UpdatePeerMessage \<lparr>message_Header =
        \<lparr>header_SignerId = [], header_ContentSha512 = [], header_MessageType = ''vote'', header_Name = [], header_Version = []\<rparr>,
        message_HeaderSignature = [], message_Content = []\<rparr> ''peer'')) self = (Panic e, self'))"
proof -
  let ?I = "service_ready unary_cons_pb (\<lambda>ch. ch) (cons_react unary_cons_pb)" and ?v = "service_view (\<lambda>ch. ch)"
  have s: "?I (demo_service demo_chain)" "chain_linked (?v (demo_service demo_chain))"
    "\<not> ch_building (?v (demo_service demo_chain))" "ch_log (?v (demo_service demo_chain)) = []"
    by (simp_all add: demo_service_ready) (simp_all add: demo_chain_def)
  from zmq_validator.engine_begin_ok [OF s] obtain self where
    "engine_begin (zmq_svc unary_cons_pb) (\<lambda>n. 0) (undefined :: startupState) (demo_service demo_chain) 5 = (Ret (), self)" by blast
  from reach_start [where I = ?I and view = ?v, OF s this] have r: "engine_reach (zmq_svc unary_cons_pb) ?I ?v False self" .
  let ?vote = "Update (UpdatePeerMessage \<lparr>message_Header =
        \<lparr>header_SignerId = [], header_ContentSha512 = [], header_MessageType = ''vote'', header_Name = [], header_Version = []\<rparr>,
        message_HeaderSignature = [], message_Content = []\<rparr> ''peer'')"
  have ok: "event_ok ch Timer" "\<not> event_ok ch ?vote" for ch by simp_all
  note goes_on = engine_publishes_once [OF r, unfolded Let_def, THEN conjunct2, THEN conjunct2, THEN conjunct2, rule_format]
  from goes_on [of Timer "\<lambda>n. 0" 7] goes_on [of ?vote "\<lambda>n. 0" 7] ok r show ?thesis by auto
qed

text \<open>
  C30: publishing waits for the validator and ends.  While a block is being built, however often the
  validator answers that it is not ready, finalizeBlock returns the identifier of the new block;
  the block carries the word Devmode followed by its summary, which is what checkConsensus accepts.
\<close>

theorem finalizeBlock_terminates:
  fixes d :: "'p ZmqConnection ZmqService devmodeService" and st :: "'p \<Rightarrow> chain"
  defines "ch \<equiv> service_view st (ds_service d)"
  assumes "service_ready pb st react (ds_service d)" "ch_building ch"
  shows "\<exists>d'. finalizeBlock (zmq_svc pb) d = (Ret (ch_next ch), d') \<and>
    service_view st (ds_service d') = logged (Finalized (createConsensus (ch_summary ch))) (ch\<lparr>ch_not_ready := 0, ch_building := False\<rparr>) \<and>
    checkConsensus (b\<lparr>block_Payload := createConsensus (ch_summary ch), block_Summary := ch_summary ch\<rparr>)"
proof -
  have "performs (service_ready pb st react \<circ> ds_service) (service_view st \<circ> ds_service) (finalizeBlock (zmq_svc pb)) d (ch_next ch)
    (logged (Finalized (createConsensus (ch_summary ch))) (ch\<lparr>ch_not_ready := 0, ch_building := False\<rparr>))"
    using assms(2,3) unfolding ch_def by (rule zmq_validator.finalizeBlock_performs)
  then show ?thesis by (auto simp: checkConsensus_def elim: performs_elim)
qed

lemma finalizeBlock_terminates_witness:
  "\<exists>d'. finalizeBlock (zmq_svc unary_cons_pb) (NewDevmodeService (demo_service (demo_chain\<lparr>ch_building := True\<rparr>))) = (Ret ''n'', d') \<and>
    ch_log (service_view (\<lambda>ch. ch) (ds_service d')) = [Finalized ''Devmodesum'']"
proof -
  let ?ch = "demo_chain\<lparr>ch_building := True\<rparr>" let ?d = "NewDevmodeService (demo_service ?ch)"
  have d: "ds_service ?d = demo_service ?ch" by (simp add: NewDevmodeService_def)
  from finalizeBlock_terminates [of unary_cons_pb "\<lambda>ch. ch" "cons_react unary_cons_pb" ?d undefined] demo_service_ready [of ?ch]
  show ?thesis by (auto simp: d logged_def createConsensus_def) (auto simp: demo_chain_def)
qed

text \<open>
  The wait time is always zero.  Whatever the settings sawtooth.consensus.min\_wait\_time and
  max\_wait\_time are and whatever the random numbers, calculateWaitTime returns 0: it reads the
  settings only when getting them has failed, and then there are none.
\<close>

theorem calculateWaitTime_zero:
  fixes d :: "'p ZmqConnection ZmqService devmodeService"
  assumes "service_ready pb st react (ds_service d)"
  shows "\<exists>d'. calculateWaitTime (zmq_svc pb) rnd i d = (Ret 0, d')"
  using zmq_validator.calculateWaitTime_performs [OF assms, of rnd i] by (auto elim: performs_elim)

lemma calculateWaitTime_zero_witness:
  "\<exists>d'. calculateWaitTime (zmq_svc unary_cons_pb) (\<lambda>n. n - 1) ''h'' (NewDevmodeService (demo_service demo_chain)) = (Ret 0, d')"
  using calculateWaitTime_zero [of unary_cons_pb "\<lambda>ch. ch" "cons_react unary_cons_pb"
      "NewDevmodeService (demo_service demo_chain)" "\<lambda>n. n - 1" "''h''"] demo_service_ready [OF demo_chain_wf]
  by (simp add: NewDevmodeService_def)

text \<open>
  Other errors in publishing are ignored.  When no block is being built, SummarizeBlock and
  FinalizeBlock fail, but finalizeBlock returns the null identifier as if the block were finalized,
  and the engine announces it to the peers.
\<close>

theorem finalizeBlock_ignores_errors:
  fixes self :: "'p ZmqConnection ZmqService DevmodeEngineImpl" and st :: "'p \<Rightarrow> chain"
  defines "ch \<equiv> service_view st (ds_service (de_service self))"
  assumes "service_ready pb st react (ds_service (de_service self))" "\<not> ch_building ch"
    and "\<not> de_publishedAtHeight self" "now - de_start self > de_waitTime self"
  shows "\<exists>self'. publish (zmq_svc pb) now self = (Ret (), self') \<and> de_publishedAtHeight self' \<and>
    service_view st (ds_service (de_service self')) = logged (Broadcasted ''published'' BLOCK_ID_NULL) ch"
  using zmq_validator.publish_idle [of pb st react self now] assms by auto

lemma finalizeBlock_ignores_errors_witness:
  "\<exists>self'. publish (zmq_svc unary_cons_pb) 9 \<lparr>de_service = NewDevmodeService (demo_service demo_chain), de_chainHead = demo_block ''h'' ''a'' 2,
      de_waitTime = 0, de_publishedAtHeight = False, de_start = 5\<rparr> = (Ret (), self') \<and>
    ch_log (service_view (\<lambda>ch. ch) (ds_service (de_service self'))) = [Broadcasted ''published'' []]"
proof -
  let ?self = "\<lparr>de_service = NewDevmodeService (demo_service demo_chain), de_chainHead = demo_block ''h'' ''a'' 2,
      de_waitTime = 0, de_publishedAtHeight = False, de_start = 5\<rparr>"
  have d: "ds_service (NewDevmodeService (demo_service demo_chain)) = demo_service demo_chain" by (simp add: NewDevmodeService_def)
  have "\<not> ch_building demo_chain" "ch_log demo_chain = []" by (simp_all add: demo_chain_def)
  with finalizeBlock_ignores_errors [of unary_cons_pb "\<lambda>ch. ch" "cons_react unary_cons_pb" ?self 9] demo_service_ready [OF demo_chain_wf]
  show ?thesis by (auto simp: d)
qed

end
