(* ===== verification/Intkey_Cli.thy ===== *)
theory Intkey_Cli
  imports Intkey_Client
begin

text \<open>
  examples/intkey_go/src/sawtooth_intkey_client: the subcommands set, inc, dec, show and list
  (set.go, inc.go, dec.go, show.go, list.go) and main.go.  The argument parser (go-flags) is a
  parameter: what registering a command and parsing the arguments give.  A command prints lines to
  the standard output and returns an error or nil; the program ends with an exit code.
\<close>

section \<open>Subcommands\<close>

text \<open>The structs of set, inc and dec have the same fields.\<close>

record write_args =
  wa_Name :: string
  wa_Value :: string
  wa_Url :: string
  wa_Keyfile :: string
  wa_Wait :: "64 word"

record show_args =
  sa_Name :: string
  sa_Url :: string

record list_args =
  la_Url :: string

datatype cli_command = CmdSet write_args | CmdInc write_args | CmdDec write_args | CmdShow show_args | CmdList list_args

text \<open>
  The parser of go-flags, as far as commands use it: AddCommand adds a command, with its name, a
  short and a long description and the struct whose fields parsing fills in.
\<close>

record 'f flags_lib =
  AddCommand :: "string \<Rightarrow> string \<Rightarrow> string \<Rightarrow> cli_command \<Rightarrow> ('f, go_error option) proc"

text \<open>The methods of the interface Command, for each struct.\<close>

definition Set_Name :: "write_args \<Rightarrow> string" where
  "Set_Name args = ''set''"

definition Set_KeyfilePassed :: "write_args \<Rightarrow> string" where
  "Set_KeyfilePassed args = wa_Keyfile args"

definition Set_UrlPassed :: "write_args \<Rightarrow> string" where
  "Set_UrlPassed args = wa_Url args"

definition Set_Register :: "'f flags_lib \<Rightarrow> write_args \<Rightarrow> ('f, go_error option) proc" where
  "Set_Register parent args =
    bindP (AddCommand parent (Set_Name args) ''Sets an intkey value''
      ''Sends an intkey transaction to set <name> to <value>.'' (CmdSet args))
      (\<lambda>err. case err of Some e \<Rightarrow> retP (Some e) | None \<Rightarrow> retP None)"

definition Inc_Name :: "write_args \<Rightarrow> string" where
  "Inc_Name args = ''inc''"

definition Inc_KeyfilePassed :: "write_args \<Rightarrow> string" where
  "Inc_KeyfilePassed args = wa_Keyfile args"

definition Inc_UrlPassed :: "write_args \<Rightarrow> string" where
  "Inc_UrlPassed args = wa_Url args"

definition Inc_Register :: "'f flags_lib \<Rightarrow> write_args \<Rightarrow> ('f, go_error option) proc" where
  "Inc_Register parent args =
    bindP (AddCommand parent (Inc_Name args) ''Increments an intkey value''
      ''Sends an intkey transaction to increment <name> by <value>.'' (CmdInc args))
      (\<lambda>err. case err of Some e \<Rightarrow> retP (Some e) | None \<Rightarrow> retP None)"

definition Dec_Name :: "write_args \<Rightarrow> string" where
  "Dec_Name args = ''dec''"

definition Dec_KeyfilePassed :: "write_args \<Rightarrow> string" where
  "Dec_KeyfilePassed args = wa_Keyfile args"

definition Dec_UrlPassed :: "write_args \<Rightarrow> string" where
  "Dec_UrlPassed args = wa_Url args"

definition Dec_Register :: "'f flags_lib \<Rightarrow> write_args \<Rightarrow> ('f, go_error option) proc" where
  "Dec_Register parent args =
    bindP (AddCommand parent (Dec_Name args) ''Decrements an intkey value''
      ''Sends an intkey transaction to decrement <name> by <value>.'' (CmdDec args))
      (\<lambda>err. case err of Some e \<Rightarrow> retP (Some e) | None \<Rightarrow> retP None)"

definition Show_Name :: "show_args \<Rightarrow> string" where
  "Show_Name args = ''show''"

definition Show_KeyfilePassed :: "show_args \<Rightarrow> string" where
  "Show_KeyfilePassed args = []"

definition Show_UrlPassed :: "show_args \<Rightarrow> string" where
  "Show_UrlPassed args = sa_Url args"

definition Show_Register :: "'f flags_lib \<Rightarrow> show_args \<Rightarrow> ('f, go_error option) proc" where
  "Show_Register parent args =
    bindP (AddCommand parent (Show_Name args) ''Displays the specified intkey value''
      ''Shows the value of the key <name>.'' (CmdShow args))
      (\<lambda>err. case err of Some e \<Rightarrow> retP (Some e) | None \<Rightarrow> retP None)"

definition List_Name :: "list_args \<Rightarrow> string" where
  "List_Name args = ''list''"

definition List_KeyfilePassed :: "list_args \<Rightarrow> string" where
  "List_KeyfilePassed args = []"

definition List_UrlPassed :: "list_args \<Rightarrow> string" where
  "List_UrlPassed args = la_Url args"

definition List_Register :: "'f flags_lib \<Rightarrow> list_args \<Rightarrow> ('f, go_error option) proc" where
  "List_Register parent args =
    bindP (AddCommand parent (List_Name args) ''Displays all intkey values''
      ''Shows the values of all keys in intkey state.'' (CmdList args))
      (\<lambda>err. case err of Some e \<Rightarrow> retP (Some e) | None \<Rightarrow> retP None)"

fun Command_Name :: "cli_command \<Rightarrow> string" where
  "Command_Name (CmdSet args) = Set_Name args"
| "Command_Name (CmdInc args) = Inc_Name args"
| "Command_Name (CmdDec args) = Dec_Name args"
| "Command_Name (CmdShow args) = Show_Name args"
| "Command_Name (CmdList args) = List_Name args"

fun KeyfilePassed :: "cli_command \<Rightarrow> string" where
  "KeyfilePassed (CmdSet args) = Set_KeyfilePassed args"
| "KeyfilePassed (CmdInc args) = Inc_KeyfilePassed args"
| "KeyfilePassed (CmdDec args) = Dec_KeyfilePassed args"
| "KeyfilePassed (CmdShow args) = Show_KeyfilePassed args"
| "KeyfilePassed (CmdList args) = List_KeyfilePassed args"

fun UrlPassed :: "cli_command \<Rightarrow> string" where
  "UrlPassed (CmdSet args) = Set_UrlPassed args"
| "UrlPassed (CmdInc args) = Inc_UrlPassed args"
| "UrlPassed (CmdDec args) = Dec_UrlPassed args"
| "UrlPassed (CmdShow args) = Show_UrlPassed args"
| "UrlPassed (CmdList args) = List_UrlPassed args"

fun Command_Register :: "'f flags_lib \<Rightarrow> cli_command \<Rightarrow> ('f, go_error option) proc" where
  "Command_Register parent (CmdSet args) = Set_Register parent args"
| "Command_Register parent (CmdInc args) = Inc_Register parent args"
| "Command_Register parent (CmdDec args) = Dec_Register parent args"
| "Command_Register parent (CmdShow args) = Show_Register parent args"
| "Command_Register parent (CmdList args) = List_Register parent args"

lemmas command_methods [simp] =
  Set_Name_def Inc_Name_def Dec_Name_def Show_Name_def List_Name_def
  Set_KeyfilePassed_def Inc_KeyfilePassed_def Dec_KeyfilePassed_def Show_KeyfilePassed_def List_KeyfilePassed_def
  Set_UrlPassed_def Inc_UrlPassed_def Dec_UrlPassed_def Show_UrlPassed_def List_UrlPassed_def

section \<open>Making a client\<close>

record os_user =
  HomeDir :: string
  Username :: string

definition GetKeyfile :: "go_error + os_user \<Rightarrow> string \<Rightarrow> go_error + string" where
  "GetKeyfile current keyfile =
    (if keyfile = [] then
       (case current of
          Inl err \<Rightarrow> Inl err
        | Inr username \<Rightarrow> Inr (path_Join [HomeDir username, ''.sawtooth'', ''keys'', Username username @ ''.priv'']))
     else Inr keyfile)"

definition GetClient ::
  "('c, 'p, 'q) ellcurv \<Rightarrow> 'w client_env \<Rightarrow> go_error + os_user \<Rightarrow> cli_command \<Rightarrow> bool \<Rightarrow> ('w, go_error + IntkeyClient) proc" where
  "GetClient L E current args readFile =
    (let url = (if UrlPassed args = [] then DEFAULT_URL else UrlPassed args) in
     case (if readFile then GetKeyfile current (KeyfilePassed args) else Inr []) of
       Inl err \<Rightarrow> retP (Inl err)
     | Inr keyfile \<Rightarrow> NewIntkeyClient L E url keyfile)"

section \<open>Running a command\<close>

text \<open>The parameters of the program.\<close>

record ('c, 'p, 'q, 'w) program =
  pg_ellcurv :: "('c, 'p, 'q) ellcurv"
  pg_batch :: batch_pb
  pg_docs :: client_docs
  pg_env :: "'w client_env"
  pg_user :: "go_error + os_user"

text \<open>The error of strconv.Atoi is one value here.\<close>

definition atoi_error :: go_error where
  "atoi_error = ErrorString ''strconv.Atoi''"

text \<open>fmt.Println separates its operands by spaces.\<close>

definition key_line :: "string \<Rightarrow> string \<Rightarrow> string" where
  "key_line k v = k @ '' '' @ '': '' @ '' '' @ v"

definition write_Run ::
  "('c, 'p, 'q, 'w) program \<Rightarrow> cli_command \<Rightarrow> write_args \<Rightarrow>
   (IntkeyClient \<Rightarrow> string \<Rightarrow> 64 word \<Rightarrow> 64 word \<Rightarrow> ('w, go_error + string) proc) \<Rightarrow> ('w, string list \<times> go_error option) proc" where
  "write_Run P cmd args op =
    (let name = wa_Name args in
     case Atoi (wa_Value args) of
       None \<Rightarrow> retP ([], Some atoi_error)
     | Some v \<Rightarrow>
        bindP (GetClient (pg_ellcurv P) (pg_env P) (pg_user P) cmd True) (\<lambda>r. case r of
            Inl err \<Rightarrow> retP ([], Some err)
          | Inr intkeyClient \<Rightarrow>
             bindP (op intkeyClient name (word_of_int v) (wa_Wait args)) (\<lambda>r.
               retP ([], case r of Inl err \<Rightarrow> Some err | Inr _ \<Rightarrow> None))))"

definition Set_Run :: "('c, 'p, 'q, 'w) program \<Rightarrow> write_args \<Rightarrow> ('w, string list \<times> go_error option) proc" where
  "Set_Run P args = write_Run P (CmdSet args) args (Set (pg_batch P) (pg_docs P) (pg_env P))"

definition Inc_Run :: "('c, 'p, 'q, 'w) program \<Rightarrow> write_args \<Rightarrow> ('w, string list \<times> go_error option) proc" where
  "Inc_Run P args = write_Run P (CmdInc args) args (Inc (pg_batch P) (pg_docs P) (pg_env P))"

definition Dec_Run :: "('c, 'p, 'q, 'w) program \<Rightarrow> write_args \<Rightarrow> ('w, string list \<times> go_error option) proc" where
  "Dec_Run P args = write_Run P (CmdDec args) args (Dec (pg_batch P) (pg_docs P) (pg_env P))"

definition Show_Run :: "('c, 'p, 'q, 'w) program \<Rightarrow> show_args \<Rightarrow> ('w, string list \<times> go_error option) proc" where
  "Show_Run P args =
    bindP (GetClient (pg_ellcurv P) (pg_env P) (pg_user P) (CmdShow args) False) (\<lambda>r. case r of
        Inl err \<Rightarrow> retP ([], Some err)
      | Inr intkeyClient \<Rightarrow>
         bindP (Show (pg_docs P) (pg_env P) intkeyClient (sa_Name args)) (\<lambda>r. case r of
             Inl err \<Rightarrow> retP ([], Some err)
           | Inr v \<Rightarrow> retP ([key_line (sa_Name args) v], None)))"

text \<open>The entries of one map come in no particular order; here it is the order of the list.\<close>

definition List_Run :: "('c, 'p, 'q, 'w) program \<Rightarrow> list_args \<Rightarrow> ('w, string list \<times> go_error option) proc" where
  "List_Run P args =
    bindP (GetClient (pg_ellcurv P) (pg_env P) (pg_user P) (CmdList args) False) (\<lambda>r. case r of
        Inl err \<Rightarrow> retP ([], Some err)
      | Inr intkeyClient \<Rightarrow>
         bindP (List_values (pg_docs P) (pg_env P) intkeyClient) (\<lambda>r. case r of
             Inl err \<Rightarrow> retP ([], Some err)
           | Inr pairs \<Rightarrow> retP (concat (map (map (\<lambda>(k, v). key_line (fmt_v k) (fmt_v v))) pairs), None)))"

fun Command_Run :: "('c, 'p, 'q, 'w) program \<Rightarrow> cli_command \<Rightarrow> ('w, string list \<times> go_error option) proc" where
  "Command_Run P (CmdSet args) = Set_Run P args"
| "Command_Run P (CmdInc args) = Inc_Run P args"
| "Command_Run P (CmdDec args) = Dec_Run P args"
| "Command_Run P (CmdShow args) = Show_Run P args"
| "Command_Run P (CmdList args) = List_Run P args"

section \<open>The main function\<close>

text \<open>
  What parsing gives: the kind of the error (help, or another error of the library, or an error of
  another type, which main ignores), the arguments left over, the name of the active command, and
  the commands with their arguments filled in.
\<close>

datatype parse_error = NoError | ErrHelp | FlagsError | OtherError

record parsed =
  ps_error :: parse_error
  ps_remaining :: "string list"
  ps_active :: "string option"
  ps_set :: write_args
  ps_inc :: write_args
  ps_dec :: write_args
  ps_show :: show_args
  ps_list :: list_args

definition ps_commands :: "parsed \<Rightarrow> cli_command list" where
  "ps_commands p = [CmdSet (ps_set p), CmdInc (ps_inc p), CmdDec (ps_dec p), CmdShow (ps_show p), CmdList (ps_list p)]"

text \<open>The commands before parsing: their structs have zero values.\<close>

definition new_commands :: "cli_command list" where
  "new_commands =
    (let args = \<lparr>wa_Name = [], wa_Value = [], wa_Url = [], wa_Keyfile = [], wa_Wait = 0\<rparr> in
     [CmdSet args, CmdInc args, CmdDec args, CmdShow \<lparr>sa_Name = [], sa_Url = []\<rparr>, CmdList \<lparr>la_Url = []\<rparr>])"

text \<open>Registering stops at the first error.\<close>

fun register_commands :: "'f flags_lib \<Rightarrow> cli_command list \<Rightarrow> ('f, go_error option) proc" where
  "register_commands parent [] = retP None"
| "register_commands parent (cmd # commands) =
    bindP (Command_Register parent cmd) (\<lambda>err. case err of
        Some e \<Rightarrow> retP (Some e)
      | None \<Rightarrow> register_commands parent commands)"

text \<open>The search for the active command and its run: lines 113 to 125.\<close>

fun dispatch :: "('c, 'p, 'q, 'w) program \<Rightarrow> string \<Rightarrow> cli_command list \<Rightarrow> ('w, int \<times> string list) proc" where
  "dispatch P name [] = retP (0, [''Error: Command not found:  '' @ name])"
| "dispatch P name (cmd # cmds) =
    (if Command_Name cmd = name then
       bindP (Command_Run P cmd) (\<lambda>(out, err). case err of
           Some e \<Rightarrow> retP (1, out @ [''Error:  '' @ Error e])
         | None \<Rightarrow> retP (0, out))
     else dispatch P name cmds)"

text \<open>The variable of the version, which the build sets, and its default.\<close>

definition init_version :: "string \<Rightarrow> string" where
  "init_version DISTRIBUTION_VERSION = (if length DISTRIBUTION_VERSION = 0 then ''Unknown'' else DISTRIBUTION_VERSION)"

abbreviation DISTRIBUTION_NAME :: string where "DISTRIBUTION_NAME \<equiv> ''sawtooth-intkey''"

text \<open>What follows the parsing: lines 86 to 125, without the level of the log that lines 99 to 106 set.\<close>

definition run_parsed :: "('c, 'p, 'q, 'w) program \<Rightarrow> parsed \<Rightarrow> ('w, int \<times> string list) proc" where
  "run_parsed P p =
    (if ps_error p = ErrHelp then retP (0, [])
     else if ps_error p = FlagsError then retP (1, [])
     else if length (ps_remaining p) > 0
     then retP (2, [''Error: Unrecognized arguments passed:  '' @ fmt_v (ASlice (map AString (ps_remaining p)))])
     else (case ps_active p of
         None \<Rightarrow> retP (2, [])
       | Some name \<Rightarrow> dispatch P name (ps_commands p)))"

text \<open>The parser is a parameter with its state \<open>f\<close>: AddCommand, and what Parse gives in the end.\<close>

definition cli_main ::
  "('c, 'p, 'q, 'w) program \<Rightarrow> string \<Rightarrow> string list \<Rightarrow> 'f flags_lib \<Rightarrow> 'f \<Rightarrow> ('f \<Rightarrow> parsed) \<Rightarrow> ('w, int \<times> string list) proc" where
  "cli_main P DISTRIBUTION_VERSION arguments parser f Parse =
    (if \<exists>arg \<in> set arguments. arg = ''-V'' \<or> arg = ''--version''
     then retP (0, [DISTRIBUTION_NAME @ '' (Hyperledger Sawtooth) version '' @ init_version DISTRIBUTION_VERSION])
     else (case register_commands parser new_commands f of
         (Ret (Some err), _) \<Rightarrow> retP (1, [])
       | (Ret None, f') \<Rightarrow> run_parsed P (Parse f')
       | (Panic e, _) \<Rightarrow> panicP e
       | (Block, _) \<Rightarrow> (\<lambda>w. (Block, w))))"

section \<open>Properties\<close>

text \<open>Every command can be reached by its name, and only by it.\<close>

lemma command_names: "map Command_Name (ps_commands p) = [''set'', ''inc'', ''dec'', ''show'', ''list'']"
  by (simp add: ps_commands_def)

lemma dispatch_runs:
  assumes "distinct (map Command_Name cmds)" "cmd \<in> set cmds"
  shows "dispatch P (Command_Name cmd) cmds =
    bindP (Command_Run P cmd) (\<lambda>(out, err). case err of
        Some e \<Rightarrow> retP (1, out @ [''Error:  '' @ Error e])
      | None \<Rightarrow> retP (0, out))"
  using assms by (induction cmds) (auto simp del: Command_Name.simps Command_Run.simps)

lemma dispatch_unknown:
  "name \<notin> set (map Command_Name cmds) \<Longrightarrow> dispatch P name cmds = retP (0, [''Error: Command not found:  '' @ name])"
  by (induction cmds) auto

lemma uint_word_of_neg: "- (2 ^ 63) \<le> v \<Longrightarrow> v < 0 \<Longrightarrow> uint (word_of_int v :: 64 word) = 2 ^ 64 + v"
  using mod_pos_pos_trivial [of "v + 2 ^ 64" "2 ^ 64"] by (simp add: uint_word_of_int mod_add_self2)

text \<open>
  The value argument is not checked before it is sent.  A negative number v in the range of
  int64 passes strconv.Atoi and is submitted as the unsigned value 2 to the 64 plus v, in the
  payload of set, inc and dec alike.
\<close>

theorem negative_argument_wraps:
  assumes "Atoi (wa_Value args) = Some v" "v < 0"
    and "GetClient (pg_ellcurv P) (pg_env P) (pg_user P) (CmdSet args) True w = (Ret (Inr client), w1)"
  shows "\<exists>u. uint u = 2 ^ 64 + v \<and> payload_map VERB_SET (wa_Name args) u ''Value'' = Some (AInt (2 ^ 64 + v)) \<and>
    Set_Run P args w =
      bindP (sendTransaction (pg_batch P) (pg_docs P) (pg_env P) client VERB_SET (wa_Name args) u (wa_Wait args))
        (\<lambda>r. retP ([], case r of Inl err \<Rightarrow> Some err | Inr _ \<Rightarrow> None)) w1"
proof (intro exI conjI)
  let ?u = "word_of_int v :: 64 word"
  have "- (2 ^ 63) \<le> v" using assms(1) by (auto simp: Atoi_def Let_def split: list.splits if_splits)
  then show u: "uint ?u = 2 ^ 64 + v" using assms(2) by (rule uint_word_of_neg)
  show "payload_map VERB_SET (wa_Name args) ?u ''Value'' = Some (AInt (2 ^ 64 + v))"
    by (simp add: payload_map_def u)
  show "Set_Run P args w =
      bindP (sendTransaction (pg_batch P) (pg_docs P) (pg_env P) client VERB_SET (wa_Name args) ?u (wa_Wait args))
        (\<lambda>r. retP ([], case r of Inl err \<Rightarrow> Some err | Inr _ \<Rightarrow> None)) w1"
    using assms by (simp add: Set_Run_def write_Run_def Let_def Set_def)
qed

lemma negative_argument_wraps_witness:
  "\<exists>u :: 64 word. uint u = 18446744073709551615 \<and> payload_map VERB_SET ''x'' u ''Value'' = Some (AInt 18446744073709551615)"
proof -
  let ?P = "\<lparr>pg_ellcurv = demo_ellcurv, pg_batch = unary_batch_pb, pg_docs = demo_docs, pg_env = demo_env,
    pg_user = Inr \<lparr>HomeDir = ''/root'', Username = ''alice''\<rparr>\<rparr>"
  let ?args = "\<lparr>wa_Name = ''x'', wa_Value = ''-1'', wa_Url = [], wa_Keyfile = [], wa_Wait = 0\<rparr>"
  have "Atoi ''-1'' = Some (- 1)" by code_simp
  moreover have "\<exists>c w1. GetClient demo_ellcurv demo_env (Inr \<lparr>HomeDir = ''/root'', Username = ''alice''\<rparr>) (CmdSet ?args) True 0 = (Ret (Inr c), w1)"
    by (simp add: GetClient_def GetKeyfile_def NewIntkeyClient_def envP_def demo_env_def path_Join_def path_Clean_def Let_def)
  ultimately show ?thesis
    using negative_argument_wraps [of ?args "- 1" ?P 0] by auto
qed

end
