(* ===== verification/Tp_Concurrent.thy ===== *)
theory Tp_Concurrent
  imports Processor_Families
begin

text \<open>
  Several workers behind one main thread.  A worker's turn is cut at every message it sends: before
  the main thread takes the message, and between that and the answer, the other workers, the
  validator and the main thread itself can do any number of steps, among them steps that leave
  answers for other workers waiting.

  The peer of a worker's socket is the main thread together with a plan of what happens at each
  cut.  For every plan of steps that concern other transactions, the connection of the worker
  still serves the state of its own transaction context; so each handler does on it what it does
  alone.  What is relied on is that the validator keeps the contexts of transactions apart and
  that correlation ids of different workers differ.
\<close>

section \<open>The other threads\<close>

datatype thread_op = OtherSends string Message | ValidatorSends Message | MainReads | OtherTakes

abbreviation enc :: "tp_pb \<Rightarrow> Message \<Rightarrow> bytes" where
  "enc pb m \<equiv> fst (Marshal (pbMessage pb) m)"

text \<open>
  Another worker sends a message, which the main thread routes; a message of the validator arrives
  and waits; the main thread reads one that waits; another worker takes a request off the queue.
\<close>

fun op_step :: "tp_pb \<Rightarrow> thread_op \<Rightarrow> ('p, 'x) main_thread \<Rightarrow> ('p, 'x) main_thread" where
  "op_step pb (OtherSends v m) r = snd (receiveWorkers pb (main_C pb) (main_C pb)
     (r\<lparr>r_workers := set_inbox (inbox (r_workers r) @ [Inr [v, enc pb m]]) (r_workers r)\<rparr>))"
| "op_step pb (ValidatorSends m) r = r\<lparr>r_validator := set_inbox (inbox (r_validator r) @ [Inr [enc pb m]]) (r_validator r)\<rparr>"
| "op_step pb MainReads r = (if inbox (r_validator r) = [] then r else snd (receiveValidator pb (main_C pb) (main_C pb) r))"
| "op_step pb OtherTakes r = r\<lparr>r_queue := tl (r_queue r)\<rparr>"

abbreviation ops_run :: "tp_pb \<Rightarrow> thread_op list \<Rightarrow> ('p, 'x) main_thread \<Rightarrow> ('p, 'x) main_thread" where
  "ops_run pb ops \<equiv> fold (op_step pb) ops"

text \<open>
  The main thread with a plan: at each message of the worker the steps before the main thread
  takes it and the steps between that and its answer.
\<close>

record ('p, 'x) shared_main =
  sm_main :: "('p, 'x) main_thread"
  sm_plan :: "(thread_op list \<times> thread_op list) list"

definition before :: "('p, 'x) shared_main \<Rightarrow> thread_op list" where
  "before q = (case sm_plan q of [] \<Rightarrow> [] | (b, a) # _ \<Rightarrow> b)"

definition between :: "('p, 'x) shared_main \<Rightarrow> thread_op list" where
  "between q = (case sm_plan q of [] \<Rightarrow> [] | (b, a) # _ \<Rightarrow> a)"

definition shared_turn ::
  "tp_pb \<Rightarrow> string \<Rightarrow> ('p, 'x) shared_main \<Rightarrow> bytes list \<Rightarrow> ('p, 'x) shared_main \<times> (go_error + bytes list) list \<times> go_error option" where
  "shared_turn pb w q frs =
    (let r = ops_run pb (before q) (sm_main q);
         r = snd (receiveWorkers pb (main_C pb) (main_C pb) (r\<lparr>r_workers := set_inbox (inbox (r_workers r) @ [Inr (w # frs)]) (r_workers r)\<rparr>));
         r = ops_run pb (between q) r;
         r = ops_run pb (replicate (length (inbox (r_validator r))) MainReads) r;
         out = peer (r_workers r);
         r = r\<lparr>r_workers := (r_workers r)\<lparr>conn_socket := (conn_socket (r_workers r))\<lparr>sk_peer := filter (\<lambda>fr. hd fr \<noteq> w) out\<rparr>\<rparr>\<rparr>
     in (\<lparr>sm_main = r, sm_plan = tl (sm_plan q)\<rparr>, map (\<lambda>fr. Inr (tl fr)) (filter (\<lambda>fr. hd fr = w) out), None))"

section \<open>Steps that concern others\<close>

text \<open>
  A message is harmless for a transaction when the validator, on receiving it, keeps the view of
  the transaction (its state \<open>st\<close> and the answers \<open>ans\<close> it has) and answers with at most \<open>n\<close>
  messages, under the same correlation id.
\<close>

abbreviation is_request :: "Message \<Rightarrow> bool" where
  "is_request m \<equiv> Message_MessageType m \<in> {Message_TP_PROCESS_REQUEST, Message_PING_REQUEST}"

definition harmless ::
  "tp_pb \<Rightarrow> ('p \<Rightarrow> 'v) \<Rightarrow> ('p \<Rightarrow> bytes list \<Rightarrow> 'p \<times> (go_error + bytes list) list \<times> go_error option) \<Rightarrow> nat \<Rightarrow> Message \<Rightarrow> bool" where
  "harmless pb view deliver n m \<longleftrightarrow> (\<forall>p. \<exists>p' ms. deliver p [enc pb m] = (p', map (\<lambda>m'. Inr [enc pb m']) ms, None) \<and>
     length ms \<le> n \<and> view p' = view p \<and>
     (\<forall>m' \<in> set ms. Message_CorrelationId m' = Message_CorrelationId m \<and> \<not> is_request m'))"

text \<open>A request of the validator whose answers, by the main thread or by a worker, are harmless.\<close>

definition other_request ::
  "tp_pb \<Rightarrow> ('p \<Rightarrow> 'v) \<Rightarrow> ('p \<Rightarrow> bytes list \<Rightarrow> 'p \<times> (go_error + bytes list) list \<times> go_error option) \<Rightarrow> string set \<Rightarrow> Message \<Rightarrow> bool" where
  "other_request pb view deliver K m \<longleftrightarrow> is_request m \<and> Message_CorrelationId m \<notin> K \<and>
     (\<forall>t b. t \<in> {Message_TP_PROCESS_RESPONSE, Message_PING_RESPONSE} \<longrightarrow>
        harmless pb view deliver 0 \<lparr>Message_MessageType = t, Message_CorrelationId = Message_CorrelationId m, Message_Content = b\<rparr>)"

text \<open>The steps of others, seen from worker \<open>w\<close> whose messages have their correlation ids in \<open>K\<close>.\<close>

fun foreign ::
  "tp_pb \<Rightarrow> ('p \<Rightarrow> 'v) \<Rightarrow> ('p \<Rightarrow> bytes list \<Rightarrow> 'p \<times> (go_error + bytes list) list \<times> go_error option) \<Rightarrow> string \<Rightarrow> string set \<Rightarrow>
   thread_op \<Rightarrow> bool" where
  "foreign pb view deliver w K (OtherSends v m) \<longleftrightarrow> v \<noteq> w \<and> v \<noteq> [] \<and> Message_CorrelationId m \<notin> K \<and> harmless pb view deliver 1 m"
| "foreign pb view deliver w K (ValidatorSends m) \<longleftrightarrow> other_request pb view deliver K m"
| "foreign pb view deliver w K MainReads \<longleftrightarrow> True"
| "foreign pb view deliver w K OtherTakes \<longleftrightarrow> True"

section \<open>The main thread between the steps\<close>

text \<open>What waits at the socket to the validator for worker \<open>w\<close>.\<close>

fun due_for :: "tp_pb \<Rightarrow> string set \<Rightarrow> go_error + bytes list \<Rightarrow> bytes list" where
  "due_for pb K (Inr [d]) = (if Message_CorrelationId (fst (Unmarshal (pbMessage pb) d)) \<in> K then [d] else [])"
| "due_for pb K _ = []"

fun due :: "tp_pb \<Rightarrow> string set \<Rightarrow> (go_error + bytes list) list \<Rightarrow> bytes list" where
  "due pb K [] = []"
| "due pb K (x # xs) = due_for pb K x @ due pb K xs"

lemma due_append [simp]: "due pb K (xs @ ys) = due pb K xs @ due pb K ys"
  by (induction xs) simp_all

definition waiting ::
  "tp_pb \<Rightarrow> ('p \<Rightarrow> 'v) \<Rightarrow> ('p \<Rightarrow> bytes list \<Rightarrow> 'p \<times> (go_error + bytes list) list \<times> go_error option) \<Rightarrow> string set \<Rightarrow>
   go_error + bytes list \<Rightarrow> bool" where
  "waiting pb view deliver K x \<longleftrightarrow> (\<exists>m. x = Inr [enc pb m] \<and> (is_request m \<longrightarrow> other_request pb view deliver K m))"

abbreviation outgoing :: "('p, 'x) main_thread \<Rightarrow> bytes list list" where
  "outgoing r \<equiv> peer (r_workers r)"

text \<open>
  The invariant: the sockets are open, what waits is well formed, and what is on its way to \<open>w\<close>,
  whether already sent to it or still to be read, is exactly the list \<open>ds\<close> of at most one
  answer, whose correlation id the main thread remembers as long as the answer is to be read.
\<close>

definition serving ::
  "tp_pb \<Rightarrow> ('p \<Rightarrow> 'v) \<Rightarrow> ('p \<Rightarrow> bytes list \<Rightarrow> 'p \<times> (go_error + bytes list) list \<times> go_error option) \<Rightarrow> string \<Rightarrow> string set \<Rightarrow>
   bytes list \<Rightarrow> ('p, 'x) main_thread \<Rightarrow> bool" where
  "serving pb view deliver w K ds r \<longleftrightarrow>
     \<not> sk_closed (conn_socket (r_validator r)) \<and> \<not> sk_closed (conn_socket (r_workers r)) \<and> inbox (r_workers r) = [] \<and>
     sk_deliver (conn_socket (r_workers r)) = recorder \<and> sk_deliver (conn_socket (r_validator r)) = deliver \<and>
     list_all (waiting pb view deliver K) (inbox (r_validator r)) \<and>
     (\<forall>k v. r_ids r k = Some v \<longrightarrow> v \<noteq> [] \<and> (v = w \<longrightarrow> k \<in> K)) \<and>
     filter (\<lambda>fr. hd fr = w) (outgoing r) @ map (\<lambda>d. [w, d]) (due pb K (inbox (r_validator r))) = map (\<lambda>d. [w, d]) ds \<and>
     length ds \<le> 1 \<and>
     (\<forall>d \<in> set (due pb K (inbox (r_validator r))). r_ids r (Message_CorrelationId (fst (Unmarshal (pbMessage pb) d))) = Some w)"

lemma due_for_ids: "d \<in> set (due_for pb K x) \<Longrightarrow> Message_CorrelationId (fst (Unmarshal (pbMessage pb) d)) \<in> K"
  by (cases "(pb, K, x)" rule: due_for.cases) (auto split: if_splits)

lemma due_ids: "d \<in> set (due pb K xs) \<Longrightarrow> Message_CorrelationId (fst (Unmarshal (pbMessage pb) d)) \<in> K"
  by (induction xs) (auto dest: due_for_ids)

lemma due_answers:
  assumes "\<forall>m. codec_ok (pbMessage pb) m" "\<forall>m \<in> set ms. Message_CorrelationId m \<notin> K"
  shows "due pb K (map (\<lambda>m. Inr [enc pb m]) ms) = []"
  using assms by (induction ms) auto

text \<open>Sending on the two sockets of the main thread.\<close>

lemma send_validator:
  assumes "\<not> sk_closed (conn_socket v)" "sk_deliver (conn_socket v) (peer v) [d] = (p, arr, None)"
  shows "SendData [] d v = (Ret None, set_inbox (inbox v @ arr) (v\<lparr>conn_socket := (conn_socket v)\<lparr>sk_peer := p\<rparr>\<rparr>))"
  using assms by (simp add: SendData_def SendMessage_def)

lemma send_worker:
  assumes "\<not> sk_closed (conn_socket c)" "sk_deliver (conn_socket c) = recorder" "v \<noteq> []"
  shows "SendData v d c = (Ret None, c\<lparr>conn_socket := (conn_socket c)\<lparr>sk_peer := peer c @ [[v, d]]\<rparr>\<rparr>)"
proof -
  have "(conn_socket c)\<lparr>sk_peer := peer c @ [[v, d]], sk_inbox := inbox c @ []\<rparr> = (conn_socket c)\<lparr>sk_peer := peer c @ [[v, d]]\<rparr>"
    by (cases "conn_socket c") simp
  with assms show ?thesis by (simp add: SendData_def SendMessage_def recorder_def)
qed

text \<open>A worker's message goes to the validator.\<close>

lemma receiveWorkers_sends:
  assumes "serving pb view deliver w K ds r" "\<forall>m. codec_ok (pbMessage pb) m"
    and "deliver (peer (r_validator r)) [enc pb m] = (p, arr, None)"
  shows "snd (receiveWorkers pb (main_C pb) (main_C pb)
      (r\<lparr>r_workers := set_inbox (inbox (r_workers r) @ [Inr [v, enc pb m]]) (r_workers r)\<rparr>)) =
    r\<lparr>r_validator := set_inbox (inbox (r_validator r) @ arr) (r_validator (validator_peer p r)),
      r_ids := if Message_MessageType m \<noteq> Message_TP_PROCESS_RESPONSE then (r_ids r)(Message_CorrelationId m \<mapsto> v) else r_ids r\<rparr>"
proof -
  let ?ws = "set_inbox [Inr [v, enc pb m]] (r_workers r)"
  have i: "\<not> sk_closed (conn_socket (r_validator r))" "\<not> sk_closed (conn_socket (r_workers r))" "inbox (r_workers r) = []"
    "sk_deliver (conn_socket (r_validator r)) = deliver"
    using assms(1) by (simp_all add: serving_def)
  have same: "set_inbox [] (r_workers r) = r_workers r" using i(3) by (rule set_inbox_id)
  have dec: "Unmarshal (pbMessage pb) (enc pb m) = (m, None)" using assms(2) by simp
  have recv: "RecvData ?ws = (Ret (v, enc pb m, None), r_workers r)"
    using i(2) same RecvData_frame [of ?ws "[v, enc pb m]" "[]" v "enc pb m"] by (simp add: frame_data_def)
  have send: "SendData [] (enc pb m) (r_validator r) =
      (Ret None, set_inbox (inbox (r_validator r) @ arr) (r_validator (validator_peer p r)))"
    using send_validator [OF i(1), of "enc pb m" p arr] assms(3) i(4) by simp
  show ?thesis
    using recv send i(3)
    by (cases r) (simp add: receiveWorkers_def on_workers_def zmq_Connection_def route_worker_ok [OF dec] on_validator_def bindP_def)
qed

section \<open>The steps keep the invariant\<close>

lemma other_sends:
  assumes "serving pb view deliver w K ds r" "\<forall>m. codec_ok (pbMessage pb) m" "foreign pb view deliver w K (OtherSends v m)"
  shows "serving pb view deliver w K ds (op_step pb (OtherSends v m) r) \<and>
    view (peer (r_validator (op_step pb (OtherSends v m) r))) = view (peer (r_validator r))"
proof -
  from assms(3) have v: "v \<noteq> w" "v \<noteq> []" "Message_CorrelationId m \<notin> K" and "harmless pb view deliver 1 m" by simp_all
  then obtain p ms where p: "deliver (peer (r_validator r)) [enc pb m] = (p, map (\<lambda>m'. Inr [enc pb m']) ms, None)"
    "view p = view (peer (r_validator r))" "\<forall>m' \<in> set ms. Message_CorrelationId m' = Message_CorrelationId m \<and> \<not> is_request m'"
    unfolding harmless_def by blast
  note step = receiveWorkers_sends [OF assms(1,2) p(1), of v]
  have "due pb K (map (\<lambda>m'. Inr [enc pb m']) ms) = []"
    using p(3) v(3) by (intro due_answers [OF assms(2)]) simp
  moreover have "list_all (waiting pb view deliver K) (map (\<lambda>m'. Inr [enc pb m']) ms)"
    using p(3) by (auto simp: list_all_iff waiting_def)
  moreover have "Message_CorrelationId (fst (Unmarshal (pbMessage pb) d)) \<noteq> Message_CorrelationId m"
    if "d \<in> set (due pb K (inbox (r_validator r)))" for d
    using that v(3) due_ids by fastforce
  ultimately show ?thesis
    unfolding op_step.simps step using assms(1) v p(2) by (auto simp: serving_def)
qed

lemma validator_sends:
  assumes "serving pb view deliver w K ds r" "\<forall>m. codec_ok (pbMessage pb) m" "foreign pb view deliver w K (ValidatorSends m)"
  shows "serving pb view deliver w K ds (op_step pb (ValidatorSends m) r)"
  using assms by (auto simp: serving_def waiting_def other_request_def)

text \<open>The main thread reads: the first message that waits, and what it does with it.\<close>

definition taken :: "('p, 'x) main_thread \<Rightarrow> ('p, 'x) main_thread" where
  "taken r = r\<lparr>r_validator := set_inbox (tl (inbox (r_validator r))) (r_validator r)\<rparr>"

lemma taken_fields [simp]:
  "r_ids (taken r) = r_ids r" "r_workers (taken r) = r_workers r" "r_queue (taken r) = r_queue r" "r_cap (taken r) = r_cap r"
  "r_closed (taken r) = r_closed r" "r_validator (taken r) = set_inbox (tl (inbox (r_validator r))) (r_validator r)"
  by (simp_all add: taken_def)

lemma receiveValidator_reads:
  assumes "serving pb view deliver w K ds r" "\<forall>m. codec_ok (pbMessage pb) m" "inbox (r_validator r) = Inr [enc pb m] # xs"
  shows "receiveValidator pb (main_C pb) (main_C pb) r = recovering (route_validator pb (main_C pb) (main_C pb) (enc pb m)) (taken r)"
proof -
  have "\<not> sk_closed (conn_socket (r_validator r))" using assms(1) by (simp add: serving_def)
  then have "RecvData (r_validator r) = (Ret ([], enc pb m, None), set_inbox xs (r_validator r))"
    using assms(3) by (intro RecvData_frame) (auto simp: frame_data_def)
  then show ?thesis
    by (simp add: receiveValidator_def recovering_def on_validator_def zmq_Connection_def bindP_def taken_def assms(3))
qed

text \<open>An answer of the main thread to the validator, a denial or a pong.\<close>

lemma answers_validator:
  assumes "serving pb view deliver w K ds r" "\<forall>m. codec_ok (pbMessage pb) m"
    and "harmless pb view deliver 0 \<lparr>Message_MessageType = t, Message_CorrelationId = k, Message_Content = b\<rparr>"
  obtains p where "on_validator (c_SendMsg (main_C pb) t b k) (taken r) = (Ret None, validator_peer p (taken r))"
    "view p = view (peer (r_validator r))"
proof -
  let ?m = "\<lparr>Message_MessageType = t, Message_CorrelationId = k, Message_Content = b\<rparr>"
  from assms(3) obtain p where p: "deliver (peer (r_validator r)) [enc pb ?m] = (p, [], None)" "view p = view (peer (r_validator r))"
    unfolding harmless_def by fastforce
  have "codec_ok (pbMessage pb) ?m" using assms(2) by blast
  then have d: "DumpMsg (pbMessage pb) t b k = (enc pb ?m, None)" by (auto simp: DumpMsg_def elim: codec_okE)
  let ?v = "r_validator (taken r)"
  have v: "\<not> sk_closed (conn_socket ?v)" "sk_deliver (conn_socket ?v) (peer ?v) [enc pb ?m] = (p, [], None)"
    using assms(1) p(1) by (simp_all add: serving_def)
  have "set_inbox (inbox ?v) (?v\<lparr>conn_socket := (conn_socket ?v)\<lparr>sk_peer := p\<rparr>\<rparr>) = ?v\<lparr>conn_socket := (conn_socket ?v)\<lparr>sk_peer := p\<rparr>\<rparr>"
    by (rule set_inbox_id) simp
  with send_validator [OF v] have "SendMsg (pbMessage pb) t b k ?v = (Ret None, ?v\<lparr>conn_socket := (conn_socket ?v)\<lparr>sk_peer := p\<rparr>\<rparr>)"
    by (simp add: SendMsg_def SendMsgTo_def d del: taken_fields)
  then show thesis using p(2) by (intro that [of p]) (simp_all add: on_validator_def zmq_Connection_def del: taken_fields(6))
qed

lemma taken_serving:
  assumes "serving pb view deliver w K ds r" "inbox (r_validator r) = x # xs" "due_for pb K x = []"
  shows "serving pb view deliver w K ds (taken r)"
  using assms by (simp add: serving_def)

text \<open>Reading a request of the validator.\<close>

lemma taken_same: "taken r = (validator_peer (peer (r_validator r)) (taken r))\<lparr>r_queue := r_queue r\<rparr>"
  by (cases r; cases "r_validator r"; cases "conn_socket (r_validator r)") (simp add: taken_def)

lemma taken_answered: "validator_peer p (taken r) = (validator_peer p (taken r))\<lparr>r_queue := r_queue r\<rparr>"
  by (cases r) (simp add: taken_def)

lemma other_request_harmless:
  assumes "other_request pb view deliver K m"
  shows "harmless pb view deliver 0 \<lparr>Message_MessageType = Message_TP_PROCESS_RESPONSE, Message_CorrelationId = Message_CorrelationId m, Message_Content = b\<rparr>"
    "harmless pb view deliver 0 \<lparr>Message_MessageType = Message_PING_RESPONSE, Message_CorrelationId = Message_CorrelationId m, Message_Content = b\<rparr>"
  using assms unfolding other_request_def by blast+

lemma reads_process_request:
  assumes "serving pb view deliver w K ds r" "\<forall>m. codec_ok (pbMessage pb) m" "inbox (r_validator r) = Inr [enc pb m] # xs"
    and "Message_MessageType m = Message_TP_PROCESS_REQUEST" "other_request pb view deliver K m"
  shows "\<exists>p Q. op_step pb MainReads r = (validator_peer p (taken r))\<lparr>r_queue := Q\<rparr> \<and> view p = view (peer (r_validator r))"
proof -
  let ?k = "Message_CorrelationId m" and ?C = "main_C pb"
  have dec: "Unmarshal (pbMessage pb) (enc pb m) = (m, None)" using assms(2) by simp
  have step: "op_step pb MainReads r = snd (recovering (route_validator pb ?C ?C (enc pb m)) (taken r))"
    using assms(3) receiveValidator_reads [OF assms(1-3)] by simp
  note route = route_validator_request [OF dec assms(4), of ?C ?C "taken r"]
  let ?b = "fst (Marshal (pbTpProcessResponse pb) \<lparr>TpProcessResponse_Status = TpProcessResponse_INTERNAL_ERROR,
          TpProcessResponse_Message = ''Work queue is full, denying request'', TpProcessResponse_ExtendedData = []\<rparr>)"
  obtain p where p: "on_validator (c_SendMsg ?C Message_TP_PROCESS_RESPONSE ?b ?k) (taken r) = (Ret None, validator_peer p (taken r))"
    "view p = view (peer (r_validator r))" by (rule answers_validator [OF assms(1,2) other_request_harmless(1) [OF assms(5)]])
  then have deny: "deny_request pb ?C ?k (taken r) = (Ret (), validator_peer p (taken r))"
    by (simp add: deny_request_def Let_def case_prod_unfold)
  consider "r_closed r" | "\<not> r_closed r" "length (r_queue r) < r_cap r" | "\<not> r_closed r" "\<not> length (r_queue r) < r_cap r" by blast
  then show ?thesis
  proof cases
    case 1
    then have "op_step pb MainReads r = taken r" using step by (simp add: recovering_def route)
    with taken_same [of r] show ?thesis by metis
  next
    case 2
    then have "op_step pb MainReads r = (taken r)\<lparr>r_queue := r_queue r @ [m]\<rparr>" using step by (simp add: recovering_def route)
    also have "\<dots> = (validator_peer (peer (r_validator r)) (taken r))\<lparr>r_queue := r_queue r @ [m]\<rparr>" by (subst taken_same) simp
    finally show ?thesis by blast
  next
    case 3
    then have "op_step pb MainReads r = validator_peer p (taken r)" using step deny by (simp add: recovering_def route)
    with p(2) taken_answered [of p r] show ?thesis by metis
  qed
qed

lemma reads_ping:
  assumes "serving pb view deliver w K ds r" "\<forall>m. codec_ok (pbMessage pb) m" "inbox (r_validator r) = Inr [enc pb m] # xs"
    and "Message_MessageType m = Message_PING_REQUEST" "other_request pb view deliver K m"
  shows "\<exists>p Q. op_step pb MainReads r = (validator_peer p (taken r))\<lparr>r_queue := Q\<rparr> \<and> view p = view (peer (r_validator r))"
proof -
  let ?k = "Message_CorrelationId m" and ?C = "main_C pb"
  have dec: "Unmarshal (pbMessage pb) (enc pb m) = (m, None)" using assms(2) by simp
  have step: "op_step pb MainReads r = snd (recovering (route_validator pb ?C ?C (enc pb m)) (taken r))"
    using assms(3) receiveValidator_reads [OF assms(1-3)] by simp
  obtain p where p: "on_validator (c_SendMsg ?C Message_PING_RESPONSE (fst (Marshal (pbPingResponse pb) PingResponse)) ?k) (taken r) =
      (Ret None, validator_peer p (taken r))" "view p = view (peer (r_validator r))"
    by (rule answers_validator [OF assms(1,2) other_request_harmless(2) [OF assms(5)]])
  then have "op_step pb MainReads r = validator_peer p (taken r)"
    using step by (simp add: recovering_def route_validator_ping [OF dec assms(4)] bindP_def)
  with p(2) taken_answered [of p r] show ?thesis by metis
qed

lemma reads_request:
  assumes "serving pb view deliver w K ds r" "\<forall>m. codec_ok (pbMessage pb) m" "inbox (r_validator r) = Inr [enc pb m] # xs"
    and "is_request m" "other_request pb view deliver K m"
  shows "\<exists>p Q. op_step pb MainReads r = (validator_peer p (taken r))\<lparr>r_queue := Q\<rparr> \<and> view p = view (peer (r_validator r))"
  using assms(4) reads_process_request [OF assms(1-3) _ assms(5)] reads_ping [OF assms(1-3) _ assms(5)]
  by (simp del: op_step.simps) blast

text \<open>Reading an answer of the validator: it goes to the worker that is remembered, if there is one.\<close>

lemma reads_answer:
  assumes "serving pb view deliver w K ds r" "\<forall>m. codec_ok (pbMessage pb) m" "inbox (r_validator r) = Inr [enc pb m] # xs"
    and "\<not> is_request m"
  shows "op_step pb MainReads r =
    (case r_ids r (Message_CorrelationId m) of
       None \<Rightarrow> taken r
     | Some v \<Rightarrow> if Message_CorrelationId m = [] then taken r
        else (taken r)\<lparr>r_workers := (r_workers r)\<lparr>conn_socket := (conn_socket (r_workers r))\<lparr>sk_peer := outgoing r @ [[v, enc pb m]]\<rparr>\<rparr>,
          r_ids := (r_ids r)(Message_CorrelationId m := None)\<rparr>)"
proof -
  let ?C = "main_C pb"
  have dec: "Unmarshal (pbMessage pb) (enc pb m) = (m, None)" using assms(2) by simp
  have step: "op_step pb MainReads r = snd (recovering (route_validator pb ?C ?C (enc pb m)) (taken r))"
    using assms(3) receiveValidator_reads [OF assms(1-3)] by simp
  have c: "\<not> sk_closed (conn_socket (r_workers r))" "sk_deliver (conn_socket (r_workers r)) = recorder"
    "\<And>k v. r_ids r k = Some v \<Longrightarrow> v \<noteq> []"
    using assms(1) by (simp_all add: serving_def)
  have "SendData v (enc pb m) (r_workers r) = (Ret None, (r_workers r)\<lparr>conn_socket := (conn_socket (r_workers r))\<lparr>sk_peer := outgoing r @ [[v, enc pb m]]\<rparr>\<rparr>)"
    if "r_ids r (Message_CorrelationId m) = Some v" for v
    using send_worker [OF c(1,2) c(3) [OF that]] .
  with assms(4) show ?thesis
    unfolding step
    by (cases "r_ids r (Message_CorrelationId m)")
      (simp_all add: recovering_def route_validator_response [OF dec] on_workers_def zmq_Connection_def bindP_def)
qed

lemma serving_first:
  assumes "serving pb view deliver w K ds r" "inbox (r_validator r) = x # xs"
  shows "list_all (waiting pb view deliver K) xs" "\<And>k v. r_ids r k = Some v \<Longrightarrow> v \<noteq> [] \<and> (v = w \<longrightarrow> k \<in> K)"
    "filter (\<lambda>fr. hd fr = w) (outgoing r) @ map (\<lambda>d. [w, d]) (due_for pb K x @ due pb K xs) = map (\<lambda>d. [w, d]) ds" "length ds \<le> 1"
    "\<forall>d \<in> set (due_for pb K x @ due pb K xs). r_ids r (Message_CorrelationId (fst (Unmarshal (pbMessage pb) d))) = Some w"
  using assms unfolding serving_def by auto

text \<open>The answer to the worker's own request goes out to it, and nothing else was on its way.\<close>

lemma reads_own:
  assumes "serving pb view deliver w K ds r" "\<forall>m. codec_ok (pbMessage pb) m" "[] \<notin> K"
    and "inbox (r_validator r) = Inr [enc pb m] # xs" "\<not> is_request m" "Message_CorrelationId m \<in> K"
  shows "serving pb view deliver w K ds (op_step pb MainReads r) \<and>
    view (peer (r_validator (op_step pb MainReads r))) = view (peer (r_validator r)) \<and>
    inbox (r_validator (op_step pb MainReads r)) = xs"
proof -
  let ?k = "Message_CorrelationId m" and ?r' = "op_step pb MainReads r"
  note s = serving_first [OF assms(1,4)]
  have dec: "Unmarshal (pbMessage pb) (enc pb m) = (m, None)" using assms(2) by simp
  have d: "due_for pb K (Inr [enc pb m]) = [enc pb m]" using dec assms(6) by simp
  have k: "r_ids r ?k = Some w" using s(5) unfolding d by (simp add: dec)
  have "length (filter (\<lambda>fr. hd fr = w) (outgoing r)) + length (due_for pb K (Inr [enc pb m]) @ due pb K xs) = length ds"
    using s(3) [THEN arg_cong [of _ _ length]] by simp
  then have "length (filter (\<lambda>fr. hd fr = w) (outgoing r)) = 0 \<and> length (due pb K xs) = 0"
    using s(4) unfolding d length_append by (simp del: length_0_conv)
  then have none: "filter (\<lambda>fr. hd fr = w) (outgoing r) = []" "due pb K xs = []" unfolding length_0_conv by blast+
  have "?r' = (taken r)\<lparr>r_workers := (r_workers r)\<lparr>conn_socket := (conn_socket (r_workers r))\<lparr>sk_peer := outgoing r @ [[w, enc pb m]]\<rparr>\<rparr>,
      r_ids := (r_ids r)(?k := None)\<rparr>"
    using assms(3,6) k unfolding reads_answer [OF assms(1,2,4,5)] by auto
  moreover have "map (\<lambda>d. [w, d]) ds = [[w, enc pb m]]" using s(3) unfolding d none by simp
  ultimately show ?thesis using assms(1,4) s(1,2,4) none by (auto simp: serving_def)
qed

text \<open>An answer to somebody else goes out to them or is dropped.\<close>

lemma reads_others:
  assumes "serving pb view deliver w K ds r" "\<forall>m. codec_ok (pbMessage pb) m"
    and "inbox (r_validator r) = Inr [enc pb m] # xs" "\<not> is_request m" "Message_CorrelationId m \<notin> K"
  shows "serving pb view deliver w K ds (op_step pb MainReads r) \<and>
    view (peer (r_validator (op_step pb MainReads r))) = view (peer (r_validator r)) \<and>
    inbox (r_validator (op_step pb MainReads r)) = xs"
proof -
  let ?k = "Message_CorrelationId m" and ?r' = "op_step pb MainReads r"
  note step = reads_answer [OF assms(1-4)]
  have dec: "Unmarshal (pbMessage pb) (enc pb m) = (m, None)" using assms(2) by simp
  have "due_for pb K (Inr [enc pb m]) = []" using dec assms(5) by simp
  note t = taken_serving [OF assms(1,3) this]
  show ?thesis
  proof (cases "r_ids r ?k = None \<or> ?k = []")
    case True
    then have "?r' = taken r" unfolding step by (auto split: option.split)
    with t assms(3) show ?thesis by simp
  next
    case other: False
    then obtain v where v: "r_ids r ?k = Some v" "?k \<noteq> []" by auto
    with serving_first(2) [OF assms(1,3)] assms(5) have "v \<noteq> w" by blast
    moreover have "?r' = (taken r)\<lparr>r_workers := (r_workers r)\<lparr>conn_socket := (conn_socket (r_workers r))\<lparr>sk_peer := outgoing r @ [[v, enc pb m]]\<rparr>\<rparr>,
      r_ids := (r_ids r)(?k := None)\<rparr>"
      using v unfolding step by simp
    moreover have "Message_CorrelationId (fst (Unmarshal (pbMessage pb) e)) \<noteq> ?k" if "e \<in> set (due pb K xs)" for e
      using that assms(5) due_ids by fastforce
    ultimately show ?thesis using t assms(3) by (auto simp: serving_def)
  qed
qed

lemma main_reads:
  assumes "serving pb view deliver w K ds r" "\<forall>m. codec_ok (pbMessage pb) m" "[] \<notin> K"
  shows "serving pb view deliver w K ds (op_step pb MainReads r) \<and>
    view (peer (r_validator (op_step pb MainReads r))) = view (peer (r_validator r)) \<and>
    inbox (r_validator (op_step pb MainReads r)) = tl (inbox (r_validator r))"
proof (cases "inbox (r_validator r)")
  case Nil
  with assms(1) show ?thesis by simp
next
  case (Cons x xs)
  with assms(1) obtain m where x: "x = Inr [enc pb m]" and m: "is_request m \<longrightarrow> other_request pb view deliver K m"
    by (auto simp: serving_def waiting_def)
  note ib = Cons [unfolded x]
  show ?thesis
  proof (cases "is_request m")
    case True
    with m have o: "other_request pb view deliver K m" by blast
    have "Unmarshal (pbMessage pb) (enc pb m) = (m, None)" using assms(2) by simp
    with o have "due_for pb K x = []" by (simp add: x other_request_def)
    note t = taken_serving [OF assms(1) Cons this]
    from reads_request [OF assms(1,2) ib True o] obtain p Q where
      "op_step pb MainReads r = (validator_peer p (taken r))\<lparr>r_queue := Q\<rparr>" "view p = view (peer (r_validator r))" by blast
    with t show ?thesis by (simp add: serving_def)
  next
    case False
    then show ?thesis
      using reads_own [OF assms ib False] reads_others [OF assms(1,2) ib False] Cons
      by (cases "Message_CorrelationId m \<in> K") simp_all
  qed
qed

lemma op_step_serving:
  assumes "serving pb view deliver w K ds r" "\<forall>m. codec_ok (pbMessage pb) m" "[] \<notin> K" "foreign pb view deliver w K op"
  shows "serving pb view deliver w K ds (op_step pb op r) \<and> view (peer (r_validator (op_step pb op r))) = view (peer (r_validator r))"
proof (cases op)
  case (OtherSends v m)
  with other_sends [OF assms(1,2)] assms(4) show ?thesis by (simp del: op_step.simps foreign.simps)
next
  case (ValidatorSends m)
  with validator_sends [OF assms(1,2)] assms(4) show ?thesis by simp
next
  case MainReads
  with main_reads [OF assms(1-3)] show ?thesis by (simp del: op_step.simps)
next
  case OtherTakes
  with assms(1) show ?thesis by (simp add: serving_def)
qed

lemma ops_run_serving:
  assumes "serving pb view deliver w K ds r" "\<forall>m. codec_ok (pbMessage pb) m" "[] \<notin> K" "list_all (foreign pb view deliver w K) ops"
  shows "serving pb view deliver w K ds (ops_run pb ops r) \<and> view (peer (r_validator (ops_run pb ops r))) = view (peer (r_validator r))"
  using assms(1,4)
proof (induction ops arbitrary: r)
  case (Cons op ops)
  from op_step_serving [OF Cons.prems(1) assms(2,3)] Cons.prems(2) Cons.IH [of "op_step pb op r"] show ?case by simp
qed simp

lemma drained:
  assumes "serving pb view deliver w K ds r" "\<forall>m. codec_ok (pbMessage pb) m" "[] \<notin> K" "n = length (inbox (r_validator r))"
  shows "inbox (r_validator (ops_run pb (replicate n MainReads) r)) = []"
  using assms(1,4)
proof (induction n arbitrary: r)
  case (Suc n)
  note m = main_reads [OF Suc.prems(1) assms(2,3)]
  have "n = length (inbox (r_validator (op_step pb MainReads r)))" using m Suc.prems(2) by (simp del: op_step.simps)
  with Suc.IH [of "op_step pb MainReads r"] m show ?case by (simp del: op_step.simps)
qed simp

section \<open>A turn of the worker\<close>

definition foreign_plan ::
  "tp_pb \<Rightarrow> ('p \<Rightarrow> 'v) \<Rightarrow> ('p \<Rightarrow> bytes list \<Rightarrow> 'p \<times> (go_error + bytes list) list \<times> go_error option) \<Rightarrow> string \<Rightarrow> string set \<Rightarrow>
   (thread_op list \<times> thread_op list) list \<Rightarrow> bool" where
  "foreign_plan pb view deliver w K plan \<longleftrightarrow>
     list_all (\<lambda>(b, a). list_all (foreign pb view deliver w K) b \<and> list_all (foreign pb view deliver w K) a) plan"

lemma foreign_plan_parts:
  assumes "foreign_plan pb view deliver w K (sm_plan q)"
  shows "list_all (foreign pb view deliver w K) (before q)" "list_all (foreign pb view deliver w K) (between q)"
    "foreign_plan pb view deliver w K (tl (sm_plan q))"
  using assms by (cases "sm_plan q"; auto simp: foreign_plan_def before_def between_def)+

text \<open>
  The message of the worker goes to the validator; what the validator answers, at most one
  message under the same correlation id, is what the worker gets in this turn, whatever the
  others do meanwhile.
\<close>

lemma sends_serving:
  assumes "serving pb view deliver w K [] r" "\<forall>m. codec_ok (pbMessage pb) m" "w \<noteq> []"
    and "deliver (peer (r_validator r)) [enc pb m] = (p, map (\<lambda>m'. Inr [enc pb m']) ms, None)"
    and "Message_MessageType m = Message_TP_PROCESS_RESPONSE \<and> ms = [] \<or>
      Message_MessageType m \<noteq> Message_TP_PROCESS_RESPONSE \<and> Message_CorrelationId m \<in> K \<and>
      (\<exists>m'. ms = [m'] \<and> Message_CorrelationId m' = Message_CorrelationId m \<and> \<not> is_request m')"
  shows "serving pb view deliver w K (map (enc pb) ms) (snd (receiveWorkers pb (main_C pb) (main_C pb)
      (r\<lparr>r_workers := set_inbox (inbox (r_workers r) @ [Inr [w, enc pb m]]) (r_workers r)\<rparr>)))"
  unfolding receiveWorkers_sends [OF assms(1,2,4)]
  using assms(5)
proof (elim disjE conjE exE)
  assume "Message_MessageType m = Message_TP_PROCESS_RESPONSE" "ms = []"
  with assms(1) show "serving pb view deliver w K (map (enc pb) ms)
     (r\<lparr>r_validator := set_inbox (inbox (r_validator r) @ map (\<lambda>m'. Inr [enc pb m']) ms) (r_validator (validator_peer p r)),
      r_ids := if Message_MessageType m \<noteq> Message_TP_PROCESS_RESPONSE then (r_ids r)(Message_CorrelationId m \<mapsto> w) else r_ids r\<rparr>)"
    by (simp add: serving_def)
next
  fix m'
  assume m': "Message_MessageType m \<noteq> Message_TP_PROCESS_RESPONSE" "Message_CorrelationId m \<in> K" "ms = [m']"
    "Message_CorrelationId m' = Message_CorrelationId m" "\<not> is_request m'"
  have dec: "Unmarshal (pbMessage pb) (enc pb m') = (m', None)" using assms(2) by simp
  from m' dec assms(1,3) show "serving pb view deliver w K (map (enc pb) ms)
     (r\<lparr>r_validator := set_inbox (inbox (r_validator r) @ map (\<lambda>m'. Inr [enc pb m']) ms) (r_validator (validator_peer p r)),
      r_ids := if Message_MessageType m \<noteq> Message_TP_PROCESS_RESPONSE then (r_ids r)(Message_CorrelationId m \<mapsto> w) else r_ids r\<rparr>)"
    by (auto simp: serving_def waiting_def)
qed

lemma shared_turn_delivers:
  assumes "serving pb view deliver w K [] (sm_main q)" "\<forall>m. codec_ok (pbMessage pb) m" "[] \<notin> K" "w \<noteq> []"
    and "foreign_plan pb view deliver w K (sm_plan q)"
    and "deliver (peer (r_validator (ops_run pb (before q) (sm_main q)))) [enc pb m] = (p, map (\<lambda>m'. Inr [enc pb m']) ms, None)"
    and "Message_MessageType m = Message_TP_PROCESS_RESPONSE \<and> ms = [] \<or>
      Message_MessageType m \<noteq> Message_TP_PROCESS_RESPONSE \<and> Message_CorrelationId m \<in> K \<and>
      (\<exists>m'. ms = [m'] \<and> Message_CorrelationId m' = Message_CorrelationId m \<and> \<not> is_request m')"
  shows "\<exists>r'. shared_turn pb w q [enc pb m] = (\<lparr>sm_main = r', sm_plan = tl (sm_plan q)\<rparr>, map (\<lambda>m'. Inr [enc pb m']) ms, None) \<and>
    serving pb view deliver w K [] r' \<and> view (peer (r_validator r')) = view p"
proof -
  note plan = foreign_plan_parts [OF assms(5)]
  let ?r1 = "ops_run pb (before q) (sm_main q)"
  let ?r2 = "snd (receiveWorkers pb (main_C pb) (main_C pb)
      (?r1\<lparr>r_workers := set_inbox (inbox (r_workers ?r1) @ [Inr [w, enc pb m]]) (r_workers ?r1)\<rparr>))"
  let ?r3 = "ops_run pb (between q) ?r2"
  let ?n = "length (inbox (r_validator ?r3))"
  let ?r4 = "ops_run pb (replicate ?n MainReads) ?r3"
  let ?r5 = "?r4\<lparr>r_workers := (r_workers ?r4)\<lparr>conn_socket := (conn_socket (r_workers ?r4))\<lparr>sk_peer := filter (\<lambda>fr. hd fr \<noteq> w) (outgoing ?r4)\<rparr>\<rparr>\<rparr>"
  have s1: "serving pb view deliver w K [] ?r1" using ops_run_serving [OF assms(1-3) plan(1)] by blast
  have s2: "serving pb view deliver w K (map (enc pb) ms) ?r2" by (rule sends_serving [OF s1 assms(2,4,6,7)])
  have v2: "peer (r_validator ?r2) = p" unfolding receiveWorkers_sends [OF s1 assms(2,6)] by simp
  have s3: "serving pb view deliver w K (map (enc pb) ms) ?r3" and v3: "view (peer (r_validator ?r3)) = view p"
    using ops_run_serving [OF s2 assms(2,3) plan(2)] v2 by simp_all
  have "list_all (foreign pb view deliver w K) (replicate ?n MainReads)" by (simp add: list_all_iff)
  from ops_run_serving [OF s3 assms(2,3) this]
  have s4: "serving pb view deliver w K (map (enc pb) ms) ?r4" and v4: "view (peer (r_validator ?r4)) = view p" using v3 by simp_all
  have ib: "inbox (r_validator ?r4) = []" by (rule drained [OF s3 assms(2,3) refl])
  then have out: "filter (\<lambda>fr. hd fr = w) (outgoing ?r4) = map (\<lambda>d. [w, d]) (map (enc pb) ms)"
    using s4 unfolding serving_def by simp
  have "shared_turn pb w q [enc pb m] = (\<lparr>sm_main = ?r5, sm_plan = tl (sm_plan q)\<rparr>, map (\<lambda>m'. Inr [enc pb m']) ms, None)"
    unfolding shared_turn_def Let_def out by (simp add: comp_def)
  moreover have "serving pb view deliver w K [] ?r5"
    using s4 ib unfolding serving_def by simp
  ultimately show ?thesis using v4 by (intro exI [of _ ?r5]) simp
qed

section \<open>The worker's connection serves its context\<close>

text \<open>
  What is relied on of the validator, for the transaction of context \<open>cid\<close> that came with the
  correlation id \<open>k0\<close>: it serves the state of the context, and a process response under \<open>k0\<close> is
  taken as one more answer (\<open>ans\<close>) to it.
\<close>

definition context_contract ::
  "tp_pb \<Rightarrow> string \<Rightarrow> ('p \<Rightarrow> string \<Rightarrow> bytes) \<Rightarrow> (string \<Rightarrow> bool) \<Rightarrow> (string \<Rightarrow> bool) \<Rightarrow>
   ('p \<Rightarrow> Message_MessageType \<Rightarrow> bytes \<Rightarrow> (Message_MessageType \<times> bytes \<times> 'p) option) \<Rightarrow> ('p \<Rightarrow> bytes list) \<Rightarrow> string \<Rightarrow>
   ('p \<Rightarrow> bytes list \<Rightarrow> 'p \<times> (go_error + bytes list) list \<times> go_error option) \<Rightarrow> bool" where
  "context_contract pb cid st rd wr react ans k0 deliver \<longleftrightarrow>
     serves_state pb cid st rd wr react \<and> state_codecs_ok pb \<and> (\<forall>m. codec_ok (pbMessage pb) m) \<and>
     peer_reacts (pbMessage pb) deliver react \<and>
     (\<forall>p t b t' b' p'. react p t b = Some (t', b', p') \<longrightarrow> ans p' = ans p \<and> t \<noteq> Message_TP_PROCESS_RESPONSE \<and>
        t' \<notin> {Message_TP_PROCESS_REQUEST, Message_PING_REQUEST}) \<and>
     (\<forall>p b. \<exists>p'. deliver p [fst (DumpMsg (pbMessage pb) Message_TP_PROCESS_RESPONSE b k0)] = (p', [], None) \<and>
        st p' = st p \<and> ans p' = ans p @ [b])"

abbreviation shared_validator :: "('p, 'x) shared_main ZmqConnection \<Rightarrow> 'p" where
  "shared_validator s \<equiv> peer (r_validator (sm_main (peer s)))"

definition shared_conn ::
  "tp_pb \<Rightarrow> string \<Rightarrow> ('p \<Rightarrow> string \<Rightarrow> bytes) \<Rightarrow> (string \<Rightarrow> bool) \<Rightarrow> (string \<Rightarrow> bool) \<Rightarrow>
   ('p \<Rightarrow> Message_MessageType \<Rightarrow> bytes \<Rightarrow> (Message_MessageType \<times> bytes \<times> 'p) option) \<Rightarrow> ('p \<Rightarrow> bytes list) \<Rightarrow> string \<Rightarrow>
   ('p \<Rightarrow> bytes list \<Rightarrow> 'p \<times> (go_error + bytes list) list \<times> go_error option) \<Rightarrow> string \<Rightarrow> bytes list \<Rightarrow>
   ('p, 'x) shared_main ZmqConnection \<Rightarrow> bool" where
  "shared_conn pb cid st rd wr react ans k0 deliver w A s \<longleftrightarrow>
     context_contract pb cid st rd wr react ans k0 deliver \<and> w \<noteq> [] \<and> (\<forall>n. conn_uuid s n \<noteq> []) \<and>
     serving pb (\<lambda>p. (st p, ans p)) deliver w (range (conn_uuid s)) [] (sm_main (peer s)) \<and>
     foreign_plan pb (\<lambda>p. (st p, ans p)) deliver w (range (conn_uuid s)) (sm_plan (peer s)) \<and>
     sk_deliver (conn_socket s) = shared_turn pb w \<and> \<not> sk_closed (conn_socket s) \<and> inbox s = [] \<and> conn_incoming s = [] \<and>
     ans (shared_validator s) = A"

text \<open>The answer to a request of the worker, and the state after its turn.\<close>

definition shared_reply ::
  "tp_pb \<Rightarrow> ('p \<Rightarrow> Message_MessageType \<Rightarrow> bytes \<Rightarrow> (Message_MessageType \<times> bytes \<times> 'p) option) \<Rightarrow> string \<Rightarrow>
   ('p, 'x) shared_main ZmqConnection \<Rightarrow> Message_MessageType \<Rightarrow> bytes \<Rightarrow>
   (Message_MessageType \<times> bytes \<times> ('p, 'x) shared_main ZmqConnection) option" where
  "shared_reply pb react w s t b =
    map_option (\<lambda>(t', b', p). (t', b', s\<lparr>conn_uuid_next := Suc (conn_uuid_next s), conn_socket := (conn_socket s)\<lparr>
        sk_peer := fst (shared_turn pb w (peer s) [fst (DumpMsg (pbMessage pb) t b (conn_uuid s (conn_uuid_next s)))])\<rparr>\<rparr>))
      (react (peer (r_validator (ops_run pb (before (peer s)) (sm_main (peer s))))) t b)"

lemma shared_exchange:
  assumes "shared_conn pb cid st rd wr react ans k0 deliver w A s" "shared_reply pb react w s t b = Some (t', b', s')"
  defines "k \<equiv> conn_uuid s (conn_uuid_next s)"
  shows "\<exists>s1 p. react (peer (r_validator (ops_run pb (before (peer s)) (sm_main (peer s))))) t b = Some (t', b', p) \<and>
    SendNewMsg (pbMessage pb) t b s = (Ret (k, None), s1) \<and>
    RecvMsgWithId (pbMessage pb) k s1 = (Ret ([], Some \<lparr>Message_MessageType = t',
      Message_CorrelationId = k, Message_Content = b'\<rparr>, None), s') \<and>
    shared_conn pb cid st rd wr react ans k0 deliver w A s' \<and> st (shared_validator s') = st p"
proof -
  let ?cm = "pbMessage pb" and ?view = "\<lambda>p. (st p, ans p)" and ?K = "range (conn_uuid s)" and ?q = "peer s"
  let ?p1 = "peer (r_validator (ops_run pb (before ?q) (sm_main ?q)))"
  from assms(1) have con: "context_contract pb cid st rd wr react ans k0 deliver" and w: "w \<noteq> []" and "\<forall>n. conn_uuid s n \<noteq> []"
    and sv: "serving pb ?view deliver w ?K [] (sm_main ?q)" and plan: "foreign_plan pb ?view deliver w ?K (sm_plan ?q)"
    and turn: "sk_deliver (conn_socket s) = shared_turn pb w"
    and s: "\<not> sk_closed (conn_socket s)" "inbox s = []" "conn_incoming s = []"
    by (auto simp: shared_conn_def)
  then have K: "[] \<notin> ?K" by (metis rangeE)
  from assms(2) obtain p where p: "react ?p1 t b = Some (t', b', p)" by (auto simp: shared_reply_def)
  have ok: "\<forall>m. codec_ok ?cm m" using con by (simp add: context_contract_def)
  have types: "t \<noteq> Message_TP_PROCESS_RESPONSE" "t' \<notin> {Message_TP_PROCESS_REQUEST, Message_PING_REQUEST}" "ans p = ans ?p1"
    using con p unfolding context_contract_def by blast+
  let ?m = "\<lparr>Message_MessageType = t, Message_CorrelationId = k, Message_Content = b\<rparr>"
  let ?m' = "\<lparr>Message_MessageType = t', Message_CorrelationId = k, Message_Content = b'\<rparr>"
  have d: "fst (DumpMsg ?cm t b k) = enc pb ?m" "fst (DumpMsg ?cm t' b' k) = enc pb ?m'" by (simp_all add: DumpMsg_def)
  have "deliver ?p1 [fst (DumpMsg ?cm t b k)] = (p, [Inr [fst (DumpMsg ?cm t' b' k)]], None)"
    using con p by (simp add: context_contract_def peer_reacts_def)
  then have dl: "deliver ?p1 [enc pb ?m] = (p, map (\<lambda>m'. Inr [enc pb m']) [?m'], None)" by (simp add: d)
  obtain r' where r': "shared_turn pb w ?q [enc pb ?m] = (\<lparr>sm_main = r', sm_plan = tl (sm_plan ?q)\<rparr>, [Inr [enc pb ?m']], None)"
    "serving pb ?view deliver w ?K [] r'" "?view (peer (r_validator r')) = ?view p"
    using shared_turn_delivers [OF sv ok K w plan dl] types by (auto simp: k_def)
  have "?view ?p1 = ?view (peer (r_validator (sm_main ?q)))"
    using ops_run_serving [OF sv ok K foreign_plan_parts(1) [OF plan]] by blast
  with types(3) r'(3) assms(1) have ans': "ans (peer (r_validator r')) = A" by (simp add: shared_conn_def)
  let ?q' = "\<lparr>sm_main = r', sm_plan = tl (sm_plan ?q)\<rparr>"
  have s': "s' = s\<lparr>conn_uuid_next := Suc (conn_uuid_next s), conn_socket := (conn_socket s)\<lparr>sk_peer := ?q'\<rparr>\<rparr>"
    using assms(2) p r'(1) by (simp add: shared_reply_def d k_def [symmetric])
  let ?s1 = "s\<lparr>conn_uuid_next := Suc (conn_uuid_next s), conn_socket := (conn_socket s)\<lparr>sk_peer := ?q', sk_inbox := [Inr [enc pb ?m']]\<rparr>\<rparr>"
  have send: "SendNewMsg ?cm t b s = (Ret (k, None), ?s1)"
    using SendNewMsg_delivers [OF s(1) ok [rule_format, of ?m] k_def [THEN meta_eq_to_obj_eq]] r'(1) s(2) by (simp add: turn d)
  have dec: "Unmarshal ?cm (enc pb ?m') = (?m', None)" using ok by simp
  have "RecvMsgWithId_loop ?cm k ?s1 = (Ret ([], Some ?m', None), set_inbox [] ?s1)"
    using s dec by (intro RecvMsgWithId_loop_hit [where fr = "[enc pb ?m']"]) (auto simp: frame_data_def)
  moreover have "set_inbox [] ?s1 = s'" using s(2) by (cases s; cases "conn_socket s") (simp add: s')
  ultimately have recv: "RecvMsgWithId ?cm k ?s1 = (Ret ([], Some ?m', None), s')"
    using s(3) by (simp add: RecvMsgWithId_def)
  have "shared_conn pb cid st rd wr react ans k0 deliver w A s'"
    using assms(1) r'(2) ans' foreign_plan_parts(3) [OF plan] by (simp add: shared_conn_def s')
  moreover have "st (shared_validator s') = st p" using r'(3) by (simp add: s')
  ultimately show ?thesis using p send recv by blast
qed

lemma shared_before:
  assumes "shared_conn pb cid st rd wr react ans k0 deliver w A s"
  shows "st (peer (r_validator (ops_run pb (before (peer s)) (sm_main (peer s))))) = st (shared_validator s)"
proof -
  let ?view = "\<lambda>p. (st p, ans p)" and ?K = "range (conn_uuid s)"
  from assms have "\<forall>n. conn_uuid s n \<noteq> []" and sv: "serving pb ?view deliver w ?K [] (sm_main (peer s))"
    and plan: "foreign_plan pb ?view deliver w ?K (sm_plan (peer s))" and ok: "\<forall>m. codec_ok (pbMessage pb) m"
    by (auto simp: shared_conn_def context_contract_def)
  then have "[] \<notin> ?K" by (metis rangeE)
  from ops_run_serving [OF sv ok this foreign_plan_parts(1) [OF plan]] show ?thesis by blast
qed

lemma shared_replies:
  assumes "shared_conn pb cid st rd wr react ans k0 deliver w A s"
    and "react (peer (r_validator (ops_run pb (before (peer s)) (sm_main (peer s))))) t b = Some (t', b', p)"
  shows "\<exists>s'. shared_reply pb react w s t b = Some (t', b', s') \<and> st (shared_validator s') = st p"
proof -
  from assms(2) obtain s' where s': "shared_reply pb react w s t b = Some (t', b', s')" by (simp add: shared_reply_def)
  from shared_exchange [OF assms(1) this] assms(2) s' show ?thesis by auto
qed

text \<open>A process response of the worker reaches the validator and adds one answer.\<close>

lemma shared_SendMsg_response:
  assumes "shared_conn pb cid st rd wr react ans k0 deliver w A s"
  obtains s' where "SendMsg (pbMessage pb) Message_TP_PROCESS_RESPONSE b k0 s = (Ret None, s')"
    "shared_conn pb cid st rd wr react ans k0 deliver w (A @ [b]) s'" "st (shared_validator s') = st (shared_validator s)"
proof -
  let ?cm = "pbMessage pb" and ?view = "\<lambda>p. (st p, ans p)" and ?K = "range (conn_uuid s)" and ?q = "peer s"
  let ?p1 = "peer (r_validator (ops_run pb (before ?q) (sm_main ?q)))"
  let ?m = "\<lparr>Message_MessageType = Message_TP_PROCESS_RESPONSE, Message_CorrelationId = k0, Message_Content = b\<rparr>"
  from assms have con: "context_contract pb cid st rd wr react ans k0 deliver" and w: "w \<noteq> []" and "\<forall>n. conn_uuid s n \<noteq> []"
    and sv: "serving pb ?view deliver w ?K [] (sm_main ?q)" and plan: "foreign_plan pb ?view deliver w ?K (sm_plan ?q)"
    and turn: "sk_deliver (conn_socket s) = shared_turn pb w" and s: "\<not> sk_closed (conn_socket s)" "inbox s = []"
    by (auto simp: shared_conn_def)
  then have K: "[] \<notin> ?K" by (metis rangeE)
  have ok: "\<forall>m. codec_ok ?cm m" using con by (simp add: context_contract_def)
  then have "codec_ok ?cm ?m" by blast
  then have d: "DumpMsg ?cm Message_TP_PROCESS_RESPONSE b k0 = (enc pb ?m, None)" by (auto simp: DumpMsg_def elim: codec_okE)
  from con have "\<exists>p'. deliver ?p1 [fst (DumpMsg ?cm Message_TP_PROCESS_RESPONSE b k0)] = (p', [], None) \<and>
      st p' = st ?p1 \<and> ans p' = ans ?p1 @ [b]" unfolding context_contract_def by blast
  then obtain p where p: "deliver ?p1 [enc pb ?m] = (p, [], None)" "st p = st ?p1" "ans p = ans ?p1 @ [b]" by (auto simp: d)
  obtain r' where r': "shared_turn pb w ?q [enc pb ?m] = (\<lparr>sm_main = r', sm_plan = tl (sm_plan ?q)\<rparr>, [], None)"
    "serving pb ?view deliver w ?K [] r'" "?view (peer (r_validator r')) = ?view p"
    using shared_turn_delivers [OF sv ok K w plan, of ?m p "[]"] p(1) by auto
  have same: "?view ?p1 = ?view (peer (r_validator (sm_main ?q)))"
    using ops_run_serving [OF sv ok K foreign_plan_parts(1) [OF plan]] by blast
  let ?s' = "s\<lparr>conn_socket := (conn_socket s)\<lparr>sk_peer := \<lparr>sm_main = r', sm_plan = tl (sm_plan ?q)\<rparr>, sk_inbox := inbox s @ []\<rparr>\<rparr>"
  have "SendMsg ?cm Message_TP_PROCESS_RESPONSE b k0 s = (Ret None, ?s')"
    using s(1) r'(1) by (simp add: SendMsg_def SendMsgTo_def SendData_def SendMessage_def d turn)
  moreover have "shared_conn pb cid st rd wr react ans k0 deliver w (A @ [b]) ?s'"
    using assms r'(2,3) p(3) same foreign_plan_parts(3) [OF plan] by (simp add: shared_conn_def)
  ultimately show thesis using r'(3) p(2) same by (intro that [of ?s']) simp_all
qed

interpretation concurrent: state_service "zmq_Connection (pbMessage pb)" "shared_conn pb cid st rd wr react ans k0 deliver w A"
    "shared_reply pb react w" pb cid "\<lambda>s. st (shared_validator s)" rd wr
  for pb cid st rd wr react ans k0 deliver w A
proof (unfold_locales, goal_cases)
  case (1 s t b t' b' s')
  from shared_exchange [OF this] show ?case by (auto simp: zmq_Connection_def)
next
  case (2 s t b t' b' s')
  from shared_exchange [OF this] show ?case by blast
next
  case (3 s)
  then show ?case by (simp add: shared_conn_def context_contract_def)
next
  case (4 s as)
  let ?p1 = "peer (r_validator (ops_run pb (before (peer s)) (sm_main (peer s))))"
  have "serves_state pb cid st rd wr react" using 4 by (simp add: shared_conn_def context_contract_def)
  then obtain p' where p': "react ?p1 Message_TP_STATE_GET_REQUEST (fst (Marshal (pbTpStateGetRequest pb)
         \<lparr>TpStateGetRequest_ContextId = cid, TpStateGetRequest_Addresses = as\<rparr>)) =
       Some (Message_TP_STATE_GET_RESPONSE,
         fst (Marshal (pbTpStateGetResponse pb) (get_response rd (st ?p1) as)), p')" "st p' = st ?p1"
    unfolding serves_state_def by blast
  from shared_replies [OF 4 p'(1)] p'(2) show ?case unfolding shared_before [OF 4] by auto
next
  case (5 s ps)
  let ?p1 = "peer (r_validator (ops_run pb (before (peer s)) (sm_main (peer s))))"
  have "serves_state pb cid st rd wr react" using 5(1) by (simp add: shared_conn_def context_contract_def)
  with 5(2) obtain p' where p': "react ?p1 Message_TP_STATE_SET_REQUEST (fst (Marshal (pbTpStateSetRequest pb)
         \<lparr>TpStateSetRequest_ContextId = cid, TpStateSetRequest_Entries =
            map (\<lambda>(a, d). \<lparr>TpStateEntry_Address = a, TpStateEntry_Data = d\<rparr>) ps\<rparr>)) =
       Some (Message_TP_STATE_SET_RESPONSE, fst (Marshal (pbTpStateSetResponse pb) (set_response wr ps)), p')"
     "st p' = (if list_all wr (map fst ps) then state_upd (st ?p1) ps else st ?p1)"
    unfolding serves_state_def by blast
  from shared_replies [OF 5(1) p'(1)] p'(2) show ?case unfolding shared_before [OF 5(1)] by auto
next
  case (6 s as)
  let ?p1 = "peer (r_validator (ops_run pb (before (peer s)) (sm_main (peer s))))"
  have "serves_state pb cid st rd wr react" using 6 by (simp add: shared_conn_def context_contract_def)
  then obtain p' where p': "react ?p1 Message_TP_STATE_DELETE_REQUEST (fst (Marshal (pbTpStateDeleteRequest pb)
         \<lparr>TpStateDeleteRequest_ContextId = cid, TpStateDeleteRequest_Addresses = as\<rparr>)) =
       Some (Message_TP_STATE_DELETE_RESPONSE,
         fst (Marshal (pbTpStateDeleteResponse pb) (delete_response wr (st ?p1) as)), p')"
     "st p' = (if list_all wr as then (\<lambda>a. if a \<in> set as then [] else st ?p1 a) else st ?p1)"
    unfolding serves_state_def by blast
  from shared_replies [OF 6 p'(1)] p'(2) show ?case unfolding shared_before [OF 6] by auto
qed

section \<open>Transactions among others\<close>

text \<open>
  A handler that has the verdict of a specification on the worker's connection: the worker
  answers the request with one response that says the verdict, or panics with the handler.
\<close>

lemma concurrent_verdict:
  assumes "shared_conn pb cid st rd wr react ans k0 deliver w A s" "family_message pb h fits m"
    and "TpProcessRequest_ContextId (request_of pb m) = cid" "Message_CorrelationId m = k0" "\<forall>r. codec_ok (pbTpProcessResponse pb) r"
    and "\<exists>r s1. h_Apply h (request_of pb m) (methods pb (NewContext (zmq_Connection (pbMessage pb)) cid)) s = (r, s1) \<and>
       (case v of
          Crash \<Rightarrow> \<exists>e. r = Panic e
        | Refuse \<Rightarrow> (\<exists>e. r = Ret (Some e)) \<and> shared_conn pb cid st rd wr react ans k0 deliver w A s1 \<and>
            good (st (shared_validator s1)) \<and> abst (st (shared_validator s1)) = abst (st (shared_validator s))
        | Commit M \<Rightarrow> r = Ret None \<and> shared_conn pb cid st rd wr react ans k0 deliver w A s1 \<and>
            good (st (shared_validator s1)) \<and> abst (st (shared_validator s1)) = M)"
  shows "case v of
      Crash \<Rightarrow> \<exists>e s'. worker_step pb (zmq_Connection (pbMessage pb)) [h] m s = (Panic e, s')
    | v \<Rightarrow> \<exists>s' b. worker_step pb (zmq_Connection (pbMessage pb)) [h] m s = (Ret True, s') \<and>
        shared_conn pb cid st rd wr react ans k0 deliver w (A @ [b]) s' \<and> good (st (shared_validator s')) \<and>
        (v = Refuse \<and> \<not> accepted pb b \<and> abst (st (shared_validator s')) = abst (st (shared_validator s)) \<or>
         v = Commit (abst (st (shared_validator s'))) \<and> accepted pb b)"
proof -
  let ?C = "zmq_Connection (pbMessage pb)" and ?q = "request_of pb m"
  have returns: "\<exists>s' b. worker_step pb ?C [h] m s = (Ret True, s') \<and> shared_conn pb cid st rd wr react ans k0 deliver w (A @ [b]) s' \<and>
      st (shared_validator s') = st (shared_validator s1) \<and> (accepted pb b \<longleftrightarrow> e = None)"
    if ap: "h_Apply h ?q (methods pb (NewContext ?C cid)) s = (Ret e, s1)"
      and s1: "shared_conn pb cid st rd wr react ans k0 deliver w A s1" for e s1
  proof -
    obtain b where b: "accepted pb b \<longleftrightarrow> e = None"
      "\<And>s2. c_SendMsg ?C Message_TP_PROCESS_RESPONSE b k0 s1 = (Ret None, s2) \<Longrightarrow> worker_step pb ?C [h] m s = (Ret True, s2)"
      using worker_step_returns [OF assms(2) assms(5) [rule_format], of ?C s e s1] ap assms(3,4) by blast
    obtain s' where s': "SendMsg (pbMessage pb) Message_TP_PROCESS_RESPONSE b k0 s1 = (Ret None, s')"
      "shared_conn pb cid st rd wr react ans k0 deliver w (A @ [b]) s'" "st (shared_validator s') = st (shared_validator s1)"
      by (rule shared_SendMsg_response [OF s1])
    have "worker_step pb ?C [h] m s = (Ret True, s')" using b(2) s'(1) by (simp add: zmq_Connection_def)
    with s'(2,3) b(1) show ?thesis by blast
  qed
  from assms(6) obtain r s1 where ap: "h_Apply h ?q (methods pb (NewContext ?C cid)) s = (r, s1)" and v: "case v of
          Crash \<Rightarrow> \<exists>e. r = Panic e
        | Refuse \<Rightarrow> (\<exists>e. r = Ret (Some e)) \<and> shared_conn pb cid st rd wr react ans k0 deliver w A s1 \<and>
            good (st (shared_validator s1)) \<and> abst (st (shared_validator s1)) = abst (st (shared_validator s))
        | Commit M \<Rightarrow> r = Ret None \<and> shared_conn pb cid st rd wr react ans k0 deliver w A s1 \<and>
            good (st (shared_validator s1)) \<and> abst (st (shared_validator s1)) = M" by blast
  show ?thesis
  proof (cases v)
    case Crash
    with v obtain e where "r = Panic e" by auto
    with ap assms(3) have "h_Apply h ?q (methods pb (NewContext ?C (TpProcessRequest_ContextId ?q))) s = (Panic e, s1)" by simp
    from worker_step_panics [OF assms(2) this] Crash show ?thesis by simp
  next
    case Refuse
    with v obtain e where e: "r = Ret (Some e)" and s1: "shared_conn pb cid st rd wr react ans k0 deliver w A s1"
      "good (st (shared_validator s1))" "abst (st (shared_validator s1)) = abst (st (shared_validator s))" by auto
    from returns [OF ap [unfolded e] s1(1)] s1(2,3) Refuse show ?thesis by auto
  next
    case (Commit M)
    with v have e: "r = Ret None" and s1: "shared_conn pb cid st rd wr react ans k0 deliver w A s1"
      "good (st (shared_validator s1))" "abst (st (shared_validator s1)) = M" by auto
    from returns [OF ap [unfolded e] s1(1)] s1(2,3) Commit show ?thesis by auto
  qed
qed

text \<open>A smallbank transaction and an xo transaction among others; intkey is a property below.\<close>

theorem smallbank_worker_isolated:
  assumes "shared_conn pb cid st rd wr react ans k0 deliver w A s" "smallbank_state sb rd wr (st (shared_validator s))"
    and "family_message pb (smallbank_handler sb :: ('p, 'x) shared_main ZmqConnection TransactionHandler) (\<lambda>q. True) m"
    and "TpProcessRequest_ContextId (request_of pb m) = cid" "Message_CorrelationId m = k0" "\<forall>r. codec_ok (pbTpProcessResponse pb) r"
  shows "case smallbank_verdict sb (request_of pb m) (bank_of sb (st (shared_validator s))) of
      Crash \<Rightarrow> \<exists>e s'. worker_step pb (zmq_Connection (pbMessage pb)) [smallbank_handler sb] m s = (Panic e, s' :: ('p, 'x) shared_main ZmqConnection)
    | v \<Rightarrow> \<exists>s' b. worker_step pb (zmq_Connection (pbMessage pb)) [smallbank_handler sb] m s = (Ret True, s') \<and>
        shared_conn pb cid st rd wr react ans k0 deliver w (A @ [b]) s' \<and> smallbank_state sb rd wr (st (shared_validator s')) \<and>
        (v = Refuse \<and> \<not> accepted pb b \<and> bank_of sb (st (shared_validator s')) = bank_of sb (st (shared_validator s)) \<or>
         v = Commit (bank_of sb (st (shared_validator s'))) \<and> accepted pb b)"
  by (rule concurrent_verdict [OF assms(1,3-6)])
    (use concurrent.Smallbank_Apply_verdict [OF assms(1,2), of "request_of pb m"] in \<open>simp add: smallbank_handler_def\<close>)

theorem xo_worker_isolated:
  assumes "shared_conn pb cid st rd wr react ans k0 deliver w A s" "xo_state rd wr (st (shared_validator s))"
    and "family_message pb (xo_handler :: ('p, 'x) shared_main ZmqConnection TransactionHandler) xo_fits m"
    and "TpProcessRequest_ContextId (request_of pb m) = cid" "Message_CorrelationId m = k0" "\<forall>r. codec_ok (pbTpProcessResponse pb) r"
  shows "case xo_verdict (request_of pb m) (xo_game (st (shared_validator s))) of
      Crash \<Rightarrow> \<exists>e s'. worker_step pb (zmq_Connection (pbMessage pb)) [xo_handler] m s = (Panic e, s' :: ('p, 'x) shared_main ZmqConnection)
    | v \<Rightarrow> \<exists>s' b. worker_step pb (zmq_Connection (pbMessage pb)) [xo_handler] m s = (Ret True, s') \<and>
        shared_conn pb cid st rd wr react ans k0 deliver w (A @ [b]) s' \<and> xo_state rd wr (st (shared_validator s')) \<and>
        (v = Refuse \<and> \<not> accepted pb b \<and> xo_game (st (shared_validator s')) = xo_game (st (shared_validator s)) \<or>
         v = Commit (xo_game (st (shared_validator s'))) \<and> accepted pb b)"
proof -
  have "xo_fits (request_of pb m)" using assms(3) by (simp add: family_message_def Let_def)
  from concurrent.Xo_Apply_verdict [OF assms(1,2) this] show ?thesis
    by (intro concurrent_verdict [OF assms(1,3-6)]) (simp add: xo_handler_def)
qed

section \<open>A validator that keeps contexts apart\<close>

text \<open>The state of every context, and the process responses received so far.\<close>

type_synonym contexts = "(string \<Rightarrow> string \<Rightarrow> bytes) \<times> (string \<times> bytes) list"

definition context_of :: "tp_pb \<Rightarrow> Message_MessageType \<Rightarrow> bytes \<Rightarrow> string" where
  "context_of pb t b =
    (if t = Message_TP_STATE_GET_REQUEST then TpStateGetRequest_ContextId (fst (Unmarshal (pbTpStateGetRequest pb) b))
     else if t = Message_TP_STATE_SET_REQUEST then TpStateSetRequest_ContextId (fst (Unmarshal (pbTpStateSetRequest pb) b))
     else TpStateDeleteRequest_ContextId (fst (Unmarshal (pbTpStateDeleteRequest pb) b)))"

definition contexts_react ::
  "tp_pb \<Rightarrow> contexts \<Rightarrow> Message_MessageType \<Rightarrow> bytes \<Rightarrow> (Message_MessageType \<times> bytes \<times> contexts) option" where
  "contexts_react pb p t b = (let c = context_of pb t b in
     map_option (\<lambda>(t', b', f). (t', b', ((fst p)(c := f), snd p))) (validator_react pb (\<lambda>a. True) (\<lambda>a. True) (fst p c) t b))"

definition contexts_deliver :: "tp_pb \<Rightarrow> contexts \<Rightarrow> bytes list \<Rightarrow> contexts \<times> (go_error + bytes list) list \<times> go_error option" where
  "contexts_deliver pb p frs =
    (case frs of
       [d] \<Rightarrow> (let m = fst (Unmarshal (pbMessage pb) d) in
          if Message_MessageType m = Message_TP_PROCESS_RESPONSE
          then ((fst p, snd p @ [(Message_CorrelationId m, Message_Content m)]), [], None)
          else answering (pbMessage pb) (contexts_react pb) p frs)
     | _ \<Rightarrow> (p, [], None))"

text \<open>What a transaction sees: the state of its context and the answers under its correlation id.\<close>

abbreviation context_state :: "string \<Rightarrow> contexts \<Rightarrow> string \<Rightarrow> bytes" where
  "context_state cid p \<equiv> fst p cid"

definition answers_to :: "string \<Rightarrow> contexts \<Rightarrow> bytes list" where
  "answers_to k p = map snd (filter (\<lambda>x. fst x = k) (snd p))"

lemma contexts_react_types:
  assumes "contexts_react pb p t b = Some (t', b', p')"
  shows "snd p' = snd p" "t \<noteq> Message_TP_PROCESS_RESPONSE" "t' \<notin> {Message_TP_PROCESS_REQUEST, Message_PING_REQUEST}"
    "cid \<noteq> context_of pb t b \<Longrightarrow> context_state cid p' = context_state cid p"
  using assms by (auto simp: contexts_react_def validator_react_def Let_def split: if_splits)

lemma contexts_serves: "serves_state unary_tp_pb cid (context_state cid) (\<lambda>a. True) (\<lambda>a. True) (contexts_react unary_tp_pb)"
  unfolding serves_state_def
  by (auto simp: contexts_react_def context_of_def validator_react_def Let_def comp_def case_prod_unfold)

lemma contexts_contract:
  "context_contract unary_tp_pb cid (context_state cid) (\<lambda>a. True) (\<lambda>a. True) (contexts_react unary_tp_pb) (answers_to k0) k0
     (contexts_deliver unary_tp_pb)"
  unfolding context_contract_def
proof (intro conjI contexts_serves)
  show "peer_reacts (pbMessage unary_tp_pb) (contexts_deliver unary_tp_pb) (contexts_react unary_tp_pb)"
    using contexts_react_types(2) by (auto simp: peer_reacts_def contexts_deliver_def answering_def DumpMsg_def Let_def)
  show "\<forall>p b. \<exists>p'. contexts_deliver unary_tp_pb p [fst (DumpMsg (pbMessage unary_tp_pb) Message_TP_PROCESS_RESPONSE b k0)] = (p', [], None) \<and>
        context_state cid p' = context_state cid p \<and> answers_to k0 p' = answers_to k0 p @ [b]"
    by (simp add: contexts_deliver_def DumpMsg_def answers_to_def)
qed (use contexts_react_types in \<open>auto simp: answers_to_def\<close>)

text \<open>Requests in other contexts, and responses to other requests, are harmless.\<close>

lemma contexts_harmless:
  assumes "Message_MessageType m \<noteq> Message_TP_PROCESS_RESPONSE" "context_of unary_tp_pb (Message_MessageType m) (Message_Content m) \<noteq> cid"
  shows "harmless unary_tp_pb (\<lambda>p. (context_state cid p, answers_to k0 p)) (contexts_deliver unary_tp_pb) 1 m"
  unfolding harmless_def
proof
  fix p
  let ?t = "Message_MessageType m" and ?b = "Message_Content m" and ?k = "Message_CorrelationId m"
  show "\<exists>p' ms. contexts_deliver unary_tp_pb p [enc unary_tp_pb m] = (p', map (\<lambda>m'. Inr [enc unary_tp_pb m']) ms, None) \<and>
     length ms \<le> 1 \<and> (context_state cid p', answers_to k0 p') = (context_state cid p, answers_to k0 p) \<and>
     (\<forall>m' \<in> set ms. Message_CorrelationId m' = ?k \<and> \<not> is_request m')"
  proof (cases "contexts_react unary_tp_pb p ?t ?b")
    case None
    with assms(1) show ?thesis
      by (intro exI [of _ p] exI [of _ "[]"]) (simp add: contexts_deliver_def answering_def)
  next
    case (Some x)
    obtain t' b' p' where x: "x = (t', b', p')" by (cases x)
    note ty = contexts_react_types [OF Some [unfolded x]]
    show ?thesis
      using Some x ty(1,3) ty(4) [of cid] assms
      by (intro exI [of _ p'] exI [of _ "[\<lparr>Message_MessageType = t', Message_CorrelationId = ?k, Message_Content = b'\<rparr>]"])
        (auto simp: contexts_deliver_def answering_def DumpMsg_def answers_to_def)
  qed
qed

lemma contexts_harmless_response:
  assumes "k \<noteq> k0" "t \<in> {Message_TP_PROCESS_RESPONSE, Message_PING_RESPONSE}"
  shows "harmless unary_tp_pb (\<lambda>p. (context_state cid p, answers_to k0 p)) (contexts_deliver unary_tp_pb) 0
    \<lparr>Message_MessageType = t, Message_CorrelationId = k, Message_Content = b\<rparr>"
  using assms
  by (auto simp: harmless_def contexts_deliver_def answering_def contexts_react_def validator_react_def Let_def answers_to_def)

text \<open>
  A plan: before the worker's first message another worker sets an address in another context and
  the validator pings; the answers are read only later.
\<close>

definition demo_other_set :: "string \<Rightarrow> Message" where
  "demo_other_set a = \<lparr>Message_MessageType = Message_TP_STATE_SET_REQUEST, Message_CorrelationId = ''v1'',
     Message_Content = fst (Marshal (pbTpStateSetRequest unary_tp_pb) \<lparr>TpStateSetRequest_ContextId = ''other'',
       TpStateSetRequest_Entries = [\<lparr>TpStateEntry_Address = a, TpStateEntry_Data = ''z''\<rparr>]\<rparr>)\<rparr>"

definition demo_ping :: Message where
  "demo_ping = \<lparr>Message_MessageType = Message_PING_REQUEST, Message_CorrelationId = ''p1'', Message_Content = []\<rparr>"

definition demo_plan :: "string \<Rightarrow> (thread_op list \<times> thread_op list) list" where
  "demo_plan a = [([OtherSends ''v'' (demo_other_set a), ValidatorSends demo_ping], [MainReads, OtherTakes]),
     ([MainReads, OtherSends ''v'' (demo_other_set a)], [])]"

lemma demo_plan_foreign:
  "foreign_plan unary_tp_pb (\<lambda>p. (context_state ''ctx'' p, answers_to ''1'' p)) (contexts_deliver unary_tp_pb) ''w''
     (range (\<lambda>n. CHR ''u'' # nat_digits n)) (demo_plan a)"
proof -
  have "context_of unary_tp_pb (Message_MessageType (demo_other_set a)) (Message_Content (demo_other_set a)) \<noteq> ''ctx''"
    by (simp add: demo_other_set_def context_of_def)
  then have "harmless unary_tp_pb (\<lambda>p. (context_state ''ctx'' p, answers_to ''1'' p)) (contexts_deliver unary_tp_pb) 1 (demo_other_set a)"
    by (intro contexts_harmless) (simp_all add: demo_other_set_def)
  moreover have "other_request unary_tp_pb (\<lambda>p. (context_state ''ctx'' p, answers_to ''1'' p)) (contexts_deliver unary_tp_pb)
      (range (\<lambda>n. CHR ''u'' # nat_digits n)) demo_ping"
    unfolding other_request_def by (auto simp: demo_ping_def intro!: contexts_harmless_response)
  ultimately show ?thesis by (auto simp: foreign_plan_def demo_plan_def demo_other_set_def)
qed

definition demo_shared :: "(thread_op list \<times> thread_op list) list \<Rightarrow> (contexts, unit) shared_main ZmqConnection" where
  "demo_shared plan =
    (let open_socket = (\<lambda>p deliver. \<lparr>sk_peer = p, sk_deliver = deliver, sk_inbox = [], sk_closed = False,
           sk_closed_error = ErrorString ''Socket is closed''\<rparr>);
         main = \<lparr>r_validator = \<lparr>conn_identity = [], conn_uri = [], conn_socket = open_socket ((\<lambda>c a. []), []) (contexts_deliver unary_tp_pb),
             conn_incoming = [], conn_uuid = (\<lambda>n. []), conn_uuid_next = 0\<rparr>,
           r_workers = \<lparr>conn_identity = [], conn_uri = [], conn_socket = \<lparr>sk_peer = [], sk_deliver = recorder, sk_inbox = [], sk_closed = False,
             sk_closed_error = ErrorString ''Socket is closed''\<rparr>, conn_incoming = [], conn_uuid = (\<lambda>n. []), conn_uuid_next = 0\<rparr>,
           r_shutdown = (), r_ids = Map.empty, r_queue = [], r_cap = 1, r_closed = False, r_monitor_closed = False\<rparr>
     in \<lparr>conn_identity = ''w'', conn_uri = [], conn_socket = \<lparr>sk_peer = \<lparr>sm_main = main, sm_plan = plan\<rparr>,
           sk_deliver = shared_turn unary_tp_pb ''w'', sk_inbox = [],
           sk_closed = False, sk_closed_error = ErrorString ''Socket is closed''\<rparr>, conn_incoming = [],
         conn_uuid = (\<lambda>n. CHR ''u'' # nat_digits n), conn_uuid_next = 0\<rparr>)"

lemma demo_shared_conn:
  "shared_conn unary_tp_pb ''ctx'' (context_state ''ctx'') (\<lambda>a. True) (\<lambda>a. True) (contexts_react unary_tp_pb) (answers_to ''1'') ''1''
     (contexts_deliver unary_tp_pb) ''w'' [] (demo_shared (demo_plan a))"
  using demo_plan_foreign [of a] contexts_contract
  by (simp add: shared_conn_def demo_shared_def Let_def serving_def answers_to_def)

section \<open>Properties\<close>

text \<open>
  C2: transactions that run at the same time do not disturb each other.  Behind a main thread that
  serves any number of workers, let a worker run an intkey request in its transaction context.
  Whatever the other workers send, the validator asks for and the main thread reads, before each
  of the worker's messages and between it and its answer, as long as these steps concern other
  contexts and other correlation ids: the worker gets exactly the answers to its own requests, so
  it goes through, the state of its context changes as the specification says, from the
  values that context had and nothing else, and it sends exactly one response, OK exactly when the
  specification commits.
\<close>

theorem intkey_worker_isolated:
  assumes "shared_conn pb cid st rd wr react ans k0 deliver w A s" "intkey_state cb self rd wr (st (shared_validator s))"
    and "family_message pb (intkey_handler cb self :: ('p, 'x) shared_main ZmqConnection TransactionHandler) (\<lambda>q. True) m"
    and "TpProcessRequest_ContextId (request_of pb m) = cid" "Message_CorrelationId m = k0" "\<forall>r. codec_ok (pbTpProcessResponse pb) r"
  shows "\<exists>s' b. worker_step pb (zmq_Connection (pbMessage pb)) [intkey_handler cb self] m s = (Ret True, s' :: ('p, 'x) shared_main ZmqConnection) \<and>
    shared_conn pb cid st rd wr react ans k0 deliver w (A @ [b]) s' \<and> intkey_state cb self rd wr (st (shared_validator s')) \<and>
    (case intkey_verdict cb (request_of pb m) (intkey_value cb self (st (shared_validator s))) of
       Commit M \<Rightarrow> accepted pb b \<and> intkey_value cb self (st (shared_validator s')) = M
     | _ \<Rightarrow> \<not> accepted pb b \<and> intkey_value cb self (st (shared_validator s')) = intkey_value cb self (st (shared_validator s)))"
proof -
  let ?v = "intkey_verdict cb (request_of pb m) (intkey_value cb self (st (shared_validator s)))"
  have "case ?v of
      Crash \<Rightarrow> \<exists>e s'. worker_step pb (zmq_Connection (pbMessage pb)) [intkey_handler cb self] m s = (Panic e, s')
    | v \<Rightarrow> \<exists>s' b. worker_step pb (zmq_Connection (pbMessage pb)) [intkey_handler cb self] m s = (Ret True, s') \<and>
        shared_conn pb cid st rd wr react ans k0 deliver w (A @ [b]) s' \<and> intkey_state cb self rd wr (st (shared_validator s')) \<and>
        (v = Refuse \<and> \<not> accepted pb b \<and> intkey_value cb self (st (shared_validator s')) = intkey_value cb self (st (shared_validator s)) \<or>
         v = Commit (intkey_value cb self (st (shared_validator s'))) \<and> accepted pb b)"
    by (rule concurrent_verdict [OF assms(1,3-6)])
      (use concurrent.Intkey_Apply_verdict [OF assms(1,2), of "request_of pb m"] in \<open>simp add: intkey_handler_def\<close>)
  with intkey_verdict_no_crash [of cb "request_of pb m"] show ?thesis by (cases ?v) auto
qed

lemma intkey_worker_isolated_witness:
  "\<exists>s' b. worker_step unary_tp_pb (zmq_Connection (pbMessage unary_tp_pb)) [intkey_handler demo_cbor (NewIntkeyHandler ''1cf126'')]
      (demo_ask demo_process_request ''1'') (demo_shared (demo_plan (intkey_address (NewIntkeyHandler ''1cf126'') ''x''))) = (Ret True, s') \<and>
    accepted unary_tp_pb b \<and> answers_to ''1'' (shared_validator s') = [b] \<and>
    intkey_value demo_cbor (NewIntkeyHandler ''1cf126'') (context_state ''ctx'' (shared_validator s')) = [''x'' \<mapsto> 7]"
proof -
  let ?h = "NewIntkeyHandler ''1cf126''"
  let ?s = "demo_shared (demo_plan (intkey_address ?h ''x''))"
  have v: "context_state ''ctx'' (shared_validator ?s) = (\<lambda>a. [])" by (simp add: demo_shared_def Let_def)
  have st: "intkey_state demo_cbor ?h (\<lambda>a. True) (\<lambda>a. True) (context_state ''ctx'' (shared_validator ?s))"
    by (simp add: v intkey_state_def)
  have fm: "family_message unary_tp_pb (intkey_handler demo_cbor ?h :: (contexts, unit) shared_main ZmqConnection TransactionHandler)
      (\<lambda>q. True) (demo_ask demo_process_request ''1'')"
    by (simp add: demo_ask_message demo_process_request_def intkey_handler_def Intkey_FamilyName_def Intkey_FamilyVersions_def)
  have cid: "TpProcessRequest_ContextId (request_of unary_tp_pb (demo_ask demo_process_request ''1'')) = ''ctx''"
    by (simp add: demo_process_request_def demo_request_def)
  from intkey_worker_isolated [OF demo_shared_conn st fm cid demo_ask_simps(2)] show ?thesis
    by (auto simp: v demo_intkey_value demo_intkey_verdict shared_conn_def)
qed

end
