(* ===== verification/Intkey_Rest.thy ===== *)
theory Intkey_Rest
  imports Intkey_Cli Processor_Families
begin

text \<open>
  Reading back what was written: the intkey client against the state that the intkey processor
  leaves in the validator.  The REST API in between is a parameter; what is relied on is its
  documented answer to a request for an address and for all addresses under a prefix.
\<close>

section \<open>The REST API over a state\<close>

text \<open>
  A request for an address answers with status 404 when nothing is stored there, and else with a
  document whose entry \<open>data\<close> is the stored value in base64.
\<close>

definition rest_serves :: "client_docs \<Rightarrow> 'w client_env \<Rightarrow> IntkeyClient \<Rightarrow> (string \<Rightarrow> bytes) \<Rightarrow> 'w \<Rightarrow> bool" where
  "rest_serves D E self f w \<longleftrightarrow> (\<forall>a. \<exists>response w'. http_Get E (request_url self (STATE_API @ ''/'' @ a)) w = (Ret (Inr response), w') \<and>
     (if f a = [] then StatusCode response = 404
      else StatusCode response = 200 \<and> (\<exists>body doc. Body response = Inr body \<and> yaml_Unmarshal D body = (doc, None) \<and>
        any_at doc (AString ''data'') = AString (b64_EncodeToString (f a)))))"

text \<open>
  A request for a prefix answers with the stored values of all addresses that start with it, in
  some order.
\<close>

definition rest_lists :: "client_docs \<Rightarrow> 'w client_env \<Rightarrow> IntkeyClient \<Rightarrow> (string \<Rightarrow> bytes) \<Rightarrow> 'w \<Rightarrow> bool" where
  "rest_lists D E self f w \<longleftrightarrow> (\<exists>response w' body doc as.
     http_Get E (request_url self (STATE_API @ ''?address='' @ getPrefix self)) w = (Ret (Inr response), w') \<and>
     StatusCode response = 200 \<and> Body response = Inr body \<and> yaml_Unmarshal D body = (doc, None) \<and>
     set as = {a. prefix (getPrefix self) a \<and> f a \<noteq> []} \<and>
     any_at doc (AString ''data'') = ASlice (map (\<lambda>a. AMap [(AString ''address'', AString a),
       (AString ''data'', AString (b64_EncodeToString (f a)))]) as))"

text \<open>
  The same CBOR document read into a map from strings to integers, by the handler, and into a map of
  interface values, by the client.
\<close>

definition cbor_agrees :: "client_docs \<Rightarrow> intkey_cbor \<Rightarrow> bool" where
  "cbor_agrees D cb \<longleftrightarrow> (\<forall>d m. loads_map cb d None = (Loaded None, Some m) \<longrightarrow>
     (\<exists>M. cbor_Loads D d = (Loaded None, M) \<and> (\<forall>n. any_at M (AString n) = (case m n of None \<Rightarrow> ANil | Some v \<Rightarrow> AInt v))))"

section \<open>Show and list\<close>

text \<open>What the client shows of an address: the value, or that there is none.\<close>

lemma Show_displays:
  assumes "rest_serves D E self f w" "cbor_agrees D cb" "intkey_wf cb intkey_main_handler f"
  shows "\<exists>w'. Show D E self name w = (Ret (case intkey_value cb intkey_main_handler f name of
      Some v \<Rightarrow> Inr (Itoa v)
    | None \<Rightarrow> if f (getAddress self name) = [] then Inl (ErrorString (''No such key: '' @ name)) else Inr ''<nil>''), w')"
proof -
  let ?a = "getAddress self name"
  have a: "intkey_address intkey_main_handler name = ?a" by (simp add: getAddress_handler)
  from assms(1) obtain response w' where get: "http_Get E (request_url self (STATE_API @ ''/'' @ ?a)) w = (Ret (Inr response), w')"
    and resp: "if f ?a = [] then StatusCode response = 404
      else StatusCode response = 200 \<and> (\<exists>body doc. Body response = Inr body \<and> yaml_Unmarshal D body = (doc, None) \<and>
        any_at doc (AString ''data'') = AString (b64_EncodeToString (f ?a)))" unfolding rest_serves_def by blast
  show ?thesis
  proof (cases "f ?a = []")
    case True
    then have "intkey_value cb intkey_main_handler f name = None" by (simp add: intkey_value_def a)
    with True get resp show ?thesis by (simp add: Show_def sendRequest_def Let_def)
  next
    case False
    with resp obtain body doc where ok: "StatusCode response = 200" "Body response = Inr body" "yaml_Unmarshal D body = (doc, None)"
      "any_at doc (AString ''data'') = AString (b64_EncodeToString (f ?a))" by auto
    from assms(3) False obtain m where m: "loads_map cb (f ?a) None = (Loaded None, Some m)"
      unfolding intkey_wf_def a [symmetric] by blast
    with assms(2) obtain M where M: "cbor_Loads D (f ?a) = (Loaded None, M)"
      "any_at M (AString name) = (case m name of None \<Rightarrow> ANil | Some v \<Rightarrow> AInt v)" unfolding cbor_agrees_def by blast
    have "intkey_value cb intkey_main_handler f name = m name" using False m by (simp add: intkey_value_def a)
    with False get ok M show ?thesis by (cases "m name") (simp_all add: Show_def sendRequest_def loads_result_def Let_def)
  qed
qed

lemma list_entries_loaded:
  assumes "\<forall>a \<in> set as. cbor_Loads D (f a) = (Loaded None, M a)"
  shows "list_entries D (map (\<lambda>a. AMap [(AString ''address'', AString a), (AString ''data'', AString (b64_EncodeToString (f a)))]) as) acc =
    Ret (Inr (acc @ map M as))"
  using assms by (induction as arbitrary: acc) (simp_all add: any_at_def loads_result_def)

text \<open>
  The listing has every stored value, when the family's addresses hold nothing but its own values.
\<close>

theorem List_displays:
  assumes "rest_lists D E self f w" "cbor_agrees D cb" "intkey_wf cb intkey_main_handler f"
    and "\<forall>a. prefix (getPrefix self) a \<and> f a \<noteq> [] \<longrightarrow> (\<exists>n. a = getAddress self n)"
  shows "\<exists>maps w'. List_values D E self w = (Ret (Inr maps), w') \<and>
    (\<forall>name v. intkey_value cb intkey_main_handler f name = Some v \<longrightarrow> (\<exists>M \<in> set maps. any_at M (AString name) = AInt v))"
proof -
  from assms(1) obtain response w' body doc as where
    get: "http_Get E (request_url self (STATE_API @ ''?address='' @ getPrefix self)) w = (Ret (Inr response), w')"
    "StatusCode response = 200" "Body response = Inr body" "yaml_Unmarshal D body = (doc, None)"
    and as: "set as = {a. prefix (getPrefix self) a \<and> f a \<noteq> []}"
    and doc: "any_at doc (AString ''data'') = ASlice (map (\<lambda>a. AMap [(AString ''address'', AString a),
       (AString ''data'', AString (b64_EncodeToString (f a)))]) as)"
    unfolding rest_lists_def by blast
  have "\<exists>M. cbor_Loads D (f a) = (Loaded None, M)" if "a \<in> set as" for a
  proof -
    from that as assms(4) obtain n where "a = intkey_address intkey_main_handler n" "f a \<noteq> []" by (auto simp: getAddress_handler)
    with assms(3) obtain m where "loads_map cb (f a) None = (Loaded None, Some m)" unfolding intkey_wf_def by blast
    with assms(2) show ?thesis unfolding cbor_agrees_def by blast
  qed
  then obtain M where M: "\<forall>a \<in> set as. cbor_Loads D (f a) = (Loaded None, M a)" by metis
  have "List_values D E self w = (Ret (Inr (map M as)), w')"
    using get list_entries_loaded [OF M, of "[]"] by (simp add: List_values_def sendRequest_def Let_def doc)
  moreover have "\<exists>A \<in> set (map M as). any_at A (AString name) = AInt v"
    if v: "intkey_value cb intkey_main_handler f name = Some v" for name v
  proof -
    let ?a = "intkey_address intkey_main_handler name"
    from v have ne: "f ?a \<noteq> []" by (auto simp: intkey_value_def)
    have "prefix (getPrefix self) ?a"
      unfolding getAddress_handler [of self, symmetric] getAddress_def Let_def by simp
    with ne as have a: "?a \<in> set as" by blast
    from assms(3) ne obtain m where m: "loads_map cb (f ?a) None = (Loaded None, Some m)" unfolding intkey_wf_def by blast
    with v ne have "m name = Some v" by (simp add: intkey_value_def Let_def)
    moreover from m assms(2) obtain A where "cbor_Loads D (f ?a) = (Loaded None, A)"
      "\<forall>n. any_at A (AString n) = (case m n of None \<Rightarrow> ANil | Some v \<Rightarrow> AInt v)" unfolding cbor_agrees_def by blast
    ultimately have "any_at (M ?a) (AString name) = AInt v" using M a by auto
    with a show ?thesis by auto
  qed
  ultimately show ?thesis by blast
qed

text \<open>What the command show prints, for a client that could be made.\<close>

lemma Show_Run_displays:
  assumes "GetClient (pg_ellcurv P) (pg_env P) (pg_user P) (CmdShow args) False w = (Ret (Inr client), w1)"
    and "rest_serves (pg_docs P) (pg_env P) client f w1" "cbor_agrees (pg_docs P) cb" "intkey_wf cb intkey_main_handler f"
  shows "\<exists>w2. Show_Run P args w = (Ret (case intkey_value cb intkey_main_handler f (sa_Name args) of
      Some v \<Rightarrow> ([sa_Name args @ '' :  '' @ Itoa v], None)
    | None \<Rightarrow> if f (getAddress client (sa_Name args)) = [] then ([], Some (ErrorString (''No such key: '' @ sa_Name args)))
        else ([sa_Name args @ '' :  '' @ ''<nil>''], None)), w2)"
  using Show_displays [OF assms(2-4), of "sa_Name args"] assms(1)
  by (cases "intkey_value cb intkey_main_handler f (sa_Name args)") (auto simp: Show_Run_def key_line_def)

section \<open>A REST API and its documents, concretely\<close>

text \<open>The body of a response is the stored value itself, and parsing it puts it into a document.\<close>

definition demo_rest_env :: "(string \<Rightarrow> bytes) \<Rightarrow> int client_env" where
  "demo_rest_env f = Intkey_Client.demo_env\<lparr>http_Get := (\<lambda>url w.
     let a = drop (length ''http://localhost:8008/state/'') url in
     (Ret (Inr (if f a = [] then \<lparr>StatusCode = 404, Status = ''404 Not Found'', Body = Inr []\<rparr>
                else \<lparr>StatusCode = 200, Status = ''200 OK'', Body = Inr (f a)\<rparr>)), w))\<rparr>"

definition demo_rest_docs :: client_docs where
  "demo_rest_docs = demo_docs\<lparr>
     yaml_Unmarshal := (\<lambda>s. ([(AString ''data'', AString (b64_EncodeToString s))], None)),
     cbor_Loads := (\<lambda>d. (Loaded None, map (\<lambda>(k, v). (AString k, AInt v)) (from_nat (length d - 1))))\<rparr>"

lemma demo_rest_serves: "ic_url client = ''localhost:8008'' \<Longrightarrow> rest_serves demo_rest_docs (demo_rest_env f) client f w"
  by (simp add: rest_serves_def demo_rest_docs_def demo_rest_env_def request_url_def http_prefix_def any_at_def)

lemma any_at_entries: "any_at (map (\<lambda>(k, v). (AString k, AInt v)) kvs) (AString n) = (case map_of kvs n of None \<Rightarrow> ANil | Some v \<Rightarrow> AInt v)"
  by (induction kvs) (auto simp: any_at_def)

lemma demo_cbor_agrees: "cbor_agrees demo_rest_docs demo_cbor"
  by (simp add: cbor_agrees_def demo_cbor_def demo_rest_docs_def any_at_entries)

section \<open>Properties\<close>

text \<open>
  C6: what the processor stores is what the client shows.  Let a processor with the intkey
  handler, as its main function registers it, go through any order of arrivals and worker turns,
  and let the command show of the client then ask a REST API that serves the state of the
  validator.  If the abstract store, after the operations of all requests that were accepted, has a
  value for the name, show prints exactly this value; if not, it reports that there is no such key or,
  when another name shares the address, prints that there is no value.
\<close>

theorem store_is_shown:
  assumes "processing pb st rd wr react ans w (intkey_handler cb intkey_main_handler) (\<lambda>q. True)
      (intkey_state cb intkey_main_handler rd wr) (Q, cap, A) s"
    and "family_events pb (intkey_handler cb intkey_main_handler :: ('p, 'x) main_thread ZmqConnection TransactionHandler) (\<lambda>q. True) evs"
    and "cbor_agrees (pg_docs P) cb"
    and "GetClient (pg_ellcurv P) (pg_env P) (pg_user P) (CmdShow args) False u = (Ret (Inr client), u1)"
    and "\<And>s' :: ('p, 'x) main_thread ZmqConnection. thread_run pb [intkey_handler cb intkey_main_handler] evs s = (Ret True, s') \<Longrightarrow>
      rest_serves (pg_docs P) (pg_env P) client (st (validator_of s')) u1"
  shows "\<exists>M u2. machine_run (intkey_verdict cb) cap (map (event_of pb) evs)
      (machine_of pb st ans (intkey_value cb intkey_main_handler) s) = Some M \<and>
    (case mc_store M (sa_Name args) of
       Some v \<Rightarrow> Show_Run P args u = (Ret ([sa_Name args @ '' :  '' @ Itoa v], None), u2)
     | None \<Rightarrow> Show_Run P args u \<in> {(Ret ([], Some (ErrorString (''No such key: '' @ sa_Name args))), u2),
         (Ret ([sa_Name args @ '' :  <nil>''], None), u2)})"
proof -
  let ?M = "machine_of pb st ans (intkey_value cb intkey_main_handler)"
  obtain M where M: "machine_run (intkey_verdict cb) cap (map (event_of pb) evs) (?M s) = Some M"
    using intkey_machine_total by blast
  from intkey_tp.run_refines [OF assms(1,2)] M obtain s' Q' A' where
    s': "thread_run pb [intkey_handler cb intkey_main_handler] evs s = (Ret True, s')"
    "processing pb st rd wr react ans w (intkey_handler cb intkey_main_handler) (\<lambda>q. True) (intkey_state cb intkey_main_handler rd wr) (Q', cap, A') s'"
    "?M s' = M" by auto
  from s'(2) have wf: "intkey_wf cb intkey_main_handler (st (validator_of s'))" by (simp add: processing_def intkey_state_def)
  from s'(3) have store: "mc_store M = intkey_value cb intkey_main_handler (st (validator_of s'))" by auto
  from Show_Run_displays [OF assms(4) assms(5) [OF s'(1)] assms(3) wf] obtain u2 where
    "Show_Run P args u = (Ret (case mc_store M (sa_Name args) of
      Some v \<Rightarrow> ([sa_Name args @ '' :  '' @ Itoa v], None)
    | None \<Rightarrow> if st (validator_of s') (getAddress client (sa_Name args)) = [] then ([], Some (ErrorString (''No such key: '' @ sa_Name args)))
        else ([sa_Name args @ '' :  '' @ ''<nil>''], None)), u2)" unfolding store by blast
  with M show ?thesis by (intro exI [of _ M] exI [of _ u2]) (auto split: option.split)
qed

text \<open>The state that a run leaves, behind a REST API; the run sets x to 7 and refuses to set it again.\<close>

definition demo_left :: "string \<Rightarrow> bytes" where
  "demo_left = fst (validator_of (snd (thread_run unary_tp_pb [intkey_handler demo_cbor intkey_main_handler] demo_intkey_run
     (demo_processor (\<lambda>a. []) 1))))"

lemma store_is_shown_witness:
  "\<exists>u2. Show_Run \<lparr>pg_ellcurv = demo_ellcurv, pg_batch = unary_batch_pb, pg_docs = demo_rest_docs, pg_env = demo_rest_env demo_left,
      pg_user = Inr \<lparr>HomeDir = ''/root'', Username = ''alice''\<rparr>\<rparr> \<lparr>sa_Name = ''x'', sa_Url = ''localhost:8008''\<rparr> 0 =
    (Ret ([''x :  7''], None), u2)"
proof -
  let ?P = "\<lparr>pg_ellcurv = demo_ellcurv, pg_batch = unary_batch_pb, pg_docs = demo_rest_docs, pg_env = demo_rest_env demo_left,
      pg_user = Inr \<lparr>HomeDir = ''/root'', Username = ''alice''\<rparr>\<rparr>"
  let ?args = "\<lparr>sa_Name = ''x'', sa_Url = ''localhost:8008''\<rparr>"
  have proc: "processing unary_tp_pb fst (\<lambda>a. True) (\<lambda>a. True) (recording_react unary_tp_pb) snd ''w''
      (intkey_handler demo_cbor intkey_main_handler) (\<lambda>q. True)
      (intkey_state demo_cbor intkey_main_handler (\<lambda>a. True) (\<lambda>a. True)) ([], 1, []) (demo_processor (\<lambda>a. []) 1)"
    by (rule demo_processing) (simp add: intkey_state_def)
  obtain client u1 where client: "GetClient demo_ellcurv (demo_rest_env demo_left) (Inr \<lparr>HomeDir = ''/root'', Username = ''alice''\<rparr>) (CmdShow ?args) False 0 = (Ret (Inr client), u1)"
    "ic_url client = ''localhost:8008''"
    by (simp add: GetClient_def NewIntkeyClient_def envP_def bindP_def retP_def pureP_def demo_rest_env_def Intkey_Client.demo_env_def Let_def
        Secp256k1Context_NewRandomPrivateKey_def demo_ellcurv_def)
  have seven: "Itoa 7 = ''7''" by code_simp
  have "intkey_value demo_cbor intkey_main_handler (\<lambda>a. []) = Map.empty" by (auto simp: intkey_value_def)
  with store_is_shown [of unary_tp_pb fst "\<lambda>a. True" "\<lambda>a. True" "recording_react unary_tp_pb" snd "''w''" demo_cbor "[]" 1 "[]"
      "demo_processor (\<lambda>a. []) 1" demo_intkey_run ?P ?args 0 client u1, OF proc demo_intkey_events] client
  show ?thesis
    by (auto simp: demo_cbor_agrees demo_rest_serves demo_left_def demo_machine demo_intkey_verdict seven simp del: thread_run.simps)
qed

end
