(* ===== verification/Spec2Isabelle.thy ===== *)
theory Spec2Isabelle
  imports Messaging Tp_Context State_Instance Transaction_Family Intkey Smallbank Noop Xo
    Worker Tp_System Processor Processor_Pool Consensus_Engine Engine_Threads Engine_Service
    Devmode_System Signing Intkey_Client Intkey_Cli Logging Executables Tp_Concurrent Intkey_Rest
begin

text \<open>
  A verification library for the Sawtooth Go SDK and its examples: the processor side (transaction
  processors and their handlers), the consensus side (the engine driver, its service and the
  devmode engine), signing, and the intkey client.

  \<^bold>\<open>How the program is put together.\<close>  A validator talks to a transaction processor or a
  consensus engine over a ZMQ socket with protobuf messages that carry correlation ids.
  messaging/connection.go wraps a socket.  processor/processor.go runs the main thread of a
  processor: it registers the handlers, puts process requests on a queue, and routes messages
  between the validator and the worker threads (processor/worker.go).  A worker decodes a request,
  calls the handler of its family with a context (processor/context.go) that reads and writes
  validator state over the worker's connection, and answers with a status.  The handlers are the
  example families intkey, smallbank, xo and noop.  consensus/engine.go registers a consensus
  engine, turns notifications into updates on a channel and forwards the responses that belong to
  consensus/service.go, through which an implementation such as examples/devmode\_consensus talks
  to the validator.  signing/ signs and verifies; the intkey client builds signed batches and
  submits them to the REST API.

  \<^bold>\<open>Theories.\<close>

  \<^item> Go\_Prelude, Go\_Errors, Go\_Encoding, Sha2: what the sources use of the language and its
    library.  A call returns, panics or waits for ever (\<open>outcome\<close>); a call with effects is a
    \<open>proc\<close> over an explicit state.  Strings and byte slices are lists of bytes.  strconv, strings,
    hex, base64, path, SHA-512 and SHA-256 are executable.  Go\_Errors has the error values of
    processor/errors.go and consensus/errors.go and the codecs that stand for golang/protobuf.
  \<^item> Protobuf, Smallbank\_Pb, Consensus\_Pb, Batch\_Pb: the generated messages as records, their
    enum values and names.
  \<^item> Messaging: messaging/connection.go over an arbitrary socket.  The interface Connection is a
    record of methods; the locale of its contract is interpreted on ZmqConnection.  Shown: stored
    messages sit under their own id, and responses are returned whatever the order in which they
    are asked for.
  \<^item> Tp\_Context, State\_Instance, Transaction\_Family: processor/context.go and handler.go, with the
    locales of a state context and of a transaction family.  Shown: every sequence of state calls
    over the wire behaves as an address-to-data store with access control; families are confined to
    their namespace.  The locale \<open>state_service\<close> says when a connection serves state; it gives the
    locale \<open>state_context\<close> by a sublocale, and has three interpretations: a connection straight to the
    validator, a worker's connection behind the main thread, and the connection of one worker among
    several.
  \<^item> Intkey, Smallbank, Noop, Xo\_State, Xo: the handlers.  Shown: each refines an abstract store
    (values within bounds, accounts with uint32 balances, games that obey the rules), what each
    branch returns, and where the code panics or loses money.
  \<^item> Worker, Tp\_System, Processor: worker.go and processor.go.  Shown: a worker answers every
    request once, responses reach the worker that asked, the queue stays within its capacity, and a
    shutdown ends.
  \<^item> Tp\_Routed, Processor\_System, Processor\_Families, Processor\_Pool: the parts of a processor put
    together.  Tp\_Routed shows that the main thread, with its connection to the validator inside,
    serves state to a worker; Processor\_System runs arrivals and worker turns in any order, and has
    the locale \<open>processing_family\<close> of what a handler promises; Processor\_Families interprets it on the
    handlers of intkey, smallbank, xo and noop; Processor\_Pool lifts it, with the locale
    \<open>processing_pool\<close>, to any number of workers on one queue.  Shown: each whole processor refines a
    queue in front of its abstract store, with panics where the specification has them, and answers
    every request of its family exactly once unless it panics.
  \<^item> Tp\_Concurrent: several workers behind one main thread.  A worker's turn is cut at each of its
    messages, and at each cut any steps of the other threads can happen; the locale
    \<open>state_service\<close> is interpreted once more, on the connection of such a worker.  Shown: steps that
    concern other transaction contexts change neither what the worker gets nor what its
    transaction does, for intkey, smallbank and xo.
  \<^item> Consensus\_Types, Consensus\_Service, Consensus\_Contract, Consensus\_Engine: consensus/types.go,
    service.go, iface.go, engine.go.  Consensus\_Contract holds an abstract validator and the locale
    \<open>consensus_contract\<close>, interpreted on ZmqService over a connection to that validator.  Shown:
    identifiers survive their encodings, notifications are delivered and acknowledged, and the
    order in which ids are recorded and responses routed matters.
  \<^item> Engine\_Service, Engine\_Threads: the main thread of the engine and the implementation together.
    Engine\_Service cuts one service call where the main thread can act, and shows which of the two
    orders loses the answer.  Engine\_Threads is a step relation of the two threads, the channel of
    updates between them and the pair of sockets that carries the service calls of the
    implementation.  Shown: the implementation gets the updates in the order of the notifications,
    each is acknowledged once, and exactly when a message can never be handled: when it makes the
    main thread panic, and when the two threads wait for each other, the main thread at the full
    channel and the implementation in a call.  Such a deadlock is reached by three notifications.
  \<^item> Devmode, Devmode\_Correct, Devmode\_System: examples/devmode\_consensus/engine.go.
    Devmode\_Correct proves the engine against the contract, with an inductive relation of the
    states it reaches; Devmode\_System states the results over ZmqService: the fork choice, at most
    one block per height, publishing ends, and exactly which events make the engine panic.
  \<^item> Signing: signing/core.go, secp256k1.go, pem\_loader.go, with the locale \<open>signing_context\<close>
    interpreted on the secp256k1 context.  Shown: what is signed verifies, and the compact encoding
    is exact.
  \<^item> Intkey\_Client, Intkey\_Cli: the client of the intkey family and its command line.  Shown: the
    client and the handler agree on addresses, every submitted batch passes the checks of a
    validator, and the wait for a batch ends.
  \<^item> Intkey\_Rest: the client reading the state that the processor leaves.  Shown: the commands show
    and list display the values of the abstract store.
  \<^item> Logging, Executables: logging/logger.go with the parts of fmt and log it needs; the main
    functions of the examples and ShutdownOnSignal.  Shown: what a sequence of log calls writes and
    when it panics, at which level a main function logs, what it logs and with which status it
    exits, and that a signal ends a processor that listens and closes all its sockets.

  This theory has the properties that span components: the devmode engine over the updates of the
  engine driver, and the intkey client against the intkey handler.

  \<^bold>\<open>Loops and bounds.\<close>  Loops over data are structural or have a measure.  Loops that may run
  for ever (the retries and the chain walk of the devmode engine, the status loop of the client)
  are partial functions in the option type, where None is not returning, and their properties prove
  that they return.  The main loops of the processor and the engines consume a list of events (what
  each poll reports, what the other threads do in between); an exhausted list is a wait for ever,
  so a result for every list is a result for every finite run.  Nothing has fuel.  Go's int and
  uint64 are kept at 64 bits where a value can leave its range: uint32 balances, int64 sums, the
  nanoseconds of the client.

  \<^bold>\<open>Parameters.\<close>  Code outside the repository is an argument: ZMQ sockets, protobuf coding,
  cbor\_go, yaml.v2, the btcec curve, go-flags, the REST API, the clock and random numbers, the C
  function that loads PEM keys.  What is assumed of them is a named predicate (\<open>codec_ok\<close>,
  \<open>intkey_cbor_ok\<close>, \<open>ecdsa_ok\<close>, \<open>clock_runs\<close> and others), each shown to hold of a concrete
  instance by a witness.  Three of these idealise.  A send on a socket returns at once, as it does
  below the high-water mark of ZMQ.  \<open>codec_ok\<close> is the round trip of a message; where proto3
  does not keep it (strings that are not UTF-8, enum values beyond int32, which are integers here)
  a result does not speak of that message.  The abstract validator of Consensus\_Contract answers the
  calls of the service with OK or the documented status for an unknown block or peer, a block
  not ready or an invalid state; it has a chain head and no internal errors.

  \<^bold>\<open>Not modelled.\<close>  The calls of the logger inside the components are left out of their models;
  the logger itself, the level that the main functions set and the lines they write are modelled.
  In the main functions the outcome of Start is an argument, and so is what the operating system
  delivers (arguments, signals); a signal that is not relayed ends the process when that is
  the default of the Go runtime for it.  Go routines are interleaved at the events of the poll loops, not
  at single instructions, and the memory model is left out.  In Processor\_Pool the
  turns of the workers, from the queue to the response, do not overlap; Tp\_Concurrent lets them,
  for one transaction among steps of other contexts.  The reflection and descriptor code of the
  generated messages belongs to the protobuf library.  The generated mocks are for tests.
\<close>

section \<open>Properties across components\<close>

text \<open>
  C34: the devmode engine never stops.  None of the updates that ConsensusEngine puts on the channel
  of an implementation, neither those of the notifications nor the one of performShutdown, makes
  the Start of the devmode engine return, nor does closing the channel: it goes on for ever or
  panics, over any service and for any times and random numbers.
\<close>

theorem devmode_never_stops:
  assumes "\<forall>(now, ev) \<in> set evs. \<forall>u. ev = Update u \<longrightarrow> u = shutdown_update \<or> (\<exists>pb msg. update_of pb msg = Ret (Some u))"
  shows "fst (Devmode_Start S rnd startup service now evs) \<noteq> Ret ()"
proof -
  have evs: "\<forall>(now, ev) \<in> set evs. ev \<noteq> Update UpdateShutdown"
    using assms update_of_wf by (fastforce simp: shutdown_update_def)
  have "fst (engine_loop S rnd evs self) \<noteq> Ret ()" for self
    by (rule engine_loop_goes_on [OF evs])
  then show ?thesis
    by (auto simp: Devmode_Start_def split: prod.split outcome.split)
qed

lemma devmode_never_stops_witness:
  "\<forall>startup. fst (Devmode_Start (zmq_svc unary_cons_pb) (\<lambda>n. 0) startup (demo_service demo_chain) 0
    [(1, Update (UpdateBlockCommit BLOCK_ID_NULL)), (2, Update shutdown_update), (3, ClosedChannel), (4, ClosedChannel)]) \<noteq> Ret ()"
  by (intro allI devmode_never_stops) (use demo_notice_update in auto)

text \<open>
  C5: what the intkey client submits is what the intkey processor applies.  Take the payload and
  the header that the client builds for a verb, a name of at most 20 characters and a value up to
  4294967295, and a validator that lets the transaction read and write under the inputs and
  outputs of that header only.  When both sides use the same CBOR encoding of the payload, the
  handler registered by the processor carries out the operation of the abstract store at that
  name: it commits with the specified values, or refuses and leaves the state as it was.
\<close>

theorem client_transaction_applies:
  fixes client :: IntkeyClient
  assumes "verb \<in> {VERB_SET, VERB_INC, VERB_DEC}" "length name \<le> MAX_NAME_LENGTH" "uint v \<le> MAX_VALUE"
    and "cbor_Dumps D (payload_map verb name v) = (payload, None)"
    and "p = \<lparr>pl_Verb = verb, pl_Name = name, pl_Value = uint v\<rparr>"
    and "loads_payload cb payload \<lparr>pl_Verb = [], pl_Name = [], pl_Value = 0\<rparr> = (Loaded None, p)"
    and "TpProcessRequest_Header q = Some h" "h = transaction_header client name payload nonce"
    and "TpProcessRequest_Payload q = Some payload"
    and "state_conn pb cid st (\<lambda>a. \<exists>i \<in> set (TransactionHeader_Inputs h). prefix i a)
      (\<lambda>a. \<exists>i \<in> set (TransactionHeader_Outputs h). prefix i a) react c"
    and "intkey_cbor_ok cb" "intkey_wf cb intkey_main_handler (st (peer c))"
  shows "case intkey_spec p (intkey_value cb intkey_main_handler (st (peer c))) of
      None \<Rightarrow> \<exists>e c'. Intkey_Apply cb intkey_main_handler q (tp_methods pb cid) c = (Ret (Some (InvalidTransactionError e [])), c') \<and>
        st (peer c') = st (peer c)
    | Some M \<Rightarrow> \<exists>c'. Intkey_Apply cb intkey_main_handler q (tp_methods pb cid) c = (Ret None, c') \<and>
        intkey_wf cb intkey_main_handler (st (peer c')) \<and> intkey_value cb intkey_main_handler (st (peer c')) = M"
proof -
  have acc: "intkey_accepts cb q = Some p"
    using assms(1-3,5,6,9) uint_ge_0 [of v] by (auto simp: intkey_accepts_def DecodeCBOR_def intkey_check_None)
  have io: "TransactionHeader_Inputs h = [intkey_address intkey_main_handler (pl_Name p)]"
    "TransactionHeader_Outputs h = [intkey_address intkey_main_handler (pl_Name p)]"
    using assms(5,8) by (simp_all add: transaction_header_def Let_def getAddress_handler)
  show ?thesis
    using tp.Intkey_Apply_spec [OF assms(10-12) acc] by (auto simp: io split: option.splits)
qed

lemma client_transaction_applies_witness:
  "\<exists>c'. Intkey_Apply demo_cbor intkey_main_handler
      \<lparr>TpProcessRequest_Header = Some (transaction_header demo_client ''x''
          (demo_payload \<lparr>pl_Verb = ''set'', pl_Name = ''x'', pl_Value = 7\<rparr>) 4),
       TpProcessRequest_Payload = Some (demo_payload \<lparr>pl_Verb = ''set'', pl_Name = ''x'', pl_Value = 7\<rparr>),
       TpProcessRequest_Signature = [], TpProcessRequest_ContextId = ''ctx''\<rparr> (tp_methods unary_tp_pb ''ctx'')
      (demo_conn (\<lambda>a. \<exists>i \<in> set [intkey_address intkey_main_handler ''x'']. prefix i a)
        (\<lambda>a. \<exists>i \<in> set [intkey_address intkey_main_handler ''x'']. prefix i a) (\<lambda>a. [])) = (Ret None, c') \<and>
    intkey_value demo_cbor intkey_main_handler (peer c') = [''x'' \<mapsto> 7]"
proof -
  let ?p = "\<lparr>pl_Verb = ''set'', pl_Name = ''x'', pl_Value = 7\<rparr>" and ?a = "intkey_address intkey_main_handler ''x''"
  let ?D = "demo_docs\<lparr>cbor_Dumps := \<lambda>m. (demo_payload ?p, None)\<rparr>"
  let ?h = "transaction_header demo_client ''x'' (demo_payload ?p) 4"
  let ?q = "\<lparr>TpProcessRequest_Header = Some ?h, TpProcessRequest_Payload = Some (demo_payload ?p),
    TpProcessRequest_Signature = [], TpProcessRequest_ContextId = ''ctx''\<rparr>"
  let ?c = "demo_conn (\<lambda>a. \<exists>i \<in> set (TransactionHeader_Inputs ?h). prefix i a)
    (\<lambda>a. \<exists>i \<in> set (TransactionHeader_Outputs ?h). prefix i a) (\<lambda>a. [])"
  have io: "TransactionHeader_Inputs ?h = [?a]" "TransactionHeader_Outputs ?h = [?a]"
    by (simp_all add: transaction_header_def Let_def getAddress_handler)
  have in_range: "''set'' \<in> {VERB_SET, VERB_INC, VERB_DEC}" "length ''x'' \<le> MAX_NAME_LENGTH" "uint (7 :: 64 word) \<le> MAX_VALUE"
    by simp_all
  have dumps: "cbor_Dumps ?D (payload_map ''set'' ''x'' 7) = (demo_payload ?p, None)" by simp
  have p: "?p = \<lparr>pl_Verb = ''set'', pl_Name = ''x'', pl_Value = uint (7 :: 64 word)\<rparr>" by simp
  have loads: "loads_payload demo_cbor (demo_payload ?p) \<lparr>pl_Verb = [], pl_Name = [], pl_Value = 0\<rparr> = (Loaded None, ?p)"
    by (simp add: demo_cbor_def demo_payload_def)
  have q: "TpProcessRequest_Header ?q = Some ?h" "TpProcessRequest_Payload ?q = Some (demo_payload ?p)" by simp_all
  have wf: "intkey_wf demo_cbor intkey_main_handler (peer ?c)" by simp
  have "intkey_spec ?p (intkey_value demo_cbor intkey_main_handler (peer ?c)) = Some [''x'' \<mapsto> 7]"
    by (auto simp: intkey_spec_def intkey_value_def fun_eq_iff)
  with client_transaction_applies [where st = "\<lambda>f. f" and c = ?c, OF in_range dumps p loads q(1) refl q(2) demo_state_conn demo_cbor_ok wf]
  show ?thesis unfolding io by auto
qed

end
